(* ===== verification/Prelude.thy ===== *)
theory Prelude
  imports Main "HOL-Library.Word" "HOL-Library.Sublist"
begin

text \<open>
  Shared vocabulary of the development: the machine integers of \<^verbatim>\<open>base/basictypes.h\<close>
  (\<^verbatim>\<open>uint8\<close>, \<^verbatim>\<open>uint16\<close>, \<^verbatim>\<open>uint32\<close>, \<^verbatim>\<open>uint64\<close>) as words, \<^verbatim>\<open>std::string\<close> as a list of
  characters, statement sequences, and the lemmas on lists, prefixes and words that the
  components share.

  \<open>steps [p, q, r] x\<close> runs the statements \<open>p; q; r\<close> in the order of the code.
\<close>

type_synonym u8 = "8 word"
type_synonym u16 = "16 word"
type_synonym u32 = "32 word"
type_synonym u64 = "64 word"

named_theorems pdu_defs \<open>definitions of the message classes, unfolded by their proofs\<close>
named_theorems fields_defs \<open>the wire fields of the message classes\<close>
named_theorems keeps_intros "read statements that leave a member alone"
named_theorems reads_intros \<open>how each read statement consumes the fields of a message\<close>

subsection \<open>Sequences of statements\<close>

fun steps :: "('x \<Rightarrow> 'x) list \<Rightarrow> 'x \<Rightarrow> 'x" where
  "steps [] x = x"
| "steps (p # ps) x = steps ps (p x)"

lemma steps_append: "steps (ps @ qs) x = steps qs (steps ps x)"
  by (induction ps arbitrary: x) auto

lemma steps_map_fold: "steps (map f xs) x = fold f xs x"
  by (induction xs arbitrary: x) auto

subsection \<open>Prefixes of byte sequences\<close>

lemma strict_prefix_append_cases:
  assumes "strict_prefix r (a @ b)"
  obtains "strict_prefix r a" | c where "r = a @ c" "strict_prefix c b"
proof (cases "prefix a r")
  case True
  then obtain c where "r = a @ c" by (auto simp: prefix_def)
  moreover from this assms have "strict_prefix c b" by (auto simp: strict_prefix_def)
  ultimately show ?thesis by (rule that(2))
next
  case False
  from assms have "prefix r (a @ b)" by (simp add: strict_prefix_def)
  then have "prefix r a \<or> prefix a r" using prefix_same_cases prefixI by blast
  with False have "strict_prefix r a" by (auto simp: strict_prefix_def)
  then show ?thesis by (rule that(1))
qed

lemma prefix_appendD1: "prefix (a @ b) r \<Longrightarrow> prefix a r"
  by (auto simp: prefix_def)

lemma take_strict_prefix: "n < length xs \<Longrightarrow> strict_prefix (take n xs) xs"
  by (simp add: strict_prefix_def take_is_prefix)

subsection \<open>Words\<close>

lemma unat_of_nat_u32: "n < 2 ^ 32 \<Longrightarrow> unat (of_nat n :: u32) = n"
  by (simp add: unat_of_nat take_bit_eq_mod)

lemma of_nat_eq_u32: "m < 2 ^ 32 \<Longrightarrow> n < 2 ^ 32 \<Longrightarrow> (of_nat m :: u32) = of_nat n \<Longrightarrow> m = n"
  by (metis unat_of_nat_u32)

text \<open>A loop that appends one element for each element of a container.\<close>

lemma fold_append: "fold (\<lambda>x ys. ys @ [f x]) xs ys = ys @ map f xs"
  by (induction xs arbitrary: ys) simp_all

end
