(* ===== verification/Pdu_Types.thy ===== *)
theory Pdu_Types
  imports Prelude
begin

unbundle bit_operations_syntax

text \<open>
  \<^verbatim>\<open>proto/const_message_pdu_types.h\<close>: the module ids, the message numbers and the message types
  the two are packed into.
\<close>

subsection \<open>Module ids\<close>

abbreviation (input) SID_LOGIN :: u32 where "SID_LOGIN \<equiv> 1"
abbreviation (input) SID_BUDDY_LIST :: u32 where "SID_BUDDY_LIST \<equiv> 2"
abbreviation (input) SID_MSG :: u32 where "SID_MSG \<equiv> 3"
abbreviation (input) SID_SWITCH_SERVICE :: u32 where "SID_SWITCH_SERVICE \<equiv> 4"
abbreviation (input) SID_GROUP :: u32 where "SID_GROUP \<equiv> 5"
abbreviation (input) SID_FILE :: u32 where "SID_FILE \<equiv> 6"
abbreviation (input) SID_OTHER :: u32 where "SID_OTHER \<equiv> 7"

subsection \<open>Message numbers\<close>

abbreviation (input) IM_PDU_TYPE_HEARTBEAT :: u32 where "IM_PDU_TYPE_HEARTBEAT \<equiv> 1"
abbreviation (input) IM_PDU_TYPE_STOP_RECEIVE_PACKET :: u32 where "IM_PDU_TYPE_STOP_RECEIVE_PACKET \<equiv> 100"
abbreviation (input) IM_PDU_TYPE_VALIDATE_REQUEST :: u32 where "IM_PDU_TYPE_VALIDATE_REQUEST \<equiv> 110"
abbreviation (input) IM_PDU_TYPE_VALIDATE_RESPONSE :: u32 where "IM_PDU_TYPE_VALIDATE_RESPONSE \<equiv> 111"
abbreviation (input) IM_PDU_TYPE_FRIEND_LIST_REQUEST :: u32 where "IM_PDU_TYPE_FRIEND_LIST_REQUEST \<equiv> 122"
abbreviation (input) IM_PDU_TYPE_FRIEND_LIST_RESPONSE :: u32 where "IM_PDU_TYPE_FRIEND_LIST_RESPONSE \<equiv> 123"
abbreviation (input) IM_PDU_TYPE_REMOVE_SESSION_REQUEST :: u32 where "IM_PDU_TYPE_REMOVE_SESSION_REQUEST \<equiv> 124"
abbreviation (input) IM_PDU_TYPE_REMOVE_SESSION_RESPONSE :: u32 where "IM_PDU_TYPE_REMOVE_SESSION_RESPONSE \<equiv> 125"
abbreviation (input) IM_PDU_TYPE_DEPARTMENT_REQUEST :: u32 where "IM_PDU_TYPE_DEPARTMENT_REQUEST \<equiv> 126"
abbreviation (input) IM_PDU_TYPE_DEPARTMENT_RESPONSE :: u32 where "IM_PDU_TYPE_DEPARTMENT_RESPONSE \<equiv> 127"
abbreviation (input) IM_PDU_TYPE_USERS_INFO_REQUEST :: u32 where "IM_PDU_TYPE_USERS_INFO_REQUEST \<equiv> 130"
abbreviation (input) IM_PDU_TYPE_USERS_INFO_RESPONSE :: u32 where "IM_PDU_TYPE_USERS_INFO_RESPONSE \<equiv> 131"
abbreviation (input) IM_PDU_TYPE_ALL_USER_REQUEST :: u32 where "IM_PDU_TYPE_ALL_USER_REQUEST \<equiv> 132"
abbreviation (input) IM_PDU_TYPE_ALL_USER_RESPONSE :: u32 where "IM_PDU_TYPE_ALL_USER_RESPONSE \<equiv> 133"
abbreviation (input) IM_PDU_TYPE_MSG_DATA :: u32 where "IM_PDU_TYPE_MSG_DATA \<equiv> 140"
abbreviation (input) IM_PDU_TYPE_UNREAD_MSG_COUNT_REQUEST :: u32 where "IM_PDU_TYPE_UNREAD_MSG_COUNT_REQUEST \<equiv> 141"
abbreviation (input) IM_PDU_TYPE_UNREAD_MSG_COUNT_RESPONSE :: u32 where "IM_PDU_TYPE_UNREAD_MSG_COUNT_RESPONSE \<equiv> 142"
abbreviation (input) IM_PDU_TYPE_UNREAD_MSG_REQUEST :: u32 where "IM_PDU_TYPE_UNREAD_MSG_REQUEST \<equiv> 143"
abbreviation (input) IM_PDU_TYPE_HISTORY_MSG_REQUEST :: u32 where "IM_PDU_TYPE_HISTORY_MSG_REQUEST \<equiv> 144"
abbreviation (input) IM_PDU_TYPE_MSG_LIST_RESPONSE :: u32 where "IM_PDU_TYPE_MSG_LIST_RESPONSE \<equiv> 145"
abbreviation (input) IM_PDU_TYPE_MSG_READ_ACK :: u32 where "IM_PDU_TYPE_MSG_READ_ACK \<equiv> 146"
abbreviation (input) IM_PDU_TYPE_DB_QUERY_REQUEST :: u32 where "IM_PDU_TYPE_DB_QUERY_REQUEST \<equiv> 170"
abbreviation (input) IM_PDU_TYPE_DB_QUERY_RESPONSE :: u32 where "IM_PDU_TYPE_DB_QUERY_RESPONSE \<equiv> 171"
abbreviation (input) IM_PDU_TYPE_DB_WRITE_RESPONSE :: u32 where "IM_PDU_TYPE_DB_WRITE_RESPONSE \<equiv> 180"
abbreviation (input) IM_PDU_TYPE_USER_ACTION_LOG :: u32 where "IM_PDU_TYPE_USER_ACTION_LOG \<equiv> 190"
abbreviation (input) IM_PDU_TYPE_GROUP_LIST_REQUEST :: u32 where "IM_PDU_TYPE_GROUP_LIST_REQUEST \<equiv> 300"
abbreviation (input) IM_PDU_TYPE_GROUP_LIST_RESPONSE :: u32 where "IM_PDU_TYPE_GROUP_LIST_RESPONSE \<equiv> 301"
abbreviation (input) IM_PDU_TYPE_GROUP_USER_LIST_REQUEST :: u32 where "IM_PDU_TYPE_GROUP_USER_LIST_REQUEST \<equiv> 302"
abbreviation (input) IM_PDU_TYPE_GROUP_USER_LIST_RESPONSE :: u32 where "IM_PDU_TYPE_GROUP_USER_LIST_RESPONSE \<equiv> 303"
abbreviation (input) IM_PDU_TYPE_GROUP_UNREAD_MSG_CNT_REQUEST :: u32 where "IM_PDU_TYPE_GROUP_UNREAD_MSG_CNT_REQUEST \<equiv> 304"
abbreviation (input) IM_PDU_TYPE_GROUP_UNREAD_MSG_CNT_RESPONSE :: u32 where "IM_PDU_TYPE_GROUP_UNREAD_MSG_CNT_RESPONSE \<equiv> 305"
abbreviation (input) IM_PDU_TYPE_GROUP_UNREAD_MSG_REQUEST :: u32 where "IM_PDU_TYPE_GROUP_UNREAD_MSG_REQUEST \<equiv> 306"
abbreviation (input) IM_PDU_TYPE_GROUP_HISTORY_MSG_REQUEST :: u32 where "IM_PDU_TYPE_GROUP_HISTORY_MSG_REQUEST \<equiv> 307"
abbreviation (input) IM_PDU_TYPE_GROUP_MSG_LIST_RESPONSE :: u32 where "IM_PDU_TYPE_GROUP_MSG_LIST_RESPONSE \<equiv> 308"
abbreviation (input) IM_PDU_TYPE_GROUP_MSG_READ_ACK :: u32 where "IM_PDU_TYPE_GROUP_MSG_READ_ACK \<equiv> 309"
abbreviation (input) IM_PDU_TYPE_GROUP_CREATE_TMP_GROUP_REQUEST :: u32 where "IM_PDU_TYPE_GROUP_CREATE_TMP_GROUP_REQUEST \<equiv> 310"
abbreviation (input) IM_PDU_TYPE_GROUP_CREATE_TMP_GROUP_RESPONSE :: u32 where "IM_PDU_TYPE_GROUP_CREATE_TMP_GROUP_RESPONSE \<equiv> 311"
abbreviation (input) IM_PDU_TYPE_GROUP_CHANGE_MEMBER_REQUEST :: u32 where "IM_PDU_TYPE_GROUP_CHANGE_MEMBER_REQUEST \<equiv> 312"
abbreviation (input) IM_PDU_TYPE_GROUP_CHANGE_MEMBER_RESPONSE :: u32 where "IM_PDU_TYPE_GROUP_CHANGE_MEMBER_RESPONSE \<equiv> 313"
abbreviation (input) IM_PDU_TYPE_GROUP_DIALOG_LIST_REQUEST :: u32 where "IM_PDU_TYPE_GROUP_DIALOG_LIST_REQUEST \<equiv> 314"
abbreviation (input) IM_PDU_TYPE_GROUP_DIALOG_LIST_RESPONSE :: u32 where "IM_PDU_TYPE_GROUP_DIALOG_LIST_RESPONSE \<equiv> 315"
abbreviation (input) IM_PDU_TYPE_GROUP_CREATE_NORMAL_GROUP_NOTIFY :: u32 where "IM_PDU_TYPE_GROUP_CREATE_NORMAL_GROUP_NOTIFY \<equiv> 316"
abbreviation (input) IM_PDU_TYPE_GROUP_CHANGE_MEMBER_NOTIFY :: u32 where "IM_PDU_TYPE_GROUP_CHANGE_MEMBER_NOTIFY \<equiv> 317"
abbreviation (input) IM_PDU_TYPE_FILE_HAS_OFFLINE_REQ :: u32 where "IM_PDU_TYPE_FILE_HAS_OFFLINE_REQ \<equiv> 561"
abbreviation (input) IM_PDU_TYPE_FILE_HAS_OFFLINE_RES :: u32 where "IM_PDU_TYPE_FILE_HAS_OFFLINE_RES \<equiv> 562"
abbreviation (input) IM_PDU_TYPE_FILE_ADD_OFFLINE_REQ :: u32 where "IM_PDU_TYPE_FILE_ADD_OFFLINE_REQ \<equiv> 563"
abbreviation (input) IM_PDU_TYPE_FILE_DEL_OFFLINE_REQ :: u32 where "IM_PDU_TYPE_FILE_DEL_OFFLINE_REQ \<equiv> 564"

subsection \<open>Message types\<close>

text \<open>Despite its parameter names the macro puts \<open>low\<close>, the module id, into the high half of
  the word and \<open>high\<close>, the message number, into the low half.\<close>

definition MAKE_INT32 :: "u32 \<Rightarrow> u32 \<Rightarrow> u32" where
  "MAKE_INT32 low high =
     push_bit 16 (ucast (ucast low :: u16)) OR (ucast (ucast high :: u16))"

definition MESSAGE_HEARTBEAT :: u32 where
  "MESSAGE_HEARTBEAT = MAKE_INT32 SID_OTHER IM_PDU_TYPE_HEARTBEAT"

definition MESSAGE_STOP_RECEIVE_PACKET :: u32 where
  "MESSAGE_STOP_RECEIVE_PACKET = MAKE_INT32 SID_OTHER IM_PDU_TYPE_STOP_RECEIVE_PACKET"

definition MESSAGE_VALIDATE_REQUEST :: u32 where
  "MESSAGE_VALIDATE_REQUEST = MAKE_INT32 SID_OTHER IM_PDU_TYPE_VALIDATE_REQUEST"

definition MESSAGE_VALIDATE_RESPONSE :: u32 where
  "MESSAGE_VALIDATE_RESPONSE = MAKE_INT32 SID_OTHER IM_PDU_TYPE_VALIDATE_RESPONSE"

definition MESSAGE_FRIEND_LIST_REQUEST :: u32 where
  "MESSAGE_FRIEND_LIST_REQUEST = MAKE_INT32 SID_OTHER IM_PDU_TYPE_FRIEND_LIST_REQUEST"

definition MESSAGE_FRIEND_LIST_RESPONSE :: u32 where
  "MESSAGE_FRIEND_LIST_RESPONSE = MAKE_INT32 SID_OTHER IM_PDU_TYPE_FRIEND_LIST_RESPONSE"

definition MESSAGE_REMOVE_SESSION_REQUEST :: u32 where
  "MESSAGE_REMOVE_SESSION_REQUEST = MAKE_INT32 SID_OTHER IM_PDU_TYPE_REMOVE_SESSION_REQUEST"

definition MESSAGE_REMOVE_SESSION_RESPONSE :: u32 where
  "MESSAGE_REMOVE_SESSION_RESPONSE = MAKE_INT32 SID_OTHER IM_PDU_TYPE_REMOVE_SESSION_RESPONSE"

definition MESSAGE_DEPARTMENT_REQUEST :: u32 where
  "MESSAGE_DEPARTMENT_REQUEST = MAKE_INT32 SID_OTHER IM_PDU_TYPE_DEPARTMENT_REQUEST"

definition MESSAGE_DEPARTMENT_RESPONSE :: u32 where
  "MESSAGE_DEPARTMENT_RESPONSE = MAKE_INT32 SID_OTHER IM_PDU_TYPE_DEPARTMENT_RESPONSE"

definition MESSAGE_USERS_INFO_REQUEST :: u32 where
  "MESSAGE_USERS_INFO_REQUEST = MAKE_INT32 SID_OTHER IM_PDU_TYPE_USERS_INFO_REQUEST"

definition MESSAGE_USERS_INFO_RESPONSE :: u32 where
  "MESSAGE_USERS_INFO_RESPONSE = MAKE_INT32 SID_OTHER IM_PDU_TYPE_USERS_INFO_RESPONSE"

definition MESSAGE_ALL_USER_REQUEST :: u32 where
  "MESSAGE_ALL_USER_REQUEST = MAKE_INT32 SID_OTHER IM_PDU_TYPE_ALL_USER_REQUEST"

definition MESSAGE_ALL_USER_RESPONSE :: u32 where
  "MESSAGE_ALL_USER_RESPONSE = MAKE_INT32 SID_OTHER IM_PDU_TYPE_ALL_USER_RESPONSE"

definition MESSAGE_MSG_DATA :: u32 where
  "MESSAGE_MSG_DATA = MAKE_INT32 SID_OTHER IM_PDU_TYPE_MSG_DATA"

definition MESSAGE_UNREAD_MSG_COUNT_REQUEST :: u32 where
  "MESSAGE_UNREAD_MSG_COUNT_REQUEST = MAKE_INT32 SID_OTHER IM_PDU_TYPE_UNREAD_MSG_COUNT_REQUEST"

definition MESSAGE_UNREAD_MSG_COUNT_RESPONSE :: u32 where
  "MESSAGE_UNREAD_MSG_COUNT_RESPONSE = MAKE_INT32 SID_OTHER IM_PDU_TYPE_UNREAD_MSG_COUNT_RESPONSE"

definition MESSAGE_UNREAD_MSG_REQUEST :: u32 where
  "MESSAGE_UNREAD_MSG_REQUEST = MAKE_INT32 SID_OTHER IM_PDU_TYPE_UNREAD_MSG_REQUEST"

definition MESSAGE_HISTORY_MSG_REQUEST :: u32 where
  "MESSAGE_HISTORY_MSG_REQUEST = MAKE_INT32 SID_OTHER IM_PDU_TYPE_HISTORY_MSG_REQUEST"

definition MESSAGE_MSG_LIST_RESPONSE :: u32 where
  "MESSAGE_MSG_LIST_RESPONSE = MAKE_INT32 SID_OTHER IM_PDU_TYPE_MSG_LIST_RESPONSE"

definition MESSAGE_MSG_READ_ACK :: u32 where
  "MESSAGE_MSG_READ_ACK = MAKE_INT32 SID_OTHER IM_PDU_TYPE_MSG_READ_ACK"

definition MESSAGE_DB_QUERY_REQUEST :: u32 where
  "MESSAGE_DB_QUERY_REQUEST = MAKE_INT32 SID_OTHER IM_PDU_TYPE_DB_QUERY_REQUEST"

definition MESSAGE_DB_QUERY_RESPONSE :: u32 where
  "MESSAGE_DB_QUERY_RESPONSE = MAKE_INT32 SID_OTHER IM_PDU_TYPE_DB_QUERY_RESPONSE"

definition MESSAGE_DB_WRITE_RESPONSE :: u32 where
  "MESSAGE_DB_WRITE_RESPONSE = MAKE_INT32 SID_OTHER IM_PDU_TYPE_DB_WRITE_RESPONSE"

definition MESSAGE_USER_ACTION_LOG :: u32 where
  "MESSAGE_USER_ACTION_LOG = MAKE_INT32 SID_OTHER IM_PDU_TYPE_USER_ACTION_LOG"

definition MESSAGE_GROUP_LIST_REQUEST :: u32 where
  "MESSAGE_GROUP_LIST_REQUEST = MAKE_INT32 SID_OTHER IM_PDU_TYPE_GROUP_LIST_REQUEST"

definition MESSAGE_GROUP_LIST_RESPONSE :: u32 where
  "MESSAGE_GROUP_LIST_RESPONSE = MAKE_INT32 SID_OTHER IM_PDU_TYPE_GROUP_LIST_RESPONSE"

definition MESSAGE_GROUP_USER_LIST_REQUEST :: u32 where
  "MESSAGE_GROUP_USER_LIST_REQUEST = MAKE_INT32 SID_OTHER IM_PDU_TYPE_GROUP_USER_LIST_REQUEST"

definition MESSAGE_GROUP_USER_LIST_RESPONSE :: u32 where
  "MESSAGE_GROUP_USER_LIST_RESPONSE = MAKE_INT32 SID_OTHER IM_PDU_TYPE_GROUP_USER_LIST_RESPONSE"

definition MESSAGE_GROUP_UNREAD_MSG_COUNT_REQUEST :: u32 where
  "MESSAGE_GROUP_UNREAD_MSG_COUNT_REQUEST = MAKE_INT32 SID_OTHER IM_PDU_TYPE_GROUP_UNREAD_MSG_CNT_REQUEST"

definition MESSAGE_GROUP_UNREAD_MSG_COUNT_RESPONSE :: u32 where
  "MESSAGE_GROUP_UNREAD_MSG_COUNT_RESPONSE = MAKE_INT32 SID_OTHER IM_PDU_TYPE_GROUP_UNREAD_MSG_CNT_RESPONSE"

definition MESSAGE_GROUP_UNREAD_MSG_REQUEST :: u32 where
  "MESSAGE_GROUP_UNREAD_MSG_REQUEST = MAKE_INT32 SID_OTHER IM_PDU_TYPE_GROUP_UNREAD_MSG_REQUEST"

definition MESSAGE_GROUP_HISTORY_MSG_REQUEST :: u32 where
  "MESSAGE_GROUP_HISTORY_MSG_REQUEST = MAKE_INT32 SID_OTHER IM_PDU_TYPE_GROUP_HISTORY_MSG_REQUEST"

definition MESSAGE_GROUP_MSG_LIST_RESPONSE :: u32 where
  "MESSAGE_GROUP_MSG_LIST_RESPONSE = MAKE_INT32 SID_OTHER IM_PDU_TYPE_GROUP_MSG_LIST_RESPONSE"

definition MESSAGE_GROUP_MSG_READ_ACK :: u32 where
  "MESSAGE_GROUP_MSG_READ_ACK = MAKE_INT32 SID_OTHER IM_PDU_TYPE_GROUP_MSG_READ_ACK"

definition MESSAGE_GROUP_CREATE_TMP_GROUP_REQUEST :: u32 where
  "MESSAGE_GROUP_CREATE_TMP_GROUP_REQUEST = MAKE_INT32 SID_OTHER IM_PDU_TYPE_GROUP_CREATE_TMP_GROUP_REQUEST"

definition MESSAGE_GROUP_CREATE_TMP_GROUP_RESPONSE :: u32 where
  "MESSAGE_GROUP_CREATE_TMP_GROUP_RESPONSE = MAKE_INT32 SID_OTHER IM_PDU_TYPE_GROUP_CREATE_TMP_GROUP_RESPONSE"

definition MESSAGE_GROUP_CHANGE_MEMBER_REQUEST :: u32 where
  "MESSAGE_GROUP_CHANGE_MEMBER_REQUEST = MAKE_INT32 SID_OTHER IM_PDU_TYPE_GROUP_CHANGE_MEMBER_REQUEST"

definition MESSAGE_GROUP_CHANGE_MEMBER_RESPONSE :: u32 where
  "MESSAGE_GROUP_CHANGE_MEMBER_RESPONSE = MAKE_INT32 SID_OTHER IM_PDU_TYPE_GROUP_CHANGE_MEMBER_RESPONSE"

definition MESSAGE_GROUP_DIALOG_LIST_REQUEST :: u32 where
  "MESSAGE_GROUP_DIALOG_LIST_REQUEST = MAKE_INT32 SID_OTHER IM_PDU_TYPE_GROUP_DIALOG_LIST_REQUEST"

definition MESSAGE_GROUP_DIALOG_LIST_RESPONSE :: u32 where
  "MESSAGE_GROUP_DIALOG_LIST_RESPONSE = MAKE_INT32 SID_OTHER IM_PDU_TYPE_GROUP_DIALOG_LIST_RESPONSE"

definition MESSAGE_GROUP_CREATE_NORMAL_GROUP_NOTIFY :: u32 where
  "MESSAGE_GROUP_CREATE_NORMAL_GROUP_NOTIFY = MAKE_INT32 SID_OTHER IM_PDU_TYPE_GROUP_CREATE_NORMAL_GROUP_NOTIFY"

definition MESSAGE_GROUP_CHANGE_MEMBER_NOTIFY :: u32 where
  "MESSAGE_GROUP_CHANGE_MEMBER_NOTIFY = MAKE_INT32 SID_OTHER IM_PDU_TYPE_GROUP_CHANGE_MEMBER_NOTIFY"

definition MESSAGE_FILE_HAS_OFFLINE_REQ :: u32 where
  "MESSAGE_FILE_HAS_OFFLINE_REQ = MAKE_INT32 SID_OTHER IM_PDU_TYPE_FILE_HAS_OFFLINE_REQ"

definition MESSAGE_FILE_HAS_OFFLINE_RES :: u32 where
  "MESSAGE_FILE_HAS_OFFLINE_RES = MAKE_INT32 SID_OTHER IM_PDU_TYPE_FILE_HAS_OFFLINE_RES"

definition MESSAGE_FILE_ADD_OFFLINE_REQ :: u32 where
  "MESSAGE_FILE_ADD_OFFLINE_REQ = MAKE_INT32 SID_OTHER IM_PDU_TYPE_FILE_ADD_OFFLINE_REQ"

definition MESSAGE_FILE_DEL_OFFLINE_REQ :: u32 where
  "MESSAGE_FILE_DEL_OFFLINE_REQ = MAKE_INT32 SID_OTHER IM_PDU_TYPE_FILE_DEL_OFFLINE_REQ"

lemmas message_type_defs =
  MESSAGE_HEARTBEAT_def MESSAGE_STOP_RECEIVE_PACKET_def MESSAGE_VALIDATE_REQUEST_def
  MESSAGE_VALIDATE_RESPONSE_def MESSAGE_FRIEND_LIST_REQUEST_def MESSAGE_FRIEND_LIST_RESPONSE_def
  MESSAGE_REMOVE_SESSION_REQUEST_def MESSAGE_REMOVE_SESSION_RESPONSE_def
  MESSAGE_DEPARTMENT_REQUEST_def MESSAGE_DEPARTMENT_RESPONSE_def MESSAGE_USERS_INFO_REQUEST_def
  MESSAGE_USERS_INFO_RESPONSE_def MESSAGE_ALL_USER_REQUEST_def MESSAGE_ALL_USER_RESPONSE_def
  MESSAGE_MSG_DATA_def MESSAGE_UNREAD_MSG_COUNT_REQUEST_def
  MESSAGE_UNREAD_MSG_COUNT_RESPONSE_def MESSAGE_UNREAD_MSG_REQUEST_def
  MESSAGE_HISTORY_MSG_REQUEST_def MESSAGE_MSG_LIST_RESPONSE_def MESSAGE_MSG_READ_ACK_def
  MESSAGE_DB_QUERY_REQUEST_def MESSAGE_DB_QUERY_RESPONSE_def MESSAGE_DB_WRITE_RESPONSE_def
  MESSAGE_USER_ACTION_LOG_def MESSAGE_GROUP_LIST_REQUEST_def MESSAGE_GROUP_LIST_RESPONSE_def
  MESSAGE_GROUP_USER_LIST_REQUEST_def MESSAGE_GROUP_USER_LIST_RESPONSE_def
  MESSAGE_GROUP_UNREAD_MSG_COUNT_REQUEST_def MESSAGE_GROUP_UNREAD_MSG_COUNT_RESPONSE_def
  MESSAGE_GROUP_UNREAD_MSG_REQUEST_def MESSAGE_GROUP_HISTORY_MSG_REQUEST_def
  MESSAGE_GROUP_MSG_LIST_RESPONSE_def MESSAGE_GROUP_MSG_READ_ACK_def
  MESSAGE_GROUP_CREATE_TMP_GROUP_REQUEST_def MESSAGE_GROUP_CREATE_TMP_GROUP_RESPONSE_def
  MESSAGE_GROUP_CHANGE_MEMBER_REQUEST_def MESSAGE_GROUP_CHANGE_MEMBER_RESPONSE_def
  MESSAGE_GROUP_DIALOG_LIST_REQUEST_def MESSAGE_GROUP_DIALOG_LIST_RESPONSE_def
  MESSAGE_GROUP_CREATE_NORMAL_GROUP_NOTIFY_def MESSAGE_GROUP_CHANGE_MEMBER_NOTIFY_def
  MESSAGE_FILE_HAS_OFFLINE_REQ_def MESSAGE_FILE_HAS_OFFLINE_RES_def
  MESSAGE_FILE_ADD_OFFLINE_REQ_def MESSAGE_FILE_DEL_OFFLINE_REQ_def

text \<open>The numbers the definitions stand for.\<close>

lemma MAKE_INT32_values [simp]:
  "MAKE_INT32 7 n = 0x70000 OR ucast (ucast n :: u16)"
  by (simp add: MAKE_INT32_def)

lemma message_type_values [simp]:
  "MESSAGE_HEARTBEAT = 458753"
  "MESSAGE_STOP_RECEIVE_PACKET = 458852"
  "MESSAGE_VALIDATE_REQUEST = 458862"
  "MESSAGE_VALIDATE_RESPONSE = 458863"
  "MESSAGE_FRIEND_LIST_REQUEST = 458874"
  "MESSAGE_FRIEND_LIST_RESPONSE = 458875"
  "MESSAGE_REMOVE_SESSION_REQUEST = 458876"
  "MESSAGE_REMOVE_SESSION_RESPONSE = 458877"
  "MESSAGE_DEPARTMENT_REQUEST = 458878"
  "MESSAGE_DEPARTMENT_RESPONSE = 458879"
  "MESSAGE_USERS_INFO_REQUEST = 458882"
  "MESSAGE_USERS_INFO_RESPONSE = 458883"
  "MESSAGE_ALL_USER_REQUEST = 458884"
  "MESSAGE_ALL_USER_RESPONSE = 458885"
  "MESSAGE_MSG_DATA = 458892"
  "MESSAGE_UNREAD_MSG_COUNT_REQUEST = 458893"
  "MESSAGE_UNREAD_MSG_COUNT_RESPONSE = 458894"
  "MESSAGE_UNREAD_MSG_REQUEST = 458895"
  "MESSAGE_HISTORY_MSG_REQUEST = 458896"
  "MESSAGE_MSG_LIST_RESPONSE = 458897"
  "MESSAGE_MSG_READ_ACK = 458898"
  "MESSAGE_DB_QUERY_REQUEST = 458922"
  "MESSAGE_DB_QUERY_RESPONSE = 458923"
  "MESSAGE_DB_WRITE_RESPONSE = 458932"
  "MESSAGE_USER_ACTION_LOG = 458942"
  "MESSAGE_GROUP_LIST_REQUEST = 459052"
  "MESSAGE_GROUP_LIST_RESPONSE = 459053"
  "MESSAGE_GROUP_USER_LIST_REQUEST = 459054"
  "MESSAGE_GROUP_USER_LIST_RESPONSE = 459055"
  "MESSAGE_GROUP_UNREAD_MSG_COUNT_REQUEST = 459056"
  "MESSAGE_GROUP_UNREAD_MSG_COUNT_RESPONSE = 459057"
  "MESSAGE_GROUP_UNREAD_MSG_REQUEST = 459058"
  "MESSAGE_GROUP_HISTORY_MSG_REQUEST = 459059"
  "MESSAGE_GROUP_MSG_LIST_RESPONSE = 459060"
  "MESSAGE_GROUP_MSG_READ_ACK = 459061"
  "MESSAGE_GROUP_CREATE_TMP_GROUP_REQUEST = 459062"
  "MESSAGE_GROUP_CREATE_TMP_GROUP_RESPONSE = 459063"
  "MESSAGE_GROUP_CHANGE_MEMBER_REQUEST = 459064"
  "MESSAGE_GROUP_CHANGE_MEMBER_RESPONSE = 459065"
  "MESSAGE_GROUP_DIALOG_LIST_REQUEST = 459066"
  "MESSAGE_GROUP_DIALOG_LIST_RESPONSE = 459067"
  "MESSAGE_GROUP_CREATE_NORMAL_GROUP_NOTIFY = 459068"
  "MESSAGE_GROUP_CHANGE_MEMBER_NOTIFY = 459069"
  "MESSAGE_FILE_HAS_OFFLINE_REQ = 459313"
  "MESSAGE_FILE_HAS_OFFLINE_RES = 459314"
  "MESSAGE_FILE_ADD_OFFLINE_REQ = 459315"
  "MESSAGE_FILE_DEL_OFFLINE_REQ = 459316"
  by (simp_all add: message_type_defs MAKE_INT32_def)

end
