(* ===== verification/Byte_Stream.thy ===== *)
theory Byte_Stream
  imports Prelude
begin

text \<open>
  The interface of \<^verbatim>\<open>net::ByteStream\<close> (\<^verbatim>\<open>net/base/byte_stream.h\<close> of the library zutils,
  which is not part of this repository). It is a parameter of the model: a record of its
  operations over an abstract stream state. What the message classes rely on is stated once,
  in \<open>byte_stream\<close>: a cursor that moves over a byte array, a fixed wire format \<open>wire\<close> for each
  kind of value, and a failure flag that sticks. \<open>array_stream\<close>, a big-endian stream over a
  byte array, shows that these requirements can be met; it is used in witnesses only.
\<close>

subsection \<open>The operations\<close>

type_synonym byte = "8 word"

record 's bytestream =
  bs_open:: "byte list \<Rightarrow> 's"
  bs_bytes:: "'s \<Rightarrow> byte list"
  bs_fail:: "'s \<Rightarrow> bool"
  bs_put8:: "u8 \<Rightarrow> 's \<Rightarrow> 's"
  bs_put16:: "u16 \<Rightarrow> 's \<Rightarrow> 's"
  bs_put32:: "u32 \<Rightarrow> 's \<Rightarrow> 's"
  bs_puts:: "string \<Rightarrow> 's \<Rightarrow> int \<times> 's"
  bs_get8:: "u8 \<Rightarrow> 's \<Rightarrow> u8 \<times> 's"
  bs_get16:: "u16 \<Rightarrow> 's \<Rightarrow> u16 \<times> 's"
  bs_get32:: "u32 \<Rightarrow> 's \<Rightarrow> u32 \<times> 's"
  bs_gets:: "string \<Rightarrow> 's \<Rightarrow> int \<times> string \<times> 's"
  uninit32:: u32

text \<open>
  \<open>bs_open d\<close> is \<^verbatim>\<open>ByteStream(data, data_len)\<close>, \<open>bs_bytes\<close> the array behind it, \<open>bs_putN w\<close>
  is \<^verbatim>\<open>os << w\<close>, \<open>bs_puts\<close> is \<^verbatim>\<open>WriteString\<close> and \<open>bs_gets\<close> is \<^verbatim>\<open>ReadString\<close>, both with their
  return code. \<open>bs_getN v\<close> is \<^verbatim>\<open>is >> x\<close> on a variable that holds \<open>v\<close> before: a read that fails
  may leave anything in it. \<open>uninit32\<close> is the value of a \<^verbatim>\<open>uint32\<close> variable that the code
  declares without an initialiser.
\<close>

subsection \<open>Wire fields\<close>

text \<open>The values that cross the wire, and the number of bytes \<^verbatim>\<open>sizeof\<close> and
  \<^verbatim>\<open>SIZEOF_STRING\<close> count for them.\<close>

datatype field = F8 u8 | F16 u16 | F32 u32 | FStr string

fun field_size:: "field \<Rightarrow> nat" where
  "field_size (F8 w) = 1"
| "field_size (F16 w) = 2"
| "field_size (F32 w) = 4"
| "field_size (FStr s) = 4 + length s"

definition fields_size:: "field list \<Rightarrow> nat" where
  "fields_size fs = sum_list (map field_size fs)"

lemma fields_size_simps [simp]:
  "fields_size [] = 0"
  "fields_size (f # fs) = field_size f + fields_size fs"
  "fields_size (fs @ gs) = fields_size fs + fields_size gs"
  by (simp_all add: fields_size_def)

lemma fields_size_concat_map:
  "fields_size (concat (map f xs)) = sum_list (map (\<lambda>x. fields_size (f x)) xs)"
  by (induction xs) auto

lemma fields_size_map_F32 [simp]: "fields_size (map F32 xs) = 4 * length xs"
  by (induction xs) auto

lemma length_le_fields_size: "length fs \<le> fields_size fs"
proof (induction fs)
  case (Cons f fs)
  then show ?case by (cases f) auto
qed simp

type_synonym wire = "field \<Rightarrow> byte list"

definition encs:: "wire \<Rightarrow> field list \<Rightarrow> byte list" where
  "encs W fs = concat (map W fs)"

lemma encs_simps [simp]:
  "encs W [] = []"
  "encs W (f # fs) = W f @ encs W fs"
  "encs W (fs @ gs) = encs W fs @ encs W gs"
  by (simp_all add: encs_def)

fun put_field:: "'s bytestream \<Rightarrow> field \<Rightarrow> 's \<Rightarrow> 's" where
  "put_field B (F8 w) s = bs_put8 B w s"
| "put_field B (F16 w) s = bs_put16 B w s"
| "put_field B (F32 w) s = bs_put32 B w s"
| "put_field B (FStr t) s = snd (bs_puts B t s)"

subsection \<open>What the message classes rely on\<close>

definition unread:: "'s bytestream \<Rightarrow> ('s \<Rightarrow> nat) \<Rightarrow> 's \<Rightarrow> byte list" where
  "unread B cur s = drop (cur s) (bs_bytes B s)"

text \<open>Writing the bytes \<open>e\<close>: they replace the bytes at the cursor when they fit; without room,
  or on a stream that has failed, the stream fails.\<close>

definition write_law:: "'s bytestream \<Rightarrow> ('s \<Rightarrow> nat) \<Rightarrow> byte list \<Rightarrow> 's \<Rightarrow> 's \<Rightarrow> bool" where
  "write_law B cur e s s' \<longleftrightarrow>
     (if \<not> bs_fail B s \<and> cur s + length e \<le> length (bs_bytes B s)
      then \<not> bs_fail B s' \<and> cur s' = cur s + length e \<and>
           bs_bytes B s' = take (cur s) (bs_bytes B s) @ e @ drop (cur s + length e) (bs_bytes B s)
      else bs_fail B s')"

text \<open>Reading a value \<open>v\<close> whose encoding is \<open>e\<close>: it is delivered when the unread bytes start
  with \<open>e\<close>; when they end inside \<open>e\<close>, or on a stream that has failed, the stream fails.\<close>

definition read_law::
  "'s bytestream \<Rightarrow> ('s \<Rightarrow> nat) \<Rightarrow> byte list \<Rightarrow> 'v \<Rightarrow> 's \<Rightarrow> 'v \<times> 's \<Rightarrow> bool" where
  "read_law B cur e v s r \<longleftrightarrow>
     (\<not> bs_fail B s \<and> prefix e (unread B cur s) \<longrightarrow>
        fst r = v \<and> \<not> bs_fail B (snd r) \<and> cur (snd r) = cur s + length e \<and>
        bs_bytes B (snd r) = bs_bytes B s) \<and>
     (\<not> bs_fail B s \<and> strict_prefix (unread B cur s) e \<longrightarrow> bs_fail B (snd r)) \<and>
     (bs_fail B s \<longrightarrow> bs_fail B (snd r))"

definition byte_stream:: "'s bytestream \<Rightarrow> ('s \<Rightarrow> nat) \<Rightarrow> wire \<Rightarrow> bool" where
  "byte_stream B cur W \<longleftrightarrow>
     (\<forall>d. \<not> bs_fail B (bs_open B d) \<and> cur (bs_open B d) = 0 \<and> bs_bytes B (bs_open B d) = d) \<and>
     (\<forall>f. length (W f) = field_size f) \<and>
     (\<forall>f s. write_law B cur (W f) s (put_field B f s)) \<and>
     (\<forall>w v s. read_law B cur (W (F8 w)) w s (bs_get8 B v s)) \<and>
     (\<forall>w v s. read_law B cur (W (F16 w)) w s (bs_get16 B v s)) \<and>
     (\<forall>w v s. read_law B cur (W (F32 w)) w s (bs_get32 B v s)) \<and>
     (\<forall>t v s. length t < 2 ^ 32 \<longrightarrow> read_law B cur (W (FStr t)) t s (snd (bs_gets B v s))) \<and>
     (\<forall>t s. fst (bs_puts B t s) = 0 \<longleftrightarrow> \<not> bs_fail B (snd (bs_puts B t s))) \<and>
     (\<forall>v s. fst (bs_gets B v s) = 0 \<longleftrightarrow> \<not> bs_fail B (snd (snd (bs_gets B v s))))"

lemma byte_streamD:
  assumes "byte_stream B cur W"
  shows bs_openD: "\<not> bs_fail B (bs_open B d)" "cur (bs_open B d) = 0" "bs_bytes B (bs_open B d) = d"
    and wire_length: "length (W f) = field_size f"
    and put_field_law: "write_law B cur (W f) s (put_field B f s)"
    and get8_law: "read_law B cur (W (F8 w8)) w8 s (bs_get8 B v8 s)"
    and get16_law: "read_law B cur (W (F16 w16)) w16 s (bs_get16 B v16 s)"
    and get32_law: "read_law B cur (W (F32 w32)) w32 s (bs_get32 B v32 s)"
    and gets_law: "length t < 2 ^ 32 \<Longrightarrow> read_law B cur (W (FStr t)) t s (snd (bs_gets B vs s))"
    and puts_code: "fst (bs_puts B t s) = 0 \<longleftrightarrow> \<not> bs_fail B (snd (bs_puts B t s))"
    and gets_code: "fst (bs_gets B vs s) = 0 \<longleftrightarrow> \<not> bs_fail B (snd (snd (bs_gets B vs s)))"
  using assms unfolding byte_stream_def by blast+

subsection \<open>Write statements\<close>

definition put_fields:: "'s bytestream \<Rightarrow> field list \<Rightarrow> 's \<Rightarrow> 's" where
  "put_fields B fs = steps (map (put_field B) fs)"

lemma put_fields_simps [simp]:
  "put_fields B [] s = s"
  "put_fields B (f # fs) s = put_fields B fs (put_field B f s)"
  "put_fields B (fs @ gs) s = put_fields B gs (put_fields B fs s)"
  by (simp_all add: put_fields_def steps_append)

text \<open>\<^verbatim>\<open>os->WriteString(t)\<close>, its return code ignored, and the loops that the two
  \<^verbatim>\<open>SERIALIZE_..._ARRAY_IMPLICIT\<close> macros of \<^verbatim>\<open>proto/base_teamtalk_pdu.h\<close> expand to.\<close>

definition out_str:: "'s bytestream \<Rightarrow> string \<Rightarrow> 's \<Rightarrow> 's" where
  "out_str B t s = snd (bs_puts B t s)"

definition SERIALIZE_BASICTYPE_ARRAY_IMPLICIT:: "'s bytestream \<Rightarrow> u32 list \<Rightarrow> 's \<Rightarrow> 's" where
  "SERIALIZE_BASICTYPE_ARRAY_IMPLICIT B arr =
     steps (bs_put32 B (of_nat (length arr)) # map (bs_put32 B) arr)"

definition SERIALIZE_OBJECTPTR_ARRAY_IMPLICIT::
  "'s bytestream \<Rightarrow> ('e \<Rightarrow> 's \<Rightarrow> bool \<times> 's) \<Rightarrow> 'e list \<Rightarrow> 's \<Rightarrow> 's" where
  "SERIALIZE_OBJECTPTR_ARRAY_IMPLICIT B ser arr =
     steps (bs_put32 B (of_nat (length arr)) # map (\<lambda>x s. snd (ser x s)) arr)"

text \<open>\<^verbatim>\<open>return !os->Fail();\<close>\<close>

definition write_ok:: "'s bytestream \<Rightarrow> 's \<Rightarrow> bool \<times> 's" where
  "write_ok B s = (\<not> bs_fail B s, s)"

text \<open>A \<^verbatim>\<open>uint32\<close> array crosses the wire as its length and its elements, an array of
  objects as its length and the fields of each.\<close>

definition u32s_fields:: "u32 list \<Rightarrow> field list" where
  "u32s_fields xs = F32 (of_nat (length xs)) # map F32 xs"

definition objs_fields:: "('e \<Rightarrow> field list) \<Rightarrow> 'e list \<Rightarrow> field list" where
  "objs_fields ef xs = F32 (of_nat (length xs)) # concat (map ef xs)"

lemma write_u32s [simp]:
  "SERIALIZE_BASICTYPE_ARRAY_IMPLICIT B xs s = put_fields B (u32s_fields xs) s"
proof -
  have "steps (map (bs_put32 B) ys) s' = put_fields B (map F32 ys) s'" for ys s'
    by (induction ys arbitrary: s') auto
  then show ?thesis
    by (simp add: SERIALIZE_BASICTYPE_ARRAY_IMPLICIT_def u32s_fields_def)
qed

lemma write_str [simp]: "out_str B t s = put_field B (FStr t) s"
  by (simp add: out_str_def)

lemma write_objs:
  assumes "\<And>x s. snd (ser x s) = put_fields B (ef x) s"
  shows "SERIALIZE_OBJECTPTR_ARRAY_IMPLICIT B ser xs s = put_fields B (objs_fields ef xs) s"
proof -
  have "steps (map (\<lambda>x s. snd (ser x s)) ys) s' = put_fields B (concat (map ef ys)) s'" for ys s'
    by (induction ys arbitrary: s') (auto simp: assms)
  then show ?thesis
    by (simp add: SERIALIZE_OBJECTPTR_ARRAY_IMPLICIT_def objs_fields_def)
qed

lemma put_fields_fit:
  assumes "byte_stream B cur W" "\<not> bs_fail B s" "cur s + fields_size fs \<le> length (bs_bytes B s)"
  shows "\<not> bs_fail B (put_fields B fs s) \<and> cur (put_fields B fs s) = cur s + fields_size fs \<and>
    bs_bytes B (put_fields B fs s) =
      take (cur s) (bs_bytes B s) @ encs W fs @ drop (cur s + fields_size fs) (bs_bytes B s)"
  using assms(2,3)
proof (induction fs arbitrary: s)
  case (Cons f fs)
  let ?s = "put_field B f s"
  from Cons.prems put_field_law [OF assms(1), of f s]
  have 1: "\<not> bs_fail B ?s" "cur ?s = cur s + field_size f"
    "bs_bytes B ?s = take (cur s) (bs_bytes B s) @ W f @ drop (cur s + field_size f) (bs_bytes B s)"
    by (simp_all add: write_law_def wire_length [OF assms(1)])
  have "length (bs_bytes B ?s) = length (bs_bytes B s)"
    using Cons.prems 1 by (simp add: wire_length [OF assms(1)])
  with Cons.IH [of ?s] Cons.prems 1 show ?case
    by (simp add: wire_length [OF assms(1)] ac_simps)
qed simp

lemma put_fields_fails: "byte_stream B cur W \<Longrightarrow> bs_fail B s \<Longrightarrow> bs_fail B (put_fields B fs s)"
proof (induction fs arbitrary: s)
  case (Cons f fs)
  with put_field_law [OF Cons.prems(1), of f s] show ?case
    by (simp add: write_law_def)
qed simp

lemma put_fields_short:
  assumes "byte_stream B cur W" "\<not> bs_fail B s" "cur s \<le> length (bs_bytes B s)"
    and "length (bs_bytes B s) < cur s + fields_size fs"
  shows "bs_fail B (put_fields B fs s)"
  using assms(2-)
proof (induction fs arbitrary: s)
  case (Cons f fs)
  let ?s = "put_field B f s"
  note law = put_field_law [OF assms(1), of f s] wire_length [OF assms(1), of f]
  show ?case
  proof (cases "cur s + field_size f \<le> length (bs_bytes B s)")
    case True
    with Cons.prems law have "\<not> bs_fail B ?s" "cur ?s = cur s + field_size f"
      "length (bs_bytes B ?s) = length (bs_bytes B s)"
      by (simp_all add: write_law_def)
    with Cons.IH [of ?s] Cons.prems True show ?thesis by simp
  next
    case False
    with law Cons.prems have "bs_fail B ?s" by (simp add: write_law_def)
    then show ?thesis by (simp add: put_fields_fails [OF assms(1)])
  qed
qed simp

subsection \<open>Read statements\<close>

text \<open>
  A read statement changes the object being filled and the stream: \<open>in32 B f f_update\<close> is
  \<^verbatim>\<open>is >> f_\<close>. \<open>PARSE_..._ARRAY_IMPLICIT\<close> are the loops of \<^verbatim>\<open>proto/base_teamtalk_pdu.h\<close>: the
  count is read into a variable that holds 0, then so many elements are appended to the array,
  whether or not the stream has failed.
\<close>

definition in8:: "'s bytestream \<Rightarrow> ('m \<Rightarrow> u8) \<Rightarrow> ((u8 \<Rightarrow> u8) \<Rightarrow> 'm \<Rightarrow> 'm) \<Rightarrow> 'm \<times> 's \<Rightarrow> 'm \<times> 's" where
  "in8 B g u = (\<lambda>(m, s). let (v, s) = bs_get8 B (g m) s in (u (\<lambda>_. v) m, s))"

definition in16:: "'s bytestream \<Rightarrow> ('m \<Rightarrow> u16) \<Rightarrow> ((u16 \<Rightarrow> u16) \<Rightarrow> 'm \<Rightarrow> 'm) \<Rightarrow> 'm \<times> 's \<Rightarrow> 'm \<times> 's" where
  "in16 B g u = (\<lambda>(m, s). let (v, s) = bs_get16 B (g m) s in (u (\<lambda>_. v) m, s))"

definition in32:: "'s bytestream \<Rightarrow> ('m \<Rightarrow> u32) \<Rightarrow> ((u32 \<Rightarrow> u32) \<Rightarrow> 'm \<Rightarrow> 'm) \<Rightarrow> 'm \<times> 's \<Rightarrow> 'm \<times> 's" where
  "in32 B g u = (\<lambda>(m, s). let (v, s) = bs_get32 B (g m) s in (u (\<lambda>_. v) m, s))"

definition in_str::
  "'s bytestream \<Rightarrow> ('m \<Rightarrow> string) \<Rightarrow> ((string \<Rightarrow> string) \<Rightarrow> 'm \<Rightarrow> 'm) \<Rightarrow> 'm \<times> 's \<Rightarrow> 'm \<times> 's" where
  "in_str B g u = (\<lambda>(m, s). let (_, v, s) = bs_gets B (g m) s in (u (\<lambda>_. v) m, s))"

fun parse_u32s:: "'s bytestream \<Rightarrow> nat \<Rightarrow> u32 list \<times> 's \<Rightarrow> u32 list \<times> 's" where
  "parse_u32s B 0 (arr, s) = (arr, s)"
| "parse_u32s B (Suc n) (arr, s) =
     (let (v, s) = bs_get32 B (uninit32 B) s in parse_u32s B n (arr @ [v], s))"

definition PARSE_BASICTYPE_ARRAY_IMPLICIT::
  "'s bytestream \<Rightarrow> ('m \<Rightarrow> u32 list) \<Rightarrow> ((u32 list \<Rightarrow> u32 list) \<Rightarrow> 'm \<Rightarrow> 'm) \<Rightarrow> 'm \<times> 's \<Rightarrow> 'm \<times> 's" where
  "PARSE_BASICTYPE_ARRAY_IMPLICIT B g u = (\<lambda>(m, s).
     let (array_size, s) = bs_get32 B 0 s;
         (arr, s) = parse_u32s B (unat array_size) (g m, s)
     in (u (\<lambda>_. arr) m, s))"

fun parse_objs::
  "('e \<Rightarrow> 's \<Rightarrow> bool \<times> 'e \<times> 's) \<Rightarrow> 'e \<Rightarrow> nat \<Rightarrow> 'e list \<times> 's \<Rightarrow> 'e list \<times> 's" where
  "parse_objs p new 0 (arr, s) = (arr, s)"
| "parse_objs p new (Suc n) (arr, s) =
     (let (_, obj, s) = p new s in parse_objs p new n (arr @ [obj], s))"

definition PARSE_OBJECTPTR_ARRAY_IMPLICIT::
  "'s bytestream \<Rightarrow> ('e \<Rightarrow> 's \<Rightarrow> bool \<times> 'e \<times> 's) \<Rightarrow> 'e \<Rightarrow>
   ('m \<Rightarrow> 'e list) \<Rightarrow> (('e list \<Rightarrow> 'e list) \<Rightarrow> 'm \<Rightarrow> 'm) \<Rightarrow> 'm \<times> 's \<Rightarrow> 'm \<times> 's" where
  "PARSE_OBJECTPTR_ARRAY_IMPLICIT B p new g u = (\<lambda>(m, s).
     let (array_size, s) = bs_get32 B 0 s;
         (arr, s) = parse_objs p new (unat array_size) (g m, s)
     in (u (\<lambda>_. arr) m, s))"

text \<open>\<^verbatim>\<open>return !is.Fail();\<close>\<close>

definition read_ok:: "'s bytestream \<Rightarrow> 'm \<times> 's \<Rightarrow> bool \<times> 'm \<times> 's" where
  "read_ok B = (\<lambda>(m, s). (\<not> bs_fail B s, m, s))"

text \<open>
  \<open>consumes B cur W p fs m m'\<close>: started on the object \<open>m\<close>, the program \<open>p\<close> consumes exactly the
  encoding of the fields \<open>fs\<close> and leaves \<open>m'\<close>; it fails when the input ends inside that
  encoding, and it never clears a failure.
\<close>

definition consumes::
  "'s bytestream \<Rightarrow> ('s \<Rightarrow> nat) \<Rightarrow> wire \<Rightarrow> ('m \<times> 's \<Rightarrow> 'm \<times> 's) \<Rightarrow> field list \<Rightarrow> 'm \<Rightarrow> 'm \<Rightarrow> bool" where
  "consumes B cur W p fs m m' \<longleftrightarrow>
     (\<forall>s. \<not> bs_fail B s \<and> prefix (encs W fs) (unread B cur s) \<longrightarrow>
        (\<exists>s'. p (m, s) = (m', s') \<and> \<not> bs_fail B s' \<and> cur s' = cur s + length (encs W fs) \<and>
              bs_bytes B s' = bs_bytes B s)) \<and>
     (\<forall>s. \<not> bs_fail B s \<and> strict_prefix (unread B cur s) (encs W fs) \<longrightarrow>
        bs_fail B (snd (p (m, s)))) \<and>
     (\<forall>m s. bs_fail B s \<longrightarrow> bs_fail B (snd (p (m, s))))"

lemma consumesI:
  assumes "\<And>s. \<not> bs_fail B s \<Longrightarrow> prefix (encs W fs) (unread B cur s) \<Longrightarrow>
      fst (p (m, s)) = m' \<and> \<not> bs_fail B (snd (p (m, s))) \<and>
      cur (snd (p (m, s))) = cur s + length (encs W fs) \<and>
      bs_bytes B (snd (p (m, s))) = bs_bytes B s"
    and "\<And>s. \<not> bs_fail B s \<Longrightarrow> strict_prefix (unread B cur s) (encs W fs) \<Longrightarrow>
      bs_fail B (snd (p (m, s)))"
    and "\<And>m s. bs_fail B s \<Longrightarrow> bs_fail B (snd (p (m, s)))"
  shows "consumes B cur W p fs m m'"
  using assms unfolding consumes_def by (metis prod.collapse)

lemma consumes_prefixE:
  assumes "consumes B cur W p fs m m'" "\<not> bs_fail B s" "prefix (encs W fs) (unread B cur s)"
  obtains s' where "p (m, s) = (m', s')" "\<not> bs_fail B s'"
    "cur s' = cur s + length (encs W fs)" "bs_bytes B s' = bs_bytes B s"
  using assms unfolding consumes_def by blast

lemma consumes_sticky: "consumes B cur W p fs m m' \<Longrightarrow> bs_fail B s \<Longrightarrow> bs_fail B (snd (p (n, s)))"
  by (simp add: consumes_def)

lemma consumes_cong: "consumes B cur W p fs m m1 \<Longrightarrow> m1 = m2 \<Longrightarrow> consumes B cur W p fs m m2"
  by simp

lemma consumes_subst:
  "consumes B cur W p fs m m1 \<Longrightarrow> p = q \<Longrightarrow> fs = gs \<Longrightarrow> m1 = m2 \<Longrightarrow> consumes B cur W q gs m m2"
  by simp

lemma unread_advance:
  "cur s' = cur s + n \<Longrightarrow> bs_bytes B s' = bs_bytes B s \<Longrightarrow>
   unread B cur s' = drop n (unread B cur s)"
  by (simp add: unread_def add.commute)

lemma consumes_seq:
  assumes p: "consumes B cur W p fs m m1" and q: "consumes B cur W q gs m1 m2"
  shows "consumes B cur W (\<lambda>x. q (p x)) (fs @ gs) m m2"
proof (rule consumesI)
  fix s
  assume s: "\<not> bs_fail B s" "prefix (encs W (fs @ gs)) (unread B cur s)"
  then have "prefix (encs W fs) (unread B cur s)" by (auto intro: prefix_appendD1)
  with p s(1) obtain s' where s': "p (m, s) = (m1, s')" "\<not> bs_fail B s'"
    "cur s' = cur s + length (encs W fs)" "bs_bytes B s' = bs_bytes B s"
    unfolding consumes_def by blast
  from s(2) have "prefix (encs W gs) (unread B cur s')"
    by (auto simp: unread_advance [OF s'(3,4)] prefix_def)
  with q s'(2) obtain s'' where "q (m1, s') = (m2, s'')" "\<not> bs_fail B s''"
    "cur s'' = cur s' + length (encs W gs)" "bs_bytes B s'' = bs_bytes B s'"
    unfolding consumes_def by blast
  with s' show "fst (q (p (m, s))) = m2 \<and> \<not> bs_fail B (snd (q (p (m, s)))) \<and>
      cur (snd (q (p (m, s)))) = cur s + length (encs W (fs @ gs)) \<and>
      bs_bytes B (snd (q (p (m, s)))) = bs_bytes B s"
    by simp
next
  fix s
  assume s: "\<not> bs_fail B s" "strict_prefix (unread B cur s) (encs W (fs @ gs))"
  then have "strict_prefix (unread B cur s) (encs W fs @ encs W gs)" by simp
  then show "bs_fail B (snd (q (p (m, s))))"
  proof (rule strict_prefix_append_cases)
    assume "strict_prefix (unread B cur s) (encs W fs)"
    with p s(1) have "bs_fail B (snd (p (m, s)))" by (simp add: consumes_def)
    with consumes_sticky [OF q] show ?thesis by (metis prod.collapse)
  next
    fix c
    assume c: "unread B cur s = encs W fs @ c" "strict_prefix c (encs W gs)"
    with p s(1) obtain s' where s': "p (m, s) = (m1, s')" "\<not> bs_fail B s'"
      "cur s' = cur s + length (encs W fs)" "bs_bytes B s' = bs_bytes B s"
      unfolding consumes_def by (metis prefixI)
    from c have "strict_prefix (unread B cur s') (encs W gs)"
      by (simp add: unread_advance [OF s'(3,4)])
    with q s' show ?thesis by (simp add: consumes_def)
  qed
next
  fix n s
  assume "bs_fail B s"
  with consumes_sticky [OF p] have "bs_fail B (snd (p (n, s)))" by blast
  with consumes_sticky [OF q] show "bs_fail B (snd (q (p (n, s))))" by (metis prod.collapse)
qed

lemma consumes_Nil: "consumes B cur W (steps []) [] m m"
  by (rule consumesI) auto

lemma steps_Cons_fun: "steps (p # ps) = (\<lambda>x. steps ps (p x))"
  by (simp add: fun_eq_iff)

lemma consumes_append:
  "consumes B cur W p fs m m1 \<Longrightarrow> consumes B cur W (steps ps) gs m1 m2 \<Longrightarrow>
   consumes B cur W (steps (p # ps)) (fs @ gs) m m2"
  unfolding steps_Cons_fun by (rule consumes_seq)

lemma consumes_Cons:
  "consumes B cur W p [f] m m1 \<Longrightarrow> consumes B cur W (steps ps) fs m1 m2 \<Longrightarrow>
   consumes B cur W (steps (p # ps)) (f # fs) m m2"
  using consumes_append [of B cur W p "[f]"] by simp

lemma consumes_last:
  "consumes B cur W p fs m m1 \<Longrightarrow> consumes B cur W (steps [p]) fs m m1"
  by (simp add: steps_Cons_fun)

lemma consumes_of_law:
  assumes "\<And>n s. read_law B cur (W f) v s (r n s)"
  shows "consumes B cur W (\<lambda>(m, s). (u (\<lambda>_. fst (r m s)) m, snd (r m s))) [f] m (u (\<lambda>_. v) m)"
  by (rule consumesI) (use assms in \<open>auto simp: read_law_def\<close>)

lemma consumes_in8:
  "byte_stream B cur W \<Longrightarrow> consumes B cur W (in8 B g u) [F8 w] m (u (\<lambda>_. w) m)"
  using consumes_of_law [of B cur W "F8 w" w "\<lambda>m s. bs_get8 B (g m) s" u m] get8_law [of B cur W w]
  by (simp add: in8_def case_prod_unfold Let_def)

lemma consumes_in16:
  "byte_stream B cur W \<Longrightarrow> consumes B cur W (in16 B g u) [F16 w] m (u (\<lambda>_. w) m)"
  using consumes_of_law [of B cur W "F16 w" w "\<lambda>m s. bs_get16 B (g m) s" u m] get16_law [of B cur W w]
  by (simp add: in16_def case_prod_unfold Let_def)

lemma consumes_in32:
  "byte_stream B cur W \<Longrightarrow> consumes B cur W (in32 B g u) [F32 w] m (u (\<lambda>_. w) m)"
  using consumes_of_law [of B cur W "F32 w" w "\<lambda>m s. bs_get32 B (g m) s" u m] get32_law [of B cur W w]
  by (simp add: in32_def case_prod_unfold Let_def)

lemma consumes_in_str:
  "byte_stream B cur W \<Longrightarrow> length t < 2 ^ 32 \<Longrightarrow> consumes B cur W (in_str B g u) [FStr t] m (u (\<lambda>_. t) m)"
  using consumes_of_law [of B cur W "FStr t" t "\<lambda>m s. snd (bs_gets B (g m) s)" u m]
    gets_law [of B cur W t]
  by (simp add: in_str_def case_prod_unfold Let_def)

text \<open>Both array loops: a count, then a loop \<open>L n\<close> that appends \<open>n\<close> elements.\<close>

lemma consumes_counted:
  fixes L:: "nat \<Rightarrow> 'a list \<times> 's \<Rightarrow> 'a list \<times> 's"
  assumes B: "byte_stream B cur W" and k: "k < 2 ^ 32"
    and loop: "consumes B cur W (L k) fs (g m) arr"
    and sticky: "\<And>n x s. bs_fail B s \<Longrightarrow> bs_fail B (snd (L n (x, s)))"
  shows "consumes B cur W (\<lambda>(m, s). let (n, s) = bs_get32 B 0 s; (arr, s) = L (unat n) (g m, s)
           in (u (\<lambda>_. arr) m, s)) (F32 (of_nat k) # fs) m (u (\<lambda>_. arr) m)"
    (is "consumes B cur W ?p _ m _")
proof (rule consumesI)
  fix s
  let ?s = "snd (bs_get32 B 0 s)"
  assume s: "\<not> bs_fail B s" "prefix (encs W (F32 (of_nat k) # fs)) (unread B cur s)"
  with get32_law [OF B, of "of_nat k" s 0]
  have 1: "fst (bs_get32 B 0 s) = of_nat k" "\<not> bs_fail B ?s"
    "cur ?s = cur s + length (W (F32 (of_nat k)))" "bs_bytes B ?s = bs_bytes B s"
    by (auto simp: read_law_def intro: prefix_appendD1)
  from s(2) have "prefix (encs W fs) (unread B cur ?s)"
    by (auto simp: unread_advance [OF 1(3,4)] prefix_def)
  with loop 1(2) obtain s' where "L k (g m, ?s) = (arr, s')" "\<not> bs_fail B s'"
    "cur s' = cur ?s + length (encs W fs)" "bs_bytes B s' = bs_bytes B ?s"
    unfolding consumes_def by blast
  with 1 show "fst (?p (m, s)) = u (\<lambda>_. arr) m \<and> \<not> bs_fail B (snd (?p (m, s))) \<and>
      cur (snd (?p (m, s))) = cur s + length (encs W (F32 (of_nat k) # fs)) \<and>
      bs_bytes B (snd (?p (m, s))) = bs_bytes B s"
    by (simp add: case_prod_unfold Let_def unat_of_nat_u32 [OF k])
next
  fix s
  let ?s = "snd (bs_get32 B 0 s)"
  assume s: "\<not> bs_fail B s" "strict_prefix (unread B cur s) (encs W (F32 (of_nat k) # fs))"
  note law = get32_law [OF B, of "of_nat k" s 0]
  from s(2) have "strict_prefix (unread B cur s) (W (F32 (of_nat k)) @ encs W fs)" by simp
  then show "bs_fail B (snd (?p (m, s)))"
  proof (rule strict_prefix_append_cases)
    assume "strict_prefix (unread B cur s) (W (F32 (of_nat k)))"
    with law s(1) have "bs_fail B ?s" by (simp add: read_law_def)
    then show ?thesis by (simp add: case_prod_unfold Let_def sticky)
  next
    fix c
    assume c: "unread B cur s = W (F32 (of_nat k)) @ c" "strict_prefix c (encs W fs)"
    with law s(1) have 1: "fst (bs_get32 B 0 s) = of_nat k" "\<not> bs_fail B ?s"
      "cur ?s = cur s + length (W (F32 (of_nat k)))" "bs_bytes B ?s = bs_bytes B s"
      by (auto simp: read_law_def)
    from c have "strict_prefix (unread B cur ?s) (encs W fs)"
      by (simp add: unread_advance [OF 1(3,4)])
    with loop 1 show ?thesis
      by (simp add: consumes_def case_prod_unfold Let_def unat_of_nat_u32 [OF k])
  qed
next
  fix n s
  assume "bs_fail B s"
  with get32_law [OF B, of 0 s 0] have "bs_fail B (snd (bs_get32 B 0 s))"
    by (simp add: read_law_def)
  then show "bs_fail B (snd (?p (n, s)))"
    by (simp add: case_prod_unfold Let_def sticky)
qed

lemma parse_u32s_sticky:
  "byte_stream B cur W \<Longrightarrow> bs_fail B s \<Longrightarrow> bs_fail B (snd (parse_u32s B n (arr, s)))"
proof (induction n arbitrary: arr s)
  case (Suc n)
  with get32_law [OF Suc.prems(1), of 0 s "uninit32 B"] show ?case
    by (simp add: read_law_def case_prod_unfold Let_def)
qed simp

lemma consumes_parse_u32s:
  assumes "byte_stream B cur W"
  shows "consumes B cur W (parse_u32s B (length xs)) (map F32 xs) arr (arr @ xs)"
proof (induction xs arbitrary: arr)
  case Nil
  show ?case by (rule consumesI) auto
next
  case (Cons x xs)
  have "consumes B cur W (\<lambda>(arr, s). let (v, s) = bs_get32 B (uninit32 B) s in (arr @ [v], s)) [F32 x]
      arr (arr @ [x])"
    using consumes_of_law [of B cur W "F32 x" x "\<lambda>_ s. bs_get32 B (uninit32 B) s"
        "\<lambda>f arr. arr @ [f 0]" arr] get32_law [OF assms, of x]
    by (simp add: case_prod_unfold Let_def)
  from consumes_seq [OF this Cons.IH] show ?case
    by (rule consumes_subst) (auto simp: fun_eq_iff case_prod_unfold Let_def)
qed

lemma consumes_basic_array:
  "byte_stream B cur W \<Longrightarrow> length xs < 2 ^ 32 \<Longrightarrow>
   consumes B cur W (PARSE_BASICTYPE_ARRAY_IMPLICIT B g u) (u32s_fields xs) m (u (\<lambda>_. g m @ xs) m)"
  unfolding PARSE_BASICTYPE_ARRAY_IMPLICIT_def u32s_fields_def
  by (rule consumes_counted) (auto intro: consumes_parse_u32s parse_u32s_sticky)

lemma parse_objs_sticky:
  assumes "\<And>e s. bs_fail B s \<Longrightarrow> bs_fail B (snd (snd (p e s)))"
  shows "bs_fail B s \<Longrightarrow> bs_fail B (snd (parse_objs p new n (arr, s)))"
  by (induction n arbitrary: arr s) (auto simp: assms case_prod_unfold Let_def)

lemma consumes_parse_objs:
  assumes "\<And>x. x \<in> set xs \<Longrightarrow> consumes B cur W (\<lambda>(e, s). snd (p e s)) (ef x) new (recv x)"
  shows "consumes B cur W (parse_objs p new (length xs)) (concat (map ef xs)) arr (arr @ map recv xs)"
  using assms
proof (induction xs arbitrary: arr)
  case Nil
  show ?case by (rule consumesI) auto
next
  case (Cons x xs)
  then have x: "consumes B cur W (\<lambda>(e, s). snd (p e s)) (ef x) new (recv x)" by simp
  have "consumes B cur W (\<lambda>(arr, s). let (_, obj, s) = p new s in (arr @ [obj], s)) (ef x)
      arr (arr @ [recv x])"
    by (rule consumesI) (use x in \<open>force simp: consumes_def case_prod_unfold Let_def\<close>)+
  moreover have "consumes B cur W (parse_objs p new (length xs)) (concat (map ef xs)) (arr @ [recv x])
      ((arr @ [recv x]) @ map recv xs)"
    using Cons.IH [of "arr @ [recv x]"] Cons.prems by simp
  ultimately have "consumes B cur W (\<lambda>y. parse_objs p new (length xs)
      ((\<lambda>(arr, s). let (_, obj, s) = p new s in (arr @ [obj], s)) y))
      (ef x @ concat (map ef xs)) arr ((arr @ [recv x]) @ map recv xs)"
    by (rule consumes_seq)
  then show ?case
    by (rule consumes_subst) (auto simp: fun_eq_iff case_prod_unfold Let_def)
qed

lemma consumes_object_array:
  assumes "byte_stream B cur W" "length xs < 2 ^ 32"
    and obj: "\<And>x. x \<in> set xs \<Longrightarrow> consumes B cur W (\<lambda>(e, s). snd (p e s)) (ef x) new (recv x)"
    and sticky: "\<And>e s. bs_fail B s \<Longrightarrow> bs_fail B (snd (snd (p e s)))"
  shows "consumes B cur W (PARSE_OBJECTPTR_ARRAY_IMPLICIT B p new g u) (objs_fields ef xs)
           m (u (\<lambda>_. g m @ map recv xs) m)"
  unfolding PARSE_OBJECTPTR_ARRAY_IMPLICIT_def objs_fields_def
  by (rule consumes_counted [OF assms(1,2)])
    (auto intro: consumes_parse_objs obj parse_objs_sticky sticky)

lemma consumes_read_ok:
  "consumes B cur W p fs m m' \<Longrightarrow> consumes B cur W (\<lambda>(e, s). snd (read_ok B (p (e, s)))) fs m m'"
  by (simp add: read_ok_def case_prod_unfold)

text \<open>Fields small enough for the wire: every string and every array length fits.\<close>

lemma fields_size_member: "f \<in> set fs \<Longrightarrow> field_size f \<le> fields_size fs"
  by (induction fs) auto

lemma u32s_fields_size [simp]: "fields_size (u32s_fields xs) = 4 + 4 * length xs"
  by (simp add: u32s_fields_def)

lemma objs_fields_size [simp]:
  "fields_size (objs_fields ef xs) = 4 + sum_list (map (\<lambda>x. fields_size (ef x)) xs)"
  by (simp add: objs_fields_def fields_size_concat_map)

lemma sum_list_ge_length: "(\<And>x. x \<in> set xs \<Longrightarrow> 1 \<le> f x) \<Longrightarrow> length xs \<le> sum_list (map f xs)"
  for f:: "'a \<Rightarrow> nat"
proof (induction xs)
  case (Cons x xs)
  then have "1 \<le> f x" "length xs \<le> sum_list (map f xs)" by auto
  then show ?case by simp
qed simp

lemma elem_le_sum_list_map: "x \<in> set xs \<Longrightarrow> f x \<le> sum_list (map f xs)"
  for f:: "'a \<Rightarrow> nat"
  by (induction xs) auto

subsection \<open>Read programs\<close>

text \<open>
  \<open>reads B cur W p fs m m'\<close>: over a stream that keeps its contract, and for fields that fit a
  packet of less than 4 GiB, \<open>p\<close> consumes \<open>fs\<close>. The rules have no side conditions, so a reader
  is checked statement by statement with \<open>rule reads_intros\<close>.
\<close>

definition reads ::
  "'s bytestream \<Rightarrow> ('s \<Rightarrow> nat) \<Rightarrow> wire \<Rightarrow> ('m \<times> 's \<Rightarrow> 'm \<times> 's) \<Rightarrow> field list \<Rightarrow> 'm \<Rightarrow> 'm \<Rightarrow> bool" where
  "reads B cur W p fs m m' \<longleftrightarrow>
     (byte_stream B cur W \<and> fields_size fs < 2 ^ 32 \<longrightarrow> consumes B cur W p fs m m')"

lemma reads_cong: "reads B cur W p fs m m1 \<Longrightarrow> m1 = m2 \<Longrightarrow> reads B cur W p fs m m2"
  by simp

lemma reads_Nil [reads_intros]: "reads B cur W (steps []) [] m m"
  by (simp add: reads_def consumes_Nil)

lemma reads_append [reads_intros]:
  "reads B cur W p fs m m1 \<Longrightarrow> reads B cur W (steps ps) gs m1 m2 \<Longrightarrow>
   reads B cur W (steps (p # ps)) (fs @ gs) m m2"
  by (auto simp: reads_def intro: consumes_append)

lemma reads_Cons [reads_intros]:
  "reads B cur W p [f] m m1 \<Longrightarrow> reads B cur W (steps ps) fs m1 m2 \<Longrightarrow>
   reads B cur W (steps (p # ps)) (f # fs) m m2"
  by (auto simp: reads_def intro: consumes_Cons)

lemma reads_last [reads_intros]:
  "reads B cur W p fs m m1 \<Longrightarrow> reads B cur W (steps [p]) fs m m1"
  by (simp add: reads_def consumes_last)

lemma reads_scalars [reads_intros]:
  "reads B cur W (in8 B g8 u8) [F8 w8] m (u8 (\<lambda>_. w8) m)"
  "reads B cur W (in16 B g16 u16) [F16 w16] m (u16 (\<lambda>_. w16) m)"
  "reads B cur W (in32 B g32 u32) [F32 w32] m (u32 (\<lambda>_. w32) m)"
  "reads B cur W (in_str B gs us) [FStr t] m (us (\<lambda>_. t) m)"
  by (simp_all add: reads_def consumes_in8 consumes_in16 consumes_in32 consumes_in_str)

lemma reads_basic_array [reads_intros]:
  "reads B cur W (PARSE_BASICTYPE_ARRAY_IMPLICIT B g u) (u32s_fields xs) m (u (\<lambda>_. g m @ xs) m)"
  by (simp add: reads_def consumes_basic_array)

lemma reads_object_array:
  fixes xs :: "'e list" and ef :: "'e \<Rightarrow> field list"
  assumes elem: "\<And>x. reads B cur W (\<lambda>(e, s). snd (p e s)) (ef x) new (recv x)"
    and pos: "\<And>x. 1 \<le> fields_size (ef x)"
    and small: "fields_size (ef new) < 2 ^ 32"
  shows "reads B cur W (PARSE_OBJECTPTR_ARRAY_IMPLICIT B p new g u) (objs_fields ef xs)
           m (u (\<lambda>_. g m @ map recv xs) m)"
proof -
  have "consumes B cur W (PARSE_OBJECTPTR_ARRAY_IMPLICIT B p new g u) (objs_fields ef xs)
           m (u (\<lambda>_. g m @ map recv xs) m)"
    if B: "byte_stream B cur W" and sz: "fields_size (objs_fields ef xs) < 2 ^ 32"
  proof (rule consumes_object_array [OF B])
    from sz sum_list_ge_length [of xs "\<lambda>x. fields_size (ef x)"] pos
    show "length xs < 2 ^ 32" by force
    show "consumes B cur W (\<lambda>(e, s). snd (p e s)) (ef x) new (recv x)" if "x \<in> set xs" for x
    proof -
      from that have "fields_size (ef x) \<le> sum_list (map (\<lambda>x. fields_size (ef x)) xs)"
        by (rule elem_le_sum_list_map)
      with sz elem [of x] B show ?thesis by (simp add: reads_def)
    qed
    show "bs_fail B (snd (snd (p e s)))" if "bs_fail B s" for e s
      using elem [of new] B small that by (auto simp: reads_def dest: consumes_sticky)
  qed
  then show ?thesis by (simp add: reads_def)
qed

lemma reads_result: "reads B cur W p fs m m' \<Longrightarrow>
  reads B cur W (\<lambda>(e, s). snd (read_ok B (p (e, s)))) fs m m'"
  by (simp add: reads_def consumes_read_ok)

end
