(* ===== verification/Base_Pdu.thy ===== *)
theory Base_Pdu
  imports Byte_Stream
begin

text \<open>
  The message base class \<^verbatim>\<open>BaseTeamTalkPDU\<close> (\<^verbatim>\<open>proto/base_teamtalk_pdu.h\<close>, \<^verbatim>\<open>.cc\<close>) and the
  contract its subclasses keep. \<open>base_pdu\<close> is the state every message has; a subclass is a
  record that extends it. Its four virtual members are arguments of the base-class operations,
  and the locale \<open>teamtalk_pdu\<close> states what they promise: the writer emits a list of wire
  fields, the reader consumes exactly that list, and \<^verbatim>\<open>ByteSize\<close> counts it. The lemmas of the
  locale are about whole packets, and hold for every subclass that interprets it.
\<close>

subsection \<open>State\<close>

datatype AttachDataType = kAttachDataTypeNull | kAttachDataTypeDB | kAttachDataTypePDU

text \<open>\<open>message_type\<close> and \<open>reserved\<close> are what \<^verbatim>\<open>message::MessagePDU\<close> (zutils) keeps: the
  constructor argument that \<^verbatim>\<open>message_type()\<close> returns, and the value of \<^verbatim>\<open>GetReserved\<close> and
  \<^verbatim>\<open>SetReserved\<close>.\<close>

record base_pdu =
  message_type :: u32
  reserved :: u16
  attach_data_type :: AttachDataType
  attach_data :: string

definition SIZEOF_STRING :: "string \<Rightarrow> u32" where
  "SIZEOF_STRING s = 4 + of_nat (length s)"

subsection \<open>Operations\<close>

definition BaseTeamTalkPDU_ctor ::
  "u32 \<Rightarrow> AttachDataType \<Rightarrow> 'm base_pdu_scheme \<Rightarrow> 'm base_pdu_scheme" where
  "BaseTeamTalkPDU_ctor mt at raw =
     raw\<lparr>message_type := mt, attach_data_type := at, attach_data := ''''\<rparr>"

definition BaseTeamTalkPDU_ByteSize :: "'m base_pdu_scheme \<Rightarrow> u32" where
  "BaseTeamTalkPDU_ByteSize m =
     (if attach_data_type m \<noteq> kAttachDataTypeNull then SIZEOF_STRING (attach_data m) else 0)"

definition HasAttachData :: "'m base_pdu_scheme \<Rightarrow> bool" where
  "HasAttachData m \<longleftrightarrow>
     attach_data_type m = kAttachDataTypeDB \<or> attach_data_type m = kAttachDataTypePDU"

definition BaseTeamTalkPDU_ParseFromArray ::
  "('s bytestream \<Rightarrow> 'm base_pdu_scheme \<Rightarrow> 's \<Rightarrow> bool \<times> 'm base_pdu_scheme \<times> 's) \<Rightarrow>
   's bytestream \<Rightarrow> 'm base_pdu_scheme \<Rightarrow> byte list \<Rightarrow> bool \<times> 'm base_pdu_scheme" where
  "BaseTeamTalkPDU_ParseFromArray ParseFromByteStream B m data =
     (let is = bs_open B data;
          (result, m, is) = ParseFromByteStream B m is
      in if result \<and> HasAttachData m
         then let (_, a, is) = bs_gets B (attach_data m) is
              in (\<not> bs_fail B is, m\<lparr>attach_data := a\<rparr>)
         else (result, m))"

definition BaseTeamTalkPDU_SerializeToArray ::
  "('s bytestream \<Rightarrow> 'm base_pdu_scheme \<Rightarrow> 's \<Rightarrow> bool \<times> 's) \<Rightarrow>
   's bytestream \<Rightarrow> 'm base_pdu_scheme \<Rightarrow> byte list \<Rightarrow> bool \<times> byte list" where
  "BaseTeamTalkPDU_SerializeToArray SerializeToByteStream B m data =
     (let os = bs_open B data;
          (result, os) = SerializeToByteStream B m os
      in if result \<and> HasAttachData m
         then let os = out_str B (attach_data m) os in (\<not> bs_fail B os, bs_bytes B os)
         else (result, bs_bytes B os))"

text \<open>The default implementations of the two protected virtual members.\<close>

definition BaseTeamTalkPDU_ParseFromByteStream ::
  "'s bytestream \<Rightarrow> 'm base_pdu_scheme \<Rightarrow> 's \<Rightarrow> bool \<times> 'm base_pdu_scheme \<times> 's" where
  "BaseTeamTalkPDU_ParseFromByteStream B m s = (True, m, s)"

definition BaseTeamTalkPDU_SerializeToByteStream ::
  "'s bytestream \<Rightarrow> 'm base_pdu_scheme \<Rightarrow> 's \<Rightarrow> bool \<times> 's" where
  "BaseTeamTalkPDU_SerializeToByteStream B m s = (True, s)"

text \<open>\<^verbatim>\<open>SetAttachData(const std::string&)\<close> and the variant with a pointer and a length, which
  copies the first \<open>data_len\<close> characters. A message without attach data ignores both (in a
  debug build the \<^verbatim>\<open>DCHECK\<close> stops the program first).\<close>

definition SetAttachData :: "string \<Rightarrow> 'm base_pdu_scheme \<Rightarrow> 'm base_pdu_scheme" where
  "SetAttachData data m = (if HasAttachData m then m\<lparr>attach_data := data\<rparr> else m)"

definition SetAttachData_len :: "string \<Rightarrow> u32 \<Rightarrow> 'm base_pdu_scheme \<Rightarrow> 'm base_pdu_scheme" where
  "SetAttachData_len data data_len m =
     (if HasAttachData m then m\<lparr>attach_data := take (unat data_len) data\<rparr> else m)"

text \<open>The getters return a null pointer, here \<open>None\<close>, for a message without attach data.\<close>

definition GetAttachData :: "'m base_pdu_scheme \<Rightarrow> string option" where
  "GetAttachData m = (if HasAttachData m then Some (attach_data m) else None)"

definition MutableAttachData ::
  "(string \<Rightarrow> string) \<Rightarrow> 'm base_pdu_scheme \<Rightarrow> 'm base_pdu_scheme option" where
  "MutableAttachData f m =
     (if HasAttachData m then Some (m\<lparr>attach_data := f (attach_data m)\<rparr>) else None)"

definition CalculateContainerByteSize :: "u32 list \<Rightarrow> u32" where
  "CalculateContainerByteSize container =
     4 + of_nat (if container = [] then 0 else length container) * 4"

text \<open>\<^verbatim>\<open>CalculateContainerByteSize2(size, arr)\<close>: what the macro makes of \<open>size\<close>.\<close>

definition CalculateContainerByteSize2 :: "u32 \<Rightarrow> ('e \<Rightarrow> u32) \<Rightarrow> 'e list \<Rightarrow> u32" where
  "CalculateContainerByteSize2 sz ByteSize arr = fold (\<lambda>x sz. sz + ByteSize x) arr (sz + 4)"

lemma HasAttachData_iff: "HasAttachData m \<longleftrightarrow> attach_data_type m \<noteq> kAttachDataTypeNull"
  by (cases "attach_data_type m") (auto simp: HasAttachData_def)

lemma CalculateContainerByteSize_eq [simp]:
  "CalculateContainerByteSize xs = of_nat (fields_size (u32s_fields xs))"
  by (simp add: CalculateContainerByteSize_def)

lemma CalculateContainerByteSize2_eq:
  assumes "\<And>x. ByteSize x = of_nat (fields_size (ef x))"
  shows "CalculateContainerByteSize2 sz ByteSize xs = sz + of_nat (fields_size (objs_fields ef xs))"
proof -
  have "fold (\<lambda>x sz. sz + ByteSize x) xs z = z + of_nat (sum_list (map (\<lambda>x. fields_size (ef x)) xs))"
    for z
    by (induction xs arbitrary: z) (simp_all add: assms)
  then show ?thesis
    by (simp add: CalculateContainerByteSize2_def)
qed

subsection \<open>The subclass contract\<close>

text \<open>The wire fields of a whole packet: those of the subclass, then the attach data if the
  message has any.\<close>

definition wire_fields :: "('m base_pdu_scheme \<Rightarrow> field list) \<Rightarrow> 'm base_pdu_scheme \<Rightarrow> field list" where
  "wire_fields F m = F m @ (if HasAttachData m then [FStr (attach_data m)] else [])"

text \<open>What a receiver holds after it has read into the object \<open>m0\<close> the members of \<open>m\<close>: those of
  the subclass are \<open>m\<close>'s, those of the base class stay as they are in \<open>m0\<close>. \<open>received\<close> adds the
  attach data.\<close>

definition rebase :: "'m base_pdu_scheme \<Rightarrow> 'm base_pdu_scheme \<Rightarrow> 'm base_pdu_scheme" where
  "rebase m0 m = m\<lparr>message_type := message_type m0, reserved := reserved m0,
     attach_data_type := attach_data_type m0, attach_data := attach_data m0\<rparr>"

definition received :: "'m base_pdu_scheme \<Rightarrow> 'm base_pdu_scheme \<Rightarrow> 'm base_pdu_scheme" where
  "received m0 m = m\<lparr>message_type := message_type m0, reserved := reserved m0,
     attach_data_type := attach_data_type m0,
     attach_data := if HasAttachData m0 then attach_data m else attach_data m0\<rparr>"

text \<open>\<open>canon n m\<close> is \<open>m\<close> with the members that do not cross the wire as a reader leaves them that
  started from the object \<open>n\<close>; it is \<open>m\<close> itself for most classes.\<close>

locale teamtalk_pdu =
  fixes ctor :: "'m base_pdu_scheme \<Rightarrow> 'm base_pdu_scheme"
    and parse :: "'s bytestream \<Rightarrow> 'm base_pdu_scheme \<Rightarrow> 's \<Rightarrow> bool \<times> 'm base_pdu_scheme \<times> 's"
    and ser :: "'s bytestream \<Rightarrow> 'm base_pdu_scheme \<Rightarrow> 's \<Rightarrow> bool \<times> 's"
    and bytesize :: "'m base_pdu_scheme \<Rightarrow> u32"
    and fields :: "'m base_pdu_scheme \<Rightarrow> field list"
    and canon :: "'m base_pdu_scheme \<Rightarrow> 'm base_pdu_scheme \<Rightarrow> 'm base_pdu_scheme"
  assumes ser_fields: "ser B m s = write_ok B (put_fields B (fields m) s)"
    and parse_result: "fst (parse B n s) = (\<not> bs_fail B (snd (snd (parse B n s))))"
    and parse_reads: "reads B cur W (\<lambda>(n, s). snd (parse B n s)) (fields m)
      (ctor raw) (rebase (ctor raw) (canon (ctor raw) m))"
    and canon_attach: "attach_data (canon n m) = attach_data m"
    and bytesize_fields: "bytesize m = BaseTeamTalkPDU_ByteSize m + of_nat (fields_size (fields m))"
begin

lemma parse_consumes: "byte_stream B cur W \<Longrightarrow> fields_size (fields m) < 2 ^ 32 \<Longrightarrow>
    consumes B cur W (\<lambda>(n, s). snd (parse B n s)) (fields m) (ctor raw) (rebase (ctor raw) (canon (ctor raw) m))"
  using parse_reads by (simp add: reads_def)

text \<open>\<^verbatim>\<open>ByteSize\<close> is the size of the packet, as a \<^verbatim>\<open>uint32\<close>.\<close>

lemma bytesize_exact: "bytesize m = of_nat (fields_size (wire_fields fields m))"
  by (simp add: bytesize_fields wire_fields_def HasAttachData_iff BaseTeamTalkPDU_ByteSize_def
      SIZEOF_STRING_def)

lemma serialize_stream:
  "BaseTeamTalkPDU_SerializeToArray ser B m data =
     (let s = put_fields B (fields m) (bs_open B data);
          s' = put_fields B (wire_fields fields m) (bs_open B data)
      in if bs_fail B s then (False, bs_bytes B s) else (\<not> bs_fail B s', bs_bytes B s'))"
  by (simp add: BaseTeamTalkPDU_SerializeToArray_def wire_fields_def ser_fields write_ok_def Let_def)

text \<open>Serialisation into an array with enough room succeeds and writes the packet at its start.\<close>

lemma serialize_fits:
  assumes B: "byte_stream B cur W"
    and room: "fields_size (wire_fields fields m) \<le> length data"
  shows "BaseTeamTalkPDU_SerializeToArray ser B m data =
    (True, encs W (wire_fields fields m) @ drop (fields_size (wire_fields fields m)) data)"
proof -
  note o = bs_openD [OF B]
  from room have "fields_size (fields m) \<le> length data" by (simp add: wire_fields_def)
  with put_fields_fit [OF B o(1), of data "fields m"]
      put_fields_fit [OF B o(1), of data "wire_fields fields m"]
    room o show ?thesis
    by (simp add: serialize_stream Let_def)
qed

text \<open>Serialisation into a shorter array reports failure.\<close>

lemma serialize_too_short:
  assumes B: "byte_stream B cur W"
    and room: "length data < fields_size (wire_fields fields m)"
  shows "\<not> fst (BaseTeamTalkPDU_SerializeToArray ser B m data)"
  using put_fields_short [OF B bs_openD(1) [OF B], of data "wire_fields fields m"] room bs_openD [OF B]
  by (simp add: serialize_stream Let_def)

lemma encs_length: "byte_stream B cur W \<Longrightarrow> length (encs W fs) = fields_size fs"
  by (induction fs) (auto simp: wire_length)

lemma parse_open:
  assumes B: "byte_stream B cur W" and sz: "fields_size (fields m) < 2 ^ 32"
    and pre: "prefix (encs W (fields m)) d"
  obtains s' where "parse B (ctor raw) (bs_open B d) = (True, rebase (ctor raw) (canon (ctor raw) m), s')"
    "\<not> bs_fail B s'" "cur s' = length (encs W (fields m))" "bs_bytes B s' = d"
proof (rule consumes_prefixE [OF parse_consumes [OF B sz, of raw], of "bs_open B d"])
  note o = bs_openD [OF B, of d]
  show "\<not> bs_fail B (bs_open B d)" by (rule o)
  show "prefix (encs W (fields m)) (unread B cur (bs_open B d))" by (simp add: unread_def o pre)
  fix s'
  assume s': "(case (ctor raw, bs_open B d) of (n, s) \<Rightarrow> snd (parse B n s)) =
      (rebase (ctor raw) (canon (ctor raw) m), s')" "\<not> bs_fail B s'"
    "cur s' = cur (bs_open B d) + length (encs W (fields m))" "bs_bytes B s' = bs_bytes B (bs_open B d)"
  moreover from s' have "fst (parse B (ctor raw) (bs_open B d))" by (simp add: parse_result)
  ultimately show thesis using that [of s'] by (simp add: o prod_eq_iff)
qed

text \<open>Parsing a packet into a newly constructed object succeeds and delivers the message.\<close>

lemma parse_packet:
  assumes B: "byte_stream B cur W"
    and sz: "fields_size (wire_fields fields m) < 2 ^ 32"
    and at: "attach_data_type m = attach_data_type (ctor raw)"
  shows "BaseTeamTalkPDU_ParseFromArray parse B (ctor raw) (encs W (wire_fields fields m) @ rest) =
    (True, received (ctor raw) (canon (ctor raw) m))"
proof -
  let ?d = "encs W (wire_fields fields m) @ rest"
  have has: "HasAttachData m \<longleftrightarrow> HasAttachData (ctor raw)" by (simp add: HasAttachData_iff at)
  from sz have "fields_size (fields m) < 2 ^ 32" by (simp add: wire_fields_def)
  then obtain s' where p: "parse B (ctor raw) (bs_open B ?d) = (True, rebase (ctor raw) (canon (ctor raw) m), s')"
    and s': "\<not> bs_fail B s'" "cur s' = length (encs W (fields m))" "bs_bytes B s' = ?d"
    by (rule parse_open [OF B, of m ?d raw]) (simp add: wire_fields_def)
  show ?thesis
  proof (cases "HasAttachData m")
    case True
    then have "prefix (W (FStr (attach_data m))) (unread B cur s')"
      by (simp add: unread_def s' wire_fields_def)
    moreover have "length (attach_data m) < 2 ^ 32" using True sz by (simp add: wire_fields_def)
    ultimately have "fst (snd (bs_gets B (attach_data (ctor raw)) s')) = attach_data m"
      "\<not> bs_fail B (snd (snd (bs_gets B (attach_data (ctor raw)) s')))"
      using gets_law [OF B, of "attach_data m" s' "attach_data (ctor raw)"] s'(1)
      by (simp_all add: read_law_def)
    with True has show ?thesis
      by (simp add: BaseTeamTalkPDU_ParseFromArray_def p rebase_def received_def HasAttachData_def
          case_prod_unfold Let_def canon_attach)
  next
    case False
    with has show ?thesis
      by (simp add: BaseTeamTalkPDU_ParseFromArray_def p rebase_def received_def HasAttachData_def)
  qed
qed

text \<open>Parsing a packet that was cut short reports failure.\<close>

lemma parse_truncated:
  assumes B: "byte_stream B cur W"
    and sz: "fields_size (wire_fields fields m) < 2 ^ 32"
    and at: "attach_data_type m = attach_data_type (ctor raw)"
    and cut: "strict_prefix data (encs W (wire_fields fields m))"
  shows "\<not> fst (BaseTeamTalkPDU_ParseFromArray parse B (ctor raw) data)"
proof -
  note o = bs_openD [OF B, of data]
  have un: "unread B cur (bs_open B data) = data" by (simp add: unread_def o)
  have has: "HasAttachData m \<longleftrightarrow> HasAttachData (ctor raw)" by (simp add: HasAttachData_iff at)
  let ?r = "parse B (ctor raw) (bs_open B data)"
  note rd = parse_consumes [OF B, of m raw]
  from sz have szf: "fields_size (fields m) < 2 ^ 32" by (simp add: wire_fields_def)
  let ?tail = "if HasAttachData m then [FStr (attach_data m)] else []"
  from cut have "strict_prefix data (encs W (fields m) @ encs W ?tail)"
    by (simp add: wire_fields_def)
  then show ?thesis
  proof (rule strict_prefix_append_cases)
    assume "strict_prefix data (encs W (fields m))"
    with rd [OF szf] o un have "bs_fail B (snd (snd ?r))" by (simp add: consumes_def)
    then have "\<not> fst ?r" by (simp add: parse_result)
    then show ?thesis
      by (simp add: BaseTeamTalkPDU_ParseFromArray_def case_prod_unfold Let_def)
  next
    fix c
    assume c: "data = encs W (fields m) @ c" "strict_prefix c (encs W ?tail)"
    then have t: "HasAttachData m" "strict_prefix c (W (FStr (attach_data m)))"
      by (auto split: if_splits)
    from c(1) obtain s' where p: "?r = (True, rebase (ctor raw) (canon (ctor raw) m), s')"
      and s': "\<not> bs_fail B s'" "cur s' = length (encs W (fields m))" "bs_bytes B s' = data"
      by (auto intro: parse_open [OF B szf, of data raw])
    from t(1) sz have "length (attach_data m) < 2 ^ 32" by (simp add: wire_fields_def)
    moreover have "unread B cur s' = c" by (simp add: unread_def s' c(1))
    ultimately have "bs_fail B (snd (snd (bs_gets B (attach_data (ctor raw)) s')))"
      using gets_law [OF B, of "attach_data m" s' "attach_data (ctor raw)"] s'(1) t(2)
      by (simp add: read_law_def)
    with t(1) has show ?thesis
      by (simp add: BaseTeamTalkPDU_ParseFromArray_def p rebase_def HasAttachData_def
          case_prod_unfold Let_def)
  qed
qed

text \<open>The two together: what is serialised into an array of \<^verbatim>\<open>ByteSize\<close> bytes is parsed back.\<close>

lemma roundtrip:
  assumes B: "byte_stream B cur W"
    and sz: "fields_size (wire_fields fields m) < 2 ^ 32"
    and at: "attach_data_type m = attach_data_type (ctor raw)"
    and buf: "length data = unat (bytesize m)"
  shows "\<exists>packet. BaseTeamTalkPDU_SerializeToArray ser B m data = (True, packet) \<and>
    length packet = unat (bytesize m) \<and>
    BaseTeamTalkPDU_ParseFromArray parse B (ctor raw) packet = (True, received (ctor raw) (canon (ctor raw) m)) \<and>
    (\<forall>n < length packet. \<not> fst (BaseTeamTalkPDU_ParseFromArray parse B (ctor raw) (take n packet)))"
proof -
  let ?p = "encs W (wire_fields fields m)"
  have len: "length data = fields_size (wire_fields fields m)"
    using buf sz by (simp add: bytesize_exact unat_of_nat_u32)
  then have "BaseTeamTalkPDU_SerializeToArray ser B m data = (True, ?p)"
    using serialize_fits [OF B, of m data] by simp
  moreover have "BaseTeamTalkPDU_ParseFromArray parse B (ctor raw) ?p = (True, received (ctor raw) (canon (ctor raw) m))"
    using parse_packet [OF B sz at, of "[]"] by simp
  moreover have "\<not> fst (BaseTeamTalkPDU_ParseFromArray parse B (ctor raw) (take n ?p))"
    if "n < length ?p" for n
    using parse_truncated [OF B sz at] take_strict_prefix [OF that] by blast
  ultimately show ?thesis using len buf encs_length [OF B] by auto
qed

end

subsection \<open>Members a reader does not touch\<close>

text \<open>Whatever the bytes are: \<open>keeps f p\<close> says that the read program \<open>p\<close> leaves the member \<open>f\<close> as
  it is.\<close>

definition keeps :: "('m \<Rightarrow> 'v) \<Rightarrow> ('m \<times> 's \<Rightarrow> 'm \<times> 's) \<Rightarrow> bool" where
  "keeps f p \<longleftrightarrow> (\<forall>m s. f (fst (p (m, s))) = f m)"

lemma keeps_steps [keeps_intros]:
  "keeps f (steps [])"
  "keeps f p \<Longrightarrow> keeps f (steps ps) \<Longrightarrow> keeps f (steps (p # ps))"
  by (simp_all add: keeps_def) (metis prod.collapse)

lemma keeps_statements [keeps_intros]:
  "(\<And>m v. f (u8 (\<lambda>_. v) m) = f m) \<Longrightarrow> keeps f (in8 B g8 u8)"
  "(\<And>m v. f (u16 (\<lambda>_. v) m) = f m) \<Longrightarrow> keeps f (in16 B g16 u16)"
  "(\<And>m v. f (u32 (\<lambda>_. v) m) = f m) \<Longrightarrow> keeps f (in32 B g32 u32)"
  "(\<And>m v. f (us (\<lambda>_. v) m) = f m) \<Longrightarrow> keeps f (in_str B gs us)"
  "(\<And>m v. f (ua (\<lambda>_. v) m) = f m) \<Longrightarrow> keeps f (PARSE_BASICTYPE_ARRAY_IMPLICIT B ga ua)"
  "(\<And>m v. f (uo (\<lambda>_. v) m) = f m) \<Longrightarrow> keeps f (PARSE_OBJECTPTR_ARRAY_IMPLICIT B p new go uo)"
  by (simp_all add: keeps_def in8_def in16_def in32_def in_str_def
      PARSE_BASICTYPE_ARRAY_IMPLICIT_def PARSE_OBJECTPTR_ARRAY_IMPLICIT_def case_prod_unfold Let_def)

definition pdu_kind :: "'m base_pdu_scheme \<Rightarrow> u32 \<times> AttachDataType" where
  "pdu_kind m = (message_type m, attach_data_type m)"

lemma pdu_kind_truncate [simp]: "pdu_kind (base_pdu.truncate m) = pdu_kind m"
  by (simp add: pdu_kind_def base_pdu.defs)

lemma parse_keeps_kind:
  assumes "\<And>B m s. parse B m s = read_ok B (steps (P B) (m, s))"
    and "\<And>B. keeps pdu_kind (steps (P B))"
  shows "pdu_kind (snd (BaseTeamTalkPDU_ParseFromArray parse B m data)) = pdu_kind m"
  using assms(2) [of B]
  by (simp add: BaseTeamTalkPDU_ParseFromArray_def assms(1) read_ok_def case_prod_unfold Let_def
      keeps_def pdu_kind_def)

text \<open>Introduction of the contract for a subclass whose reader is a sequence of read statements.\<close>

lemma teamtalk_pduI:
  fixes parse :: "'s bytestream \<Rightarrow> 'm base_pdu_scheme \<Rightarrow> 's \<Rightarrow> bool \<times> 'm base_pdu_scheme \<times> 's"
    and fields :: "'m base_pdu_scheme \<Rightarrow> field list"
  assumes "\<And>B m s. parse B m s = read_ok B (steps (P B) (m, s))"
    and "\<And>(B :: 's bytestream) cur W m raw.
      reads B cur W (steps (P B)) (fields m) (ctor raw) (recv raw m)"
    and "\<And>raw m. recv raw m = rebase (ctor raw) (canon (ctor raw) m)"
    and "\<And>B m s. ser B m s = write_ok B (put_fields B (fields m) s)"
    and "\<And>n m. attach_data (canon n m) = attach_data m"
    and "\<And>m. bytesize m = BaseTeamTalkPDU_ByteSize m + of_nat (fields_size (fields m))"
  shows "teamtalk_pdu ctor parse ser bytesize fields canon"
proof
  fix B :: "'s bytestream" and cur W m raw
  from reads_result [OF assms(2)]
  show "reads B cur W (\<lambda>(n, s). snd (parse B n s)) (fields m) (ctor raw) (rebase (ctor raw) (canon (ctor raw) m))"
    by (simp add: assms(1,3))
qed (simp_all add: assms read_ok_def case_prod_unfold)

lemmas base_ctor_defs [pdu_defs] = BaseTeamTalkPDU_ctor_def rebase_def SIZEOF_STRING_def write_ok_def

end
