(* ===== verification/Base_Data.thy ===== *)
theory Base_Data
  imports Base_Pdu
begin

text \<open>
  The structures of \<^verbatim>\<open>proto/base_data.h\<close> that messages carry. \<open>new_X\<close> is what \<^verbatim>\<open>new X()\<close> gives:
  the structures have no constructor of their own, so their numbers start at 0 and their
  strings and vectors empty.
\<close>

record UserInfo =
  user_id :: u32
  name :: string
  nick_name :: string
  avatar_url :: string
  title :: string
  position :: string
  role_status :: u32
  sex :: u32
  depart_id :: u32
  job_num :: u32
  telphone :: string
  email :: string
  user_updated :: u32

definition new_UserInfo :: UserInfo where
  [pdu_defs]: "new_UserInfo =
     \<lparr>user_id = 0, name = '''', nick_name = '''', avatar_url = '''', title = '''',
     position = '''', role_status = 0, sex = 0, depart_id = 0, job_num = 0, telphone = '''',
     email = '''', user_updated = 0\<rparr>"

record FriendInfo =
  friend_user_id :: u32
  updated :: u32

definition new_FriendInfo :: FriendInfo where
  [pdu_defs]: "new_FriendInfo =
     \<lparr>friend_user_id = 0, updated = 0\<rparr>"

record DepartmentInfo =
  depart_id :: u32
  title :: string
  description :: string
  parent_depart_id :: u32
  leader :: u32
  status :: u32

definition new_DepartmentInfo :: DepartmentInfo where
  [pdu_defs]: "new_DepartmentInfo =
     \<lparr>depart_id = 0, title = '''', description = '''', parent_depart_id = 0, leader = 0,
     status = 0\<rparr>"

record UserUnreadMsgCount =
  from_user_id :: u32
  unread_msg_count :: u32

definition new_UserUnreadMsgCount :: UserUnreadMsgCount where
  [pdu_defs]: "new_UserUnreadMsgCount =
     \<lparr>from_user_id = 0, unread_msg_count = 0\<rparr>"

record ServerMsg =
  from_user_id :: u32
  from_name :: string
  from_nick_name :: string
  from_avatar_url :: string
  create_time :: u32
  msg_type :: u8
  msg_data :: string

definition new_ServerMsg :: ServerMsg where
  [pdu_defs]: "new_ServerMsg =
     \<lparr>from_user_id = 0, from_name = '''', from_nick_name = '''', from_avatar_url = '''',
     create_time = 0, msg_type = 0, msg_data = ''''\<rparr>"

record GroupInfo =
  group_id :: u32
  group_name :: string
  group_avatar :: string
  group_creator_id :: u32
  group_type :: u32
  group_updated :: u32
  group_memeber_list :: "u32 list"

definition new_GroupInfo :: GroupInfo where
  [pdu_defs]: "new_GroupInfo =
     \<lparr>group_id = 0, group_name = '''', group_avatar = '''', group_creator_id = 0,
     group_type = 0, group_updated = 0, group_memeber_list = []\<rparr>"

record GroupUnreadMsgCount =
  group_id :: u32
  unread_msg_count :: u32

definition new_GroupUnreadMsgCount :: GroupUnreadMsgCount where
  [pdu_defs]: "new_GroupUnreadMsgCount =
     \<lparr>group_id = 0, unread_msg_count = 0\<rparr>"

record GroupMsg =
  from_user_id :: u32
  create_time :: u32
  msg_content :: string

definition new_GroupMsg :: GroupMsg where
  [pdu_defs]: "new_GroupMsg =
     \<lparr>from_user_id = 0, create_time = 0, msg_content = ''''\<rparr>"

record OfflineFile =
  from_id :: u32
  task_id :: string
  file_name :: string
  file_size :: u32

definition new_OfflineFile :: OfflineFile where
  [pdu_defs]: "new_OfflineFile =
     \<lparr>from_id = 0, task_id = '''', file_name = '''', file_size = 0\<rparr>"

end
