(* ===== verification/Pdu_Login.thy ===== *)
theory Pdu_Login
  imports Pdu_Types Base_Data
begin

text \<open>
  Messages of the login and contact list services.
\<close>

subsection \<open>\<^verbatim>\<open>ValidateRequest\<close>: \<^verbatim>\<open>proto/validate_request.h\<close>, \<^verbatim>\<open>.cc\<close>\<close>

record ValidateRequest = base_pdu +
  user_name :: string
  password :: string

definition ValidateRequest_ctor :: "ValidateRequest \<Rightarrow> ValidateRequest" where
  [pdu_defs]: "ValidateRequest_ctor raw =
     (BaseTeamTalkPDU_ctor MESSAGE_VALIDATE_REQUEST kAttachDataTypeDB raw)
       \<lparr>user_name := '''', password := ''''\<rparr>"

definition ValidateRequest_ByteSize :: "ValidateRequest \<Rightarrow> u32" where
  [pdu_defs]: "ValidateRequest_ByteSize m =
     BaseTeamTalkPDU_ByteSize m + SIZEOF_STRING (user_name m) + SIZEOF_STRING (password m)"

definition ValidateRequest_ParseFromByteStream ::
  "'s bytestream \<Rightarrow> ValidateRequest \<Rightarrow> 's \<Rightarrow> bool \<times> ValidateRequest \<times> 's" where
  "ValidateRequest_ParseFromByteStream B m s = read_ok B (steps [
     in_str B user_name user_name_update,
     in_str B password password_update] (m, s))"

definition ValidateRequest_SerializeToByteStream ::
  "'s bytestream \<Rightarrow> ValidateRequest \<Rightarrow> 's \<Rightarrow> bool \<times> 's" where
  [pdu_defs]: "ValidateRequest_SerializeToByteStream B m s = write_ok B (steps [
     out_str B (user_name m),
     out_str B (password m)] s)"

definition ValidateRequest_fields :: "ValidateRequest \<Rightarrow> field list" where
  [pdu_defs, fields_defs]: "ValidateRequest_fields m =
     [FStr (user_name m), FStr (password m)]"

interpretation ValidateRequest_pdu: teamtalk_pdu ValidateRequest_ctor
  ValidateRequest_ParseFromByteStream ValidateRequest_SerializeToByteStream
  ValidateRequest_ByteSize ValidateRequest_fields "\<lambda>n m. m"
  by (rule teamtalk_pduI, rule ValidateRequest_ParseFromByteStream_def, unfold fields_defs,
      (rule reads_intros)+)
    (simp_all add: pdu_defs)

subsection \<open>\<^verbatim>\<open>AllUserRequest\<close>: \<^verbatim>\<open>proto/all_user_request.h\<close>, \<^verbatim>\<open>.cc\<close>\<close>

record AllUserRequest = base_pdu +
  req_user_id :: u32

definition AllUserRequest_ctor :: "AllUserRequest \<Rightarrow> AllUserRequest" where
  [pdu_defs]: "AllUserRequest_ctor raw =
     BaseTeamTalkPDU_ctor MESSAGE_ALL_USER_REQUEST kAttachDataTypeDB raw"

definition AllUserRequest_ByteSize :: "AllUserRequest \<Rightarrow> u32" where
  [pdu_defs]: "AllUserRequest_ByteSize m =
     BaseTeamTalkPDU_ByteSize m + 4"

definition AllUserRequest_ParseFromByteStream ::
  "'s bytestream \<Rightarrow> AllUserRequest \<Rightarrow> 's \<Rightarrow> bool \<times> AllUserRequest \<times> 's" where
  "AllUserRequest_ParseFromByteStream B m s = read_ok B (steps [
     in32 B req_user_id req_user_id_update] (m, s))"

definition AllUserRequest_SerializeToByteStream ::
  "'s bytestream \<Rightarrow> AllUserRequest \<Rightarrow> 's \<Rightarrow> bool \<times> 's" where
  [pdu_defs]: "AllUserRequest_SerializeToByteStream B m s = write_ok B (steps [
     bs_put32 B (req_user_id m)] s)"

definition AllUserRequest_fields :: "AllUserRequest \<Rightarrow> field list" where
  [pdu_defs, fields_defs]: "AllUserRequest_fields m =
     [F32 (req_user_id m)]"

interpretation AllUserRequest_pdu: teamtalk_pdu AllUserRequest_ctor
  AllUserRequest_ParseFromByteStream AllUserRequest_SerializeToByteStream
  AllUserRequest_ByteSize AllUserRequest_fields "\<lambda>n m. m"
  by (rule teamtalk_pduI, rule AllUserRequest_ParseFromByteStream_def, unfold fields_defs,
      (rule reads_intros)+)
    (simp_all add: pdu_defs)

subsection \<open>\<^verbatim>\<open>AllUserResponse\<close>: \<^verbatim>\<open>proto/all_user_response.h\<close>, \<^verbatim>\<open>.cc\<close>\<close>

definition all_user_response_ByteSize :: "UserInfo \<Rightarrow> u32" where
  [pdu_defs]: "all_user_response_ByteSize e =
     4 + SIZEOF_STRING (UserInfo.name e) + SIZEOF_STRING (UserInfo.nick_name e)
     + SIZEOF_STRING (UserInfo.avatar_url e) + SIZEOF_STRING (UserInfo.title e)
     + SIZEOF_STRING (UserInfo.position e) + 4 + 4 + 4 + 4 + SIZEOF_STRING (UserInfo.telphone e)
     + SIZEOF_STRING (UserInfo.email e)"

definition all_user_response_ParseFromByteStream ::
  "'s bytestream \<Rightarrow> UserInfo \<Rightarrow> 's \<Rightarrow> bool \<times> UserInfo \<times> 's" where
  "all_user_response_ParseFromByteStream B e s = read_ok B (steps [
     in32 B UserInfo.user_id UserInfo.user_id_update,
     in_str B UserInfo.name UserInfo.name_update,
     in_str B UserInfo.nick_name UserInfo.nick_name_update,
     in_str B UserInfo.avatar_url UserInfo.avatar_url_update,
     in_str B UserInfo.title UserInfo.title_update,
     in_str B UserInfo.position UserInfo.position_update,
     in32 B UserInfo.role_status UserInfo.role_status_update,
     in32 B UserInfo.sex UserInfo.sex_update,
     in32 B UserInfo.depart_id UserInfo.depart_id_update,
     in32 B UserInfo.job_num UserInfo.job_num_update,
     in_str B UserInfo.telphone UserInfo.telphone_update,
     in_str B UserInfo.email UserInfo.email_update] (e, s))"

definition all_user_response_SerializeToByteStream ::
  "'s bytestream \<Rightarrow> UserInfo \<Rightarrow> 's \<Rightarrow> bool \<times> 's" where
  [pdu_defs]: "all_user_response_SerializeToByteStream B e s = write_ok B (steps [
     bs_put32 B (UserInfo.user_id e),
     out_str B (UserInfo.name e),
     out_str B (UserInfo.nick_name e),
     out_str B (UserInfo.avatar_url e),
     out_str B (UserInfo.title e),
     out_str B (UserInfo.position e),
     bs_put32 B (UserInfo.role_status e),
     bs_put32 B (UserInfo.sex e),
     bs_put32 B (UserInfo.depart_id e),
     bs_put32 B (UserInfo.job_num e),
     out_str B (UserInfo.telphone e),
     out_str B (UserInfo.email e)] s)"

definition all_user_response_fields :: "UserInfo \<Rightarrow> field list" where
  [pdu_defs]: "all_user_response_fields e =
     [F32 (UserInfo.user_id e), FStr (UserInfo.name e), FStr (UserInfo.nick_name e),
     FStr (UserInfo.avatar_url e), FStr (UserInfo.title e), FStr (UserInfo.position e),
     F32 (UserInfo.role_status e), F32 (UserInfo.sex e), F32 (UserInfo.depart_id e),
     F32 (UserInfo.job_num e), FStr (UserInfo.telphone e), FStr (UserInfo.email e)]"

definition all_user_response_canon :: "UserInfo \<Rightarrow> UserInfo" where
  [pdu_defs]: "all_user_response_canon e = e\<lparr>UserInfo.user_updated := 0\<rparr>"

lemma all_user_response_reads:
  "reads B cur W (\<lambda>(e, s). snd (all_user_response_ParseFromByteStream B e s))
    (all_user_response_fields e) new_UserInfo (all_user_response_canon e)"
  unfolding all_user_response_ParseFromByteStream_def all_user_response_fields_def
  by (rule reads_cong, rule reads_result, (rule reads_intros)+) (simp add: pdu_defs)

lemma all_user_response_array [reads_intros]:
  "reads B cur W (PARSE_OBJECTPTR_ARRAY_IMPLICIT B (all_user_response_ParseFromByteStream B)
      new_UserInfo g u)
    (objs_fields all_user_response_fields xs) m (u (\<lambda>_. g m @ map all_user_response_canon xs) m)"
  by (rule reads_object_array [OF all_user_response_reads]) (simp_all add: pdu_defs)

lemma all_user_response_writes [pdu_defs]:
  "SERIALIZE_OBJECTPTR_ARRAY_IMPLICIT B (all_user_response_SerializeToByteStream B) xs s =
     put_fields B (objs_fields all_user_response_fields xs) s"
  by (rule write_objs) (simp add: pdu_defs)

lemma all_user_response_sizes [pdu_defs]:
  "CalculateContainerByteSize2 sz all_user_response_ByteSize xs =
     sz + of_nat (fields_size (objs_fields all_user_response_fields xs))"
  by (rule CalculateContainerByteSize2_eq) (simp add: pdu_defs)

record AllUserResponse = base_pdu +
  from_user_id :: u32
  user_info_list :: "UserInfo list"

definition AllUserResponse_ctor :: "AllUserResponse \<Rightarrow> AllUserResponse" where
  [pdu_defs]: "AllUserResponse_ctor raw =
     (BaseTeamTalkPDU_ctor MESSAGE_ALL_USER_RESPONSE kAttachDataTypeDB raw)
       \<lparr>user_info_list := []\<rparr>"

definition AllUserResponse_ByteSize :: "AllUserResponse \<Rightarrow> u32" where
  [pdu_defs]: "AllUserResponse_ByteSize m =
     (let sz = BaseTeamTalkPDU_ByteSize m;
          sz = sz + 4
      in CalculateContainerByteSize2 sz all_user_response_ByteSize (user_info_list m))"

definition AllUserResponse_ParseFromByteStream ::
  "'s bytestream \<Rightarrow> AllUserResponse \<Rightarrow> 's \<Rightarrow> bool \<times> AllUserResponse \<times> 's" where
  "AllUserResponse_ParseFromByteStream B m s = read_ok B (steps [
     in32 B from_user_id from_user_id_update,
     PARSE_OBJECTPTR_ARRAY_IMPLICIT B (all_user_response_ParseFromByteStream B) new_UserInfo
       user_info_list user_info_list_update] (m, s))"

definition AllUserResponse_SerializeToByteStream ::
  "'s bytestream \<Rightarrow> AllUserResponse \<Rightarrow> 's \<Rightarrow> bool \<times> 's" where
  [pdu_defs]: "AllUserResponse_SerializeToByteStream B m s = write_ok B (steps [
     bs_put32 B (from_user_id m),
     SERIALIZE_OBJECTPTR_ARRAY_IMPLICIT B (all_user_response_SerializeToByteStream B)
       (user_info_list m)] s)"

definition AllUserResponse_fields :: "AllUserResponse \<Rightarrow> field list" where
  [pdu_defs, fields_defs]: "AllUserResponse_fields m =
     F32 (from_user_id m) # objs_fields all_user_response_fields (user_info_list m)"

definition AllUserResponse_canon :: "AllUserResponse \<Rightarrow> AllUserResponse \<Rightarrow> AllUserResponse" where
  [pdu_defs]: "AllUserResponse_canon n m = m\<lparr>user_info_list := map all_user_response_canon (user_info_list m)\<rparr>"

interpretation AllUserResponse_pdu: teamtalk_pdu AllUserResponse_ctor
  AllUserResponse_ParseFromByteStream AllUserResponse_SerializeToByteStream
  AllUserResponse_ByteSize AllUserResponse_fields AllUserResponse_canon
  by (rule teamtalk_pduI, rule AllUserResponse_ParseFromByteStream_def, unfold fields_defs,
      (rule reads_intros)+)
    (simp_all add: pdu_defs)

subsection \<open>\<^verbatim>\<open>UsersInfoRequest\<close>: \<^verbatim>\<open>proto/users_info_request.h\<close>, \<^verbatim>\<open>.cc\<close>\<close>

record UsersInfoRequest = base_pdu +
  from_user_id :: u32
  user_id_list :: "u32 list"

definition UsersInfoRequest_ctor :: "UsersInfoRequest \<Rightarrow> UsersInfoRequest" where
  [pdu_defs]: "UsersInfoRequest_ctor raw =
     (BaseTeamTalkPDU_ctor MESSAGE_USERS_INFO_REQUEST kAttachDataTypeDB raw)
       \<lparr>user_id_list := []\<rparr>"

definition UsersInfoRequest_ByteSize :: "UsersInfoRequest \<Rightarrow> u32" where
  [pdu_defs]: "UsersInfoRequest_ByteSize m =
     BaseTeamTalkPDU_ByteSize m + 4 + CalculateContainerByteSize (user_id_list m)"

definition UsersInfoRequest_ParseFromByteStream ::
  "'s bytestream \<Rightarrow> UsersInfoRequest \<Rightarrow> 's \<Rightarrow> bool \<times> UsersInfoRequest \<times> 's" where
  "UsersInfoRequest_ParseFromByteStream B m s = read_ok B (steps [
     in32 B from_user_id from_user_id_update,
     PARSE_BASICTYPE_ARRAY_IMPLICIT B user_id_list user_id_list_update] (m, s))"

definition UsersInfoRequest_SerializeToByteStream ::
  "'s bytestream \<Rightarrow> UsersInfoRequest \<Rightarrow> 's \<Rightarrow> bool \<times> 's" where
  [pdu_defs]: "UsersInfoRequest_SerializeToByteStream B m s = write_ok B (steps [
     bs_put32 B (from_user_id m),
     SERIALIZE_BASICTYPE_ARRAY_IMPLICIT B (user_id_list m)] s)"

definition UsersInfoRequest_fields :: "UsersInfoRequest \<Rightarrow> field list" where
  [pdu_defs, fields_defs]: "UsersInfoRequest_fields m =
     F32 (from_user_id m) # u32s_fields (user_id_list m)"

interpretation UsersInfoRequest_pdu: teamtalk_pdu UsersInfoRequest_ctor
  UsersInfoRequest_ParseFromByteStream UsersInfoRequest_SerializeToByteStream
  UsersInfoRequest_ByteSize UsersInfoRequest_fields "\<lambda>n m. m"
  by (rule teamtalk_pduI, rule UsersInfoRequest_ParseFromByteStream_def, unfold fields_defs,
      (rule reads_intros)+)
    (simp_all add: pdu_defs)

subsection \<open>\<^verbatim>\<open>UsersInfoResponse\<close>: \<^verbatim>\<open>proto/users_info_response.h\<close>, \<^verbatim>\<open>.cc\<close>\<close>

definition users_info_response_ByteSize :: "UserInfo \<Rightarrow> u32" where
  [pdu_defs]: "users_info_response_ByteSize e =
     4 + SIZEOF_STRING (UserInfo.name e) + SIZEOF_STRING (UserInfo.nick_name e)
     + SIZEOF_STRING (UserInfo.avatar_url e) + SIZEOF_STRING (UserInfo.title e)
     + SIZEOF_STRING (UserInfo.position e) + 4 + 4 + 4 + 4 + SIZEOF_STRING (UserInfo.telphone e)
     + SIZEOF_STRING (UserInfo.email e)"

definition users_info_response_ParseFromByteStream ::
  "'s bytestream \<Rightarrow> UserInfo \<Rightarrow> 's \<Rightarrow> bool \<times> UserInfo \<times> 's" where
  "users_info_response_ParseFromByteStream B e s = read_ok B (steps [
     in32 B UserInfo.user_id UserInfo.user_id_update,
     in_str B UserInfo.name UserInfo.name_update,
     in_str B UserInfo.nick_name UserInfo.nick_name_update,
     in_str B UserInfo.avatar_url UserInfo.avatar_url_update,
     in_str B UserInfo.title UserInfo.title_update,
     in_str B UserInfo.position UserInfo.position_update,
     in32 B UserInfo.role_status UserInfo.role_status_update,
     in32 B UserInfo.sex UserInfo.sex_update,
     in32 B UserInfo.depart_id UserInfo.depart_id_update,
     in32 B UserInfo.job_num UserInfo.job_num_update,
     in_str B UserInfo.telphone UserInfo.telphone_update,
     in_str B UserInfo.email UserInfo.email_update] (e, s))"

definition users_info_response_SerializeToByteStream ::
  "'s bytestream \<Rightarrow> UserInfo \<Rightarrow> 's \<Rightarrow> bool \<times> 's" where
  [pdu_defs]: "users_info_response_SerializeToByteStream B e s = write_ok B (steps [
     bs_put32 B (UserInfo.user_id e),
     out_str B (UserInfo.name e),
     out_str B (UserInfo.nick_name e),
     out_str B (UserInfo.avatar_url e),
     out_str B (UserInfo.title e),
     out_str B (UserInfo.position e),
     bs_put32 B (UserInfo.role_status e),
     bs_put32 B (UserInfo.sex e),
     bs_put32 B (UserInfo.depart_id e),
     bs_put32 B (UserInfo.job_num e),
     out_str B (UserInfo.telphone e),
     out_str B (UserInfo.email e)] s)"

definition users_info_response_fields :: "UserInfo \<Rightarrow> field list" where
  [pdu_defs]: "users_info_response_fields e =
     [F32 (UserInfo.user_id e), FStr (UserInfo.name e), FStr (UserInfo.nick_name e),
     FStr (UserInfo.avatar_url e), FStr (UserInfo.title e), FStr (UserInfo.position e),
     F32 (UserInfo.role_status e), F32 (UserInfo.sex e), F32 (UserInfo.depart_id e),
     F32 (UserInfo.job_num e), FStr (UserInfo.telphone e), FStr (UserInfo.email e)]"

definition users_info_response_canon :: "UserInfo \<Rightarrow> UserInfo" where
  [pdu_defs]: "users_info_response_canon e = e\<lparr>UserInfo.user_updated := 0\<rparr>"

lemma users_info_response_reads:
  "reads B cur W (\<lambda>(e, s). snd (users_info_response_ParseFromByteStream B e s))
    (users_info_response_fields e) new_UserInfo (users_info_response_canon e)"
  unfolding users_info_response_ParseFromByteStream_def users_info_response_fields_def
  by (rule reads_cong, rule reads_result, (rule reads_intros)+) (simp add: pdu_defs)

lemma users_info_response_array [reads_intros]:
  "reads B cur W (PARSE_OBJECTPTR_ARRAY_IMPLICIT B (users_info_response_ParseFromByteStream B)
      new_UserInfo g u)
    (objs_fields users_info_response_fields xs) m (u (\<lambda>_. g m @ map users_info_response_canon xs) m)"
  by (rule reads_object_array [OF users_info_response_reads]) (simp_all add: pdu_defs)

lemma users_info_response_writes [pdu_defs]:
  "SERIALIZE_OBJECTPTR_ARRAY_IMPLICIT B (users_info_response_SerializeToByteStream B) xs s =
     put_fields B (objs_fields users_info_response_fields xs) s"
  by (rule write_objs) (simp add: pdu_defs)

lemma users_info_response_sizes [pdu_defs]:
  "CalculateContainerByteSize2 sz users_info_response_ByteSize xs =
     sz + of_nat (fields_size (objs_fields users_info_response_fields xs))"
  by (rule CalculateContainerByteSize2_eq) (simp add: pdu_defs)

record UsersInfoResponse = base_pdu +
  from_user_id :: u32
  user_info_list :: "UserInfo list"

definition UsersInfoResponse_ctor :: "UsersInfoResponse \<Rightarrow> UsersInfoResponse" where
  [pdu_defs]: "UsersInfoResponse_ctor raw =
     (BaseTeamTalkPDU_ctor MESSAGE_USERS_INFO_RESPONSE kAttachDataTypeDB raw)
       \<lparr>user_info_list := []\<rparr>"

definition UsersInfoResponse_ByteSize :: "UsersInfoResponse \<Rightarrow> u32" where
  [pdu_defs]: "UsersInfoResponse_ByteSize m =
     (let sz = BaseTeamTalkPDU_ByteSize m;
          sz = sz + 4
      in CalculateContainerByteSize2 sz users_info_response_ByteSize (user_info_list m))"

definition UsersInfoResponse_ParseFromByteStream ::
  "'s bytestream \<Rightarrow> UsersInfoResponse \<Rightarrow> 's \<Rightarrow> bool \<times> UsersInfoResponse \<times> 's" where
  "UsersInfoResponse_ParseFromByteStream B m s = read_ok B (steps [
     in32 B from_user_id from_user_id_update,
     PARSE_OBJECTPTR_ARRAY_IMPLICIT B (users_info_response_ParseFromByteStream B) new_UserInfo
       user_info_list user_info_list_update] (m, s))"

definition UsersInfoResponse_SerializeToByteStream ::
  "'s bytestream \<Rightarrow> UsersInfoResponse \<Rightarrow> 's \<Rightarrow> bool \<times> 's" where
  [pdu_defs]: "UsersInfoResponse_SerializeToByteStream B m s = write_ok B (steps [
     bs_put32 B (from_user_id m),
     SERIALIZE_OBJECTPTR_ARRAY_IMPLICIT B (users_info_response_SerializeToByteStream B)
       (user_info_list m)] s)"

definition UsersInfoResponse_fields :: "UsersInfoResponse \<Rightarrow> field list" where
  [pdu_defs, fields_defs]: "UsersInfoResponse_fields m =
     F32 (from_user_id m) # objs_fields users_info_response_fields (user_info_list m)"

definition UsersInfoResponse_canon :: "UsersInfoResponse \<Rightarrow> UsersInfoResponse \<Rightarrow> UsersInfoResponse" where
  [pdu_defs]: "UsersInfoResponse_canon n m = m\<lparr>user_info_list := map users_info_response_canon (user_info_list m)\<rparr>"

interpretation UsersInfoResponse_pdu: teamtalk_pdu UsersInfoResponse_ctor
  UsersInfoResponse_ParseFromByteStream UsersInfoResponse_SerializeToByteStream
  UsersInfoResponse_ByteSize UsersInfoResponse_fields UsersInfoResponse_canon
  by (rule teamtalk_pduI, rule UsersInfoResponse_ParseFromByteStream_def, unfold fields_defs,
      (rule reads_intros)+)
    (simp_all add: pdu_defs)

subsection \<open>\<^verbatim>\<open>DepartmentRequest\<close>: \<^verbatim>\<open>proto/department_request.h\<close>, \<^verbatim>\<open>.cc\<close>\<close>

record DepartmentRequest = base_pdu +
  req_user_id :: u32

definition DepartmentRequest_ctor :: "DepartmentRequest \<Rightarrow> DepartmentRequest" where
  [pdu_defs]: "DepartmentRequest_ctor raw =
     BaseTeamTalkPDU_ctor MESSAGE_DEPARTMENT_REQUEST kAttachDataTypeDB raw"

definition DepartmentRequest_ByteSize :: "DepartmentRequest \<Rightarrow> u32" where
  [pdu_defs]: "DepartmentRequest_ByteSize m =
     BaseTeamTalkPDU_ByteSize m + 4"

definition DepartmentRequest_ParseFromByteStream ::
  "'s bytestream \<Rightarrow> DepartmentRequest \<Rightarrow> 's \<Rightarrow> bool \<times> DepartmentRequest \<times> 's" where
  "DepartmentRequest_ParseFromByteStream B m s = read_ok B (steps [
     in32 B req_user_id req_user_id_update] (m, s))"

definition DepartmentRequest_SerializeToByteStream ::
  "'s bytestream \<Rightarrow> DepartmentRequest \<Rightarrow> 's \<Rightarrow> bool \<times> 's" where
  [pdu_defs]: "DepartmentRequest_SerializeToByteStream B m s = write_ok B (steps [
     bs_put32 B (req_user_id m)] s)"

definition DepartmentRequest_fields :: "DepartmentRequest \<Rightarrow> field list" where
  [pdu_defs, fields_defs]: "DepartmentRequest_fields m =
     [F32 (req_user_id m)]"

interpretation DepartmentRequest_pdu: teamtalk_pdu DepartmentRequest_ctor
  DepartmentRequest_ParseFromByteStream DepartmentRequest_SerializeToByteStream
  DepartmentRequest_ByteSize DepartmentRequest_fields "\<lambda>n m. m"
  by (rule teamtalk_pduI, rule DepartmentRequest_ParseFromByteStream_def, unfold fields_defs,
      (rule reads_intros)+)
    (simp_all add: pdu_defs)

subsection \<open>\<^verbatim>\<open>DepartmentResponse\<close>: \<^verbatim>\<open>proto/department_response.h\<close>, \<^verbatim>\<open>.cc\<close>\<close>

definition department_response_ByteSize :: "DepartmentInfo \<Rightarrow> u32" where
  [pdu_defs]: "department_response_ByteSize e =
     4 + SIZEOF_STRING (DepartmentInfo.title e) + SIZEOF_STRING (DepartmentInfo.description e)
     + 4 + 4 + 4"

definition department_response_ParseFromByteStream ::
  "'s bytestream \<Rightarrow> DepartmentInfo \<Rightarrow> 's \<Rightarrow> bool \<times> DepartmentInfo \<times> 's" where
  "department_response_ParseFromByteStream B e s = read_ok B (steps [
     in32 B DepartmentInfo.depart_id DepartmentInfo.depart_id_update,
     in_str B DepartmentInfo.title DepartmentInfo.title_update,
     in_str B DepartmentInfo.description DepartmentInfo.description_update,
     in32 B DepartmentInfo.parent_depart_id DepartmentInfo.parent_depart_id_update,
     in32 B DepartmentInfo.leader DepartmentInfo.leader_update,
     in32 B DepartmentInfo.status DepartmentInfo.status_update] (e, s))"

definition department_response_SerializeToByteStream ::
  "'s bytestream \<Rightarrow> DepartmentInfo \<Rightarrow> 's \<Rightarrow> bool \<times> 's" where
  [pdu_defs]: "department_response_SerializeToByteStream B e s = write_ok B (steps [
     bs_put32 B (DepartmentInfo.depart_id e),
     out_str B (DepartmentInfo.title e),
     out_str B (DepartmentInfo.description e),
     bs_put32 B (DepartmentInfo.parent_depart_id e),
     bs_put32 B (DepartmentInfo.leader e),
     bs_put32 B (DepartmentInfo.status e)] s)"

definition department_response_fields :: "DepartmentInfo \<Rightarrow> field list" where
  [pdu_defs]: "department_response_fields e =
     [F32 (DepartmentInfo.depart_id e), FStr (DepartmentInfo.title e),
     FStr (DepartmentInfo.description e), F32 (DepartmentInfo.parent_depart_id e),
     F32 (DepartmentInfo.leader e), F32 (DepartmentInfo.status e)]"

lemma department_response_reads:
  "reads B cur W (\<lambda>(e, s). snd (department_response_ParseFromByteStream B e s))
    (department_response_fields e) new_DepartmentInfo e"
  unfolding department_response_ParseFromByteStream_def department_response_fields_def
  by (rule reads_cong, rule reads_result, (rule reads_intros)+) (simp add: pdu_defs)

lemma department_response_array [reads_intros]:
  "reads B cur W (PARSE_OBJECTPTR_ARRAY_IMPLICIT B (department_response_ParseFromByteStream B)
      new_DepartmentInfo g u)
    (objs_fields department_response_fields xs) m (u (\<lambda>_. g m @ xs) m)"
  by (rule reads_cong, rule reads_object_array [OF department_response_reads]) (simp_all add: pdu_defs)

lemma department_response_writes [pdu_defs]:
  "SERIALIZE_OBJECTPTR_ARRAY_IMPLICIT B (department_response_SerializeToByteStream B) xs s =
     put_fields B (objs_fields department_response_fields xs) s"
  by (rule write_objs) (simp add: pdu_defs)

lemma department_response_sizes [pdu_defs]:
  "CalculateContainerByteSize2 sz department_response_ByteSize xs =
     sz + of_nat (fields_size (objs_fields department_response_fields xs))"
  by (rule CalculateContainerByteSize2_eq) (simp add: pdu_defs)

record DepartmentResponse = base_pdu +
  req_user_id :: u32
  depart_list :: "DepartmentInfo list"

definition DepartmentResponse_ctor :: "DepartmentResponse \<Rightarrow> DepartmentResponse" where
  [pdu_defs]: "DepartmentResponse_ctor raw =
     (BaseTeamTalkPDU_ctor MESSAGE_DEPARTMENT_RESPONSE kAttachDataTypeDB raw)
       \<lparr>depart_list := []\<rparr>"

definition DepartmentResponse_ByteSize :: "DepartmentResponse \<Rightarrow> u32" where
  [pdu_defs]: "DepartmentResponse_ByteSize m =
     (let sz = BaseTeamTalkPDU_ByteSize m;
          sz = sz + 4
      in CalculateContainerByteSize2 sz department_response_ByteSize (depart_list m))"

definition DepartmentResponse_ParseFromByteStream ::
  "'s bytestream \<Rightarrow> DepartmentResponse \<Rightarrow> 's \<Rightarrow> bool \<times> DepartmentResponse \<times> 's" where
  "DepartmentResponse_ParseFromByteStream B m s = read_ok B (steps [
     in32 B req_user_id req_user_id_update,
     PARSE_OBJECTPTR_ARRAY_IMPLICIT B (department_response_ParseFromByteStream B) new_DepartmentInfo
       depart_list depart_list_update] (m, s))"

definition DepartmentResponse_SerializeToByteStream ::
  "'s bytestream \<Rightarrow> DepartmentResponse \<Rightarrow> 's \<Rightarrow> bool \<times> 's" where
  [pdu_defs]: "DepartmentResponse_SerializeToByteStream B m s = write_ok B (steps [
     bs_put32 B (req_user_id m),
     SERIALIZE_OBJECTPTR_ARRAY_IMPLICIT B (department_response_SerializeToByteStream B)
       (depart_list m)] s)"

definition DepartmentResponse_fields :: "DepartmentResponse \<Rightarrow> field list" where
  [pdu_defs, fields_defs]: "DepartmentResponse_fields m =
     F32 (req_user_id m) # objs_fields department_response_fields (depart_list m)"

interpretation DepartmentResponse_pdu: teamtalk_pdu DepartmentResponse_ctor
  DepartmentResponse_ParseFromByteStream DepartmentResponse_SerializeToByteStream
  DepartmentResponse_ByteSize DepartmentResponse_fields "\<lambda>n m. m"
  by (rule teamtalk_pduI, rule DepartmentResponse_ParseFromByteStream_def, unfold fields_defs,
      (rule reads_intros)+)
    (simp_all add: pdu_defs)

subsection \<open>\<^verbatim>\<open>FriendListRequest\<close>: \<^verbatim>\<open>proto/friend_list_request.h\<close>, \<^verbatim>\<open>.cc\<close>\<close>

record FriendListRequest = base_pdu +
  user_id :: u32

definition FriendListRequest_ctor :: "FriendListRequest \<Rightarrow> FriendListRequest" where
  [pdu_defs]: "FriendListRequest_ctor raw =
     BaseTeamTalkPDU_ctor MESSAGE_FRIEND_LIST_REQUEST kAttachDataTypeDB raw"

definition FriendListRequest_ByteSize :: "FriendListRequest \<Rightarrow> u32" where
  [pdu_defs]: "FriendListRequest_ByteSize m =
     BaseTeamTalkPDU_ByteSize m + 4"

definition FriendListRequest_ParseFromByteStream ::
  "'s bytestream \<Rightarrow> FriendListRequest \<Rightarrow> 's \<Rightarrow> bool \<times> FriendListRequest \<times> 's" where
  "FriendListRequest_ParseFromByteStream B m s = read_ok B (steps [
     in32 B user_id user_id_update] (m, s))"

definition FriendListRequest_SerializeToByteStream ::
  "'s bytestream \<Rightarrow> FriendListRequest \<Rightarrow> 's \<Rightarrow> bool \<times> 's" where
  [pdu_defs]: "FriendListRequest_SerializeToByteStream B m s = write_ok B (steps [
     bs_put32 B (user_id m)] s)"

definition FriendListRequest_fields :: "FriendListRequest \<Rightarrow> field list" where
  [pdu_defs, fields_defs]: "FriendListRequest_fields m =
     [F32 (user_id m)]"

interpretation FriendListRequest_pdu: teamtalk_pdu FriendListRequest_ctor
  FriendListRequest_ParseFromByteStream FriendListRequest_SerializeToByteStream
  FriendListRequest_ByteSize FriendListRequest_fields "\<lambda>n m. m"
  by (rule teamtalk_pduI, rule FriendListRequest_ParseFromByteStream_def, unfold fields_defs,
      (rule reads_intros)+)
    (simp_all add: pdu_defs)

subsection \<open>\<^verbatim>\<open>FriendListResponse\<close>: \<^verbatim>\<open>proto/friend_list_response.h\<close>, \<^verbatim>\<open>.cc\<close>\<close>

definition friend_list_response_ByteSize :: "FriendInfo \<Rightarrow> u32" where
  [pdu_defs]: "friend_list_response_ByteSize e =
     4 + 4"

definition friend_list_response_ParseFromByteStream ::
  "'s bytestream \<Rightarrow> FriendInfo \<Rightarrow> 's \<Rightarrow> bool \<times> FriendInfo \<times> 's" where
  "friend_list_response_ParseFromByteStream B e s = read_ok B (steps [
     in32 B FriendInfo.friend_user_id FriendInfo.friend_user_id_update,
     in32 B FriendInfo.updated FriendInfo.updated_update] (e, s))"

definition friend_list_response_SerializeToByteStream ::
  "'s bytestream \<Rightarrow> FriendInfo \<Rightarrow> 's \<Rightarrow> bool \<times> 's" where
  [pdu_defs]: "friend_list_response_SerializeToByteStream B e s = write_ok B (steps [
     bs_put32 B (FriendInfo.friend_user_id e),
     bs_put32 B (FriendInfo.updated e)] s)"

definition friend_list_response_fields :: "FriendInfo \<Rightarrow> field list" where
  [pdu_defs]: "friend_list_response_fields e =
     [F32 (FriendInfo.friend_user_id e), F32 (FriendInfo.updated e)]"

lemma friend_list_response_reads:
  "reads B cur W (\<lambda>(e, s). snd (friend_list_response_ParseFromByteStream B e s))
    (friend_list_response_fields e) new_FriendInfo e"
  unfolding friend_list_response_ParseFromByteStream_def friend_list_response_fields_def
  by (rule reads_cong, rule reads_result, (rule reads_intros)+) (simp add: pdu_defs)

lemma friend_list_response_array [reads_intros]:
  "reads B cur W (PARSE_OBJECTPTR_ARRAY_IMPLICIT B (friend_list_response_ParseFromByteStream B)
      new_FriendInfo g u)
    (objs_fields friend_list_response_fields xs) m (u (\<lambda>_. g m @ xs) m)"
  by (rule reads_cong, rule reads_object_array [OF friend_list_response_reads]) (simp_all add: pdu_defs)

lemma friend_list_response_writes [pdu_defs]:
  "SERIALIZE_OBJECTPTR_ARRAY_IMPLICIT B (friend_list_response_SerializeToByteStream B) xs s =
     put_fields B (objs_fields friend_list_response_fields xs) s"
  by (rule write_objs) (simp add: pdu_defs)

lemma friend_list_response_sizes [pdu_defs]:
  "CalculateContainerByteSize2 sz friend_list_response_ByteSize xs =
     sz + of_nat (fields_size (objs_fields friend_list_response_fields xs))"
  by (rule CalculateContainerByteSize2_eq) (simp add: pdu_defs)

record FriendListResponse = base_pdu +
  from_user_id :: u32
  friend_lists :: "FriendInfo list"

definition FriendListResponse_ctor :: "FriendListResponse \<Rightarrow> FriendListResponse" where
  [pdu_defs]: "FriendListResponse_ctor raw =
     (BaseTeamTalkPDU_ctor MESSAGE_FRIEND_LIST_RESPONSE kAttachDataTypeDB raw)
       \<lparr>friend_lists := []\<rparr>"

definition FriendListResponse_ByteSize :: "FriendListResponse \<Rightarrow> u32" where
  [pdu_defs]: "FriendListResponse_ByteSize m =
     (let sz = BaseTeamTalkPDU_ByteSize m;
          sz = sz + 4
      in CalculateContainerByteSize2 sz friend_list_response_ByteSize (friend_lists m))"

definition FriendListResponse_ParseFromByteStream ::
  "'s bytestream \<Rightarrow> FriendListResponse \<Rightarrow> 's \<Rightarrow> bool \<times> FriendListResponse \<times> 's" where
  "FriendListResponse_ParseFromByteStream B m s = read_ok B (steps [
     in32 B from_user_id from_user_id_update,
     PARSE_OBJECTPTR_ARRAY_IMPLICIT B (friend_list_response_ParseFromByteStream B) new_FriendInfo
       friend_lists friend_lists_update] (m, s))"

definition FriendListResponse_SerializeToByteStream ::
  "'s bytestream \<Rightarrow> FriendListResponse \<Rightarrow> 's \<Rightarrow> bool \<times> 's" where
  [pdu_defs]: "FriendListResponse_SerializeToByteStream B m s = write_ok B (steps [
     bs_put32 B (from_user_id m),
     SERIALIZE_OBJECTPTR_ARRAY_IMPLICIT B (friend_list_response_SerializeToByteStream B)
       (friend_lists m)] s)"

definition FriendListResponse_fields :: "FriendListResponse \<Rightarrow> field list" where
  [pdu_defs, fields_defs]: "FriendListResponse_fields m =
     F32 (from_user_id m) # objs_fields friend_list_response_fields (friend_lists m)"

interpretation FriendListResponse_pdu: teamtalk_pdu FriendListResponse_ctor
  FriendListResponse_ParseFromByteStream FriendListResponse_SerializeToByteStream
  FriendListResponse_ByteSize FriendListResponse_fields "\<lambda>n m. m"
  by (rule teamtalk_pduI, rule FriendListResponse_ParseFromByteStream_def, unfold fields_defs,
      (rule reads_intros)+)
    (simp_all add: pdu_defs)

subsection \<open>\<^verbatim>\<open>RemoveSessionRequest\<close>: \<^verbatim>\<open>proto/remove_session_request.h\<close>, \<^verbatim>\<open>.cc\<close>\<close>

record RemoveSessionRequest = base_pdu +
  req_user_id :: u32
  session_id :: u32
  session_type :: u32

definition RemoveSessionRequest_ctor :: "RemoveSessionRequest \<Rightarrow> RemoveSessionRequest" where
  [pdu_defs]: "RemoveSessionRequest_ctor raw =
     BaseTeamTalkPDU_ctor MESSAGE_REMOVE_SESSION_REQUEST kAttachDataTypeDB raw"

definition RemoveSessionRequest_ByteSize :: "RemoveSessionRequest \<Rightarrow> u32" where
  [pdu_defs]: "RemoveSessionRequest_ByteSize m =
     BaseTeamTalkPDU_ByteSize m + 4 + 4 + 4"

definition RemoveSessionRequest_ParseFromByteStream ::
  "'s bytestream \<Rightarrow> RemoveSessionRequest \<Rightarrow> 's \<Rightarrow> bool \<times> RemoveSessionRequest \<times> 's" where
  "RemoveSessionRequest_ParseFromByteStream B m s = read_ok B (steps [
     in32 B req_user_id req_user_id_update,
     in32 B session_id session_id_update,
     in32 B session_type session_type_update] (m, s))"

definition RemoveSessionRequest_SerializeToByteStream ::
  "'s bytestream \<Rightarrow> RemoveSessionRequest \<Rightarrow> 's \<Rightarrow> bool \<times> 's" where
  [pdu_defs]: "RemoveSessionRequest_SerializeToByteStream B m s = write_ok B (steps [
     bs_put32 B (req_user_id m),
     bs_put32 B (session_id m),
     bs_put32 B (session_type m)] s)"

definition RemoveSessionRequest_fields :: "RemoveSessionRequest \<Rightarrow> field list" where
  [pdu_defs, fields_defs]: "RemoveSessionRequest_fields m =
     [F32 (req_user_id m), F32 (session_id m), F32 (session_type m)]"

interpretation RemoveSessionRequest_pdu: teamtalk_pdu RemoveSessionRequest_ctor
  RemoveSessionRequest_ParseFromByteStream RemoveSessionRequest_SerializeToByteStream
  RemoveSessionRequest_ByteSize RemoveSessionRequest_fields "\<lambda>n m. m"
  by (rule teamtalk_pduI, rule RemoveSessionRequest_ParseFromByteStream_def, unfold fields_defs,
      (rule reads_intros)+)
    (simp_all add: pdu_defs)

subsection \<open>\<^verbatim>\<open>RemoveSessionResponse\<close>: \<^verbatim>\<open>proto/remove_session_response.h\<close>, \<^verbatim>\<open>.cc\<close>\<close>

record RemoveSessionResponse = base_pdu +
  req_user_id :: u32
  result :: u32
  session_id :: u32
  session_type :: u32

definition RemoveSessionResponse_ctor :: "RemoveSessionResponse \<Rightarrow> RemoveSessionResponse" where
  [pdu_defs]: "RemoveSessionResponse_ctor raw =
     BaseTeamTalkPDU_ctor MESSAGE_REMOVE_SESSION_RESPONSE kAttachDataTypeDB raw"

definition RemoveSessionResponse_ByteSize :: "RemoveSessionResponse \<Rightarrow> u32" where
  [pdu_defs]: "RemoveSessionResponse_ByteSize m =
     BaseTeamTalkPDU_ByteSize m + 4 + 4 + 4 + 4"

definition RemoveSessionResponse_ParseFromByteStream ::
  "'s bytestream \<Rightarrow> RemoveSessionResponse \<Rightarrow> 's \<Rightarrow> bool \<times> RemoveSessionResponse \<times> 's" where
  "RemoveSessionResponse_ParseFromByteStream B m s = read_ok B (steps [
     in32 B req_user_id req_user_id_update,
     in32 B result result_update,
     in32 B session_id session_id_update,
     in32 B session_type session_type_update] (m, s))"

definition RemoveSessionResponse_SerializeToByteStream ::
  "'s bytestream \<Rightarrow> RemoveSessionResponse \<Rightarrow> 's \<Rightarrow> bool \<times> 's" where
  [pdu_defs]: "RemoveSessionResponse_SerializeToByteStream B m s = write_ok B (steps [
     bs_put32 B (req_user_id m),
     bs_put32 B (result m),
     bs_put32 B (session_id m),
     bs_put32 B (session_type m)] s)"

definition RemoveSessionResponse_fields :: "RemoveSessionResponse \<Rightarrow> field list" where
  [pdu_defs, fields_defs]: "RemoveSessionResponse_fields m =
     [F32 (req_user_id m), F32 (result m), F32 (session_id m), F32 (session_type m)]"

interpretation RemoveSessionResponse_pdu: teamtalk_pdu RemoveSessionResponse_ctor
  RemoveSessionResponse_ParseFromByteStream RemoveSessionResponse_SerializeToByteStream
  RemoveSessionResponse_ByteSize RemoveSessionResponse_fields "\<lambda>n m. m"
  by (rule teamtalk_pduI, rule RemoveSessionResponse_ParseFromByteStream_def, unfold fields_defs,
      (rule reads_intros)+)
    (simp_all add: pdu_defs)

end
