(* ===== verification/Pdu_Message.thy ===== *)
theory Pdu_Message
  imports Pdu_Types Base_Data
begin

text \<open>
  Messages of the person-to-person message service.
\<close>

subsection \<open>\<^verbatim>\<open>MsgData\<close>: \<^verbatim>\<open>proto/msg_data.h\<close>, \<^verbatim>\<open>.cc\<close>\<close>

record MsgData = base_pdu +
  request_id :: u32
  from_user_id :: u32
  to_user_id :: u32
  create_time :: u32
  msg_type :: u8
  msg_data :: string

definition MsgData_ctor :: "MsgData \<Rightarrow> MsgData" where
  [pdu_defs]: "MsgData_ctor raw =
     (BaseTeamTalkPDU_ctor MESSAGE_MSG_DATA kAttachDataTypeDB raw)
       \<lparr>msg_data := ''''\<rparr>"

definition MsgData_ByteSize :: "MsgData \<Rightarrow> u32" where
  [pdu_defs]: "MsgData_ByteSize m =
     BaseTeamTalkPDU_ByteSize m + 4 + 4 + 4 + 4 + 1 + SIZEOF_STRING (msg_data m)"

definition MsgData_ParseFromByteStream ::
  "'s bytestream \<Rightarrow> MsgData \<Rightarrow> 's \<Rightarrow> bool \<times> MsgData \<times> 's" where
  "MsgData_ParseFromByteStream B m s = read_ok B (steps [
     in32 B request_id request_id_update,
     in32 B from_user_id from_user_id_update,
     in32 B to_user_id to_user_id_update,
     in32 B create_time create_time_update,
     in8 B msg_type msg_type_update,
     in_str B msg_data msg_data_update] (m, s))"

definition MsgData_SerializeToByteStream ::
  "'s bytestream \<Rightarrow> MsgData \<Rightarrow> 's \<Rightarrow> bool \<times> 's" where
  [pdu_defs]: "MsgData_SerializeToByteStream B m s = write_ok B (steps [
     bs_put32 B (request_id m),
     bs_put32 B (from_user_id m),
     bs_put32 B (to_user_id m),
     bs_put32 B (create_time m),
     bs_put8 B (msg_type m),
     out_str B (msg_data m)] s)"

definition MsgData_fields :: "MsgData \<Rightarrow> field list" where
  [pdu_defs, fields_defs]: "MsgData_fields m =
     [F32 (request_id m), F32 (from_user_id m), F32 (to_user_id m), F32 (create_time m),
     F8 (msg_type m), FStr (msg_data m)]"

interpretation MsgData_pdu: teamtalk_pdu MsgData_ctor
  MsgData_ParseFromByteStream MsgData_SerializeToByteStream
  MsgData_ByteSize MsgData_fields "\<lambda>n m. m"
  by (rule teamtalk_pduI, rule MsgData_ParseFromByteStream_def, unfold fields_defs,
      (rule reads_intros)+)
    (simp_all add: pdu_defs)

subsection \<open>\<^verbatim>\<open>MsgReadAck\<close>: \<^verbatim>\<open>proto/msg_read_ack.h\<close>, \<^verbatim>\<open>.cc\<close>\<close>

record MsgReadAck = base_pdu +
  request_id :: u32
  from_user_id :: u32
  to_user_id :: u32
  client_type :: u32

definition MsgReadAck_ctor :: "MsgReadAck \<Rightarrow> MsgReadAck" where
  [pdu_defs]: "MsgReadAck_ctor raw =
     BaseTeamTalkPDU_ctor MESSAGE_MSG_READ_ACK kAttachDataTypeNull raw"

definition MsgReadAck_ByteSize :: "MsgReadAck \<Rightarrow> u32" where
  [pdu_defs]: "MsgReadAck_ByteSize m =
     BaseTeamTalkPDU_ByteSize m + 4 + 4 + 4 + 4"

definition MsgReadAck_ParseFromByteStream ::
  "'s bytestream \<Rightarrow> MsgReadAck \<Rightarrow> 's \<Rightarrow> bool \<times> MsgReadAck \<times> 's" where
  "MsgReadAck_ParseFromByteStream B m s = read_ok B (steps [
     in32 B request_id request_id_update,
     in32 B from_user_id from_user_id_update,
     in32 B to_user_id to_user_id_update,
     in32 B client_type client_type_update] (m, s))"

definition MsgReadAck_SerializeToByteStream ::
  "'s bytestream \<Rightarrow> MsgReadAck \<Rightarrow> 's \<Rightarrow> bool \<times> 's" where
  [pdu_defs]: "MsgReadAck_SerializeToByteStream B m s = write_ok B (steps [
     bs_put32 B (request_id m),
     bs_put32 B (from_user_id m),
     bs_put32 B (to_user_id m),
     bs_put32 B (client_type m)] s)"

definition MsgReadAck_fields :: "MsgReadAck \<Rightarrow> field list" where
  [pdu_defs, fields_defs]: "MsgReadAck_fields m =
     [F32 (request_id m), F32 (from_user_id m), F32 (to_user_id m), F32 (client_type m)]"

interpretation MsgReadAck_pdu: teamtalk_pdu MsgReadAck_ctor
  MsgReadAck_ParseFromByteStream MsgReadAck_SerializeToByteStream
  MsgReadAck_ByteSize MsgReadAck_fields "\<lambda>n m. m"
  by (rule teamtalk_pduI, rule MsgReadAck_ParseFromByteStream_def, unfold fields_defs,
      (rule reads_intros)+)
    (simp_all add: pdu_defs)

subsection \<open>\<^verbatim>\<open>UnreadMsgCountRequest\<close>: \<^verbatim>\<open>proto/unread_msg_count_request.h\<close>, \<^verbatim>\<open>.cc\<close>\<close>

record UnreadMsgCountRequest = base_pdu +
  user_id :: u32
  client_type :: u32

definition UnreadMsgCountRequest_ctor :: "UnreadMsgCountRequest \<Rightarrow> UnreadMsgCountRequest" where
  [pdu_defs]: "UnreadMsgCountRequest_ctor raw =
     BaseTeamTalkPDU_ctor MESSAGE_UNREAD_MSG_COUNT_REQUEST kAttachDataTypeDB raw"

definition UnreadMsgCountRequest_ByteSize :: "UnreadMsgCountRequest \<Rightarrow> u32" where
  [pdu_defs]: "UnreadMsgCountRequest_ByteSize m =
     BaseTeamTalkPDU_ByteSize m + 4 + 4"

definition UnreadMsgCountRequest_ParseFromByteStream ::
  "'s bytestream \<Rightarrow> UnreadMsgCountRequest \<Rightarrow> 's \<Rightarrow> bool \<times> UnreadMsgCountRequest \<times> 's" where
  "UnreadMsgCountRequest_ParseFromByteStream B m s = read_ok B (steps [
     in32 B user_id user_id_update,
     in32 B client_type client_type_update] (m, s))"

definition UnreadMsgCountRequest_SerializeToByteStream ::
  "'s bytestream \<Rightarrow> UnreadMsgCountRequest \<Rightarrow> 's \<Rightarrow> bool \<times> 's" where
  [pdu_defs]: "UnreadMsgCountRequest_SerializeToByteStream B m s = write_ok B (steps [
     bs_put32 B (user_id m),
     bs_put32 B (client_type m)] s)"

definition UnreadMsgCountRequest_fields :: "UnreadMsgCountRequest \<Rightarrow> field list" where
  [pdu_defs, fields_defs]: "UnreadMsgCountRequest_fields m =
     [F32 (user_id m), F32 (client_type m)]"

interpretation UnreadMsgCountRequest_pdu: teamtalk_pdu UnreadMsgCountRequest_ctor
  UnreadMsgCountRequest_ParseFromByteStream UnreadMsgCountRequest_SerializeToByteStream
  UnreadMsgCountRequest_ByteSize UnreadMsgCountRequest_fields "\<lambda>n m. m"
  by (rule teamtalk_pduI, rule UnreadMsgCountRequest_ParseFromByteStream_def, unfold fields_defs,
      (rule reads_intros)+)
    (simp_all add: pdu_defs)

subsection \<open>\<^verbatim>\<open>UnreadMsgCountResponse\<close>: \<^verbatim>\<open>proto/unread_msg_count_response.h\<close>, \<^verbatim>\<open>.cc\<close>\<close>

definition unread_msg_count_response_ByteSize :: "UserUnreadMsgCount \<Rightarrow> u32" where
  [pdu_defs]: "unread_msg_count_response_ByteSize e =
     4 + 4"

definition unread_msg_count_response_ParseFromByteStream ::
  "'s bytestream \<Rightarrow> UserUnreadMsgCount \<Rightarrow> 's \<Rightarrow> bool \<times> UserUnreadMsgCount \<times> 's" where
  "unread_msg_count_response_ParseFromByteStream B e s = read_ok B (steps [
     in32 B UserUnreadMsgCount.from_user_id UserUnreadMsgCount.from_user_id_update,
     in32 B UserUnreadMsgCount.unread_msg_count UserUnreadMsgCount.unread_msg_count_update] (e, s))"

definition unread_msg_count_response_SerializeToByteStream ::
  "'s bytestream \<Rightarrow> UserUnreadMsgCount \<Rightarrow> 's \<Rightarrow> bool \<times> 's" where
  [pdu_defs]: "unread_msg_count_response_SerializeToByteStream B e s = write_ok B (steps [
     bs_put32 B (UserUnreadMsgCount.from_user_id e),
     bs_put32 B (UserUnreadMsgCount.unread_msg_count e)] s)"

definition unread_msg_count_response_fields :: "UserUnreadMsgCount \<Rightarrow> field list" where
  [pdu_defs]: "unread_msg_count_response_fields e =
     [F32 (UserUnreadMsgCount.from_user_id e), F32 (UserUnreadMsgCount.unread_msg_count e)]"

lemma unread_msg_count_response_reads:
  "reads B cur W (\<lambda>(e, s). snd (unread_msg_count_response_ParseFromByteStream B e s))
    (unread_msg_count_response_fields e) new_UserUnreadMsgCount e"
  unfolding unread_msg_count_response_ParseFromByteStream_def unread_msg_count_response_fields_def
  by (rule reads_cong, rule reads_result, (rule reads_intros)+) (simp add: pdu_defs)

lemma unread_msg_count_response_array [reads_intros]:
  "reads B cur W (PARSE_OBJECTPTR_ARRAY_IMPLICIT B (unread_msg_count_response_ParseFromByteStream B)
      new_UserUnreadMsgCount g u)
    (objs_fields unread_msg_count_response_fields xs) m (u (\<lambda>_. g m @ xs) m)"
  by (rule reads_cong, rule reads_object_array [OF unread_msg_count_response_reads]) (simp_all add: pdu_defs)

lemma unread_msg_count_response_writes [pdu_defs]:
  "SERIALIZE_OBJECTPTR_ARRAY_IMPLICIT B (unread_msg_count_response_SerializeToByteStream B) xs s =
     put_fields B (objs_fields unread_msg_count_response_fields xs) s"
  by (rule write_objs) (simp add: pdu_defs)

lemma unread_msg_count_response_sizes [pdu_defs]:
  "CalculateContainerByteSize2 sz unread_msg_count_response_ByteSize xs =
     sz + of_nat (fields_size (objs_fields unread_msg_count_response_fields xs))"
  by (rule CalculateContainerByteSize2_eq) (simp add: pdu_defs)

record UnreadMsgCountResponse = base_pdu +
  to_user_id :: u32
  user_unread_list :: "UserUnreadMsgCount list"

definition UnreadMsgCountResponse_ctor :: "UnreadMsgCountResponse \<Rightarrow> UnreadMsgCountResponse" where
  [pdu_defs]: "UnreadMsgCountResponse_ctor raw =
     (BaseTeamTalkPDU_ctor MESSAGE_UNREAD_MSG_COUNT_RESPONSE kAttachDataTypeDB raw)
       \<lparr>user_unread_list := []\<rparr>"

definition UnreadMsgCountResponse_ByteSize :: "UnreadMsgCountResponse \<Rightarrow> u32" where
  [pdu_defs]: "UnreadMsgCountResponse_ByteSize m =
     (let sz = BaseTeamTalkPDU_ByteSize m;
          sz = sz + 4
      in CalculateContainerByteSize2 sz unread_msg_count_response_ByteSize (user_unread_list m))"

definition UnreadMsgCountResponse_ParseFromByteStream ::
  "'s bytestream \<Rightarrow> UnreadMsgCountResponse \<Rightarrow> 's \<Rightarrow> bool \<times> UnreadMsgCountResponse \<times> 's" where
  "UnreadMsgCountResponse_ParseFromByteStream B m s = read_ok B (steps [
     in32 B to_user_id to_user_id_update,
     PARSE_OBJECTPTR_ARRAY_IMPLICIT B (unread_msg_count_response_ParseFromByteStream B) new_UserUnreadMsgCount
       user_unread_list user_unread_list_update] (m, s))"

definition UnreadMsgCountResponse_SerializeToByteStream ::
  "'s bytestream \<Rightarrow> UnreadMsgCountResponse \<Rightarrow> 's \<Rightarrow> bool \<times> 's" where
  [pdu_defs]: "UnreadMsgCountResponse_SerializeToByteStream B m s = write_ok B (steps [
     bs_put32 B (to_user_id m),
     SERIALIZE_OBJECTPTR_ARRAY_IMPLICIT B (unread_msg_count_response_SerializeToByteStream B)
       (user_unread_list m)] s)"

definition UnreadMsgCountResponse_fields :: "UnreadMsgCountResponse \<Rightarrow> field list" where
  [pdu_defs, fields_defs]: "UnreadMsgCountResponse_fields m =
     F32 (to_user_id m) # objs_fields unread_msg_count_response_fields (user_unread_list m)"

interpretation UnreadMsgCountResponse_pdu: teamtalk_pdu UnreadMsgCountResponse_ctor
  UnreadMsgCountResponse_ParseFromByteStream UnreadMsgCountResponse_SerializeToByteStream
  UnreadMsgCountResponse_ByteSize UnreadMsgCountResponse_fields "\<lambda>n m. m"
  by (rule teamtalk_pduI, rule UnreadMsgCountResponse_ParseFromByteStream_def, unfold fields_defs,
      (rule reads_intros)+)
    (simp_all add: pdu_defs)

subsection \<open>\<^verbatim>\<open>UnreadMsgRequest\<close>: \<^verbatim>\<open>proto/unread_msg_request.h\<close>, \<^verbatim>\<open>.cc\<close>\<close>

record UnreadMsgRequest = base_pdu +
  from_user_id :: u32
  to_user_id :: u32
  client_type :: u32

definition UnreadMsgRequest_ctor :: "UnreadMsgRequest \<Rightarrow> UnreadMsgRequest" where
  [pdu_defs]: "UnreadMsgRequest_ctor raw =
     BaseTeamTalkPDU_ctor MESSAGE_UNREAD_MSG_REQUEST kAttachDataTypeDB raw"

definition UnreadMsgRequest_ByteSize :: "UnreadMsgRequest \<Rightarrow> u32" where
  [pdu_defs]: "UnreadMsgRequest_ByteSize m =
     BaseTeamTalkPDU_ByteSize m + 4 + 4 + 4"

definition UnreadMsgRequest_ParseFromByteStream ::
  "'s bytestream \<Rightarrow> UnreadMsgRequest \<Rightarrow> 's \<Rightarrow> bool \<times> UnreadMsgRequest \<times> 's" where
  "UnreadMsgRequest_ParseFromByteStream B m s = read_ok B (steps [
     in32 B from_user_id from_user_id_update,
     in32 B to_user_id to_user_id_update,
     in32 B client_type client_type_update] (m, s))"

definition UnreadMsgRequest_SerializeToByteStream ::
  "'s bytestream \<Rightarrow> UnreadMsgRequest \<Rightarrow> 's \<Rightarrow> bool \<times> 's" where
  [pdu_defs]: "UnreadMsgRequest_SerializeToByteStream B m s = write_ok B (steps [
     bs_put32 B (from_user_id m),
     bs_put32 B (to_user_id m),
     bs_put32 B (client_type m)] s)"

definition UnreadMsgRequest_fields :: "UnreadMsgRequest \<Rightarrow> field list" where
  [pdu_defs, fields_defs]: "UnreadMsgRequest_fields m =
     [F32 (from_user_id m), F32 (to_user_id m), F32 (client_type m)]"

interpretation UnreadMsgRequest_pdu: teamtalk_pdu UnreadMsgRequest_ctor
  UnreadMsgRequest_ParseFromByteStream UnreadMsgRequest_SerializeToByteStream
  UnreadMsgRequest_ByteSize UnreadMsgRequest_fields "\<lambda>n m. m"
  by (rule teamtalk_pduI, rule UnreadMsgRequest_ParseFromByteStream_def, unfold fields_defs,
      (rule reads_intros)+)
    (simp_all add: pdu_defs)

subsection \<open>\<^verbatim>\<open>HistoryMsgRequest\<close>: \<^verbatim>\<open>proto/history_msg_request.h\<close>, \<^verbatim>\<open>.cc\<close>\<close>

record HistoryMsgRequest = base_pdu +
  from_user_id :: u32
  to_user_id :: u32
  msg_offset :: u32
  msg_count :: u32

definition HistoryMsgRequest_ctor :: "HistoryMsgRequest \<Rightarrow> HistoryMsgRequest" where
  [pdu_defs]: "HistoryMsgRequest_ctor raw =
     BaseTeamTalkPDU_ctor MESSAGE_HISTORY_MSG_REQUEST kAttachDataTypeDB raw"

definition HistoryMsgRequest_ByteSize :: "HistoryMsgRequest \<Rightarrow> u32" where
  [pdu_defs]: "HistoryMsgRequest_ByteSize m =
     BaseTeamTalkPDU_ByteSize m + 4 + 4 + 4 + 4"

definition HistoryMsgRequest_ParseFromByteStream ::
  "'s bytestream \<Rightarrow> HistoryMsgRequest \<Rightarrow> 's \<Rightarrow> bool \<times> HistoryMsgRequest \<times> 's" where
  "HistoryMsgRequest_ParseFromByteStream B m s = read_ok B (steps [
     in32 B from_user_id from_user_id_update,
     in32 B to_user_id to_user_id_update,
     in32 B msg_offset msg_offset_update,
     in32 B msg_count msg_count_update] (m, s))"

definition HistoryMsgRequest_SerializeToByteStream ::
  "'s bytestream \<Rightarrow> HistoryMsgRequest \<Rightarrow> 's \<Rightarrow> bool \<times> 's" where
  [pdu_defs]: "HistoryMsgRequest_SerializeToByteStream B m s = write_ok B (steps [
     bs_put32 B (from_user_id m),
     bs_put32 B (to_user_id m),
     bs_put32 B (msg_offset m),
     bs_put32 B (msg_count m)] s)"

definition HistoryMsgRequest_fields :: "HistoryMsgRequest \<Rightarrow> field list" where
  [pdu_defs, fields_defs]: "HistoryMsgRequest_fields m =
     [F32 (from_user_id m), F32 (to_user_id m), F32 (msg_offset m), F32 (msg_count m)]"

interpretation HistoryMsgRequest_pdu: teamtalk_pdu HistoryMsgRequest_ctor
  HistoryMsgRequest_ParseFromByteStream HistoryMsgRequest_SerializeToByteStream
  HistoryMsgRequest_ByteSize HistoryMsgRequest_fields "\<lambda>n m. m"
  by (rule teamtalk_pduI, rule HistoryMsgRequest_ParseFromByteStream_def, unfold fields_defs,
      (rule reads_intros)+)
    (simp_all add: pdu_defs)

subsection \<open>\<^verbatim>\<open>MsgListResponse\<close>: \<^verbatim>\<open>proto/msg_list_response.h\<close>, \<^verbatim>\<open>.cc\<close>\<close>

definition msg_list_response_ByteSize :: "ServerMsg \<Rightarrow> u32" where
  [pdu_defs]: "msg_list_response_ByteSize e =
     4 + SIZEOF_STRING (ServerMsg.from_name e) + SIZEOF_STRING (ServerMsg.from_nick_name e)
     + SIZEOF_STRING (ServerMsg.from_avatar_url e) + 4 + 1 + SIZEOF_STRING (ServerMsg.msg_data e)"

definition msg_list_response_ParseFromByteStream ::
  "'s bytestream \<Rightarrow> ServerMsg \<Rightarrow> 's \<Rightarrow> bool \<times> ServerMsg \<times> 's" where
  "msg_list_response_ParseFromByteStream B e s = read_ok B (steps [
     in32 B ServerMsg.from_user_id ServerMsg.from_user_id_update,
     in_str B ServerMsg.from_name ServerMsg.from_name_update,
     in_str B ServerMsg.from_nick_name ServerMsg.from_nick_name_update,
     in_str B ServerMsg.from_avatar_url ServerMsg.from_avatar_url_update,
     in32 B ServerMsg.create_time ServerMsg.create_time_update,
     in8 B ServerMsg.msg_type ServerMsg.msg_type_update,
     in_str B ServerMsg.msg_data ServerMsg.msg_data_update] (e, s))"

definition msg_list_response_SerializeToByteStream ::
  "'s bytestream \<Rightarrow> ServerMsg \<Rightarrow> 's \<Rightarrow> bool \<times> 's" where
  [pdu_defs]: "msg_list_response_SerializeToByteStream B e s = write_ok B (steps [
     bs_put32 B (ServerMsg.from_user_id e),
     out_str B (ServerMsg.from_name e),
     out_str B (ServerMsg.from_nick_name e),
     out_str B (ServerMsg.from_avatar_url e),
     bs_put32 B (ServerMsg.create_time e),
     bs_put8 B (ServerMsg.msg_type e),
     out_str B (ServerMsg.msg_data e)] s)"

definition msg_list_response_fields :: "ServerMsg \<Rightarrow> field list" where
  [pdu_defs]: "msg_list_response_fields e =
     [F32 (ServerMsg.from_user_id e), FStr (ServerMsg.from_name e),
     FStr (ServerMsg.from_nick_name e), FStr (ServerMsg.from_avatar_url e),
     F32 (ServerMsg.create_time e), F8 (ServerMsg.msg_type e), FStr (ServerMsg.msg_data e)]"

lemma msg_list_response_reads:
  "reads B cur W (\<lambda>(e, s). snd (msg_list_response_ParseFromByteStream B e s))
    (msg_list_response_fields e) new_ServerMsg e"
  unfolding msg_list_response_ParseFromByteStream_def msg_list_response_fields_def
  by (rule reads_cong, rule reads_result, (rule reads_intros)+) (simp add: pdu_defs)

lemma msg_list_response_array [reads_intros]:
  "reads B cur W (PARSE_OBJECTPTR_ARRAY_IMPLICIT B (msg_list_response_ParseFromByteStream B)
      new_ServerMsg g u)
    (objs_fields msg_list_response_fields xs) m (u (\<lambda>_. g m @ xs) m)"
  by (rule reads_cong, rule reads_object_array [OF msg_list_response_reads]) (simp_all add: pdu_defs)

lemma msg_list_response_writes [pdu_defs]:
  "SERIALIZE_OBJECTPTR_ARRAY_IMPLICIT B (msg_list_response_SerializeToByteStream B) xs s =
     put_fields B (objs_fields msg_list_response_fields xs) s"
  by (rule write_objs) (simp add: pdu_defs)

lemma msg_list_response_sizes [pdu_defs]:
  "CalculateContainerByteSize2 sz msg_list_response_ByteSize xs =
     sz + of_nat (fields_size (objs_fields msg_list_response_fields xs))"
  by (rule CalculateContainerByteSize2_eq) (simp add: pdu_defs)

record MsgListResponse = base_pdu +
  request_cmd_id :: u32
  from_user_id :: u32
  to_user_id :: u32
  msg_list :: "ServerMsg list"

definition MsgListResponse_ctor :: "MsgListResponse \<Rightarrow> MsgListResponse" where
  [pdu_defs]: "MsgListResponse_ctor raw =
     (BaseTeamTalkPDU_ctor MESSAGE_MSG_LIST_RESPONSE kAttachDataTypeDB raw)
       \<lparr>msg_list := []\<rparr>"

definition MsgListResponse_ByteSize :: "MsgListResponse \<Rightarrow> u32" where
  [pdu_defs]: "MsgListResponse_ByteSize m =
     (let sz = BaseTeamTalkPDU_ByteSize m;
          sz = sz + (4 + 4 + 4)
      in CalculateContainerByteSize2 sz msg_list_response_ByteSize (msg_list m))"

definition MsgListResponse_ParseFromByteStream ::
  "'s bytestream \<Rightarrow> MsgListResponse \<Rightarrow> 's \<Rightarrow> bool \<times> MsgListResponse \<times> 's" where
  "MsgListResponse_ParseFromByteStream B m s = read_ok B (steps [
     in32 B request_cmd_id request_cmd_id_update,
     in32 B from_user_id from_user_id_update,
     in32 B to_user_id to_user_id_update,
     PARSE_OBJECTPTR_ARRAY_IMPLICIT B (msg_list_response_ParseFromByteStream B) new_ServerMsg
       msg_list msg_list_update] (m, s))"

definition MsgListResponse_SerializeToByteStream ::
  "'s bytestream \<Rightarrow> MsgListResponse \<Rightarrow> 's \<Rightarrow> bool \<times> 's" where
  [pdu_defs]: "MsgListResponse_SerializeToByteStream B m s = write_ok B (steps [
     bs_put32 B (request_cmd_id m),
     bs_put32 B (from_user_id m),
     bs_put32 B (to_user_id m),
     SERIALIZE_OBJECTPTR_ARRAY_IMPLICIT B (msg_list_response_SerializeToByteStream B)
       (msg_list m)] s)"

definition MsgListResponse_fields :: "MsgListResponse \<Rightarrow> field list" where
  [pdu_defs, fields_defs]: "MsgListResponse_fields m =
     F32 (request_cmd_id m) # F32 (from_user_id m) # F32 (to_user_id m) #
     objs_fields msg_list_response_fields (msg_list m)"

interpretation MsgListResponse_pdu: teamtalk_pdu MsgListResponse_ctor
  MsgListResponse_ParseFromByteStream MsgListResponse_SerializeToByteStream
  MsgListResponse_ByteSize MsgListResponse_fields "\<lambda>n m. m"
  by (rule teamtalk_pduI, rule MsgListResponse_ParseFromByteStream_def, unfold fields_defs,
      (rule reads_intros)+)
    (simp_all add: pdu_defs)

subsection \<open>\<^verbatim>\<open>DBWriteResponse\<close>: \<^verbatim>\<open>proto/db_write_response.h\<close>, \<^verbatim>\<open>.cc\<close>\<close>

record DBWriteResponse = base_pdu +
  request_id :: u32
  result :: u32
  request_pdu_type :: u16
  from_id :: u32
  to_id :: u32

definition DBWriteResponse_ctor :: "DBWriteResponse \<Rightarrow> DBWriteResponse" where
  [pdu_defs]: "DBWriteResponse_ctor raw =
     BaseTeamTalkPDU_ctor MESSAGE_DB_WRITE_RESPONSE kAttachDataTypeNull raw"

definition DBWriteResponse_ByteSize :: "DBWriteResponse \<Rightarrow> u32" where
  [pdu_defs]: "DBWriteResponse_ByteSize m =
     BaseTeamTalkPDU_ByteSize m + 4 + 4 + 2 + 4 + 4"

definition DBWriteResponse_ParseFromByteStream ::
  "'s bytestream \<Rightarrow> DBWriteResponse \<Rightarrow> 's \<Rightarrow> bool \<times> DBWriteResponse \<times> 's" where
  "DBWriteResponse_ParseFromByteStream B m s = read_ok B (steps [
     in32 B request_id request_id_update,
     in32 B result result_update,
     in16 B request_pdu_type request_pdu_type_update,
     in32 B from_id from_id_update,
     in32 B to_id to_id_update] (m, s))"

definition DBWriteResponse_SerializeToByteStream ::
  "'s bytestream \<Rightarrow> DBWriteResponse \<Rightarrow> 's \<Rightarrow> bool \<times> 's" where
  [pdu_defs]: "DBWriteResponse_SerializeToByteStream B m s = write_ok B (steps [
     bs_put32 B (request_id m),
     bs_put32 B (result m),
     bs_put16 B (request_pdu_type m),
     bs_put32 B (from_id m),
     bs_put32 B (to_id m)] s)"

definition DBWriteResponse_fields :: "DBWriteResponse \<Rightarrow> field list" where
  [pdu_defs, fields_defs]: "DBWriteResponse_fields m =
     [F32 (request_id m), F32 (result m), F16 (request_pdu_type m), F32 (from_id m),
     F32 (to_id m)]"

interpretation DBWriteResponse_pdu: teamtalk_pdu DBWriteResponse_ctor
  DBWriteResponse_ParseFromByteStream DBWriteResponse_SerializeToByteStream
  DBWriteResponse_ByteSize DBWriteResponse_fields "\<lambda>n m. m"
  by (rule teamtalk_pduI, rule DBWriteResponse_ParseFromByteStream_def, unfold fields_defs,
      (rule reads_intros)+)
    (simp_all add: pdu_defs)

end
