(* ===== verification/Pdu_Group.thy ===== *)
theory Pdu_Group
  imports Pdu_Types Base_Data
begin

text \<open>
  Messages of the group service.
\<close>

subsection \<open>\<^verbatim>\<open>GroupListRequest\<close>: \<^verbatim>\<open>proto/group_list_request.h\<close>, \<^verbatim>\<open>.cc\<close>\<close>

record GroupListRequest = base_pdu +
  user_id :: u32

definition GroupListRequest_ctor :: "GroupListRequest \<Rightarrow> GroupListRequest" where
  [pdu_defs]: "GroupListRequest_ctor raw =
     BaseTeamTalkPDU_ctor MESSAGE_GROUP_LIST_REQUEST kAttachDataTypeDB raw"

definition GroupListRequest_ByteSize :: "GroupListRequest \<Rightarrow> u32" where
  [pdu_defs]: "GroupListRequest_ByteSize m =
     BaseTeamTalkPDU_ByteSize m + 4"

definition GroupListRequest_ParseFromByteStream ::
  "'s bytestream \<Rightarrow> GroupListRequest \<Rightarrow> 's \<Rightarrow> bool \<times> GroupListRequest \<times> 's" where
  "GroupListRequest_ParseFromByteStream B m s = read_ok B (steps [
     in32 B user_id user_id_update] (m, s))"

definition GroupListRequest_SerializeToByteStream ::
  "'s bytestream \<Rightarrow> GroupListRequest \<Rightarrow> 's \<Rightarrow> bool \<times> 's" where
  [pdu_defs]: "GroupListRequest_SerializeToByteStream B m s = write_ok B (steps [
     bs_put32 B (user_id m)] s)"

definition GroupListRequest_fields :: "GroupListRequest \<Rightarrow> field list" where
  [pdu_defs, fields_defs]: "GroupListRequest_fields m =
     [F32 (user_id m)]"

interpretation GroupListRequest_pdu: teamtalk_pdu GroupListRequest_ctor
  GroupListRequest_ParseFromByteStream GroupListRequest_SerializeToByteStream
  GroupListRequest_ByteSize GroupListRequest_fields "\<lambda>n m. m"
  by (rule teamtalk_pduI, rule GroupListRequest_ParseFromByteStream_def, unfold fields_defs,
      (rule reads_intros)+)
    (simp_all add: pdu_defs)

subsection \<open>\<^verbatim>\<open>GroupListResponse\<close>: \<^verbatim>\<open>proto/group_list_response.h\<close>, \<^verbatim>\<open>.cc\<close>\<close>

definition group_list_response_ByteSize :: "GroupInfo \<Rightarrow> u32" where
  [pdu_defs]: "group_list_response_ByteSize e =
     4 + SIZEOF_STRING (GroupInfo.group_name e) + SIZEOF_STRING (GroupInfo.group_avatar e) + 4
     + 4 + CalculateContainerByteSize (GroupInfo.group_memeber_list e)"

definition group_list_response_ParseFromByteStream ::
  "'s bytestream \<Rightarrow> GroupInfo \<Rightarrow> 's \<Rightarrow> bool \<times> GroupInfo \<times> 's" where
  "group_list_response_ParseFromByteStream B e s = read_ok B (steps [
     in32 B GroupInfo.group_id GroupInfo.group_id_update,
     in_str B GroupInfo.group_name GroupInfo.group_name_update,
     in_str B GroupInfo.group_avatar GroupInfo.group_avatar_update,
     in32 B GroupInfo.group_type GroupInfo.group_type_update,
     in32 B GroupInfo.group_creator_id GroupInfo.group_creator_id_update,
     PARSE_BASICTYPE_ARRAY_IMPLICIT B GroupInfo.group_memeber_list GroupInfo.group_memeber_list_update] (e, s))"

definition group_list_response_SerializeToByteStream ::
  "'s bytestream \<Rightarrow> GroupInfo \<Rightarrow> 's \<Rightarrow> bool \<times> 's" where
  [pdu_defs]: "group_list_response_SerializeToByteStream B e s = write_ok B (steps [
     bs_put32 B (GroupInfo.group_id e),
     out_str B (GroupInfo.group_name e),
     out_str B (GroupInfo.group_avatar e),
     bs_put32 B (GroupInfo.group_type e),
     bs_put32 B (GroupInfo.group_creator_id e),
     SERIALIZE_BASICTYPE_ARRAY_IMPLICIT B (GroupInfo.group_memeber_list e)] s)"

definition group_list_response_fields :: "GroupInfo \<Rightarrow> field list" where
  [pdu_defs]: "group_list_response_fields e =
     F32 (GroupInfo.group_id e) # FStr (GroupInfo.group_name e) #
     FStr (GroupInfo.group_avatar e) # F32 (GroupInfo.group_type e) #
     F32 (GroupInfo.group_creator_id e) # u32s_fields (GroupInfo.group_memeber_list e)"

definition group_list_response_canon :: "GroupInfo \<Rightarrow> GroupInfo" where
  [pdu_defs]: "group_list_response_canon e = e\<lparr>GroupInfo.group_updated := 0\<rparr>"

lemma group_list_response_reads:
  "reads B cur W (\<lambda>(e, s). snd (group_list_response_ParseFromByteStream B e s))
    (group_list_response_fields e) new_GroupInfo (group_list_response_canon e)"
  unfolding group_list_response_ParseFromByteStream_def group_list_response_fields_def
  by (rule reads_cong, rule reads_result, (rule reads_intros)+) (simp add: pdu_defs)

lemma group_list_response_array [reads_intros]:
  "reads B cur W (PARSE_OBJECTPTR_ARRAY_IMPLICIT B (group_list_response_ParseFromByteStream B)
      new_GroupInfo g u)
    (objs_fields group_list_response_fields xs) m (u (\<lambda>_. g m @ map group_list_response_canon xs) m)"
  by (rule reads_object_array [OF group_list_response_reads]) (simp_all add: pdu_defs)

lemma group_list_response_writes [pdu_defs]:
  "SERIALIZE_OBJECTPTR_ARRAY_IMPLICIT B (group_list_response_SerializeToByteStream B) xs s =
     put_fields B (objs_fields group_list_response_fields xs) s"
  by (rule write_objs) (simp add: pdu_defs)

lemma group_list_response_sizes [pdu_defs]:
  "CalculateContainerByteSize2 sz group_list_response_ByteSize xs =
     sz + of_nat (fields_size (objs_fields group_list_response_fields xs))"
  by (rule CalculateContainerByteSize2_eq) (simp add: pdu_defs)

record GroupListResponse = base_pdu +
  req_user_id :: u32
  group_list :: "GroupInfo list"

definition GroupListResponse_ctor :: "GroupListResponse \<Rightarrow> GroupListResponse" where
  [pdu_defs]: "GroupListResponse_ctor raw =
     (BaseTeamTalkPDU_ctor MESSAGE_GROUP_LIST_RESPONSE kAttachDataTypeDB raw)
       \<lparr>group_list := []\<rparr>"

definition GroupListResponse_ByteSize :: "GroupListResponse \<Rightarrow> u32" where
  [pdu_defs]: "GroupListResponse_ByteSize m =
     (let sz = BaseTeamTalkPDU_ByteSize m;
          sz = sz + 4
      in CalculateContainerByteSize2 sz group_list_response_ByteSize (group_list m))"

definition GroupListResponse_ParseFromByteStream ::
  "'s bytestream \<Rightarrow> GroupListResponse \<Rightarrow> 's \<Rightarrow> bool \<times> GroupListResponse \<times> 's" where
  "GroupListResponse_ParseFromByteStream B m s = read_ok B (steps [
     in32 B req_user_id req_user_id_update,
     PARSE_OBJECTPTR_ARRAY_IMPLICIT B (group_list_response_ParseFromByteStream B) new_GroupInfo
       group_list group_list_update] (m, s))"

definition GroupListResponse_SerializeToByteStream ::
  "'s bytestream \<Rightarrow> GroupListResponse \<Rightarrow> 's \<Rightarrow> bool \<times> 's" where
  [pdu_defs]: "GroupListResponse_SerializeToByteStream B m s = write_ok B (steps [
     bs_put32 B (req_user_id m),
     SERIALIZE_OBJECTPTR_ARRAY_IMPLICIT B (group_list_response_SerializeToByteStream B)
       (group_list m)] s)"

definition GroupListResponse_fields :: "GroupListResponse \<Rightarrow> field list" where
  [pdu_defs, fields_defs]: "GroupListResponse_fields m =
     F32 (req_user_id m) # objs_fields group_list_response_fields (group_list m)"

definition GroupListResponse_canon :: "GroupListResponse \<Rightarrow> GroupListResponse \<Rightarrow> GroupListResponse" where
  [pdu_defs]: "GroupListResponse_canon n m = m\<lparr>group_list := map group_list_response_canon (group_list m)\<rparr>"

interpretation GroupListResponse_pdu: teamtalk_pdu GroupListResponse_ctor
  GroupListResponse_ParseFromByteStream GroupListResponse_SerializeToByteStream
  GroupListResponse_ByteSize GroupListResponse_fields GroupListResponse_canon
  by (rule teamtalk_pduI, rule GroupListResponse_ParseFromByteStream_def, unfold fields_defs,
      (rule reads_intros)+)
    (simp_all add: pdu_defs)

subsection \<open>\<^verbatim>\<open>GroupDialogListRequest\<close>: \<^verbatim>\<open>proto/group_dialog_list_request.h\<close>, \<^verbatim>\<open>.cc\<close>\<close>

record GroupDialogListRequest = base_pdu +
  user_id :: u32

definition GroupDialogListRequest_ctor :: "GroupDialogListRequest \<Rightarrow> GroupDialogListRequest" where
  [pdu_defs]: "GroupDialogListRequest_ctor raw =
     BaseTeamTalkPDU_ctor MESSAGE_GROUP_DIALOG_LIST_REQUEST kAttachDataTypeDB raw"

definition GroupDialogListRequest_ByteSize :: "GroupDialogListRequest \<Rightarrow> u32" where
  [pdu_defs]: "GroupDialogListRequest_ByteSize m =
     BaseTeamTalkPDU_ByteSize m + 4"

definition GroupDialogListRequest_ParseFromByteStream ::
  "'s bytestream \<Rightarrow> GroupDialogListRequest \<Rightarrow> 's \<Rightarrow> bool \<times> GroupDialogListRequest \<times> 's" where
  "GroupDialogListRequest_ParseFromByteStream B m s = read_ok B (steps [
     in32 B user_id user_id_update] (m, s))"

definition GroupDialogListRequest_SerializeToByteStream ::
  "'s bytestream \<Rightarrow> GroupDialogListRequest \<Rightarrow> 's \<Rightarrow> bool \<times> 's" where
  [pdu_defs]: "GroupDialogListRequest_SerializeToByteStream B m s = write_ok B (steps [
     bs_put32 B (user_id m)] s)"

definition GroupDialogListRequest_fields :: "GroupDialogListRequest \<Rightarrow> field list" where
  [pdu_defs, fields_defs]: "GroupDialogListRequest_fields m =
     [F32 (user_id m)]"

interpretation GroupDialogListRequest_pdu: teamtalk_pdu GroupDialogListRequest_ctor
  GroupDialogListRequest_ParseFromByteStream GroupDialogListRequest_SerializeToByteStream
  GroupDialogListRequest_ByteSize GroupDialogListRequest_fields "\<lambda>n m. m"
  by (rule teamtalk_pduI, rule GroupDialogListRequest_ParseFromByteStream_def, unfold fields_defs,
      (rule reads_intros)+)
    (simp_all add: pdu_defs)

subsection \<open>\<^verbatim>\<open>GroupDialogListResponse\<close>: \<^verbatim>\<open>proto/group_dialog_list_response.h\<close>, \<^verbatim>\<open>.cc\<close>\<close>

definition group_dialog_list_response_ByteSize :: "GroupInfo \<Rightarrow> u32" where
  [pdu_defs]: "group_dialog_list_response_ByteSize e =
     4 + SIZEOF_STRING (GroupInfo.group_name e) + SIZEOF_STRING (GroupInfo.group_avatar e) + 4
     + 4 + 4 + CalculateContainerByteSize (GroupInfo.group_memeber_list e)"

definition group_dialog_list_response_ParseFromByteStream ::
  "'s bytestream \<Rightarrow> GroupInfo \<Rightarrow> 's \<Rightarrow> bool \<times> GroupInfo \<times> 's" where
  "group_dialog_list_response_ParseFromByteStream B e s = read_ok B (steps [
     in32 B GroupInfo.group_id GroupInfo.group_id_update,
     in_str B GroupInfo.group_name GroupInfo.group_name_update,
     in_str B GroupInfo.group_avatar GroupInfo.group_avatar_update,
     in32 B GroupInfo.group_type GroupInfo.group_type_update,
     in32 B GroupInfo.group_creator_id GroupInfo.group_creator_id_update,
     in32 B GroupInfo.group_updated GroupInfo.group_updated_update,
     PARSE_BASICTYPE_ARRAY_IMPLICIT B GroupInfo.group_memeber_list GroupInfo.group_memeber_list_update] (e, s))"

definition group_dialog_list_response_SerializeToByteStream ::
  "'s bytestream \<Rightarrow> GroupInfo \<Rightarrow> 's \<Rightarrow> bool \<times> 's" where
  [pdu_defs]: "group_dialog_list_response_SerializeToByteStream B e s = write_ok B (steps [
     bs_put32 B (GroupInfo.group_id e),
     out_str B (GroupInfo.group_name e),
     out_str B (GroupInfo.group_avatar e),
     bs_put32 B (GroupInfo.group_type e),
     bs_put32 B (GroupInfo.group_creator_id e),
     bs_put32 B (GroupInfo.group_updated e),
     SERIALIZE_BASICTYPE_ARRAY_IMPLICIT B (GroupInfo.group_memeber_list e)] s)"

definition group_dialog_list_response_fields :: "GroupInfo \<Rightarrow> field list" where
  [pdu_defs]: "group_dialog_list_response_fields e =
     F32 (GroupInfo.group_id e) # FStr (GroupInfo.group_name e) #
     FStr (GroupInfo.group_avatar e) # F32 (GroupInfo.group_type e) #
     F32 (GroupInfo.group_creator_id e) # F32 (GroupInfo.group_updated e) #
     u32s_fields (GroupInfo.group_memeber_list e)"

lemma group_dialog_list_response_reads:
  "reads B cur W (\<lambda>(e, s). snd (group_dialog_list_response_ParseFromByteStream B e s))
    (group_dialog_list_response_fields e) new_GroupInfo e"
  unfolding group_dialog_list_response_ParseFromByteStream_def group_dialog_list_response_fields_def
  by (rule reads_cong, rule reads_result, (rule reads_intros)+) (simp add: pdu_defs)

lemma group_dialog_list_response_array [reads_intros]:
  "reads B cur W (PARSE_OBJECTPTR_ARRAY_IMPLICIT B (group_dialog_list_response_ParseFromByteStream B)
      new_GroupInfo g u)
    (objs_fields group_dialog_list_response_fields xs) m (u (\<lambda>_. g m @ xs) m)"
  by (rule reads_cong, rule reads_object_array [OF group_dialog_list_response_reads]) (simp_all add: pdu_defs)

lemma group_dialog_list_response_writes [pdu_defs]:
  "SERIALIZE_OBJECTPTR_ARRAY_IMPLICIT B (group_dialog_list_response_SerializeToByteStream B) xs s =
     put_fields B (objs_fields group_dialog_list_response_fields xs) s"
  by (rule write_objs) (simp add: pdu_defs)

lemma group_dialog_list_response_sizes [pdu_defs]:
  "CalculateContainerByteSize2 sz group_dialog_list_response_ByteSize xs =
     sz + of_nat (fields_size (objs_fields group_dialog_list_response_fields xs))"
  by (rule CalculateContainerByteSize2_eq) (simp add: pdu_defs)

record GroupDialogListResponse = base_pdu +
  req_user_id :: u32
  group_list :: "GroupInfo list"

definition GroupDialogListResponse_ctor :: "GroupDialogListResponse \<Rightarrow> GroupDialogListResponse" where
  [pdu_defs]: "GroupDialogListResponse_ctor raw =
     (BaseTeamTalkPDU_ctor MESSAGE_GROUP_DIALOG_LIST_RESPONSE kAttachDataTypeDB raw)
       \<lparr>group_list := []\<rparr>"

definition GroupDialogListResponse_ByteSize :: "GroupDialogListResponse \<Rightarrow> u32" where
  [pdu_defs]: "GroupDialogListResponse_ByteSize m =
     (let sz = BaseTeamTalkPDU_ByteSize m;
          sz = sz + 4
      in CalculateContainerByteSize2 sz group_dialog_list_response_ByteSize (group_list m))"

definition GroupDialogListResponse_ParseFromByteStream ::
  "'s bytestream \<Rightarrow> GroupDialogListResponse \<Rightarrow> 's \<Rightarrow> bool \<times> GroupDialogListResponse \<times> 's" where
  "GroupDialogListResponse_ParseFromByteStream B m s = read_ok B (steps [
     in32 B req_user_id req_user_id_update,
     PARSE_OBJECTPTR_ARRAY_IMPLICIT B (group_dialog_list_response_ParseFromByteStream B) new_GroupInfo
       group_list group_list_update] (m, s))"

definition GroupDialogListResponse_SerializeToByteStream ::
  "'s bytestream \<Rightarrow> GroupDialogListResponse \<Rightarrow> 's \<Rightarrow> bool \<times> 's" where
  [pdu_defs]: "GroupDialogListResponse_SerializeToByteStream B m s = write_ok B (steps [
     bs_put32 B (req_user_id m),
     SERIALIZE_OBJECTPTR_ARRAY_IMPLICIT B (group_dialog_list_response_SerializeToByteStream B)
       (group_list m)] s)"

definition GroupDialogListResponse_fields :: "GroupDialogListResponse \<Rightarrow> field list" where
  [pdu_defs, fields_defs]: "GroupDialogListResponse_fields m =
     F32 (req_user_id m) # objs_fields group_dialog_list_response_fields (group_list m)"

interpretation GroupDialogListResponse_pdu: teamtalk_pdu GroupDialogListResponse_ctor
  GroupDialogListResponse_ParseFromByteStream GroupDialogListResponse_SerializeToByteStream
  GroupDialogListResponse_ByteSize GroupDialogListResponse_fields "\<lambda>n m. m"
  by (rule teamtalk_pduI, rule GroupDialogListResponse_ParseFromByteStream_def, unfold fields_defs,
      (rule reads_intros)+)
    (simp_all add: pdu_defs)

subsection \<open>\<^verbatim>\<open>GroupUserListRequest\<close>: \<^verbatim>\<open>proto/group_user_list_request.h\<close>, \<^verbatim>\<open>.cc\<close>\<close>

record GroupUserListRequest = base_pdu +
  req_user_id :: u32
  group_id :: u32

definition GroupUserListRequest_ctor :: "GroupUserListRequest \<Rightarrow> GroupUserListRequest" where
  [pdu_defs]: "GroupUserListRequest_ctor raw =
     BaseTeamTalkPDU_ctor MESSAGE_GROUP_USER_LIST_REQUEST kAttachDataTypeDB raw"

definition GroupUserListRequest_ByteSize :: "GroupUserListRequest \<Rightarrow> u32" where
  [pdu_defs]: "GroupUserListRequest_ByteSize m =
     BaseTeamTalkPDU_ByteSize m + 4 + 4"

definition GroupUserListRequest_ParseFromByteStream ::
  "'s bytestream \<Rightarrow> GroupUserListRequest \<Rightarrow> 's \<Rightarrow> bool \<times> GroupUserListRequest \<times> 's" where
  "GroupUserListRequest_ParseFromByteStream B m s = read_ok B (steps [
     in32 B req_user_id req_user_id_update,
     in32 B group_id group_id_update] (m, s))"

definition GroupUserListRequest_SerializeToByteStream ::
  "'s bytestream \<Rightarrow> GroupUserListRequest \<Rightarrow> 's \<Rightarrow> bool \<times> 's" where
  [pdu_defs]: "GroupUserListRequest_SerializeToByteStream B m s = write_ok B (steps [
     bs_put32 B (req_user_id m),
     bs_put32 B (group_id m)] s)"

definition GroupUserListRequest_fields :: "GroupUserListRequest \<Rightarrow> field list" where
  [pdu_defs, fields_defs]: "GroupUserListRequest_fields m =
     [F32 (req_user_id m), F32 (group_id m)]"

interpretation GroupUserListRequest_pdu: teamtalk_pdu GroupUserListRequest_ctor
  GroupUserListRequest_ParseFromByteStream GroupUserListRequest_SerializeToByteStream
  GroupUserListRequest_ByteSize GroupUserListRequest_fields "\<lambda>n m. m"
  by (rule teamtalk_pduI, rule GroupUserListRequest_ParseFromByteStream_def, unfold fields_defs,
      (rule reads_intros)+)
    (simp_all add: pdu_defs)

subsection \<open>\<^verbatim>\<open>GroupUserListResponse\<close>: \<^verbatim>\<open>proto/group_user_list_response.h\<close>, \<^verbatim>\<open>.cc\<close>\<close>

record GroupUserListResponse = base_pdu +
  req_user_id :: u32
  group_id :: u32
  result :: u32
  group_name :: string
  group_avatar :: string
  group_type :: u32
  group_creator_id :: u32
  user_list :: "u32 list"

definition GroupUserListResponse_ctor :: "GroupUserListResponse \<Rightarrow> GroupUserListResponse" where
  [pdu_defs]: "GroupUserListResponse_ctor raw =
     (BaseTeamTalkPDU_ctor MESSAGE_GROUP_USER_LIST_RESPONSE kAttachDataTypeDB raw)
       \<lparr>group_name := '''', group_avatar := '''', user_list := []\<rparr>"

definition GroupUserListResponse_ByteSize :: "GroupUserListResponse \<Rightarrow> u32" where
  [pdu_defs]: "GroupUserListResponse_ByteSize m =
     BaseTeamTalkPDU_ByteSize m + 4 + 4 + 4 + SIZEOF_STRING (group_name m)
     + SIZEOF_STRING (group_avatar m) + 4 + 4 + CalculateContainerByteSize (user_list m)"

definition GroupUserListResponse_ParseFromByteStream ::
  "'s bytestream \<Rightarrow> GroupUserListResponse \<Rightarrow> 's \<Rightarrow> bool \<times> GroupUserListResponse \<times> 's" where
  "GroupUserListResponse_ParseFromByteStream B m s = read_ok B (steps [
     in32 B req_user_id req_user_id_update,
     in32 B group_id group_id_update,
     in32 B result result_update,
     in_str B group_name group_name_update,
     in_str B group_avatar group_avatar_update,
     in32 B group_type group_type_update,
     in32 B group_creator_id group_creator_id_update,
     PARSE_BASICTYPE_ARRAY_IMPLICIT B user_list user_list_update] (m, s))"

definition GroupUserListResponse_SerializeToByteStream ::
  "'s bytestream \<Rightarrow> GroupUserListResponse \<Rightarrow> 's \<Rightarrow> bool \<times> 's" where
  [pdu_defs]: "GroupUserListResponse_SerializeToByteStream B m s = write_ok B (steps [
     bs_put32 B (req_user_id m),
     bs_put32 B (group_id m),
     bs_put32 B (result m),
     out_str B (group_name m),
     out_str B (group_avatar m),
     bs_put32 B (group_type m),
     bs_put32 B (group_creator_id m),
     SERIALIZE_BASICTYPE_ARRAY_IMPLICIT B (user_list m)] s)"

definition GroupUserListResponse_fields :: "GroupUserListResponse \<Rightarrow> field list" where
  [pdu_defs, fields_defs]: "GroupUserListResponse_fields m =
     F32 (req_user_id m) # F32 (group_id m) # F32 (result m) # FStr (group_name m) #
     FStr (group_avatar m) # F32 (group_type m) # F32 (group_creator_id m) #
     u32s_fields (user_list m)"

interpretation GroupUserListResponse_pdu: teamtalk_pdu GroupUserListResponse_ctor
  GroupUserListResponse_ParseFromByteStream GroupUserListResponse_SerializeToByteStream
  GroupUserListResponse_ByteSize GroupUserListResponse_fields "\<lambda>n m. m"
  by (rule teamtalk_pduI, rule GroupUserListResponse_ParseFromByteStream_def, unfold fields_defs,
      (rule reads_intros)+)
    (simp_all add: pdu_defs)

subsection \<open>\<^verbatim>\<open>GroupUnreadMsgCountRequest\<close>: \<^verbatim>\<open>proto/group_unread_msg_count_request.h\<close>, \<^verbatim>\<open>.cc\<close>\<close>

record GroupUnreadMsgCountRequest = base_pdu +
  req_user_id :: u32
  client_type :: u32

definition GroupUnreadMsgCountRequest_ctor :: "GroupUnreadMsgCountRequest \<Rightarrow> GroupUnreadMsgCountRequest" where
  [pdu_defs]: "GroupUnreadMsgCountRequest_ctor raw =
     BaseTeamTalkPDU_ctor MESSAGE_GROUP_UNREAD_MSG_COUNT_REQUEST kAttachDataTypeDB raw"

definition GroupUnreadMsgCountRequest_ByteSize :: "GroupUnreadMsgCountRequest \<Rightarrow> u32" where
  [pdu_defs]: "GroupUnreadMsgCountRequest_ByteSize m =
     BaseTeamTalkPDU_ByteSize m + 4 + 4"

definition GroupUnreadMsgCountRequest_ParseFromByteStream ::
  "'s bytestream \<Rightarrow> GroupUnreadMsgCountRequest \<Rightarrow> 's \<Rightarrow> bool \<times> GroupUnreadMsgCountRequest \<times> 's" where
  "GroupUnreadMsgCountRequest_ParseFromByteStream B m s = read_ok B (steps [
     in32 B req_user_id req_user_id_update,
     in32 B client_type client_type_update] (m, s))"

definition GroupUnreadMsgCountRequest_SerializeToByteStream ::
  "'s bytestream \<Rightarrow> GroupUnreadMsgCountRequest \<Rightarrow> 's \<Rightarrow> bool \<times> 's" where
  [pdu_defs]: "GroupUnreadMsgCountRequest_SerializeToByteStream B m s = write_ok B (steps [
     bs_put32 B (req_user_id m),
     bs_put32 B (client_type m)] s)"

definition GroupUnreadMsgCountRequest_fields :: "GroupUnreadMsgCountRequest \<Rightarrow> field list" where
  [pdu_defs, fields_defs]: "GroupUnreadMsgCountRequest_fields m =
     [F32 (req_user_id m), F32 (client_type m)]"

interpretation GroupUnreadMsgCountRequest_pdu: teamtalk_pdu GroupUnreadMsgCountRequest_ctor
  GroupUnreadMsgCountRequest_ParseFromByteStream GroupUnreadMsgCountRequest_SerializeToByteStream
  GroupUnreadMsgCountRequest_ByteSize GroupUnreadMsgCountRequest_fields "\<lambda>n m. m"
  by (rule teamtalk_pduI, rule GroupUnreadMsgCountRequest_ParseFromByteStream_def, unfold fields_defs,
      (rule reads_intros)+)
    (simp_all add: pdu_defs)

subsection \<open>\<^verbatim>\<open>GroupUnreadMsgCountResponse\<close>: \<^verbatim>\<open>proto/group_unread_msg_count_response.h\<close>, \<^verbatim>\<open>.cc\<close>\<close>

definition group_unread_msg_count_response_ByteSize :: "GroupUnreadMsgCount \<Rightarrow> u32" where
  [pdu_defs]: "group_unread_msg_count_response_ByteSize e =
     4 + 4"

definition group_unread_msg_count_response_ParseFromByteStream ::
  "'s bytestream \<Rightarrow> GroupUnreadMsgCount \<Rightarrow> 's \<Rightarrow> bool \<times> GroupUnreadMsgCount \<times> 's" where
  "group_unread_msg_count_response_ParseFromByteStream B e s = read_ok B (steps [
     in32 B GroupUnreadMsgCount.group_id GroupUnreadMsgCount.group_id_update,
     in32 B GroupUnreadMsgCount.unread_msg_count GroupUnreadMsgCount.unread_msg_count_update] (e, s))"

definition group_unread_msg_count_response_SerializeToByteStream ::
  "'s bytestream \<Rightarrow> GroupUnreadMsgCount \<Rightarrow> 's \<Rightarrow> bool \<times> 's" where
  [pdu_defs]: "group_unread_msg_count_response_SerializeToByteStream B e s = write_ok B (steps [
     bs_put32 B (GroupUnreadMsgCount.group_id e),
     bs_put32 B (GroupUnreadMsgCount.unread_msg_count e)] s)"

definition group_unread_msg_count_response_fields :: "GroupUnreadMsgCount \<Rightarrow> field list" where
  [pdu_defs]: "group_unread_msg_count_response_fields e =
     [F32 (GroupUnreadMsgCount.group_id e), F32 (GroupUnreadMsgCount.unread_msg_count e)]"

lemma group_unread_msg_count_response_reads:
  "reads B cur W (\<lambda>(e, s). snd (group_unread_msg_count_response_ParseFromByteStream B e s))
    (group_unread_msg_count_response_fields e) new_GroupUnreadMsgCount e"
  unfolding group_unread_msg_count_response_ParseFromByteStream_def group_unread_msg_count_response_fields_def
  by (rule reads_cong, rule reads_result, (rule reads_intros)+) (simp add: pdu_defs)

lemma group_unread_msg_count_response_array [reads_intros]:
  "reads B cur W (PARSE_OBJECTPTR_ARRAY_IMPLICIT B (group_unread_msg_count_response_ParseFromByteStream B)
      new_GroupUnreadMsgCount g u)
    (objs_fields group_unread_msg_count_response_fields xs) m (u (\<lambda>_. g m @ xs) m)"
  by (rule reads_cong, rule reads_object_array [OF group_unread_msg_count_response_reads]) (simp_all add: pdu_defs)

lemma group_unread_msg_count_response_writes [pdu_defs]:
  "SERIALIZE_OBJECTPTR_ARRAY_IMPLICIT B (group_unread_msg_count_response_SerializeToByteStream B) xs s =
     put_fields B (objs_fields group_unread_msg_count_response_fields xs) s"
  by (rule write_objs) (simp add: pdu_defs)

lemma group_unread_msg_count_response_sizes [pdu_defs]:
  "CalculateContainerByteSize2 sz group_unread_msg_count_response_ByteSize xs =
     sz + of_nat (fields_size (objs_fields group_unread_msg_count_response_fields xs))"
  by (rule CalculateContainerByteSize2_eq) (simp add: pdu_defs)

record GroupUnreadMsgCountResponse = base_pdu +
  req_user_id :: u32
  group_unread_list :: "GroupUnreadMsgCount list"

definition GroupUnreadMsgCountResponse_ctor :: "GroupUnreadMsgCountResponse \<Rightarrow> GroupUnreadMsgCountResponse" where
  [pdu_defs]: "GroupUnreadMsgCountResponse_ctor raw =
     (BaseTeamTalkPDU_ctor MESSAGE_GROUP_UNREAD_MSG_COUNT_RESPONSE kAttachDataTypeDB raw)
       \<lparr>group_unread_list := []\<rparr>"

definition GroupUnreadMsgCountResponse_ByteSize :: "GroupUnreadMsgCountResponse \<Rightarrow> u32" where
  [pdu_defs]: "GroupUnreadMsgCountResponse_ByteSize m =
     (let sz = BaseTeamTalkPDU_ByteSize m;
          sz = sz + 4
      in CalculateContainerByteSize2 sz group_unread_msg_count_response_ByteSize (group_unread_list m))"

definition GroupUnreadMsgCountResponse_ParseFromByteStream ::
  "'s bytestream \<Rightarrow> GroupUnreadMsgCountResponse \<Rightarrow> 's \<Rightarrow> bool \<times> GroupUnreadMsgCountResponse \<times> 's" where
  "GroupUnreadMsgCountResponse_ParseFromByteStream B m s = read_ok B (steps [
     in32 B req_user_id req_user_id_update,
     PARSE_OBJECTPTR_ARRAY_IMPLICIT B (group_unread_msg_count_response_ParseFromByteStream B) new_GroupUnreadMsgCount
       group_unread_list group_unread_list_update] (m, s))"

definition GroupUnreadMsgCountResponse_SerializeToByteStream ::
  "'s bytestream \<Rightarrow> GroupUnreadMsgCountResponse \<Rightarrow> 's \<Rightarrow> bool \<times> 's" where
  [pdu_defs]: "GroupUnreadMsgCountResponse_SerializeToByteStream B m s = write_ok B (steps [
     bs_put32 B (req_user_id m),
     SERIALIZE_OBJECTPTR_ARRAY_IMPLICIT B (group_unread_msg_count_response_SerializeToByteStream B)
       (group_unread_list m)] s)"

definition GroupUnreadMsgCountResponse_fields :: "GroupUnreadMsgCountResponse \<Rightarrow> field list" where
  [pdu_defs, fields_defs]: "GroupUnreadMsgCountResponse_fields m =
     F32 (req_user_id m) #
     objs_fields group_unread_msg_count_response_fields (group_unread_list m)"

interpretation GroupUnreadMsgCountResponse_pdu: teamtalk_pdu GroupUnreadMsgCountResponse_ctor
  GroupUnreadMsgCountResponse_ParseFromByteStream GroupUnreadMsgCountResponse_SerializeToByteStream
  GroupUnreadMsgCountResponse_ByteSize GroupUnreadMsgCountResponse_fields "\<lambda>n m. m"
  by (rule teamtalk_pduI, rule GroupUnreadMsgCountResponse_ParseFromByteStream_def, unfold fields_defs,
      (rule reads_intros)+)
    (simp_all add: pdu_defs)

subsection \<open>\<^verbatim>\<open>GroupUnreadMsgRequest\<close>: \<^verbatim>\<open>proto/group_unread_msg_request.h\<close>, \<^verbatim>\<open>.cc\<close>\<close>

record GroupUnreadMsgRequest = base_pdu +
  req_user_id :: u32
  group_id :: u32
  client_type :: u32

definition GroupUnreadMsgRequest_ctor :: "GroupUnreadMsgRequest \<Rightarrow> GroupUnreadMsgRequest" where
  [pdu_defs]: "GroupUnreadMsgRequest_ctor raw =
     BaseTeamTalkPDU_ctor MESSAGE_GROUP_UNREAD_MSG_REQUEST kAttachDataTypeDB raw"

definition GroupUnreadMsgRequest_ByteSize :: "GroupUnreadMsgRequest \<Rightarrow> u32" where
  [pdu_defs]: "GroupUnreadMsgRequest_ByteSize m =
     BaseTeamTalkPDU_ByteSize m + 4 + 4 + 4"

definition GroupUnreadMsgRequest_ParseFromByteStream ::
  "'s bytestream \<Rightarrow> GroupUnreadMsgRequest \<Rightarrow> 's \<Rightarrow> bool \<times> GroupUnreadMsgRequest \<times> 's" where
  "GroupUnreadMsgRequest_ParseFromByteStream B m s = read_ok B (steps [
     in32 B req_user_id req_user_id_update,
     in32 B group_id group_id_update,
     in32 B client_type client_type_update] (m, s))"

definition GroupUnreadMsgRequest_SerializeToByteStream ::
  "'s bytestream \<Rightarrow> GroupUnreadMsgRequest \<Rightarrow> 's \<Rightarrow> bool \<times> 's" where
  [pdu_defs]: "GroupUnreadMsgRequest_SerializeToByteStream B m s = write_ok B (steps [
     bs_put32 B (req_user_id m),
     bs_put32 B (group_id m),
     bs_put32 B (client_type m)] s)"

definition GroupUnreadMsgRequest_fields :: "GroupUnreadMsgRequest \<Rightarrow> field list" where
  [pdu_defs, fields_defs]: "GroupUnreadMsgRequest_fields m =
     [F32 (req_user_id m), F32 (group_id m), F32 (client_type m)]"

interpretation GroupUnreadMsgRequest_pdu: teamtalk_pdu GroupUnreadMsgRequest_ctor
  GroupUnreadMsgRequest_ParseFromByteStream GroupUnreadMsgRequest_SerializeToByteStream
  GroupUnreadMsgRequest_ByteSize GroupUnreadMsgRequest_fields "\<lambda>n m. m"
  by (rule teamtalk_pduI, rule GroupUnreadMsgRequest_ParseFromByteStream_def, unfold fields_defs,
      (rule reads_intros)+)
    (simp_all add: pdu_defs)

subsection \<open>\<^verbatim>\<open>GroupHistoryMsgRequest\<close>: \<^verbatim>\<open>proto/group_history_msg_request.h\<close>, \<^verbatim>\<open>.cc\<close>\<close>

record GroupHistoryMsgRequest = base_pdu +
  req_user_id :: u32
  group_id :: u32
  msg_offset :: u32
  msg_count :: u32

definition GroupHistoryMsgRequest_ctor :: "GroupHistoryMsgRequest \<Rightarrow> GroupHistoryMsgRequest" where
  [pdu_defs]: "GroupHistoryMsgRequest_ctor raw =
     BaseTeamTalkPDU_ctor MESSAGE_HISTORY_MSG_REQUEST kAttachDataTypeDB raw"

definition GroupHistoryMsgRequest_ByteSize :: "GroupHistoryMsgRequest \<Rightarrow> u32" where
  [pdu_defs]: "GroupHistoryMsgRequest_ByteSize m =
     BaseTeamTalkPDU_ByteSize m + 4 + 4 + 4 + 4"

definition GroupHistoryMsgRequest_ParseFromByteStream ::
  "'s bytestream \<Rightarrow> GroupHistoryMsgRequest \<Rightarrow> 's \<Rightarrow> bool \<times> GroupHistoryMsgRequest \<times> 's" where
  "GroupHistoryMsgRequest_ParseFromByteStream B m s = read_ok B (steps [
     in32 B req_user_id req_user_id_update,
     in32 B group_id group_id_update,
     in32 B msg_offset msg_offset_update,
     in32 B msg_count msg_count_update] (m, s))"

definition GroupHistoryMsgRequest_SerializeToByteStream ::
  "'s bytestream \<Rightarrow> GroupHistoryMsgRequest \<Rightarrow> 's \<Rightarrow> bool \<times> 's" where
  [pdu_defs]: "GroupHistoryMsgRequest_SerializeToByteStream B m s = write_ok B (steps [
     bs_put32 B (req_user_id m),
     bs_put32 B (group_id m),
     bs_put32 B (msg_offset m),
     bs_put32 B (msg_count m)] s)"

definition GroupHistoryMsgRequest_fields :: "GroupHistoryMsgRequest \<Rightarrow> field list" where
  [pdu_defs, fields_defs]: "GroupHistoryMsgRequest_fields m =
     [F32 (req_user_id m), F32 (group_id m), F32 (msg_offset m), F32 (msg_count m)]"

interpretation GroupHistoryMsgRequest_pdu: teamtalk_pdu GroupHistoryMsgRequest_ctor
  GroupHistoryMsgRequest_ParseFromByteStream GroupHistoryMsgRequest_SerializeToByteStream
  GroupHistoryMsgRequest_ByteSize GroupHistoryMsgRequest_fields "\<lambda>n m. m"
  by (rule teamtalk_pduI, rule GroupHistoryMsgRequest_ParseFromByteStream_def, unfold fields_defs,
      (rule reads_intros)+)
    (simp_all add: pdu_defs)

subsection \<open>\<^verbatim>\<open>GroupMsgListResponse\<close>: \<^verbatim>\<open>proto/group_msg_list_response.h\<close>, \<^verbatim>\<open>.cc\<close>\<close>

definition group_msg_list_response_ByteSize :: "GroupMsg \<Rightarrow> u32" where
  [pdu_defs]: "group_msg_list_response_ByteSize e =
     4 + 4 + SIZEOF_STRING (GroupMsg.msg_content e)"

definition group_msg_list_response_ParseFromByteStream ::
  "'s bytestream \<Rightarrow> GroupMsg \<Rightarrow> 's \<Rightarrow> bool \<times> GroupMsg \<times> 's" where
  "group_msg_list_response_ParseFromByteStream B e s = read_ok B (steps [
     in32 B GroupMsg.from_user_id GroupMsg.from_user_id_update,
     in32 B GroupMsg.create_time GroupMsg.create_time_update,
     in_str B GroupMsg.msg_content GroupMsg.msg_content_update] (e, s))"

definition group_msg_list_response_SerializeToByteStream ::
  "'s bytestream \<Rightarrow> GroupMsg \<Rightarrow> 's \<Rightarrow> bool \<times> 's" where
  [pdu_defs]: "group_msg_list_response_SerializeToByteStream B e s = write_ok B (steps [
     bs_put32 B (GroupMsg.from_user_id e),
     bs_put32 B (GroupMsg.create_time e),
     out_str B (GroupMsg.msg_content e)] s)"

definition group_msg_list_response_fields :: "GroupMsg \<Rightarrow> field list" where
  [pdu_defs]: "group_msg_list_response_fields e =
     [F32 (GroupMsg.from_user_id e), F32 (GroupMsg.create_time e), FStr (GroupMsg.msg_content e)]"

lemma group_msg_list_response_reads:
  "reads B cur W (\<lambda>(e, s). snd (group_msg_list_response_ParseFromByteStream B e s))
    (group_msg_list_response_fields e) new_GroupMsg e"
  unfolding group_msg_list_response_ParseFromByteStream_def group_msg_list_response_fields_def
  by (rule reads_cong, rule reads_result, (rule reads_intros)+) (simp add: pdu_defs)

lemma group_msg_list_response_array [reads_intros]:
  "reads B cur W (PARSE_OBJECTPTR_ARRAY_IMPLICIT B (group_msg_list_response_ParseFromByteStream B)
      new_GroupMsg g u)
    (objs_fields group_msg_list_response_fields xs) m (u (\<lambda>_. g m @ xs) m)"
  by (rule reads_cong, rule reads_object_array [OF group_msg_list_response_reads]) (simp_all add: pdu_defs)

lemma group_msg_list_response_writes [pdu_defs]:
  "SERIALIZE_OBJECTPTR_ARRAY_IMPLICIT B (group_msg_list_response_SerializeToByteStream B) xs s =
     put_fields B (objs_fields group_msg_list_response_fields xs) s"
  by (rule write_objs) (simp add: pdu_defs)

lemma group_msg_list_response_sizes [pdu_defs]:
  "CalculateContainerByteSize2 sz group_msg_list_response_ByteSize xs =
     sz + of_nat (fields_size (objs_fields group_msg_list_response_fields xs))"
  by (rule CalculateContainerByteSize2_eq) (simp add: pdu_defs)

record GroupMsgListResponse = base_pdu +
  req_user_id :: u32
  request_cmd_id :: u32
  group_id :: u32
  msg_list :: "GroupMsg list"

definition GroupMsgListResponse_ctor :: "GroupMsgListResponse \<Rightarrow> GroupMsgListResponse" where
  [pdu_defs]: "GroupMsgListResponse_ctor raw =
     (BaseTeamTalkPDU_ctor MESSAGE_GROUP_MSG_LIST_RESPONSE kAttachDataTypeDB raw)
       \<lparr>msg_list := []\<rparr>"

definition GroupMsgListResponse_ByteSize :: "GroupMsgListResponse \<Rightarrow> u32" where
  [pdu_defs]: "GroupMsgListResponse_ByteSize m =
     (let sz = BaseTeamTalkPDU_ByteSize m;
          sz = sz + (4 + 4 + 4)
      in CalculateContainerByteSize2 sz group_msg_list_response_ByteSize (msg_list m))"

definition GroupMsgListResponse_ParseFromByteStream ::
  "'s bytestream \<Rightarrow> GroupMsgListResponse \<Rightarrow> 's \<Rightarrow> bool \<times> GroupMsgListResponse \<times> 's" where
  "GroupMsgListResponse_ParseFromByteStream B m s = read_ok B (steps [
     in32 B req_user_id req_user_id_update,
     in32 B request_cmd_id request_cmd_id_update,
     in32 B group_id group_id_update,
     PARSE_OBJECTPTR_ARRAY_IMPLICIT B (group_msg_list_response_ParseFromByteStream B) new_GroupMsg
       msg_list msg_list_update] (m, s))"

definition GroupMsgListResponse_SerializeToByteStream ::
  "'s bytestream \<Rightarrow> GroupMsgListResponse \<Rightarrow> 's \<Rightarrow> bool \<times> 's" where
  [pdu_defs]: "GroupMsgListResponse_SerializeToByteStream B m s = write_ok B (steps [
     bs_put32 B (req_user_id m),
     bs_put32 B (request_cmd_id m),
     bs_put32 B (group_id m),
     SERIALIZE_OBJECTPTR_ARRAY_IMPLICIT B (group_msg_list_response_SerializeToByteStream B)
       (msg_list m)] s)"

definition GroupMsgListResponse_fields :: "GroupMsgListResponse \<Rightarrow> field list" where
  [pdu_defs, fields_defs]: "GroupMsgListResponse_fields m =
     F32 (req_user_id m) # F32 (request_cmd_id m) # F32 (group_id m) #
     objs_fields group_msg_list_response_fields (msg_list m)"

interpretation GroupMsgListResponse_pdu: teamtalk_pdu GroupMsgListResponse_ctor
  GroupMsgListResponse_ParseFromByteStream GroupMsgListResponse_SerializeToByteStream
  GroupMsgListResponse_ByteSize GroupMsgListResponse_fields "\<lambda>n m. m"
  by (rule teamtalk_pduI, rule GroupMsgListResponse_ParseFromByteStream_def, unfold fields_defs,
      (rule reads_intros)+)
    (simp_all add: pdu_defs)

subsection \<open>\<^verbatim>\<open>GroupMsgReadAck\<close>: \<^verbatim>\<open>proto/group_msg_read_ack.h\<close>, \<^verbatim>\<open>.cc\<close>\<close>

record GroupMsgReadAck = base_pdu +
  req_user_id :: u32
  group_id :: u32
  client_type :: u32

definition GroupMsgReadAck_ctor :: "GroupMsgReadAck \<Rightarrow> GroupMsgReadAck" where
  [pdu_defs]: "GroupMsgReadAck_ctor raw =
     BaseTeamTalkPDU_ctor MESSAGE_GROUP_MSG_READ_ACK kAttachDataTypeNull raw"

definition GroupMsgReadAck_ByteSize :: "GroupMsgReadAck \<Rightarrow> u32" where
  [pdu_defs]: "GroupMsgReadAck_ByteSize m =
     BaseTeamTalkPDU_ByteSize m + 4 + 4 + 4"

definition GroupMsgReadAck_ParseFromByteStream ::
  "'s bytestream \<Rightarrow> GroupMsgReadAck \<Rightarrow> 's \<Rightarrow> bool \<times> GroupMsgReadAck \<times> 's" where
  "GroupMsgReadAck_ParseFromByteStream B m s = read_ok B (steps [
     in32 B req_user_id req_user_id_update,
     in32 B group_id group_id_update,
     in32 B client_type client_type_update] (m, s))"

definition GroupMsgReadAck_SerializeToByteStream ::
  "'s bytestream \<Rightarrow> GroupMsgReadAck \<Rightarrow> 's \<Rightarrow> bool \<times> 's" where
  [pdu_defs]: "GroupMsgReadAck_SerializeToByteStream B m s = write_ok B (steps [
     bs_put32 B (req_user_id m),
     bs_put32 B (group_id m),
     bs_put32 B (client_type m)] s)"

definition GroupMsgReadAck_fields :: "GroupMsgReadAck \<Rightarrow> field list" where
  [pdu_defs, fields_defs]: "GroupMsgReadAck_fields m =
     [F32 (req_user_id m), F32 (group_id m), F32 (client_type m)]"

interpretation GroupMsgReadAck_pdu: teamtalk_pdu GroupMsgReadAck_ctor
  GroupMsgReadAck_ParseFromByteStream GroupMsgReadAck_SerializeToByteStream
  GroupMsgReadAck_ByteSize GroupMsgReadAck_fields "\<lambda>n m. m"
  by (rule teamtalk_pduI, rule GroupMsgReadAck_ParseFromByteStream_def, unfold fields_defs,
      (rule reads_intros)+)
    (simp_all add: pdu_defs)

subsection \<open>\<^verbatim>\<open>GroupCreateTmpGroupRequest\<close>: \<^verbatim>\<open>proto/group_create_tmp_group_request.h\<close>, \<^verbatim>\<open>.cc\<close>\<close>

record GroupCreateTmpGroupRequest = base_pdu +
  req_user_id :: u32
  group_name :: string
  group_avatar :: string
  user_list :: "u32 list"

definition GroupCreateTmpGroupRequest_ctor :: "GroupCreateTmpGroupRequest \<Rightarrow> GroupCreateTmpGroupRequest" where
  [pdu_defs]: "GroupCreateTmpGroupRequest_ctor raw =
     (BaseTeamTalkPDU_ctor MESSAGE_GROUP_CREATE_TMP_GROUP_REQUEST kAttachDataTypeDB raw)
       \<lparr>group_name := '''', group_avatar := '''', user_list := []\<rparr>"

definition GroupCreateTmpGroupRequest_ByteSize :: "GroupCreateTmpGroupRequest \<Rightarrow> u32" where
  [pdu_defs]: "GroupCreateTmpGroupRequest_ByteSize m =
     BaseTeamTalkPDU_ByteSize m + 4 + SIZEOF_STRING (group_name m)
     + SIZEOF_STRING (group_avatar m) + CalculateContainerByteSize (user_list m)"

definition GroupCreateTmpGroupRequest_ParseFromByteStream ::
  "'s bytestream \<Rightarrow> GroupCreateTmpGroupRequest \<Rightarrow> 's \<Rightarrow> bool \<times> GroupCreateTmpGroupRequest \<times> 's" where
  "GroupCreateTmpGroupRequest_ParseFromByteStream B m s = read_ok B (steps [
     in32 B req_user_id req_user_id_update,
     in_str B group_name group_name_update,
     in_str B group_avatar group_avatar_update,
     PARSE_BASICTYPE_ARRAY_IMPLICIT B user_list user_list_update] (m, s))"

definition GroupCreateTmpGroupRequest_SerializeToByteStream ::
  "'s bytestream \<Rightarrow> GroupCreateTmpGroupRequest \<Rightarrow> 's \<Rightarrow> bool \<times> 's" where
  [pdu_defs]: "GroupCreateTmpGroupRequest_SerializeToByteStream B m s = write_ok B (steps [
     bs_put32 B (req_user_id m),
     out_str B (group_name m),
     out_str B (group_avatar m),
     SERIALIZE_BASICTYPE_ARRAY_IMPLICIT B (user_list m)] s)"

definition GroupCreateTmpGroupRequest_fields :: "GroupCreateTmpGroupRequest \<Rightarrow> field list" where
  [pdu_defs, fields_defs]: "GroupCreateTmpGroupRequest_fields m =
     F32 (req_user_id m) # FStr (group_name m) # FStr (group_avatar m) #
     u32s_fields (user_list m)"

interpretation GroupCreateTmpGroupRequest_pdu: teamtalk_pdu GroupCreateTmpGroupRequest_ctor
  GroupCreateTmpGroupRequest_ParseFromByteStream GroupCreateTmpGroupRequest_SerializeToByteStream
  GroupCreateTmpGroupRequest_ByteSize GroupCreateTmpGroupRequest_fields "\<lambda>n m. m"
  by (rule teamtalk_pduI, rule GroupCreateTmpGroupRequest_ParseFromByteStream_def, unfold fields_defs,
      (rule reads_intros)+)
    (simp_all add: pdu_defs)

subsection \<open>\<^verbatim>\<open>GroupCreateTmpGroupResponse\<close>: \<^verbatim>\<open>proto/group_create_tmp_group_response.h\<close>, \<^verbatim>\<open>.cc\<close>\<close>

record GroupCreateTmpGroupResponse = base_pdu +
  req_user_id :: u32
  result :: u32
  group_id :: u32
  group_name :: string
  user_list :: "u32 list"

definition GroupCreateTmpGroupResponse_ctor :: "GroupCreateTmpGroupResponse \<Rightarrow> GroupCreateTmpGroupResponse" where
  [pdu_defs]: "GroupCreateTmpGroupResponse_ctor raw =
     (BaseTeamTalkPDU_ctor MESSAGE_GROUP_CREATE_TMP_GROUP_RESPONSE kAttachDataTypeDB raw)
       \<lparr>group_name := '''', user_list := []\<rparr>"

definition GroupCreateTmpGroupResponse_ByteSize :: "GroupCreateTmpGroupResponse \<Rightarrow> u32" where
  [pdu_defs]: "GroupCreateTmpGroupResponse_ByteSize m =
     BaseTeamTalkPDU_ByteSize m + 4 + 4 + 4 + SIZEOF_STRING (group_name m)
     + CalculateContainerByteSize (user_list m)"

definition GroupCreateTmpGroupResponse_ParseFromByteStream ::
  "'s bytestream \<Rightarrow> GroupCreateTmpGroupResponse \<Rightarrow> 's \<Rightarrow> bool \<times> GroupCreateTmpGroupResponse \<times> 's" where
  "GroupCreateTmpGroupResponse_ParseFromByteStream B m s = read_ok B (steps [
     in32 B req_user_id req_user_id_update,
     in32 B result result_update,
     in32 B group_id group_id_update,
     in_str B group_name group_name_update,
     PARSE_BASICTYPE_ARRAY_IMPLICIT B user_list user_list_update] (m, s))"

definition GroupCreateTmpGroupResponse_SerializeToByteStream ::
  "'s bytestream \<Rightarrow> GroupCreateTmpGroupResponse \<Rightarrow> 's \<Rightarrow> bool \<times> 's" where
  [pdu_defs]: "GroupCreateTmpGroupResponse_SerializeToByteStream B m s = write_ok B (steps [
     bs_put32 B (req_user_id m),
     bs_put32 B (result m),
     bs_put32 B (group_id m),
     out_str B (group_name m),
     SERIALIZE_BASICTYPE_ARRAY_IMPLICIT B (user_list m)] s)"

definition GroupCreateTmpGroupResponse_fields :: "GroupCreateTmpGroupResponse \<Rightarrow> field list" where
  [pdu_defs, fields_defs]: "GroupCreateTmpGroupResponse_fields m =
     F32 (req_user_id m) # F32 (result m) # F32 (group_id m) # FStr (group_name m) #
     u32s_fields (user_list m)"

interpretation GroupCreateTmpGroupResponse_pdu: teamtalk_pdu GroupCreateTmpGroupResponse_ctor
  GroupCreateTmpGroupResponse_ParseFromByteStream GroupCreateTmpGroupResponse_SerializeToByteStream
  GroupCreateTmpGroupResponse_ByteSize GroupCreateTmpGroupResponse_fields "\<lambda>n m. m"
  by (rule teamtalk_pduI, rule GroupCreateTmpGroupResponse_ParseFromByteStream_def, unfold fields_defs,
      (rule reads_intros)+)
    (simp_all add: pdu_defs)

subsection \<open>\<^verbatim>\<open>GroupChangeMemberRequest\<close>: \<^verbatim>\<open>proto/group_change_member_request.h\<close>, \<^verbatim>\<open>.cc\<close>\<close>

record GroupChangeMemberRequest = base_pdu +
  change_type :: u32
  req_user_id :: u32
  group_id :: u32
  user_list :: "u32 list"

definition GroupChangeMemberRequest_ctor :: "GroupChangeMemberRequest \<Rightarrow> GroupChangeMemberRequest" where
  [pdu_defs]: "GroupChangeMemberRequest_ctor raw =
     (BaseTeamTalkPDU_ctor MESSAGE_GROUP_CHANGE_MEMBER_REQUEST kAttachDataTypeDB raw)
       \<lparr>user_list := []\<rparr>"

definition GroupChangeMemberRequest_ByteSize :: "GroupChangeMemberRequest \<Rightarrow> u32" where
  [pdu_defs]: "GroupChangeMemberRequest_ByteSize m =
     BaseTeamTalkPDU_ByteSize m + 4 + 4 + 4 + CalculateContainerByteSize (user_list m)"

definition GroupChangeMemberRequest_ParseFromByteStream ::
  "'s bytestream \<Rightarrow> GroupChangeMemberRequest \<Rightarrow> 's \<Rightarrow> bool \<times> GroupChangeMemberRequest \<times> 's" where
  "GroupChangeMemberRequest_ParseFromByteStream B m s = read_ok B (steps [
     in32 B req_user_id req_user_id_update,
     in32 B req_user_id req_user_id_update,
     in32 B group_id group_id_update,
     PARSE_BASICTYPE_ARRAY_IMPLICIT B user_list user_list_update] (m, s))"

definition GroupChangeMemberRequest_SerializeToByteStream ::
  "'s bytestream \<Rightarrow> GroupChangeMemberRequest \<Rightarrow> 's \<Rightarrow> bool \<times> 's" where
  [pdu_defs]: "GroupChangeMemberRequest_SerializeToByteStream B m s = write_ok B (steps [
     bs_put32 B (change_type m),
     bs_put32 B (req_user_id m),
     bs_put32 B (group_id m),
     SERIALIZE_BASICTYPE_ARRAY_IMPLICIT B (user_list m)] s)"

definition GroupChangeMemberRequest_fields :: "GroupChangeMemberRequest \<Rightarrow> field list" where
  [pdu_defs, fields_defs]: "GroupChangeMemberRequest_fields m =
     F32 (change_type m) # F32 (req_user_id m) # F32 (group_id m) # u32s_fields (user_list m)"

text \<open>The reader stores the change type in \<^verbatim>\<open>req_user_id_\<close>, which the next statement
  overwrites: \<^verbatim>\<open>change_type_\<close> keeps the value it had before.\<close>

definition GroupChangeMemberRequest_canon ::
  "GroupChangeMemberRequest \<Rightarrow> GroupChangeMemberRequest \<Rightarrow> GroupChangeMemberRequest" where
  [pdu_defs]: "GroupChangeMemberRequest_canon n m = m\<lparr>change_type := change_type n\<rparr>"

interpretation GroupChangeMemberRequest_pdu: teamtalk_pdu GroupChangeMemberRequest_ctor
  GroupChangeMemberRequest_ParseFromByteStream GroupChangeMemberRequest_SerializeToByteStream
  GroupChangeMemberRequest_ByteSize GroupChangeMemberRequest_fields GroupChangeMemberRequest_canon
  by (rule teamtalk_pduI, rule GroupChangeMemberRequest_ParseFromByteStream_def, unfold fields_defs,
      (rule reads_intros)+)
    (simp_all add: pdu_defs)

subsection \<open>\<^verbatim>\<open>GroupChangeMemberResponse\<close>: \<^verbatim>\<open>proto/group_change_member_response.h\<close>, \<^verbatim>\<open>.cc\<close>\<close>

record GroupChangeMemberResponse = base_pdu +
  req_user_id :: u32
  result :: u32
  group_id :: u32
  change_type :: u32
  user_list :: "u32 list"

definition GroupChangeMemberResponse_ctor :: "GroupChangeMemberResponse \<Rightarrow> GroupChangeMemberResponse" where
  [pdu_defs]: "GroupChangeMemberResponse_ctor raw =
     (BaseTeamTalkPDU_ctor MESSAGE_GROUP_CHANGE_MEMBER_RESPONSE kAttachDataTypeDB raw)
       \<lparr>user_list := []\<rparr>"

definition GroupChangeMemberResponse_ByteSize :: "GroupChangeMemberResponse \<Rightarrow> u32" where
  [pdu_defs]: "GroupChangeMemberResponse_ByteSize m =
     BaseTeamTalkPDU_ByteSize m + 4 + 4 + 4 + 4 + CalculateContainerByteSize (user_list m)"

definition GroupChangeMemberResponse_ParseFromByteStream ::
  "'s bytestream \<Rightarrow> GroupChangeMemberResponse \<Rightarrow> 's \<Rightarrow> bool \<times> GroupChangeMemberResponse \<times> 's" where
  "GroupChangeMemberResponse_ParseFromByteStream B m s = read_ok B (steps [
     in32 B req_user_id req_user_id_update,
     in32 B result result_update,
     in32 B group_id group_id_update,
     in32 B change_type change_type_update,
     PARSE_BASICTYPE_ARRAY_IMPLICIT B user_list user_list_update] (m, s))"

definition GroupChangeMemberResponse_SerializeToByteStream ::
  "'s bytestream \<Rightarrow> GroupChangeMemberResponse \<Rightarrow> 's \<Rightarrow> bool \<times> 's" where
  [pdu_defs]: "GroupChangeMemberResponse_SerializeToByteStream B m s = write_ok B (steps [
     bs_put32 B (req_user_id m),
     bs_put32 B (result m),
     bs_put32 B (group_id m),
     bs_put32 B (change_type m),
     SERIALIZE_BASICTYPE_ARRAY_IMPLICIT B (user_list m)] s)"

definition GroupChangeMemberResponse_fields :: "GroupChangeMemberResponse \<Rightarrow> field list" where
  [pdu_defs, fields_defs]: "GroupChangeMemberResponse_fields m =
     F32 (req_user_id m) # F32 (result m) # F32 (group_id m) # F32 (change_type m) #
     u32s_fields (user_list m)"

interpretation GroupChangeMemberResponse_pdu: teamtalk_pdu GroupChangeMemberResponse_ctor
  GroupChangeMemberResponse_ParseFromByteStream GroupChangeMemberResponse_SerializeToByteStream
  GroupChangeMemberResponse_ByteSize GroupChangeMemberResponse_fields "\<lambda>n m. m"
  by (rule teamtalk_pduI, rule GroupChangeMemberResponse_ParseFromByteStream_def, unfold fields_defs,
      (rule reads_intros)+)
    (simp_all add: pdu_defs)

subsection \<open>\<^verbatim>\<open>GroupCreateNormalGroupNotify\<close>: \<^verbatim>\<open>proto/group_create_normal_group_notify.h\<close>, \<^verbatim>\<open>.cc\<close>\<close>

record GroupCreateNormalGroupNotify = base_pdu +
  group_id :: u32
  group_name :: string
  avatar_name :: string
  user_list :: "u32 list"

definition GroupCreateNormalGroupNotify_ctor :: "GroupCreateNormalGroupNotify \<Rightarrow> GroupCreateNormalGroupNotify" where
  [pdu_defs]: "GroupCreateNormalGroupNotify_ctor raw =
     (BaseTeamTalkPDU_ctor MESSAGE_GROUP_CREATE_NORMAL_GROUP_NOTIFY kAttachDataTypeNull raw)
       \<lparr>group_name := '''', avatar_name := '''', user_list := []\<rparr>"

definition GroupCreateNormalGroupNotify_ByteSize :: "GroupCreateNormalGroupNotify \<Rightarrow> u32" where
  [pdu_defs]: "GroupCreateNormalGroupNotify_ByteSize m =
     BaseTeamTalkPDU_ByteSize m + 4 + SIZEOF_STRING (group_name m)
     + SIZEOF_STRING (avatar_name m) + CalculateContainerByteSize (user_list m)"

definition GroupCreateNormalGroupNotify_ParseFromByteStream ::
  "'s bytestream \<Rightarrow> GroupCreateNormalGroupNotify \<Rightarrow> 's \<Rightarrow> bool \<times> GroupCreateNormalGroupNotify \<times> 's" where
  "GroupCreateNormalGroupNotify_ParseFromByteStream B m s = read_ok B (steps [
     in32 B group_id group_id_update,
     in_str B group_name group_name_update,
     in_str B avatar_name avatar_name_update,
     PARSE_BASICTYPE_ARRAY_IMPLICIT B user_list user_list_update] (m, s))"

definition GroupCreateNormalGroupNotify_SerializeToByteStream ::
  "'s bytestream \<Rightarrow> GroupCreateNormalGroupNotify \<Rightarrow> 's \<Rightarrow> bool \<times> 's" where
  [pdu_defs]: "GroupCreateNormalGroupNotify_SerializeToByteStream B m s = write_ok B (steps [
     bs_put32 B (group_id m),
     out_str B (group_name m),
     out_str B (avatar_name m),
     SERIALIZE_BASICTYPE_ARRAY_IMPLICIT B (user_list m)] s)"

definition GroupCreateNormalGroupNotify_fields :: "GroupCreateNormalGroupNotify \<Rightarrow> field list" where
  [pdu_defs, fields_defs]: "GroupCreateNormalGroupNotify_fields m =
     F32 (group_id m) # FStr (group_name m) # FStr (avatar_name m) # u32s_fields (user_list m)"

interpretation GroupCreateNormalGroupNotify_pdu: teamtalk_pdu GroupCreateNormalGroupNotify_ctor
  GroupCreateNormalGroupNotify_ParseFromByteStream GroupCreateNormalGroupNotify_SerializeToByteStream
  GroupCreateNormalGroupNotify_ByteSize GroupCreateNormalGroupNotify_fields "\<lambda>n m. m"
  by (rule teamtalk_pduI, rule GroupCreateNormalGroupNotify_ParseFromByteStream_def, unfold fields_defs,
      (rule reads_intros)+)
    (simp_all add: pdu_defs)

subsection \<open>\<^verbatim>\<open>GroupChangeMemberNotify\<close>: \<^verbatim>\<open>proto/group_change_member_notify.h\<close>, \<^verbatim>\<open>.cc\<close>\<close>

record GroupChangeMemberNotify = base_pdu +
  group_id :: u32
  user_list :: "u32 list"

definition GroupChangeMemberNotify_ctor :: "GroupChangeMemberNotify \<Rightarrow> GroupChangeMemberNotify" where
  [pdu_defs]: "GroupChangeMemberNotify_ctor raw =
     (BaseTeamTalkPDU_ctor MESSAGE_GROUP_CHANGE_MEMBER_NOTIFY kAttachDataTypeNull raw)
       \<lparr>user_list := []\<rparr>"

definition GroupChangeMemberNotify_ByteSize :: "GroupChangeMemberNotify \<Rightarrow> u32" where
  [pdu_defs]: "GroupChangeMemberNotify_ByteSize m =
     BaseTeamTalkPDU_ByteSize m + 4 + CalculateContainerByteSize (user_list m)"

definition GroupChangeMemberNotify_ParseFromByteStream ::
  "'s bytestream \<Rightarrow> GroupChangeMemberNotify \<Rightarrow> 's \<Rightarrow> bool \<times> GroupChangeMemberNotify \<times> 's" where
  "GroupChangeMemberNotify_ParseFromByteStream B m s = read_ok B (steps [
     in32 B group_id group_id_update,
     PARSE_BASICTYPE_ARRAY_IMPLICIT B user_list user_list_update] (m, s))"

definition GroupChangeMemberNotify_SerializeToByteStream ::
  "'s bytestream \<Rightarrow> GroupChangeMemberNotify \<Rightarrow> 's \<Rightarrow> bool \<times> 's" where
  [pdu_defs]: "GroupChangeMemberNotify_SerializeToByteStream B m s = write_ok B (steps [
     bs_put32 B (group_id m),
     SERIALIZE_BASICTYPE_ARRAY_IMPLICIT B (user_list m)] s)"

definition GroupChangeMemberNotify_fields :: "GroupChangeMemberNotify \<Rightarrow> field list" where
  [pdu_defs, fields_defs]: "GroupChangeMemberNotify_fields m =
     F32 (group_id m) # u32s_fields (user_list m)"

interpretation GroupChangeMemberNotify_pdu: teamtalk_pdu GroupChangeMemberNotify_ctor
  GroupChangeMemberNotify_ParseFromByteStream GroupChangeMemberNotify_SerializeToByteStream
  GroupChangeMemberNotify_ByteSize GroupChangeMemberNotify_fields "\<lambda>n m. m"
  by (rule teamtalk_pduI, rule GroupChangeMemberNotify_ParseFromByteStream_def, unfold fields_defs,
      (rule reads_intros)+)
    (simp_all add: pdu_defs)

end
