(* ===== verification/Pdu_File.thy ===== *)
theory Pdu_File
  imports Pdu_Types Base_Data
begin

text \<open>
  Messages of the offline file service.
\<close>

subsection \<open>\<^verbatim>\<open>FileHasOfflineReq\<close>: \<^verbatim>\<open>proto/file_has_offline_req.h\<close>, \<^verbatim>\<open>.cc\<close>\<close>

record FileHasOfflineReq = base_pdu +
  user_id :: u32

definition FileHasOfflineReq_ctor :: "FileHasOfflineReq \<Rightarrow> FileHasOfflineReq" where
  [pdu_defs]: "FileHasOfflineReq_ctor raw =
     BaseTeamTalkPDU_ctor MESSAGE_FILE_HAS_OFFLINE_REQ kAttachDataTypeDB raw"

definition FileHasOfflineReq_ByteSize :: "FileHasOfflineReq \<Rightarrow> u32" where
  [pdu_defs]: "FileHasOfflineReq_ByteSize m =
     BaseTeamTalkPDU_ByteSize m + 4"

definition FileHasOfflineReq_ParseFromByteStream ::
  "'s bytestream \<Rightarrow> FileHasOfflineReq \<Rightarrow> 's \<Rightarrow> bool \<times> FileHasOfflineReq \<times> 's" where
  "FileHasOfflineReq_ParseFromByteStream B m s = read_ok B (steps [
     in32 B user_id user_id_update] (m, s))"

definition FileHasOfflineReq_SerializeToByteStream ::
  "'s bytestream \<Rightarrow> FileHasOfflineReq \<Rightarrow> 's \<Rightarrow> bool \<times> 's" where
  [pdu_defs]: "FileHasOfflineReq_SerializeToByteStream B m s = write_ok B (steps [
     bs_put32 B (user_id m)] s)"

definition FileHasOfflineReq_fields :: "FileHasOfflineReq \<Rightarrow> field list" where
  [pdu_defs, fields_defs]: "FileHasOfflineReq_fields m =
     [F32 (user_id m)]"

interpretation FileHasOfflineReq_pdu: teamtalk_pdu FileHasOfflineReq_ctor
  FileHasOfflineReq_ParseFromByteStream FileHasOfflineReq_SerializeToByteStream
  FileHasOfflineReq_ByteSize FileHasOfflineReq_fields "\<lambda>n m. m"
  by (rule teamtalk_pduI, rule FileHasOfflineReq_ParseFromByteStream_def, unfold fields_defs,
      (rule reads_intros)+)
    (simp_all add: pdu_defs)

subsection \<open>\<^verbatim>\<open>FileHasOfflineRes\<close>: \<^verbatim>\<open>proto/file_has_offline_res.h\<close>, \<^verbatim>\<open>.cc\<close>\<close>

definition file_has_offline_res_ByteSize :: "OfflineFile \<Rightarrow> u32" where
  [pdu_defs]: "file_has_offline_res_ByteSize e =
     4 + SIZEOF_STRING (OfflineFile.task_id e) + SIZEOF_STRING (OfflineFile.file_name e) + 4"

definition file_has_offline_res_ParseFromByteStream ::
  "'s bytestream \<Rightarrow> OfflineFile \<Rightarrow> 's \<Rightarrow> bool \<times> OfflineFile \<times> 's" where
  "file_has_offline_res_ParseFromByteStream B e s = read_ok B (steps [
     in32 B OfflineFile.from_id OfflineFile.from_id_update,
     in_str B OfflineFile.task_id OfflineFile.task_id_update,
     in_str B OfflineFile.file_name OfflineFile.file_name_update,
     in32 B OfflineFile.file_size OfflineFile.file_size_update] (e, s))"

definition file_has_offline_res_SerializeToByteStream ::
  "'s bytestream \<Rightarrow> OfflineFile \<Rightarrow> 's \<Rightarrow> bool \<times> 's" where
  [pdu_defs]: "file_has_offline_res_SerializeToByteStream B e s = write_ok B (steps [
     bs_put32 B (OfflineFile.from_id e),
     out_str B (OfflineFile.task_id e),
     out_str B (OfflineFile.file_name e),
     bs_put32 B (OfflineFile.file_size e)] s)"

definition file_has_offline_res_fields :: "OfflineFile \<Rightarrow> field list" where
  [pdu_defs]: "file_has_offline_res_fields e =
     [F32 (OfflineFile.from_id e), FStr (OfflineFile.task_id e), FStr (OfflineFile.file_name e),
     F32 (OfflineFile.file_size e)]"

lemma file_has_offline_res_reads:
  "reads B cur W (\<lambda>(e, s). snd (file_has_offline_res_ParseFromByteStream B e s))
    (file_has_offline_res_fields e) new_OfflineFile e"
  unfolding file_has_offline_res_ParseFromByteStream_def file_has_offline_res_fields_def
  by (rule reads_cong, rule reads_result, (rule reads_intros)+) (simp add: pdu_defs)

lemma file_has_offline_res_array [reads_intros]:
  "reads B cur W (PARSE_OBJECTPTR_ARRAY_IMPLICIT B (file_has_offline_res_ParseFromByteStream B)
      new_OfflineFile g u)
    (objs_fields file_has_offline_res_fields xs) m (u (\<lambda>_. g m @ xs) m)"
  by (rule reads_cong, rule reads_object_array [OF file_has_offline_res_reads]) (simp_all add: pdu_defs)

lemma file_has_offline_res_writes [pdu_defs]:
  "SERIALIZE_OBJECTPTR_ARRAY_IMPLICIT B (file_has_offline_res_SerializeToByteStream B) xs s =
     put_fields B (objs_fields file_has_offline_res_fields xs) s"
  by (rule write_objs) (simp add: pdu_defs)

lemma file_has_offline_res_sizes [pdu_defs]:
  "CalculateContainerByteSize2 sz file_has_offline_res_ByteSize xs =
     sz + of_nat (fields_size (objs_fields file_has_offline_res_fields xs))"
  by (rule CalculateContainerByteSize2_eq) (simp add: pdu_defs)

record FileHasOfflineRes = base_pdu +
  req_user_id :: u32
  file_list :: "OfflineFile list"

definition FileHasOfflineRes_ctor :: "FileHasOfflineRes \<Rightarrow> FileHasOfflineRes" where
  [pdu_defs]: "FileHasOfflineRes_ctor raw =
     (BaseTeamTalkPDU_ctor MESSAGE_FILE_HAS_OFFLINE_RES kAttachDataTypeDB raw)
       \<lparr>file_list := []\<rparr>"

definition FileHasOfflineRes_ByteSize :: "FileHasOfflineRes \<Rightarrow> u32" where
  [pdu_defs]: "FileHasOfflineRes_ByteSize m =
     (let sz = BaseTeamTalkPDU_ByteSize m;
          sz = sz + 4
      in CalculateContainerByteSize2 sz file_has_offline_res_ByteSize (file_list m))"

definition FileHasOfflineRes_ParseFromByteStream ::
  "'s bytestream \<Rightarrow> FileHasOfflineRes \<Rightarrow> 's \<Rightarrow> bool \<times> FileHasOfflineRes \<times> 's" where
  "FileHasOfflineRes_ParseFromByteStream B m s = read_ok B (steps [
     in32 B req_user_id req_user_id_update,
     PARSE_OBJECTPTR_ARRAY_IMPLICIT B (file_has_offline_res_ParseFromByteStream B) new_OfflineFile
       file_list file_list_update] (m, s))"

definition FileHasOfflineRes_SerializeToByteStream ::
  "'s bytestream \<Rightarrow> FileHasOfflineRes \<Rightarrow> 's \<Rightarrow> bool \<times> 's" where
  [pdu_defs]: "FileHasOfflineRes_SerializeToByteStream B m s = write_ok B (steps [
     bs_put32 B (req_user_id m),
     SERIALIZE_OBJECTPTR_ARRAY_IMPLICIT B (file_has_offline_res_SerializeToByteStream B)
       (file_list m)] s)"

definition FileHasOfflineRes_fields :: "FileHasOfflineRes \<Rightarrow> field list" where
  [pdu_defs, fields_defs]: "FileHasOfflineRes_fields m =
     F32 (req_user_id m) # objs_fields file_has_offline_res_fields (file_list m)"

interpretation FileHasOfflineRes_pdu: teamtalk_pdu FileHasOfflineRes_ctor
  FileHasOfflineRes_ParseFromByteStream FileHasOfflineRes_SerializeToByteStream
  FileHasOfflineRes_ByteSize FileHasOfflineRes_fields "\<lambda>n m. m"
  by (rule teamtalk_pduI, rule FileHasOfflineRes_ParseFromByteStream_def, unfold fields_defs,
      (rule reads_intros)+)
    (simp_all add: pdu_defs)

subsection \<open>\<^verbatim>\<open>FileAddOfflineReq\<close>: \<^verbatim>\<open>proto/file_add_offline_req.h\<close>, \<^verbatim>\<open>.cc\<close>\<close>

record FileAddOfflineReq = base_pdu +
  req_user_id :: u32
  from_id :: u32
  to_id :: u32
  task_id :: string
  file_name :: string
  file_size :: u32

definition FileAddOfflineReq_ctor :: "FileAddOfflineReq \<Rightarrow> FileAddOfflineReq" where
  [pdu_defs]: "FileAddOfflineReq_ctor raw =
     (BaseTeamTalkPDU_ctor MESSAGE_FILE_ADD_OFFLINE_REQ kAttachDataTypeDB raw)
       \<lparr>task_id := '''', file_name := ''''\<rparr>"

definition FileAddOfflineReq_ByteSize :: "FileAddOfflineReq \<Rightarrow> u32" where
  [pdu_defs]: "FileAddOfflineReq_ByteSize m =
     BaseTeamTalkPDU_ByteSize m + 4 + 4 + 4 + SIZEOF_STRING (task_id m)
     + SIZEOF_STRING (file_name m) + 4"

definition FileAddOfflineReq_ParseFromByteStream ::
  "'s bytestream \<Rightarrow> FileAddOfflineReq \<Rightarrow> 's \<Rightarrow> bool \<times> FileAddOfflineReq \<times> 's" where
  "FileAddOfflineReq_ParseFromByteStream B m s = read_ok B (steps [
     in32 B req_user_id req_user_id_update,
     in32 B from_id from_id_update,
     in32 B to_id to_id_update,
     in_str B task_id task_id_update,
     in_str B file_name file_name_update,
     in32 B file_size file_size_update] (m, s))"

definition FileAddOfflineReq_SerializeToByteStream ::
  "'s bytestream \<Rightarrow> FileAddOfflineReq \<Rightarrow> 's \<Rightarrow> bool \<times> 's" where
  [pdu_defs]: "FileAddOfflineReq_SerializeToByteStream B m s = write_ok B (steps [
     bs_put32 B (req_user_id m),
     bs_put32 B (from_id m),
     bs_put32 B (to_id m),
     out_str B (task_id m),
     out_str B (file_name m),
     bs_put32 B (file_size m)] s)"

definition FileAddOfflineReq_fields :: "FileAddOfflineReq \<Rightarrow> field list" where
  [pdu_defs, fields_defs]: "FileAddOfflineReq_fields m =
     [F32 (req_user_id m), F32 (from_id m), F32 (to_id m), FStr (task_id m), FStr (file_name m),
     F32 (file_size m)]"

interpretation FileAddOfflineReq_pdu: teamtalk_pdu FileAddOfflineReq_ctor
  FileAddOfflineReq_ParseFromByteStream FileAddOfflineReq_SerializeToByteStream
  FileAddOfflineReq_ByteSize FileAddOfflineReq_fields "\<lambda>n m. m"
  by (rule teamtalk_pduI, rule FileAddOfflineReq_ParseFromByteStream_def, unfold fields_defs,
      (rule reads_intros)+)
    (simp_all add: pdu_defs)

subsection \<open>\<^verbatim>\<open>FileDelOfflineReq\<close>: \<^verbatim>\<open>proto/file_del_offline_req.h\<close>, \<^verbatim>\<open>.cc\<close>\<close>

record FileDelOfflineReq = base_pdu +
  req_user_id :: u32
  from_id :: u32
  to_id :: u32
  task_id :: string

definition FileDelOfflineReq_ctor :: "FileDelOfflineReq \<Rightarrow> FileDelOfflineReq" where
  [pdu_defs]: "FileDelOfflineReq_ctor raw =
     (BaseTeamTalkPDU_ctor MESSAGE_FILE_DEL_OFFLINE_REQ kAttachDataTypeDB raw)
       \<lparr>task_id := ''''\<rparr>"

definition FileDelOfflineReq_ByteSize :: "FileDelOfflineReq \<Rightarrow> u32" where
  [pdu_defs]: "FileDelOfflineReq_ByteSize m =
     BaseTeamTalkPDU_ByteSize m + 4 + 4 + 4 + SIZEOF_STRING (task_id m)"

definition FileDelOfflineReq_ParseFromByteStream ::
  "'s bytestream \<Rightarrow> FileDelOfflineReq \<Rightarrow> 's \<Rightarrow> bool \<times> FileDelOfflineReq \<times> 's" where
  "FileDelOfflineReq_ParseFromByteStream B m s = read_ok B (steps [
     in32 B req_user_id req_user_id_update,
     in32 B from_id from_id_update,
     in32 B to_id to_id_update,
     in_str B task_id task_id_update] (m, s))"

definition FileDelOfflineReq_SerializeToByteStream ::
  "'s bytestream \<Rightarrow> FileDelOfflineReq \<Rightarrow> 's \<Rightarrow> bool \<times> 's" where
  [pdu_defs]: "FileDelOfflineReq_SerializeToByteStream B m s = write_ok B (steps [
     bs_put32 B (req_user_id m),
     bs_put32 B (from_id m),
     bs_put32 B (to_id m),
     out_str B (task_id m)] s)"

definition FileDelOfflineReq_fields :: "FileDelOfflineReq \<Rightarrow> field list" where
  [pdu_defs, fields_defs]: "FileDelOfflineReq_fields m =
     [F32 (req_user_id m), F32 (from_id m), F32 (to_id m), FStr (task_id m)]"

interpretation FileDelOfflineReq_pdu: teamtalk_pdu FileDelOfflineReq_ctor
  FileDelOfflineReq_ParseFromByteStream FileDelOfflineReq_SerializeToByteStream
  FileDelOfflineReq_ByteSize FileDelOfflineReq_fields "\<lambda>n m. m"
  by (rule teamtalk_pduI, rule FileDelOfflineReq_ParseFromByteStream_def, unfold fields_defs,
      (rule reads_intros)+)
    (simp_all add: pdu_defs)

end
