(* ===== verification/Requests.thy ===== *)
theory Requests
  imports Pdu_Login Pdu_Message Pdu_Group Pdu_File
begin

text \<open>
  The requests the server can receive: the classes that \<^verbatim>\<open>zaresd/register_message_factory.cc\<close>
  registers, as one type. A message behind a \<^verbatim>\<open>MessagePDU\<close> pointer is a value of this type, and
  its virtual functions select the class's own operations.
\<close>

subsection \<open>The objects\<close>

datatype request =
    Rq_ValidateRequest ValidateRequest
  | Rq_FriendListRequest FriendListRequest
  | Rq_RemoveSessionRequest RemoveSessionRequest
  | Rq_DepartmentRequest DepartmentRequest
  | Rq_UsersInfoRequest UsersInfoRequest
  | Rq_AllUserRequest AllUserRequest
  | Rq_MsgData MsgData
  | Rq_UnreadMsgCountRequest UnreadMsgCountRequest
  | Rq_UnreadMsgRequest UnreadMsgRequest
  | Rq_MsgReadAck MsgReadAck
  | Rq_GroupListRequest GroupListRequest
  | Rq_GroupUserListRequest GroupUserListRequest
  | Rq_GroupUnreadMsgCountRequest GroupUnreadMsgCountRequest
  | Rq_GroupUnreadMsgRequest GroupUnreadMsgRequest
  | Rq_GroupHistoryMsgRequest GroupHistoryMsgRequest
  | Rq_GroupMsgReadAck GroupMsgReadAck
  | Rq_GroupCreateTmpGroupRequest GroupCreateTmpGroupRequest
  | Rq_GroupChangeMemberRequest GroupChangeMemberRequest
  | Rq_GroupDialogListRequest GroupDialogListRequest
  | Rq_FileHasOfflineReq FileHasOfflineReq
  | Rq_FileAddOfflineReq FileAddOfflineReq
  | Rq_FileDelOfflineReq FileDelOfflineReq

text \<open>The classes, and the memory a new object of each is built in: the constructors leave
  the numbers as they find them.\<close>

datatype request_class =
    Class_ValidateRequest
  | Class_FriendListRequest
  | Class_RemoveSessionRequest
  | Class_DepartmentRequest
  | Class_UsersInfoRequest
  | Class_AllUserRequest
  | Class_MsgData
  | Class_UnreadMsgCountRequest
  | Class_UnreadMsgRequest
  | Class_MsgReadAck
  | Class_GroupListRequest
  | Class_GroupUserListRequest
  | Class_GroupUnreadMsgCountRequest
  | Class_GroupUnreadMsgRequest
  | Class_GroupHistoryMsgRequest
  | Class_GroupMsgReadAck
  | Class_GroupCreateTmpGroupRequest
  | Class_GroupChangeMemberRequest
  | Class_GroupDialogListRequest
  | Class_FileHasOfflineReq
  | Class_FileAddOfflineReq
  | Class_FileDelOfflineReq

record raw_requests =
  raw_ValidateRequest :: ValidateRequest
  raw_FriendListRequest :: FriendListRequest
  raw_RemoveSessionRequest :: RemoveSessionRequest
  raw_DepartmentRequest :: DepartmentRequest
  raw_UsersInfoRequest :: UsersInfoRequest
  raw_AllUserRequest :: AllUserRequest
  raw_MsgData :: MsgData
  raw_UnreadMsgCountRequest :: UnreadMsgCountRequest
  raw_UnreadMsgRequest :: UnreadMsgRequest
  raw_MsgReadAck :: MsgReadAck
  raw_GroupListRequest :: GroupListRequest
  raw_GroupUserListRequest :: GroupUserListRequest
  raw_GroupUnreadMsgCountRequest :: GroupUnreadMsgCountRequest
  raw_GroupUnreadMsgRequest :: GroupUnreadMsgRequest
  raw_GroupHistoryMsgRequest :: GroupHistoryMsgRequest
  raw_GroupMsgReadAck :: GroupMsgReadAck
  raw_GroupCreateTmpGroupRequest :: GroupCreateTmpGroupRequest
  raw_GroupChangeMemberRequest :: GroupChangeMemberRequest
  raw_GroupDialogListRequest :: GroupDialogListRequest
  raw_FileHasOfflineReq :: FileHasOfflineReq
  raw_FileAddOfflineReq :: FileAddOfflineReq
  raw_FileDelOfflineReq :: FileDelOfflineReq

primrec request_class_of :: "request \<Rightarrow> request_class" where
  "request_class_of (Rq_ValidateRequest m) = Class_ValidateRequest"
| "request_class_of (Rq_FriendListRequest m) = Class_FriendListRequest"
| "request_class_of (Rq_RemoveSessionRequest m) = Class_RemoveSessionRequest"
| "request_class_of (Rq_DepartmentRequest m) = Class_DepartmentRequest"
| "request_class_of (Rq_UsersInfoRequest m) = Class_UsersInfoRequest"
| "request_class_of (Rq_AllUserRequest m) = Class_AllUserRequest"
| "request_class_of (Rq_MsgData m) = Class_MsgData"
| "request_class_of (Rq_UnreadMsgCountRequest m) = Class_UnreadMsgCountRequest"
| "request_class_of (Rq_UnreadMsgRequest m) = Class_UnreadMsgRequest"
| "request_class_of (Rq_MsgReadAck m) = Class_MsgReadAck"
| "request_class_of (Rq_GroupListRequest m) = Class_GroupListRequest"
| "request_class_of (Rq_GroupUserListRequest m) = Class_GroupUserListRequest"
| "request_class_of (Rq_GroupUnreadMsgCountRequest m) = Class_GroupUnreadMsgCountRequest"
| "request_class_of (Rq_GroupUnreadMsgRequest m) = Class_GroupUnreadMsgRequest"
| "request_class_of (Rq_GroupHistoryMsgRequest m) = Class_GroupHistoryMsgRequest"
| "request_class_of (Rq_GroupMsgReadAck m) = Class_GroupMsgReadAck"
| "request_class_of (Rq_GroupCreateTmpGroupRequest m) = Class_GroupCreateTmpGroupRequest"
| "request_class_of (Rq_GroupChangeMemberRequest m) = Class_GroupChangeMemberRequest"
| "request_class_of (Rq_GroupDialogListRequest m) = Class_GroupDialogListRequest"
| "request_class_of (Rq_FileHasOfflineReq m) = Class_FileHasOfflineReq"
| "request_class_of (Rq_FileAddOfflineReq m) = Class_FileAddOfflineReq"
| "request_class_of (Rq_FileDelOfflineReq m) = Class_FileDelOfflineReq"

primrec request_new :: "request_class \<Rightarrow> raw_requests \<Rightarrow> request" where
  "request_new Class_ValidateRequest raw = Rq_ValidateRequest (ValidateRequest_ctor (raw_ValidateRequest raw))"
| "request_new Class_FriendListRequest raw = Rq_FriendListRequest (FriendListRequest_ctor (raw_FriendListRequest raw))"
| "request_new Class_RemoveSessionRequest raw = Rq_RemoveSessionRequest (RemoveSessionRequest_ctor (raw_RemoveSessionRequest raw))"
| "request_new Class_DepartmentRequest raw = Rq_DepartmentRequest (DepartmentRequest_ctor (raw_DepartmentRequest raw))"
| "request_new Class_UsersInfoRequest raw = Rq_UsersInfoRequest (UsersInfoRequest_ctor (raw_UsersInfoRequest raw))"
| "request_new Class_AllUserRequest raw = Rq_AllUserRequest (AllUserRequest_ctor (raw_AllUserRequest raw))"
| "request_new Class_MsgData raw = Rq_MsgData (MsgData_ctor (raw_MsgData raw))"
| "request_new Class_UnreadMsgCountRequest raw = Rq_UnreadMsgCountRequest (UnreadMsgCountRequest_ctor (raw_UnreadMsgCountRequest raw))"
| "request_new Class_UnreadMsgRequest raw = Rq_UnreadMsgRequest (UnreadMsgRequest_ctor (raw_UnreadMsgRequest raw))"
| "request_new Class_MsgReadAck raw = Rq_MsgReadAck (MsgReadAck_ctor (raw_MsgReadAck raw))"
| "request_new Class_GroupListRequest raw = Rq_GroupListRequest (GroupListRequest_ctor (raw_GroupListRequest raw))"
| "request_new Class_GroupUserListRequest raw = Rq_GroupUserListRequest (GroupUserListRequest_ctor (raw_GroupUserListRequest raw))"
| "request_new Class_GroupUnreadMsgCountRequest raw = Rq_GroupUnreadMsgCountRequest (GroupUnreadMsgCountRequest_ctor (raw_GroupUnreadMsgCountRequest raw))"
| "request_new Class_GroupUnreadMsgRequest raw = Rq_GroupUnreadMsgRequest (GroupUnreadMsgRequest_ctor (raw_GroupUnreadMsgRequest raw))"
| "request_new Class_GroupHistoryMsgRequest raw = Rq_GroupHistoryMsgRequest (GroupHistoryMsgRequest_ctor (raw_GroupHistoryMsgRequest raw))"
| "request_new Class_GroupMsgReadAck raw = Rq_GroupMsgReadAck (GroupMsgReadAck_ctor (raw_GroupMsgReadAck raw))"
| "request_new Class_GroupCreateTmpGroupRequest raw = Rq_GroupCreateTmpGroupRequest (GroupCreateTmpGroupRequest_ctor (raw_GroupCreateTmpGroupRequest raw))"
| "request_new Class_GroupChangeMemberRequest raw = Rq_GroupChangeMemberRequest (GroupChangeMemberRequest_ctor (raw_GroupChangeMemberRequest raw))"
| "request_new Class_GroupDialogListRequest raw = Rq_GroupDialogListRequest (GroupDialogListRequest_ctor (raw_GroupDialogListRequest raw))"
| "request_new Class_FileHasOfflineReq raw = Rq_FileHasOfflineReq (FileHasOfflineReq_ctor (raw_FileHasOfflineReq raw))"
| "request_new Class_FileAddOfflineReq raw = Rq_FileAddOfflineReq (FileAddOfflineReq_ctor (raw_FileAddOfflineReq raw))"
| "request_new Class_FileDelOfflineReq raw = Rq_FileDelOfflineReq (FileDelOfflineReq_ctor (raw_FileDelOfflineReq raw))"

text \<open>The members every message has.\<close>

primrec request_base :: "request \<Rightarrow> base_pdu" where
  "request_base (Rq_ValidateRequest m) = base_pdu.truncate m"
| "request_base (Rq_FriendListRequest m) = base_pdu.truncate m"
| "request_base (Rq_RemoveSessionRequest m) = base_pdu.truncate m"
| "request_base (Rq_DepartmentRequest m) = base_pdu.truncate m"
| "request_base (Rq_UsersInfoRequest m) = base_pdu.truncate m"
| "request_base (Rq_AllUserRequest m) = base_pdu.truncate m"
| "request_base (Rq_MsgData m) = base_pdu.truncate m"
| "request_base (Rq_UnreadMsgCountRequest m) = base_pdu.truncate m"
| "request_base (Rq_UnreadMsgRequest m) = base_pdu.truncate m"
| "request_base (Rq_MsgReadAck m) = base_pdu.truncate m"
| "request_base (Rq_GroupListRequest m) = base_pdu.truncate m"
| "request_base (Rq_GroupUserListRequest m) = base_pdu.truncate m"
| "request_base (Rq_GroupUnreadMsgCountRequest m) = base_pdu.truncate m"
| "request_base (Rq_GroupUnreadMsgRequest m) = base_pdu.truncate m"
| "request_base (Rq_GroupHistoryMsgRequest m) = base_pdu.truncate m"
| "request_base (Rq_GroupMsgReadAck m) = base_pdu.truncate m"
| "request_base (Rq_GroupCreateTmpGroupRequest m) = base_pdu.truncate m"
| "request_base (Rq_GroupChangeMemberRequest m) = base_pdu.truncate m"
| "request_base (Rq_GroupDialogListRequest m) = base_pdu.truncate m"
| "request_base (Rq_FileHasOfflineReq m) = base_pdu.truncate m"
| "request_base (Rq_FileAddOfflineReq m) = base_pdu.truncate m"
| "request_base (Rq_FileDelOfflineReq m) = base_pdu.truncate m"

subsection \<open>The message factory\<close>

text \<open>\<^verbatim>\<open>RegisterPDUMessageFactory\<close> (\<^verbatim>\<open>zaresd/register_message_factory.cc\<close>): the class of the object
  the factory manager builds for each message type.\<close>

definition RegisterPDUMessageFactory :: "(u32 \<times> request_class) list" where
  "RegisterPDUMessageFactory = [
     (MESSAGE_VALIDATE_REQUEST, Class_ValidateRequest),
     (MESSAGE_FRIEND_LIST_REQUEST, Class_FriendListRequest),
     (MESSAGE_REMOVE_SESSION_REQUEST, Class_RemoveSessionRequest),
     (MESSAGE_DEPARTMENT_REQUEST, Class_DepartmentRequest),
     (MESSAGE_USERS_INFO_REQUEST, Class_UsersInfoRequest),
     (MESSAGE_ALL_USER_REQUEST, Class_AllUserRequest),
     (MESSAGE_MSG_DATA, Class_MsgData),
     (MESSAGE_UNREAD_MSG_COUNT_REQUEST, Class_UnreadMsgCountRequest),
     (MESSAGE_UNREAD_MSG_REQUEST, Class_UnreadMsgRequest),
     (MESSAGE_MSG_READ_ACK, Class_MsgReadAck),
     (MESSAGE_GROUP_LIST_REQUEST, Class_GroupListRequest),
     (MESSAGE_GROUP_USER_LIST_REQUEST, Class_GroupUserListRequest),
     (MESSAGE_GROUP_UNREAD_MSG_COUNT_REQUEST, Class_GroupUnreadMsgCountRequest),
     (MESSAGE_GROUP_UNREAD_MSG_REQUEST, Class_GroupUnreadMsgRequest),
     (MESSAGE_GROUP_HISTORY_MSG_REQUEST, Class_GroupHistoryMsgRequest),
     (MESSAGE_GROUP_MSG_READ_ACK, Class_GroupMsgReadAck),
     (MESSAGE_GROUP_CREATE_TMP_GROUP_REQUEST, Class_GroupCreateTmpGroupRequest),
     (MESSAGE_GROUP_CHANGE_MEMBER_REQUEST, Class_GroupChangeMemberRequest),
     (MESSAGE_GROUP_DIALOG_LIST_REQUEST, Class_GroupDialogListRequest),
     (MESSAGE_FILE_HAS_OFFLINE_REQ, Class_FileHasOfflineReq),
     (MESSAGE_FILE_ADD_OFFLINE_REQ, Class_FileAddOfflineReq),
     (MESSAGE_FILE_DEL_OFFLINE_REQ, Class_FileDelOfflineReq)]"

subsection \<open>The virtual functions\<close>

primrec request_ByteSize :: "request \<Rightarrow> u32" where
  "request_ByteSize (Rq_ValidateRequest m) = ValidateRequest_ByteSize m"
| "request_ByteSize (Rq_FriendListRequest m) = FriendListRequest_ByteSize m"
| "request_ByteSize (Rq_RemoveSessionRequest m) = RemoveSessionRequest_ByteSize m"
| "request_ByteSize (Rq_DepartmentRequest m) = DepartmentRequest_ByteSize m"
| "request_ByteSize (Rq_UsersInfoRequest m) = UsersInfoRequest_ByteSize m"
| "request_ByteSize (Rq_AllUserRequest m) = AllUserRequest_ByteSize m"
| "request_ByteSize (Rq_MsgData m) = MsgData_ByteSize m"
| "request_ByteSize (Rq_UnreadMsgCountRequest m) = UnreadMsgCountRequest_ByteSize m"
| "request_ByteSize (Rq_UnreadMsgRequest m) = UnreadMsgRequest_ByteSize m"
| "request_ByteSize (Rq_MsgReadAck m) = MsgReadAck_ByteSize m"
| "request_ByteSize (Rq_GroupListRequest m) = GroupListRequest_ByteSize m"
| "request_ByteSize (Rq_GroupUserListRequest m) = GroupUserListRequest_ByteSize m"
| "request_ByteSize (Rq_GroupUnreadMsgCountRequest m) = GroupUnreadMsgCountRequest_ByteSize m"
| "request_ByteSize (Rq_GroupUnreadMsgRequest m) = GroupUnreadMsgRequest_ByteSize m"
| "request_ByteSize (Rq_GroupHistoryMsgRequest m) = GroupHistoryMsgRequest_ByteSize m"
| "request_ByteSize (Rq_GroupMsgReadAck m) = GroupMsgReadAck_ByteSize m"
| "request_ByteSize (Rq_GroupCreateTmpGroupRequest m) = GroupCreateTmpGroupRequest_ByteSize m"
| "request_ByteSize (Rq_GroupChangeMemberRequest m) = GroupChangeMemberRequest_ByteSize m"
| "request_ByteSize (Rq_GroupDialogListRequest m) = GroupDialogListRequest_ByteSize m"
| "request_ByteSize (Rq_FileHasOfflineReq m) = FileHasOfflineReq_ByteSize m"
| "request_ByteSize (Rq_FileAddOfflineReq m) = FileAddOfflineReq_ByteSize m"
| "request_ByteSize (Rq_FileDelOfflineReq m) = FileDelOfflineReq_ByteSize m"

primrec request_ParseFromArray :: "request \<Rightarrow> 's bytestream \<Rightarrow> byte list \<Rightarrow> bool \<times> request" where
  "request_ParseFromArray (Rq_ValidateRequest m) B data =
     map_prod id Rq_ValidateRequest (BaseTeamTalkPDU_ParseFromArray ValidateRequest_ParseFromByteStream B m data)"
| "request_ParseFromArray (Rq_FriendListRequest m) B data =
     map_prod id Rq_FriendListRequest (BaseTeamTalkPDU_ParseFromArray FriendListRequest_ParseFromByteStream B m data)"
| "request_ParseFromArray (Rq_RemoveSessionRequest m) B data =
     map_prod id Rq_RemoveSessionRequest (BaseTeamTalkPDU_ParseFromArray RemoveSessionRequest_ParseFromByteStream B m data)"
| "request_ParseFromArray (Rq_DepartmentRequest m) B data =
     map_prod id Rq_DepartmentRequest (BaseTeamTalkPDU_ParseFromArray DepartmentRequest_ParseFromByteStream B m data)"
| "request_ParseFromArray (Rq_UsersInfoRequest m) B data =
     map_prod id Rq_UsersInfoRequest (BaseTeamTalkPDU_ParseFromArray UsersInfoRequest_ParseFromByteStream B m data)"
| "request_ParseFromArray (Rq_AllUserRequest m) B data =
     map_prod id Rq_AllUserRequest (BaseTeamTalkPDU_ParseFromArray AllUserRequest_ParseFromByteStream B m data)"
| "request_ParseFromArray (Rq_MsgData m) B data =
     map_prod id Rq_MsgData (BaseTeamTalkPDU_ParseFromArray MsgData_ParseFromByteStream B m data)"
| "request_ParseFromArray (Rq_UnreadMsgCountRequest m) B data =
     map_prod id Rq_UnreadMsgCountRequest (BaseTeamTalkPDU_ParseFromArray UnreadMsgCountRequest_ParseFromByteStream B m data)"
| "request_ParseFromArray (Rq_UnreadMsgRequest m) B data =
     map_prod id Rq_UnreadMsgRequest (BaseTeamTalkPDU_ParseFromArray UnreadMsgRequest_ParseFromByteStream B m data)"
| "request_ParseFromArray (Rq_MsgReadAck m) B data =
     map_prod id Rq_MsgReadAck (BaseTeamTalkPDU_ParseFromArray MsgReadAck_ParseFromByteStream B m data)"
| "request_ParseFromArray (Rq_GroupListRequest m) B data =
     map_prod id Rq_GroupListRequest (BaseTeamTalkPDU_ParseFromArray GroupListRequest_ParseFromByteStream B m data)"
| "request_ParseFromArray (Rq_GroupUserListRequest m) B data =
     map_prod id Rq_GroupUserListRequest (BaseTeamTalkPDU_ParseFromArray GroupUserListRequest_ParseFromByteStream B m data)"
| "request_ParseFromArray (Rq_GroupUnreadMsgCountRequest m) B data =
     map_prod id Rq_GroupUnreadMsgCountRequest (BaseTeamTalkPDU_ParseFromArray GroupUnreadMsgCountRequest_ParseFromByteStream B m data)"
| "request_ParseFromArray (Rq_GroupUnreadMsgRequest m) B data =
     map_prod id Rq_GroupUnreadMsgRequest (BaseTeamTalkPDU_ParseFromArray GroupUnreadMsgRequest_ParseFromByteStream B m data)"
| "request_ParseFromArray (Rq_GroupHistoryMsgRequest m) B data =
     map_prod id Rq_GroupHistoryMsgRequest (BaseTeamTalkPDU_ParseFromArray GroupHistoryMsgRequest_ParseFromByteStream B m data)"
| "request_ParseFromArray (Rq_GroupMsgReadAck m) B data =
     map_prod id Rq_GroupMsgReadAck (BaseTeamTalkPDU_ParseFromArray GroupMsgReadAck_ParseFromByteStream B m data)"
| "request_ParseFromArray (Rq_GroupCreateTmpGroupRequest m) B data =
     map_prod id Rq_GroupCreateTmpGroupRequest (BaseTeamTalkPDU_ParseFromArray GroupCreateTmpGroupRequest_ParseFromByteStream B m data)"
| "request_ParseFromArray (Rq_GroupChangeMemberRequest m) B data =
     map_prod id Rq_GroupChangeMemberRequest (BaseTeamTalkPDU_ParseFromArray GroupChangeMemberRequest_ParseFromByteStream B m data)"
| "request_ParseFromArray (Rq_GroupDialogListRequest m) B data =
     map_prod id Rq_GroupDialogListRequest (BaseTeamTalkPDU_ParseFromArray GroupDialogListRequest_ParseFromByteStream B m data)"
| "request_ParseFromArray (Rq_FileHasOfflineReq m) B data =
     map_prod id Rq_FileHasOfflineReq (BaseTeamTalkPDU_ParseFromArray FileHasOfflineReq_ParseFromByteStream B m data)"
| "request_ParseFromArray (Rq_FileAddOfflineReq m) B data =
     map_prod id Rq_FileAddOfflineReq (BaseTeamTalkPDU_ParseFromArray FileAddOfflineReq_ParseFromByteStream B m data)"
| "request_ParseFromArray (Rq_FileDelOfflineReq m) B data =
     map_prod id Rq_FileDelOfflineReq (BaseTeamTalkPDU_ParseFromArray FileDelOfflineReq_ParseFromByteStream B m data)"

primrec request_SerializeToArray :: "request \<Rightarrow> 's bytestream \<Rightarrow> byte list \<Rightarrow> bool \<times> byte list" where
  "request_SerializeToArray (Rq_ValidateRequest m) B data =
     BaseTeamTalkPDU_SerializeToArray ValidateRequest_SerializeToByteStream B m data"
| "request_SerializeToArray (Rq_FriendListRequest m) B data =
     BaseTeamTalkPDU_SerializeToArray FriendListRequest_SerializeToByteStream B m data"
| "request_SerializeToArray (Rq_RemoveSessionRequest m) B data =
     BaseTeamTalkPDU_SerializeToArray RemoveSessionRequest_SerializeToByteStream B m data"
| "request_SerializeToArray (Rq_DepartmentRequest m) B data =
     BaseTeamTalkPDU_SerializeToArray DepartmentRequest_SerializeToByteStream B m data"
| "request_SerializeToArray (Rq_UsersInfoRequest m) B data =
     BaseTeamTalkPDU_SerializeToArray UsersInfoRequest_SerializeToByteStream B m data"
| "request_SerializeToArray (Rq_AllUserRequest m) B data =
     BaseTeamTalkPDU_SerializeToArray AllUserRequest_SerializeToByteStream B m data"
| "request_SerializeToArray (Rq_MsgData m) B data =
     BaseTeamTalkPDU_SerializeToArray MsgData_SerializeToByteStream B m data"
| "request_SerializeToArray (Rq_UnreadMsgCountRequest m) B data =
     BaseTeamTalkPDU_SerializeToArray UnreadMsgCountRequest_SerializeToByteStream B m data"
| "request_SerializeToArray (Rq_UnreadMsgRequest m) B data =
     BaseTeamTalkPDU_SerializeToArray UnreadMsgRequest_SerializeToByteStream B m data"
| "request_SerializeToArray (Rq_MsgReadAck m) B data =
     BaseTeamTalkPDU_SerializeToArray MsgReadAck_SerializeToByteStream B m data"
| "request_SerializeToArray (Rq_GroupListRequest m) B data =
     BaseTeamTalkPDU_SerializeToArray GroupListRequest_SerializeToByteStream B m data"
| "request_SerializeToArray (Rq_GroupUserListRequest m) B data =
     BaseTeamTalkPDU_SerializeToArray GroupUserListRequest_SerializeToByteStream B m data"
| "request_SerializeToArray (Rq_GroupUnreadMsgCountRequest m) B data =
     BaseTeamTalkPDU_SerializeToArray GroupUnreadMsgCountRequest_SerializeToByteStream B m data"
| "request_SerializeToArray (Rq_GroupUnreadMsgRequest m) B data =
     BaseTeamTalkPDU_SerializeToArray GroupUnreadMsgRequest_SerializeToByteStream B m data"
| "request_SerializeToArray (Rq_GroupHistoryMsgRequest m) B data =
     BaseTeamTalkPDU_SerializeToArray GroupHistoryMsgRequest_SerializeToByteStream B m data"
| "request_SerializeToArray (Rq_GroupMsgReadAck m) B data =
     BaseTeamTalkPDU_SerializeToArray GroupMsgReadAck_SerializeToByteStream B m data"
| "request_SerializeToArray (Rq_GroupCreateTmpGroupRequest m) B data =
     BaseTeamTalkPDU_SerializeToArray GroupCreateTmpGroupRequest_SerializeToByteStream B m data"
| "request_SerializeToArray (Rq_GroupChangeMemberRequest m) B data =
     BaseTeamTalkPDU_SerializeToArray GroupChangeMemberRequest_SerializeToByteStream B m data"
| "request_SerializeToArray (Rq_GroupDialogListRequest m) B data =
     BaseTeamTalkPDU_SerializeToArray GroupDialogListRequest_SerializeToByteStream B m data"
| "request_SerializeToArray (Rq_FileHasOfflineReq m) B data =
     BaseTeamTalkPDU_SerializeToArray FileHasOfflineReq_SerializeToByteStream B m data"
| "request_SerializeToArray (Rq_FileAddOfflineReq m) B data =
     BaseTeamTalkPDU_SerializeToArray FileAddOfflineReq_SerializeToByteStream B m data"
| "request_SerializeToArray (Rq_FileDelOfflineReq m) B data =
     BaseTeamTalkPDU_SerializeToArray FileDelOfflineReq_SerializeToByteStream B m data"

subsection \<open>Whole packets\<close>

text \<open>The bytes of a packet, and the object a receiver of the same class ends up with.\<close>

primrec request_size :: "request \<Rightarrow> nat" where
  "request_size (Rq_ValidateRequest m) = fields_size (wire_fields ValidateRequest_fields m)"
| "request_size (Rq_FriendListRequest m) = fields_size (wire_fields FriendListRequest_fields m)"
| "request_size (Rq_RemoveSessionRequest m) = fields_size (wire_fields RemoveSessionRequest_fields m)"
| "request_size (Rq_DepartmentRequest m) = fields_size (wire_fields DepartmentRequest_fields m)"
| "request_size (Rq_UsersInfoRequest m) = fields_size (wire_fields UsersInfoRequest_fields m)"
| "request_size (Rq_AllUserRequest m) = fields_size (wire_fields AllUserRequest_fields m)"
| "request_size (Rq_MsgData m) = fields_size (wire_fields MsgData_fields m)"
| "request_size (Rq_UnreadMsgCountRequest m) = fields_size (wire_fields UnreadMsgCountRequest_fields m)"
| "request_size (Rq_UnreadMsgRequest m) = fields_size (wire_fields UnreadMsgRequest_fields m)"
| "request_size (Rq_MsgReadAck m) = fields_size (wire_fields MsgReadAck_fields m)"
| "request_size (Rq_GroupListRequest m) = fields_size (wire_fields GroupListRequest_fields m)"
| "request_size (Rq_GroupUserListRequest m) = fields_size (wire_fields GroupUserListRequest_fields m)"
| "request_size (Rq_GroupUnreadMsgCountRequest m) = fields_size (wire_fields GroupUnreadMsgCountRequest_fields m)"
| "request_size (Rq_GroupUnreadMsgRequest m) = fields_size (wire_fields GroupUnreadMsgRequest_fields m)"
| "request_size (Rq_GroupHistoryMsgRequest m) = fields_size (wire_fields GroupHistoryMsgRequest_fields m)"
| "request_size (Rq_GroupMsgReadAck m) = fields_size (wire_fields GroupMsgReadAck_fields m)"
| "request_size (Rq_GroupCreateTmpGroupRequest m) = fields_size (wire_fields GroupCreateTmpGroupRequest_fields m)"
| "request_size (Rq_GroupChangeMemberRequest m) = fields_size (wire_fields GroupChangeMemberRequest_fields m)"
| "request_size (Rq_GroupDialogListRequest m) = fields_size (wire_fields GroupDialogListRequest_fields m)"
| "request_size (Rq_FileHasOfflineReq m) = fields_size (wire_fields FileHasOfflineReq_fields m)"
| "request_size (Rq_FileAddOfflineReq m) = fields_size (wire_fields FileAddOfflineReq_fields m)"
| "request_size (Rq_FileDelOfflineReq m) = fields_size (wire_fields FileDelOfflineReq_fields m)"

primrec request_received :: "request \<Rightarrow> raw_requests \<Rightarrow> request" where
  "request_received (Rq_ValidateRequest m) raw = Rq_ValidateRequest (received (ValidateRequest_ctor (raw_ValidateRequest raw)) m)"
| "request_received (Rq_FriendListRequest m) raw = Rq_FriendListRequest (received (FriendListRequest_ctor (raw_FriendListRequest raw)) m)"
| "request_received (Rq_RemoveSessionRequest m) raw = Rq_RemoveSessionRequest (received (RemoveSessionRequest_ctor (raw_RemoveSessionRequest raw)) m)"
| "request_received (Rq_DepartmentRequest m) raw = Rq_DepartmentRequest (received (DepartmentRequest_ctor (raw_DepartmentRequest raw)) m)"
| "request_received (Rq_UsersInfoRequest m) raw = Rq_UsersInfoRequest (received (UsersInfoRequest_ctor (raw_UsersInfoRequest raw)) m)"
| "request_received (Rq_AllUserRequest m) raw = Rq_AllUserRequest (received (AllUserRequest_ctor (raw_AllUserRequest raw)) m)"
| "request_received (Rq_MsgData m) raw = Rq_MsgData (received (MsgData_ctor (raw_MsgData raw)) m)"
| "request_received (Rq_UnreadMsgCountRequest m) raw = Rq_UnreadMsgCountRequest (received (UnreadMsgCountRequest_ctor (raw_UnreadMsgCountRequest raw)) m)"
| "request_received (Rq_UnreadMsgRequest m) raw = Rq_UnreadMsgRequest (received (UnreadMsgRequest_ctor (raw_UnreadMsgRequest raw)) m)"
| "request_received (Rq_MsgReadAck m) raw = Rq_MsgReadAck (received (MsgReadAck_ctor (raw_MsgReadAck raw)) m)"
| "request_received (Rq_GroupListRequest m) raw = Rq_GroupListRequest (received (GroupListRequest_ctor (raw_GroupListRequest raw)) m)"
| "request_received (Rq_GroupUserListRequest m) raw = Rq_GroupUserListRequest (received (GroupUserListRequest_ctor (raw_GroupUserListRequest raw)) m)"
| "request_received (Rq_GroupUnreadMsgCountRequest m) raw = Rq_GroupUnreadMsgCountRequest (received (GroupUnreadMsgCountRequest_ctor (raw_GroupUnreadMsgCountRequest raw)) m)"
| "request_received (Rq_GroupUnreadMsgRequest m) raw = Rq_GroupUnreadMsgRequest (received (GroupUnreadMsgRequest_ctor (raw_GroupUnreadMsgRequest raw)) m)"
| "request_received (Rq_GroupHistoryMsgRequest m) raw = Rq_GroupHistoryMsgRequest (received (GroupHistoryMsgRequest_ctor (raw_GroupHistoryMsgRequest raw)) m)"
| "request_received (Rq_GroupMsgReadAck m) raw = Rq_GroupMsgReadAck (received (GroupMsgReadAck_ctor (raw_GroupMsgReadAck raw)) m)"
| "request_received (Rq_GroupCreateTmpGroupRequest m) raw = Rq_GroupCreateTmpGroupRequest (received (GroupCreateTmpGroupRequest_ctor (raw_GroupCreateTmpGroupRequest raw)) m)"
| "request_received (Rq_GroupChangeMemberRequest m) raw = Rq_GroupChangeMemberRequest (received (GroupChangeMemberRequest_ctor (raw_GroupChangeMemberRequest raw)) (GroupChangeMemberRequest_canon (GroupChangeMemberRequest_ctor (raw_GroupChangeMemberRequest raw)) m))"
| "request_received (Rq_GroupDialogListRequest m) raw = Rq_GroupDialogListRequest (received (GroupDialogListRequest_ctor (raw_GroupDialogListRequest raw)) m)"
| "request_received (Rq_FileHasOfflineReq m) raw = Rq_FileHasOfflineReq (received (FileHasOfflineReq_ctor (raw_FileHasOfflineReq raw)) m)"
| "request_received (Rq_FileAddOfflineReq m) raw = Rq_FileAddOfflineReq (received (FileAddOfflineReq_ctor (raw_FileAddOfflineReq raw)) m)"
| "request_received (Rq_FileDelOfflineReq m) raw = Rq_FileDelOfflineReq (received (FileDelOfflineReq_ctor (raw_FileDelOfflineReq raw)) m)"

text \<open>The message type and the kind of attach data the constructors set.\<close>

primrec request_class_kind :: "request_class \<Rightarrow> u32 \<times> AttachDataType" where
  "request_class_kind Class_ValidateRequest = (MESSAGE_VALIDATE_REQUEST, kAttachDataTypeDB)"
| "request_class_kind Class_FriendListRequest = (MESSAGE_FRIEND_LIST_REQUEST, kAttachDataTypeDB)"
| "request_class_kind Class_RemoveSessionRequest = (MESSAGE_REMOVE_SESSION_REQUEST, kAttachDataTypeDB)"
| "request_class_kind Class_DepartmentRequest = (MESSAGE_DEPARTMENT_REQUEST, kAttachDataTypeDB)"
| "request_class_kind Class_UsersInfoRequest = (MESSAGE_USERS_INFO_REQUEST, kAttachDataTypeDB)"
| "request_class_kind Class_AllUserRequest = (MESSAGE_ALL_USER_REQUEST, kAttachDataTypeDB)"
| "request_class_kind Class_MsgData = (MESSAGE_MSG_DATA, kAttachDataTypeDB)"
| "request_class_kind Class_UnreadMsgCountRequest = (MESSAGE_UNREAD_MSG_COUNT_REQUEST, kAttachDataTypeDB)"
| "request_class_kind Class_UnreadMsgRequest = (MESSAGE_UNREAD_MSG_REQUEST, kAttachDataTypeDB)"
| "request_class_kind Class_MsgReadAck = (MESSAGE_MSG_READ_ACK, kAttachDataTypeNull)"
| "request_class_kind Class_GroupListRequest = (MESSAGE_GROUP_LIST_REQUEST, kAttachDataTypeDB)"
| "request_class_kind Class_GroupUserListRequest = (MESSAGE_GROUP_USER_LIST_REQUEST, kAttachDataTypeDB)"
| "request_class_kind Class_GroupUnreadMsgCountRequest = (MESSAGE_GROUP_UNREAD_MSG_COUNT_REQUEST, kAttachDataTypeDB)"
| "request_class_kind Class_GroupUnreadMsgRequest = (MESSAGE_GROUP_UNREAD_MSG_REQUEST, kAttachDataTypeDB)"
| "request_class_kind Class_GroupHistoryMsgRequest = (MESSAGE_HISTORY_MSG_REQUEST, kAttachDataTypeDB)"
| "request_class_kind Class_GroupMsgReadAck = (MESSAGE_GROUP_MSG_READ_ACK, kAttachDataTypeNull)"
| "request_class_kind Class_GroupCreateTmpGroupRequest = (MESSAGE_GROUP_CREATE_TMP_GROUP_REQUEST, kAttachDataTypeDB)"
| "request_class_kind Class_GroupChangeMemberRequest = (MESSAGE_GROUP_CHANGE_MEMBER_REQUEST, kAttachDataTypeDB)"
| "request_class_kind Class_GroupDialogListRequest = (MESSAGE_GROUP_DIALOG_LIST_REQUEST, kAttachDataTypeDB)"
| "request_class_kind Class_FileHasOfflineReq = (MESSAGE_FILE_HAS_OFFLINE_REQ, kAttachDataTypeDB)"
| "request_class_kind Class_FileAddOfflineReq = (MESSAGE_FILE_ADD_OFFLINE_REQ, kAttachDataTypeDB)"
| "request_class_kind Class_FileDelOfflineReq = (MESSAGE_FILE_DEL_OFFLINE_REQ, kAttachDataTypeDB)"

definition request_ok :: "request \<Rightarrow> bool" where
  "request_ok m \<longleftrightarrow> pdu_kind (request_base m) = request_class_kind (request_class_of m)"

subsection \<open>Facts\<close>

lemma ValidateRequest_keeps_kind: "pdu_kind (snd (BaseTeamTalkPDU_ParseFromArray
    ValidateRequest_ParseFromByteStream B m data)) = pdu_kind m"
  by (rule parse_keeps_kind, rule ValidateRequest_ParseFromByteStream_def)
    (simp add: keeps_intros pdu_kind_def)

lemma FriendListRequest_keeps_kind: "pdu_kind (snd (BaseTeamTalkPDU_ParseFromArray
    FriendListRequest_ParseFromByteStream B m data)) = pdu_kind m"
  by (rule parse_keeps_kind, rule FriendListRequest_ParseFromByteStream_def)
    (simp add: keeps_intros pdu_kind_def)

lemma RemoveSessionRequest_keeps_kind: "pdu_kind (snd (BaseTeamTalkPDU_ParseFromArray
    RemoveSessionRequest_ParseFromByteStream B m data)) = pdu_kind m"
  by (rule parse_keeps_kind, rule RemoveSessionRequest_ParseFromByteStream_def)
    (simp add: keeps_intros pdu_kind_def)

lemma DepartmentRequest_keeps_kind: "pdu_kind (snd (BaseTeamTalkPDU_ParseFromArray
    DepartmentRequest_ParseFromByteStream B m data)) = pdu_kind m"
  by (rule parse_keeps_kind, rule DepartmentRequest_ParseFromByteStream_def)
    (simp add: keeps_intros pdu_kind_def)

lemma UsersInfoRequest_keeps_kind: "pdu_kind (snd (BaseTeamTalkPDU_ParseFromArray
    UsersInfoRequest_ParseFromByteStream B m data)) = pdu_kind m"
  by (rule parse_keeps_kind, rule UsersInfoRequest_ParseFromByteStream_def)
    (simp add: keeps_intros pdu_kind_def)

lemma AllUserRequest_keeps_kind: "pdu_kind (snd (BaseTeamTalkPDU_ParseFromArray
    AllUserRequest_ParseFromByteStream B m data)) = pdu_kind m"
  by (rule parse_keeps_kind, rule AllUserRequest_ParseFromByteStream_def)
    (simp add: keeps_intros pdu_kind_def)

lemma MsgData_keeps_kind: "pdu_kind (snd (BaseTeamTalkPDU_ParseFromArray
    MsgData_ParseFromByteStream B m data)) = pdu_kind m"
  by (rule parse_keeps_kind, rule MsgData_ParseFromByteStream_def)
    (simp add: keeps_intros pdu_kind_def)

lemma UnreadMsgCountRequest_keeps_kind: "pdu_kind (snd (BaseTeamTalkPDU_ParseFromArray
    UnreadMsgCountRequest_ParseFromByteStream B m data)) = pdu_kind m"
  by (rule parse_keeps_kind, rule UnreadMsgCountRequest_ParseFromByteStream_def)
    (simp add: keeps_intros pdu_kind_def)

lemma UnreadMsgRequest_keeps_kind: "pdu_kind (snd (BaseTeamTalkPDU_ParseFromArray
    UnreadMsgRequest_ParseFromByteStream B m data)) = pdu_kind m"
  by (rule parse_keeps_kind, rule UnreadMsgRequest_ParseFromByteStream_def)
    (simp add: keeps_intros pdu_kind_def)

lemma MsgReadAck_keeps_kind: "pdu_kind (snd (BaseTeamTalkPDU_ParseFromArray
    MsgReadAck_ParseFromByteStream B m data)) = pdu_kind m"
  by (rule parse_keeps_kind, rule MsgReadAck_ParseFromByteStream_def)
    (simp add: keeps_intros pdu_kind_def)

lemma GroupListRequest_keeps_kind: "pdu_kind (snd (BaseTeamTalkPDU_ParseFromArray
    GroupListRequest_ParseFromByteStream B m data)) = pdu_kind m"
  by (rule parse_keeps_kind, rule GroupListRequest_ParseFromByteStream_def)
    (simp add: keeps_intros pdu_kind_def)

lemma GroupUserListRequest_keeps_kind: "pdu_kind (snd (BaseTeamTalkPDU_ParseFromArray
    GroupUserListRequest_ParseFromByteStream B m data)) = pdu_kind m"
  by (rule parse_keeps_kind, rule GroupUserListRequest_ParseFromByteStream_def)
    (simp add: keeps_intros pdu_kind_def)

lemma GroupUnreadMsgCountRequest_keeps_kind: "pdu_kind (snd (BaseTeamTalkPDU_ParseFromArray
    GroupUnreadMsgCountRequest_ParseFromByteStream B m data)) = pdu_kind m"
  by (rule parse_keeps_kind, rule GroupUnreadMsgCountRequest_ParseFromByteStream_def)
    (simp add: keeps_intros pdu_kind_def)

lemma GroupUnreadMsgRequest_keeps_kind: "pdu_kind (snd (BaseTeamTalkPDU_ParseFromArray
    GroupUnreadMsgRequest_ParseFromByteStream B m data)) = pdu_kind m"
  by (rule parse_keeps_kind, rule GroupUnreadMsgRequest_ParseFromByteStream_def)
    (simp add: keeps_intros pdu_kind_def)

lemma GroupHistoryMsgRequest_keeps_kind: "pdu_kind (snd (BaseTeamTalkPDU_ParseFromArray
    GroupHistoryMsgRequest_ParseFromByteStream B m data)) = pdu_kind m"
  by (rule parse_keeps_kind, rule GroupHistoryMsgRequest_ParseFromByteStream_def)
    (simp add: keeps_intros pdu_kind_def)

lemma GroupMsgReadAck_keeps_kind: "pdu_kind (snd (BaseTeamTalkPDU_ParseFromArray
    GroupMsgReadAck_ParseFromByteStream B m data)) = pdu_kind m"
  by (rule parse_keeps_kind, rule GroupMsgReadAck_ParseFromByteStream_def)
    (simp add: keeps_intros pdu_kind_def)

lemma GroupCreateTmpGroupRequest_keeps_kind: "pdu_kind (snd (BaseTeamTalkPDU_ParseFromArray
    GroupCreateTmpGroupRequest_ParseFromByteStream B m data)) = pdu_kind m"
  by (rule parse_keeps_kind, rule GroupCreateTmpGroupRequest_ParseFromByteStream_def)
    (simp add: keeps_intros pdu_kind_def)

lemma GroupChangeMemberRequest_keeps_kind: "pdu_kind (snd (BaseTeamTalkPDU_ParseFromArray
    GroupChangeMemberRequest_ParseFromByteStream B m data)) = pdu_kind m"
  by (rule parse_keeps_kind, rule GroupChangeMemberRequest_ParseFromByteStream_def)
    (simp add: keeps_intros pdu_kind_def)

lemma GroupDialogListRequest_keeps_kind: "pdu_kind (snd (BaseTeamTalkPDU_ParseFromArray
    GroupDialogListRequest_ParseFromByteStream B m data)) = pdu_kind m"
  by (rule parse_keeps_kind, rule GroupDialogListRequest_ParseFromByteStream_def)
    (simp add: keeps_intros pdu_kind_def)

lemma FileHasOfflineReq_keeps_kind: "pdu_kind (snd (BaseTeamTalkPDU_ParseFromArray
    FileHasOfflineReq_ParseFromByteStream B m data)) = pdu_kind m"
  by (rule parse_keeps_kind, rule FileHasOfflineReq_ParseFromByteStream_def)
    (simp add: keeps_intros pdu_kind_def)

lemma FileAddOfflineReq_keeps_kind: "pdu_kind (snd (BaseTeamTalkPDU_ParseFromArray
    FileAddOfflineReq_ParseFromByteStream B m data)) = pdu_kind m"
  by (rule parse_keeps_kind, rule FileAddOfflineReq_ParseFromByteStream_def)
    (simp add: keeps_intros pdu_kind_def)

lemma FileDelOfflineReq_keeps_kind: "pdu_kind (snd (BaseTeamTalkPDU_ParseFromArray
    FileDelOfflineReq_ParseFromByteStream B m data)) = pdu_kind m"
  by (rule parse_keeps_kind, rule FileDelOfflineReq_ParseFromByteStream_def)
    (simp add: keeps_intros pdu_kind_def)

lemmas request_keeps_kind =
  ValidateRequest_keeps_kind
  FriendListRequest_keeps_kind
  RemoveSessionRequest_keeps_kind
  DepartmentRequest_keeps_kind
  UsersInfoRequest_keeps_kind
  AllUserRequest_keeps_kind
  MsgData_keeps_kind
  UnreadMsgCountRequest_keeps_kind
  UnreadMsgRequest_keeps_kind
  MsgReadAck_keeps_kind
  GroupListRequest_keeps_kind
  GroupUserListRequest_keeps_kind
  GroupUnreadMsgCountRequest_keeps_kind
  GroupUnreadMsgRequest_keeps_kind
  GroupHistoryMsgRequest_keeps_kind
  GroupMsgReadAck_keeps_kind
  GroupCreateTmpGroupRequest_keeps_kind
  GroupChangeMemberRequest_keeps_kind
  GroupDialogListRequest_keeps_kind
  FileHasOfflineReq_keeps_kind
  FileAddOfflineReq_keeps_kind
  FileDelOfflineReq_keeps_kind

lemma request_ctor_kind:
  "pdu_kind (ValidateRequest_ctor (raw_ValidateRequest raw)) = (MESSAGE_VALIDATE_REQUEST, kAttachDataTypeDB)"
  "pdu_kind (FriendListRequest_ctor (raw_FriendListRequest raw)) = (MESSAGE_FRIEND_LIST_REQUEST, kAttachDataTypeDB)"
  "pdu_kind (RemoveSessionRequest_ctor (raw_RemoveSessionRequest raw)) = (MESSAGE_REMOVE_SESSION_REQUEST, kAttachDataTypeDB)"
  "pdu_kind (DepartmentRequest_ctor (raw_DepartmentRequest raw)) = (MESSAGE_DEPARTMENT_REQUEST, kAttachDataTypeDB)"
  "pdu_kind (UsersInfoRequest_ctor (raw_UsersInfoRequest raw)) = (MESSAGE_USERS_INFO_REQUEST, kAttachDataTypeDB)"
  "pdu_kind (AllUserRequest_ctor (raw_AllUserRequest raw)) = (MESSAGE_ALL_USER_REQUEST, kAttachDataTypeDB)"
  "pdu_kind (MsgData_ctor (raw_MsgData raw)) = (MESSAGE_MSG_DATA, kAttachDataTypeDB)"
  "pdu_kind (UnreadMsgCountRequest_ctor (raw_UnreadMsgCountRequest raw)) = (MESSAGE_UNREAD_MSG_COUNT_REQUEST, kAttachDataTypeDB)"
  "pdu_kind (UnreadMsgRequest_ctor (raw_UnreadMsgRequest raw)) = (MESSAGE_UNREAD_MSG_REQUEST, kAttachDataTypeDB)"
  "pdu_kind (MsgReadAck_ctor (raw_MsgReadAck raw)) = (MESSAGE_MSG_READ_ACK, kAttachDataTypeNull)"
  "pdu_kind (GroupListRequest_ctor (raw_GroupListRequest raw)) = (MESSAGE_GROUP_LIST_REQUEST, kAttachDataTypeDB)"
  "pdu_kind (GroupUserListRequest_ctor (raw_GroupUserListRequest raw)) = (MESSAGE_GROUP_USER_LIST_REQUEST, kAttachDataTypeDB)"
  "pdu_kind (GroupUnreadMsgCountRequest_ctor (raw_GroupUnreadMsgCountRequest raw)) = (MESSAGE_GROUP_UNREAD_MSG_COUNT_REQUEST, kAttachDataTypeDB)"
  "pdu_kind (GroupUnreadMsgRequest_ctor (raw_GroupUnreadMsgRequest raw)) = (MESSAGE_GROUP_UNREAD_MSG_REQUEST, kAttachDataTypeDB)"
  "pdu_kind (GroupHistoryMsgRequest_ctor (raw_GroupHistoryMsgRequest raw)) = (MESSAGE_HISTORY_MSG_REQUEST, kAttachDataTypeDB)"
  "pdu_kind (GroupMsgReadAck_ctor (raw_GroupMsgReadAck raw)) = (MESSAGE_GROUP_MSG_READ_ACK, kAttachDataTypeNull)"
  "pdu_kind (GroupCreateTmpGroupRequest_ctor (raw_GroupCreateTmpGroupRequest raw)) = (MESSAGE_GROUP_CREATE_TMP_GROUP_REQUEST, kAttachDataTypeDB)"
  "pdu_kind (GroupChangeMemberRequest_ctor (raw_GroupChangeMemberRequest raw)) = (MESSAGE_GROUP_CHANGE_MEMBER_REQUEST, kAttachDataTypeDB)"
  "pdu_kind (GroupDialogListRequest_ctor (raw_GroupDialogListRequest raw)) = (MESSAGE_GROUP_DIALOG_LIST_REQUEST, kAttachDataTypeDB)"
  "pdu_kind (FileHasOfflineReq_ctor (raw_FileHasOfflineReq raw)) = (MESSAGE_FILE_HAS_OFFLINE_REQ, kAttachDataTypeDB)"
  "pdu_kind (FileAddOfflineReq_ctor (raw_FileAddOfflineReq raw)) = (MESSAGE_FILE_ADD_OFFLINE_REQ, kAttachDataTypeDB)"
  "pdu_kind (FileDelOfflineReq_ctor (raw_FileDelOfflineReq raw)) = (MESSAGE_FILE_DEL_OFFLINE_REQ, kAttachDataTypeDB)"
  by (simp_all add: pdu_kind_def BaseTeamTalkPDU_ctor_def
    ValidateRequest_ctor_def
    FriendListRequest_ctor_def
    RemoveSessionRequest_ctor_def
    DepartmentRequest_ctor_def
    UsersInfoRequest_ctor_def
    AllUserRequest_ctor_def
    MsgData_ctor_def
    UnreadMsgCountRequest_ctor_def
    UnreadMsgRequest_ctor_def
    MsgReadAck_ctor_def
    GroupListRequest_ctor_def
    GroupUserListRequest_ctor_def
    GroupUnreadMsgCountRequest_ctor_def
    GroupUnreadMsgRequest_ctor_def
    GroupHistoryMsgRequest_ctor_def
    GroupMsgReadAck_ctor_def
    GroupCreateTmpGroupRequest_ctor_def
    GroupChangeMemberRequest_ctor_def
    GroupDialogListRequest_ctor_def
    FileHasOfflineReq_ctor_def
    FileAddOfflineReq_ctor_def
    FileDelOfflineReq_ctor_def)

lemma request_new_kind [simp]:
  "request_class_of (request_new c raw) = c"
  "pdu_kind (request_base (request_new c raw)) = request_class_kind c"
  by (cases c; simp)
    (cases c; simp add: request_ctor_kind)

lemma request_new_ok [simp]: "request_ok (request_new c raw)"
  by (simp add: request_ok_def)

text \<open>Parsing changes neither the class of an object nor its message type.\<close>

lemma request_parse_class: "request_class_of (snd (request_ParseFromArray m B data)) = request_class_of m"
  by (cases m) simp_all

lemma request_parse_kind:
  "pdu_kind (request_base (snd (request_ParseFromArray m B data))) = pdu_kind (request_base m)"
  by (cases m) (simp_all add: request_keeps_kind)

lemma request_parse_ok: "request_ok m \<Longrightarrow> request_ok (snd (request_ParseFromArray m B data))"
  by (simp add: request_ok_def request_parse_kind request_parse_class)

lemma request_kind_ctor:
  assumes "request_ok m"
  shows "attach_data_type (request_base m) = attach_data_type (request_base (request_new (request_class_of m) raw))"
proof -
  from assms have "pdu_kind (request_base m) = pdu_kind (request_base (request_new (request_class_of m) raw))"
    by (simp add: request_ok_def)
  then show ?thesis by (simp add: pdu_kind_def)
qed

lemma request_size_exact: "request_ByteSize m = of_nat (request_size m)"
  by (cases m) (simp_all add: ValidateRequest_pdu.bytesize_exact
      FriendListRequest_pdu.bytesize_exact
      RemoveSessionRequest_pdu.bytesize_exact
      DepartmentRequest_pdu.bytesize_exact
      UsersInfoRequest_pdu.bytesize_exact
      AllUserRequest_pdu.bytesize_exact
      MsgData_pdu.bytesize_exact
      UnreadMsgCountRequest_pdu.bytesize_exact
      UnreadMsgRequest_pdu.bytesize_exact
      MsgReadAck_pdu.bytesize_exact
      GroupListRequest_pdu.bytesize_exact
      GroupUserListRequest_pdu.bytesize_exact
      GroupUnreadMsgCountRequest_pdu.bytesize_exact
      GroupUnreadMsgRequest_pdu.bytesize_exact
      GroupHistoryMsgRequest_pdu.bytesize_exact
      GroupMsgReadAck_pdu.bytesize_exact
      GroupCreateTmpGroupRequest_pdu.bytesize_exact
      GroupChangeMemberRequest_pdu.bytesize_exact
      GroupDialogListRequest_pdu.bytesize_exact
      FileHasOfflineReq_pdu.bytesize_exact
      FileAddOfflineReq_pdu.bytesize_exact
      FileDelOfflineReq_pdu.bytesize_exact del: of_nat_add)

text \<open>Round trip of whole packets, for every class.\<close>

lemma request_packets:
  assumes B: "byte_stream B cur W" and ok: "request_ok m"
    and sz: "request_size m < 2 ^ 32" and buf: "length data = unat (request_ByteSize m)"
  shows "\<exists>packet. request_SerializeToArray m B data = (True, packet) \<and>
    length packet = unat (request_ByteSize m) \<and>
    request_ParseFromArray (request_new (request_class_of m) raw) B packet = (True, request_received m raw) \<and>
    (\<forall>n < length packet.
       \<not> fst (request_ParseFromArray (request_new (request_class_of m) raw) B (take n packet)))"
proof (cases m)
  case (Rq_ValidateRequest x)
  with ValidateRequest_pdu.roundtrip [OF B, of x "raw_ValidateRequest raw" data] sz buf request_kind_ctor [OF ok, of raw]
  show ?thesis by (auto simp: base_pdu.defs)
next
  case (Rq_FriendListRequest x)
  with FriendListRequest_pdu.roundtrip [OF B, of x "raw_FriendListRequest raw" data] sz buf request_kind_ctor [OF ok, of raw]
  show ?thesis by (auto simp: base_pdu.defs)
next
  case (Rq_RemoveSessionRequest x)
  with RemoveSessionRequest_pdu.roundtrip [OF B, of x "raw_RemoveSessionRequest raw" data] sz buf request_kind_ctor [OF ok, of raw]
  show ?thesis by (auto simp: base_pdu.defs)
next
  case (Rq_DepartmentRequest x)
  with DepartmentRequest_pdu.roundtrip [OF B, of x "raw_DepartmentRequest raw" data] sz buf request_kind_ctor [OF ok, of raw]
  show ?thesis by (auto simp: base_pdu.defs)
next
  case (Rq_UsersInfoRequest x)
  with UsersInfoRequest_pdu.roundtrip [OF B, of x "raw_UsersInfoRequest raw" data] sz buf request_kind_ctor [OF ok, of raw]
  show ?thesis by (auto simp: base_pdu.defs)
next
  case (Rq_AllUserRequest x)
  with AllUserRequest_pdu.roundtrip [OF B, of x "raw_AllUserRequest raw" data] sz buf request_kind_ctor [OF ok, of raw]
  show ?thesis by (auto simp: base_pdu.defs)
next
  case (Rq_MsgData x)
  with MsgData_pdu.roundtrip [OF B, of x "raw_MsgData raw" data] sz buf request_kind_ctor [OF ok, of raw]
  show ?thesis by (auto simp: base_pdu.defs)
next
  case (Rq_UnreadMsgCountRequest x)
  with UnreadMsgCountRequest_pdu.roundtrip [OF B, of x "raw_UnreadMsgCountRequest raw" data] sz buf request_kind_ctor [OF ok, of raw]
  show ?thesis by (auto simp: base_pdu.defs)
next
  case (Rq_UnreadMsgRequest x)
  with UnreadMsgRequest_pdu.roundtrip [OF B, of x "raw_UnreadMsgRequest raw" data] sz buf request_kind_ctor [OF ok, of raw]
  show ?thesis by (auto simp: base_pdu.defs)
next
  case (Rq_MsgReadAck x)
  with MsgReadAck_pdu.roundtrip [OF B, of x "raw_MsgReadAck raw" data] sz buf request_kind_ctor [OF ok, of raw]
  show ?thesis by (auto simp: base_pdu.defs)
next
  case (Rq_GroupListRequest x)
  with GroupListRequest_pdu.roundtrip [OF B, of x "raw_GroupListRequest raw" data] sz buf request_kind_ctor [OF ok, of raw]
  show ?thesis by (auto simp: base_pdu.defs)
next
  case (Rq_GroupUserListRequest x)
  with GroupUserListRequest_pdu.roundtrip [OF B, of x "raw_GroupUserListRequest raw" data] sz buf request_kind_ctor [OF ok, of raw]
  show ?thesis by (auto simp: base_pdu.defs)
next
  case (Rq_GroupUnreadMsgCountRequest x)
  with GroupUnreadMsgCountRequest_pdu.roundtrip [OF B, of x "raw_GroupUnreadMsgCountRequest raw" data] sz buf request_kind_ctor [OF ok, of raw]
  show ?thesis by (auto simp: base_pdu.defs)
next
  case (Rq_GroupUnreadMsgRequest x)
  with GroupUnreadMsgRequest_pdu.roundtrip [OF B, of x "raw_GroupUnreadMsgRequest raw" data] sz buf request_kind_ctor [OF ok, of raw]
  show ?thesis by (auto simp: base_pdu.defs)
next
  case (Rq_GroupHistoryMsgRequest x)
  with GroupHistoryMsgRequest_pdu.roundtrip [OF B, of x "raw_GroupHistoryMsgRequest raw" data] sz buf request_kind_ctor [OF ok, of raw]
  show ?thesis by (auto simp: base_pdu.defs)
next
  case (Rq_GroupMsgReadAck x)
  with GroupMsgReadAck_pdu.roundtrip [OF B, of x "raw_GroupMsgReadAck raw" data] sz buf request_kind_ctor [OF ok, of raw]
  show ?thesis by (auto simp: base_pdu.defs)
next
  case (Rq_GroupCreateTmpGroupRequest x)
  with GroupCreateTmpGroupRequest_pdu.roundtrip [OF B, of x "raw_GroupCreateTmpGroupRequest raw" data] sz buf request_kind_ctor [OF ok, of raw]
  show ?thesis by (auto simp: base_pdu.defs)
next
  case (Rq_GroupChangeMemberRequest x)
  with GroupChangeMemberRequest_pdu.roundtrip [OF B, of x "raw_GroupChangeMemberRequest raw" data] sz buf request_kind_ctor [OF ok, of raw]
  show ?thesis by (auto simp: base_pdu.defs)
next
  case (Rq_GroupDialogListRequest x)
  with GroupDialogListRequest_pdu.roundtrip [OF B, of x "raw_GroupDialogListRequest raw" data] sz buf request_kind_ctor [OF ok, of raw]
  show ?thesis by (auto simp: base_pdu.defs)
next
  case (Rq_FileHasOfflineReq x)
  with FileHasOfflineReq_pdu.roundtrip [OF B, of x "raw_FileHasOfflineReq raw" data] sz buf request_kind_ctor [OF ok, of raw]
  show ?thesis by (auto simp: base_pdu.defs)
next
  case (Rq_FileAddOfflineReq x)
  with FileAddOfflineReq_pdu.roundtrip [OF B, of x "raw_FileAddOfflineReq raw" data] sz buf request_kind_ctor [OF ok, of raw]
  show ?thesis by (auto simp: base_pdu.defs)
next
  case (Rq_FileDelOfflineReq x)
  with FileDelOfflineReq_pdu.roundtrip [OF B, of x "raw_FileDelOfflineReq raw" data] sz buf request_kind_ctor [OF ok, of raw]
  show ?thesis by (auto simp: base_pdu.defs)
qed

end
