(* ===== verification/Responses.thy ===== *)
theory Responses
  imports Pdu_Login Pdu_Message Pdu_Group Pdu_File
begin

text \<open>
  The responses the handlers send, as one type, except \<^verbatim>\<open>ValidateResponse\<close>, which has a theory of
  its own.
\<close>

subsection \<open>The objects\<close>

datatype response =
    Rs_AllUserResponse AllUserResponse
  | Rs_DepartmentResponse DepartmentResponse
  | Rs_FileHasOfflineRes FileHasOfflineRes
  | Rs_FriendListResponse FriendListResponse
  | Rs_GroupChangeMemberResponse GroupChangeMemberResponse
  | Rs_GroupCreateTmpGroupResponse GroupCreateTmpGroupResponse
  | Rs_GroupDialogListResponse GroupDialogListResponse
  | Rs_GroupListResponse GroupListResponse
  | Rs_GroupUnreadMsgCountResponse GroupUnreadMsgCountResponse
  | Rs_GroupMsgListResponse GroupMsgListResponse
  | Rs_GroupUserListResponse GroupUserListResponse
  | Rs_MsgListResponse MsgListResponse
  | Rs_DBWriteResponse DBWriteResponse
  | Rs_RemoveSessionResponse RemoveSessionResponse
  | Rs_UnreadMsgCountResponse UnreadMsgCountResponse
  | Rs_UsersInfoResponse UsersInfoResponse

text \<open>The classes, and the memory a new object of each is built in: the constructors leave
  the numbers as they find them.\<close>

datatype response_class =
    Class_AllUserResponse
  | Class_DepartmentResponse
  | Class_FileHasOfflineRes
  | Class_FriendListResponse
  | Class_GroupChangeMemberResponse
  | Class_GroupCreateTmpGroupResponse
  | Class_GroupDialogListResponse
  | Class_GroupListResponse
  | Class_GroupUnreadMsgCountResponse
  | Class_GroupMsgListResponse
  | Class_GroupUserListResponse
  | Class_MsgListResponse
  | Class_DBWriteResponse
  | Class_RemoveSessionResponse
  | Class_UnreadMsgCountResponse
  | Class_UsersInfoResponse

record raw_responses =
  raw_AllUserResponse :: AllUserResponse
  raw_DepartmentResponse :: DepartmentResponse
  raw_FileHasOfflineRes :: FileHasOfflineRes
  raw_FriendListResponse :: FriendListResponse
  raw_GroupChangeMemberResponse :: GroupChangeMemberResponse
  raw_GroupCreateTmpGroupResponse :: GroupCreateTmpGroupResponse
  raw_GroupDialogListResponse :: GroupDialogListResponse
  raw_GroupListResponse :: GroupListResponse
  raw_GroupUnreadMsgCountResponse :: GroupUnreadMsgCountResponse
  raw_GroupMsgListResponse :: GroupMsgListResponse
  raw_GroupUserListResponse :: GroupUserListResponse
  raw_MsgListResponse :: MsgListResponse
  raw_DBWriteResponse :: DBWriteResponse
  raw_RemoveSessionResponse :: RemoveSessionResponse
  raw_UnreadMsgCountResponse :: UnreadMsgCountResponse
  raw_UsersInfoResponse :: UsersInfoResponse

primrec response_class_of :: "response \<Rightarrow> response_class" where
  "response_class_of (Rs_AllUserResponse m) = Class_AllUserResponse"
| "response_class_of (Rs_DepartmentResponse m) = Class_DepartmentResponse"
| "response_class_of (Rs_FileHasOfflineRes m) = Class_FileHasOfflineRes"
| "response_class_of (Rs_FriendListResponse m) = Class_FriendListResponse"
| "response_class_of (Rs_GroupChangeMemberResponse m) = Class_GroupChangeMemberResponse"
| "response_class_of (Rs_GroupCreateTmpGroupResponse m) = Class_GroupCreateTmpGroupResponse"
| "response_class_of (Rs_GroupDialogListResponse m) = Class_GroupDialogListResponse"
| "response_class_of (Rs_GroupListResponse m) = Class_GroupListResponse"
| "response_class_of (Rs_GroupUnreadMsgCountResponse m) = Class_GroupUnreadMsgCountResponse"
| "response_class_of (Rs_GroupMsgListResponse m) = Class_GroupMsgListResponse"
| "response_class_of (Rs_GroupUserListResponse m) = Class_GroupUserListResponse"
| "response_class_of (Rs_MsgListResponse m) = Class_MsgListResponse"
| "response_class_of (Rs_DBWriteResponse m) = Class_DBWriteResponse"
| "response_class_of (Rs_RemoveSessionResponse m) = Class_RemoveSessionResponse"
| "response_class_of (Rs_UnreadMsgCountResponse m) = Class_UnreadMsgCountResponse"
| "response_class_of (Rs_UsersInfoResponse m) = Class_UsersInfoResponse"

primrec response_new :: "response_class \<Rightarrow> raw_responses \<Rightarrow> response" where
  "response_new Class_AllUserResponse raw = Rs_AllUserResponse (AllUserResponse_ctor (raw_AllUserResponse raw))"
| "response_new Class_DepartmentResponse raw = Rs_DepartmentResponse (DepartmentResponse_ctor (raw_DepartmentResponse raw))"
| "response_new Class_FileHasOfflineRes raw = Rs_FileHasOfflineRes (FileHasOfflineRes_ctor (raw_FileHasOfflineRes raw))"
| "response_new Class_FriendListResponse raw = Rs_FriendListResponse (FriendListResponse_ctor (raw_FriendListResponse raw))"
| "response_new Class_GroupChangeMemberResponse raw = Rs_GroupChangeMemberResponse (GroupChangeMemberResponse_ctor (raw_GroupChangeMemberResponse raw))"
| "response_new Class_GroupCreateTmpGroupResponse raw = Rs_GroupCreateTmpGroupResponse (GroupCreateTmpGroupResponse_ctor (raw_GroupCreateTmpGroupResponse raw))"
| "response_new Class_GroupDialogListResponse raw = Rs_GroupDialogListResponse (GroupDialogListResponse_ctor (raw_GroupDialogListResponse raw))"
| "response_new Class_GroupListResponse raw = Rs_GroupListResponse (GroupListResponse_ctor (raw_GroupListResponse raw))"
| "response_new Class_GroupUnreadMsgCountResponse raw = Rs_GroupUnreadMsgCountResponse (GroupUnreadMsgCountResponse_ctor (raw_GroupUnreadMsgCountResponse raw))"
| "response_new Class_GroupMsgListResponse raw = Rs_GroupMsgListResponse (GroupMsgListResponse_ctor (raw_GroupMsgListResponse raw))"
| "response_new Class_GroupUserListResponse raw = Rs_GroupUserListResponse (GroupUserListResponse_ctor (raw_GroupUserListResponse raw))"
| "response_new Class_MsgListResponse raw = Rs_MsgListResponse (MsgListResponse_ctor (raw_MsgListResponse raw))"
| "response_new Class_DBWriteResponse raw = Rs_DBWriteResponse (DBWriteResponse_ctor (raw_DBWriteResponse raw))"
| "response_new Class_RemoveSessionResponse raw = Rs_RemoveSessionResponse (RemoveSessionResponse_ctor (raw_RemoveSessionResponse raw))"
| "response_new Class_UnreadMsgCountResponse raw = Rs_UnreadMsgCountResponse (UnreadMsgCountResponse_ctor (raw_UnreadMsgCountResponse raw))"
| "response_new Class_UsersInfoResponse raw = Rs_UsersInfoResponse (UsersInfoResponse_ctor (raw_UsersInfoResponse raw))"

text \<open>The members every message has.\<close>

primrec response_base :: "response \<Rightarrow> base_pdu" where
  "response_base (Rs_AllUserResponse m) = base_pdu.truncate m"
| "response_base (Rs_DepartmentResponse m) = base_pdu.truncate m"
| "response_base (Rs_FileHasOfflineRes m) = base_pdu.truncate m"
| "response_base (Rs_FriendListResponse m) = base_pdu.truncate m"
| "response_base (Rs_GroupChangeMemberResponse m) = base_pdu.truncate m"
| "response_base (Rs_GroupCreateTmpGroupResponse m) = base_pdu.truncate m"
| "response_base (Rs_GroupDialogListResponse m) = base_pdu.truncate m"
| "response_base (Rs_GroupListResponse m) = base_pdu.truncate m"
| "response_base (Rs_GroupUnreadMsgCountResponse m) = base_pdu.truncate m"
| "response_base (Rs_GroupMsgListResponse m) = base_pdu.truncate m"
| "response_base (Rs_GroupUserListResponse m) = base_pdu.truncate m"
| "response_base (Rs_MsgListResponse m) = base_pdu.truncate m"
| "response_base (Rs_DBWriteResponse m) = base_pdu.truncate m"
| "response_base (Rs_RemoveSessionResponse m) = base_pdu.truncate m"
| "response_base (Rs_UnreadMsgCountResponse m) = base_pdu.truncate m"
| "response_base (Rs_UsersInfoResponse m) = base_pdu.truncate m"

subsection \<open>The virtual functions\<close>

primrec response_ByteSize :: "response \<Rightarrow> u32" where
  "response_ByteSize (Rs_AllUserResponse m) = AllUserResponse_ByteSize m"
| "response_ByteSize (Rs_DepartmentResponse m) = DepartmentResponse_ByteSize m"
| "response_ByteSize (Rs_FileHasOfflineRes m) = FileHasOfflineRes_ByteSize m"
| "response_ByteSize (Rs_FriendListResponse m) = FriendListResponse_ByteSize m"
| "response_ByteSize (Rs_GroupChangeMemberResponse m) = GroupChangeMemberResponse_ByteSize m"
| "response_ByteSize (Rs_GroupCreateTmpGroupResponse m) = GroupCreateTmpGroupResponse_ByteSize m"
| "response_ByteSize (Rs_GroupDialogListResponse m) = GroupDialogListResponse_ByteSize m"
| "response_ByteSize (Rs_GroupListResponse m) = GroupListResponse_ByteSize m"
| "response_ByteSize (Rs_GroupUnreadMsgCountResponse m) = GroupUnreadMsgCountResponse_ByteSize m"
| "response_ByteSize (Rs_GroupMsgListResponse m) = GroupMsgListResponse_ByteSize m"
| "response_ByteSize (Rs_GroupUserListResponse m) = GroupUserListResponse_ByteSize m"
| "response_ByteSize (Rs_MsgListResponse m) = MsgListResponse_ByteSize m"
| "response_ByteSize (Rs_DBWriteResponse m) = DBWriteResponse_ByteSize m"
| "response_ByteSize (Rs_RemoveSessionResponse m) = RemoveSessionResponse_ByteSize m"
| "response_ByteSize (Rs_UnreadMsgCountResponse m) = UnreadMsgCountResponse_ByteSize m"
| "response_ByteSize (Rs_UsersInfoResponse m) = UsersInfoResponse_ByteSize m"

primrec response_ParseFromArray :: "response \<Rightarrow> 's bytestream \<Rightarrow> byte list \<Rightarrow> bool \<times> response" where
  "response_ParseFromArray (Rs_AllUserResponse m) B data =
     map_prod id Rs_AllUserResponse (BaseTeamTalkPDU_ParseFromArray AllUserResponse_ParseFromByteStream B m data)"
| "response_ParseFromArray (Rs_DepartmentResponse m) B data =
     map_prod id Rs_DepartmentResponse (BaseTeamTalkPDU_ParseFromArray DepartmentResponse_ParseFromByteStream B m data)"
| "response_ParseFromArray (Rs_FileHasOfflineRes m) B data =
     map_prod id Rs_FileHasOfflineRes (BaseTeamTalkPDU_ParseFromArray FileHasOfflineRes_ParseFromByteStream B m data)"
| "response_ParseFromArray (Rs_FriendListResponse m) B data =
     map_prod id Rs_FriendListResponse (BaseTeamTalkPDU_ParseFromArray FriendListResponse_ParseFromByteStream B m data)"
| "response_ParseFromArray (Rs_GroupChangeMemberResponse m) B data =
     map_prod id Rs_GroupChangeMemberResponse (BaseTeamTalkPDU_ParseFromArray GroupChangeMemberResponse_ParseFromByteStream B m data)"
| "response_ParseFromArray (Rs_GroupCreateTmpGroupResponse m) B data =
     map_prod id Rs_GroupCreateTmpGroupResponse (BaseTeamTalkPDU_ParseFromArray GroupCreateTmpGroupResponse_ParseFromByteStream B m data)"
| "response_ParseFromArray (Rs_GroupDialogListResponse m) B data =
     map_prod id Rs_GroupDialogListResponse (BaseTeamTalkPDU_ParseFromArray GroupDialogListResponse_ParseFromByteStream B m data)"
| "response_ParseFromArray (Rs_GroupListResponse m) B data =
     map_prod id Rs_GroupListResponse (BaseTeamTalkPDU_ParseFromArray GroupListResponse_ParseFromByteStream B m data)"
| "response_ParseFromArray (Rs_GroupUnreadMsgCountResponse m) B data =
     map_prod id Rs_GroupUnreadMsgCountResponse (BaseTeamTalkPDU_ParseFromArray GroupUnreadMsgCountResponse_ParseFromByteStream B m data)"
| "response_ParseFromArray (Rs_GroupMsgListResponse m) B data =
     map_prod id Rs_GroupMsgListResponse (BaseTeamTalkPDU_ParseFromArray GroupMsgListResponse_ParseFromByteStream B m data)"
| "response_ParseFromArray (Rs_GroupUserListResponse m) B data =
     map_prod id Rs_GroupUserListResponse (BaseTeamTalkPDU_ParseFromArray GroupUserListResponse_ParseFromByteStream B m data)"
| "response_ParseFromArray (Rs_MsgListResponse m) B data =
     map_prod id Rs_MsgListResponse (BaseTeamTalkPDU_ParseFromArray MsgListResponse_ParseFromByteStream B m data)"
| "response_ParseFromArray (Rs_DBWriteResponse m) B data =
     map_prod id Rs_DBWriteResponse (BaseTeamTalkPDU_ParseFromArray DBWriteResponse_ParseFromByteStream B m data)"
| "response_ParseFromArray (Rs_RemoveSessionResponse m) B data =
     map_prod id Rs_RemoveSessionResponse (BaseTeamTalkPDU_ParseFromArray RemoveSessionResponse_ParseFromByteStream B m data)"
| "response_ParseFromArray (Rs_UnreadMsgCountResponse m) B data =
     map_prod id Rs_UnreadMsgCountResponse (BaseTeamTalkPDU_ParseFromArray UnreadMsgCountResponse_ParseFromByteStream B m data)"
| "response_ParseFromArray (Rs_UsersInfoResponse m) B data =
     map_prod id Rs_UsersInfoResponse (BaseTeamTalkPDU_ParseFromArray UsersInfoResponse_ParseFromByteStream B m data)"

primrec response_SerializeToArray :: "response \<Rightarrow> 's bytestream \<Rightarrow> byte list \<Rightarrow> bool \<times> byte list" where
  "response_SerializeToArray (Rs_AllUserResponse m) B data =
     BaseTeamTalkPDU_SerializeToArray AllUserResponse_SerializeToByteStream B m data"
| "response_SerializeToArray (Rs_DepartmentResponse m) B data =
     BaseTeamTalkPDU_SerializeToArray DepartmentResponse_SerializeToByteStream B m data"
| "response_SerializeToArray (Rs_FileHasOfflineRes m) B data =
     BaseTeamTalkPDU_SerializeToArray FileHasOfflineRes_SerializeToByteStream B m data"
| "response_SerializeToArray (Rs_FriendListResponse m) B data =
     BaseTeamTalkPDU_SerializeToArray FriendListResponse_SerializeToByteStream B m data"
| "response_SerializeToArray (Rs_GroupChangeMemberResponse m) B data =
     BaseTeamTalkPDU_SerializeToArray GroupChangeMemberResponse_SerializeToByteStream B m data"
| "response_SerializeToArray (Rs_GroupCreateTmpGroupResponse m) B data =
     BaseTeamTalkPDU_SerializeToArray GroupCreateTmpGroupResponse_SerializeToByteStream B m data"
| "response_SerializeToArray (Rs_GroupDialogListResponse m) B data =
     BaseTeamTalkPDU_SerializeToArray GroupDialogListResponse_SerializeToByteStream B m data"
| "response_SerializeToArray (Rs_GroupListResponse m) B data =
     BaseTeamTalkPDU_SerializeToArray GroupListResponse_SerializeToByteStream B m data"
| "response_SerializeToArray (Rs_GroupUnreadMsgCountResponse m) B data =
     BaseTeamTalkPDU_SerializeToArray GroupUnreadMsgCountResponse_SerializeToByteStream B m data"
| "response_SerializeToArray (Rs_GroupMsgListResponse m) B data =
     BaseTeamTalkPDU_SerializeToArray GroupMsgListResponse_SerializeToByteStream B m data"
| "response_SerializeToArray (Rs_GroupUserListResponse m) B data =
     BaseTeamTalkPDU_SerializeToArray GroupUserListResponse_SerializeToByteStream B m data"
| "response_SerializeToArray (Rs_MsgListResponse m) B data =
     BaseTeamTalkPDU_SerializeToArray MsgListResponse_SerializeToByteStream B m data"
| "response_SerializeToArray (Rs_DBWriteResponse m) B data =
     BaseTeamTalkPDU_SerializeToArray DBWriteResponse_SerializeToByteStream B m data"
| "response_SerializeToArray (Rs_RemoveSessionResponse m) B data =
     BaseTeamTalkPDU_SerializeToArray RemoveSessionResponse_SerializeToByteStream B m data"
| "response_SerializeToArray (Rs_UnreadMsgCountResponse m) B data =
     BaseTeamTalkPDU_SerializeToArray UnreadMsgCountResponse_SerializeToByteStream B m data"
| "response_SerializeToArray (Rs_UsersInfoResponse m) B data =
     BaseTeamTalkPDU_SerializeToArray UsersInfoResponse_SerializeToByteStream B m data"

subsection \<open>Whole packets\<close>

text \<open>The bytes of a packet, and the object a receiver of the same class ends up with.\<close>

primrec response_size :: "response \<Rightarrow> nat" where
  "response_size (Rs_AllUserResponse m) = fields_size (wire_fields AllUserResponse_fields m)"
| "response_size (Rs_DepartmentResponse m) = fields_size (wire_fields DepartmentResponse_fields m)"
| "response_size (Rs_FileHasOfflineRes m) = fields_size (wire_fields FileHasOfflineRes_fields m)"
| "response_size (Rs_FriendListResponse m) = fields_size (wire_fields FriendListResponse_fields m)"
| "response_size (Rs_GroupChangeMemberResponse m) = fields_size (wire_fields GroupChangeMemberResponse_fields m)"
| "response_size (Rs_GroupCreateTmpGroupResponse m) = fields_size (wire_fields GroupCreateTmpGroupResponse_fields m)"
| "response_size (Rs_GroupDialogListResponse m) = fields_size (wire_fields GroupDialogListResponse_fields m)"
| "response_size (Rs_GroupListResponse m) = fields_size (wire_fields GroupListResponse_fields m)"
| "response_size (Rs_GroupUnreadMsgCountResponse m) = fields_size (wire_fields GroupUnreadMsgCountResponse_fields m)"
| "response_size (Rs_GroupMsgListResponse m) = fields_size (wire_fields GroupMsgListResponse_fields m)"
| "response_size (Rs_GroupUserListResponse m) = fields_size (wire_fields GroupUserListResponse_fields m)"
| "response_size (Rs_MsgListResponse m) = fields_size (wire_fields MsgListResponse_fields m)"
| "response_size (Rs_DBWriteResponse m) = fields_size (wire_fields DBWriteResponse_fields m)"
| "response_size (Rs_RemoveSessionResponse m) = fields_size (wire_fields RemoveSessionResponse_fields m)"
| "response_size (Rs_UnreadMsgCountResponse m) = fields_size (wire_fields UnreadMsgCountResponse_fields m)"
| "response_size (Rs_UsersInfoResponse m) = fields_size (wire_fields UsersInfoResponse_fields m)"

primrec response_received :: "response \<Rightarrow> raw_responses \<Rightarrow> response" where
  "response_received (Rs_AllUserResponse m) raw = Rs_AllUserResponse (received (AllUserResponse_ctor (raw_AllUserResponse raw)) (AllUserResponse_canon (AllUserResponse_ctor (raw_AllUserResponse raw)) m))"
| "response_received (Rs_DepartmentResponse m) raw = Rs_DepartmentResponse (received (DepartmentResponse_ctor (raw_DepartmentResponse raw)) m)"
| "response_received (Rs_FileHasOfflineRes m) raw = Rs_FileHasOfflineRes (received (FileHasOfflineRes_ctor (raw_FileHasOfflineRes raw)) m)"
| "response_received (Rs_FriendListResponse m) raw = Rs_FriendListResponse (received (FriendListResponse_ctor (raw_FriendListResponse raw)) m)"
| "response_received (Rs_GroupChangeMemberResponse m) raw = Rs_GroupChangeMemberResponse (received (GroupChangeMemberResponse_ctor (raw_GroupChangeMemberResponse raw)) m)"
| "response_received (Rs_GroupCreateTmpGroupResponse m) raw = Rs_GroupCreateTmpGroupResponse (received (GroupCreateTmpGroupResponse_ctor (raw_GroupCreateTmpGroupResponse raw)) m)"
| "response_received (Rs_GroupDialogListResponse m) raw = Rs_GroupDialogListResponse (received (GroupDialogListResponse_ctor (raw_GroupDialogListResponse raw)) m)"
| "response_received (Rs_GroupListResponse m) raw = Rs_GroupListResponse (received (GroupListResponse_ctor (raw_GroupListResponse raw)) (GroupListResponse_canon (GroupListResponse_ctor (raw_GroupListResponse raw)) m))"
| "response_received (Rs_GroupUnreadMsgCountResponse m) raw = Rs_GroupUnreadMsgCountResponse (received (GroupUnreadMsgCountResponse_ctor (raw_GroupUnreadMsgCountResponse raw)) m)"
| "response_received (Rs_GroupMsgListResponse m) raw = Rs_GroupMsgListResponse (received (GroupMsgListResponse_ctor (raw_GroupMsgListResponse raw)) m)"
| "response_received (Rs_GroupUserListResponse m) raw = Rs_GroupUserListResponse (received (GroupUserListResponse_ctor (raw_GroupUserListResponse raw)) m)"
| "response_received (Rs_MsgListResponse m) raw = Rs_MsgListResponse (received (MsgListResponse_ctor (raw_MsgListResponse raw)) m)"
| "response_received (Rs_DBWriteResponse m) raw = Rs_DBWriteResponse (received (DBWriteResponse_ctor (raw_DBWriteResponse raw)) m)"
| "response_received (Rs_RemoveSessionResponse m) raw = Rs_RemoveSessionResponse (received (RemoveSessionResponse_ctor (raw_RemoveSessionResponse raw)) m)"
| "response_received (Rs_UnreadMsgCountResponse m) raw = Rs_UnreadMsgCountResponse (received (UnreadMsgCountResponse_ctor (raw_UnreadMsgCountResponse raw)) m)"
| "response_received (Rs_UsersInfoResponse m) raw = Rs_UsersInfoResponse (received (UsersInfoResponse_ctor (raw_UsersInfoResponse raw)) (UsersInfoResponse_canon (UsersInfoResponse_ctor (raw_UsersInfoResponse raw)) m))"

text \<open>The message type and the kind of attach data the constructors set.\<close>

primrec response_class_kind :: "response_class \<Rightarrow> u32 \<times> AttachDataType" where
  "response_class_kind Class_AllUserResponse = (MESSAGE_ALL_USER_RESPONSE, kAttachDataTypeDB)"
| "response_class_kind Class_DepartmentResponse = (MESSAGE_DEPARTMENT_RESPONSE, kAttachDataTypeDB)"
| "response_class_kind Class_FileHasOfflineRes = (MESSAGE_FILE_HAS_OFFLINE_RES, kAttachDataTypeDB)"
| "response_class_kind Class_FriendListResponse = (MESSAGE_FRIEND_LIST_RESPONSE, kAttachDataTypeDB)"
| "response_class_kind Class_GroupChangeMemberResponse = (MESSAGE_GROUP_CHANGE_MEMBER_RESPONSE, kAttachDataTypeDB)"
| "response_class_kind Class_GroupCreateTmpGroupResponse = (MESSAGE_GROUP_CREATE_TMP_GROUP_RESPONSE, kAttachDataTypeDB)"
| "response_class_kind Class_GroupDialogListResponse = (MESSAGE_GROUP_DIALOG_LIST_RESPONSE, kAttachDataTypeDB)"
| "response_class_kind Class_GroupListResponse = (MESSAGE_GROUP_LIST_RESPONSE, kAttachDataTypeDB)"
| "response_class_kind Class_GroupUnreadMsgCountResponse = (MESSAGE_GROUP_UNREAD_MSG_COUNT_RESPONSE, kAttachDataTypeDB)"
| "response_class_kind Class_GroupMsgListResponse = (MESSAGE_GROUP_MSG_LIST_RESPONSE, kAttachDataTypeDB)"
| "response_class_kind Class_GroupUserListResponse = (MESSAGE_GROUP_USER_LIST_RESPONSE, kAttachDataTypeDB)"
| "response_class_kind Class_MsgListResponse = (MESSAGE_MSG_LIST_RESPONSE, kAttachDataTypeDB)"
| "response_class_kind Class_DBWriteResponse = (MESSAGE_DB_WRITE_RESPONSE, kAttachDataTypeNull)"
| "response_class_kind Class_RemoveSessionResponse = (MESSAGE_REMOVE_SESSION_RESPONSE, kAttachDataTypeDB)"
| "response_class_kind Class_UnreadMsgCountResponse = (MESSAGE_UNREAD_MSG_COUNT_RESPONSE, kAttachDataTypeDB)"
| "response_class_kind Class_UsersInfoResponse = (MESSAGE_USERS_INFO_RESPONSE, kAttachDataTypeDB)"

definition response_ok :: "response \<Rightarrow> bool" where
  "response_ok m \<longleftrightarrow> pdu_kind (response_base m) = response_class_kind (response_class_of m)"

subsection \<open>Facts\<close>

lemma AllUserResponse_keeps_kind: "pdu_kind (snd (BaseTeamTalkPDU_ParseFromArray
    AllUserResponse_ParseFromByteStream B m data)) = pdu_kind m"
  by (rule parse_keeps_kind, rule AllUserResponse_ParseFromByteStream_def)
    (simp add: keeps_intros pdu_kind_def)

lemma DepartmentResponse_keeps_kind: "pdu_kind (snd (BaseTeamTalkPDU_ParseFromArray
    DepartmentResponse_ParseFromByteStream B m data)) = pdu_kind m"
  by (rule parse_keeps_kind, rule DepartmentResponse_ParseFromByteStream_def)
    (simp add: keeps_intros pdu_kind_def)

lemma FileHasOfflineRes_keeps_kind: "pdu_kind (snd (BaseTeamTalkPDU_ParseFromArray
    FileHasOfflineRes_ParseFromByteStream B m data)) = pdu_kind m"
  by (rule parse_keeps_kind, rule FileHasOfflineRes_ParseFromByteStream_def)
    (simp add: keeps_intros pdu_kind_def)

lemma FriendListResponse_keeps_kind: "pdu_kind (snd (BaseTeamTalkPDU_ParseFromArray
    FriendListResponse_ParseFromByteStream B m data)) = pdu_kind m"
  by (rule parse_keeps_kind, rule FriendListResponse_ParseFromByteStream_def)
    (simp add: keeps_intros pdu_kind_def)

lemma GroupChangeMemberResponse_keeps_kind: "pdu_kind (snd (BaseTeamTalkPDU_ParseFromArray
    GroupChangeMemberResponse_ParseFromByteStream B m data)) = pdu_kind m"
  by (rule parse_keeps_kind, rule GroupChangeMemberResponse_ParseFromByteStream_def)
    (simp add: keeps_intros pdu_kind_def)

lemma GroupCreateTmpGroupResponse_keeps_kind: "pdu_kind (snd (BaseTeamTalkPDU_ParseFromArray
    GroupCreateTmpGroupResponse_ParseFromByteStream B m data)) = pdu_kind m"
  by (rule parse_keeps_kind, rule GroupCreateTmpGroupResponse_ParseFromByteStream_def)
    (simp add: keeps_intros pdu_kind_def)

lemma GroupDialogListResponse_keeps_kind: "pdu_kind (snd (BaseTeamTalkPDU_ParseFromArray
    GroupDialogListResponse_ParseFromByteStream B m data)) = pdu_kind m"
  by (rule parse_keeps_kind, rule GroupDialogListResponse_ParseFromByteStream_def)
    (simp add: keeps_intros pdu_kind_def)

lemma GroupListResponse_keeps_kind: "pdu_kind (snd (BaseTeamTalkPDU_ParseFromArray
    GroupListResponse_ParseFromByteStream B m data)) = pdu_kind m"
  by (rule parse_keeps_kind, rule GroupListResponse_ParseFromByteStream_def)
    (simp add: keeps_intros pdu_kind_def)

lemma GroupUnreadMsgCountResponse_keeps_kind: "pdu_kind (snd (BaseTeamTalkPDU_ParseFromArray
    GroupUnreadMsgCountResponse_ParseFromByteStream B m data)) = pdu_kind m"
  by (rule parse_keeps_kind, rule GroupUnreadMsgCountResponse_ParseFromByteStream_def)
    (simp add: keeps_intros pdu_kind_def)

lemma GroupMsgListResponse_keeps_kind: "pdu_kind (snd (BaseTeamTalkPDU_ParseFromArray
    GroupMsgListResponse_ParseFromByteStream B m data)) = pdu_kind m"
  by (rule parse_keeps_kind, rule GroupMsgListResponse_ParseFromByteStream_def)
    (simp add: keeps_intros pdu_kind_def)

lemma GroupUserListResponse_keeps_kind: "pdu_kind (snd (BaseTeamTalkPDU_ParseFromArray
    GroupUserListResponse_ParseFromByteStream B m data)) = pdu_kind m"
  by (rule parse_keeps_kind, rule GroupUserListResponse_ParseFromByteStream_def)
    (simp add: keeps_intros pdu_kind_def)

lemma MsgListResponse_keeps_kind: "pdu_kind (snd (BaseTeamTalkPDU_ParseFromArray
    MsgListResponse_ParseFromByteStream B m data)) = pdu_kind m"
  by (rule parse_keeps_kind, rule MsgListResponse_ParseFromByteStream_def)
    (simp add: keeps_intros pdu_kind_def)

lemma DBWriteResponse_keeps_kind: "pdu_kind (snd (BaseTeamTalkPDU_ParseFromArray
    DBWriteResponse_ParseFromByteStream B m data)) = pdu_kind m"
  by (rule parse_keeps_kind, rule DBWriteResponse_ParseFromByteStream_def)
    (simp add: keeps_intros pdu_kind_def)

lemma RemoveSessionResponse_keeps_kind: "pdu_kind (snd (BaseTeamTalkPDU_ParseFromArray
    RemoveSessionResponse_ParseFromByteStream B m data)) = pdu_kind m"
  by (rule parse_keeps_kind, rule RemoveSessionResponse_ParseFromByteStream_def)
    (simp add: keeps_intros pdu_kind_def)

lemma UnreadMsgCountResponse_keeps_kind: "pdu_kind (snd (BaseTeamTalkPDU_ParseFromArray
    UnreadMsgCountResponse_ParseFromByteStream B m data)) = pdu_kind m"
  by (rule parse_keeps_kind, rule UnreadMsgCountResponse_ParseFromByteStream_def)
    (simp add: keeps_intros pdu_kind_def)

lemma UsersInfoResponse_keeps_kind: "pdu_kind (snd (BaseTeamTalkPDU_ParseFromArray
    UsersInfoResponse_ParseFromByteStream B m data)) = pdu_kind m"
  by (rule parse_keeps_kind, rule UsersInfoResponse_ParseFromByteStream_def)
    (simp add: keeps_intros pdu_kind_def)

lemmas response_keeps_kind =
  AllUserResponse_keeps_kind
  DepartmentResponse_keeps_kind
  FileHasOfflineRes_keeps_kind
  FriendListResponse_keeps_kind
  GroupChangeMemberResponse_keeps_kind
  GroupCreateTmpGroupResponse_keeps_kind
  GroupDialogListResponse_keeps_kind
  GroupListResponse_keeps_kind
  GroupUnreadMsgCountResponse_keeps_kind
  GroupMsgListResponse_keeps_kind
  GroupUserListResponse_keeps_kind
  MsgListResponse_keeps_kind
  DBWriteResponse_keeps_kind
  RemoveSessionResponse_keeps_kind
  UnreadMsgCountResponse_keeps_kind
  UsersInfoResponse_keeps_kind

lemma response_ctor_kind:
  "pdu_kind (AllUserResponse_ctor (raw_AllUserResponse raw)) = (MESSAGE_ALL_USER_RESPONSE, kAttachDataTypeDB)"
  "pdu_kind (DepartmentResponse_ctor (raw_DepartmentResponse raw)) = (MESSAGE_DEPARTMENT_RESPONSE, kAttachDataTypeDB)"
  "pdu_kind (FileHasOfflineRes_ctor (raw_FileHasOfflineRes raw)) = (MESSAGE_FILE_HAS_OFFLINE_RES, kAttachDataTypeDB)"
  "pdu_kind (FriendListResponse_ctor (raw_FriendListResponse raw)) = (MESSAGE_FRIEND_LIST_RESPONSE, kAttachDataTypeDB)"
  "pdu_kind (GroupChangeMemberResponse_ctor (raw_GroupChangeMemberResponse raw)) = (MESSAGE_GROUP_CHANGE_MEMBER_RESPONSE, kAttachDataTypeDB)"
  "pdu_kind (GroupCreateTmpGroupResponse_ctor (raw_GroupCreateTmpGroupResponse raw)) = (MESSAGE_GROUP_CREATE_TMP_GROUP_RESPONSE, kAttachDataTypeDB)"
  "pdu_kind (GroupDialogListResponse_ctor (raw_GroupDialogListResponse raw)) = (MESSAGE_GROUP_DIALOG_LIST_RESPONSE, kAttachDataTypeDB)"
  "pdu_kind (GroupListResponse_ctor (raw_GroupListResponse raw)) = (MESSAGE_GROUP_LIST_RESPONSE, kAttachDataTypeDB)"
  "pdu_kind (GroupUnreadMsgCountResponse_ctor (raw_GroupUnreadMsgCountResponse raw)) = (MESSAGE_GROUP_UNREAD_MSG_COUNT_RESPONSE, kAttachDataTypeDB)"
  "pdu_kind (GroupMsgListResponse_ctor (raw_GroupMsgListResponse raw)) = (MESSAGE_GROUP_MSG_LIST_RESPONSE, kAttachDataTypeDB)"
  "pdu_kind (GroupUserListResponse_ctor (raw_GroupUserListResponse raw)) = (MESSAGE_GROUP_USER_LIST_RESPONSE, kAttachDataTypeDB)"
  "pdu_kind (MsgListResponse_ctor (raw_MsgListResponse raw)) = (MESSAGE_MSG_LIST_RESPONSE, kAttachDataTypeDB)"
  "pdu_kind (DBWriteResponse_ctor (raw_DBWriteResponse raw)) = (MESSAGE_DB_WRITE_RESPONSE, kAttachDataTypeNull)"
  "pdu_kind (RemoveSessionResponse_ctor (raw_RemoveSessionResponse raw)) = (MESSAGE_REMOVE_SESSION_RESPONSE, kAttachDataTypeDB)"
  "pdu_kind (UnreadMsgCountResponse_ctor (raw_UnreadMsgCountResponse raw)) = (MESSAGE_UNREAD_MSG_COUNT_RESPONSE, kAttachDataTypeDB)"
  "pdu_kind (UsersInfoResponse_ctor (raw_UsersInfoResponse raw)) = (MESSAGE_USERS_INFO_RESPONSE, kAttachDataTypeDB)"
  by (simp_all add: pdu_kind_def BaseTeamTalkPDU_ctor_def
    AllUserResponse_ctor_def
    DepartmentResponse_ctor_def
    FileHasOfflineRes_ctor_def
    FriendListResponse_ctor_def
    GroupChangeMemberResponse_ctor_def
    GroupCreateTmpGroupResponse_ctor_def
    GroupDialogListResponse_ctor_def
    GroupListResponse_ctor_def
    GroupUnreadMsgCountResponse_ctor_def
    GroupMsgListResponse_ctor_def
    GroupUserListResponse_ctor_def
    MsgListResponse_ctor_def
    DBWriteResponse_ctor_def
    RemoveSessionResponse_ctor_def
    UnreadMsgCountResponse_ctor_def
    UsersInfoResponse_ctor_def)

lemma response_new_kind [simp]:
  "response_class_of (response_new c raw) = c"
  "pdu_kind (response_base (response_new c raw)) = response_class_kind c"
  by (cases c; simp)
    (cases c; simp add: response_ctor_kind)

lemma response_new_ok [simp]: "response_ok (response_new c raw)"
  by (simp add: response_ok_def)

text \<open>Parsing changes neither the class of an object nor its message type.\<close>

lemma response_parse_class: "response_class_of (snd (response_ParseFromArray m B data)) = response_class_of m"
  by (cases m) simp_all

lemma response_parse_kind:
  "pdu_kind (response_base (snd (response_ParseFromArray m B data))) = pdu_kind (response_base m)"
  by (cases m) (simp_all add: response_keeps_kind)

lemma response_parse_ok: "response_ok m \<Longrightarrow> response_ok (snd (response_ParseFromArray m B data))"
  by (simp add: response_ok_def response_parse_kind response_parse_class)

lemma response_kind_ctor:
  assumes "response_ok m"
  shows "attach_data_type (response_base m) = attach_data_type (response_base (response_new (response_class_of m) raw))"
proof -
  from assms have "pdu_kind (response_base m) = pdu_kind (response_base (response_new (response_class_of m) raw))"
    by (simp add: response_ok_def)
  then show ?thesis by (simp add: pdu_kind_def)
qed

lemma response_size_exact: "response_ByteSize m = of_nat (response_size m)"
  by (cases m) (simp_all add: AllUserResponse_pdu.bytesize_exact
      DepartmentResponse_pdu.bytesize_exact
      FileHasOfflineRes_pdu.bytesize_exact
      FriendListResponse_pdu.bytesize_exact
      GroupChangeMemberResponse_pdu.bytesize_exact
      GroupCreateTmpGroupResponse_pdu.bytesize_exact
      GroupDialogListResponse_pdu.bytesize_exact
      GroupListResponse_pdu.bytesize_exact
      GroupUnreadMsgCountResponse_pdu.bytesize_exact
      GroupMsgListResponse_pdu.bytesize_exact
      GroupUserListResponse_pdu.bytesize_exact
      MsgListResponse_pdu.bytesize_exact
      DBWriteResponse_pdu.bytesize_exact
      RemoveSessionResponse_pdu.bytesize_exact
      UnreadMsgCountResponse_pdu.bytesize_exact
      UsersInfoResponse_pdu.bytesize_exact del: of_nat_add)

text \<open>Round trip of whole packets, for every class.\<close>

lemma response_packets:
  assumes B: "byte_stream B cur W" and ok: "response_ok m"
    and sz: "response_size m < 2 ^ 32" and buf: "length data = unat (response_ByteSize m)"
  shows "\<exists>packet. response_SerializeToArray m B data = (True, packet) \<and>
    length packet = unat (response_ByteSize m) \<and>
    response_ParseFromArray (response_new (response_class_of m) raw) B packet = (True, response_received m raw) \<and>
    (\<forall>n < length packet.
       \<not> fst (response_ParseFromArray (response_new (response_class_of m) raw) B (take n packet)))"
proof (cases m)
  case (Rs_AllUserResponse x)
  with AllUserResponse_pdu.roundtrip [OF B, of x "raw_AllUserResponse raw" data] sz buf response_kind_ctor [OF ok, of raw]
  show ?thesis by (auto simp: base_pdu.defs)
next
  case (Rs_DepartmentResponse x)
  with DepartmentResponse_pdu.roundtrip [OF B, of x "raw_DepartmentResponse raw" data] sz buf response_kind_ctor [OF ok, of raw]
  show ?thesis by (auto simp: base_pdu.defs)
next
  case (Rs_FileHasOfflineRes x)
  with FileHasOfflineRes_pdu.roundtrip [OF B, of x "raw_FileHasOfflineRes raw" data] sz buf response_kind_ctor [OF ok, of raw]
  show ?thesis by (auto simp: base_pdu.defs)
next
  case (Rs_FriendListResponse x)
  with FriendListResponse_pdu.roundtrip [OF B, of x "raw_FriendListResponse raw" data] sz buf response_kind_ctor [OF ok, of raw]
  show ?thesis by (auto simp: base_pdu.defs)
next
  case (Rs_GroupChangeMemberResponse x)
  with GroupChangeMemberResponse_pdu.roundtrip [OF B, of x "raw_GroupChangeMemberResponse raw" data] sz buf response_kind_ctor [OF ok, of raw]
  show ?thesis by (auto simp: base_pdu.defs)
next
  case (Rs_GroupCreateTmpGroupResponse x)
  with GroupCreateTmpGroupResponse_pdu.roundtrip [OF B, of x "raw_GroupCreateTmpGroupResponse raw" data] sz buf response_kind_ctor [OF ok, of raw]
  show ?thesis by (auto simp: base_pdu.defs)
next
  case (Rs_GroupDialogListResponse x)
  with GroupDialogListResponse_pdu.roundtrip [OF B, of x "raw_GroupDialogListResponse raw" data] sz buf response_kind_ctor [OF ok, of raw]
  show ?thesis by (auto simp: base_pdu.defs)
next
  case (Rs_GroupListResponse x)
  with GroupListResponse_pdu.roundtrip [OF B, of x "raw_GroupListResponse raw" data] sz buf response_kind_ctor [OF ok, of raw]
  show ?thesis by (auto simp: base_pdu.defs)
next
  case (Rs_GroupUnreadMsgCountResponse x)
  with GroupUnreadMsgCountResponse_pdu.roundtrip [OF B, of x "raw_GroupUnreadMsgCountResponse raw" data] sz buf response_kind_ctor [OF ok, of raw]
  show ?thesis by (auto simp: base_pdu.defs)
next
  case (Rs_GroupMsgListResponse x)
  with GroupMsgListResponse_pdu.roundtrip [OF B, of x "raw_GroupMsgListResponse raw" data] sz buf response_kind_ctor [OF ok, of raw]
  show ?thesis by (auto simp: base_pdu.defs)
next
  case (Rs_GroupUserListResponse x)
  with GroupUserListResponse_pdu.roundtrip [OF B, of x "raw_GroupUserListResponse raw" data] sz buf response_kind_ctor [OF ok, of raw]
  show ?thesis by (auto simp: base_pdu.defs)
next
  case (Rs_MsgListResponse x)
  with MsgListResponse_pdu.roundtrip [OF B, of x "raw_MsgListResponse raw" data] sz buf response_kind_ctor [OF ok, of raw]
  show ?thesis by (auto simp: base_pdu.defs)
next
  case (Rs_DBWriteResponse x)
  with DBWriteResponse_pdu.roundtrip [OF B, of x "raw_DBWriteResponse raw" data] sz buf response_kind_ctor [OF ok, of raw]
  show ?thesis by (auto simp: base_pdu.defs)
next
  case (Rs_RemoveSessionResponse x)
  with RemoveSessionResponse_pdu.roundtrip [OF B, of x "raw_RemoveSessionResponse raw" data] sz buf response_kind_ctor [OF ok, of raw]
  show ?thesis by (auto simp: base_pdu.defs)
next
  case (Rs_UnreadMsgCountResponse x)
  with UnreadMsgCountResponse_pdu.roundtrip [OF B, of x "raw_UnreadMsgCountResponse raw" data] sz buf response_kind_ctor [OF ok, of raw]
  show ?thesis by (auto simp: base_pdu.defs)
next
  case (Rs_UsersInfoResponse x)
  with UsersInfoResponse_pdu.roundtrip [OF B, of x "raw_UsersInfoResponse raw" data] sz buf response_kind_ctor [OF ok, of raw]
  show ?thesis by (auto simp: base_pdu.defs)
qed

end
