(* ===== verification/Pdu_Validate.thy ===== *)
theory Pdu_Validate
  imports Pdu_Types Base_Data
begin

text \<open>
  \<^verbatim>\<open>ValidateResponse\<close> (\<^verbatim>\<open>proto/validate_response.h\<close>, \<^verbatim>\<open>.cc\<close>), the one message whose shape depends
  on a member: it carries a user record or not. The pointer \<^verbatim>\<open>user_\<close> is an option, and
  dereferencing it when it is null is the result \<open>None\<close>. The class does not keep the subclass
  contract: its reader expects the user record exactly when its writer leaves it out.
\<close>

subsection \<open>The user record\<close>

definition validate_response_ByteSize :: "UserInfo \<Rightarrow> u32" where
  [pdu_defs]: "validate_response_ByteSize e =
     4 + SIZEOF_STRING (UserInfo.nick_name e) + SIZEOF_STRING (UserInfo.avatar_url e)
     + SIZEOF_STRING (UserInfo.title e) + SIZEOF_STRING (UserInfo.position e) + 4 + 4 + 4 + 4
     + SIZEOF_STRING (UserInfo.telphone e) + SIZEOF_STRING (UserInfo.email e)"

definition validate_response_ParseFromByteStream ::
  "'s bytestream \<Rightarrow> UserInfo \<Rightarrow> 's \<Rightarrow> bool \<times> UserInfo \<times> 's" where
  "validate_response_ParseFromByteStream B e s = read_ok B (steps [
     in32 B UserInfo.user_id UserInfo.user_id_update,
     in_str B UserInfo.nick_name UserInfo.nick_name_update,
     in_str B UserInfo.avatar_url UserInfo.avatar_url_update,
     in_str B UserInfo.title UserInfo.title_update,
     in_str B UserInfo.position UserInfo.position_update,
     in32 B UserInfo.role_status UserInfo.role_status_update,
     in32 B UserInfo.sex UserInfo.sex_update,
     in32 B UserInfo.depart_id UserInfo.depart_id_update,
     in32 B UserInfo.job_num UserInfo.job_num_update,
     in_str B UserInfo.telphone UserInfo.telphone_update,
     in_str B UserInfo.email UserInfo.email_update] (e, s))"

definition validate_response_SerializeToByteStream ::
  "'s bytestream \<Rightarrow> UserInfo \<Rightarrow> 's \<Rightarrow> bool \<times> 's" where
  [pdu_defs]: "validate_response_SerializeToByteStream B e s = write_ok B (steps [
     bs_put32 B (UserInfo.user_id e),
     out_str B (UserInfo.nick_name e),
     out_str B (UserInfo.avatar_url e),
     out_str B (UserInfo.title e),
     out_str B (UserInfo.position e),
     bs_put32 B (UserInfo.role_status e),
     bs_put32 B (UserInfo.sex e),
     bs_put32 B (UserInfo.depart_id e),
     bs_put32 B (UserInfo.job_num e),
     out_str B (UserInfo.telphone e),
     out_str B (UserInfo.email e)] s)"

definition validate_response_fields :: "UserInfo \<Rightarrow> field list" where
  [pdu_defs]: "validate_response_fields e =
     [F32 (UserInfo.user_id e), FStr (UserInfo.nick_name e), FStr (UserInfo.avatar_url e),
     FStr (UserInfo.title e), FStr (UserInfo.position e), F32 (UserInfo.role_status e),
     F32 (UserInfo.sex e), F32 (UserInfo.depart_id e), F32 (UserInfo.job_num e),
     FStr (UserInfo.telphone e), FStr (UserInfo.email e)]"

definition validate_response_canon :: "UserInfo \<Rightarrow> UserInfo" where
  [pdu_defs]: "validate_response_canon e = e\<lparr>UserInfo.name := '''', UserInfo.user_updated := 0\<rparr>"

lemma validate_response_reads:
  "reads B cur W (\<lambda>(e, s). snd (validate_response_ParseFromByteStream B e s))
    (validate_response_fields e) new_UserInfo (validate_response_canon e)"
  unfolding validate_response_ParseFromByteStream_def validate_response_fields_def
  by (rule reads_cong, rule reads_result, (rule reads_intros)+) (simp add: pdu_defs)

lemma validate_response_writes:
  "snd (validate_response_SerializeToByteStream B e s) = put_fields B (validate_response_fields e) s"
  by (simp add: pdu_defs)

lemma validate_response_size:
  "validate_response_ByteSize e = of_nat (fields_size (validate_response_fields e))"
  by (simp add: pdu_defs)

subsection \<open>The message\<close>

record ValidateResponse = base_pdu +
  user_name :: string
  result :: u32
  user :: "UserInfo option"

definition ValidateResponse_ctor :: "ValidateResponse \<Rightarrow> ValidateResponse" where
  [pdu_defs]: "ValidateResponse_ctor raw =
     (BaseTeamTalkPDU_ctor MESSAGE_VALIDATE_RESPONSE kAttachDataTypeDB raw)
       \<lparr>user_name := '''', user := None\<rparr>"

text \<open>\<^verbatim>\<open>mutable_user()\<close> allocates the user record when there is none.\<close>

definition ValidateResponse_mutable_user :: "ValidateResponse \<Rightarrow> UserInfo" where
  "ValidateResponse_mutable_user m = (case user m of None \<Rightarrow> new_UserInfo | Some u \<Rightarrow> u)"

definition ValidateResponse_ByteSize :: "ValidateResponse \<Rightarrow> u32" where
  "ValidateResponse_ByteSize m =
     (let sz = BaseTeamTalkPDU_ByteSize m;
          sz = sz + (SIZEOF_STRING (user_name m) + 4)
      in sz + (case user m of Some u \<Rightarrow> validate_response_ByteSize u | None \<Rightarrow> 0))"

definition ValidateResponse_ParseFromByteStream ::
  "'s bytestream \<Rightarrow> ValidateResponse \<Rightarrow> 's \<Rightarrow> bool \<times> ValidateResponse \<times> 's" where
  "ValidateResponse_ParseFromByteStream B m s =
     (let (m, s) = steps [in_str B user_name user_name_update, in32 B result result_update] (m, s);
          (m, s) =
            (if result m \<noteq> 0
             then let (_, u, s) =
                    validate_response_ParseFromByteStream B (ValidateResponse_mutable_user m) s
                  in (m\<lparr>user := Some u\<rparr>, s)
             else (m, s))
      in read_ok B (m, s))"

definition ValidateResponse_SerializeToByteStream ::
  "'s bytestream \<Rightarrow> ValidateResponse \<Rightarrow> 's \<Rightarrow> (bool \<times> 's) option" where
  "ValidateResponse_SerializeToByteStream B m s =
     (let s = steps [out_str B (user_name m), bs_put32 B (result m)] s
      in if result m = 0
         then (case user m of
                 None \<Rightarrow> None
               | Some u \<Rightarrow> Some (write_ok B (snd (validate_response_SerializeToByteStream B u s))))
         else Some (write_ok B s))"

text \<open>The base class's \<^verbatim>\<open>SerializeToArray\<close> over this writer.\<close>

definition ValidateResponse_SerializeToArray ::
  "'s bytestream \<Rightarrow> ValidateResponse \<Rightarrow> byte list \<Rightarrow> (bool \<times> byte list) option" where
  "ValidateResponse_SerializeToArray B m data =
     (case ValidateResponse_SerializeToByteStream B m (bs_open B data) of
        None \<Rightarrow> None
      | Some r \<Rightarrow> Some (BaseTeamTalkPDU_SerializeToArray (\<lambda>_ _ _. r) B m data))"

subsection \<open>What the writer emits\<close>

definition ValidateResponse_fields :: "ValidateResponse \<Rightarrow> field list" where
  "ValidateResponse_fields m =
     [FStr (user_name m), F32 (result m)] @
     (if result m = 0
      then (case user m of None \<Rightarrow> [] | Some u \<Rightarrow> validate_response_fields u) else [])"

definition ValidateResponse_ok :: "ValidateResponse \<Rightarrow> bool" where
  "ValidateResponse_ok m \<longleftrightarrow> (result m = 0 \<longleftrightarrow> user m \<noteq> None)"

lemma ValidateResponse_writes:
  "ValidateResponse_SerializeToByteStream B m s =
     (if result m = 0 \<and> user m = None then None
      else Some (write_ok B (put_fields B (ValidateResponse_fields m) s)))"
  by (auto simp: ValidateResponse_SerializeToByteStream_def ValidateResponse_fields_def
      validate_response_writes split: option.splits)

lemma ValidateResponse_reads_head:
  "reads B cur W (steps [in_str B user_name user_name_update, in32 B result result_update])
     [FStr t, F32 w] m (m\<lparr>user_name := t, result := w\<rparr>)"
  by (rule reads_cong, (rule reads_intros)+) simp

text \<open>The byte size counts the user record whenever there is one, the writer emits it whenever
  the result is 0; they agree on the responses that have a user record exactly with result 0.\<close>

lemma ValidateResponse_size:
  assumes "ValidateResponse_ok m"
  shows "ValidateResponse_ByteSize m = of_nat (fields_size (wire_fields ValidateResponse_fields m))"
  using assms
  by (auto simp: ValidateResponse_ok_def ValidateResponse_ByteSize_def ValidateResponse_fields_def
      wire_fields_def HasAttachData_iff BaseTeamTalkPDU_ByteSize_def SIZEOF_STRING_def
      validate_response_size split: option.splits)

text \<open>Such a response is serialised into a buffer of just its byte size.\<close>

lemma ValidateResponse_packet:
  assumes B: "byte_stream B cur W" and ok: "ValidateResponse_ok m"
    and sz: "fields_size (wire_fields ValidateResponse_fields m) < 2 ^ 32"
    and buf: "length data = unat (ValidateResponse_ByteSize m)"
  shows "ValidateResponse_SerializeToArray B m data =
    Some (True, encs W (wire_fields ValidateResponse_fields m))"
proof -
  let ?F = "wire_fields ValidateResponse_fields m" and ?f = "ValidateResponse_fields m"
  from buf sz have len: "length data = fields_size ?F"
    by (simp add: ValidateResponse_size [OF ok] unat_of_nat_u32)
  then have "fields_size ?f \<le> length data" by (simp add: wire_fields_def)
  then have "\<not> bs_fail B (put_fields B ?f (bs_open B data))"
    "\<not> bs_fail B (put_fields B ?F (bs_open B data))"
    "bs_bytes B (put_fields B ?F (bs_open B data)) = encs W ?F"
    using put_fields_fit [OF B bs_openD(1) [OF B], of data ?f] len
      put_fields_fit [OF B bs_openD(1) [OF B], of data ?F] bs_openD [OF B, of data]
    by simp_all
  then show ?thesis
    using ok by (auto simp: ValidateResponse_SerializeToArray_def ValidateResponse_writes
        ValidateResponse_ok_def BaseTeamTalkPDU_SerializeToArray_def write_ok_def wire_fields_def Let_def)
qed

text \<open>Reading back what was written for a successful validation: the user record is left
  unread.\<close>

lemma ValidateResponse_read_success:
  assumes B: "byte_stream B cur W" and ok: "\<not> bs_fail B s"
    and pre: "prefix (encs W (ValidateResponse_fields m)) (unread B cur s)"
    and sz: "length (user_name m) < 2 ^ 32 - 8" and res: "result m = 0"
  obtains s' where "ValidateResponse_ParseFromByteStream B n s =
      (True, n\<lparr>user_name := user_name m, result := 0\<rparr>, s')" "\<not> bs_fail B s'"
    "cur s' = cur s + length (encs W [FStr (user_name m), F32 0])" "bs_bytes B s' = bs_bytes B s"
proof -
  let ?h = "[FStr (user_name m), F32 0]"
  let ?p = "steps [in_str B user_name user_name_update, in32 B result result_update]"
  let ?n = "n\<lparr>user_name := user_name m, result := 0\<rparr>"
  have "prefix (encs W ?h) (unread B cur s)"
    using pre res by (auto simp: ValidateResponse_fields_def prefix_def)
  moreover have "consumes B cur W ?p ?h n ?n"
    using ValidateResponse_reads_head [of B cur W "user_name m" 0 n] B sz by (simp add: reads_def)
  ultimately obtain s' where s': "?p (n, s) = (?n, s')" "\<not> bs_fail B s'"
    "cur s' = cur s + length (encs W ?h)" "bs_bytes B s' = bs_bytes B s"
    using ok by (auto elim: consumes_prefixE)
  then have "ValidateResponse_ParseFromByteStream B n s = (True, ?n, s')"
    unfolding ValidateResponse_ParseFromByteStream_def s'(1) by (simp add: read_ok_def)
  with s' show thesis by (intro that)
qed

end
