(* ===== verification/Pdu_Misc.thy ===== *)
theory Pdu_Misc
  imports Pdu_Types Base_Data
begin

text \<open>
  Messages that no handler of the server receives or sends.
\<close>

subsection \<open>\<^verbatim>\<open>DBQueryRequest\<close>: \<^verbatim>\<open>proto/db_query_request.h\<close>, \<^verbatim>\<open>.cc\<close>\<close>

record DBQueryRequest = base_pdu +
  seq_no :: u32
  user_id :: u32
  query_data :: string

definition DBQueryRequest_ctor :: "DBQueryRequest \<Rightarrow> DBQueryRequest" where
  [pdu_defs]: "DBQueryRequest_ctor raw =
     (BaseTeamTalkPDU_ctor MESSAGE_DB_QUERY_REQUEST kAttachDataTypeDB raw)
       \<lparr>query_data := ''''\<rparr>"

definition DBQueryRequest_ByteSize :: "DBQueryRequest \<Rightarrow> u32" where
  [pdu_defs]: "DBQueryRequest_ByteSize m =
     BaseTeamTalkPDU_ByteSize m + 4 + 4 + SIZEOF_STRING (query_data m)"

definition DBQueryRequest_ParseFromByteStream ::
  "'s bytestream \<Rightarrow> DBQueryRequest \<Rightarrow> 's \<Rightarrow> bool \<times> DBQueryRequest \<times> 's" where
  "DBQueryRequest_ParseFromByteStream B m s = read_ok B (steps [
     in32 B seq_no seq_no_update,
     in32 B user_id user_id_update,
     in_str B query_data query_data_update] (m, s))"

definition DBQueryRequest_SerializeToByteStream ::
  "'s bytestream \<Rightarrow> DBQueryRequest \<Rightarrow> 's \<Rightarrow> bool \<times> 's" where
  [pdu_defs]: "DBQueryRequest_SerializeToByteStream B m s = write_ok B (steps [
     bs_put32 B (seq_no m),
     bs_put32 B (user_id m),
     out_str B (query_data m)] s)"

definition DBQueryRequest_fields :: "DBQueryRequest \<Rightarrow> field list" where
  [pdu_defs, fields_defs]: "DBQueryRequest_fields m =
     [F32 (seq_no m), F32 (user_id m), FStr (query_data m)]"

interpretation DBQueryRequest_pdu: teamtalk_pdu DBQueryRequest_ctor
  DBQueryRequest_ParseFromByteStream DBQueryRequest_SerializeToByteStream
  DBQueryRequest_ByteSize DBQueryRequest_fields "\<lambda>n m. m"
  by (rule teamtalk_pduI, rule DBQueryRequest_ParseFromByteStream_def, unfold fields_defs,
      (rule reads_intros)+)
    (simp_all add: pdu_defs)

subsection \<open>\<^verbatim>\<open>DBQueryResponse\<close>: \<^verbatim>\<open>proto/db_query_response.h\<close>, \<^verbatim>\<open>.cc\<close>\<close>

record DBQueryResponse = base_pdu +
  seq_no :: u32
  user_id :: u32
  result_data :: string

definition DBQueryResponse_ctor :: "DBQueryResponse \<Rightarrow> DBQueryResponse" where
  [pdu_defs]: "DBQueryResponse_ctor raw =
     (BaseTeamTalkPDU_ctor MESSAGE_DB_QUERY_RESPONSE kAttachDataTypeDB raw)
       \<lparr>result_data := ''''\<rparr>"

definition DBQueryResponse_ByteSize :: "DBQueryResponse \<Rightarrow> u32" where
  [pdu_defs]: "DBQueryResponse_ByteSize m =
     BaseTeamTalkPDU_ByteSize m + 4 + 4 + SIZEOF_STRING (result_data m)"

definition DBQueryResponse_ParseFromByteStream ::
  "'s bytestream \<Rightarrow> DBQueryResponse \<Rightarrow> 's \<Rightarrow> bool \<times> DBQueryResponse \<times> 's" where
  "DBQueryResponse_ParseFromByteStream B m s = read_ok B (steps [
     in32 B seq_no seq_no_update,
     in32 B user_id user_id_update,
     in_str B result_data result_data_update] (m, s))"

definition DBQueryResponse_SerializeToByteStream ::
  "'s bytestream \<Rightarrow> DBQueryResponse \<Rightarrow> 's \<Rightarrow> bool \<times> 's" where
  [pdu_defs]: "DBQueryResponse_SerializeToByteStream B m s = write_ok B (steps [
     bs_put32 B (seq_no m),
     bs_put32 B (user_id m),
     out_str B (result_data m)] s)"

definition DBQueryResponse_fields :: "DBQueryResponse \<Rightarrow> field list" where
  [pdu_defs, fields_defs]: "DBQueryResponse_fields m =
     [F32 (seq_no m), F32 (user_id m), FStr (result_data m)]"

interpretation DBQueryResponse_pdu: teamtalk_pdu DBQueryResponse_ctor
  DBQueryResponse_ParseFromByteStream DBQueryResponse_SerializeToByteStream
  DBQueryResponse_ByteSize DBQueryResponse_fields "\<lambda>n m. m"
  by (rule teamtalk_pduI, rule DBQueryResponse_ParseFromByteStream_def, unfold fields_defs,
      (rule reads_intros)+)
    (simp_all add: pdu_defs)

subsection \<open>\<^verbatim>\<open>StopReceivePacket\<close>: \<^verbatim>\<open>proto/stop_receive_packet.h\<close>, \<^verbatim>\<open>.cc\<close>\<close>

record StopReceivePacket = base_pdu +
  code :: u32

definition StopReceivePacket_ctor :: "StopReceivePacket \<Rightarrow> StopReceivePacket" where
  [pdu_defs]: "StopReceivePacket_ctor raw =
     BaseTeamTalkPDU_ctor MESSAGE_STOP_RECEIVE_PACKET kAttachDataTypeNull raw"

definition StopReceivePacket_ByteSize :: "StopReceivePacket \<Rightarrow> u32" where
  [pdu_defs]: "StopReceivePacket_ByteSize m =
     BaseTeamTalkPDU_ByteSize m + 4"

definition StopReceivePacket_ParseFromByteStream ::
  "'s bytestream \<Rightarrow> StopReceivePacket \<Rightarrow> 's \<Rightarrow> bool \<times> StopReceivePacket \<times> 's" where
  "StopReceivePacket_ParseFromByteStream B m s = read_ok B (steps [
     in32 B code code_update] (m, s))"

definition StopReceivePacket_SerializeToByteStream ::
  "'s bytestream \<Rightarrow> StopReceivePacket \<Rightarrow> 's \<Rightarrow> bool \<times> 's" where
  [pdu_defs]: "StopReceivePacket_SerializeToByteStream B m s = write_ok B (steps [
     bs_put32 B (code m)] s)"

definition StopReceivePacket_fields :: "StopReceivePacket \<Rightarrow> field list" where
  [pdu_defs, fields_defs]: "StopReceivePacket_fields m =
     [F32 (code m)]"

interpretation StopReceivePacket_pdu: teamtalk_pdu StopReceivePacket_ctor
  StopReceivePacket_ParseFromByteStream StopReceivePacket_SerializeToByteStream
  StopReceivePacket_ByteSize StopReceivePacket_fields "\<lambda>n m. m"
  by (rule teamtalk_pduI, rule StopReceivePacket_ParseFromByteStream_def, unfold fields_defs,
      (rule reads_intros)+)
    (simp_all add: pdu_defs)

subsection \<open>\<^verbatim>\<open>UserActionLog\<close>: \<^verbatim>\<open>proto/user_action_log.h\<close>, \<^verbatim>\<open>.cc\<close>\<close>

record UserActionLog = base_pdu +
  source :: u32
  protocol :: u32
  ip :: string
  user_id :: u32
  action_type :: u32
  os_type :: string
  user_agent :: string
  flash_ver :: string
  client_ver :: string

definition UserActionLog_ctor :: "UserActionLog \<Rightarrow> UserActionLog" where
  [pdu_defs]: "UserActionLog_ctor raw =
     (BaseTeamTalkPDU_ctor MESSAGE_USER_ACTION_LOG kAttachDataTypeNull raw)
       \<lparr>ip := '''', os_type := '''', user_agent := '''', flash_ver := '''', client_ver := ''''\<rparr>"

definition UserActionLog_ByteSize :: "UserActionLog \<Rightarrow> u32" where
  [pdu_defs]: "UserActionLog_ByteSize m =
     BaseTeamTalkPDU_ByteSize m + 4 + 4 + SIZEOF_STRING (ip m) + 4 + 4
     + SIZEOF_STRING (os_type m) + SIZEOF_STRING (user_agent m) + SIZEOF_STRING (flash_ver m)
     + SIZEOF_STRING (client_ver m)"

definition UserActionLog_ParseFromByteStream ::
  "'s bytestream \<Rightarrow> UserActionLog \<Rightarrow> 's \<Rightarrow> bool \<times> UserActionLog \<times> 's" where
  "UserActionLog_ParseFromByteStream B m s = read_ok B (steps [
     in32 B source source_update,
     in32 B protocol protocol_update,
     in_str B ip ip_update,
     in32 B user_id user_id_update,
     in32 B action_type action_type_update,
     in_str B os_type os_type_update,
     in_str B user_agent user_agent_update,
     in_str B flash_ver flash_ver_update,
     in_str B client_ver client_ver_update] (m, s))"

definition UserActionLog_SerializeToByteStream ::
  "'s bytestream \<Rightarrow> UserActionLog \<Rightarrow> 's \<Rightarrow> bool \<times> 's" where
  [pdu_defs]: "UserActionLog_SerializeToByteStream B m s = write_ok B (steps [
     bs_put32 B (source m),
     bs_put32 B (protocol m),
     out_str B (ip m),
     bs_put32 B (user_id m),
     bs_put32 B (action_type m),
     out_str B (os_type m),
     out_str B (user_agent m),
     out_str B (flash_ver m),
     out_str B (client_ver m)] s)"

definition UserActionLog_fields :: "UserActionLog \<Rightarrow> field list" where
  [pdu_defs, fields_defs]: "UserActionLog_fields m =
     [F32 (source m), F32 (protocol m), FStr (ip m), F32 (user_id m), F32 (action_type m),
     FStr (os_type m), FStr (user_agent m), FStr (flash_ver m), FStr (client_ver m)]"

interpretation UserActionLog_pdu: teamtalk_pdu UserActionLog_ctor
  UserActionLog_ParseFromByteStream UserActionLog_SerializeToByteStream
  UserActionLog_ByteSize UserActionLog_fields "\<lambda>n m. m"
  by (rule teamtalk_pduI, rule UserActionLog_ParseFromByteStream_def, unfold fields_defs,
      (rule reads_intros)+)
    (simp_all add: pdu_defs)

end
