(* ===== verification/Attach_Data.thy ===== *)
theory Attach_Data
  imports Base_Pdu
begin

text \<open>
  Attach data, the opaque context a front server puts at the end of a request and gets back with
  the response (\<^verbatim>\<open>proto/attach_data.h\<close>, \<^verbatim>\<open>.cc\<close>). The three classes are one record; the member
  \<^verbatim>\<open>attach_data_type_\<close>, which each constructor sets to the class's own value, selects the
  overriding functions.
\<close>

subsection \<open>State\<close>

record BaseAttachData =
  ad_type :: AttachDataType
  attach_data_len :: u32
  type_id :: u32
  handle :: u32
  service_type :: u32
  pdu_data :: string

text \<open>\<^verbatim>\<open>CreateAttachData\<close>: the constructors set the type and the length; the other numbers have
  whatever value the memory \<open>raw\<close> held.\<close>

definition CreateAttachData :: "AttachDataType \<Rightarrow> BaseAttachData \<Rightarrow> BaseAttachData" where
  "CreateAttachData t raw = raw\<lparr>ad_type := t, attach_data_len := 0, pdu_data := ''''\<rparr>"

definition AttachDataInitialize ::
  "u32 \<Rightarrow> u32 \<Rightarrow> u32 \<Rightarrow> BaseAttachData \<Rightarrow> BaseAttachData" where
  "AttachDataInitialize ty h sv a = a\<lparr>type_id := ty, handle := h, service_type := sv\<rparr>"

subsection \<open>Operations\<close>

definition AttachData_CopyFrom ::
  "BaseAttachData \<Rightarrow> BaseAttachData \<Rightarrow> bool \<times> BaseAttachData" where
  "AttachData_CopyFrom other a =
     (if ad_type a \<noteq> ad_type other then (False, a)
      else (True, a\<lparr>type_id := type_id other, handle := handle other,
                   service_type := service_type other, pdu_data := pdu_data other\<rparr>))"

definition AttachData_CopyFrom_ptr ::
  "BaseAttachData option \<Rightarrow> BaseAttachData \<Rightarrow> bool \<times> BaseAttachData" where
  "AttachData_CopyFrom_ptr other a =
     (case other of None \<Rightarrow> (False, a) | Some b \<Rightarrow> AttachData_CopyFrom b a)"

text \<open>The payload, as the virtual accessors give it. Those of \<^verbatim>\<open>DbAttachData\<close>, a class that does not
  use it, report an error first: the first result says so.\<close>

definition AttachData_GetPduData :: "BaseAttachData \<Rightarrow> bool \<times> string" where
  "AttachData_GetPduData a = (ad_type a = kAttachDataTypeDB, pdu_data a)"

definition AttachData_MutablePduData ::
  "(string \<Rightarrow> string) \<Rightarrow> BaseAttachData \<Rightarrow> bool \<times> BaseAttachData" where
  "AttachData_MutablePduData f a = (ad_type a = kAttachDataTypeDB, a\<lparr>pdu_data := f (pdu_data a)\<rparr>)"

definition AttachData_SetPduData :: "string \<Rightarrow> BaseAttachData \<Rightarrow> bool \<times> BaseAttachData" where
  "AttachData_SetPduData val a = (ad_type a = kAttachDataTypeDB, a\<lparr>pdu_data := val\<rparr>)"

text \<open>The implementations of the base class and of \<^verbatim>\<open>PduAttachData\<close>, and the virtual functions.\<close>

definition BaseAttachData_ByteSize :: u32 where
  "BaseAttachData_ByteSize = 4 + 4 + 4 + 4"

definition AttachData_ByteSize :: "BaseAttachData \<Rightarrow> u32" where
  "AttachData_ByteSize a = (case ad_type a of
     kAttachDataTypeNull \<Rightarrow> 0
   | kAttachDataTypeDB \<Rightarrow> BaseAttachData_ByteSize
   | kAttachDataTypePDU \<Rightarrow> BaseAttachData_ByteSize + SIZEOF_STRING (pdu_data a))"

definition BaseAttachData_ParseFromByteStream ::
  "'s bytestream \<Rightarrow> BaseAttachData \<Rightarrow> 's \<Rightarrow> bool \<times> BaseAttachData \<times> 's" where
  "BaseAttachData_ParseFromByteStream B a s = read_ok B (steps [
     in32 B attach_data_len attach_data_len_update,
     in32 B type_id type_id_update,
     in32 B handle handle_update,
     in32 B service_type service_type_update] (a, s))"

definition PduAttachData_ParseFromByteStream ::
  "'s bytestream \<Rightarrow> BaseAttachData \<Rightarrow> 's \<Rightarrow> bool \<times> BaseAttachData \<times> 's" where
  "PduAttachData_ParseFromByteStream B a s =
     (let (result, a, s) = BaseAttachData_ParseFromByteStream B a s
      in if result
         then let (rc, d, s) = bs_gets B (pdu_data a) s in (0 = rc, a\<lparr>pdu_data := d\<rparr>, s)
         else (result, a, s))"

definition AttachData_ParseFromByteStream ::
  "'s bytestream \<Rightarrow> BaseAttachData \<Rightarrow> 's \<Rightarrow> bool \<times> BaseAttachData \<times> 's" where
  "AttachData_ParseFromByteStream B a s = (case ad_type a of
     kAttachDataTypeNull \<Rightarrow> (True, a, s)
   | kAttachDataTypeDB \<Rightarrow> BaseAttachData_ParseFromByteStream B a s
   | kAttachDataTypePDU \<Rightarrow> PduAttachData_ParseFromByteStream B a s)"

definition BaseAttachData_SerializeToByteStream ::
  "'s bytestream \<Rightarrow> BaseAttachData \<Rightarrow> 's \<Rightarrow> bool \<times> 's" where
  "BaseAttachData_SerializeToByteStream B a s = write_ok B (steps [
     bs_put32 B (AttachData_ByteSize a - 4),
     bs_put32 B (type_id a),
     bs_put32 B (handle a),
     bs_put32 B (service_type a)] s)"

definition PduAttachData_SerializeToByteStream ::
  "'s bytestream \<Rightarrow> BaseAttachData \<Rightarrow> 's \<Rightarrow> bool \<times> 's" where
  "PduAttachData_SerializeToByteStream B a s =
     (let (result, s) = BaseAttachData_SerializeToByteStream B a s
      in if result then let (rc, s) = bs_puts B (pdu_data a) s in (0 = rc, s) else (result, s))"

definition AttachData_SerializeToByteStream ::
  "'s bytestream \<Rightarrow> BaseAttachData \<Rightarrow> 's \<Rightarrow> bool \<times> 's" where
  "AttachData_SerializeToByteStream B a s = (case ad_type a of
     kAttachDataTypeNull \<Rightarrow> (True, s)
   | kAttachDataTypeDB \<Rightarrow> BaseAttachData_SerializeToByteStream B a s
   | kAttachDataTypePDU \<Rightarrow> PduAttachData_SerializeToByteStream B a s)"

subsection \<open>What crosses the wire\<close>

definition AttachData_fields :: "BaseAttachData \<Rightarrow> field list" where
  "AttachData_fields a = (if ad_type a = kAttachDataTypeNull then [] else
     [F32 (AttachData_ByteSize a - 4), F32 (type_id a), F32 (handle a), F32 (service_type a)] @
     (if ad_type a = kAttachDataTypePDU then [FStr (pdu_data a)] else []))"

text \<open>The object a reader of class \<open>ad_type a\<close> holds after it has read what \<open>a\<close> wrote.\<close>

definition AttachData_received :: "BaseAttachData \<Rightarrow> BaseAttachData \<Rightarrow> BaseAttachData" where
  "AttachData_received a0 a = (if ad_type a = kAttachDataTypeNull then a0 else
     a0\<lparr>attach_data_len := AttachData_ByteSize a - 4, type_id := type_id a, handle := handle a,
        service_type := service_type a,
        pdu_data := if ad_type a = kAttachDataTypePDU then pdu_data a else pdu_data a0\<rparr>)"

lemma AttachData_size: "AttachData_ByteSize a = of_nat (fields_size (AttachData_fields a))"
  by (cases "ad_type a")
    (simp_all add: AttachData_ByteSize_def AttachData_fields_def BaseAttachData_ByteSize_def
      SIZEOF_STRING_def)

lemma AttachData_writes:
  assumes "byte_stream B cur W" "\<not> bs_fail B s"
  shows "AttachData_SerializeToByteStream B a s = write_ok B (put_fields B (AttachData_fields a) s)
    \<or> bs_fail B (put_fields B (AttachData_fields a) s) \<and> \<not> fst (AttachData_SerializeToByteStream B a s)"
proof (cases "ad_type a")
  case kAttachDataTypePDU
  let ?h = "[F32 (AttachData_ByteSize a - 4), F32 (type_id a), F32 (handle a), F32 (service_type a)]"
  have base: "BaseAttachData_SerializeToByteStream B a s = write_ok B (put_fields B ?h s)"
    by (simp add: BaseAttachData_SerializeToByteStream_def)
  show ?thesis
  proof (cases "bs_fail B (put_fields B ?h s)")
    case True
    with put_fields_fails [OF assms(1) True, of "[FStr (pdu_data a)]"] show ?thesis
      by (simp add: AttachData_SerializeToByteStream_def PduAttachData_SerializeToByteStream_def
          kAttachDataTypePDU base write_ok_def AttachData_fields_def)
  next
    case False
    then show ?thesis
      using puts_code [OF assms(1), of "pdu_data a" "put_fields B ?h s"]
      by (auto simp: AttachData_SerializeToByteStream_def PduAttachData_SerializeToByteStream_def
          kAttachDataTypePDU base write_ok_def AttachData_fields_def Let_def case_prod_unfold)
  qed
qed (simp_all add: AttachData_SerializeToByteStream_def BaseAttachData_SerializeToByteStream_def
    AttachData_fields_def write_ok_def assms(2))

lemma BaseAttachData_reads:
  "reads B cur W (\<lambda>(a, s). snd (BaseAttachData_ParseFromByteStream B a s))
     [F32 l, F32 t, F32 h, F32 v] a
     (a\<lparr>attach_data_len := l, type_id := t, handle := h, service_type := v\<rparr>)"
  unfolding BaseAttachData_ParseFromByteStream_def
  by (rule reads_cong, rule reads_result, (rule reads_intros)+) simp

lemma BaseAttachData_read:
  assumes B: "byte_stream B cur W" and s: "\<not> bs_fail B s"
    and pre: "prefix (encs W [F32 l, F32 t, F32 h, F32 v] @ rest) (unread B cur s)"
  obtains s' where "BaseAttachData_ParseFromByteStream B a s =
      (True, a\<lparr>attach_data_len := l, type_id := t, handle := h, service_type := v\<rparr>, s')"
    "\<not> bs_fail B s'" "cur s' = cur s + length (encs W [F32 l, F32 t, F32 h, F32 v])"
    "bs_bytes B s' = bs_bytes B s"
proof -
  have "consumes B cur W (\<lambda>(a, s). snd (BaseAttachData_ParseFromByteStream B a s))
      [F32 l, F32 t, F32 h, F32 v] a
      (a\<lparr>attach_data_len := l, type_id := t, handle := h, service_type := v\<rparr>)"
    using BaseAttachData_reads [of B cur W l t h v a] B by (simp add: reads_def)
  then obtain s' where
    "snd (BaseAttachData_ParseFromByteStream B a s) =
      (a\<lparr>attach_data_len := l, type_id := t, handle := h, service_type := v\<rparr>, s')"
    "\<not> bs_fail B s'" "cur s' = cur s + length (encs W [F32 l, F32 t, F32 h, F32 v])"
    "bs_bytes B s' = bs_bytes B s"
    by (rule consumes_prefixE [OF _ s prefix_appendD1 [OF pre]]) (simp only: prod.case, blast intro: that)
  moreover from this have "fst (BaseAttachData_ParseFromByteStream B a s)"
    by (auto simp: BaseAttachData_ParseFromByteStream_def read_ok_def case_prod_unfold)
  ultimately show thesis by (intro that [of s']) (simp_all add: prod_eq_iff)
qed

text \<open>Reading back what an object of the same class has written.\<close>

lemma AttachData_reads:
  assumes B: "byte_stream B cur W" and ty: "ad_type a0 = ad_type a"
    and sz: "length (pdu_data a) < 2 ^ 32"
    and s: "\<not> bs_fail B s" "prefix (encs W (AttachData_fields a)) (unread B cur s)"
  shows "\<exists>s'. AttachData_ParseFromByteStream B a0 s = (True, AttachData_received a0 a, s') \<and>
    \<not> bs_fail B s' \<and> cur s' = cur s + length (encs W (AttachData_fields a)) \<and>
    bs_bytes B s' = bs_bytes B s"
proof (cases "ad_type a = kAttachDataTypeNull")
  case True
  then show ?thesis
    by (simp add: AttachData_ParseFromByteStream_def ty AttachData_fields_def AttachData_received_def s)
next
  case False
  let ?h = "[F32 (AttachData_ByteSize a - 4), F32 (type_id a), F32 (handle a), F32 (service_type a)]"
  let ?t = "if ad_type a = kAttachDataTypePDU then [FStr (pdu_data a)] else []"
  let ?a = "a0\<lparr>attach_data_len := AttachData_ByteSize a - 4, type_id := type_id a,
    handle := handle a, service_type := service_type a\<rparr>"
  have f: "AttachData_fields a = ?h @ ?t" using False by (simp add: AttachData_fields_def)
  with s have "prefix (encs W ?h @ encs W ?t) (unread B cur s)" by simp
  from BaseAttachData_read [OF B s(1) this]
  obtain s1 where s1: "BaseAttachData_ParseFromByteStream B a0 s = (True, ?a, s1)"
    "\<not> bs_fail B s1" "cur s1 = cur s + length (encs W ?h)" "bs_bytes B s1 = bs_bytes B s"
    by blast
  have pre: "prefix (encs W ?t) (unread B cur s1)"
    using s(2) by (auto simp: unread_advance [OF s1(3,4)] f prefix_def)
  show ?thesis
  proof (cases "ad_type a")
    case kAttachDataTypePDU
    with gets_law [OF B sz, of s1 "pdu_data ?a"] gets_code [OF B, of "pdu_data ?a" s1] s1(2) pre
    show ?thesis
      by (auto simp: AttachData_ParseFromByteStream_def PduAttachData_ParseFromByteStream_def ty
          s1 f AttachData_received_def read_law_def case_prod_unfold Let_def)
  next
    case kAttachDataTypeDB
    with s1 show ?thesis
      by (simp add: AttachData_ParseFromByteStream_def ty f AttachData_received_def)
  qed (use False in simp)
qed

end
