(* ===== verification/Array_Stream.thy ===== *)
theory Array_Stream
  imports Byte_Stream "HOL-Library.Char_ord"
begin

unbundle bit_operations_syntax

text \<open>
  A stream over a byte array that keeps the contract of \<^verbatim>\<open>net::ByteStream\<close>: big-endian numbers,
  strings with a \<^verbatim>\<open>uint32\<close> length in front. The model of the program does not use it; it shows
  that the requirements of \<open>byte_stream\<close> can be met, and witnesses run messages over it.
\<close>

record array_stream =
  as_bytes :: "byte list"
  as_pos :: nat
  as_fail :: bool

definition be16 :: "u16 \<Rightarrow> byte list" where
  "be16 w = [ucast (drop_bit 8 w), ucast w]"

definition of_be16 :: "byte list \<Rightarrow> u16" where
  "of_be16 bs = push_bit 8 (ucast (bs ! 0)) OR ucast (bs ! 1)"

definition be32 :: "u32 \<Rightarrow> byte list" where
  "be32 w = [ucast (drop_bit 24 w), ucast (drop_bit 16 w), ucast (drop_bit 8 w), ucast w]"

definition of_be32 :: "byte list \<Rightarrow> u32" where
  "of_be32 bs = push_bit 24 (ucast (bs ! 0)) OR push_bit 16 (ucast (bs ! 1)) OR
     push_bit 8 (ucast (bs ! 2)) OR ucast (bs ! 3)"

lemma of_be16_be16 [simp]: "of_be16 (be16 w) = w"
  by (rule bit_word_eqI) (auto simp: of_be16_def be16_def bit_simps)

lemma of_be32_be32 [simp]: "of_be32 (be32 w) = w"
proof (rule bit_word_eqI)
  fix n :: nat
  assume "n < LENGTH(32)"
  then consider "n < 8" | "8 \<le> n" "n < 16" | "16 \<le> n" "n < 24" | "24 \<le> n" "n < 32" by force
  then show "bit (of_be32 (be32 w)) n = bit w n"
    by cases (auto simp: of_be32_def be32_def bit_simps)
qed

definition bytes_of_string :: "string \<Rightarrow> byte list" where
  "bytes_of_string s = map (\<lambda>c. of_nat (of_char c)) s"

definition string_of_bytes :: "byte list \<Rightarrow> string" where
  "string_of_bytes bs = map (\<lambda>b. char_of (unat b)) bs"

lemma string_of_bytes_of_string [simp]: "string_of_bytes (bytes_of_string s) = s"
proof -
  have "char_of (unat (of_nat (of_char c) :: byte)) = c" for c
    by (simp add: unat_of_nat)
  then show ?thesis by (simp add: string_of_bytes_def bytes_of_string_def comp_def)
qed

fun array_wire :: wire where
  "array_wire (F8 w) = [w]"
| "array_wire (F16 w) = be16 w"
| "array_wire (F32 w) = be32 w"
| "array_wire (FStr s) = be32 (of_nat (length s)) @ bytes_of_string s"

definition as_put :: "byte list \<Rightarrow> array_stream \<Rightarrow> array_stream" where
  "as_put e s =
     (if \<not> as_fail s \<and> as_pos s + length e \<le> length (as_bytes s)
      then s\<lparr>as_bytes := take (as_pos s) (as_bytes s) @ e @ drop (as_pos s + length e) (as_bytes s),
             as_pos := as_pos s + length e\<rparr>
      else s\<lparr>as_fail := True\<rparr>)"

definition as_get :: "nat \<Rightarrow> (byte list \<Rightarrow> 'v) \<Rightarrow> 'v \<Rightarrow> array_stream \<Rightarrow> 'v \<times> array_stream" where
  "as_get n dec old s =
     (if \<not> as_fail s \<and> as_pos s + n \<le> length (as_bytes s)
      then (dec (take n (drop (as_pos s) (as_bytes s))), s\<lparr>as_pos := as_pos s + n\<rparr>)
      else (old, s\<lparr>as_fail := True\<rparr>))"

definition as_code :: "array_stream \<Rightarrow> int" where
  "as_code s = (if as_fail s then -1 else 0)"

definition as_gets :: "string \<Rightarrow> array_stream \<Rightarrow> int \<times> string \<times> array_stream" where
  "as_gets old s =
     (let (n, s) = as_get 4 of_be32 0 s;
          (v, s) = as_get (unat n) string_of_bytes old s
      in (as_code s, v, s))"

definition array_stream :: "array_stream bytestream" where
  "array_stream = \<lparr>
     bs_open = (\<lambda>d. \<lparr>as_bytes = d, as_pos = 0, as_fail = False\<rparr>),
     bs_bytes = as_bytes,
     bs_fail = as_fail,
     bs_put8 = (\<lambda>w. as_put [w]),
     bs_put16 = (\<lambda>w. as_put (be16 w)),
     bs_put32 = (\<lambda>w. as_put (be32 w)),
     bs_puts = (\<lambda>t s. let s = as_put (array_wire (FStr t)) s in (as_code s, s)),
     bs_get8 = as_get 1 hd,
     bs_get16 = as_get 2 of_be16,
     bs_get32 = as_get 4 of_be32,
     bs_gets = as_gets,
     uninit32 = 0\<rparr>"

lemma length_wire [simp]: "length (be16 w) = 2" "length (be32 v) = 4"
  "length (bytes_of_string s) = length s"
  by (simp_all add: be16_def be32_def bytes_of_string_def)

lemma as_put_law: "write_law array_stream as_pos e s (as_put e s)"
  by (auto simp: write_law_def as_put_def array_stream_def)

lemma as_get_hit:
  assumes "\<not> as_fail s" "drop (as_pos s) (as_bytes s) = e @ r" "as_pos s \<le> length (as_bytes s)"
  shows "as_get (length e) dec old s = (dec e, s\<lparr>as_pos := as_pos s + length e\<rparr>)"
proof -
  from assms(2) have "length (as_bytes s) - as_pos s = length e + length r"
    by (metis length_append length_drop)
  with assms(3) have "as_pos s + length e \<le> length (as_bytes s)" by linarith
  with assms(1,2) show ?thesis by (simp add: as_get_def)
qed

lemma as_get_miss:
  assumes "as_fail s \<or> length (drop (as_pos s) (as_bytes s)) < n"
  shows "as_get n dec old s = (old, s\<lparr>as_fail := True\<rparr>)"
  using assms by (auto simp: as_get_def)

lemma as_get_law:
  assumes "dec e = v" "length e = n" "0 < n"
  shows "read_law array_stream as_pos e v s (as_get n dec old s)"
proof -
  have 1: "as_get n dec old s = (v, s\<lparr>as_pos := as_pos s + n\<rparr>)"
    if "\<not> as_fail s" "prefix e (drop (as_pos s) (as_bytes s))"
  proof -
    from that(2) obtain r where r: "drop (as_pos s) (as_bytes s) = e @ r" by (auto simp: prefix_def)
    with assms(2,3) have "as_pos s \<le> length (as_bytes s)"
      by (metis append_is_Nil_conv drop_all length_0_conv less_numeral_extra(3) nat_le_linear)
    from as_get_hit [OF that(1) r this, of dec old] show ?thesis by (simp add: assms)
  qed
  have 2: "as_get n dec old s = (old, s\<lparr>as_fail := True\<rparr>)"
    if "strict_prefix (drop (as_pos s) (as_bytes s)) e"
    by (rule as_get_miss) (use prefix_length_less [OF that] assms(2) in simp)
  show ?thesis
    using 1 2 as_get_miss [of s n dec old]
    by (auto simp: read_law_def array_stream_def unread_def assms(2))
qed

lemma as_gets_hit:
  assumes s: "\<not> as_fail s" and t: "length t < 2 ^ 32"
    and r: "drop (as_pos s) (as_bytes s) = array_wire (FStr t) @ r"
  shows "as_gets old s = (0, t, s\<lparr>as_pos := as_pos s + (4 + length t)\<rparr>)"
proof -
  let ?n = "be32 (of_nat (length t))" and ?t = "bytes_of_string t"
  let ?s = "s\<lparr>as_pos := as_pos s + 4\<rparr>"
  from r have "length (as_bytes s) - as_pos s = 4 + length t + length r"
    by (metis (no_types) array_wire.simps(4) length_append length_drop length_wire(2,3))
  then have len: "as_pos s + 4 + length t \<le> length (as_bytes s)" by linarith
  have 1: "as_get 4 of_be32 0 s = (of_nat (length t), ?s)"
    using as_get_hit [OF s, of ?n "?t @ r" of_be32 0] r len by simp
  have "drop (as_pos s + 4) (as_bytes s) = drop 4 (drop (as_pos s) (as_bytes s))"
    by (simp add: add.commute)
  then have "drop (as_pos ?s) (as_bytes ?s) = ?t @ r" by (simp add: r)
  with as_get_hit [of ?s ?t r string_of_bytes old] s len
  have 2: "as_get (length t) string_of_bytes old ?s = (t, ?s\<lparr>as_pos := as_pos ?s + length t\<rparr>)"
    by simp
  show ?thesis
    by (simp add: as_gets_def 1 unat_of_nat_u32 [OF t] 2 as_code_def s add.assoc)
qed

lemma as_gets_miss:
  assumes t: "length t < 2 ^ 32"
    and cut: "as_fail s \<or> strict_prefix (drop (as_pos s) (as_bytes s)) (array_wire (FStr t))"
  shows "as_fail (snd (snd (as_gets old s)))"
proof (cases "as_fail s \<or> length (drop (as_pos s) (as_bytes s)) < 4")
  case True
  then show ?thesis by (simp add: as_gets_def as_get_miss)
next
  case False
  let ?u = "drop (as_pos s) (as_bytes s)" and ?n = "be32 (of_nat (length t))"
  from False cut have pre: "strict_prefix ?u (?n @ bytes_of_string t)" by simp
  from pre obtain c where c: "?u = ?n @ c" "strict_prefix c (bytes_of_string t)"
    by (rule strict_prefix_append_cases) (use False prefix_length_less [of ?u ?n] in auto)
  have "as_pos s \<le> length (as_bytes s)" using False by (auto simp: not_less)
  with as_get_hit [of s ?n c of_be32 0] c(1) False
  have "as_get 4 of_be32 0 s = (of_nat (length t), s\<lparr>as_pos := as_pos s + 4\<rparr>)" by simp
  moreover have "drop (as_pos s + 4) (as_bytes s) = drop 4 ?u" by (simp add: add.commute)
  then have "drop (as_pos s + 4) (as_bytes s) = c" by (simp add: c(1))
  moreover have "length c < length t" using prefix_length_less [OF c(2)] by simp
  ultimately show ?thesis
    by (simp add: as_gets_def unat_of_nat_u32 [OF t] as_get_miss del: length_drop)
qed

lemma as_gets_law:
  assumes "length t < 2 ^ 32"
  shows "read_law array_stream as_pos (array_wire (FStr t)) t s (snd (as_gets old s))"
proof -
  have "length (array_wire (FStr t)) = 4 + length t" by simp
  then show ?thesis
    using as_gets_hit [OF _ assms, of s] as_gets_miss [OF assms, of s]
    by (auto simp: read_law_def array_stream_def unread_def prefix_def simp del: array_wire.simps)
qed

theorem array_stream_byte_stream: "byte_stream array_stream as_pos array_wire"
  unfolding byte_stream_def
proof (intro conjI allI)
  fix f s
  show "length (array_wire f) = field_size f" by (cases f) auto
  have "put_field array_stream f s = as_put (array_wire f) s"
    by (cases f) (simp_all add: array_stream_def Let_def)
  then show "write_law array_stream as_pos (array_wire f) s (put_field array_stream f s)"
    by (simp only: as_put_law)
next
  fix w8 :: u8 and v8 s
  show "read_law array_stream as_pos (array_wire (F8 w8)) w8 s (bs_get8 array_stream v8 s)"
    using as_get_law [of hd "[w8]" w8 1] by (simp add: array_stream_def)
next
  fix w16 :: u16 and v16 s
  show "read_law array_stream as_pos (array_wire (F16 w16)) w16 s (bs_get16 array_stream v16 s)"
    using as_get_law [of of_be16 "be16 w16" w16 2] by (simp add: array_stream_def)
next
  fix w32 :: u32 and v32 s
  show "read_law array_stream as_pos (array_wire (F32 w32)) w32 s (bs_get32 array_stream v32 s)"
    using as_get_law [of of_be32 "be32 w32" w32 4] by (simp add: array_stream_def)
next
  fix t v s
  show "length t < 2 ^ 32 \<longrightarrow>
    read_law array_stream as_pos (array_wire (FStr t)) t s (snd (bs_gets array_stream v s))"
    using as_gets_law [of t s v] by (simp add: array_stream_def)
qed (auto simp: array_stream_def as_code_def as_gets_def Let_def case_prod_unfold)

end
