(* ===== verification/Wire_Properties.thy ===== *)
theory Wire_Properties
  imports Requests Responses Pdu_Validate Pdu_Misc Attach_Data Array_Stream
begin

text \<open>
  The properties of the messages as they cross the wire: whole packets of every request and
  response class, the byte sizes, and the three places where a reader does not get back what the
  writer put there. The witnesses run messages over \<open>array_stream\<close>.
\<close>

subsection \<open>Requests\<close>

text \<open>The members a class has of its own: those of the base class are set to fixed values.\<close>

definition own_members :: "'m base_pdu_scheme \<Rightarrow> 'm base_pdu_scheme" where
  "own_members m = m\<lparr>message_type := 0, reserved := 0, attach_data_type := kAttachDataTypeDB, attach_data := ''''\<rparr>"

primrec request_members :: "request \<Rightarrow> request" where
  "request_members (Rq_ValidateRequest m) = Rq_ValidateRequest (own_members m)"
| "request_members (Rq_FriendListRequest m) = Rq_FriendListRequest (own_members m)"
| "request_members (Rq_RemoveSessionRequest m) = Rq_RemoveSessionRequest (own_members m)"
| "request_members (Rq_DepartmentRequest m) = Rq_DepartmentRequest (own_members m)"
| "request_members (Rq_UsersInfoRequest m) = Rq_UsersInfoRequest (own_members m)"
| "request_members (Rq_AllUserRequest m) = Rq_AllUserRequest (own_members m)"
| "request_members (Rq_MsgData m) = Rq_MsgData (own_members m)"
| "request_members (Rq_UnreadMsgCountRequest m) = Rq_UnreadMsgCountRequest (own_members m)"
| "request_members (Rq_UnreadMsgRequest m) = Rq_UnreadMsgRequest (own_members m)"
| "request_members (Rq_MsgReadAck m) = Rq_MsgReadAck (own_members m)"
| "request_members (Rq_GroupListRequest m) = Rq_GroupListRequest (own_members m)"
| "request_members (Rq_GroupUserListRequest m) = Rq_GroupUserListRequest (own_members m)"
| "request_members (Rq_GroupUnreadMsgCountRequest m) = Rq_GroupUnreadMsgCountRequest (own_members m)"
| "request_members (Rq_GroupUnreadMsgRequest m) = Rq_GroupUnreadMsgRequest (own_members m)"
| "request_members (Rq_GroupHistoryMsgRequest m) = Rq_GroupHistoryMsgRequest (own_members m)"
| "request_members (Rq_GroupMsgReadAck m) = Rq_GroupMsgReadAck (own_members m)"
| "request_members (Rq_GroupCreateTmpGroupRequest m) = Rq_GroupCreateTmpGroupRequest (own_members m)"
| "request_members (Rq_GroupChangeMemberRequest m) = Rq_GroupChangeMemberRequest (own_members m)"
| "request_members (Rq_GroupDialogListRequest m) = Rq_GroupDialogListRequest (own_members m)"
| "request_members (Rq_FileHasOfflineReq m) = Rq_FileHasOfflineReq (own_members m)"
| "request_members (Rq_FileAddOfflineReq m) = Rq_FileAddOfflineReq (own_members m)"
| "request_members (Rq_FileDelOfflineReq m) = Rq_FileDelOfflineReq (own_members m)"

text \<open>\<open>without_change_type raw m\<close> is \<open>m\<close>, but for a \<^verbatim>\<open>GroupChangeMemberRequest\<close> with the change type of
  the memory \<open>raw\<close>.\<close>

definition without_change_type :: "raw_requests \<Rightarrow> request \<Rightarrow> request" where
  "without_change_type raw m = (case m of
     Rq_GroupChangeMemberRequest x \<Rightarrow> Rq_GroupChangeMemberRequest (x\<lparr>GroupChangeMemberRequest.change_type :=
       GroupChangeMemberRequest.change_type (raw_GroupChangeMemberRequest raw)\<rparr>)
   | _ \<Rightarrow> m)"

lemma own_received [simp]: "own_members (received m0 m) = own_members m"
  by (simp add: own_members_def received_def)

lemma base_received:
  assumes "pdu_kind (base_pdu.truncate m) = pdu_kind (base_pdu.truncate m0)"
  shows "message_type (base_pdu.truncate (received m0 m)) = message_type (base_pdu.truncate m) \<and>
    GetAttachData (base_pdu.truncate (received m0 m)) = GetAttachData (base_pdu.truncate m)"
  using assms by (simp add: received_def pdu_kind_def GetAttachData_def HasAttachData_def base_pdu.defs)

lemma canon_base: "base_pdu.truncate (GroupChangeMemberRequest_canon n m) = base_pdu.truncate m"
  by (simp add: GroupChangeMemberRequest_canon_def base_pdu.defs)

lemma request_received_members:
  "request_members (request_received m raw) = request_members (without_change_type raw m)"
  by (cases m) (simp_all add: without_change_type_def GroupChangeMemberRequest_canon_def
      GroupChangeMemberRequest_ctor_def BaseTeamTalkPDU_ctor_def)

lemma request_received_base:
  assumes "request_ok m"
  shows "message_type (request_base (request_received m raw)) = message_type (request_base m) \<and>
    GetAttachData (request_base (request_received m raw)) = GetAttachData (request_base m)"
proof -
  have k: "pdu_kind (request_base m) = pdu_kind (request_base (request_new (request_class_of m) raw))"
    using assms by (simp add: request_ok_def)
  show ?thesis
  proof (cases m)
    case (Rq_GroupChangeMemberRequest x)
    let ?c = "GroupChangeMemberRequest_ctor (raw_GroupChangeMemberRequest raw)"
    have "pdu_kind (base_pdu.truncate (GroupChangeMemberRequest_canon ?c x)) = pdu_kind (base_pdu.truncate ?c)"
      using k by (simp only: Rq_GroupChangeMemberRequest canon_base request_base.simps request_class_of.simps request_new.simps)
    from base_received [OF this] show ?thesis
      by (simp only: Rq_GroupChangeMemberRequest request_received.simps request_base.simps canon_base)
  qed (insert k, (simp only: request_received.simps request_base.simps request_class_of.simps
        request_new.simps, erule base_received)+)
qed

text \<open>C16: For every request class of the factory: a request that has its class's message type and
  fewer than 2^32 bytes is serialised into a buffer of exactly \<^verbatim>\<open>ByteSize()\<close> bytes, a fresh object of
  the class, in any memory, parses the packet into the members of its class that were sent, with the
  message type and the attach data of the request, and every packet that was cut short is rejected.
  One member is excepted: the change type of a \<^verbatim>\<open>GroupChangeMemberRequest\<close> does not arrive, and the
  parsed object has in it what its memory held.\<close>

theorem request_packet_roundtrip:
  assumes "byte_stream B cur W" "request_ok m"
    and "request_size m < 2 ^ 32" "length data = unat (request_ByteSize m)"
  shows "\<exists>packet n. request_SerializeToArray m B data = (True, packet) \<and>
    length packet = unat (request_ByteSize m) \<and>
    request_ParseFromArray (request_new (request_class_of m) raw) B packet = (True, n) \<and>
    request_members n = request_members (without_change_type raw m) \<and>
    message_type (request_base n) = message_type (request_base m) \<and>
    GetAttachData (request_base n) = GetAttachData (request_base m) \<and>
    (\<forall>k < length packet.
       \<not> fst (request_ParseFromArray (request_new (request_class_of m) raw) B (take k packet)))"
  using request_packets [OF assms, of raw] request_received_members [of m raw]
    request_received_base [OF assms(2), of raw] by metis

definition sample_ValidateRequest :: request where
  "sample_ValidateRequest = Rq_ValidateRequest
     ((ValidateRequest_ctor undefined)\<lparr>ValidateRequest.user_name := ''ab'', attach_data := ''x''\<rparr>)"

theorem request_packet_roundtrip_witness:
  "\<exists>packet n. request_SerializeToArray sample_ValidateRequest array_stream (replicate 15 0) = (True, packet) \<and>
    length packet = 15 \<and>
    request_ParseFromArray (request_new Class_ValidateRequest undefined) array_stream packet = (True, n) \<and>
    request_members n = request_members sample_ValidateRequest \<and>
    attach_data (request_base n) = ''x'' \<and> \<not> fst (request_ParseFromArray
      (request_new Class_ValidateRequest undefined) array_stream (take 14 packet))"
proof -
  have sz: "request_ByteSize sample_ValidateRequest = 15" "request_size sample_ValidateRequest < 2 ^ 32"
    by (simp_all add: sample_ValidateRequest_def pdu_defs BaseTeamTalkPDU_ByteSize_def
        wire_fields_def HasAttachData_def)
  have ok: "request_ok sample_ValidateRequest"
    by (simp add: sample_ValidateRequest_def request_ok_def pdu_kind_def pdu_defs base_pdu.defs)
  have m: "request_class_of sample_ValidateRequest = Class_ValidateRequest"
    "without_change_type undefined sample_ValidateRequest = sample_ValidateRequest"
    "GetAttachData (request_base sample_ValidateRequest) = Some ''x''"
    by (simp_all add: sample_ValidateRequest_def without_change_type_def GetAttachData_def HasAttachData_def
        pdu_defs base_pdu.defs)
  have x: "GetAttachData b = Some ''x'' \<Longrightarrow> attach_data b = ''x''" for b :: base_pdu
    by (auto simp: GetAttachData_def split: if_splits)
  show ?thesis
    using request_packet_roundtrip [OF array_stream_byte_stream ok sz(2), of "replicate 15 0" undefined] x
    by (fastforce simp: sz(1) m)
qed

text \<open>C31: \<^verbatim>\<open>ByteSize()\<close> of every request class is the number of bytes its packet takes, as a
  \<^verbatim>\<open>uint32\<close>.\<close>

theorem request_bytesize_exact: "request_ByteSize m = of_nat (request_size m)"
  by (rule request_size_exact)

text \<open>C34: \<^verbatim>\<open>GroupChangeMemberRequest\<close>: the change type never arrives. Its packet is accepted, but the
  object that parsed it has in \<^verbatim>\<open>change_type_\<close> whatever was in its memory before.\<close>

theorem change_type_lost:
  assumes "byte_stream B cur W" "attach_data_type m = kAttachDataTypeDB"
    and "request_size (Rq_GroupChangeMemberRequest m) < 2 ^ 32"
    and "length data = unat (GroupChangeMemberRequest_ByteSize m)"
  shows "\<exists>packet n. BaseTeamTalkPDU_SerializeToArray GroupChangeMemberRequest_SerializeToByteStream B m data =
      (True, packet) \<and>
    BaseTeamTalkPDU_ParseFromArray GroupChangeMemberRequest_ParseFromByteStream B
      (GroupChangeMemberRequest_ctor raw) packet = (True, n) \<and>
    GroupChangeMemberRequest.change_type n = GroupChangeMemberRequest.change_type raw \<and>
    GroupChangeMemberRequest.req_user_id n = GroupChangeMemberRequest.req_user_id m \<and>
    GroupChangeMemberRequest.group_id n = GroupChangeMemberRequest.group_id m \<and>
    GroupChangeMemberRequest.user_list n = GroupChangeMemberRequest.user_list m"
proof -
  have kind: "attach_data_type m = attach_data_type (GroupChangeMemberRequest_ctor raw)"
    using assms(2) by (simp add: pdu_defs)
  show ?thesis
    using GroupChangeMemberRequest_pdu.roundtrip [OF assms(1) _ kind assms(4)] assms(3)
    by (fastforce simp: received_def GroupChangeMemberRequest_canon_def GroupChangeMemberRequest_ctor_def
        BaseTeamTalkPDU_ctor_def)
qed

theorem change_type_lost_witness:
  "\<exists>packet n. BaseTeamTalkPDU_ParseFromArray GroupChangeMemberRequest_ParseFromByteStream array_stream
      (GroupChangeMemberRequest_ctor (undefined\<lparr>GroupChangeMemberRequest.change_type := 7\<rparr>)) packet = (True, n) \<and>
    GroupChangeMemberRequest.change_type n = 7"
proof -
  let ?m = "(GroupChangeMemberRequest_ctor undefined)\<lparr>GroupChangeMemberRequest.change_type := 1\<rparr>"
  have "attach_data_type ?m = kAttachDataTypeDB"
    "request_size (Rq_GroupChangeMemberRequest ?m) < 2 ^ 32"
    "length (replicate 20 0) = unat (GroupChangeMemberRequest_ByteSize ?m)"
    by (simp_all add: pdu_defs BaseTeamTalkPDU_ByteSize_def wire_fields_def HasAttachData_def u32s_fields_def
        CalculateContainerByteSize_def del: CalculateContainerByteSize_eq)
  from change_type_lost [OF array_stream_byte_stream this,
      of "undefined\<lparr>GroupChangeMemberRequest.change_type := 7\<rparr>"]
  show ?thesis by auto
qed

text \<open>The loop over an array appends as many elements as it was told to, and does not clear a
  failure.\<close>

lemma parse_u32s_length: "length (fst (parse_u32s B n (arr, s))) = length arr + n"
  by (induction B n "(arr, s)" arbitrary: arr s rule: parse_u32s.induct)
    (simp_all add: case_prod_unfold Let_def)

lemma parse_u32s_fails:
  "byte_stream B cur W \<Longrightarrow> bs_fail B s \<Longrightarrow> bs_fail B (snd (parse_u32s B n (arr, s)))"
proof (induction B n "(arr, s)" arbitrary: arr s rule: parse_u32s.induct)
  case (2 B n arr s)
  have "bs_fail B (snd (bs_get32 B (uninit32 B) s))"
    using get32_law [OF 2(2), of 0 s] 2(3) by (simp add: read_law_def)
  with 2 show ?case by (simp add: case_prod_unfold Let_def)
qed simp

lemma get32_at_end:
  assumes "byte_stream B cur W" "unread B cur s = []"
  shows "bs_fail B (snd (bs_get32 B v s))"
proof -
  have "strict_prefix [] (W (F32 0))"
    using wire_length [OF assms(1), of "F32 0"] by (cases "W (F32 0)") auto
  with get32_law [OF assms(1), of 0 s v] assms(2) show ?thesis by (auto simp: read_law_def)
qed

lemma UsersInfoRequest_array_read:
  assumes B: "byte_stream B cur W"
  shows "\<exists>s. unread B cur s = [] \<and> \<not> bs_fail B s \<and>
    UsersInfoRequest_ParseFromByteStream B (UsersInfoRequest_ctor raw) (bs_open B (encs W [F32 u, F32 n])) =
      (let r = parse_u32s B (unat n) ([], s) in (\<not> bs_fail B (snd r),
       (UsersInfoRequest_ctor raw)\<lparr>UsersInfoRequest.from_user_id := u,
         UsersInfoRequest.user_id_list := fst r\<rparr>, snd r))"
proof -
  define d where "d = encs W [F32 u, F32 n]"
  let ?c = "UsersInfoRequest_ctor raw" and ?s = "bs_open B d"
  let ?r1 = "bs_get32 B (UsersInfoRequest.from_user_id ?c) ?s"
  let ?r2 = "bs_get32 B 0 (snd ?r1)"
  note o = bs_openD [OF B, of d]
  have r1: "fst ?r1 = u" "\<not> bs_fail B (snd ?r1)" "cur (snd ?r1) = 4" "bs_bytes B (snd ?r1) = d"
    using get32_law [OF B, of u ?s "UsersInfoRequest.from_user_id ?c"] o wire_length [OF B, of "F32 u"]
    by (simp_all add: read_law_def unread_def d_def)
  have r2: "fst ?r2 = n" "\<not> bs_fail B (snd ?r2)" "cur (snd ?r2) = 8" "bs_bytes B (snd ?r2) = d"
    using get32_law [OF B, of n "snd ?r1" 0] r1 wire_length [OF B]
    by (simp_all add: read_law_def unread_def d_def)
  have un: "unread B cur (snd ?r2) = []" using r2 wire_length [OF B] by (simp add: unread_def d_def)
  have parse: "UsersInfoRequest_ParseFromByteStream B ?c ?s =
      (let r = parse_u32s B (unat n) ([], snd ?r2) in (\<not> bs_fail B (snd r),
      ?c\<lparr>UsersInfoRequest.from_user_id := u, UsersInfoRequest.user_id_list := fst r\<rparr>, snd r))"
    using r1(1) r2(1)
    by (simp add: UsersInfoRequest_ParseFromByteStream_def read_ok_def in32_def
        PARSE_BASICTYPE_ARRAY_IMPLICIT_def case_prod_unfold Let_def UsersInfoRequest_ctor_def
        BaseTeamTalkPDU_ctor_def)
  show ?thesis
    by (rule exI [where x = "snd ?r2"]) (use un r2(2) parse in \<open>simp add: d_def del: encs_simps\<close>)
qed

text \<open>C36: The count of an array is not checked against the input: a \<^verbatim>\<open>UsersInfoRequest\<close> packet that
  ends after the count \<open>n\<close> makes the reader append \<open>n\<close> elements of garbage, up to 2^32 - 1 of
  them, before it reports failure.\<close>

theorem array_count_unchecked:
  assumes B: "byte_stream B cur W"
  shows "\<exists>m. BaseTeamTalkPDU_ParseFromArray UsersInfoRequest_ParseFromByteStream B
      (UsersInfoRequest_ctor raw) (encs W [F32 u, F32 n]) = (False, m) \<and>
    length (UsersInfoRequest.user_id_list m) = unat n"
proof -
  let ?c = "UsersInfoRequest_ctor raw"
  from UsersInfoRequest_array_read [OF B] obtain s where un: "unread B cur s = []" "\<not> bs_fail B s"
    and parse: "UsersInfoRequest_ParseFromByteStream B ?c (bs_open B (encs W [F32 u, F32 n])) =
      (let r = parse_u32s B (unat n) ([], s) in (\<not> bs_fail B (snd r),
      ?c\<lparr>UsersInfoRequest.from_user_id := u, UsersInfoRequest.user_id_list := fst r\<rparr>, snd r))"
    by blast
  have len: "length (fst (parse_u32s B (unat n) ([], s))) = unat n" by (simp add: parse_u32s_length)
  show ?thesis
  proof (cases "unat n")
    case 0
    have "strict_prefix [] (W (FStr ''''))"
      using wire_length [OF B, of "FStr ''''"] by (cases "W (FStr '''')") auto
    then have "bs_fail B (snd (snd (bs_gets B (attach_data ?c) s)))"
      using gets_law [OF B, of "''''" s "attach_data ?c"] un by (simp add: read_law_def)
    moreover have "attach_data_type ?c = kAttachDataTypeDB" by (simp add: pdu_defs)
    ultimately show ?thesis
      using un(2) 0
      by (simp add: BaseTeamTalkPDU_ParseFromArray_def parse HasAttachData_def case_prod_unfold Let_def
          del: encs_simps)
  next
    case (Suc k)
    have "bs_fail B (snd (parse_u32s B (unat n) ([], s)))"
      using parse_u32s_fails [OF B get32_at_end [OF B un(1)], of k]
      by (simp add: Suc case_prod_unfold Let_def)
    then show ?thesis
      using len by (simp add: BaseTeamTalkPDU_ParseFromArray_def parse Let_def del: encs_simps)
  qed
qed

theorem array_count_unchecked_witness:
  "\<exists>m. BaseTeamTalkPDU_ParseFromArray UsersInfoRequest_ParseFromByteStream array_stream
      (UsersInfoRequest_ctor undefined) [0, 0, 0, 1, 255, 255, 255, 255] = (False, m) \<and>
    length (UsersInfoRequest.user_id_list m) = 2 ^ 32 - 1"
proof -
  have "encs array_wire [F32 1, F32 4294967295] = [0, 0, 0, 1, 255, 255, 255, 255]"
    by (simp add: be32_def)
  with array_count_unchecked [OF array_stream_byte_stream, of undefined 1 4294967295] show ?thesis
    by simp
qed

subsection \<open>Responses\<close>

text \<open>C17: The same for every response class that a handler sends, except \<^verbatim>\<open>ValidateResponse\<close>: a
  response is read back by a fresh object of its class, and no shorter packet is accepted.\<close>

theorem response_packet_roundtrip:
  assumes "byte_stream B cur W" "response_ok m"
    and "response_size m < 2 ^ 32" "length data = unat (response_ByteSize m)"
  shows "\<exists>packet. response_SerializeToArray m B data = (True, packet) \<and>
    length packet = unat (response_ByteSize m) \<and>
    response_ParseFromArray (response_new (response_class_of m) raw) B packet = (True, response_received m raw) \<and>
    (\<forall>n < length packet.
       \<not> fst (response_ParseFromArray (response_new (response_class_of m) raw) B (take n packet)))"
  using assms by (rule response_packets)

definition sample_DBWriteResponse :: response where
  "sample_DBWriteResponse = Rs_DBWriteResponse
     ((DBWriteResponse_ctor undefined)\<lparr>DBWriteResponse.result := 1\<rparr>)"

theorem response_packet_roundtrip_witness:
  "\<exists>packet. response_SerializeToArray sample_DBWriteResponse array_stream
      (replicate (unat (response_ByteSize sample_DBWriteResponse)) 0) = (True, packet) \<and>
    response_ParseFromArray (response_new Class_DBWriteResponse undefined) array_stream packet =
      (True, response_received sample_DBWriteResponse undefined)"
proof -
  have sz: "response_size sample_DBWriteResponse < 2 ^ 32"
    by (simp add: sample_DBWriteResponse_def pdu_defs wire_fields_def HasAttachData_def)
  have ok: "response_ok sample_DBWriteResponse"
    by (simp add: sample_DBWriteResponse_def response_ok_def pdu_kind_def pdu_defs base_pdu.defs)
  have c: "response_class_of sample_DBWriteResponse = Class_DBWriteResponse"
    by (simp add: sample_DBWriteResponse_def)
  show ?thesis
    using response_packet_roundtrip [OF array_stream_byte_stream ok sz, of
        "replicate (unat (response_ByteSize sample_DBWriteResponse)) 0" undefined]
    by (auto simp: c)
qed

subsection \<open>\<^verbatim>\<open>ValidateResponse\<close>\<close>

text \<open>Serialising a \<^verbatim>\<open>ValidateResponse\<close> dereferences NULL exactly when its result is 0 and it has
  no user record.\<close>

lemma validate_response_null:
  "ValidateResponse_SerializeToArray B m data = None \<longleftrightarrow> result m = 0 \<and> user m = None"
  by (simp add: ValidateResponse_SerializeToArray_def ValidateResponse_writes)

text \<open>\<^verbatim>\<open>ByteSize()\<close> of a \<^verbatim>\<open>ValidateResponse\<close> is the number of bytes it writes, plus the size of a
  user record that is there and not written because the result is not 0.\<close>

lemma validate_response_bytesize:
  "ValidateResponse_ByteSize m = of_nat (fields_size (wire_fields ValidateResponse_fields m)) +
     (case user m of None \<Rightarrow> 0 | Some u \<Rightarrow> if result m = 0 then 0 else validate_response_ByteSize u)"
proof (cases "result m \<noteq> 0 \<and> user m \<noteq> None")
  case True
  then show ?thesis
    by (auto simp: ValidateResponse_ByteSize_def ValidateResponse_fields_def wire_fields_def
        HasAttachData_iff BaseTeamTalkPDU_ByteSize_def SIZEOF_STRING_def validate_response_size)
next
  case False
  then show ?thesis
    by (auto simp: ValidateResponse_ByteSize_def ValidateResponse_fields_def wire_fields_def
        HasAttachData_iff BaseTeamTalkPDU_ByteSize_def SIZEOF_STRING_def validate_response_size
        split: option.splits)
qed

text \<open>C35: The user record of a successful validation is lost: the packet carries it, but the reader
  that gets the result 0 does not read it and ends with no user record.\<close>

theorem validate_user_not_read:
  assumes B: "byte_stream B cur W" and res: "result m = 0" and usr: "user m = Some u"
    and sz: "fields_size (wire_fields ValidateResponse_fields m) < 2 ^ 32"
    and buf: "length data = unat (ValidateResponse_ByteSize m)"
  shows "\<exists>packet. ValidateResponse_SerializeToArray B m data = Some (True, packet) \<and>
    packet = encs W (wire_fields ValidateResponse_fields m) \<and>
    (let n = snd (BaseTeamTalkPDU_ParseFromArray ValidateResponse_ParseFromByteStream B
        (ValidateResponse_ctor raw) packet)
     in user_name n = user_name m \<and> result n = 0 \<and> user n = None)"
proof -
  let ?F = "wire_fields ValidateResponse_fields m" and ?f = "ValidateResponse_fields m"
  let ?p = "encs W ?F" and ?c = "ValidateResponse_ctor raw"
  have ser: "ValidateResponse_SerializeToArray B m data = Some (True, ?p)"
    using B sz buf by (intro ValidateResponse_packet) (simp_all add: ValidateResponse_ok_def res usr)
  have "length (user_name m) < 2 ^ 32 - 8"
    using sz by (simp add: wire_fields_def ValidateResponse_fields_def)
  moreover have "prefix (encs W ?f) (unread B cur (bs_open B ?p))"
    by (simp add: unread_def bs_openD [OF B] wire_fields_def)
  ultimately obtain s' where "ValidateResponse_ParseFromByteStream B ?c (bs_open B ?p) =
      (True, ?c\<lparr>user_name := user_name m, result := 0\<rparr>, s')"
    using ValidateResponse_read_success [OF B bs_openD(1) [OF B] _ _ res, of ?p ?c] by metis
  then show ?thesis
    using ser by (simp add: BaseTeamTalkPDU_ParseFromArray_def ValidateResponse_ctor_def
        BaseTeamTalkPDU_ctor_def case_prod_unfold Let_def)
qed

definition sample_ValidateResponse :: ValidateResponse where
  "sample_ValidateResponse = (ValidateResponse_ctor undefined)
     \<lparr>user_name := ''ab'', result := 0, user := Some new_UserInfo\<rparr>"

theorem validate_user_not_read_witness:
  "user (snd (BaseTeamTalkPDU_ParseFromArray ValidateResponse_ParseFromByteStream array_stream
     (ValidateResponse_ctor undefined)
     (encs array_wire (wire_fields ValidateResponse_fields sample_ValidateResponse)))) = None"
proof -
  have m: "result sample_ValidateResponse = 0" "user sample_ValidateResponse = Some new_UserInfo"
    "fields_size (wire_fields ValidateResponse_fields sample_ValidateResponse) < 2 ^ 32"
    by (simp_all add: sample_ValidateResponse_def wire_fields_def ValidateResponse_fields_def
        validate_response_fields_def new_UserInfo_def HasAttachData_def pdu_defs)
  show ?thesis
    using validate_user_not_read [OF array_stream_byte_stream m, of
        "replicate (unat (ValidateResponse_ByteSize sample_ValidateResponse)) 0" undefined]
    by (auto simp: Let_def)
qed

subsection \<open>Attach data\<close>

lemma length_encs: "byte_stream B cur W \<Longrightarrow> length (encs W fs) = fields_size fs"
  by (induction fs) (simp_all add: wire_length)

text \<open>Attach data written into a stream with room for its \<^verbatim>\<open>ByteSize()\<close> is read back by an object
  of the same class, whatever that object held: the type, the handle, the service type and, for
  \<^verbatim>\<open>PduAttachData\<close>, the data.\<close>

lemma attach_data_roundtrip:
  assumes B: "byte_stream B cur W" and ty: "ad_type a0 = ad_type a"
    and sz: "fields_size (AttachData_fields a) < 2 ^ 32"
    and len: "length data = unat (AttachData_ByteSize a)"
  shows "\<exists>s. AttachData_SerializeToByteStream B a (bs_open B data) = (True, s) \<and>
    length (bs_bytes B s) = unat (AttachData_ByteSize a) \<and>
    (\<exists>s'. AttachData_ParseFromByteStream B a0 (bs_open B (bs_bytes B s)) =
       (True, AttachData_received a0 a, s'))"
proof -
  let ?s = "put_fields B (AttachData_fields a) (bs_open B data)"
  note o = bs_openD [OF B]
  have l: "length data = fields_size (AttachData_fields a)"
    using len sz by (simp add: AttachData_size unat_of_nat_u32)
  have fit: "\<not> bs_fail B ?s" "bs_bytes B ?s = encs W (AttachData_fields a)"
    using put_fields_fit [OF B o(1), of data "AttachData_fields a"] l o [of data] by simp_all
  have ser: "AttachData_SerializeToByteStream B a (bs_open B data) = (True, ?s)"
    using AttachData_writes [OF B o(1) [of data], of a] fit(1) by (auto simp: write_ok_def)
  have "\<exists>s'. AttachData_ParseFromByteStream B a0 (bs_open B (bs_bytes B ?s)) =
       (True, AttachData_received a0 a, s')"
  proof (cases "ad_type a = kAttachDataTypePDU")
    case True
    with sz have "length (pdu_data a) < 2 ^ 32" by (simp add: AttachData_fields_def)
    then show ?thesis
      using AttachData_reads [OF B ty, of "bs_open B (bs_bytes B ?s)"] o fit
      by (auto simp: unread_def)
  next
    case False
    let ?a = "a\<lparr>pdu_data := ''''\<rparr>"
    from False have "AttachData_fields ?a = AttachData_fields a"
      "AttachData_received a0 ?a = AttachData_received a0 a"
      by (cases "ad_type a"; simp add: AttachData_fields_def AttachData_received_def AttachData_ByteSize_def)+
    then show ?thesis
      using AttachData_reads [OF B, of a0 ?a "bs_open B (bs_bytes B ?s)"] ty o fit
      by (auto simp: unread_def)
  qed
  then show ?thesis
    using ser len fit l by (auto simp: length_encs [OF B])
qed

definition sample_AttachData :: BaseAttachData where
  "sample_AttachData = (CreateAttachData kAttachDataTypePDU undefined)
     \<lparr>type_id := 1, handle := 2, service_type := 3, pdu_data := ''ab''\<rparr>"

theorem attach_data_roundtrip_witness:
  "\<exists>s s'. AttachData_SerializeToByteStream array_stream sample_AttachData
      (bs_open array_stream (replicate 22 0)) = (True, s) \<and>
    AttachData_ParseFromByteStream array_stream (CreateAttachData kAttachDataTypePDU undefined)
      (bs_open array_stream (bs_bytes array_stream s)) =
    (True, AttachData_received (CreateAttachData kAttachDataTypePDU undefined) sample_AttachData, s')"
proof -
  have "ad_type (CreateAttachData kAttachDataTypePDU undefined) = ad_type sample_AttachData"
    "fields_size (AttachData_fields sample_AttachData) < 2 ^ 32"
    "length (replicate 22 0) = unat (AttachData_ByteSize sample_AttachData)"
    by (simp_all add: sample_AttachData_def CreateAttachData_def AttachData_fields_def
        AttachData_ByteSize_def BaseAttachData_ByteSize_def SIZEOF_STRING_def)
  from attach_data_roundtrip [OF array_stream_byte_stream this] show ?thesis by auto
qed

end
