(* ===== verification/Database.thy ===== *)
theory Database
  imports Prelude "HOL-Library.State_Monad"
begin

text \<open>
  The database access the managers share. The database classes, the string formatting functions
  and the clock belong to the library zutils, which is not part of this repository: they are the
  fields of the parameter \<open>db_env\<close>. A query answer is the list of the rows that
  \<^verbatim>\<open>FetchRow\<close> delivers, one after the other, before it returns false.
\<close>

subsection \<open>The parameter\<close>

text \<open>The arguments of \<^verbatim>\<open>StringPrintf\<close> and of \<^verbatim>\<open>QueryParam::AddParam\<close>.\<close>

datatype sql_arg = AInt u32 | AInt64 u64 | AStr string

text \<open>\<open>db_query\<close>, \<open>db_execute\<close> and \<open>db_insert_id\<close> are \<^verbatim>\<open>Query\<close>, \<^verbatim>\<open>Execute\<close> and \<^verbatim>\<open>ExecuteInsertID\<close> on
  a connection; the type \<open>'w\<close> is everything outside the program. \<open>row_u32 r i x\<close> is the value of a
  \<^verbatim>\<open>uint32\<close> variable that held \<open>x\<close> after \<^verbatim>\<open>GetColumn(i, &x)\<close>. \<open>ret_u32\<close> is the macro
  \<^verbatim>\<open>DB_GET_RETURN_COLUMN\<close>, which may leave the enclosing \<^verbatim>\<open>do ... while (0)\<close>: it tells whether the
  next statement runs. \<open>uninit_u32\<close> is what an uninitialised variable holds.\<close>

record ('w, 'r) db_env =
  db_query :: "string \<Rightarrow> 'w \<Rightarrow> 'r list option \<times> 'w"
  db_execute :: "string \<Rightarrow> 'w \<Rightarrow> int \<times> 'w"
  db_insert_id :: "string \<Rightarrow> 'w \<Rightarrow> u64 \<times> 'w"
  now_ms :: "'w \<Rightarrow> u64 \<times> 'w"
  row_u32 :: "'r \<Rightarrow> nat \<Rightarrow> u32 \<Rightarrow> u32"
  row_str :: "'r \<Rightarrow> nat \<Rightarrow> string \<Rightarrow> string"
  ret_u32 :: "'r \<Rightarrow> nat \<Rightarrow> u32 \<Rightarrow> bool \<times> u32"
  ret_str :: "'r \<Rightarrow> nat \<Rightarrow> string \<Rightarrow> bool \<times> string"
  uninit_u32 :: u32
  fmt_printf :: "string \<Rightarrow> sql_arg list \<Rightarrow> string"
  fmt_query :: "string \<Rightarrow> sql_arg list \<Rightarrow> string"
  fmt_join :: "u32 list \<Rightarrow> char \<Rightarrow> string"
  fmt_join_str :: "string list \<Rightarrow> char \<Rightarrow> string"
  fmt_uint :: "u32 \<Rightarrow> string"

subsection \<open>State\<close>

text \<open>\<open>conns_held\<close> is the number of connections the running thread has taken from the pool and not
  given back, \<open>conns_peak\<close> the largest number it has held at once.\<close>

record 'w db_state =
  world :: 'w
  conns_held :: nat
  conns_peak :: nat

type_synonym ('w, 'z, 'a) db_prog = "(('w, 'z) db_state_scheme, 'a) state"

abbreviation return :: "'a \<Rightarrow> ('s, 'a) state" where "return \<equiv> State_Monad.return"

definition lift_world :: "('w \<Rightarrow> 'a \<times> 'w) \<Rightarrow> ('w, 'z, 'a) db_prog" where
  "lift_world f = State (\<lambda>s. let (x, w) = f (world s) in (x, s\<lparr>world := w\<rparr>))"

definition Query :: "('w, 'r) db_env \<Rightarrow> string \<Rightarrow> ('w, 'z, 'r list option) db_prog" where
  "Query E sql = lift_world (db_query E sql)"

definition DbExecute :: "('w, 'r) db_env \<Rightarrow> string \<Rightarrow> ('w, 'z, int) db_prog" where
  "DbExecute E sql = lift_world (db_execute E sql)"

definition ExecuteInsertID :: "('w, 'r) db_env \<Rightarrow> string \<Rightarrow> ('w, 'z, u64) db_prog" where
  "ExecuteInsertID E sql = lift_world (db_insert_id E sql)"

definition NowMSTime :: "('w, 'r) db_env \<Rightarrow> ('w, 'z, u64) db_prog" where
  "NowMSTime E = lift_world (now_ms E)"

text \<open>\<^verbatim>\<open>db::ScopedPtr_DatabaseConnection db_conn(pool)\<close>: the connection is held while the rest of
  the block runs.\<close>

definition ScopedPtr_DatabaseConnection :: "('w, 'z, 'a) db_prog \<Rightarrow> ('w, 'z, 'a) db_prog" where
  "ScopedPtr_DatabaseConnection p = State (\<lambda>s.
     let held = conns_held s + 1;
         (x, s) = run_state p (s\<lparr>conns_held := held, conns_peak := max held (conns_peak s)\<rparr>)
     in (x, s\<lparr>conns_held := conns_held s - 1\<rparr>))"

text \<open>A block of \<^verbatim>\<open>DB_GET_RETURN_COLUMN\<close> statements, and the two forms of the statement.\<close>

fun DB_columns :: "('m \<Rightarrow> bool \<times> 'm) list \<Rightarrow> 'm \<Rightarrow> bool \<times> 'm" where
  "DB_columns [] m = (True, m)"
| "DB_columns (p # ps) m = (let (ok, m) = p m in if ok then DB_columns ps m else (False, m))"

definition DB_column_u32 ::
  "('w, 'r) db_env \<Rightarrow> 'r \<Rightarrow> nat \<Rightarrow> ('m \<Rightarrow> u32) \<Rightarrow> ((u32 \<Rightarrow> u32) \<Rightarrow> 'm \<Rightarrow> 'm) \<Rightarrow> 'm \<Rightarrow> bool \<times> 'm" where
  "DB_column_u32 E row i get upd m = (let (ok, v) = ret_u32 E row i (get m) in (ok, upd (\<lambda>_. v) m))"

definition DB_column_str ::
  "('w, 'r) db_env \<Rightarrow> 'r \<Rightarrow> nat \<Rightarrow> ('m \<Rightarrow> string) \<Rightarrow> ((string \<Rightarrow> string) \<Rightarrow> 'm \<Rightarrow> 'm) \<Rightarrow> 'm \<Rightarrow> bool \<times> 'm" where
  "DB_column_str E row i get upd m =
     (let (ok, v) = ret_str E row i (get m) in (ok, upd (\<lambda>_. v) m))"

subsection \<open>Running programs\<close>

lemma run_lift_world [simp]:
  "run_state (lift_world f) s = (fst (f (world s)), s\<lparr>world := snd (f (world s))\<rparr>)"
  by (simp add: lift_world_def case_prod_unfold Let_def)

lemmas db_ops = Query_def DbExecute_def ExecuteInsertID_def NowMSTime_def

lemma run_ScopedPtr:
  "run_state (ScopedPtr_DatabaseConnection p) s =
     (let r = run_state p (s\<lparr>conns_held := conns_held s + 1,
                             conns_peak := max (conns_held s + 1) (conns_peak s)\<rparr>)
      in (fst r, (snd r)\<lparr>conns_held := conns_held (snd r) - 1\<rparr>))"
  by (simp add: ScopedPtr_DatabaseConnection_def case_prod_unfold Let_def)

subsection \<open>Use of the connection pool\<close>

text \<open>\<open>uses_conns n p\<close>: \<open>p\<close> gives back every connection it takes and never holds more than \<open>n\<close> of
  them at once.\<close>

definition uses_conns :: "nat \<Rightarrow> ('w, 'z, 'a) db_prog \<Rightarrow> bool" where
  "uses_conns n p \<longleftrightarrow> (\<forall>s. conns_held (snd (run_state p s)) = conns_held s \<and>
     conns_peak (snd (run_state p s)) \<le> max (conns_peak s) (conns_held s + n))"

named_theorems conns_intros "how programs use connections"

lemma uses_conns_return [conns_intros]: "uses_conns n (return x)"
  by (simp add: uses_conns_def)

lemma uses_conns_bind [conns_intros]:
  assumes "uses_conns n p" "\<And>x. uses_conns n (q x)"
  shows "uses_conns n (p \<bind> q)"
  unfolding uses_conns_def
proof (intro allI)
  fix s :: "('a, 'b) db_state_scheme"
  obtain x s' where p: "run_state p s = (x, s')" by fastforce
  have 1: "conns_held s' = conns_held s" "conns_peak s' \<le> max (conns_peak s) (conns_held s + n)"
    using assms(1) p unfolding uses_conns_def by (metis snd_conv)+
  have "conns_held (snd (run_state (q x) s')) = conns_held s' \<and>
      conns_peak (snd (run_state (q x) s')) \<le> max (conns_peak s') (conns_held s' + n)"
    using assms(2) unfolding uses_conns_def by blast
  with 1 show "conns_held (snd (run_state (p \<bind> q) s)) = conns_held s \<and>
      conns_peak (snd (run_state (p \<bind> q) s)) \<le> max (conns_peak s) (conns_held s + n)"
    by (auto simp: p le_max_iff_disj)
qed

lemma uses_conns_lift [conns_intros]: "uses_conns n (lift_world f)"
  by (simp add: uses_conns_def)

lemma uses_conns_ops [conns_intros]:
  "uses_conns n (Query E sql)" "uses_conns n (DbExecute E sql)"
  "uses_conns n (ExecuteInsertID E sql)" "uses_conns n (NowMSTime E)"
  by (simp_all add: db_ops conns_intros)

lemma uses_conns_Scoped [conns_intros]:
  assumes "uses_conns n p"
  shows "uses_conns (Suc n) (ScopedPtr_DatabaseConnection p)"
  unfolding uses_conns_def
proof (intro allI)
  fix s :: "('a, 'b) db_state_scheme"
  let ?s = "s\<lparr>conns_held := conns_held s + 1, conns_peak := max (conns_held s + 1) (conns_peak s)\<rparr>"
  have "conns_held (snd (run_state p ?s)) = conns_held ?s \<and>
      conns_peak (snd (run_state p ?s)) \<le> max (conns_peak ?s) (conns_held ?s + n)"
    using assms unfolding uses_conns_def by blast
  then show "conns_held (snd (run_state (ScopedPtr_DatabaseConnection p) s)) = conns_held s \<and>
      conns_peak (snd (run_state (ScopedPtr_DatabaseConnection p) s)) \<le>
        max (conns_peak s) (conns_held s + Suc n)"
    by (auto simp: run_ScopedPtr Let_def le_max_iff_disj)
qed

lemma uses_conns_mono: "uses_conns m p \<Longrightarrow> m \<le> n \<Longrightarrow> uses_conns n p"
  unfolding uses_conns_def by (meson add_left_mono max.mono order_refl order_trans)

lemma uses_conns_if [conns_intros]:
  "uses_conns n p \<Longrightarrow> uses_conns n q \<Longrightarrow> uses_conns n (if b then p else q)"
  by simp

lemma uses_conns_option [conns_intros]:
  "uses_conns n p \<Longrightarrow> (\<And>x. uses_conns n (q x)) \<Longrightarrow>
   uses_conns n (case opt of None \<Rightarrow> p | Some x \<Rightarrow> q x)"
  by (cases opt) simp_all

lemma uses_conns_list [conns_intros]:
  "uses_conns n p \<Longrightarrow> (\<And>x xs. uses_conns n (q x xs)) \<Longrightarrow>
   uses_conns n (case l of [] \<Rightarrow> p | x # xs \<Rightarrow> q x xs)"
  by (cases l) simp_all

lemma uses_conns_prod [conns_intros]:
  "(\<And>x y. uses_conns n (q x y)) \<Longrightarrow> uses_conns n (case r of (x, y) \<Rightarrow> q x y)"
  by (cases r) simp

lemma uses_conns_Let [conns_intros]:
  "(\<And>x. uses_conns n (q x)) \<Longrightarrow> uses_conns n (let x = a in q x)"
  by simp

text \<open>\<open>preserves f p\<close>: \<open>p\<close> leaves the part \<open>f\<close> of the state as it is. Programs on the database
  preserve the extension of the record, \<open>db_state.more\<close>, and so whatever is part of it.\<close>

definition preserves :: "('s \<Rightarrow> 'v) \<Rightarrow> ('s, 'a) state \<Rightarrow> bool" where
  "preserves f p \<longleftrightarrow> (\<forall>s. f (snd (run_state p s)) = f s)"

lemma preserves_return [conns_intros]: "preserves f (return x)"
  by (simp add: preserves_def)

lemma preserves_bind [conns_intros]:
  "preserves f p \<Longrightarrow> (\<And>x. preserves f (q x)) \<Longrightarrow> preserves f (p \<bind> q)"
  by (simp add: preserves_def case_prod_unfold)

lemma preserves_ops:
  assumes "\<And>s w. f (s\<lparr>world := w\<rparr>) = f s"
  shows "preserves f (Query E sql)" "preserves f (DbExecute E sql)"
    "preserves f (ExecuteInsertID E sql)" "preserves f (NowMSTime E)"
  by (simp_all add: db_ops preserves_def assms)

lemma preserves_Scoped:
  assumes "\<And>s h. f (s\<lparr>conns_held := h\<rparr>) = f s" "\<And>s h. f (s\<lparr>conns_peak := h\<rparr>) = f s"
    and "preserves f p"
  shows "preserves f (ScopedPtr_DatabaseConnection p)"
  using assms by (simp add: preserves_def run_ScopedPtr Let_def)

lemma preserves_more_ops [conns_intros]:
  "preserves db_state.more (Query E sql)" "preserves db_state.more (DbExecute E sql)"
  "preserves db_state.more (ExecuteInsertID E sql)" "preserves db_state.more (NowMSTime E)"
  by (simp_all add: preserves_ops)

lemma preserves_more_Scoped [conns_intros]:
  "preserves db_state.more p \<Longrightarrow> preserves db_state.more (ScopedPtr_DatabaseConnection p)"
  by (simp add: preserves_Scoped)

lemma preserves_if [conns_intros]:
  "preserves f p \<Longrightarrow> preserves f q \<Longrightarrow> preserves f (if b then p else q)"
  by simp

lemma preserves_option [conns_intros]:
  "preserves f p \<Longrightarrow> (\<And>x. preserves f (q x)) \<Longrightarrow>
   preserves f (case opt of None \<Rightarrow> p | Some x \<Rightarrow> q x)"
  by (cases opt) simp_all

lemma preserves_list [conns_intros]:
  "preserves f p \<Longrightarrow> (\<And>x xs. preserves f (q x xs)) \<Longrightarrow>
   preserves f (case l of [] \<Rightarrow> p | x # xs \<Rightarrow> q x xs)"
  by (cases l) simp_all

lemma preserves_prod [conns_intros]:
  "(\<And>x y. preserves f (q x y)) \<Longrightarrow> preserves f (case r of (x, y) \<Rightarrow> q x y)"
  by (cases r) simp

lemma preserves_Let [conns_intros]:
  "(\<And>x. preserves f (q x)) \<Longrightarrow> preserves f (let x = a in q x)"
  by simp

end
