(* ===== verification/Relationship_Manager.thy ===== *)
theory Relationship_Manager
  imports Database Base_Data
begin

text \<open>
  \<^verbatim>\<open>ZAresRelationshipManagerImpl\<close> (\<^verbatim>\<open>zaresd/model/zares/zares_relationship_manager_impl.cc\<close>): the
  contact relation between two users. Two users have one relation id, that of the row whose
  \<^verbatim>\<open>userId\<close> is the smaller of the two. Output parameters that point to a vector are the vector
  before the call and, with the result, after it.
\<close>

abbreviation (input) kInvalidID :: u32 where "kInvalidID \<equiv> 0xFFFFFFFF"

subsection \<open>Operations\<close>

definition friend_ParseFromDatabase :: "('w, 'r) db_env \<Rightarrow> FriendInfo \<Rightarrow> 'r \<Rightarrow> bool \<times> FriendInfo" where
  "friend_ParseFromDatabase E friend_info answ = DB_columns
     [DB_column_u32 E answ 1 FriendInfo.friend_user_id FriendInfo.friend_user_id_update,
      DB_column_u32 E answ 4 FriendInfo.updated FriendInfo.updated_update] friend_info"

definition GetRecentContactByUserId ::
  "('w, 'r) db_env \<Rightarrow> u32 \<Rightarrow> int \<Rightarrow> FriendInfo list \<Rightarrow> ('w, 'z, bool \<times> FriendInfo list) db_prog" where
  "GetRecentContactByUserId E uid limit friends =
     (if uid = 0 then return (False, friends)
      else ScopedPtr_DatabaseConnection (do {
        answ \<leftarrow> Query E (fmt_printf E ''SELECT relateId,friendUserId,status,created,updated FROM IMRecentContact WHERE userId = %d AND status = 0 ORDER BY updated DESC, relateId DESC LIMIT 100'' [AInt uid]);
        case answ of
          Some rows \<Rightarrow> return (True, fold (\<lambda>row friends.
              friends @ [snd (friend_ParseFromDatabase E new_FriendInfo row)]) rows friends)
        | None \<Rightarrow> return (False, friends)
      }))"

definition DeleteRecentContactByUserId :: "('w, 'r) db_env \<Rightarrow> u32 \<Rightarrow> u32 \<Rightarrow> ('w, 'z, bool) db_prog" where
  "DeleteRecentContactByUserId E uid friend_id =
     (let sql = fmt_printf E ''UPDATE IMRecentContact SET status = 1 WHERE userId = %d AND friendUserId = %d LIMIT 1''
                  [AInt uid, AInt friend_id]
      in ScopedPtr_DatabaseConnection (do {
        rc \<leftarrow> DbExecute E sql;
        return (0 = rc)
      }))"

definition GetRelateId :: "('w, 'r) db_env \<Rightarrow> u32 \<Rightarrow> u32 \<Rightarrow> ('w, 'z, u32) db_prog" where
  "GetRelateId E user_AId user_BId =
     (let relate_id = kInvalidID
      in if user_AId = 0 \<or> user_BId = 0 then return relate_id
         else
           let (small_user_id, big_user_id) =
             (if user_AId > user_BId then (user_BId, user_AId) else (user_AId, user_BId))
           in ScopedPtr_DatabaseConnection (do {
             answ \<leftarrow> Query E (fmt_printf E ''SELECT relateId FROM IMRecentContact WHERE userId = %i and friendUserId = %i limit 1''
                              [AInt small_user_id, AInt big_user_id]);
             case answ of
               Some rows \<Rightarrow>
                 (case rows of
                    row # _ \<Rightarrow> return (row_u32 E row 0 relate_id)
                  | [] \<Rightarrow> return relate_id)
             | None \<Rightarrow> return relate_id
           }))"

text \<open>The loop of \<^verbatim>\<open>CheckAndUpdateRelation\<close> over the rows: the ids of the rows whose status is not
  0, separated by commas.\<close>

definition relate_ids_step :: "('w, 'r) db_env \<Rightarrow> 'r \<Rightarrow> u32 \<times> string \<Rightarrow> u32 \<times> string" where
  "relate_ids_step E row = (\<lambda>(relate_id, relate_ids).
     let relate_id = row_u32 E row 0 relate_id;
         stat = row_u32 E row 1 0
     in (relate_id,
         if stat \<noteq> 0
         then (if relate_ids \<noteq> '''' then relate_ids @ '','' else relate_ids) @ fmt_uint E relate_id
         else relate_ids))"

definition CheckAndUpdateRelation :: "('w, 'r) db_env \<Rightarrow> u32 \<Rightarrow> u32 \<Rightarrow> ('w, 'z, bool) db_prog" where
  "CheckAndUpdateRelation E usera_id userb_id =
     (if usera_id = 0 \<or> userb_id = 0 then return True
      else ScopedPtr_DatabaseConnection (do {
        answ \<leftarrow> Query E (fmt_query E ''SELECT relateId,status FROM IMRecentContact WHERE (userId=:1 AND friendUserId=:2) OR (userId=:3 AND friendUserId=:4) LIMIT 2''
                         [AInt usera_id, AInt userb_id, AInt usera_id, AInt userb_id]);
        let relate_ids = (case answ of
            Some rows \<Rightarrow> snd (fold (relate_ids_step E) rows (0, ''''))
          | None \<Rightarrow> '''');
        if relate_ids \<noteq> ''''
        then do {
          rc \<leftarrow> DbExecute E (fmt_printf E ''UPDATE IMRecentContact SET status = 0 WHERE relateId in (%s) LIMIT 4''
                               [AStr relate_ids]);
          return (0 = rc)
        }
        else return False
      }))"

definition AddFriendship :: "('w, 'r) db_env \<Rightarrow> u32 \<Rightarrow> u32 \<Rightarrow> ('w, 'z, u32) db_prog" where
  "AddFriendship E usera_id userb_id =
     (if usera_id = 0 \<or> userb_id = 0 then return kInvalidID
      else do {
        relate_id \<leftarrow> GetRelateId E usera_id userb_id;
        if relate_id \<noteq> kInvalidID then return relate_id
        else do {
          let (usera_id, userb_id) =
            (if usera_id > userb_id then (userb_id, usera_id) else (usera_id, userb_id));
          now \<leftarrow> NowMSTime E;
          let ctime = (ucast (now div 1000) :: u32);
          let default_status = 0;
          let sql =
            (if usera_id \<noteq> userb_id
             then fmt_query E ''INSERT INTO IMRecentContact(`userId`,`friendUserId`,`status`,`created`,`updated`) VALUES(:1, :2, :3, :4, :5),(:6, :7, :8, :9, :10)''
               [AInt usera_id, AInt userb_id, AInt default_status, AInt ctime, AInt ctime,
                AInt userb_id, AInt usera_id, AInt default_status, AInt ctime, AInt ctime]
             else fmt_query E ''INSERT INTO IMRecentContact(`userId`,`friendUserId`,`status`,`created`,`updated`) VALUES(:1, :2, :3, :4, :5)''
               [AInt usera_id, AInt userb_id, AInt default_status, AInt ctime, AInt ctime]);
          ScopedPtr_DatabaseConnection (do {
            ident \<leftarrow> ExecuteInsertID E sql;
            return (ucast ident)
          })
        }
      })"

subsection \<open>Use of connections\<close>

lemma GetRecentContactByUserId_conns [conns_intros]:
  "uses_conns 1 (GetRecentContactByUserId E uid limit friends)"
  "preserves db_state.more (GetRecentContactByUserId E uid limit friends)"
  unfolding GetRecentContactByUserId_def One_nat_def by (intro conns_intros)+

lemma DeleteRecentContactByUserId_conns [conns_intros]:
  "uses_conns 1 (DeleteRecentContactByUserId E a b)"
  "preserves db_state.more (DeleteRecentContactByUserId E a b)"
  unfolding DeleteRecentContactByUserId_def One_nat_def by (intro conns_intros)+

lemma GetRelateId_conns [conns_intros]:
  "uses_conns 1 (GetRelateId E a b)" "preserves db_state.more (GetRelateId E a b)"
  unfolding GetRelateId_def One_nat_def by (intro conns_intros)+

lemma CheckAndUpdateRelation_conns [conns_intros]:
  "uses_conns 1 (CheckAndUpdateRelation E a b)" "preserves db_state.more (CheckAndUpdateRelation E a b)"
  unfolding CheckAndUpdateRelation_def One_nat_def by (intro conns_intros)+

lemma AddFriendship_conns [conns_intros]:
  "uses_conns 1 (AddFriendship E a b)" "preserves db_state.more (AddFriendship E a b)"
  unfolding AddFriendship_def using GetRelateId_conns [of E a b]
  by (intro conns_intros | simp only: One_nat_def)+

end
