(* ===== verification/Std_Map.thy ===== *)
theory Std_Map
  imports Prelude
begin

text \<open>
  \<^verbatim>\<open>std::map\<close>, as far as the program uses it: an association list in increasing order of the keys,
  so that iterating over the map is iterating over the list. The locale \<open>ordered_map\<close> states what
  the components rely on; they use it through the interpretation \<open>std\<close>.
\<close>

subsection \<open>The interface\<close>

locale ordered_map =
  fixes empty_map :: 'm
    and find :: "'k :: linorder \<Rightarrow> 'm \<Rightarrow> 'v option"
    and assign :: "'k \<Rightarrow> 'v \<Rightarrow> 'm \<Rightarrow> 'm"
    and erase :: "'k \<Rightarrow> 'm \<Rightarrow> 'm"
    and entries :: "'m \<Rightarrow> ('k \<times> 'v) list"
    and valid :: "'m \<Rightarrow> bool"
  assumes find_empty [simp]: "find k empty_map = None"
    and valid_empty [simp]: "valid empty_map"
    and find_assign [simp]: "find k (assign k' v m) = (if k = k' then Some v else find k m)"
    and valid_assign [simp]: "valid m \<Longrightarrow> valid (assign k v m)"
    and find_erase [simp]: "valid m \<Longrightarrow> find k (erase k' m) = (if k = k' then None else find k m)"
    and valid_erase [simp]: "valid m \<Longrightarrow> valid (erase k m)"
    and entries_find: "valid m \<Longrightarrow> map_of (entries m) = (\<lambda>k. find k m)"
    and entries_sorted: "valid m \<Longrightarrow> sorted_wrt (<) (map fst (entries m))"
begin

text \<open>\<^verbatim>\<open>insert\<close> keeps the value a key already has.\<close>

definition insert_new :: "'k \<Rightarrow> 'v \<Rightarrow> 'm \<Rightarrow> 'm" where
  "insert_new k v m = (case find k m of None \<Rightarrow> assign k v m | Some _ \<Rightarrow> m)"

lemma find_insert_new [simp]:
  "find k (insert_new k' v m) = (if k = k' \<and> find k m = None then Some v else find k m)"
  by (auto simp: insert_new_def split: option.splits)

lemma valid_insert_new [simp]: "valid m \<Longrightarrow> valid (insert_new k v m)"
  by (simp add: insert_new_def split: option.splits)

lemma valid_fold: "(\<And>x m. valid m \<Longrightarrow> valid (f x m)) \<Longrightarrow> valid m \<Longrightarrow> valid (fold f xs m)"
  by (induction xs arbitrary: m) auto

text \<open>Filling a map from a list: with \<^verbatim>\<open>insert\<close> the first value of a key wins.\<close>

lemma find_fold_insert:
  "find k (fold (\<lambda>(a, v). insert_new a v) xs m) =
     (case find k m of None \<Rightarrow> map_of xs k | Some v \<Rightarrow> Some v)"
  by (induction xs arbitrary: m) (auto split: option.splits)

text \<open>The entries are the pairs \<open>find\<close> knows, each key once.\<close>

lemma entries_distinct: "valid m \<Longrightarrow> distinct (map fst (entries m))"
  using entries_sorted strict_sorted_iff by blast

lemma set_entries: "valid m \<Longrightarrow> (k, v) \<in> set (entries m) \<longleftrightarrow> find k m = Some v"
  using entries_find [of m] entries_distinct [of m] by (metis map_of_eq_Some_iff)

lemma entries_determined:
  assumes "valid m" "valid m'" "\<And>k. find k m = find k m'"
  shows "entries m = entries m'"
proof -
  have "set (entries m) = set (entries m')"
    using set_entries [OF assms(1)] set_entries [OF assms(2)] assms(3) by auto
  then have "map_of (entries m) = map_of (entries m')" "set (map fst (entries m)) = set (map fst (entries m'))"
    using entries_find assms by auto
  moreover have "map fst (entries m) = map fst (entries m')"
    using entries_sorted [OF assms(1)] entries_sorted [OF assms(2)] calculation(2)
    by (intro strict_sorted_equal) auto
  ultimately show ?thesis
    by (intro nth_equalityI)
      (metis length_map, metis (no_types, lifting) assms(1,2) entries_distinct length_map
        map_of_is_SomeI nth_map nth_mem option.inject prod.collapse)
qed

end

subsection \<open>The sorted association list\<close>

type_synonym ('k, 'v) std_map = "('k \<times> 'v) list"

definition std_find :: "'k \<Rightarrow> ('k, 'v) std_map \<Rightarrow> 'v option" where
  "std_find k m = map_of m k"

fun std_assign :: "'k :: linorder \<Rightarrow> 'v \<Rightarrow> ('k, 'v) std_map \<Rightarrow> ('k, 'v) std_map" where
  "std_assign k v [] = [(k, v)]"
| "std_assign k v ((k', v') # m) =
     (if k < k' then (k, v) # (k', v') # m
      else if k = k' then (k, v) # m else (k', v') # std_assign k v m)"

definition std_insert :: "'k :: linorder \<Rightarrow> 'v \<Rightarrow> ('k, 'v) std_map \<Rightarrow> ('k, 'v) std_map" where
  "std_insert k v m = (case std_find k m of None \<Rightarrow> std_assign k v m | Some _ \<Rightarrow> m)"

definition std_erase :: "'k \<Rightarrow> ('k, 'v) std_map \<Rightarrow> ('k, 'v) std_map" where
  "std_erase k m = filter (\<lambda>e. fst e \<noteq> k) m"

text \<open>\<^verbatim>\<open>m[k]\<close> creates the entry with a default value when there is none; \<open>std_modify d k f\<close> is
  the assignment of \<open>f\<close> of the old value to \<^verbatim>\<open>m[k]\<close>.\<close>

definition std_modify ::
  "'v \<Rightarrow> 'k :: linorder \<Rightarrow> ('v \<Rightarrow> 'v) \<Rightarrow> ('k, 'v) std_map \<Rightarrow> ('k, 'v) std_map" where
  "std_modify d k f m = std_assign k (f (case std_find k m of None \<Rightarrow> d | Some v \<Rightarrow> v)) m"

definition std_valid :: "('k :: linorder, 'v) std_map \<Rightarrow> bool" where
  "std_valid m \<longleftrightarrow> sorted_wrt (<) (map fst m)"

lemma std_assign_find: "map_of (std_assign k v m) = (map_of m)(k \<mapsto> v)"
  by (induction k v m rule: std_assign.induct) auto

lemma std_assign_keys: "set (map fst (std_assign k v m)) = insert k (set (map fst m))"
  by (induction k v m rule: std_assign.induct) auto

lemma std_assign_valid: "std_valid m \<Longrightarrow> std_valid (std_assign k v m)"
proof (induction k v m rule: std_assign.induct)
  case (2 k v k' v' m)
  then show ?case
    using std_assign_keys [of k v m] by (auto simp: std_valid_def)
qed (simp add: std_valid_def)

interpretation std: ordered_map "[]" std_find std_assign std_erase "\<lambda>m. m" std_valid
proof
  fix m :: "('k :: linorder, 'v) std_map" and k k' :: 'k and v :: 'v
  show "std_find k (std_assign k' v m) = (if k = k' then Some v else std_find k m)"
    by (simp add: std_find_def std_assign_find)
  show "std_find k (std_erase k' m) = (if k = k' then None else std_find k m)" if "std_valid m"
    by (induction m) (auto simp: std_find_def std_erase_def)
  show "std_valid (std_erase k m)" if "std_valid m"
    using that by (auto simp: std_valid_def std_erase_def sorted_wrt_map intro: sorted_wrt_filter)
  show "std_valid (std_assign k v m)" if "std_valid m" using that by (rule std_assign_valid)
qed (auto simp: std_find_def std_valid_def fun_eq_iff)

lemma std_singleton [simp]:
  "std_valid [e]" "std_find k [(k', v)] = (if k = k' then Some v else None)"
  by (simp_all add: std_valid_def std_find_def)

lemma std_insert_new: "std_insert = std.insert_new"
  by (simp add: fun_eq_iff std_insert_def std.insert_new_def)

lemma std_find_insert [simp]:
  "std_find k (std_insert k' v m) = (if k = k' \<and> std_find k m = None then Some v else std_find k m)"
  by (simp add: std_insert_new)

lemma std_find_modify [simp]:
  "std_find k (std_modify d k' f m) =
     (if k = k' then Some (f (case std_find k m of None \<Rightarrow> d | Some v \<Rightarrow> v)) else std_find k m)"
  by (simp add: std_modify_def)

lemma std_valid_insert [simp]: "std_valid m \<Longrightarrow> std_valid (std_insert k v m)"
  by (simp add: std_insert_new)

lemma std_valid_modify [simp]: "std_valid m \<Longrightarrow> std_valid (std_modify d k f m)"
  by (simp add: std_modify_def)

end
