(* ===== verification/Counter_Manager.thy ===== *)
theory Counter_Manager
  imports Std_Map
begin

text \<open>
  The message counters, which live in memory only: \<^verbatim>\<open>CacheManager\<close> and
  \<^verbatim>\<open>ZAresCounterManagerImpl\<close> (\<^verbatim>\<open>zaresd/model/counter_manager.h\<close>,
  \<^verbatim>\<open>zaresd/model/zares/zares_counter_manager_impl.h\<close>, \<^verbatim>\<open>.cc\<close>). A pointer into one of the maps is
  the pair of the keys that lead to it; writing through it is an update of the cache at these
  keys. Each operation is one step here; \<open>Counter_Races\<close> splits those that use a pointer after
  the lock is released.
\<close>

subsection \<open>State\<close>

record Counter =
  counter_user_id :: u32
  unread_count :: "(u32, u32) std_map"
  msg_count :: "(u32, u32) std_map"

record GroupCounterItem =
  item_user_id :: u32
  item_group_id :: u32
  group_total_count :: u32
  user_unread_count :: u32
  last_message_id :: u32

record UserUnreadCount =
  user_unread_count_ios :: "(u32, u32) std_map"
  user_unread_count_android :: "(u32, u32) std_map"
  user_unread_count_other :: "(u32, u32) std_map"

record ReadCountAndLastID =
  read_count :: u32
  last_id :: u32

record GroupCounterInfo =
  total_count :: u32
  user_group_count_ios :: "(u32, ReadCountAndLastID) std_map"
  user_group_count_android :: "(u32, ReadCountAndLastID) std_map"
  user_group_count_other :: "(u32, ReadCountAndLastID) std_map"

record CacheManager =
  counter_instance :: "(u32, (u32, u32) std_map) std_map"
  unread_instance :: "(u32, UserUnreadCount) std_map"
  group_counter_instance :: "(u32, GroupCounterInfo) std_map"

definition CacheManager_new :: CacheManager where
  "CacheManager_new =
     \<lparr>counter_instance = [], unread_instance = [], group_counter_instance = []\<rparr>"

abbreviation (input) GROUP_UNREAD_MAX_COUNTER :: u32 where "GROUP_UNREAD_MAX_COUNTER \<equiv> 150"

subsection \<open>\<^verbatim>\<open>UserUnreadCount\<close> and \<^verbatim>\<open>GroupCounterInfo\<close>\<close>

text \<open>The map of a client type, and writing through the pointer to it.\<close>

definition GetUnreadCountByClientType :: "u32 \<Rightarrow> UserUnreadCount \<Rightarrow> (u32, u32) std_map" where
  "GetUnreadCountByClientType client_type u =
     (if client_type = 17 then user_unread_count_ios u
      else if client_type = 18 then user_unread_count_android u
      else user_unread_count_other u)"

definition at_UnreadCountByClientType ::
  "u32 \<Rightarrow> ((u32, u32) std_map \<Rightarrow> (u32, u32) std_map) \<Rightarrow> UserUnreadCount \<Rightarrow> UserUnreadCount" where
  "at_UnreadCountByClientType client_type f =
     (if client_type = 17 then user_unread_count_ios_update f
      else if client_type = 18 then user_unread_count_android_update f
      else user_unread_count_other_update f)"

definition GetReadCountAndLastIDMap ::
  "u32 \<Rightarrow> GroupCounterInfo \<Rightarrow> (u32, ReadCountAndLastID) std_map" where
  "GetReadCountAndLastIDMap client_type g =
     (if client_type = 17 then user_group_count_ios g
      else if client_type = 18 then user_group_count_android g
      else user_group_count_other g)"

definition at_ReadCountAndLastIDMap ::
  "u32 \<Rightarrow> ((u32, ReadCountAndLastID) std_map \<Rightarrow> (u32, ReadCountAndLastID) std_map) \<Rightarrow>
   GroupCounterInfo \<Rightarrow> GroupCounterInfo" where
  "at_ReadCountAndLastIDMap client_type f =
     (if client_type = 17 then user_group_count_ios_update f
      else if client_type = 18 then user_group_count_android_update f
      else user_group_count_other_update f)"

subsection \<open>\<^verbatim>\<open>CacheManager\<close>\<close>

definition Cache_IncrUserMsgCount :: "u32 \<Rightarrow> u32 \<Rightarrow> CacheManager \<Rightarrow> CacheManager" where
  "Cache_IncrUserMsgCount from_user_id to_user_id c =
     (case std_find from_user_id (counter_instance c) of
        None \<Rightarrow>
          let to_user_ids = std_assign to_user_id 1 []
          in c\<lparr>counter_instance := std_assign from_user_id to_user_ids (counter_instance c)\<rparr>
      | Some to_user_ids \<Rightarrow>
          let to_user_ids' =
            (case std_find to_user_id to_user_ids of
               None \<Rightarrow> std_assign to_user_id 1 to_user_ids
             | Some _ \<Rightarrow> std_modify 0 to_user_id (\<lambda>n. n + 1) to_user_ids)
          in c\<lparr>counter_instance := std_assign from_user_id to_user_ids' (counter_instance c)\<rparr>)"

definition Cache_IncreaseUserUnreadMsgCount :: "u32 \<Rightarrow> u32 \<Rightarrow> CacheManager \<Rightarrow> CacheManager" where
  "Cache_IncreaseUserUnreadMsgCount from_user_id to_user_id c =
     (case std_find from_user_id (unread_instance c) of
        Some u \<Rightarrow>
          let u = u\<lparr>
            user_unread_count_ios := std_modify 0 to_user_id (\<lambda>n. n + 1) (user_unread_count_ios u),
            user_unread_count_android :=
              std_modify 0 to_user_id (\<lambda>n. n + 1) (user_unread_count_android u),
            user_unread_count_other :=
              std_modify 0 to_user_id (\<lambda>n. n + 1) (user_unread_count_other u)\<rparr>
          in c\<lparr>unread_instance := std_assign from_user_id u (unread_instance c)\<rparr>
      | None \<Rightarrow>
          let u = \<lparr>
            user_unread_count_ios = std_assign to_user_id 1 [],
            user_unread_count_android = std_assign to_user_id 1 [],
            user_unread_count_other = std_assign to_user_id 1 []\<rparr>
          in c\<lparr>unread_instance := std_assign from_user_id u (unread_instance c)\<rparr>)"

definition FindUnreadCount :: "u32 \<Rightarrow> u32 \<Rightarrow> CacheManager \<Rightarrow> (u32, u32) std_map option" where
  "FindUnreadCount user_id client_type c =
     (case std_find user_id (unread_instance c) of
        Some u \<Rightarrow> Some (GetUnreadCountByClientType client_type u)
      | None \<Rightarrow> None)"

definition at_UnreadCount ::
  "u32 \<Rightarrow> u32 \<Rightarrow> ((u32, u32) std_map \<Rightarrow> (u32, u32) std_map) \<Rightarrow> CacheManager \<Rightarrow> CacheManager" where
  "at_UnreadCount user_id client_type f c =
     (case std_find user_id (unread_instance c) of
        Some u \<Rightarrow> c\<lparr>unread_instance :=
          std_assign user_id (at_UnreadCountByClientType client_type f u) (unread_instance c)\<rparr>
      | None \<Rightarrow> c)"

definition IncrGroupMsgCount :: "u32 \<Rightarrow> u32 \<Rightarrow> CacheManager \<Rightarrow> bool \<times> CacheManager" where
  "IncrGroupMsgCount group_id last_message c = (True, c)"

definition GetGroupTotalCount :: "u32 \<Rightarrow> CacheManager \<Rightarrow> u32" where
  "GetGroupTotalCount group_id c =
     (case std_find group_id (group_counter_instance c) of Some g \<Rightarrow> total_count g | None \<Rightarrow> 0)"

definition FindCounterAndLastIDs ::
  "u32 \<Rightarrow> u32 \<Rightarrow> u32 \<Rightarrow> CacheManager \<Rightarrow> ReadCountAndLastID option" where
  "FindCounterAndLastIDs user_id group_id client_type c =
     (case std_find group_id (group_counter_instance c) of
        None \<Rightarrow> None
      | Some g \<Rightarrow> std_find user_id (GetReadCountAndLastIDMap client_type g))"

definition at_CounterAndLastIDs ::
  "u32 \<Rightarrow> u32 \<Rightarrow> u32 \<Rightarrow> (ReadCountAndLastID \<Rightarrow> ReadCountAndLastID) \<Rightarrow> CacheManager \<Rightarrow> CacheManager" where
  "at_CounterAndLastIDs user_id group_id client_type f c =
     (case std_find group_id (group_counter_instance c) of
        None \<Rightarrow> c
      | Some g \<Rightarrow>
          (case std_find user_id (GetReadCountAndLastIDMap client_type g) of
             None \<Rightarrow> c
           | Some r \<Rightarrow> c\<lparr>group_counter_instance :=
               std_assign group_id (at_ReadCountAndLastIDMap client_type (std_assign user_id (f r)) g)
                 (group_counter_instance c)\<rparr>))"

subsection \<open>\<^verbatim>\<open>ZAresCounterManagerImpl\<close>\<close>

definition IncrUserMsgCount :: "u32 \<Rightarrow> u32 \<Rightarrow> CacheManager \<Rightarrow> CacheManager" where
  "IncrUserMsgCount from_user_id to_user_id c =
     (if from_user_id = 0 \<or> to_user_id = 0 then c
      else Cache_IncrUserMsgCount from_user_id to_user_id c)"

definition IncreaseUserUnreadMsgCount :: "u32 \<Rightarrow> u32 \<Rightarrow> CacheManager \<Rightarrow> CacheManager" where
  "IncreaseUserUnreadMsgCount from_user_id to_user_id c =
     (if from_user_id = 0 \<or> to_user_id = 0 then c
      else Cache_IncreaseUserUnreadMsgCount from_user_id to_user_id c)"

text \<open>The loop over the map, with its counter \<^verbatim>\<open>limit\<close>.\<close>

fun copy_unread :: "(u32 \<times> u32) list \<Rightarrow> nat \<Rightarrow> (u32, u32) std_map \<Rightarrow> (u32, u32) std_map" where
  "copy_unread [] limit m = m"
| "copy_unread ((k, v) # es) limit m =
     (if limit < 300 then copy_unread es (limit + 1) (std_insert k v m) else m)"

text \<open>The result is whether the returned pointer is not null; the object is changed in place.\<close>

definition GetUnreadMsgCount ::
  "u32 \<Rightarrow> u32 \<Rightarrow> Counter \<Rightarrow> CacheManager \<Rightarrow> bool \<times> Counter" where
  "GetUnreadMsgCount user_id client_type unread_msg_count c =
     (if user_id = 0 then (False, unread_msg_count)
      else case FindUnreadCount user_id client_type c of
          None \<Rightarrow> (False, unread_msg_count)
        | Some unreads \<Rightarrow>
            (True, unread_msg_count\<lparr>counter_user_id := user_id,
               unread_count := copy_unread unreads 0 (unread_count unread_msg_count)\<rparr>))"

definition ClearUserUnreadItemCount ::
  "u32 \<Rightarrow> u32 \<Rightarrow> u32 \<Rightarrow> CacheManager \<Rightarrow> bool \<times> CacheManager" where
  "ClearUserUnreadItemCount user_id friend_user_id client_type c =
     (if user_id = 0 \<or> friend_user_id = 0 then (False, c)
      else case FindUnreadCount user_id client_type c of
          None \<Rightarrow> (False, c)
        | Some unreads \<Rightarrow>
            (True, if std_find friend_user_id unreads \<noteq> None
                   then at_UnreadCount user_id client_type (std_erase friend_user_id) c else c))"

definition GetUserFriendUnreadCount :: "u32 \<Rightarrow> u32 \<Rightarrow> u32 \<Rightarrow> CacheManager \<Rightarrow> nat" where
  "GetUserFriendUnreadCount user_id friend_user_id client_type c =
     (if user_id \<noteq> 0 \<and> friend_user_id \<noteq> 0
      then case FindUnreadCount user_id client_type c of
          None \<Rightarrow> 0
        | Some unreads \<Rightarrow>
            (case std_find friend_user_id unreads of Some n \<Rightarrow> unat n | None \<Rightarrow> 0)
      else 0)"

definition DeleteUserReadedDialogMessages ::
  "u32 \<Rightarrow> u32 \<Rightarrow> u32 \<Rightarrow> CacheManager \<Rightarrow> bool \<times> CacheManager" where
  "DeleteUserReadedDialogMessages user_id friend_user_id client_type c = (True, c)"

text \<open>The definition in the source file names its parameters user, client type, group, where the
  declaration has user, group, client type; the types agree, so callers pass the group as the
  client type and the client type as the group. The parameters stand here in the order callers
  use, under the names the definition gives them.\<close>

definition GetUserGroupCount ::
  "u32 \<Rightarrow> u32 \<Rightarrow> u32 \<Rightarrow> CacheManager \<Rightarrow> GroupCounterItem" where
  "GetUserGroupCount user_id client_type group_id c =
     (let item = \<lparr>item_user_id = user_id, item_group_id = group_id, group_total_count = 0,
                  user_unread_count = 0, last_message_id = 0\<rparr>
      in if user_id = 0 \<or> group_id = 0 then item
         else let total = GetGroupTotalCount group_id c
           in if total = 0 then item
              else let item = item\<lparr>group_total_count := total\<rparr>
                in case FindCounterAndLastIDs user_id group_id client_type c of
                     None \<Rightarrow> item
                   | Some counter_and_last_id \<Rightarrow>
                       let unread = total - read_count counter_and_last_id;
                           unread = (if unread > GROUP_UNREAD_MAX_COUNTER
                                           then GROUP_UNREAD_MAX_COUNTER else unread)
                       in item\<lparr>last_message_id := last_id counter_and_last_id,
                               user_unread_count := unread\<rparr>)"

definition GetUserGroupUnreadCount ::
  "u32 \<Rightarrow> u32 list \<Rightarrow> u32 \<Rightarrow> (u32, u32) std_map \<Rightarrow> CacheManager \<Rightarrow> nat \<times> (u32, u32) std_map" where
  "GetUserGroupUnreadCount userId group_ids client_type unreads c =
     (if userId = 0 \<or> group_ids = [] then (0, unreads)
      else let unreads = fold (\<lambda>g m.
                 std_insert g (user_unread_count (GetUserGroupCount userId g client_type c)) m)
               group_ids unreads
        in (length unreads, unreads))"

definition ClearUserGroupCounter ::
  "u32 \<Rightarrow> u32 \<Rightarrow> u32 \<Rightarrow> CacheManager \<Rightarrow> bool \<times> CacheManager" where
  "ClearUserGroupCounter user_id group_id client_type c =
     (case FindCounterAndLastIDs user_id group_id client_type c of
        Some _ \<Rightarrow> (True, at_CounterAndLastIDs user_id group_id client_type
                          (\<lambda>r. r\<lparr>last_id := 0, read_count := 0\<rparr>) c)
      | None \<Rightarrow> (True, c))"

subsection \<open>Well-formed caches\<close>

definition unread_ok :: "UserUnreadCount \<Rightarrow> bool" where
  "unread_ok u \<longleftrightarrow> std_valid (user_unread_count_ios u) \<and>
     std_valid (user_unread_count_android u) \<and> std_valid (user_unread_count_other u)"

definition group_counter_ok :: "GroupCounterInfo \<Rightarrow> bool" where
  "group_counter_ok g \<longleftrightarrow> std_valid (user_group_count_ios g) \<and>
     std_valid (user_group_count_android g) \<and> std_valid (user_group_count_other g)"

definition cache_ok :: "CacheManager \<Rightarrow> bool" where
  "cache_ok c \<longleftrightarrow>
     std_valid (counter_instance c) \<and> std_valid (unread_instance c) \<and>
     std_valid (group_counter_instance c) \<and>
     (\<forall>k m. std_find k (counter_instance c) = Some m \<longrightarrow> std_valid m) \<and>
     (\<forall>k u. std_find k (unread_instance c) = Some u \<longrightarrow> unread_ok u) \<and>
     (\<forall>k g. std_find k (group_counter_instance c) = Some g \<longrightarrow> group_counter_ok g)"

lemma cache_ok_new [simp]: "cache_ok CacheManager_new"
  by (simp add: cache_ok_def CacheManager_new_def)

lemma unread_ok_map: "unread_ok u \<Longrightarrow> std_valid (GetUnreadCountByClientType t u)"
  by (simp add: unread_ok_def GetUnreadCountByClientType_def)

lemma cache_ok_IncrUserMsgCount: "cache_ok c \<Longrightarrow> cache_ok (IncrUserMsgCount a b c)"
  unfolding cache_ok_def IncrUserMsgCount_def Cache_IncrUserMsgCount_def
  by (auto simp: Let_def split: option.splits if_splits)

lemma cache_ok_IncreaseUserUnreadMsgCount:
  "cache_ok c \<Longrightarrow> cache_ok (IncreaseUserUnreadMsgCount a b c)"
  unfolding cache_ok_def IncreaseUserUnreadMsgCount_def Cache_IncreaseUserUnreadMsgCount_def
  by (auto simp: Let_def unread_ok_def split: option.splits if_splits)

lemma cache_ok_ClearUserUnreadItemCount:
  "cache_ok c \<Longrightarrow> cache_ok (snd (ClearUserUnreadItemCount a b t c))"
  unfolding cache_ok_def ClearUserUnreadItemCount_def at_UnreadCount_def
    at_UnreadCountByClientType_def FindUnreadCount_def
  by (auto simp: unread_ok_def split: option.splits if_splits)

lemma cache_ok_ClearUserGroupCounter:
  "cache_ok c \<Longrightarrow> cache_ok (snd (ClearUserGroupCounter a g t c))"
  unfolding cache_ok_def ClearUserGroupCounter_def at_CounterAndLastIDs_def
    at_ReadCountAndLastIDMap_def FindCounterAndLastIDs_def
  by (auto simp: group_counter_ok_def split: option.splits if_splits)

subsection \<open>Unread counts\<close>

text \<open>The number the cache holds for a user, a friend and a client type.\<close>

definition unread_at :: "u32 \<Rightarrow> u32 \<Rightarrow> u32 \<Rightarrow> CacheManager \<Rightarrow> u32" where
  "unread_at u f t c =
     (case FindUnreadCount u t c of
        None \<Rightarrow> 0
      | Some m \<Rightarrow> (case std_find f m of None \<Rightarrow> 0 | Some n \<Rightarrow> n))"

text \<open>Two client types that share a map.\<close>

definition same_client :: "u32 \<Rightarrow> u32 \<Rightarrow> bool" where
  "same_client t t' \<longleftrightarrow> t = t' \<or> t \<notin> {17, 18} \<and> t' \<notin> {17, 18}"

lemma GetUserFriendUnreadCount_eq:
  "GetUserFriendUnreadCount u f t c = (if u = 0 \<or> f = 0 then 0 else unat (unread_at u f t c))"
  by (simp add: GetUserFriendUnreadCount_def unread_at_def split: option.splits)

lemma unread_at_new: "unread_at u f t CacheManager_new = 0"
  by (simp add: unread_at_def FindUnreadCount_def CacheManager_new_def)

lemma unread_at_IncrUserMsgCount: "unread_at u f t (IncrUserMsgCount a b c) = unread_at u f t c"
  by (simp add: unread_at_def FindUnreadCount_def IncrUserMsgCount_def Cache_IncrUserMsgCount_def
      Let_def split: option.splits)

lemma unread_at_Increase:
  "unread_at u f t (IncreaseUserUnreadMsgCount a b c) =
     (if a \<noteq> 0 \<and> b \<noteq> 0 \<and> a = u \<and> b = f then unread_at u f t c + 1 else unread_at u f t c)"
  by (auto simp: unread_at_def FindUnreadCount_def IncreaseUserUnreadMsgCount_def
      Cache_IncreaseUserUnreadMsgCount_def GetUnreadCountByClientType_def Let_def split: option.splits)

lemma GetUnreadCount_at:
  "GetUnreadCountByClientType t (at_UnreadCountByClientType t' f u) =
     (if same_client t t' then f (GetUnreadCountByClientType t u) else GetUnreadCountByClientType t u)"
  by (auto simp: GetUnreadCountByClientType_def at_UnreadCountByClientType_def same_client_def)

lemma FindUnreadCount_at:
  "FindUnreadCount u t (at_UnreadCount a t' f c) =
     (if u = a \<and> same_client t t' then map_option f (FindUnreadCount u t c) else FindUnreadCount u t c)"
  by (auto simp: FindUnreadCount_def at_UnreadCount_def GetUnreadCount_at split: option.splits)

lemma FindUnreadCount_valid: "cache_ok c \<Longrightarrow> FindUnreadCount u t c = Some m \<Longrightarrow> std_valid m"
  by (auto simp: cache_ok_def FindUnreadCount_def intro: unread_ok_map split: option.splits)

lemma FindUnreadCount_same: "same_client t t' \<Longrightarrow> FindUnreadCount u t c = FindUnreadCount u t' c"
  by (auto simp: FindUnreadCount_def GetUnreadCountByClientType_def same_client_def
      split: option.splits)

lemma unread_at_Clear:
  assumes "cache_ok c"
  shows "unread_at u f t (snd (ClearUserUnreadItemCount a b t' c)) =
     (if a \<noteq> 0 \<and> b \<noteq> 0 \<and> a = u \<and> b = f \<and> same_client t t' then 0 else unread_at u f t c)"
proof (cases "a = 0 \<or> b = 0 \<or> FindUnreadCount a t' c = None")
  case True
  then show ?thesis
    using FindUnreadCount_same [of t t' u c]
    by (auto simp: ClearUserUnreadItemCount_def unread_at_def)
next
  case False
  then obtain m where m: "FindUnreadCount a t' c = Some m" by auto
  show ?thesis
  proof (cases "u = a \<and> same_client t t'")
    case True
    with m have "FindUnreadCount u t c = Some m" using FindUnreadCount_same by metis
    with True False m FindUnreadCount_valid [OF assms m] show ?thesis
      by (auto simp: ClearUserUnreadItemCount_def unread_at_def FindUnreadCount_at split: option.splits)
  next
    case u: False
    with False m show ?thesis
      by (auto simp: ClearUserUnreadItemCount_def unread_at_def FindUnreadCount_at)
  qed
qed

subsection \<open>The contract of an unread counter\<close>

text \<open>What the message manager and the handlers rely on: a message adds one to the count of its
  pair, reading resets it for one client, and nothing else changes it. The history of a counter
  is a list of events; the count of a pair is the number of messages since it was last read, as
  a \<^verbatim>\<open>uint32\<close>.\<close>

datatype counter_event = MsgSent u32 u32 | MsgsRead u32 u32 u32

fun unread_step :: "u32 \<Rightarrow> u32 \<Rightarrow> u32 \<Rightarrow> counter_event \<Rightarrow> nat \<Rightarrow> nat" where
  "unread_step u f t (MsgSent a b) n = (if a = u \<and> b = f then n + 1 else n)"
| "unread_step u f t (MsgsRead a b t') n = (if a = u \<and> b = f \<and> same_client t t' then 0 else n)"

definition unread_since_read :: "u32 \<Rightarrow> u32 \<Rightarrow> u32 \<Rightarrow> counter_event list \<Rightarrow> nat" where
  "unread_since_read u f t es = fold (unread_step u f t) es 0"

locale unread_counter =
  fixes fresh :: 'c
    and sent :: "u32 \<Rightarrow> u32 \<Rightarrow> 'c \<Rightarrow> 'c"
    and cleared :: "u32 \<Rightarrow> u32 \<Rightarrow> u32 \<Rightarrow> 'c \<Rightarrow> 'c"
    and counted :: "u32 \<Rightarrow> u32 \<Rightarrow> u32 \<Rightarrow> 'c \<Rightarrow> u32"
    and wf :: "'c \<Rightarrow> bool"
  assumes wf_fresh: "wf fresh"
    and wf_sent: "wf c \<Longrightarrow> wf (sent a b c)"
    and wf_cleared: "wf c \<Longrightarrow> wf (cleared a b t c)"
    and counted_fresh: "counted u f t fresh = 0"
    and counted_sent: "u \<noteq> 0 \<Longrightarrow> f \<noteq> 0 \<Longrightarrow>
      counted u f t (sent a b c) = (if a = u \<and> b = f then counted u f t c + 1 else counted u f t c)"
    and counted_cleared: "wf c \<Longrightarrow> u \<noteq> 0 \<Longrightarrow> f \<noteq> 0 \<Longrightarrow>
      counted u f t (cleared a b t' c) =
        (if a = u \<and> b = f \<and> same_client t t' then 0 else counted u f t c)"
begin

fun apply_event :: "counter_event \<Rightarrow> 'c \<Rightarrow> 'c" where
  "apply_event (MsgSent a b) c = sent a b c"
| "apply_event (MsgsRead a b t) c = cleared a b t c"

lemma wf_history: "wf c \<Longrightarrow> wf (fold apply_event es c)"
proof (induction es arbitrary: c)
  case (Cons e es)
  then show ?case by (cases e) (simp_all add: wf_sent wf_cleared)
qed simp

lemma counted_fold:
  assumes "u \<noteq> 0" "f \<noteq> 0" "wf c" "counted u f t c = of_nat n"
  shows "counted u f t (fold apply_event es c) = of_nat (fold (unread_step u f t) es n)"
  using assms(3,4)
proof (induction es arbitrary: c n)
  case (Cons e es)
  have "counted u f t (apply_event e c) = of_nat (unread_step u f t e n)" "wf (apply_event e c)"
    using Cons.prems assms(1,2)
    by (cases e; simp add: counted_sent counted_cleared wf_sent wf_cleared)+
  then show ?case by (simp add: Cons.IH)
qed simp

lemma counted_history:
  "u \<noteq> 0 \<Longrightarrow> f \<noteq> 0 \<Longrightarrow>
   counted u f t (fold apply_event es fresh) = of_nat (unread_since_read u f t es)"
  unfolding unread_since_read_def by (rule counted_fold) (simp_all add: wf_fresh counted_fresh)

end

text \<open>What a stored message does to the cache (\<^verbatim>\<open>IncrCounterForNewMessage\<close> of the message manager),
  and the steps of a history on the cache.\<close>

fun counter_step :: "counter_event \<Rightarrow> CacheManager \<Rightarrow> CacheManager" where
  "counter_step (MsgSent a b) c = IncreaseUserUnreadMsgCount a b (IncrUserMsgCount a b c)"
| "counter_step (MsgsRead a b t) c = snd (ClearUserUnreadItemCount a b t c)"

interpretation cm: unread_counter CacheManager_new
  "\<lambda>a b c. IncreaseUserUnreadMsgCount a b (IncrUserMsgCount a b c)"
  "\<lambda>a b t c. snd (ClearUserUnreadItemCount a b t c)" unread_at cache_ok
  by unfold_locales
    (auto simp: cache_ok_IncrUserMsgCount cache_ok_IncreaseUserUnreadMsgCount
      cache_ok_ClearUserUnreadItemCount unread_at_new unread_at_Increase unread_at_IncrUserMsgCount
      unread_at_Clear)

lemma counter_step_eq: "counter_step = cm.apply_event"
proof (intro ext)
  show "counter_step e c = cm.apply_event e c" for e c by (cases e) simp_all
qed

subsection \<open>Reachable caches\<close>

text \<open>Everything the program does to the cache.\<close>

inductive cache_reachable :: "CacheManager \<Rightarrow> bool" where
  new: "cache_reachable CacheManager_new"
| incr: "cache_reachable c \<Longrightarrow> cache_reachable (IncrUserMsgCount a b c)"
| unread: "cache_reachable c \<Longrightarrow> cache_reachable (IncreaseUserUnreadMsgCount a b c)"
| clear: "cache_reachable c \<Longrightarrow> cache_reachable (snd (ClearUserUnreadItemCount a b t c))"
| delete: "cache_reachable c \<Longrightarrow> cache_reachable (snd (DeleteUserReadedDialogMessages a b t c))"
| group_incr: "cache_reachable c \<Longrightarrow> cache_reachable (snd (IncrGroupMsgCount g l c))"
| group_clear: "cache_reachable c \<Longrightarrow> cache_reachable (snd (ClearUserGroupCounter a g t c))"

lemma cache_reachable_ok: "cache_reachable c \<Longrightarrow> cache_ok c"
  by (induction rule: cache_reachable.induct)
    (simp_all add: cache_ok_IncrUserMsgCount cache_ok_IncreaseUserUnreadMsgCount
      cache_ok_ClearUserUnreadItemCount cache_ok_ClearUserGroupCounter
      DeleteUserReadedDialogMessages_def IncrGroupMsgCount_def)

text \<open>No operation ever creates a group counter.\<close>

lemma cache_reachable_no_groups: "cache_reachable c \<Longrightarrow> group_counter_instance c = []"
proof (induction rule: cache_reachable.induct)
  case (incr c a b)
  then show ?case
    by (simp add: IncrUserMsgCount_def Cache_IncrUserMsgCount_def Let_def split: option.splits)
next
  case (unread c a b)
  then show ?case
    by (simp add: IncreaseUserUnreadMsgCount_def Cache_IncreaseUserUnreadMsgCount_def Let_def
        split: option.splits)
next
  case (clear c a b t)
  then show ?case
    by (simp add: ClearUserUnreadItemCount_def at_UnreadCount_def split: option.splits)
next
  case (group_clear c a g t)
  then show ?case
    by (simp add: ClearUserGroupCounter_def FindCounterAndLastIDs_def std_find_def)
qed (simp_all add: CacheManager_new_def DeleteUserReadedDialogMessages_def IncrGroupMsgCount_def)

lemma GetUserGroupCount_no_groups:
  "group_counter_instance c = [] \<Longrightarrow> GetUserGroupCount u t g c =
     \<lparr>item_user_id = u, item_group_id = g, group_total_count = 0, user_unread_count = 0,
      last_message_id = 0\<rparr>"
  by (simp add: GetUserGroupCount_def GetGroupTotalCount_def std_find_def Let_def)

subsection \<open>Group counts and the list of unread counts\<close>

lemma GetUserGroupCount_bound:
  "user_unread_count (GetUserGroupCount u t g c) \<le> GROUP_UNREAD_MAX_COUNTER"
  by (auto simp: GetUserGroupCount_def Let_def not_less split: option.splits)

lemma copy_unread_eq:
  "copy_unread es n m = fold (\<lambda>(k, v). std_insert k v) (take (300 - n) es) m"
proof (induction es n m rule: copy_unread.induct)
  case (2 k v es n m)
  then show ?case by (auto simp: Suc_diff_Suc take_Cons' diff_Suc split: nat.splits)
qed simp

text \<open>What counting does to the map of a user.\<close>

lemma FindUnreadCount_IncrUserMsgCount [simp]:
  "FindUnreadCount u t (IncrUserMsgCount a b c) = FindUnreadCount u t c"
  by (simp add: FindUnreadCount_def IncrUserMsgCount_def Cache_IncrUserMsgCount_def Let_def
      split: option.split)

lemma FindUnreadCount_Increase:
  "FindUnreadCount u t (IncreaseUserUnreadMsgCount a b c) =
     (if a \<noteq> 0 \<and> b \<noteq> 0 \<and> a = u
      then Some (std_modify 0 b (\<lambda>n. n + 1) (case FindUnreadCount u t c of None \<Rightarrow> [] | Some m \<Rightarrow> m))
      else FindUnreadCount u t c)"
  by (cases "a = u"; cases "std_find a (unread_instance c)")
    (auto simp: FindUnreadCount_def IncreaseUserUnreadMsgCount_def std_modify_def [of _ _ _ "[]"]
      Cache_IncreaseUserUnreadMsgCount_def GetUnreadCountByClientType_def Let_def)

end
