(* ===== verification/Message_Manager.thy ===== *)
theory Message_Manager
  imports Relationship_Manager Counter_Manager
begin

text \<open>
  \<^verbatim>\<open>ZAresMessageManagerImpl\<close> (\<^verbatim>\<open>zaresd/model/zares/zares_message_manager_impl.cc\<close>): storing and
  fetching messages. The manager works with a relationship manager and a counter manager it is
  given pointers to; the first is a record of the operations it calls, the second the cache in
  the state. The locale \<open>relationship_contract\<close> states what it relies on: the relationship
  manager does not touch the counters and gives back the connections it takes.
\<close>

subsection \<open>State\<close>

record 'w model_state = "'w db_state" +
  cache :: CacheManager

type_synonym ('w, 'z, 'a) model_prog = "(('w, 'z) model_state_scheme, 'a) state"

definition with_cache :: "(CacheManager \<Rightarrow> 'a \<times> CacheManager) \<Rightarrow> ('w, 'z, 'a) model_prog" where
  "with_cache f = State (\<lambda>s. let (x, c) = f (cache s) in (x, s\<lparr>cache := c\<rparr>))"

record ('w, 'z) relationship_ops =
  rel_check :: "u32 \<Rightarrow> u32 \<Rightarrow> ('w, 'z, bool) model_prog"
  rel_id :: "u32 \<Rightarrow> u32 \<Rightarrow> ('w, 'z, u32) model_prog"
  rel_add :: "u32 \<Rightarrow> u32 \<Rightarrow> ('w, 'z, u32) model_prog"

text \<open>The relationship manager that \<^verbatim>\<open>ZAresModelModule::Initialize\<close> plugs in.\<close>

definition zares_relationship :: "('w, 'r) db_env \<Rightarrow> ('w, 'z) relationship_ops" where
  "zares_relationship E =
     \<lparr>rel_check = CheckAndUpdateRelation E, rel_id = GetRelateId E, rel_add = AddFriendship E\<rparr>"

abbreviation (input) MESSAGE_TYPE_IM :: int where "MESSAGE_TYPE_IM \<equiv> 1"
abbreviation (input) MESSAGE_TYPE_IM_AUDIO :: int where "MESSAGE_TYPE_IM_AUDIO \<equiv> 2"
abbreviation (input) MESSAGE_TYPE_IM_GROUP :: int where "MESSAGE_TYPE_IM_GROUP \<equiv> 17"
abbreviation (input) MESSAGE_TYPE_IM_GROUP_AUDIO :: int where "MESSAGE_TYPE_IM_GROUP_AUDIO \<equiv> 18"

subsection \<open>Fetching\<close>

definition msg_ParseFromDatabase :: "('w, 'r) db_env \<Rightarrow> ServerMsg \<Rightarrow> 'r \<Rightarrow> bool \<times> ServerMsg" where
  "msg_ParseFromDatabase E server_msg answ = DB_columns
     [\<lambda>m. let (ok, mtype) = ret_u32 E answ 2 (uninit_u32 E)
           in (ok, if ok then m\<lparr>ServerMsg.msg_type := ucast mtype\<rparr> else m),
      DB_column_u32 E answ 5 ServerMsg.create_time ServerMsg.create_time_update,
      DB_column_str E answ 3 ServerMsg.msg_data ServerMsg.msg_data_update] server_msg"

text \<open>The loop over the rows fills a message for each and drops it: the vector is not changed.\<close>

definition GetMessages ::
  "('w, 'r) db_env \<Rightarrow> ('w, 'z) relationship_ops \<Rightarrow> u32 \<Rightarrow> u32 \<Rightarrow> u32 \<Rightarrow> u32 \<Rightarrow> ServerMsg list \<Rightarrow>
   ('w, 'z, nat \<times> ServerMsg list) model_prog" where
  "GetMessages E R from_uid to_uid offset count messages = do {
     relate_id \<leftarrow> rel_id R from_uid to_uid;
     if relate_id = -1 then return (0, messages)
     else ScopedPtr_DatabaseConnection (do {
       answ \<leftarrow> Query E (fmt_printf E ''SELECT id,relateId,type,content,status,created,updated FROM IMMessage WHERE relateId=%d AND fromUserId = %d AND toUserId = %d AND status = 0 ORDER BY created DESC, id DESC LIMIT %d, %d''
         [AInt relate_id, AInt from_uid, AInt to_uid, AInt offset, AInt count]);
       let messages = (case answ of
           Some rows \<Rightarrow> fold (\<lambda>row messages.
               let server_msg = new_ServerMsg\<lparr>ServerMsg.from_user_id := from_uid\<rparr>;
                   (_, server_msg) = msg_ParseFromDatabase E server_msg row
               in messages) rows messages
         | None \<Rightarrow> messages);
       return (length messages, messages)
     })
   }"

definition GetDialogMessages ::
  "u32 \<Rightarrow> u32 \<Rightarrow> u32 \<Rightarrow> u32 \<Rightarrow> ServerMsg list \<Rightarrow> ('w, 'z, nat \<times> ServerMsg list) model_prog" where
  "GetDialogMessages from_uid to_uid offset count messages = return (0, messages)"

definition GetGroupMessages ::
  "u32 \<Rightarrow> u32 \<Rightarrow> u32 \<Rightarrow> GroupMsg list \<Rightarrow> ('w, 'z, nat \<times> GroupMsg list) model_prog" where
  "GetGroupMessages gid offset count messages = return (0, messages)"

definition GetGroupMessagesFromId ::
  "u32 \<Rightarrow> u32 \<Rightarrow> u32 \<Rightarrow> GroupMsg list \<Rightarrow> ('w, 'z, nat \<times> GroupMsg list) model_prog" where
  "GetGroupMessagesFromId uid last_msg_id count group_msgs = return (0, group_msgs)"

subsection \<open>Sending\<close>

definition SendAudioMessage :: "u32 \<Rightarrow> u32 \<Rightarrow> string \<Rightarrow> u32 \<Rightarrow> ('w, 'z, bool) model_prog" where
  "SendAudioMessage from_uid to_uid content time = return False"

definition SendIMGroupMessage :: "u32 \<Rightarrow> u32 \<Rightarrow> string \<Rightarrow> u32 \<Rightarrow> ('w, 'z, bool) model_prog" where
  "SendIMGroupMessage uid to_gid content time = return True"

definition IncrCounterForNewMessage :: "u32 \<Rightarrow> u32 \<Rightarrow> u32 \<Rightarrow> ('w, 'z, unit) model_prog" where
  "IncrCounterForNewMessage from_uid to_uid count = do {
     with_cache (\<lambda>c. ((), IncrUserMsgCount from_uid to_uid c));
     with_cache (\<lambda>c. ((), IncreaseUserUnreadMsgCount from_uid to_uid c))
   }"

definition SendIMMessage ::
  "('w, 'r) db_env \<Rightarrow> ('w, 'z) relationship_ops \<Rightarrow> u32 \<Rightarrow> u32 \<Rightarrow> u32 \<Rightarrow> string \<Rightarrow> u32 \<Rightarrow>
   ('w, 'z, bool) model_prog" where
  "SendIMMessage E R from_uid to_uid mtype content time =
     (if from_uid = 0 \<or> to_uid = 0 \<or> content = '''' then return False
      else do {
        _ \<leftarrow> rel_check R from_uid to_uid;
        relate_id \<leftarrow> rel_id R from_uid to_uid;
        relate_id \<leftarrow> (if relate_id = kInvalidID then rel_add R from_uid to_uid else return relate_id);
        now \<leftarrow> NowMSTime E;
        let ctime = (ucast (now div 1000) :: u32);
        let sql = fmt_query E ''INSERT INTO IMMessage(`relateId`,`fromUserId`,`toUserId`,`content`,`type`,`created`,`updated`) VALUES(:1,:2,:3,:4,:5,:6,:7)''
          [AInt relate_id, AInt from_uid, AInt to_uid, AStr content, AInt mtype, AInt ctime, AInt ctime];
        ScopedPtr_DatabaseConnection (do {
          rc \<leftarrow> DbExecute E sql;
          let is_sucess = rc > 0;
          (if is_sucess then IncrCounterForNewMessage from_uid to_uid 1 else return ());
          return is_sucess
        })
      })"

subsection \<open>Facts\<close>

lemma run_with_cache [simp]:
  "run_state (with_cache f) s = (fst (f (cache s)), s\<lparr>cache := snd (f (cache s))\<rparr>)"
  by (simp add: with_cache_def case_prod_unfold Let_def)

lemma with_cache_conns [conns_intros]: "uses_conns n (with_cache f)"
  by (simp add: uses_conns_def)

lemma MessageManager_fetch_conns [conns_intros]:
  "uses_conns n (GetDialogMessages a b i k ms)" "uses_conns n (GetGroupMessages g i k gs)"
  "uses_conns n (GetGroupMessagesFromId g i k gs)" "uses_conns n (SendAudioMessage a b x t)"
  "uses_conns n (SendIMGroupMessage a b x t)" "uses_conns n (IncrCounterForNewMessage a b k)"
  by (simp_all add: GetDialogMessages_def GetGroupMessages_def GetGroupMessagesFromId_def
      SendAudioMessage_def SendIMGroupMessage_def IncrCounterForNewMessage_def conns_intros)

lemma preserves_more_cache: "preserves db_state.more p \<Longrightarrow> preserves cache p"
proof -
  assume p: "preserves db_state.more p"
  have "cache (snd (run_state p s)) = cache s" for s
  proof -
    have "db_state.more (snd (run_state p s)) = db_state.more s"
      using p by (simp add: preserves_def)
    then show ?thesis by (cases s; cases "snd (run_state p s)") simp
  qed
  then show ?thesis by (simp add: preserves_def)
qed

lemma preserves_cache_ops [conns_intros]:
  "preserves cache (Query E sql)" "preserves cache (DbExecute E sql)"
  "preserves cache (ExecuteInsertID E sql)" "preserves cache (NowMSTime E)"
  by (simp_all add: preserves_ops)

lemma preserves_cache_Scoped [conns_intros]:
  "preserves cache p \<Longrightarrow> preserves cache (ScopedPtr_DatabaseConnection p)"
  by (simp add: preserves_Scoped)

text \<open>What a stored message adds to the cache.\<close>

definition message_counted :: "u32 \<Rightarrow> u32 \<Rightarrow> CacheManager \<Rightarrow> CacheManager" where
  "message_counted a b c = IncreaseUserUnreadMsgCount a b (IncrUserMsgCount a b c)"

text \<open>Programs that count a message exactly when they return true.\<close>

definition counts_success :: "u32 \<Rightarrow> u32 \<Rightarrow> ('w, 'z, bool) model_prog \<Rightarrow> bool" where
  "counts_success a b p \<longleftrightarrow> (\<forall>s. cache (snd (run_state p s)) =
     (if fst (run_state p s) then message_counted a b (cache s) else cache s))"


lemma counts_success_return: "counts_success a b (return False)"
  by (simp add: counts_success_def)

lemma counts_success_bind:
  "preserves cache p \<Longrightarrow> (\<And>x. counts_success a b (q x)) \<Longrightarrow> counts_success a b (p \<bind> q)"
  by (simp add: counts_success_def preserves_def case_prod_unfold)

lemma counts_success_store:
  "counts_success a b (ScopedPtr_DatabaseConnection (do {
     rc \<leftarrow> DbExecute E sql;
     let is_sucess = rc > 0;
     (if is_sucess then IncrCounterForNewMessage a b 1 else return ());
     return is_sucess
   }))"
  by (simp add: counts_success_def run_ScopedPtr Let_def db_ops case_prod_unfold
      IncrCounterForNewMessage_def message_counted_def)

locale relationship_contract =
  fixes R :: "('w, 'z) relationship_ops"
  assumes check_conns: "uses_conns 1 (rel_check R a b)"
    and id_conns: "uses_conns 1 (rel_id R a b)"
    and add_conns: "uses_conns 1 (rel_add R a b)"
    and check_counters: "preserves cache (rel_check R a b)"
    and id_counters: "preserves cache (rel_id R a b)"
    and add_counters: "preserves cache (rel_add R a b)"
begin

lemmas rel_conns = check_conns id_conns add_conns

lemma SendIMMessage_conns: "uses_conns 1 (SendIMMessage E R a b m x t)"
  unfolding SendIMMessage_def
  by (intro conns_intros rel_conns | simp only: One_nat_def)+

lemma GetMessages_conns: "uses_conns 1 (GetMessages E R a b i k ms)"
  unfolding GetMessages_def
  by (intro conns_intros rel_conns | simp only: One_nat_def)+

lemma GetMessages_counters: "preserves cache (GetMessages E R a b i k ms)"
  unfolding GetMessages_def Let_def by (intro conns_intros id_counters)

text \<open>A message is counted exactly when it was stored.\<close>

lemma SendIMMessage_counters: "counts_success a b (SendIMMessage E R a b m x t)"
proof (cases "a = 0 \<or> b = 0 \<or> x = ''''")
  case False
  then show ?thesis
    unfolding SendIMMessage_def Let_def
    by (simp only: if_False, intro counts_success_bind check_counters id_counters
        conns_intros add_counters counts_success_store [unfolded Let_def])
qed (simp add: SendIMMessage_def counts_success_return)

lemma SendIMMessage_guard:
  "fst (run_state (SendIMMessage E R a b m x t) s) \<Longrightarrow> a \<noteq> 0 \<and> b \<noteq> 0 \<and> x \<noteq> ''''"
  by (auto simp: SendIMMessage_def split: if_splits)

end


interpretation zr: relationship_contract "zares_relationship E"
  by unfold_locales
    (simp_all only: zares_relationship_def relationship_ops.select_convs
      CheckAndUpdateRelation_conns GetRelateId_conns AddFriendship_conns preserves_more_cache)

text \<open>No message is ever delivered by \<open>GetMessages\<close>: the vector stays as it was.\<close>

lemma GetMessages_nothing: "snd (fst (run_state (GetMessages E R a b i k ms) s)) = ms"
proof -
  have "fold (\<lambda>row messages. let server_msg = new_ServerMsg\<lparr>ServerMsg.from_user_id := a\<rparr>;
      (_, server_msg) = msg_ParseFromDatabase E server_msg row in messages) rows ms = ms" for rows
    by (induction rows) (simp_all add: Let_def case_prod_unfold)
  then show ?thesis
    by (simp add: GetMessages_def case_prod_unfold run_ScopedPtr Query_def Let_def split: option.split)
qed

end
