(* ===== verification/User_Manager.thy ===== *)
theory User_Manager
  imports Database Base_Data
begin

text \<open>
  The managers that only read: \<^verbatim>\<open>ZAresUserManagerImpl\<close>, \<^verbatim>\<open>ZAresDepartmentManagerImpl\<close> and
  \<^verbatim>\<open>ZAresLoginManagerImpl\<close> (\<^verbatim>\<open>zaresd/model/zares/zares_user_manager_impl.cc\<close>,
  \<^verbatim>\<open>zares_department_manager_impl.cc\<close>, \<^verbatim>\<open>zares_login_manager_impl.cc\<close>). Output parameters are
  given as their value before the call and returned as their value after it; the checks of these
  pointers against null have no counterpart. A returned pointer is a truth value.
\<close>

subsection \<open>\<^verbatim>\<open>ZAresUserManagerImpl\<close>\<close>

definition user_ParseFromDatabase :: "('w, 'r) db_env \<Rightarrow> UserInfo \<Rightarrow> 'r \<Rightarrow> bool \<times> UserInfo" where
  "user_ParseFromDatabase E user_info answ = DB_columns
     [DB_column_str E answ 0 UserInfo.name UserInfo.name_update,
      DB_column_u32 E answ 1 UserInfo.user_id UserInfo.user_id_update,
      DB_column_u32 E answ 2 UserInfo.role_status UserInfo.role_status_update,
      DB_column_str E answ 3 UserInfo.title UserInfo.title_update,
      DB_column_u32 E answ 4 UserInfo.depart_id UserInfo.depart_id_update,
      DB_column_u32 E answ 5 UserInfo.sex UserInfo.sex_update,
      DB_column_u32 E answ 6 UserInfo.job_num UserInfo.job_num_update,
      DB_column_str E answ 7 UserInfo.telphone UserInfo.telphone_update,
      DB_column_str E answ 8 UserInfo.email UserInfo.email_update,
      DB_column_str E answ 9 UserInfo.position UserInfo.position_update,
      DB_column_str E answ 10 UserInfo.avatar_url UserInfo.avatar_url_update,
      DB_column_str E answ 11 UserInfo.nick_name UserInfo.nick_name_update] user_info"

text \<open>The loop that appends a user for each row.\<close>

definition push_users :: "('w, 'r) db_env \<Rightarrow> 'r list \<Rightarrow> UserInfo list \<Rightarrow> UserInfo list" where
  "push_users E = fold (\<lambda>row user_infos.
     user_infos @ [snd (user_ParseFromDatabase E new_UserInfo row)])"

definition GetUserInfo_by_id ::
  "('w, 'r) db_env \<Rightarrow> u32 \<Rightarrow> UserInfo \<Rightarrow> ('w, 'z, bool \<times> UserInfo) db_prog" where
  "GetUserInfo_by_id E uid user_info =
     (if uid = 0 then return (False, user_info)
      else ScopedPtr_DatabaseConnection (do {
        answ \<leftarrow> Query E (fmt_printf E ''SELECT uname,id,status,title,departid,sex,jobnumber,telphone,mail,position,avatar,nickname FROM imusers WHERE id=%d'' [AInt uid]);
        case answ of
          Some rows \<Rightarrow>
            (case rows of
               row # _ \<Rightarrow> return (True, snd (user_ParseFromDatabase E user_info row))
             | [] \<Rightarrow> return (False, user_info))
        | None \<Rightarrow> return (False, user_info)
      }))"

definition GetUserInfo_by_ids ::
  "('w, 'r) db_env \<Rightarrow> u32 list \<Rightarrow> UserInfo list \<Rightarrow> ('w, 'z, bool \<times> UserInfo list) db_prog" where
  "GetUserInfo_by_ids E user_ids user_infos =
     (if user_ids = [] then return (False, user_infos)
      else ScopedPtr_DatabaseConnection (do {
        let s_user_ids = fmt_join E user_ids CHR '','';
        answ \<leftarrow> Query E (fmt_printf E ''SELECT uname,id,status,title,departId,sex,jobNumber,telphone,mail,position,avatar,nickName FROM IMUsers WHERE id IN (%s)'' [AStr s_user_ids]);
        case answ of
          Some rows \<Rightarrow> return (True, push_users E rows user_infos)
        | None \<Rightarrow> return (False, user_infos)
      }))"

definition GetUserInfo_by_name ::
  "('w, 'r) db_env \<Rightarrow> string \<Rightarrow> UserInfo \<Rightarrow> ('w, 'z, bool \<times> UserInfo) db_prog" where
  "GetUserInfo_by_name E uname user_info =
     (if uname = '''' then return (False, user_info)
      else ScopedPtr_DatabaseConnection (do {
        answ \<leftarrow> Query E (fmt_printf E (''SELECT uname,id,status,title,departid,sex,jobnumber,telphone,mail,position,avatar,nickname FROM imusers WHERE uname in('' @ [CHR 0x27] @ ''%s'' @ [CHR 0x27] @ '')'') [AStr uname]);
        case answ of
          Some rows \<Rightarrow>
            (case rows of
               row # _ \<Rightarrow> return (True, snd (user_ParseFromDatabase E user_info row))
             | [] \<Rightarrow> return (False, user_info))
        | None \<Rightarrow> return (False, user_info)
      }))"

definition GetUserInfo_by_names ::
  "('w, 'r) db_env \<Rightarrow> string list \<Rightarrow> UserInfo list \<Rightarrow> ('w, 'z, bool \<times> UserInfo list) db_prog" where
  "GetUserInfo_by_names E user_names user_infos =
     (if user_names = [] then return (False, user_infos)
      else ScopedPtr_DatabaseConnection (do {
        answ \<leftarrow> Query E (fmt_printf E ''SELECT uname,id,status,title,departid,sex,jobnumber,telphone,mail,position,avatar,nickname FROM imusers WHERE id in (%s)'' [AStr (fmt_join_str E user_names CHR '','')]);
        case answ of
          Some rows \<Rightarrow> return (True, push_users E rows user_infos)
        | None \<Rightarrow> return (False, user_infos)
      }))"

definition GetAllUserInfo ::
  "('w, 'r) db_env \<Rightarrow> UserInfo list \<Rightarrow> ('w, 'z, bool \<times> UserInfo list) db_prog" where
  "GetAllUserInfo E user_infos =
     ScopedPtr_DatabaseConnection (do {
       answ \<leftarrow> Query E ''SELECT uname,id,status,title,departid,sex,jobnumber,telphone,mail,position,avatar,nickname FROM imusers WHERE status = 0 LIMIT 5000'';
       case answ of
         Some rows \<Rightarrow> return (True, push_users E rows user_infos)
       | None \<Rightarrow> return (False, user_infos)
     })"

subsection \<open>\<^verbatim>\<open>ZAresDepartmentManagerImpl\<close>\<close>

definition department_ParseFromDatabase ::
  "('w, 'r) db_env \<Rightarrow> DepartmentInfo \<Rightarrow> 'r \<Rightarrow> bool \<times> DepartmentInfo" where
  "department_ParseFromDatabase E department_info answ = DB_columns
     [DB_column_u32 E answ 0 DepartmentInfo.depart_id DepartmentInfo.depart_id_update,
      DB_column_str E answ 1 DepartmentInfo.title DepartmentInfo.title_update,
      DB_column_u32 E answ 2 DepartmentInfo.leader DepartmentInfo.leader_update,
      DB_column_u32 E answ 3 DepartmentInfo.parent_depart_id DepartmentInfo.parent_depart_id_update,
      DB_column_u32 E answ 4 DepartmentInfo.status DepartmentInfo.status_update,
      DB_column_str E answ 5 DepartmentInfo.description DepartmentInfo.description_update]
     department_info"

definition GetDepartmentInfos ::
  "('w, 'r) db_env \<Rightarrow> DepartmentInfo list \<Rightarrow> ('w, 'z, bool \<times> DepartmentInfo list) db_prog" where
  "GetDepartmentInfos E department_infos =
     ScopedPtr_DatabaseConnection (do {
       answ \<leftarrow> Query E ''SELECT `id`,`title`,`leader`,`pid`,`status`,`desc` FROM IMDepartment WHERE status = 0'';
       case answ of
         Some rows \<Rightarrow> return (True, fold (\<lambda>row infos.
             infos @ [snd (department_ParseFromDatabase E new_DepartmentInfo row)])
             rows department_infos)
       | None \<Rightarrow> return (False, department_infos)
     })"

subsection \<open>\<^verbatim>\<open>ZAresLoginManagerImpl\<close>\<close>

definition auth_query :: "('w, 'r) db_env \<Rightarrow> string \<Rightarrow> string" where
  "auth_query E uname =
     fmt_printf E (''SELECT pwd FROM imusers WHERE uname='' @ [CHR 0x27] @ ''%s'' @ [CHR 0x27])
       [AStr uname]"

definition Auth :: "('w, 'r) db_env \<Rightarrow> string \<Rightarrow> string \<Rightarrow> ('w, 'z, bool) db_prog" where
  "Auth E uname passwd =
     ScopedPtr_DatabaseConnection (do {
       answ \<leftarrow> Query E (auth_query E uname);
       let is_authed = True;
       case answ of
         Some rows \<Rightarrow>
           (case rows of
              row # _ \<Rightarrow>
                let pwd = row_str E row 0 ''''
                in return (if pwd \<noteq> passwd then False else is_authed)
            | [] \<Rightarrow> return is_authed)
       | None \<Rightarrow> return is_authed
     })"

subsection \<open>Facts\<close>

lemma push_users_eq:
  "push_users E rows us = us @ map (\<lambda>row. snd (user_ParseFromDatabase E new_UserInfo row)) rows"
  by (simp add: push_users_def fold_append)

lemma GetUserInfo_conns [conns_intros]:
  "uses_conns 1 (GetUserInfo_by_id E uid u)" "preserves db_state.more (GetUserInfo_by_id E uid u)"
  "uses_conns 1 (GetUserInfo_by_ids E uids us)" "preserves db_state.more (GetUserInfo_by_ids E uids us)"
  "uses_conns 1 (GetUserInfo_by_name E un u)" "preserves db_state.more (GetUserInfo_by_name E un u)"
  "uses_conns 1 (GetUserInfo_by_names E uns us)" "preserves db_state.more (GetUserInfo_by_names E uns us)"
  "uses_conns 1 (GetAllUserInfo E us)" "preserves db_state.more (GetAllUserInfo E us)"
  unfolding GetUserInfo_by_id_def GetUserInfo_by_ids_def GetUserInfo_by_name_def
    GetUserInfo_by_names_def GetAllUserInfo_def One_nat_def
  by (intro conns_intros)+

lemma GetDepartmentInfos_conns [conns_intros]:
  "uses_conns 1 (GetDepartmentInfos E ds)" "preserves db_state.more (GetDepartmentInfos E ds)"
  unfolding GetDepartmentInfos_def One_nat_def by (intro conns_intros)+

lemma Auth_conns [conns_intros]: "uses_conns 1 (Auth E u p)" "preserves db_state.more (Auth E u p)"
  unfolding Auth_def One_nat_def by (intro conns_intros)+

text \<open>The results in terms of the answer of the database.\<close>

lemma Auth_result:
  "fst (run_state (Auth E u p) s) =
     (case fst (db_query E (auth_query E u) (world s)) of
        Some (row # _) \<Rightarrow> row_str E row 0 '''' = p
      | _ \<Rightarrow> True)"
  by (simp add: Auth_def run_ScopedPtr Query_def Let_def split: option.split list.split)

end
