(* ===== verification/File_Manager.thy ===== *)
theory File_Manager
  imports Database Base_Data
begin

text \<open>
  \<^verbatim>\<open>ZAresFileManagerImpl\<close> (\<^verbatim>\<open>zaresd/model/file_manager.h\<close>,
  \<^verbatim>\<open>zaresd/model/zares/zares_file_manager_impl.cc\<close>): the records of offline files.
\<close>

record TransmitFile =
  id_num :: u32
  from_user :: u32
  to_user :: u32
  task :: string
  file_path :: string
  size_bytes :: u32
  stat :: u32
  created_at :: u32
  updated_at :: u32

subsection \<open>Operations\<close>

definition GetUserFiles ::
  "('w, 'r) db_env \<Rightarrow> u32 \<Rightarrow> OfflineFile list \<Rightarrow> ('w, 'z, nat \<times> OfflineFile list) db_prog" where
  "GetUserFiles E to_uid files =
     (if to_uid = 0 then return (0, files)
      else do {
        now \<leftarrow> NowMSTime E;
        let t = (ucast (now - 7 * 24 * 3600) :: u32);
        let sql = fmt_printf E ''SELECT id,userId,toUserId,taskId,filePath,status,created,updated,fsize FROM IMTransmitFile WHERE toUserId = %d AND created > %d AND status = 1 ORDER BY created DESC LIMIT 50''
                    [AInt to_uid, AInt t];
        ScopedPtr_DatabaseConnection (do {
          answ \<leftarrow> Query E sql;
          case answ of
            Some rows \<Rightarrow>
              (let files = fold (\<lambda>row files. files @
                   [new_OfflineFile
                     \<lparr>OfflineFile.from_id := row_u32 E row 1 (OfflineFile.from_id new_OfflineFile),
                      OfflineFile.task_id := row_str E row 3 (OfflineFile.task_id new_OfflineFile),
                      OfflineFile.file_name := row_str E row 4 (OfflineFile.file_name new_OfflineFile),
                      OfflineFile.file_size := row_u32 E row 8 (OfflineFile.file_size new_OfflineFile)\<rparr>])
                   rows files
               in return (length files, files))
          | None \<Rightarrow> return (0, files)
        })
      })"

definition SaveFileRecord ::
  "('w, 'r) db_env \<Rightarrow> u32 \<Rightarrow> u32 \<Rightarrow> string \<Rightarrow> string \<Rightarrow> u32 \<Rightarrow> ('w, 'z, bool) db_prog" where
  "SaveFileRecord E uid to_uid taskid path fsize =
     (if uid = 0 \<or> to_uid = 0 \<or> path = '''' then return False
      else do {
        now_ms \<leftarrow> NowMSTime E;
        let now = (ucast now_ms :: u32);
        let sql = fmt_query E ''INSERT INTO IMTransmitFile (userId, toUserId, taskId, filePath, created, updated,fsize) VALUES (:1,:2,:3,:4:5,:6,:7,:8)''
                    [AInt uid, AInt to_uid, AStr taskid, AStr path, AInt now, AInt now, AInt fsize];
        ScopedPtr_DatabaseConnection (do {
          rc \<leftarrow> DbExecute E sql;
          return True
        })
      })"

definition DeleteFileRecord :: "('w, 'r) db_env \<Rightarrow> string \<Rightarrow> ('w, 'z, bool) db_prog" where
  "DeleteFileRecord E taskid =
     (if taskid = '''' then return False
      else do {
        now \<leftarrow> NowMSTime E;
        let sql = fmt_printf E (''UPDATE IMTransmitFile SET status = 0, updated = %d WHERE taskId = '' @ [CHR 0x27] @ ''%s'' @ [CHR 0x27] @ '' LIMIT 1'')
                    [AInt64 now, AStr taskid];
        ScopedPtr_DatabaseConnection (do {
          rc \<leftarrow> DbExecute E sql;
          return True
        })
      })"

definition GetFileRecord ::
  "('w, 'r) db_env \<Rightarrow> string \<Rightarrow> TransmitFile \<Rightarrow> ('w, 'z, bool \<times> TransmitFile) db_prog" where
  "GetFileRecord E taskid file =
     (if taskid = '''' then return (False, file)
      else
        let sql = fmt_printf E (''SELECT id,userId,toUserId,taskId,filePath,status,created,updated,fsize FROM IMTransmitFile WHERE taskId = '' @ [CHR 0x27] @ ''%s'' @ [CHR 0x27])
                    [AStr taskid]
        in ScopedPtr_DatabaseConnection (do {
          answ \<leftarrow> Query E sql;
          case answ of
            Some rows \<Rightarrow>
              (case rows of
                 row # _ \<Rightarrow> return (True, file
                   \<lparr>id_num := row_u32 E row 0 (id_num file),
                    from_user := row_u32 E row 1 (from_user file),
                    to_user := row_u32 E row 2 (to_user file),
                    task := row_str E row 3 (task file),
                    file_path := row_str E row 4 (file_path file),
                    stat := row_u32 E row 5 (stat file),
                    created_at := row_u32 E row 6 (created_at file),
                    updated_at := row_u32 E row 7 (updated_at file),
                    size_bytes := row_u32 E row 8 (size_bytes file)\<rparr>)
               | [] \<Rightarrow> return (False, file))
          | None \<Rightarrow> return (False, file)
        }))"

subsection \<open>Use of connections\<close>

lemma FileManager_conns [conns_intros]:
  "uses_conns 1 (GetUserFiles E u fs)" "preserves db_state.more (GetUserFiles E u fs)"
  "uses_conns 1 (SaveFileRecord E u v t p n)" "preserves db_state.more (SaveFileRecord E u v t p n)"
  "uses_conns 1 (DeleteFileRecord E t)" "preserves db_state.more (DeleteFileRecord E t)"
  "uses_conns 1 (GetFileRecord E t f)" "preserves db_state.more (GetFileRecord E t f)"
  unfolding GetUserFiles_def SaveFileRecord_def DeleteFileRecord_def GetFileRecord_def One_nat_def
  by (intro conns_intros)+

end
