(* ===== verification/Group_Manager.thy ===== *)
theory Group_Manager
  imports Database Base_Data Std_Map
begin

text \<open>
  \<^verbatim>\<open>ZAresGroupManagerImpl\<close> (\<^verbatim>\<open>zaresd/model/group_manager.h\<close>,
  \<^verbatim>\<open>zaresd/model/zares/zares_group_manager_impl.cc\<close>): the groups and their members. Output
  parameters are given as their value before the call and returned as their value after it; the
  checks of these pointers against null have no counterpart.
\<close>

subsection \<open>Data\<close>

record GroupRelationInfo =
  rel_group_id :: u32
  rel_user_id :: u32

type_synonym GroupRelationInfoListMap = "(u32, GroupRelationInfo list) std_map"

record UserStatus =
  member_status :: u32
  member_id :: u32

definition group_ParseFromDatabase :: "('w, 'r) db_env \<Rightarrow> GroupInfo \<Rightarrow> 'r \<Rightarrow> bool \<times> GroupInfo" where
  "group_ParseFromDatabase E group_info answ = DB_columns
     [DB_column_u32 E answ 0 GroupInfo.group_id GroupInfo.group_id_update,
      DB_column_str E answ 1 GroupInfo.group_name GroupInfo.group_name_update,
      DB_column_str E answ 2 GroupInfo.group_avatar GroupInfo.group_avatar_update,
      DB_column_u32 E answ 3 GroupInfo.group_creator_id GroupInfo.group_creator_id_update,
      DB_column_u32 E answ 4 GroupInfo.group_type GroupInfo.group_type_update,
      DB_column_u32 E answ 5 GroupInfo.group_updated GroupInfo.group_updated_update] group_info"

definition push_groups :: "('w, 'r) db_env \<Rightarrow> 'r list \<Rightarrow> GroupInfo list \<Rightarrow> GroupInfo list" where
  "push_groups E = fold (\<lambda>row groups.
     groups @ [snd (group_ParseFromDatabase E new_GroupInfo row)])"

definition read_relation :: "('w, 'r) db_env \<Rightarrow> 'r \<Rightarrow> GroupRelationInfo" where
  "read_relation E row =
     \<lparr>rel_group_id = row_u32 E row 0 (uninit_u32 E), rel_user_id = row_u32 E row 1 (uninit_u32 E)\<rparr>"

definition read_status :: "('w, 'r) db_env \<Rightarrow> 'r \<Rightarrow> UserStatus" where
  "read_status E row =
     \<lparr>member_status = row_u32 E row 0 (uninit_u32 E), member_id = row_u32 E row 1 (uninit_u32 E)\<rparr>"

subsection \<open>Queries\<close>

definition GetGroupsByUserId ::
  "('w, 'r) db_env \<Rightarrow> u32 \<Rightarrow> bool \<Rightarrow> GroupInfo list \<Rightarrow> ('w, 'z, nat \<times> GroupInfo list) db_prog" where
  "GetGroupsByUserId E uid is_fixed_group groups =
     (if uid = 0 then return (0, groups)
      else ScopedPtr_DatabaseConnection (do {
        answ \<leftarrow> Query E (fmt_printf E ''SELECT groupId,groupName,avatar,createUserId,groupType,updated FROM IMGroup WHERE groupId IN (SELECT groupId FROM (SELECT groupId FROM IMGroupRelation WHERE userId=%d AND status>=1 %s ORDER BY created DESC, id DESC LIMIT %d) AS tp)''
          [AInt uid, AStr (if is_fixed_group then '' AND groupType = 1 '' else ''''),
           AInt (if is_fixed_group then 200 else 5000)]);
        let groups = (case answ of Some rows \<Rightarrow> push_groups E rows groups | None \<Rightarrow> groups);
        return (length groups, groups)
      }))"

definition GetGroupIdsByUserId ::
  "('w, 'r) db_env \<Rightarrow> u32 \<Rightarrow> bool \<Rightarrow> u32 list \<Rightarrow> ('w, 'z, nat \<times> u32 list) db_prog" where
  "GetGroupIdsByUserId E uid is_fixed_group group_ids =
     (if uid = 0 then return (0, group_ids)
      else ScopedPtr_DatabaseConnection (do {
        answ \<leftarrow> Query E (fmt_printf E ''SELECT groupId FROM IMGroup WHERE groupId IN (SELECT groupId FROM (SELECT groupId FROM IMGroupRelation WHERE userId=%d AND status>=1 %s ORDER BY created DESC, id DESC LIMIT %d) AS tp)''
          [AInt uid, AStr (if is_fixed_group then '' AND groupType = 1 '' else ''''),
           AInt (if is_fixed_group then 200 else 5000)]);
        let group_ids = (case answ of
            Some rows \<Rightarrow> fold (\<lambda>row ids. ids @ [row_u32 E row 0 (uninit_u32 E)]) rows group_ids
          | None \<Rightarrow> group_ids);
        return (length group_ids, group_ids)
      }))"

text \<open>A row is appended to the list of its group, which is inserted empty first when it is not
  there.\<close>

definition push_relation ::
  "('w, 'r) db_env \<Rightarrow> 'r \<Rightarrow> GroupRelationInfoListMap \<Rightarrow> GroupRelationInfoListMap" where
  "push_relation E row relations_map =
     (let relation = read_relation E row
      in case std_find (rel_group_id relation) relations_map of
          Some relations \<Rightarrow> std_assign (rel_group_id relation) (relations @ [relation]) relations_map
        | None \<Rightarrow>
            let relations_map = std_insert (rel_group_id relation) [] relations_map
            in std_modify [] (rel_group_id relation) (\<lambda>l. l @ [relation]) relations_map)"

definition GetGroupMembers_map ::
  "('w, 'r) db_env \<Rightarrow> u32 list \<Rightarrow> GroupRelationInfoListMap \<Rightarrow>
   ('w, 'z, nat \<times> GroupRelationInfoListMap) db_prog" where
  "GetGroupMembers_map E group_ids relations_map =
     (if group_ids = [] then return (0, relations_map)
      else
        let s_group_ids = fmt_join E group_ids CHR '','';
            sql = fmt_printf E ''SELECT groupId,userId FROM IMGroupRelation WHERE groupId in (%s) AND status >= 1 ORDER BY created ASC LIMIT 10000'' [AStr s_group_ids]
        in ScopedPtr_DatabaseConnection (do {
          answ \<leftarrow> Query E sql;
          let relations_map = (case answ of
              Some rows \<Rightarrow> fold (push_relation E) rows relations_map
            | None \<Rightarrow> relations_map);
          return (length relations_map, relations_map)
        }))"

definition GetGroupMembers ::
  "('w, 'r) db_env \<Rightarrow> u32 \<Rightarrow> GroupRelationInfo list \<Rightarrow>
   ('w, 'z, nat \<times> GroupRelationInfo list) db_prog" where
  "GetGroupMembers E gid relations =
     (if gid = 0 then return (0, relations)
      else
        let sql = fmt_printf E ''SELECT groupId,userId FROM IMGroupRelation WHERE groupId=%d AND status >= 1 ORDER BY created ASC LIMIT 10000'' [AInt gid]
        in ScopedPtr_DatabaseConnection (do {
          answ \<leftarrow> Query E sql;
          let relations = (case answ of
              Some rows \<Rightarrow> fold (\<lambda>row l. l @ [read_relation E row]) rows relations
            | None \<Rightarrow> relations);
          return (length relations, relations)
        }))"

definition GetGroupInfo ::
  "('w, 'r) db_env \<Rightarrow> u32 \<Rightarrow> GroupInfo \<Rightarrow> ('w, 'z, bool \<times> GroupInfo) db_prog" where
  "GetGroupInfo E gid grp =
     (if gid = 0 then return (False, grp)
      else
        let sql = fmt_printf E ''SELECT groupId,groupName,avatar,createUserId,groupType,updated FROM IMGroup WHERE groupId=%d AND status>=1'' [AInt gid]
        in ScopedPtr_DatabaseConnection (do {
          answ \<leftarrow> Query E sql;
          case answ of
            Some rows \<Rightarrow>
              (case rows of
                 row # _ \<Rightarrow> return (True, snd (group_ParseFromDatabase E grp row))
               | [] \<Rightarrow> return (False, grp))
          | None \<Rightarrow> return (False, grp)
        }))"

definition GetRecentGroupsByUserId ::
  "('w, 'r) db_env \<Rightarrow> u32 \<Rightarrow> GroupInfo list \<Rightarrow> ('w, 'z, nat \<times> GroupInfo list) db_prog" where
  "GetRecentGroupsByUserId E uid groups =
     (if uid = 0 then return (0, groups)
      else ScopedPtr_DatabaseConnection (do {
        answ \<leftarrow> Query E (fmt_printf E ''SELECT groupId,groupName,avatar,createUserId,groupType,updated FROM IMGroup WHERE groupId IN (SELECT groupId FROM (SELECT groupId FROM IMGroupRelation WHERE userId=%d AND status=1 ORDER BY updated DESC, id DESC LIMIT 100) AS tp)'' [AInt uid]);
        let groups = (case answ of Some rows \<Rightarrow> push_groups E rows groups | None \<Rightarrow> groups);
        return (length groups, groups)
      }))"

subsection \<open>Joining and quitting\<close>

text \<open>The statuses of the given users in the group; the first row of a user counts.\<close>

definition read_statuses ::
  "('w, 'r) db_env \<Rightarrow> 'r list option \<Rightarrow> (u32, UserStatus) std_map" where
  "read_statuses E answ = (case answ of
     Some rows \<Rightarrow> fold (\<lambda>row m. let user_status = read_status E row
                              in std_insert (member_id user_status) user_status m) rows []
   | None \<Rightarrow> [])"

text \<open>The loop that builds the list of new members: whether no member was appended yet, and the
  statement so far.\<close>

definition insert_member ::
  "('w, 'r) db_env \<Rightarrow> u32 \<Rightarrow> GroupInfo \<Rightarrow> u32 \<Rightarrow> (u32, UserStatus) std_map \<Rightarrow> u32 \<Rightarrow>
   bool \<times> string \<Rightarrow> bool \<times> string" where
  "insert_member E gid grp now user_statuss uid = (\<lambda>(is_first, sql).
     case std_find uid user_statuss of
       None \<Rightarrow>
         let (is_first, sql) = (if \<not> is_first then (is_first, sql @ '', '') else (False, sql))
         in (is_first, sql @ fmt_printf E ''(%d,%d,%d,%d,%d,%d)''
               [AInt gid, AInt uid,
                AInt (if GroupInfo.group_creator_id grp = uid then 1 else 0),
                AInt (GroupInfo.group_type grp), AInt now, AInt now])
     | Some _ \<Rightarrow> (is_first, sql))"

text \<open>The ids, separated by commas, of the users whose status satisfies a test.\<close>

definition join_if :: "('w, 'r) db_env \<Rightarrow> (u32 \<Rightarrow> bool) \<Rightarrow> (u32, UserStatus) std_map \<Rightarrow> string" where
  "join_if E test user_statuss =
     fold (\<lambda>(uid, user_status) sql.
        if test (member_status user_status)
        then (if sql \<noteq> '''' then sql @ '','' else sql) @ fmt_uint E uid
        else sql) user_statuss ''''"

definition JoinGroup ::
  "('w, 'r) db_env \<Rightarrow> u32 list \<Rightarrow> u32 \<Rightarrow> GroupInfo \<Rightarrow> ('w, 'z, bool) db_prog" where
  "JoinGroup E user_ids gid grp =
     (if user_ids = [] \<or> gid = 0 then return False
      else if gid \<noteq> GroupInfo.group_id grp then return False
      else do {
        now_ms \<leftarrow> NowMSTime E;
        let now = (ucast now_ms :: u32);
        let s_user_ids = fmt_join E user_ids CHR '','';
        let sql = fmt_printf E ''SELECT status,userId FROM IMGroupRelation WHERE groupId = %d AND userId IN (%s) GROUP BY userId ORDER BY id''
                    [AInt gid, AStr s_user_ids];
        ScopedPtr_DatabaseConnection (do {
          answ \<leftarrow> Query E sql;
          let user_statuss = read_statuses E answ;
          let sql = ''INSERT INTO IMGroupRelation(`groupId`, `userId`, `title`, `groupType`, `created`, `updated`) VALUES '';
          let (is_first, sql) =
            fold (insert_member E gid grp now user_statuss) user_ids (True, sql);
          insert_count \<leftarrow> (if \<not> is_first then DbExecute E sql else return 0);
          let sql = join_if E (\<lambda>st. st = 0) user_statuss;
          update_count \<leftarrow> (if sql \<noteq> ''''
             then DbExecute E (fmt_printf E ''UPDATE IMGroupRelation SET status = 1 WHERE groupId = %d AND userId IN (%s)''
                             [AInt gid, AStr sql])
             else return 0);
          rc \<leftarrow> DbExecute E (fmt_printf E ''UPDATE IMGroup SET memberCnt = memberCnt + %d WHERE groupId = %d LIMIT 1''
                           [AInt (of_int (insert_count + update_count)), AInt gid]);
          return True
        })
      })"

definition QuitGroup ::
  "('w, 'r) db_env \<Rightarrow> u32 \<Rightarrow> u32 list \<Rightarrow> u32 \<Rightarrow> GroupInfo \<Rightarrow> ('w, 'z, bool) db_prog" where
  "QuitGroup E request_uid quit_user_ids gid grp =
     (if quit_user_ids = [] \<or> gid = 0 \<or> request_uid = 0 \<or> gid = 0 then return False
      else if request_uid \<noteq> GroupInfo.group_creator_id grp \<or> gid \<noteq> GroupInfo.group_id grp
      then return False
      else do {
        now_ms \<leftarrow> NowMSTime E;
        let now = (ucast now_ms :: u32);
        let s_quit_user_ids = fmt_join E quit_user_ids CHR '','';
        let sql = fmt_printf E ''SELECT status,userId FROM IMGroupRelation WHERE groupId = %d AND userId in (%s) GROUP BY userId ORDER BY id''
                    [AInt gid, AStr s_quit_user_ids];
        ScopedPtr_DatabaseConnection (do {
          answ \<leftarrow> Query E sql;
          let user_statuss = read_statuses E answ;
          let sql = join_if E (\<lambda>st. st \<noteq> 0) user_statuss;
          update_count \<leftarrow> (if sql \<noteq> ''''
             then DbExecute E (fmt_printf E ''UPDATE IMGroupRelation SET status = 0, updated=%d  WHERE groupId = %d AND userId IN (%s)''
                             [AInt now, AInt gid, AStr sql])
             else return 0);
          rc \<leftarrow> DbExecute E (fmt_printf E ''UPDATE IMGroup SET memberCnt = memberCnt - %d, updated = %d WHERE groupId = %d LIMIT 1''
                           [AInt (of_int update_count), AInt now, AInt gid]);
          return True
        })
      })"

subsection \<open>Creating a group\<close>

definition CreateGroup ::
  "('w, 'r) db_env \<Rightarrow> u32 \<Rightarrow> string \<Rightarrow> u32 \<Rightarrow> string \<Rightarrow> string \<Rightarrow> u32 list \<Rightarrow> GroupInfo \<Rightarrow>
   ('w, 'z, bool \<times> GroupInfo) db_prog" where
  "CreateGroup E create_uid gname gtype avatar adesc member_user_ids grp =
     (if create_uid = 0 \<or> gname = '''' \<or> gtype = 0 then return (False, grp)
      else do {
        now_ms \<leftarrow> NowMSTime E;
        let grp = grp\<lparr>GroupInfo.group_id := 0, GroupInfo.group_creator_id := create_uid,
          GroupInfo.group_name := gname, GroupInfo.group_avatar := avatar,
          GroupInfo.group_type := gtype, GroupInfo.group_updated := ucast (now_ms div 1000)\<rparr>;
        now_ms \<leftarrow> NowMSTime E;
        let now = (ucast (now_ms div 1000) :: u32);
        let sql = fmt_query E ''INSERT INTO IMGroup(`groupName`,`avatar`,`adesc`,`createUserId`,`groupType`,`memberCnt`,`created`,`updated`) VALUES(:1,:2,:3,:4,:5,0,:7,:8)''
          [AStr gname, AStr avatar, AStr adesc, AInt create_uid, AInt gtype, AInt now, AInt now];
        (gid, grp) \<leftarrow> ScopedPtr_DatabaseConnection (do {
          gid \<leftarrow> ExecuteInsertID E sql;
          if gid > 0
          then do {
            now_ms \<leftarrow> NowMSTime E;
            return (gid, grp\<lparr>GroupInfo.group_id := ucast gid,
              GroupInfo.group_creator_id := create_uid, GroupInfo.group_name := gname,
              GroupInfo.group_avatar := avatar, GroupInfo.group_type := gtype,
              GroupInfo.group_updated := ucast now_ms\<rparr>)
          }
          else return (gid, grp)
        });
        if gid > 0
        then do {
          joined \<leftarrow> JoinGroup E member_user_ids (ucast gid) grp;
          return (joined, grp)
        }
        else return (False, grp)
      })"

subsection \<open>Use of connections\<close>

lemma GroupManager_queries_conns [conns_intros]:
  "uses_conns 1 (GetGroupsByUserId E u b gs)" "preserves db_state.more (GetGroupsByUserId E u b gs)"
  "uses_conns 1 (GetGroupIdsByUserId E u b ids)" "preserves db_state.more (GetGroupIdsByUserId E u b ids)"
  "uses_conns 1 (GetGroupMembers_map E ids m)" "preserves db_state.more (GetGroupMembers_map E ids m)"
  "uses_conns 1 (GetGroupMembers E g l)" "preserves db_state.more (GetGroupMembers E g l)"
  "uses_conns 1 (GetGroupInfo E g i)" "preserves db_state.more (GetGroupInfo E g i)"
  "uses_conns 1 (GetRecentGroupsByUserId E u gs)" "preserves db_state.more (GetRecentGroupsByUserId E u gs)"
  unfolding GetGroupsByUserId_def GetGroupIdsByUserId_def GetGroupMembers_map_def
    GetGroupMembers_def GetGroupInfo_def GetRecentGroupsByUserId_def One_nat_def
  by (intro conns_intros)+

lemma JoinGroup_conns [conns_intros]:
  "uses_conns 1 (JoinGroup E us g i)" "preserves db_state.more (JoinGroup E us g i)"
  unfolding JoinGroup_def One_nat_def by (intro conns_intros)+

lemma QuitGroup_conns [conns_intros]:
  "uses_conns 1 (QuitGroup E u us g i)" "preserves db_state.more (QuitGroup E u us g i)"
  unfolding QuitGroup_def One_nat_def by (intro conns_intros)+

lemma CreateGroup_conns [conns_intros]:
  "uses_conns 1 (CreateGroup E u n t a d us g)" "preserves db_state.more (CreateGroup E u n t a d us g)"
  unfolding CreateGroup_def using JoinGroup_conns
  by (intro conns_intros | simp only: One_nat_def)+

end
