(* ===== verification/Server_State.thy ===== *)
theory Server_State
  imports Message_Manager User_Manager File_Manager Group_Manager Requests Responses Pdu_Validate
begin

text \<open>
  What the message handlers work on: the state of the managers, the responses handed to the
  network so far, and the parameters that stand for memory a handler's local objects are built
  in. A handler ends with the integer it returns, or with \<open>None\<close> where the program dereferences a
  null pointer or casts a message to a class it does not have.
\<close>

subsection \<open>State\<close>

datatype reply = Rs_ValidateResponse ValidateResponse | Reply response

text \<open>\<open>outbox\<close> is the list of messages given to \<^verbatim>\<open>ClientCommManager::SendSessionData\<close>, with the
  session each goes to.\<close>

record 'w server_state = "'w model_state" +
  outbox :: "(u64 \<times> reply) list"

type_synonym ('w, 'z, 'a) server_prog = "(('w, 'z) server_state_scheme, 'a) state"

text \<open>The memory in which a handler builds its response and its local structures, and
  \<^verbatim>\<open>GetHighInt16ByInt32\<close> of zutils.\<close>

record handler_env =
  raws :: raw_responses
  raw_ValidateResponse :: ValidateResponse
  raw_TransmitFile :: TransmitFile
  raw_GroupInfo :: GroupInfo
  raw_Counter :: Counter
  high_int16 :: "u32 \<Rightarrow> u16"

text \<open>\<^verbatim>\<open>GroupInfo group;\<close> leaves the numbers uninitialised; the strings and the vector are empty.
  The same holds for a \<^verbatim>\<open>TransmitFile\<close> and a \<^verbatim>\<open>Counter\<close>.\<close>

definition local_GroupInfo :: "handler_env \<Rightarrow> GroupInfo" where
  "local_GroupInfo H = (raw_GroupInfo H)\<lparr>GroupInfo.group_name := '''',
     GroupInfo.group_avatar := '''', GroupInfo.group_memeber_list := []\<rparr>"

definition local_TransmitFile :: "handler_env \<Rightarrow> TransmitFile" where
  "local_TransmitFile H = (raw_TransmitFile H)\<lparr>task := '''', file_path := ''''\<rparr>"

definition local_Counter :: "handler_env \<Rightarrow> Counter" where
  "local_Counter H = (raw_Counter H)\<lparr>Counter.unread_count := [], Counter.msg_count := []\<rparr>"

subsection \<open>Sending\<close>

definition reply_base :: "reply \<Rightarrow> base_pdu" where
  "reply_base r = (case r of
     Rs_ValidateResponse m \<Rightarrow> base_pdu.truncate m | Reply m \<Rightarrow> response_base m)"

text \<open>Serialising a validate response with result 0 dereferences its user record.\<close>

definition serializable :: "reply \<Rightarrow> bool" where
  "serializable r = (case r of
     Rs_ValidateResponse m \<Rightarrow> \<not> (ValidateResponse.result m = 0 \<and> user m = None)
   | Reply _ \<Rightarrow> True)"

text \<open>\<^verbatim>\<open>ZAresHandlerThread::SendSessionData\<close> through a pointer \<open>ctx\<close> to a thread. The handlers
  return 0 after it; some check the pointer first.\<close>

definition post_reply :: "u64 \<Rightarrow> reply \<Rightarrow> ('w, 'z, unit) server_prog" where
  "post_reply sid r = State (\<lambda>s. ((), s\<lparr>outbox := outbox s @ [(sid, r)]\<rparr>))"

definition SendSessionData :: "nat option \<Rightarrow> u64 \<Rightarrow> reply \<Rightarrow> ('w, 'z, int option) server_prog" where
  "SendSessionData ctx sid r =
     (case ctx of
        None \<Rightarrow> return None
      | Some _ \<Rightarrow> if serializable r then do { post_reply sid r; return (Some 0) } else return None)"

definition SendSessionData_checked ::
  "nat option \<Rightarrow> u64 \<Rightarrow> reply \<Rightarrow> ('w, 'z, int option) server_prog" where
  "SendSessionData_checked ctx sid r =
     (if ctx \<noteq> None then SendSessionData ctx sid r else return (Some 0))"

text \<open>\<^verbatim>\<open>*request->GetAttachData()\<close>\<close>

definition deref :: "'a option \<Rightarrow> ('a \<Rightarrow> ('w, 'z, int option) server_prog) \<Rightarrow>
    ('w, 'z, int option) server_prog" where
  "deref p k = (case p of None \<Rightarrow> return None | Some x \<Rightarrow> k x)"

subsection \<open>Facts\<close>

lemma run_post_reply [simp]:
  "run_state (post_reply sid r) s = ((), s\<lparr>outbox := outbox s @ [(sid, r)]\<rparr>)"
  by (simp add: post_reply_def)

lemma preserves_cache_post [conns_intros]: "preserves cache (post_reply sid r)"
  by (simp add: preserves_def)

lemma uses_conns_post [conns_intros]: "uses_conns n (post_reply sid r)"
  by (simp add: uses_conns_def)

lemma uses_conns_Send [conns_intros]:
  "uses_conns n (SendSessionData ctx sid r)" "uses_conns n (SendSessionData_checked ctx sid r)"
  by (auto simp: SendSessionData_def SendSessionData_checked_def intro!: conns_intros)

lemma uses_conns_deref [conns_intros]:
  "(\<And>x. uses_conns n (k x)) \<Longrightarrow> uses_conns n (deref p k)"
  by (simp add: deref_def conns_intros)

lemma preserves_more_outbox: "preserves db_state.more p \<Longrightarrow> preserves outbox p"
proof -
  assume p: "preserves db_state.more p"
  have "outbox (snd (run_state p s)) = outbox s" for s
  proof -
    have "db_state.more (snd (run_state p s)) = db_state.more s"
      using p by (simp add: preserves_def)
    then show ?thesis by (cases s; cases "snd (run_state p s)") simp
  qed
  then show ?thesis by (simp add: preserves_def)
qed

lemma preserves_outbox_ops [conns_intros]:
  "preserves outbox (Query E sql)" "preserves outbox (DbExecute E sql)"
  "preserves outbox (ExecuteInsertID E sql)" "preserves outbox (NowMSTime E)"
  by (simp_all add: preserves_ops)

lemma preserves_outbox_Scoped [conns_intros]:
  "preserves outbox p \<Longrightarrow> preserves outbox (ScopedPtr_DatabaseConnection p)"
  by (simp add: preserves_Scoped)

lemma preserves_outbox_cache [conns_intros]: "preserves outbox (with_cache f)"
  by (simp add: preserves_def)

text \<open>Everything the handlers call except sending leaves the outbox alone.\<close>

lemma preserves_outbox_managers [conns_intros]:
  "preserves outbox (GetRecentContactByUserId E u l fs)"
  "preserves outbox (DeleteRecentContactByUserId E u f)"
  "preserves outbox (GetRelateId E u f)"
  "preserves outbox (CheckAndUpdateRelation E u f)"
  "preserves outbox (AddFriendship E u f)"
  "preserves outbox (GetUserInfo_by_ids E us is)"
  "preserves outbox (GetUserInfo_by_name E n i)"
  "preserves outbox (GetAllUserInfo E is)"
  "preserves outbox (GetDepartmentInfos E ds)"
  "preserves outbox (Auth E n p)"
  "preserves outbox (GetUserFiles E u files)"
  "preserves outbox (SaveFileRecord E u v t p k)"
  "preserves outbox (DeleteFileRecord E t)"
  "preserves outbox (GetFileRecord E t f1)"
  "preserves outbox (GetGroupsByUserId E u b gs)"
  "preserves outbox (GetGroupIdsByUserId E u b ids)"
  "preserves outbox (GetGroupMembers_map E ids m)"
  "preserves outbox (GetGroupMembers E g ms)"
  "preserves outbox (GetGroupInfo E g i1)"
  "preserves outbox (GetRecentGroupsByUserId E u gs)"
  "preserves outbox (JoinGroup E ids g i1)"
  "preserves outbox (QuitGroup E u ids g i1)"
  "preserves outbox (CreateGroup E u n k av de ids i1)"
  by (rule preserves_more_outbox, rule conns_intros)+

lemma preserves_outbox_messages [conns_intros]:
  "preserves outbox (GetMessages E (zares_relationship E) a b i k ms)"
  "preserves outbox (GetDialogMessages a b i k ms)"
  "preserves outbox (GetGroupMessages g i k gs)"
  "preserves outbox (GetGroupMessagesFromId g i k gs)"
  "preserves outbox (SendAudioMessage a b x t)"
  "preserves outbox (SendIMGroupMessage a b x t)"
  "preserves outbox (IncrCounterForNewMessage a b i)"
  "preserves outbox (SendIMMessage E (zares_relationship E) a b n x t)"
  unfolding GetMessages_def GetDialogMessages_def GetGroupMessages_def GetGroupMessagesFromId_def
    SendAudioMessage_def SendIMGroupMessage_def IncrCounterForNewMessage_def SendIMMessage_def
    zares_relationship_def relationship_ops.select_convs
  by (intro conns_intros)+

subsection \<open>One reply\<close>

text \<open>\<open>sends_one ctx sid P p\<close>: started by a thread, \<open>p\<close> ends normally, with the result 0, and has
  sent one message, to the session \<open>sid\<close>, that satisfies \<open>P\<close>.\<close>

definition sends_one ::
  "nat option \<Rightarrow> u64 \<Rightarrow> (reply \<Rightarrow> bool) \<Rightarrow> ('w, 'z, int option) server_prog \<Rightarrow> bool" where
  "sends_one ctx sid P p \<longleftrightarrow> (ctx \<noteq> None \<longrightarrow> (\<forall>s. fst (run_state p s) = Some 0 \<and>
     (\<exists>r. outbox (snd (run_state p s)) = outbox s @ [(sid, r)] \<and> P r)))"

named_theorems reply_intros "handlers send one reply"

lemma sends_one_bind [reply_intros]:
  assumes p: "preserves outbox p" and q: "\<And>x. sends_one ctx sid P (q x)"
  shows "sends_one ctx sid P (p \<bind> q)"
  unfolding sends_one_def
proof (intro impI allI)
  fix s :: "('a, 'b) server_state_scheme"
  assume ctx: "ctx \<noteq> None"
  obtain x s' where ps: "run_state p s = (x, s')" by fastforce
  with p have out: "outbox s' = outbox s" unfolding preserves_def by (metis snd_conv)
  from q [of x] ctx have "fst (run_state (q x) s') = Some 0 \<and>
      (\<exists>r. outbox (snd (run_state (q x) s')) = outbox s' @ [(sid, r)] \<and> P r)"
    by (simp add: sends_one_def)
  then show "fst (run_state (p \<bind> q) s) = Some 0 \<and>
      (\<exists>r. outbox (snd (run_state (p \<bind> q) s)) = outbox s @ [(sid, r)] \<and> P r)"
    by (simp add: ps out)
qed

text \<open>\<open>yields Q p\<close>: every result of \<open>p\<close> satisfies \<open>Q\<close>.\<close>

definition yields :: "('a \<Rightarrow> bool) \<Rightarrow> ('s, 'a) state \<Rightarrow> bool" where
  "yields Q p \<longleftrightarrow> (\<forall>s. Q (fst (run_state p s)))"

lemma yields_intros [reply_intros]:
  "Q x \<Longrightarrow> yields Q (return x)"
  "(\<And>x. yields Q (k x)) \<Longrightarrow> yields Q (r \<bind> k)"
  "(b \<Longrightarrow> yields Q p) \<Longrightarrow> (\<not> b \<Longrightarrow> yields Q q) \<Longrightarrow> yields Q (if b then p else q)"
  "(\<And>x y. yields Q (k' x y)) \<Longrightarrow> yields Q (case z of (x, y) \<Rightarrow> k' x y)"
  by (simp_all add: yields_def case_prod_unfold)

lemma sends_one_then:
  assumes "preserves outbox p" "yields Q p" "\<And>x. Q x \<Longrightarrow> sends_one ctx sid P (q x)"
  shows "sends_one ctx sid P (p \<bind> q)"
proof -
  have "p \<bind> q = p \<bind> (\<lambda>x. if Q x then q x else q (fst (run_state p undefined)))"
    using assms(2) by (intro state_ext) (simp add: yields_def case_prod_unfold)
  also have "sends_one ctx sid P \<dots>"
    using assms by (intro sends_one_bind) (auto simp: yields_def)
  finally show ?thesis .
qed

lemma sends_one_then_prod:
  assumes "preserves outbox p" "yields (\<lambda>(x, y). Q x y) p"
    and "\<And>x y. Q x y \<Longrightarrow> sends_one ctx sid P (q x y)"
  shows "sends_one ctx sid P (p \<bind> (\<lambda>(x, y). q x y))"
  using assms(1,2) by (rule sends_one_then) (auto intro: assms(3))

lemma sends_one_send [reply_intros]:
  "P r \<Longrightarrow> serializable r \<Longrightarrow> sends_one ctx sid P (SendSessionData ctx sid r)"
  "P r \<Longrightarrow> serializable r \<Longrightarrow> sends_one ctx sid P (SendSessionData_checked ctx sid r)"
  by (auto simp: sends_one_def SendSessionData_def SendSessionData_checked_def)

lemma sends_one_then_send [reply_intros]:
  "preserves outbox p \<Longrightarrow> yields (\<lambda>x. P (f x) \<and> serializable (f x)) p \<Longrightarrow>
   sends_one ctx sid P (p \<bind> (\<lambda>x. SendSessionData_checked ctx sid (f x)))"
  "preserves outbox p \<Longrightarrow> yields (\<lambda>x. P (f x) \<and> serializable (f x)) p \<Longrightarrow>
   sends_one ctx sid P (p \<bind> (\<lambda>x. SendSessionData ctx sid (f x)))"
  by (erule (1) sends_one_then, simp add: sends_one_send)+

lemma sends_one_deref [reply_intros]:
  "p \<noteq> None \<Longrightarrow> (\<And>x. p = Some x \<Longrightarrow> sends_one ctx sid P (k x)) \<Longrightarrow> sends_one ctx sid P (deref p k)"
  by (auto simp: deref_def)

lemma sends_one_if [reply_intros]:
  "sends_one ctx sid P p \<Longrightarrow> sends_one ctx sid P q \<Longrightarrow> sends_one ctx sid P (if b then p else q)"
  by simp

lemma sends_one_prod [reply_intros]:
  "(\<And>x y. sends_one ctx sid P (q x y)) \<Longrightarrow> sends_one ctx sid P (case r of (x, y) \<Rightarrow> q x y)"
  by (cases r) simp

text \<open>A reply that the wire can carry: it has the message type and the kind of attach data of its
  class, and a validate response has a user record exactly when its result is 0.\<close>

definition reply_ok :: "reply \<Rightarrow> bool" where
  "reply_ok r = (case r of
     Rs_ValidateResponse m \<Rightarrow>
       pdu_kind m = (MESSAGE_VALIDATE_RESPONSE, kAttachDataTypeDB) \<and> ValidateResponse_ok m
   | Reply m \<Rightarrow> response_ok m)"

text \<open>\<open>answer req mt r\<close>: \<open>r\<close> is of message type \<open>mt\<close>, has the \<^verbatim>\<open>reserved\<close> value of the request and
  its attach data, and can be sent; a write response has no attach data.\<close>

definition answer :: "'m base_pdu_scheme \<Rightarrow> u32 \<Rightarrow> reply \<Rightarrow> bool" where
  "answer req mt r \<longleftrightarrow> reply_ok r \<and>
     message_type (reply_base r) = mt \<and> reserved (reply_base r) = reserved req \<and>
     GetAttachData (reply_base r) =
       (if mt = MESSAGE_DB_WRITE_RESPONSE then None else Some (attach_data req))"

lemmas answer_defs = answer_def reply_base_def serializable_def SetAttachData_def HasAttachData_def
  GetAttachData_def BaseTeamTalkPDU_ctor_def reply_ok_def response_ok_def pdu_kind_def

lemma truncate_simps [simp]:
  "reserved (base_pdu.truncate m) = reserved m"
  "message_type (base_pdu.truncate m) = message_type m"
  "attach_data_type (base_pdu.truncate m) = attach_data_type m"
  "attach_data (base_pdu.truncate m) = attach_data m"
  by (simp_all add: base_pdu.defs)

end
