(* ===== verification/Handlers_User.thy ===== *)
theory Handlers_User
  imports Server_State
begin

text \<open>
  The handlers of the login and contact list services: \<^verbatim>\<open>zaresd/message_handler/\<close>
  \<^verbatim>\<open>validate_request_handler.cc\<close>, \<^verbatim>\<open>all_user_request_handler.cc\<close>, \<^verbatim>\<open>users_info_request_handler.cc\<close>,
  \<^verbatim>\<open>department_request_handler.cc\<close>, \<^verbatim>\<open>friend_list_request_handler.cc\<close> and
  \<^verbatim>\<open>remove_session_request_handler.cc\<close>. \<open>ctx\<close> is the pointer to the thread that runs the handler.
\<close>

subsection \<open>\<^verbatim>\<open>ValidateRequestHandler\<close>\<close>

definition ValidateRequestHandler_Execute ::
  "('w, 'r) db_env \<Rightarrow> handler_env \<Rightarrow> nat option \<Rightarrow> u64 \<Rightarrow> ValidateRequest \<Rightarrow>
   ('w, 'z, int option) server_prog" where
  "ValidateRequestHandler_Execute E H ctx sid req =
     deref (GetAttachData req) (\<lambda>attach. do {
       let response = ValidateResponse_ctor (raw_ValidateResponse H);
       let response = response\<lparr>reserved := reserved req\<rparr>;
       let response = response\<lparr>reserved := reserved req\<rparr>;
       let response = response\<lparr>ValidateResponse.user_name := ValidateRequest.user_name req\<rparr>;
       let response = SetAttachData attach response;
       let response = response\<lparr>ValidateResponse.result := 1\<rparr>;
       response \<leftarrow>
         (if ValidateRequest.user_name req = '''' \<or> ValidateRequest.password req = ''''
          then return response
          else do {
            is_authed \<leftarrow> Auth E (ValidateRequest.user_name req) (ValidateRequest.password req);
            if is_authed
            then do {
              let response = response\<lparr>ValidateResponse.result := 0\<rparr>;
              let info = ValidateResponse_mutable_user response;
              (found, info) \<leftarrow> GetUserInfo_by_name E (ValidateRequest.user_name req) info;
              return (response\<lparr>ValidateResponse.user := Some info\<rparr>)
            }
            else return response
          });
       SendSessionData_checked ctx sid (Rs_ValidateResponse response)
     })"

subsection \<open>\<^verbatim>\<open>AllUserRequestHandler\<close>\<close>

definition AllUserRequestHandler_Execute ::
  "('w, 'r) db_env \<Rightarrow> handler_env \<Rightarrow> nat option \<Rightarrow> u64 \<Rightarrow> AllUserRequest \<Rightarrow>
   ('w, 'z, int option) server_prog" where
  "AllUserRequestHandler_Execute E H ctx sid req =
     deref (GetAttachData req) (\<lambda>attach. do {
       let response = AllUserResponse_ctor (raw_AllUserResponse (raws H));
       let response = response\<lparr>reserved := reserved req\<rparr>;
       let response = response\<lparr>AllUserResponse.from_user_id := AllUserRequest.req_user_id req\<rparr>;
       let response = SetAttachData attach response;
       response \<leftarrow>
         (if AllUserRequest.req_user_id req > 0
          then do {
            (found, infos) \<leftarrow> GetAllUserInfo E (AllUserResponse.user_info_list response);
            return (response\<lparr>AllUserResponse.user_info_list := infos\<rparr>)
          }
          else return response);
       SendSessionData_checked ctx sid (Reply (Rs_AllUserResponse response))
     })"

subsection \<open>\<^verbatim>\<open>UsersInfoRequestHandler\<close>\<close>

definition UsersInfoRequestHandler_Execute ::
  "('w, 'r) db_env \<Rightarrow> handler_env \<Rightarrow> nat option \<Rightarrow> u64 \<Rightarrow> UsersInfoRequest \<Rightarrow>
   ('w, 'z, int option) server_prog" where
  "UsersInfoRequestHandler_Execute E H ctx sid req =
     deref (GetAttachData req) (\<lambda>attach. do {
       let response = UsersInfoResponse_ctor (raw_UsersInfoResponse (raws H));
       let response = response\<lparr>reserved := reserved req\<rparr>;
       let response = response\<lparr>UsersInfoResponse.from_user_id := UsersInfoRequest.from_user_id req\<rparr>;
       let response = SetAttachData attach response;
       response \<leftarrow>
         (if UsersInfoRequest.from_user_id req = 0 \<or> UsersInfoRequest.user_id_list req = []
          then return response
          else do {
            (found, infos) \<leftarrow> GetUserInfo_by_ids E (UsersInfoRequest.user_id_list req)
              (UsersInfoResponse.user_info_list response);
            return (response\<lparr>UsersInfoResponse.user_info_list := infos\<rparr>)
          });
       SendSessionData_checked ctx sid (Reply (Rs_UsersInfoResponse response))
     })"

subsection \<open>\<^verbatim>\<open>DepartmentRequestHandler\<close>\<close>

definition DepartmentRequestHandler_Execute ::
  "('w, 'r) db_env \<Rightarrow> handler_env \<Rightarrow> nat option \<Rightarrow> u64 \<Rightarrow> DepartmentRequest \<Rightarrow>
   ('w, 'z, int option) server_prog" where
  "DepartmentRequestHandler_Execute E H ctx sid req =
     deref (GetAttachData req) (\<lambda>attach. do {
       let response = DepartmentResponse_ctor (raw_DepartmentResponse (raws H));
       let response = response\<lparr>reserved := reserved req\<rparr>;
       let response = response\<lparr>DepartmentResponse.req_user_id := DepartmentRequest.req_user_id req\<rparr>;
       let response = SetAttachData attach response;
       (found, infos) \<leftarrow> GetDepartmentInfos E (DepartmentResponse.depart_list response);
       let response = response\<lparr>DepartmentResponse.depart_list := infos\<rparr>;
       SendSessionData_checked ctx sid (Reply (Rs_DepartmentResponse response))
     })"

subsection \<open>\<^verbatim>\<open>FriendListRequestHandler\<close>\<close>

definition FriendListRequestHandler_Execute ::
  "('w, 'r) db_env \<Rightarrow> handler_env \<Rightarrow> nat option \<Rightarrow> u64 \<Rightarrow> FriendListRequest \<Rightarrow>
   ('w, 'z, int option) server_prog" where
  "FriendListRequestHandler_Execute E H ctx sid req =
     deref (GetAttachData req) (\<lambda>attach. do {
       let response = FriendListResponse_ctor (raw_FriendListResponse (raws H));
       let response = response\<lparr>reserved := reserved req\<rparr>;
       let response = response\<lparr>FriendListResponse.from_user_id := FriendListRequest.user_id req\<rparr>;
       let response = SetAttachData attach response;
       response \<leftarrow>
         (if FriendListRequest.user_id req > 0
          then do {
            (found, friends) \<leftarrow> GetRecentContactByUserId E (FriendListRequest.user_id req) 100
              (FriendListResponse.friend_lists response);
            return (response\<lparr>FriendListResponse.friend_lists := friends\<rparr>)
          }
          else return response);
       SendSessionData_checked ctx sid (Reply (Rs_FriendListResponse response))
     })"

subsection \<open>\<^verbatim>\<open>RemoveSessionRequestHandler\<close>\<close>

abbreviation (input) SYS_SERVER_USER_ID :: u32 where "SYS_SERVER_USER_ID \<equiv> 10000"

definition RemoveSessionRequestHandler_Execute ::
  "('w, 'r) db_env \<Rightarrow> handler_env \<Rightarrow> nat option \<Rightarrow> u64 \<Rightarrow> RemoveSessionRequest \<Rightarrow>
   ('w, 'z, int option) server_prog" where
  "RemoveSessionRequestHandler_Execute E H ctx sid req =
     deref (GetAttachData req) (\<lambda>attach. do {
       let response = RemoveSessionResponse_ctor (raw_RemoveSessionResponse (raws H));
       let response = response\<lparr>reserved := reserved req\<rparr>;
       let response = response\<lparr>RemoveSessionResponse.req_user_id := RemoveSessionRequest.req_user_id req\<rparr>;
       let response = response\<lparr>RemoveSessionResponse.result := 0\<rparr>;
       let response = response\<lparr>RemoveSessionResponse.session_id := RemoveSessionRequest.session_id req\<rparr>;
       let response = response\<lparr>RemoveSessionResponse.session_type :=
         RemoveSessionRequest.session_type req\<rparr>;
       let response = SetAttachData attach response;
       (ok, response) \<leftarrow>
         (if RemoveSessionRequest.req_user_id req = 0 \<or> RemoveSessionRequest.session_id req = 0 \<or>
             RemoveSessionRequest.session_type req = 0 \<or>
             RemoveSessionRequest.session_id req = SYS_SERVER_USER_ID
          then return (True, response\<lparr>RemoveSessionResponse.result := 0\<rparr>)
          else if 1 = RemoveSessionRequest.session_type req
          then do {
            ok \<leftarrow> DeleteRecentContactByUserId E (RemoveSessionRequest.req_user_id req)
              (RemoveSessionRequest.session_id req);
            return (ok, response)
          }
          else do {
            (found, grp) \<leftarrow> GetGroupInfo E (RemoveSessionRequest.session_id req) (local_GroupInfo H);
            if \<not> found \<or> RemoveSessionRequest.session_id req \<noteq> GroupInfo.group_id grp
            then return (False, response)
            else return (True, response)
          });
       let response = response\<lparr>RemoveSessionResponse.result := (if ok then 0 else 1)\<rparr>;
       SendSessionData_checked ctx sid (Reply (Rs_RemoveSessionResponse response))
     })"

subsection \<open>Replies\<close>

lemma ValidateRequestHandler_replies:
  assumes "attach_data_type req = kAttachDataTypeDB"
  shows "sends_one ctx sid (answer req MESSAGE_VALIDATE_RESPONSE)
    (ValidateRequestHandler_Execute E H ctx sid req)"
  using assms unfolding ValidateRequestHandler_Execute_def Let_def
  by (intro sends_one_deref sends_one_then [where Q = "\<lambda>r. answer req MESSAGE_VALIDATE_RESPONSE
        (Rs_ValidateResponse r)"] sends_one_send yields_intros conns_intros)
    (auto simp: answer_defs ValidateResponse_ctor_def ValidateResponse_ok_def)

lemma AllUserRequestHandler_replies:
  assumes "attach_data_type req = kAttachDataTypeDB"
  shows "sends_one ctx sid (answer req MESSAGE_ALL_USER_RESPONSE)
    (AllUserRequestHandler_Execute E H ctx sid req)"
  using assms unfolding AllUserRequestHandler_Execute_def Let_def
  by (intro reply_intros conns_intros) (simp_all add: answer_defs AllUserResponse_ctor_def)

lemma UsersInfoRequestHandler_replies:
  assumes "attach_data_type req = kAttachDataTypeDB"
  shows "sends_one ctx sid (answer req MESSAGE_USERS_INFO_RESPONSE)
    (UsersInfoRequestHandler_Execute E H ctx sid req)"
  using assms unfolding UsersInfoRequestHandler_Execute_def Let_def
  by (intro reply_intros conns_intros) (simp_all add: answer_defs UsersInfoResponse_ctor_def)

lemma DepartmentRequestHandler_replies:
  assumes "attach_data_type req = kAttachDataTypeDB"
  shows "sends_one ctx sid (answer req MESSAGE_DEPARTMENT_RESPONSE)
    (DepartmentRequestHandler_Execute E H ctx sid req)"
  using assms unfolding DepartmentRequestHandler_Execute_def Let_def
  by (intro reply_intros conns_intros) (simp_all add: answer_defs DepartmentResponse_ctor_def)

lemma FriendListRequestHandler_replies:
  assumes "attach_data_type req = kAttachDataTypeDB"
  shows "sends_one ctx sid (answer req MESSAGE_FRIEND_LIST_RESPONSE)
    (FriendListRequestHandler_Execute E H ctx sid req)"
  using assms unfolding FriendListRequestHandler_Execute_def Let_def
  by (intro reply_intros conns_intros) (simp_all add: answer_defs FriendListResponse_ctor_def)

lemma RemoveSessionRequestHandler_replies:
  assumes "attach_data_type req = kAttachDataTypeDB"
  shows "sends_one ctx sid (answer req MESSAGE_REMOVE_SESSION_RESPONSE)
    (RemoveSessionRequestHandler_Execute E H ctx sid req)"
  using assms unfolding RemoveSessionRequestHandler_Execute_def Let_def
  by (intro sends_one_deref
      sends_one_then_prod [where Q = "\<lambda>ok r. answer req MESSAGE_REMOVE_SESSION_RESPONSE
        (Reply (Rs_RemoveSessionResponse r))"]
      sends_one_send yields_intros conns_intros)
    (simp_all add: answer_defs RemoveSessionResponse_ctor_def split: if_splits)

end
