(* ===== verification/Handlers_Message.thy ===== *)
theory Handlers_Message
  imports Server_State
begin

text \<open>
  The handlers of the message and offline file services: \<^verbatim>\<open>zaresd/message_handler/\<close>
  \<^verbatim>\<open>msg_data_handler.cc\<close>, \<^verbatim>\<open>msg_read_ack_handler.cc\<close>, \<^verbatim>\<open>unread_msg_count_request_handler.cc\<close>,
  \<^verbatim>\<open>unread_msg_request_handler.cc\<close>, \<^verbatim>\<open>history_msg_request_handler.cc\<close> and the three
  \<^verbatim>\<open>file_*_handler.cc\<close>. \<open>ctx\<close> is the pointer to the thread that runs the handler.
\<close>

subsection \<open>\<^verbatim>\<open>MsgDataHandler\<close>\<close>

text \<open>The check of the request, and the sending of a message that has passed it.\<close>

definition MsgData_invalid :: "MsgData \<Rightarrow> bool" where
  "MsgData_invalid req \<longleftrightarrow>
     MsgData.from_user_id req = 0 \<or> MsgData.to_user_id req = 0 \<or> MsgData.msg_type req = 0 \<or>
     MsgData.msg_data req = '''' \<or>
     (uint (MsgData.msg_type req) = MESSAGE_TYPE_IM \<or>
      uint (MsgData.msg_type req) = MESSAGE_TYPE_IM_GROUP) \<and> length (MsgData.msg_data req) > 1536 \<or>
     (uint (MsgData.msg_type req) = MESSAGE_TYPE_IM_AUDIO \<or>
      uint (MsgData.msg_type req) = MESSAGE_TYPE_IM_GROUP_AUDIO) \<and>
     length (MsgData.msg_data req) > 102400"

definition MsgData_send :: "('w, 'r) db_env \<Rightarrow> MsgData \<Rightarrow> ('w, 'z, bool) server_prog" where
  "MsgData_send E req =
     (let mtype = uint (MsgData.msg_type req)
      in if mtype = MESSAGE_TYPE_IM
         then SendIMMessage E (zares_relationship E) (MsgData.from_user_id req)
           (MsgData.to_user_id req) (ucast (MsgData.msg_type req)) (MsgData.msg_data req)
           (MsgData.create_time req)
         else if mtype = MESSAGE_TYPE_IM_AUDIO
         then SendAudioMessage (MsgData.from_user_id req) (MsgData.to_user_id req)
           (MsgData.msg_data req) (MsgData.create_time req)
         else if mtype = MESSAGE_TYPE_IM_GROUP \<or> mtype = MESSAGE_TYPE_IM_GROUP_AUDIO
         then SendIMGroupMessage (MsgData.from_user_id req) (MsgData.to_user_id req)
           (MsgData.msg_data req) (MsgData.create_time req)
         else return False)"

definition MsgDataHandler_Execute ::
  "('w, 'r) db_env \<Rightarrow> handler_env \<Rightarrow> nat option \<Rightarrow> u64 \<Rightarrow> MsgData \<Rightarrow>
   ('w, 'z, int option) server_prog" where
  "MsgDataHandler_Execute E H ctx sid req = do {
     let response = DBWriteResponse_ctor (raw_DBWriteResponse (raws H));
     let response = response\<lparr>reserved := reserved req\<rparr>;
     let response = response\<lparr>DBWriteResponse.request_id := MsgData.request_id req\<rparr>;
     let response = response\<lparr>DBWriteResponse.result := 0\<rparr>;
     let response = response\<lparr>DBWriteResponse.request_pdu_type := high_int16 H (message_type req)\<rparr>;
     let response = response\<lparr>DBWriteResponse.from_id := MsgData.from_user_id req\<rparr>;
     let response = response\<lparr>DBWriteResponse.to_id := MsgData.to_user_id req\<rparr>;
     is_sucess \<leftarrow> (if MsgData_invalid req then return False else MsgData_send E req);
     let response = response\<lparr>DBWriteResponse.result := (if is_sucess then 0 else 1)\<rparr>;
     SendSessionData_checked ctx sid (Reply (Rs_DBWriteResponse response))
   }"

subsection \<open>\<^verbatim>\<open>MsgReadAckHandler\<close>\<close>

definition MsgReadAckHandler_Execute ::
  "('w, 'r) db_env \<Rightarrow> handler_env \<Rightarrow> nat option \<Rightarrow> u64 \<Rightarrow> MsgReadAck \<Rightarrow>
   ('w, 'z, int option) server_prog" where
  "MsgReadAckHandler_Execute E H ctx sid req = do {
     let response = DBWriteResponse_ctor (raw_DBWriteResponse (raws H));
     let response = response\<lparr>reserved := reserved req\<rparr>;
     let response = response\<lparr>DBWriteResponse.request_id := MsgReadAck.request_id req\<rparr>;
     let response = response\<lparr>DBWriteResponse.result := 0\<rparr>;
     let response = response\<lparr>DBWriteResponse.request_pdu_type := high_int16 H (message_type req)\<rparr>;
     let response = response\<lparr>DBWriteResponse.from_id := MsgReadAck.from_user_id req\<rparr>;
     let response = response\<lparr>DBWriteResponse.to_id := MsgReadAck.to_user_id req\<rparr>;
     cleared \<leftarrow> with_cache (ClearUserUnreadItemCount (MsgReadAck.from_user_id req)
       (MsgReadAck.to_user_id req) (MsgReadAck.client_type req));
     let response = (if \<not> cleared then response\<lparr>DBWriteResponse.result := 1\<rparr> else response);
     _ \<leftarrow> with_cache (DeleteUserReadedDialogMessages (MsgReadAck.from_user_id req)
       (MsgReadAck.to_user_id req) (MsgReadAck.client_type req));
     SendSessionData ctx sid (Reply (Rs_DBWriteResponse response))
   }"

subsection \<open>\<^verbatim>\<open>UnreadMsgCountRequestHandler\<close>\<close>

definition UnreadMsgCountRequestHandler_Execute ::
  "('w, 'r) db_env \<Rightarrow> handler_env \<Rightarrow> nat option \<Rightarrow> u64 \<Rightarrow> UnreadMsgCountRequest \<Rightarrow>
   ('w, 'z, int option) server_prog" where
  "UnreadMsgCountRequestHandler_Execute E H ctx sid req =
     deref (GetAttachData req) (\<lambda>attach. do {
       let response = UnreadMsgCountResponse_ctor (raw_UnreadMsgCountResponse (raws H));
       let response = response\<lparr>reserved := reserved req\<rparr>;
       let response = response\<lparr>UnreadMsgCountResponse.to_user_id := UnreadMsgCountRequest.user_id req\<rparr>;
       let response = SetAttachData attach response;
       (found, counter) \<leftarrow> with_cache (\<lambda>c. (GetUnreadMsgCount (UnreadMsgCountRequest.user_id req)
         (UnreadMsgCountRequest.client_type req) (local_Counter H) c, c));
       let response = fold (\<lambda>(uid, n) response. response
           \<lparr>UnreadMsgCountResponse.user_unread_list :=
              UnreadMsgCountResponse.user_unread_list response @
                [new_UserUnreadMsgCount\<lparr>UserUnreadMsgCount.from_user_id := uid,
                   UserUnreadMsgCount.unread_msg_count := n\<rparr>]\<rparr>)
         (Counter.unread_count counter) response;
       SendSessionData ctx sid (Reply (Rs_UnreadMsgCountResponse response))
     })"

subsection \<open>\<^verbatim>\<open>UnreadMsgRequestHandler\<close>\<close>

abbreviation (input) UNREAD_MAX_COUNTER :: nat where "UNREAD_MAX_COUNTER \<equiv> 100"

definition UnreadMsgRequestHandler_Execute ::
  "('w, 'r) db_env \<Rightarrow> handler_env \<Rightarrow> nat option \<Rightarrow> u64 \<Rightarrow> UnreadMsgRequest \<Rightarrow>
   ('w, 'z, int option) server_prog" where
  "UnreadMsgRequestHandler_Execute E H ctx sid req =
     deref (GetAttachData req) (\<lambda>attach. do {
       let response = MsgListResponse_ctor (raw_MsgListResponse (raws H));
       let response = response\<lparr>reserved := reserved req\<rparr>;
       let response = response\<lparr>MsgListResponse.request_cmd_id := ucast (high_int16 H (message_type req))\<rparr>;
       let response = response\<lparr>MsgListResponse.from_user_id := UnreadMsgRequest.from_user_id req\<rparr>;
       let response = response\<lparr>MsgListResponse.to_user_id := UnreadMsgRequest.to_user_id req\<rparr>;
       let response = SetAttachData attach response;
       count \<leftarrow> with_cache (\<lambda>c. (GetUserFriendUnreadCount (UnreadMsgRequest.from_user_id req)
         (UnreadMsgRequest.to_user_id req) (UnreadMsgRequest.client_type req) c, c));
       let count = (if count > UNREAD_MAX_COUNTER then UNREAD_MAX_COUNTER else count);
       response \<leftarrow>
         (if count > 0
          then do {
            (n, messages) \<leftarrow> GetMessages E (zares_relationship E)
              (UnreadMsgRequest.from_user_id req) (UnreadMsgRequest.to_user_id req) 0 (of_nat count)
              (MsgListResponse.msg_list response);
            return (response\<lparr>MsgListResponse.msg_list := messages\<rparr>)
          }
          else return response);
       SendSessionData ctx sid (Reply (Rs_MsgListResponse response))
     })"

subsection \<open>\<^verbatim>\<open>HistoryMsgRequestHandler\<close>\<close>

abbreviation (input) MAX_HISTORY_MESSAGE_COUNT :: u32 where "MAX_HISTORY_MESSAGE_COUNT \<equiv> 50"

definition HistoryMsgRequestHandler_Execute ::
  "('w, 'r) db_env \<Rightarrow> handler_env \<Rightarrow> nat option \<Rightarrow> u64 \<Rightarrow> HistoryMsgRequest \<Rightarrow>
   ('w, 'z, int option) server_prog" where
  "HistoryMsgRequestHandler_Execute E H ctx sid req =
     deref (GetAttachData req) (\<lambda>attach. do {
       let response = MsgListResponse_ctor (raw_MsgListResponse (raws H));
       let response = response\<lparr>reserved := reserved req\<rparr>;
       let response = response\<lparr>MsgListResponse.request_cmd_id := ucast (high_int16 H (message_type req))\<rparr>;
       let response = response\<lparr>MsgListResponse.from_user_id := HistoryMsgRequest.from_user_id req\<rparr>;
       let response = response\<lparr>MsgListResponse.to_user_id := HistoryMsgRequest.to_user_id req\<rparr>;
       let response = SetAttachData attach response;
       let count = (if HistoryMsgRequest.msg_count req > MAX_HISTORY_MESSAGE_COUNT
                    then MAX_HISTORY_MESSAGE_COUNT else HistoryMsgRequest.msg_count req);
       (n, messages) \<leftarrow> GetDialogMessages (HistoryMsgRequest.from_user_id req)
         (HistoryMsgRequest.to_user_id req) (HistoryMsgRequest.msg_offset req) count
         (MsgListResponse.msg_list response);
       let response = response\<lparr>MsgListResponse.msg_list := messages\<rparr>;
       SendSessionData ctx sid (Reply (Rs_MsgListResponse response))
     })"

subsection \<open>\<^verbatim>\<open>FileHasOfflineReqHandler\<close>\<close>

definition FileHasOfflineReqHandler_Execute ::
  "('w, 'r) db_env \<Rightarrow> handler_env \<Rightarrow> nat option \<Rightarrow> u64 \<Rightarrow> FileHasOfflineReq \<Rightarrow>
   ('w, 'z, int option) server_prog" where
  "FileHasOfflineReqHandler_Execute E H ctx sid req =
     deref (GetAttachData req) (\<lambda>attach. do {
       let response = FileHasOfflineRes_ctor (raw_FileHasOfflineRes (raws H));
       let response = response\<lparr>reserved := reserved req\<rparr>;
       let response = response\<lparr>FileHasOfflineRes.req_user_id := FileHasOfflineReq.user_id req\<rparr>;
       let response = SetAttachData attach response;
       (n, files) \<leftarrow> GetUserFiles E (FileHasOfflineReq.user_id req)
         (FileHasOfflineRes.file_list response);
       let response = response\<lparr>FileHasOfflineRes.file_list := files\<rparr>;
       SendSessionData ctx sid (Reply (Rs_FileHasOfflineRes response))
     })"

subsection \<open>\<^verbatim>\<open>FileAddOfflineReqHandler\<close>\<close>

definition FileAddOfflineReqHandler_Execute ::
  "('w, 'r) db_env \<Rightarrow> handler_env \<Rightarrow> nat option \<Rightarrow> u64 \<Rightarrow> FileAddOfflineReq \<Rightarrow>
   ('w, 'z, int option) server_prog" where
  "FileAddOfflineReqHandler_Execute E H ctx sid req = do {
     let response = DBWriteResponse_ctor (raw_DBWriteResponse (raws H));
     let response = response\<lparr>reserved := reserved req\<rparr>;
     let response = response\<lparr>DBWriteResponse.request_id := FileAddOfflineReq.req_user_id req\<rparr>;
     let response = response\<lparr>DBWriteResponse.result := 0\<rparr>;
     let response = response\<lparr>DBWriteResponse.request_pdu_type := high_int16 H (message_type req)\<rparr>;
     let response = response\<lparr>DBWriteResponse.from_id := FileAddOfflineReq.from_id req\<rparr>;
     let response = response\<lparr>DBWriteResponse.to_id := FileAddOfflineReq.to_id req\<rparr>;
     is_sucess \<leftarrow> SaveFileRecord E (FileAddOfflineReq.from_id req) (FileAddOfflineReq.to_id req)
       (FileAddOfflineReq.task_id req) (FileAddOfflineReq.file_name req)
       (FileAddOfflineReq.file_size req);
     let response = response\<lparr>DBWriteResponse.result := (if is_sucess then 0 else 2)\<rparr>;
     SendSessionData ctx sid (Reply (Rs_DBWriteResponse response))
   }"

subsection \<open>\<^verbatim>\<open>FileDelOfflineReqHandler\<close>\<close>

text \<open>A record can be deleted while its status is 1 and it is less than seven days old, in seconds
  and on 32-bit numbers.\<close>

definition FileDel_allowed :: "u32 \<Rightarrow> TransmitFile \<Rightarrow> bool" where
  "FileDel_allowed now file \<longleftrightarrow> stat file = 1 \<and> created_at file > now - 7 * 86400"

definition FileDelOfflineReqHandler_Execute ::
  "('w, 'r) db_env \<Rightarrow> handler_env \<Rightarrow> nat option \<Rightarrow> u64 \<Rightarrow> FileDelOfflineReq \<Rightarrow>
   ('w, 'z, int option) server_prog" where
  "FileDelOfflineReqHandler_Execute E H ctx sid req = do {
     let response = DBWriteResponse_ctor (raw_DBWriteResponse (raws H));
     let response = response\<lparr>reserved := reserved req\<rparr>;
     let response = response\<lparr>DBWriteResponse.request_id := FileDelOfflineReq.req_user_id req\<rparr>;
     let response = response\<lparr>DBWriteResponse.result := 0\<rparr>;
     let response = response\<lparr>DBWriteResponse.request_pdu_type := high_int16 H (message_type req)\<rparr>;
     let response = response\<lparr>DBWriteResponse.from_id := FileDelOfflineReq.from_id req\<rparr>;
     let response = response\<lparr>DBWriteResponse.to_id := FileDelOfflineReq.to_id req\<rparr>;
     now_ms \<leftarrow> NowMSTime E;
     let now = (ucast (now_ms div 1000) :: u32);
     (found, file) \<leftarrow> GetFileRecord E (FileDelOfflineReq.task_id req) (local_TransmitFile H);
     is_sucess \<leftarrow>
       (if found \<and> FileDel_allowed now file
        then DeleteFileRecord E (FileDelOfflineReq.task_id req) else return False);
     let response = response\<lparr>DBWriteResponse.result := (if is_sucess then 0 else 2)\<rparr>;
     SendSessionData ctx sid (Reply (Rs_DBWriteResponse response))
   }"

subsection \<open>Replies\<close>

lemma preserves_outbox_MsgData_send [conns_intros]: "preserves outbox (MsgData_send E req)"
  unfolding MsgData_send_def Let_def by (intro conns_intros)

lemma MsgDataHandler_replies:
  "sends_one ctx sid (answer req MESSAGE_DB_WRITE_RESPONSE) (MsgDataHandler_Execute E H ctx sid req)"
  unfolding MsgDataHandler_Execute_def Let_def
  by (intro reply_intros conns_intros) (simp_all add: answer_defs DBWriteResponse_ctor_def)

lemma MsgReadAckHandler_replies:
  "sends_one ctx sid (answer req MESSAGE_DB_WRITE_RESPONSE)
    (MsgReadAckHandler_Execute E H ctx sid req)"
  unfolding MsgReadAckHandler_Execute_def Let_def
  by (intro reply_intros conns_intros) (simp_all add: answer_defs DBWriteResponse_ctor_def)

lemma fold_unread_base:
  "base_pdu.truncate (fold (\<lambda>(uid, n) r. r\<lparr>UnreadMsgCountResponse.user_unread_list :=
      UnreadMsgCountResponse.user_unread_list r @ [e uid n]\<rparr>) es r) = base_pdu.truncate r"
  by (induction es arbitrary: r) (auto simp: base_pdu.defs)

lemma UnreadMsgCountRequestHandler_replies:
  assumes "attach_data_type req = kAttachDataTypeDB"
  shows "sends_one ctx sid (answer req MESSAGE_UNREAD_MSG_COUNT_RESPONSE)
    (UnreadMsgCountRequestHandler_Execute E H ctx sid req)"
  using assms unfolding UnreadMsgCountRequestHandler_Execute_def Let_def
  by (intro reply_intros conns_intros)
    (simp_all add: answer_defs UnreadMsgCountResponse_ctor_def fold_unread_base)

lemma UnreadMsgRequestHandler_replies:
  assumes "attach_data_type req = kAttachDataTypeDB"
  shows "sends_one ctx sid (answer req MESSAGE_MSG_LIST_RESPONSE)
    (UnreadMsgRequestHandler_Execute E H ctx sid req)"
  using assms unfolding UnreadMsgRequestHandler_Execute_def Let_def
  by (intro reply_intros conns_intros) (simp_all add: answer_defs MsgListResponse_ctor_def)

lemma HistoryMsgRequestHandler_replies:
  assumes "attach_data_type req = kAttachDataTypeDB"
  shows "sends_one ctx sid (answer req MESSAGE_MSG_LIST_RESPONSE)
    (HistoryMsgRequestHandler_Execute E H ctx sid req)"
  using assms unfolding HistoryMsgRequestHandler_Execute_def Let_def
  by (intro reply_intros conns_intros) (simp_all add: answer_defs MsgListResponse_ctor_def)

lemma FileHasOfflineReqHandler_replies:
  assumes "attach_data_type req = kAttachDataTypeDB"
  shows "sends_one ctx sid (answer req MESSAGE_FILE_HAS_OFFLINE_RES)
    (FileHasOfflineReqHandler_Execute E H ctx sid req)"
  using assms unfolding FileHasOfflineReqHandler_Execute_def Let_def
  by (intro reply_intros conns_intros) (simp_all add: answer_defs FileHasOfflineRes_ctor_def)

lemma FileAddOfflineReqHandler_replies:
  "sends_one ctx sid (answer req MESSAGE_DB_WRITE_RESPONSE)
    (FileAddOfflineReqHandler_Execute E H ctx sid req)"
  unfolding FileAddOfflineReqHandler_Execute_def Let_def
  by (intro reply_intros conns_intros) (simp_all add: answer_defs DBWriteResponse_ctor_def)

lemma FileDelOfflineReqHandler_replies:
  "sends_one ctx sid (answer req MESSAGE_DB_WRITE_RESPONSE)
    (FileDelOfflineReqHandler_Execute E H ctx sid req)"
  unfolding FileDelOfflineReqHandler_Execute_def Let_def
  by (intro reply_intros conns_intros) (simp_all add: answer_defs DBWriteResponse_ctor_def)

end
