(* ===== verification/Handlers_Group.thy ===== *)
theory Handlers_Group
  imports Server_State
begin

text \<open>
  The handlers of the group service, \<^verbatim>\<open>zaresd/message_handler/group_*_handler.cc\<close>. \<open>ctx\<close> is the
  pointer to the thread that runs the handler.
\<close>

subsection \<open>Lists of groups\<close>

text \<open>The loops that append to each group of a list the users the map has for it.\<close>

definition fill_members :: "GroupRelationInfoListMap \<Rightarrow> GroupInfo list \<Rightarrow> GroupInfo list" where
  "fill_members relations_map = map (\<lambda>g.
     case std_find (GroupInfo.group_id g) relations_map of
       Some relations \<Rightarrow>
         fold (\<lambda>relation g. g\<lparr>GroupInfo.group_memeber_list :=
             GroupInfo.group_memeber_list g @ [rel_user_id relation]\<rparr>) relations g
     | None \<Rightarrow> g)"

definition members_of_groups ::
  "('w, 'r) db_env \<Rightarrow> GroupInfo list \<Rightarrow> ('w, 'z, GroupInfo list) server_prog" where
  "members_of_groups E groups = do {
     let group_ids = fold (\<lambda>g ids. ids @ [GroupInfo.group_id g]) groups [];
     (n, relations_map) \<leftarrow> GetGroupMembers_map E group_ids [];
     return (fill_members relations_map groups)
   }"

definition GroupListRequestHandler_Execute ::
  "('w, 'r) db_env \<Rightarrow> handler_env \<Rightarrow> nat option \<Rightarrow> u64 \<Rightarrow> GroupListRequest \<Rightarrow>
   ('w, 'z, int option) server_prog" where
  "GroupListRequestHandler_Execute E H ctx sid req =
     deref (GetAttachData req) (\<lambda>attach. do {
       let response = GroupListResponse_ctor (raw_GroupListResponse (raws H));
       let response = response\<lparr>reserved := reserved req\<rparr>;
       let response = response\<lparr>GroupListResponse.req_user_id := GroupListRequest.user_id req\<rparr>;
       let response = SetAttachData attach response;
       (n, groups) \<leftarrow> GetGroupsByUserId E (GroupListRequest.user_id req) True
         (GroupListResponse.group_list response);
       groups \<leftarrow> (if n > 0 then members_of_groups E groups else return groups);
       let response = response\<lparr>GroupListResponse.group_list := groups\<rparr>;
       SendSessionData_checked ctx sid (Reply (Rs_GroupListResponse response))
     })"

definition GroupDialogListRequestHandler_Execute ::
  "('w, 'r) db_env \<Rightarrow> handler_env \<Rightarrow> nat option \<Rightarrow> u64 \<Rightarrow> GroupDialogListRequest \<Rightarrow>
   ('w, 'z, int option) server_prog" where
  "GroupDialogListRequestHandler_Execute E H ctx sid req =
     deref (GetAttachData req) (\<lambda>attach. do {
       let response = GroupDialogListResponse_ctor (raw_GroupDialogListResponse (raws H));
       let response = response\<lparr>reserved := reserved req\<rparr>;
       let response = response\<lparr>GroupDialogListResponse.req_user_id := GroupDialogListRequest.user_id req\<rparr>;
       let response = SetAttachData attach response;
       response \<leftarrow>
         (if GroupDialogListRequest.user_id req > 0
          then do {
            (n, groups) \<leftarrow> GetRecentGroupsByUserId E (GroupDialogListRequest.user_id req)
              (GroupDialogListResponse.group_list response);
            groups \<leftarrow> (if n > 0 then members_of_groups E groups else return groups);
            return (response\<lparr>GroupDialogListResponse.group_list := groups\<rparr>)
          }
          else return response);
       SendSessionData_checked ctx sid (Reply (Rs_GroupDialogListResponse response))
     })"

subsection \<open>\<^verbatim>\<open>GroupUserListRequestHandler\<close>\<close>

definition GroupUserListRequestHandler_Execute ::
  "('w, 'r) db_env \<Rightarrow> handler_env \<Rightarrow> nat option \<Rightarrow> u64 \<Rightarrow> GroupUserListRequest \<Rightarrow>
   ('w, 'z, int option) server_prog" where
  "GroupUserListRequestHandler_Execute E H ctx sid req =
     deref (GetAttachData req) (\<lambda>attach. do {
       let response = GroupUserListResponse_ctor (raw_GroupUserListResponse (raws H));
       let response = response\<lparr>reserved := reserved req\<rparr>;
       let response = response\<lparr>GroupUserListResponse.req_user_id := GroupUserListRequest.req_user_id req\<rparr>;
       let response = response\<lparr>GroupUserListResponse.group_id := GroupUserListRequest.group_id req\<rparr>;
       let response = SetAttachData attach response;
       (found, grp) \<leftarrow> GetGroupInfo E (GroupUserListRequest.group_id req) (local_GroupInfo H);
       response \<leftarrow>
         (if found
          then do {
            let response = response\<lparr>GroupUserListResponse.result := 0\<rparr>;
            let response = response\<lparr>GroupUserListResponse.group_name := GroupInfo.group_name grp\<rparr>;
            let response = response\<lparr>GroupUserListResponse.group_avatar := GroupInfo.group_avatar grp\<rparr>;
            let response = response\<lparr>GroupUserListResponse.group_type := GroupInfo.group_type grp\<rparr>;
            let response = response\<lparr>GroupUserListResponse.group_creator_id :=
              GroupInfo.group_creator_id grp\<rparr>;
            (n, relations) \<leftarrow> GetGroupMembers E (GroupUserListRequest.group_id req) [];
            return (fold (\<lambda>relation response. response\<lparr>GroupUserListResponse.user_list :=
                GroupUserListResponse.user_list response @ [rel_user_id relation]\<rparr>)
              relations response)
          }
          else return (response\<lparr>GroupUserListResponse.result := 1\<rparr>));
       SendSessionData_checked ctx sid (Reply (Rs_GroupUserListResponse response))
     })"

subsection \<open>\<^verbatim>\<open>GroupCreateTmpGroupRequestHandler\<close> and \<^verbatim>\<open>GroupChangeMemberRequestHandler\<close>\<close>

definition GroupCreateTmpGroupRequestHandler_Execute ::
  "('w, 'r) db_env \<Rightarrow> handler_env \<Rightarrow> nat option \<Rightarrow> u64 \<Rightarrow> GroupCreateTmpGroupRequest \<Rightarrow>
   ('w, 'z, int option) server_prog" where
  "GroupCreateTmpGroupRequestHandler_Execute E H ctx sid req =
     deref (GetAttachData req) (\<lambda>attach. do {
       let response = GroupCreateTmpGroupResponse_ctor (raw_GroupCreateTmpGroupResponse (raws H));
       let response = response\<lparr>reserved := reserved req\<rparr>;
       let response = response\<lparr>GroupCreateTmpGroupResponse.req_user_id :=
         GroupCreateTmpGroupRequest.req_user_id req\<rparr>;
       let response = SetAttachData attach response;
       (created, grp) \<leftarrow> CreateGroup E (GroupCreateTmpGroupRequest.req_user_id req)
         (GroupCreateTmpGroupRequest.group_name req) 2
         (GroupCreateTmpGroupRequest.group_avatar req) ''''
         (GroupCreateTmpGroupRequest.user_list req) (local_GroupInfo H);
       let (res, gid) = (if created then (0, GroupInfo.group_id grp) else (1, 0));
       let response = response\<lparr>GroupCreateTmpGroupResponse.result := res\<rparr>;
       let response = response\<lparr>GroupCreateTmpGroupResponse.group_id := gid\<rparr>;
       SendSessionData_checked ctx sid (Reply (Rs_GroupCreateTmpGroupResponse response))
     })"

definition GroupChangeMemberRequestHandler_Execute ::
  "('w, 'r) db_env \<Rightarrow> handler_env \<Rightarrow> nat option \<Rightarrow> u64 \<Rightarrow> GroupChangeMemberRequest \<Rightarrow>
   ('w, 'z, int option) server_prog" where
  "GroupChangeMemberRequestHandler_Execute E H ctx sid req =
     deref (GetAttachData req) (\<lambda>attach. do {
       let response = GroupChangeMemberResponse_ctor (raw_GroupChangeMemberResponse (raws H));
       let response = response\<lparr>reserved := reserved req\<rparr>;
       let response = response\<lparr>GroupChangeMemberResponse.req_user_id :=
         GroupChangeMemberRequest.req_user_id req\<rparr>;
       let response = response\<lparr>GroupChangeMemberResponse.user_list :=
         GroupChangeMemberRequest.user_list req\<rparr>;
       let response = SetAttachData attach response;
       let res = 0;
       (ctype, response) \<leftarrow>
         (if GroupChangeMemberRequest.change_type req = 0
          then do {
            (found, grp) \<leftarrow> GetGroupInfo E (GroupChangeMemberRequest.group_id req) (local_GroupInfo H);
            _ \<leftarrow> (if found
                  then JoinGroup E (GroupChangeMemberRequest.user_list req)
                    (GroupChangeMemberRequest.group_id req) grp
                  else return False);
            return (0, response)
          }
          else do {
            (found, grp) \<leftarrow> GetGroupInfo E (GroupChangeMemberRequest.group_id req) (local_GroupInfo H);
            if found
            then do {
              _ \<leftarrow> QuitGroup E (GroupChangeMemberRequest.req_user_id req)
                (GroupChangeMemberRequest.user_list req) (GroupChangeMemberRequest.group_id req) grp;
              return (1, response\<lparr>GroupChangeMemberResponse.user_list :=
                GroupChangeMemberRequest.user_list req\<rparr>)
            }
            else return (1, response)
          });
       let response = response\<lparr>GroupChangeMemberResponse.result := res\<rparr>;
       let response = response\<lparr>GroupChangeMemberResponse.group_id :=
         GroupChangeMemberRequest.group_id req\<rparr>;
       let response = response\<lparr>GroupChangeMemberResponse.change_type := ctype\<rparr>;
       SendSessionData_checked ctx sid (Reply (Rs_GroupChangeMemberResponse response))
     })"

subsection \<open>Messages of a group\<close>

text \<open>Both handlers call \<^verbatim>\<open>set_request_cmd_id\<close> twice, the second time with the group; the
  response's own group id is never set.\<close>

definition GroupHistoryMsgRequestHandler_Execute ::
  "('w, 'r) db_env \<Rightarrow> handler_env \<Rightarrow> nat option \<Rightarrow> u64 \<Rightarrow> GroupHistoryMsgRequest \<Rightarrow>
   ('w, 'z, int option) server_prog" where
  "GroupHistoryMsgRequestHandler_Execute E H ctx sid req =
     deref (GetAttachData req) (\<lambda>attach. do {
       let response = GroupMsgListResponse_ctor (raw_GroupMsgListResponse (raws H));
       let response = response\<lparr>reserved := reserved req\<rparr>;
       let response = response\<lparr>GroupMsgListResponse.req_user_id := GroupHistoryMsgRequest.req_user_id req\<rparr>;
       let response = response\<lparr>GroupMsgListResponse.request_cmd_id :=
         ucast (high_int16 H (message_type req))\<rparr>;
       let response = response\<lparr>GroupMsgListResponse.request_cmd_id := GroupHistoryMsgRequest.group_id req\<rparr>;
       let response = SetAttachData attach response;
       (n, messages) \<leftarrow> GetGroupMessages (GroupHistoryMsgRequest.group_id req)
         (GroupHistoryMsgRequest.msg_offset req) (GroupHistoryMsgRequest.msg_count req)
         (GroupMsgListResponse.msg_list response);
       let response = response\<lparr>GroupMsgListResponse.msg_list := messages\<rparr>;
       SendSessionData ctx sid (Reply (Rs_GroupMsgListResponse response))
     })"

definition GroupUnreadMsgRequestHandler_Execute ::
  "('w, 'r) db_env \<Rightarrow> handler_env \<Rightarrow> nat option \<Rightarrow> u64 \<Rightarrow> GroupUnreadMsgRequest \<Rightarrow>
   ('w, 'z, int option) server_prog" where
  "GroupUnreadMsgRequestHandler_Execute E H ctx sid req =
     deref (GetAttachData req) (\<lambda>attach. do {
       let response = GroupMsgListResponse_ctor (raw_GroupMsgListResponse (raws H));
       let response = response\<lparr>reserved := reserved req\<rparr>;
       let response = response\<lparr>GroupMsgListResponse.req_user_id := GroupUnreadMsgRequest.req_user_id req\<rparr>;
       let response = response\<lparr>GroupMsgListResponse.request_cmd_id :=
         ucast (high_int16 H (message_type req))\<rparr>;
       let response = response\<lparr>GroupMsgListResponse.request_cmd_id := GroupUnreadMsgRequest.group_id req\<rparr>;
       let response = SetAttachData attach response;
       item \<leftarrow> with_cache (\<lambda>c. (GetUserGroupCount (GroupUnreadMsgRequest.req_user_id req)
         (GroupUnreadMsgRequest.group_id req) (GroupUnreadMsgRequest.client_type req) c, c));
       (n, messages) \<leftarrow> GetGroupMessagesFromId (GroupUnreadMsgRequest.group_id req)
         (last_message_id item) (user_unread_count item) (GroupMsgListResponse.msg_list response);
       let response = response\<lparr>GroupMsgListResponse.msg_list := messages\<rparr>;
       SendSessionData ctx sid (Reply (Rs_GroupMsgListResponse response))
     })"

definition GroupUnreadMsgCountRequestHandler_Execute ::
  "('w, 'r) db_env \<Rightarrow> handler_env \<Rightarrow> nat option \<Rightarrow> u64 \<Rightarrow> GroupUnreadMsgCountRequest \<Rightarrow>
   ('w, 'z, int option) server_prog" where
  "GroupUnreadMsgCountRequestHandler_Execute E H ctx sid req =
     deref (GetAttachData req) (\<lambda>attach. do {
       let response = GroupUnreadMsgCountResponse_ctor (raw_GroupUnreadMsgCountResponse (raws H));
       let response = response\<lparr>reserved := reserved req\<rparr>;
       let response = response\<lparr>GroupUnreadMsgCountResponse.req_user_id :=
         GroupUnreadMsgCountRequest.req_user_id req\<rparr>;
       let response = SetAttachData attach response;
       (n, group_ids) \<leftarrow> GetGroupIdsByUserId E (GroupUnreadMsgCountRequest.req_user_id req) False [];
       (k, unreads) \<leftarrow> with_cache (\<lambda>c. (GetUserGroupUnreadCount
         (GroupUnreadMsgCountRequest.req_user_id req) group_ids
         (GroupUnreadMsgCountRequest.client_type req) [] c, c));
       let response = fold (\<lambda>(gid, count) response. response
           \<lparr>GroupUnreadMsgCountResponse.group_unread_list :=
              GroupUnreadMsgCountResponse.group_unread_list response @
                [new_GroupUnreadMsgCount\<lparr>GroupUnreadMsgCount.group_id := gid,
                   GroupUnreadMsgCount.unread_msg_count := count\<rparr>]\<rparr>)
         unreads response;
       SendSessionData ctx sid (Reply (Rs_GroupUnreadMsgCountResponse response))
     })"

subsection \<open>\<^verbatim>\<open>GroupMsgReadAckHandler\<close>\<close>

definition GroupMsgReadAckHandler_Execute ::
  "('w, 'r) db_env \<Rightarrow> handler_env \<Rightarrow> nat option \<Rightarrow> u64 \<Rightarrow> GroupMsgReadAck \<Rightarrow>
   ('w, 'z, int option) server_prog" where
  "GroupMsgReadAckHandler_Execute E H ctx sid req = do {
     cleared \<leftarrow> with_cache (ClearUserGroupCounter (GroupMsgReadAck.req_user_id req)
       (GroupMsgReadAck.group_id req) (GroupMsgReadAck.client_type req));
     let res = (if \<not> cleared then 1 else 0);
     let response = DBWriteResponse_ctor (raw_DBWriteResponse (raws H));
     let response = response\<lparr>reserved := reserved req\<rparr>;
     let response = response\<lparr>DBWriteResponse.request_id := 0\<rparr>;
     let response = response\<lparr>DBWriteResponse.result := res\<rparr>;
     let response = response\<lparr>DBWriteResponse.request_pdu_type := high_int16 H (message_type req)\<rparr>;
     let response = response\<lparr>DBWriteResponse.from_id := GroupMsgReadAck.req_user_id req\<rparr>;
     let response = response\<lparr>DBWriteResponse.to_id := GroupMsgReadAck.group_id req\<rparr>;
     SendSessionData ctx sid (Reply (Rs_DBWriteResponse response))
   }"

subsection \<open>Replies\<close>

lemma preserves_outbox_members [conns_intros]: "preserves outbox (members_of_groups E groups)"
  unfolding members_of_groups_def Let_def by (intro conns_intros)

lemma GroupListRequestHandler_replies:
  assumes "attach_data_type req = kAttachDataTypeDB"
  shows "sends_one ctx sid (answer req MESSAGE_GROUP_LIST_RESPONSE)
    (GroupListRequestHandler_Execute E H ctx sid req)"
  using assms unfolding GroupListRequestHandler_Execute_def Let_def
  by (intro reply_intros conns_intros) (simp_all add: answer_defs GroupListResponse_ctor_def)

lemma GroupDialogListRequestHandler_replies:
  assumes "attach_data_type req = kAttachDataTypeDB"
  shows "sends_one ctx sid (answer req MESSAGE_GROUP_DIALOG_LIST_RESPONSE)
    (GroupDialogListRequestHandler_Execute E H ctx sid req)"
  using assms unfolding GroupDialogListRequestHandler_Execute_def Let_def
  by (intro reply_intros conns_intros) (simp_all add: answer_defs GroupDialogListResponse_ctor_def)

lemma fold_members_base:
  "base_pdu.truncate (fold (\<lambda>x r. r\<lparr>GroupUserListResponse.user_list :=
      GroupUserListResponse.user_list r @ [e x]\<rparr>) xs r) = base_pdu.truncate r"
  by (induction xs arbitrary: r) (auto simp: base_pdu.defs)

lemma GroupUserListRequestHandler_replies:
  assumes "attach_data_type req = kAttachDataTypeDB"
  shows "sends_one ctx sid (answer req MESSAGE_GROUP_USER_LIST_RESPONSE)
    (GroupUserListRequestHandler_Execute E H ctx sid req)"
  using assms unfolding GroupUserListRequestHandler_Execute_def Let_def
  by (intro reply_intros conns_intros)
    (simp_all add: answer_defs GroupUserListResponse_ctor_def fold_members_base)

lemma GroupCreateTmpGroupRequestHandler_replies:
  assumes "attach_data_type req = kAttachDataTypeDB"
  shows "sends_one ctx sid (answer req MESSAGE_GROUP_CREATE_TMP_GROUP_RESPONSE)
    (GroupCreateTmpGroupRequestHandler_Execute E H ctx sid req)"
  using assms unfolding GroupCreateTmpGroupRequestHandler_Execute_def Let_def
  by (intro reply_intros conns_intros)
    (simp_all add: answer_defs GroupCreateTmpGroupResponse_ctor_def)

lemma GroupChangeMemberRequestHandler_replies:
  assumes "attach_data_type req = kAttachDataTypeDB"
  shows "sends_one ctx sid (answer req MESSAGE_GROUP_CHANGE_MEMBER_RESPONSE)
    (GroupChangeMemberRequestHandler_Execute E H ctx sid req)"
  using assms unfolding GroupChangeMemberRequestHandler_Execute_def Let_def
  by (intro sends_one_deref
      sends_one_then_prod [where Q = "\<lambda>t r. answer req MESSAGE_GROUP_CHANGE_MEMBER_RESPONSE
        (Reply (Rs_GroupChangeMemberResponse r))"]
      sends_one_send yields_intros conns_intros)
    (simp_all add: answer_defs GroupChangeMemberResponse_ctor_def split: if_splits)

lemma GroupHistoryMsgRequestHandler_replies:
  assumes "attach_data_type req = kAttachDataTypeDB"
  shows "sends_one ctx sid (answer req MESSAGE_GROUP_MSG_LIST_RESPONSE)
    (GroupHistoryMsgRequestHandler_Execute E H ctx sid req)"
  using assms unfolding GroupHistoryMsgRequestHandler_Execute_def Let_def
  by (intro reply_intros conns_intros) (simp_all add: answer_defs GroupMsgListResponse_ctor_def)

lemma GroupUnreadMsgRequestHandler_replies:
  assumes "attach_data_type req = kAttachDataTypeDB"
  shows "sends_one ctx sid (answer req MESSAGE_GROUP_MSG_LIST_RESPONSE)
    (GroupUnreadMsgRequestHandler_Execute E H ctx sid req)"
  using assms unfolding GroupUnreadMsgRequestHandler_Execute_def Let_def
  by (intro reply_intros conns_intros) (simp_all add: answer_defs GroupMsgListResponse_ctor_def)

lemma fold_group_unread_base:
  "base_pdu.truncate (fold (\<lambda>(gid, n) r. r\<lparr>GroupUnreadMsgCountResponse.group_unread_list :=
      GroupUnreadMsgCountResponse.group_unread_list r @ [e gid n]\<rparr>) es r) = base_pdu.truncate r"
  by (induction es arbitrary: r) (auto simp: base_pdu.defs)

lemma GroupUnreadMsgCountRequestHandler_replies:
  assumes "attach_data_type req = kAttachDataTypeDB"
  shows "sends_one ctx sid (answer req MESSAGE_GROUP_UNREAD_MSG_COUNT_RESPONSE)
    (GroupUnreadMsgCountRequestHandler_Execute E H ctx sid req)"
  using assms unfolding GroupUnreadMsgCountRequestHandler_Execute_def Let_def
  by (intro reply_intros conns_intros)
    (simp_all add: answer_defs GroupUnreadMsgCountResponse_ctor_def fold_group_unread_base)

lemma GroupMsgReadAckHandler_replies:
  "sends_one ctx sid (answer req MESSAGE_DB_WRITE_RESPONSE)
    (GroupMsgReadAckHandler_Execute E H ctx sid req)"
  unfolding GroupMsgReadAckHandler_Execute_def Let_def
  by (intro reply_intros conns_intros) (simp_all add: answer_defs DBWriteResponse_ctor_def)

end
