(* ===== verification/Message_Handler.thy ===== *)
theory Message_Handler
  imports Handlers_User Handlers_Message Handlers_Group
begin

text \<open>
  The dispatch of messages to handlers: \<^verbatim>\<open>zaresd/message_handler/message_handler.cc\<close>. A function
  pointer is a value of the type \<open>handler\<close>; calling it runs the handler, which casts the message
  to its own class.
\<close>

subsection \<open>The handler table\<close>

datatype handler =
    ValidateRequestHandler
  | FriendListRequestHandler
  | RemoveSessionRequestHandler
  | DepartmentRequestHandler
  | UsersInfoRequestHandler
  | AllUserRequestHandler
  | MsgDataHandler
  | UnreadMsgCountRequestHandler
  | UnreadMsgRequestHandler
  | MsgReadAckHandler
  | GroupListRequestHandler
  | GroupUserListRequestHandler
  | GroupUnreadMsgCountRequestHandler
  | GroupUnreadMsgRequestHandler
  | GroupHistoryMsgRequestHandler
  | GroupMsgReadAckHandler
  | GroupCreateTmpGroupRequestHandler
  | GroupChangeMemberRequestHandler
  | GroupDialogListRequestHandler
  | FileHasOfflineReqHandler
  | FileAddOfflineReqHandler
  | FileDelOfflineReqHandler

text \<open>The assignments of \<^verbatim>\<open>InitMessageHandlerTable\<close>, and the map they fill.\<close>

definition InitMessageHandlerTable :: "(u32 \<times> handler) list" where
  "InitMessageHandlerTable = [
     (MESSAGE_VALIDATE_REQUEST, ValidateRequestHandler),
     (MESSAGE_FRIEND_LIST_REQUEST, FriendListRequestHandler),
     (MESSAGE_REMOVE_SESSION_REQUEST, RemoveSessionRequestHandler),
     (MESSAGE_DEPARTMENT_REQUEST, DepartmentRequestHandler),
     (MESSAGE_USERS_INFO_REQUEST, UsersInfoRequestHandler),
     (MESSAGE_ALL_USER_REQUEST, AllUserRequestHandler),
     (MESSAGE_MSG_DATA, MsgDataHandler),
     (MESSAGE_UNREAD_MSG_COUNT_REQUEST, UnreadMsgCountRequestHandler),
     (MESSAGE_UNREAD_MSG_REQUEST, UnreadMsgRequestHandler),
     (MESSAGE_MSG_READ_ACK, MsgReadAckHandler),
     (MESSAGE_GROUP_LIST_REQUEST, GroupListRequestHandler),
     (MESSAGE_GROUP_USER_LIST_REQUEST, GroupUserListRequestHandler),
     (MESSAGE_GROUP_UNREAD_MSG_COUNT_REQUEST, GroupUnreadMsgCountRequestHandler),
     (MESSAGE_GROUP_UNREAD_MSG_REQUEST, GroupUnreadMsgRequestHandler),
     (MESSAGE_GROUP_HISTORY_MSG_REQUEST, GroupHistoryMsgRequestHandler),
     (MESSAGE_GROUP_MSG_READ_ACK, GroupMsgReadAckHandler),
     (MESSAGE_GROUP_CREATE_TMP_GROUP_REQUEST, GroupCreateTmpGroupRequestHandler),
     (MESSAGE_GROUP_CHANGE_MEMBER_REQUEST, GroupChangeMemberRequestHandler),
     (MESSAGE_GROUP_DIALOG_LIST_REQUEST, GroupDialogListRequestHandler),
     (MESSAGE_FILE_HAS_OFFLINE_REQ, FileHasOfflineReqHandler),
     (MESSAGE_FILE_ADD_OFFLINE_REQ, FileAddOfflineReqHandler),
     (MESSAGE_FILE_DEL_OFFLINE_REQ, FileDelOfflineReqHandler)]"

definition g_message_handlers :: "u32 \<Rightarrow> handler option" where
  "g_message_handlers = foldl (\<lambda>m (t, h). m(t \<mapsto> h)) Map.empty InitMessageHandlerTable"

definition CheckMessageHandler :: "u32 \<Rightarrow> bool" where
  "CheckMessageHandler mtype \<longleftrightarrow> g_message_handlers mtype \<noteq> None"

subsection \<open>Dispatch\<close>

primrec execute_handler ::
  "handler \<Rightarrow> ('w, 'r) db_env \<Rightarrow> handler_env \<Rightarrow> nat option \<Rightarrow> u64 \<Rightarrow> request \<Rightarrow>
   ('w, 'z, int option) server_prog" where
  "execute_handler ValidateRequestHandler E H ctx sid m =
     (case m of Rq_ValidateRequest req \<Rightarrow> ValidateRequestHandler_Execute E H ctx sid req | _ \<Rightarrow> return None)"
| "execute_handler FriendListRequestHandler E H ctx sid m =
     (case m of Rq_FriendListRequest req \<Rightarrow> FriendListRequestHandler_Execute E H ctx sid req | _ \<Rightarrow> return None)"
| "execute_handler RemoveSessionRequestHandler E H ctx sid m =
     (case m of Rq_RemoveSessionRequest req \<Rightarrow> RemoveSessionRequestHandler_Execute E H ctx sid req | _ \<Rightarrow> return None)"
| "execute_handler DepartmentRequestHandler E H ctx sid m =
     (case m of Rq_DepartmentRequest req \<Rightarrow> DepartmentRequestHandler_Execute E H ctx sid req | _ \<Rightarrow> return None)"
| "execute_handler UsersInfoRequestHandler E H ctx sid m =
     (case m of Rq_UsersInfoRequest req \<Rightarrow> UsersInfoRequestHandler_Execute E H ctx sid req | _ \<Rightarrow> return None)"
| "execute_handler AllUserRequestHandler E H ctx sid m =
     (case m of Rq_AllUserRequest req \<Rightarrow> AllUserRequestHandler_Execute E H ctx sid req | _ \<Rightarrow> return None)"
| "execute_handler MsgDataHandler E H ctx sid m =
     (case m of Rq_MsgData req \<Rightarrow> MsgDataHandler_Execute E H ctx sid req | _ \<Rightarrow> return None)"
| "execute_handler UnreadMsgCountRequestHandler E H ctx sid m =
     (case m of Rq_UnreadMsgCountRequest req \<Rightarrow> UnreadMsgCountRequestHandler_Execute E H ctx sid req | _ \<Rightarrow> return None)"
| "execute_handler UnreadMsgRequestHandler E H ctx sid m =
     (case m of Rq_UnreadMsgRequest req \<Rightarrow> UnreadMsgRequestHandler_Execute E H ctx sid req | _ \<Rightarrow> return None)"
| "execute_handler MsgReadAckHandler E H ctx sid m =
     (case m of Rq_MsgReadAck req \<Rightarrow> MsgReadAckHandler_Execute E H ctx sid req | _ \<Rightarrow> return None)"
| "execute_handler GroupListRequestHandler E H ctx sid m =
     (case m of Rq_GroupListRequest req \<Rightarrow> GroupListRequestHandler_Execute E H ctx sid req | _ \<Rightarrow> return None)"
| "execute_handler GroupUserListRequestHandler E H ctx sid m =
     (case m of Rq_GroupUserListRequest req \<Rightarrow> GroupUserListRequestHandler_Execute E H ctx sid req | _ \<Rightarrow> return None)"
| "execute_handler GroupUnreadMsgCountRequestHandler E H ctx sid m =
     (case m of Rq_GroupUnreadMsgCountRequest req \<Rightarrow> GroupUnreadMsgCountRequestHandler_Execute E H ctx sid req | _ \<Rightarrow> return None)"
| "execute_handler GroupUnreadMsgRequestHandler E H ctx sid m =
     (case m of Rq_GroupUnreadMsgRequest req \<Rightarrow> GroupUnreadMsgRequestHandler_Execute E H ctx sid req | _ \<Rightarrow> return None)"
| "execute_handler GroupHistoryMsgRequestHandler E H ctx sid m =
     (case m of Rq_GroupHistoryMsgRequest req \<Rightarrow> GroupHistoryMsgRequestHandler_Execute E H ctx sid req | _ \<Rightarrow> return None)"
| "execute_handler GroupMsgReadAckHandler E H ctx sid m =
     (case m of Rq_GroupMsgReadAck req \<Rightarrow> GroupMsgReadAckHandler_Execute E H ctx sid req | _ \<Rightarrow> return None)"
| "execute_handler GroupCreateTmpGroupRequestHandler E H ctx sid m =
     (case m of Rq_GroupCreateTmpGroupRequest req \<Rightarrow> GroupCreateTmpGroupRequestHandler_Execute E H ctx sid req | _ \<Rightarrow> return None)"
| "execute_handler GroupChangeMemberRequestHandler E H ctx sid m =
     (case m of Rq_GroupChangeMemberRequest req \<Rightarrow> GroupChangeMemberRequestHandler_Execute E H ctx sid req | _ \<Rightarrow> return None)"
| "execute_handler GroupDialogListRequestHandler E H ctx sid m =
     (case m of Rq_GroupDialogListRequest req \<Rightarrow> GroupDialogListRequestHandler_Execute E H ctx sid req | _ \<Rightarrow> return None)"
| "execute_handler FileHasOfflineReqHandler E H ctx sid m =
     (case m of Rq_FileHasOfflineReq req \<Rightarrow> FileHasOfflineReqHandler_Execute E H ctx sid req | _ \<Rightarrow> return None)"
| "execute_handler FileAddOfflineReqHandler E H ctx sid m =
     (case m of Rq_FileAddOfflineReq req \<Rightarrow> FileAddOfflineReqHandler_Execute E H ctx sid req | _ \<Rightarrow> return None)"
| "execute_handler FileDelOfflineReqHandler E H ctx sid m =
     (case m of Rq_FileDelOfflineReq req \<Rightarrow> FileDelOfflineReqHandler_Execute E H ctx sid req | _ \<Rightarrow> return None)"

definition DispatchMessageHandler ::
  "('w, 'r) db_env \<Rightarrow> handler_env \<Rightarrow> nat option \<Rightarrow> u64 \<Rightarrow> request \<Rightarrow>
   ('w, 'z, int option) server_prog" where
  "DispatchMessageHandler E H ctx sid m =
     (case g_message_handlers (message_type (request_base m)) of
        None \<Rightarrow> return (Some 0)
      | Some h \<Rightarrow> do {
          rc \<leftarrow> execute_handler h E H ctx sid m;
          return (map_option (\<lambda>_. 0) rc)
        })"

subsection \<open>The table and the factory\<close>

text \<open>The handler each class of request is meant for, and the message type of its answer.\<close>

primrec handler_for :: "request_class \<Rightarrow> handler" where
  "handler_for Class_ValidateRequest = ValidateRequestHandler"
| "handler_for Class_FriendListRequest = FriendListRequestHandler"
| "handler_for Class_RemoveSessionRequest = RemoveSessionRequestHandler"
| "handler_for Class_DepartmentRequest = DepartmentRequestHandler"
| "handler_for Class_UsersInfoRequest = UsersInfoRequestHandler"
| "handler_for Class_AllUserRequest = AllUserRequestHandler"
| "handler_for Class_MsgData = MsgDataHandler"
| "handler_for Class_UnreadMsgCountRequest = UnreadMsgCountRequestHandler"
| "handler_for Class_UnreadMsgRequest = UnreadMsgRequestHandler"
| "handler_for Class_MsgReadAck = MsgReadAckHandler"
| "handler_for Class_GroupListRequest = GroupListRequestHandler"
| "handler_for Class_GroupUserListRequest = GroupUserListRequestHandler"
| "handler_for Class_GroupUnreadMsgCountRequest = GroupUnreadMsgCountRequestHandler"
| "handler_for Class_GroupUnreadMsgRequest = GroupUnreadMsgRequestHandler"
| "handler_for Class_GroupHistoryMsgRequest = GroupHistoryMsgRequestHandler"
| "handler_for Class_GroupMsgReadAck = GroupMsgReadAckHandler"
| "handler_for Class_GroupCreateTmpGroupRequest = GroupCreateTmpGroupRequestHandler"
| "handler_for Class_GroupChangeMemberRequest = GroupChangeMemberRequestHandler"
| "handler_for Class_GroupDialogListRequest = GroupDialogListRequestHandler"
| "handler_for Class_FileHasOfflineReq = FileHasOfflineReqHandler"
| "handler_for Class_FileAddOfflineReq = FileAddOfflineReqHandler"
| "handler_for Class_FileDelOfflineReq = FileDelOfflineReqHandler"

primrec answer_type :: "request_class \<Rightarrow> u32" where
  "answer_type Class_ValidateRequest = MESSAGE_VALIDATE_RESPONSE"
| "answer_type Class_FriendListRequest = MESSAGE_FRIEND_LIST_RESPONSE"
| "answer_type Class_RemoveSessionRequest = MESSAGE_REMOVE_SESSION_RESPONSE"
| "answer_type Class_DepartmentRequest = MESSAGE_DEPARTMENT_RESPONSE"
| "answer_type Class_UsersInfoRequest = MESSAGE_USERS_INFO_RESPONSE"
| "answer_type Class_AllUserRequest = MESSAGE_ALL_USER_RESPONSE"
| "answer_type Class_MsgData = MESSAGE_DB_WRITE_RESPONSE"
| "answer_type Class_UnreadMsgCountRequest = MESSAGE_UNREAD_MSG_COUNT_RESPONSE"
| "answer_type Class_UnreadMsgRequest = MESSAGE_MSG_LIST_RESPONSE"
| "answer_type Class_MsgReadAck = MESSAGE_DB_WRITE_RESPONSE"
| "answer_type Class_GroupListRequest = MESSAGE_GROUP_LIST_RESPONSE"
| "answer_type Class_GroupUserListRequest = MESSAGE_GROUP_USER_LIST_RESPONSE"
| "answer_type Class_GroupUnreadMsgCountRequest = MESSAGE_GROUP_UNREAD_MSG_COUNT_RESPONSE"
| "answer_type Class_GroupUnreadMsgRequest = MESSAGE_GROUP_MSG_LIST_RESPONSE"
| "answer_type Class_GroupHistoryMsgRequest = MESSAGE_GROUP_MSG_LIST_RESPONSE"
| "answer_type Class_GroupMsgReadAck = MESSAGE_DB_WRITE_RESPONSE"
| "answer_type Class_GroupCreateTmpGroupRequest = MESSAGE_GROUP_CREATE_TMP_GROUP_RESPONSE"
| "answer_type Class_GroupChangeMemberRequest = MESSAGE_GROUP_CHANGE_MEMBER_RESPONSE"
| "answer_type Class_GroupDialogListRequest = MESSAGE_GROUP_DIALOG_LIST_RESPONSE"
| "answer_type Class_FileHasOfflineReq = MESSAGE_FILE_HAS_OFFLINE_RES"
| "answer_type Class_FileAddOfflineReq = MESSAGE_DB_WRITE_RESPONSE"
| "answer_type Class_FileDelOfflineReq = MESSAGE_DB_WRITE_RESPONSE"

lemma g_message_handlers_eq: "g_message_handlers = map_of (rev InitMessageHandlerTable)"
proof -
  have "foldl (\<lambda>m (t, h). m(t \<mapsto> h)) m xs = m ++ map_of (rev xs)"
    for m :: "u32 \<Rightarrow> handler option" and xs
    by (induction xs arbitrary: m) (auto simp: map_add_def fun_eq_iff split: option.splits)
  then show ?thesis by (simp add: g_message_handlers_def)
qed

text \<open>Every message type of the table is registered with the factory, and the other way round; an
  object the factory makes is looked up under its own message type, which is that of its
  registration except for one class.\<close>

lemma table_and_factory:
  "map fst InitMessageHandlerTable = map fst RegisterPDUMessageFactory"
  by (simp add: InitMessageHandlerTable_def RegisterPDUMessageFactory_def)

lemma handler_of_type:
  "(t, c) \<in> set RegisterPDUMessageFactory \<Longrightarrow> g_message_handlers t = Some (handler_for c)"
proof -
  have "list_all (\<lambda>(t, c). g_message_handlers t = Some (handler_for c)) RegisterPDUMessageFactory"
    by (simp add: g_message_handlers_eq InitMessageHandlerTable_def RegisterPDUMessageFactory_def)
  then show "(t, c) \<in> set RegisterPDUMessageFactory \<Longrightarrow> g_message_handlers t = Some (handler_for c)"
    by (auto simp: list_all_iff)
qed

lemma handler_of_class:
  "g_message_handlers (fst (request_class_kind c)) =
     (if c = Class_GroupHistoryMsgRequest then None else Some (handler_for c))"
  unfolding g_message_handlers_eq InitMessageHandlerTable_def
  by (cases c) simp_all

subsection \<open>Replies\<close>

lemma answer_truncate: "answer (base_pdu.truncate req) mt = answer req mt"
  by (simp add: answer_def fun_eq_iff)

lemma sends_one_result:
  "sends_one ctx sid P p \<Longrightarrow> sends_one ctx sid P (p \<bind> (\<lambda>rc. return (map_option (\<lambda>_. 0) rc)))"
  by (auto simp: sends_one_def case_prod_unfold)

lemma execute_replies:
  assumes "request_ok m"
  shows "sends_one ctx sid (answer (request_base m) (answer_type (request_class_of m)))
    (execute_handler (handler_for (request_class_of m)) E H ctx sid m)"
proof (cases m)
  case (Rq_ValidateRequest req)
  with assms have "attach_data_type req = snd (request_class_kind Class_ValidateRequest)"
    by (simp add: request_ok_def pdu_kind_def)
  then show ?thesis
    by (simp add: Rq_ValidateRequest answer_truncate ValidateRequestHandler_replies del: message_type_values)
next
  case (Rq_FriendListRequest req)
  with assms have "attach_data_type req = snd (request_class_kind Class_FriendListRequest)"
    by (simp add: request_ok_def pdu_kind_def)
  then show ?thesis
    by (simp add: Rq_FriendListRequest answer_truncate FriendListRequestHandler_replies del: message_type_values)
next
  case (Rq_RemoveSessionRequest req)
  with assms have "attach_data_type req = snd (request_class_kind Class_RemoveSessionRequest)"
    by (simp add: request_ok_def pdu_kind_def)
  then show ?thesis
    by (simp add: Rq_RemoveSessionRequest answer_truncate RemoveSessionRequestHandler_replies del: message_type_values)
next
  case (Rq_DepartmentRequest req)
  with assms have "attach_data_type req = snd (request_class_kind Class_DepartmentRequest)"
    by (simp add: request_ok_def pdu_kind_def)
  then show ?thesis
    by (simp add: Rq_DepartmentRequest answer_truncate DepartmentRequestHandler_replies del: message_type_values)
next
  case (Rq_UsersInfoRequest req)
  with assms have "attach_data_type req = snd (request_class_kind Class_UsersInfoRequest)"
    by (simp add: request_ok_def pdu_kind_def)
  then show ?thesis
    by (simp add: Rq_UsersInfoRequest answer_truncate UsersInfoRequestHandler_replies del: message_type_values)
next
  case (Rq_AllUserRequest req)
  with assms have "attach_data_type req = snd (request_class_kind Class_AllUserRequest)"
    by (simp add: request_ok_def pdu_kind_def)
  then show ?thesis
    by (simp add: Rq_AllUserRequest answer_truncate AllUserRequestHandler_replies del: message_type_values)
next
  case (Rq_MsgData req)
  with assms have "attach_data_type req = snd (request_class_kind Class_MsgData)"
    by (simp add: request_ok_def pdu_kind_def)
  then show ?thesis
    by (simp add: Rq_MsgData answer_truncate MsgDataHandler_replies del: message_type_values)
next
  case (Rq_UnreadMsgCountRequest req)
  with assms have "attach_data_type req = snd (request_class_kind Class_UnreadMsgCountRequest)"
    by (simp add: request_ok_def pdu_kind_def)
  then show ?thesis
    by (simp add: Rq_UnreadMsgCountRequest answer_truncate UnreadMsgCountRequestHandler_replies del: message_type_values)
next
  case (Rq_UnreadMsgRequest req)
  with assms have "attach_data_type req = snd (request_class_kind Class_UnreadMsgRequest)"
    by (simp add: request_ok_def pdu_kind_def)
  then show ?thesis
    by (simp add: Rq_UnreadMsgRequest answer_truncate UnreadMsgRequestHandler_replies del: message_type_values)
next
  case (Rq_MsgReadAck req)
  with assms have "attach_data_type req = snd (request_class_kind Class_MsgReadAck)"
    by (simp add: request_ok_def pdu_kind_def)
  then show ?thesis
    by (simp add: Rq_MsgReadAck answer_truncate MsgReadAckHandler_replies del: message_type_values)
next
  case (Rq_GroupListRequest req)
  with assms have "attach_data_type req = snd (request_class_kind Class_GroupListRequest)"
    by (simp add: request_ok_def pdu_kind_def)
  then show ?thesis
    by (simp add: Rq_GroupListRequest answer_truncate GroupListRequestHandler_replies del: message_type_values)
next
  case (Rq_GroupUserListRequest req)
  with assms have "attach_data_type req = snd (request_class_kind Class_GroupUserListRequest)"
    by (simp add: request_ok_def pdu_kind_def)
  then show ?thesis
    by (simp add: Rq_GroupUserListRequest answer_truncate GroupUserListRequestHandler_replies del: message_type_values)
next
  case (Rq_GroupUnreadMsgCountRequest req)
  with assms have "attach_data_type req = snd (request_class_kind Class_GroupUnreadMsgCountRequest)"
    by (simp add: request_ok_def pdu_kind_def)
  then show ?thesis
    by (simp add: Rq_GroupUnreadMsgCountRequest answer_truncate GroupUnreadMsgCountRequestHandler_replies del: message_type_values)
next
  case (Rq_GroupUnreadMsgRequest req)
  with assms have "attach_data_type req = snd (request_class_kind Class_GroupUnreadMsgRequest)"
    by (simp add: request_ok_def pdu_kind_def)
  then show ?thesis
    by (simp add: Rq_GroupUnreadMsgRequest answer_truncate GroupUnreadMsgRequestHandler_replies del: message_type_values)
next
  case (Rq_GroupHistoryMsgRequest req)
  with assms have "attach_data_type req = snd (request_class_kind Class_GroupHistoryMsgRequest)"
    by (simp add: request_ok_def pdu_kind_def)
  then show ?thesis
    by (simp add: Rq_GroupHistoryMsgRequest answer_truncate GroupHistoryMsgRequestHandler_replies del: message_type_values)
next
  case (Rq_GroupMsgReadAck req)
  with assms have "attach_data_type req = snd (request_class_kind Class_GroupMsgReadAck)"
    by (simp add: request_ok_def pdu_kind_def)
  then show ?thesis
    by (simp add: Rq_GroupMsgReadAck answer_truncate GroupMsgReadAckHandler_replies del: message_type_values)
next
  case (Rq_GroupCreateTmpGroupRequest req)
  with assms have "attach_data_type req = snd (request_class_kind Class_GroupCreateTmpGroupRequest)"
    by (simp add: request_ok_def pdu_kind_def)
  then show ?thesis
    by (simp add: Rq_GroupCreateTmpGroupRequest answer_truncate GroupCreateTmpGroupRequestHandler_replies del: message_type_values)
next
  case (Rq_GroupChangeMemberRequest req)
  with assms have "attach_data_type req = snd (request_class_kind Class_GroupChangeMemberRequest)"
    by (simp add: request_ok_def pdu_kind_def)
  then show ?thesis
    by (simp add: Rq_GroupChangeMemberRequest answer_truncate GroupChangeMemberRequestHandler_replies del: message_type_values)
next
  case (Rq_GroupDialogListRequest req)
  with assms have "attach_data_type req = snd (request_class_kind Class_GroupDialogListRequest)"
    by (simp add: request_ok_def pdu_kind_def)
  then show ?thesis
    by (simp add: Rq_GroupDialogListRequest answer_truncate GroupDialogListRequestHandler_replies del: message_type_values)
next
  case (Rq_FileHasOfflineReq req)
  with assms have "attach_data_type req = snd (request_class_kind Class_FileHasOfflineReq)"
    by (simp add: request_ok_def pdu_kind_def)
  then show ?thesis
    by (simp add: Rq_FileHasOfflineReq answer_truncate FileHasOfflineReqHandler_replies del: message_type_values)
next
  case (Rq_FileAddOfflineReq req)
  with assms have "attach_data_type req = snd (request_class_kind Class_FileAddOfflineReq)"
    by (simp add: request_ok_def pdu_kind_def)
  then show ?thesis
    by (simp add: Rq_FileAddOfflineReq answer_truncate FileAddOfflineReqHandler_replies del: message_type_values)
next
  case (Rq_FileDelOfflineReq req)
  with assms have "attach_data_type req = snd (request_class_kind Class_FileDelOfflineReq)"
    by (simp add: request_ok_def pdu_kind_def)
  then show ?thesis
    by (simp add: Rq_FileDelOfflineReq answer_truncate FileDelOfflineReqHandler_replies del: message_type_values)
qed

lemma ValidateRequestHandler_conns: "uses_conns 1 (ValidateRequestHandler_Execute E H ctx sid req)"
  unfolding ValidateRequestHandler_Execute_def Let_def
  by (intro conns_intros zr.SendIMMessage_conns zr.GetMessages_conns)

lemma FriendListRequestHandler_conns: "uses_conns 1 (FriendListRequestHandler_Execute E H ctx sid req)"
  unfolding FriendListRequestHandler_Execute_def Let_def
  by (intro conns_intros zr.SendIMMessage_conns zr.GetMessages_conns)

lemma RemoveSessionRequestHandler_conns: "uses_conns 1 (RemoveSessionRequestHandler_Execute E H ctx sid req)"
  unfolding RemoveSessionRequestHandler_Execute_def Let_def
  by (intro conns_intros zr.SendIMMessage_conns zr.GetMessages_conns)

lemma DepartmentRequestHandler_conns: "uses_conns 1 (DepartmentRequestHandler_Execute E H ctx sid req)"
  unfolding DepartmentRequestHandler_Execute_def Let_def
  by (intro conns_intros zr.SendIMMessage_conns zr.GetMessages_conns)

lemma UsersInfoRequestHandler_conns: "uses_conns 1 (UsersInfoRequestHandler_Execute E H ctx sid req)"
  unfolding UsersInfoRequestHandler_Execute_def Let_def
  by (intro conns_intros zr.SendIMMessage_conns zr.GetMessages_conns)

lemma AllUserRequestHandler_conns: "uses_conns 1 (AllUserRequestHandler_Execute E H ctx sid req)"
  unfolding AllUserRequestHandler_Execute_def Let_def
  by (intro conns_intros zr.SendIMMessage_conns zr.GetMessages_conns)

lemma MsgDataHandler_conns: "uses_conns 1 (MsgDataHandler_Execute E H ctx sid req)"
  unfolding MsgDataHandler_Execute_def MsgData_send_def Let_def
  by (intro conns_intros zr.SendIMMessage_conns zr.GetMessages_conns)

lemma UnreadMsgCountRequestHandler_conns: "uses_conns 1 (UnreadMsgCountRequestHandler_Execute E H ctx sid req)"
  unfolding UnreadMsgCountRequestHandler_Execute_def Let_def
  by (intro conns_intros zr.SendIMMessage_conns zr.GetMessages_conns)

lemma UnreadMsgRequestHandler_conns: "uses_conns 1 (UnreadMsgRequestHandler_Execute E H ctx sid req)"
  unfolding UnreadMsgRequestHandler_Execute_def Let_def
  by (intro conns_intros zr.SendIMMessage_conns zr.GetMessages_conns)

lemma MsgReadAckHandler_conns: "uses_conns 1 (MsgReadAckHandler_Execute E H ctx sid req)"
  unfolding MsgReadAckHandler_Execute_def Let_def
  by (intro conns_intros zr.SendIMMessage_conns zr.GetMessages_conns)

lemma GroupListRequestHandler_conns: "uses_conns 1 (GroupListRequestHandler_Execute E H ctx sid req)"
  unfolding GroupListRequestHandler_Execute_def members_of_groups_def Let_def
  by (intro conns_intros zr.SendIMMessage_conns zr.GetMessages_conns)

lemma GroupUserListRequestHandler_conns: "uses_conns 1 (GroupUserListRequestHandler_Execute E H ctx sid req)"
  unfolding GroupUserListRequestHandler_Execute_def Let_def
  by (intro conns_intros zr.SendIMMessage_conns zr.GetMessages_conns)

lemma GroupUnreadMsgCountRequestHandler_conns: "uses_conns 1 (GroupUnreadMsgCountRequestHandler_Execute E H ctx sid req)"
  unfolding GroupUnreadMsgCountRequestHandler_Execute_def Let_def
  by (intro conns_intros zr.SendIMMessage_conns zr.GetMessages_conns)

lemma GroupUnreadMsgRequestHandler_conns: "uses_conns 1 (GroupUnreadMsgRequestHandler_Execute E H ctx sid req)"
  unfolding GroupUnreadMsgRequestHandler_Execute_def Let_def
  by (intro conns_intros zr.SendIMMessage_conns zr.GetMessages_conns)

lemma GroupHistoryMsgRequestHandler_conns: "uses_conns 1 (GroupHistoryMsgRequestHandler_Execute E H ctx sid req)"
  unfolding GroupHistoryMsgRequestHandler_Execute_def Let_def
  by (intro conns_intros zr.SendIMMessage_conns zr.GetMessages_conns)

lemma GroupMsgReadAckHandler_conns: "uses_conns 1 (GroupMsgReadAckHandler_Execute E H ctx sid req)"
  unfolding GroupMsgReadAckHandler_Execute_def Let_def
  by (intro conns_intros zr.SendIMMessage_conns zr.GetMessages_conns)

lemma GroupCreateTmpGroupRequestHandler_conns: "uses_conns 1 (GroupCreateTmpGroupRequestHandler_Execute E H ctx sid req)"
  unfolding GroupCreateTmpGroupRequestHandler_Execute_def Let_def
  by (intro conns_intros zr.SendIMMessage_conns zr.GetMessages_conns)

lemma GroupChangeMemberRequestHandler_conns: "uses_conns 1 (GroupChangeMemberRequestHandler_Execute E H ctx sid req)"
  unfolding GroupChangeMemberRequestHandler_Execute_def Let_def
  by (intro conns_intros zr.SendIMMessage_conns zr.GetMessages_conns)

lemma GroupDialogListRequestHandler_conns: "uses_conns 1 (GroupDialogListRequestHandler_Execute E H ctx sid req)"
  unfolding GroupDialogListRequestHandler_Execute_def members_of_groups_def Let_def
  by (intro conns_intros zr.SendIMMessage_conns zr.GetMessages_conns)

lemma FileHasOfflineReqHandler_conns: "uses_conns 1 (FileHasOfflineReqHandler_Execute E H ctx sid req)"
  unfolding FileHasOfflineReqHandler_Execute_def Let_def
  by (intro conns_intros zr.SendIMMessage_conns zr.GetMessages_conns)

lemma FileAddOfflineReqHandler_conns: "uses_conns 1 (FileAddOfflineReqHandler_Execute E H ctx sid req)"
  unfolding FileAddOfflineReqHandler_Execute_def Let_def
  by (intro conns_intros zr.SendIMMessage_conns zr.GetMessages_conns)

lemma FileDelOfflineReqHandler_conns: "uses_conns 1 (FileDelOfflineReqHandler_Execute E H ctx sid req)"
  unfolding FileDelOfflineReqHandler_Execute_def Let_def
  by (intro conns_intros zr.SendIMMessage_conns zr.GetMessages_conns)

lemmas handler_conns =
  ValidateRequestHandler_conns
  FriendListRequestHandler_conns
  RemoveSessionRequestHandler_conns
  DepartmentRequestHandler_conns
  UsersInfoRequestHandler_conns
  AllUserRequestHandler_conns
  MsgDataHandler_conns
  UnreadMsgCountRequestHandler_conns
  UnreadMsgRequestHandler_conns
  MsgReadAckHandler_conns
  GroupListRequestHandler_conns
  GroupUserListRequestHandler_conns
  GroupUnreadMsgCountRequestHandler_conns
  GroupUnreadMsgRequestHandler_conns
  GroupHistoryMsgRequestHandler_conns
  GroupMsgReadAckHandler_conns
  GroupCreateTmpGroupRequestHandler_conns
  GroupChangeMemberRequestHandler_conns
  GroupDialogListRequestHandler_conns
  FileHasOfflineReqHandler_conns
  FileAddOfflineReqHandler_conns
  FileDelOfflineReqHandler_conns

lemma dispatch_conns: "uses_conns 1 (DispatchMessageHandler E H ctx sid m)"
proof -
  have "uses_conns 1 (execute_handler h E H ctx sid m)" for h
    by (cases h; simp add: handler_conns uses_conns_return del: One_nat_def split: request.split)
  then show ?thesis
    unfolding DispatchMessageHandler_def by (intro conns_intros)
qed

text \<open>A request of another class than \<^verbatim>\<open>GroupHistoryMsgRequest\<close> is dispatched to the handler of its class.\<close>

lemma dispatch_request:
  assumes "request_ok m" "request_class_of m \<noteq> Class_GroupHistoryMsgRequest"
  shows "DispatchMessageHandler E H ctx sid m = do {
    rc \<leftarrow> execute_handler (handler_for (request_class_of m)) E H ctx sid m;
    return (map_option (\<lambda>_. 0) rc)
  }"
proof -
  have "message_type (request_base m) = fst (request_class_kind (request_class_of m))"
    using assms(1) by (simp add: request_ok_def pdu_kind_def prod_eq_iff)
  with handler_of_class [of "request_class_of m"] assms(2) show ?thesis
    by (simp add: DispatchMessageHandler_def)
qed

lemma dispatch_replies:
  assumes "request_ok m" "request_class_of m \<noteq> Class_GroupHistoryMsgRequest"
  shows "sends_one ctx sid (answer (request_base m) (answer_type (request_class_of m)))
    (DispatchMessageHandler E H ctx sid m)"
  unfolding dispatch_request [OF assms] by (rule sends_one_result [OF execute_replies [OF assms(1)]])

lemma dispatch_history:
  assumes "request_ok m" "request_class_of m = Class_GroupHistoryMsgRequest"
  shows "DispatchMessageHandler E H ctx sid m = return (Some 0)"
proof -
  have "message_type (request_base m) = fst (request_class_kind (request_class_of m))"
    using assms(1) by (simp add: request_ok_def pdu_kind_def prod_eq_iff)
  with handler_of_class [of "request_class_of m"] assms(2)
  have "g_message_handlers (message_type (request_base m)) = None"
    by simp
  then show ?thesis by (simp add: DispatchMessageHandler_def)
qed

end
