(* ===== verification/Handler_Threads.thy ===== *)
theory Handler_Threads
  imports Message_Handler
begin

text \<open>
  From a connection to a handler: \<^verbatim>\<open>zaresd/client_comm_handler.cc\<close>, \<^verbatim>\<open>zares_handler_thread.cc\<close> and
  \<^verbatim>\<open>zares_handler_thread_manager.{h,cc}\<close>. A packet that has a handler is posted to one of the
  handler threads in turn; a thread runs its tasks in the order they were posted. \<open>None\<close> as the
  result of an operation is a crash: a NULL message loop, a division by zero or an access outside
  the vector of threads.
\<close>

subsection \<open>The parameter\<close>

text \<open>Packets, the parser that asks the registered factory for an object, the sequence number and
  the threads belong to zutils. \<open>GetNext\<close> is \<^verbatim>\<open>AtomicSequenceNumber::GetNext\<close> cast to \<^verbatim>\<open>uint32\<close>,
  \<open>starts i\<close> whether \<^verbatim>\<open>StartWithOptions\<close> succeeds for the thread of index \<open>i\<close>.\<close>

record ('p, 'q) net_env =
  packet_type :: "'p \<Rightarrow> u32"
  ParseMessagePDUFromNetPacker :: "'p \<Rightarrow> request option"
  GetNext :: "'q \<Rightarrow> u32 \<times> 'q"
  starts :: "nat \<Rightarrow> bool"

subsection \<open>A handler thread\<close>

text \<open>\<open>running\<close> says that the thread has a message loop, \<open>timer\<close> that it has allocated its timer,
  \<open>tasks\<close> is what has been posted to it.\<close>

record 'p handler_thread =
  thread_index :: nat
  running :: bool
  timer :: bool
  tasks :: "(u64 \<times> 'p) list"

definition ZAresHandlerThread_ctor :: "nat \<Rightarrow> 'p handler_thread" where
  "ZAresHandlerThread_ctor i = \<lparr>thread_index = i, running = False, timer = False, tasks = []\<rparr>"

text \<open>\<^verbatim>\<open>Init\<close> is called by a thread just before its message loop starts, \<^verbatim>\<open>CleanUp\<close> just after the loop
  has ended. Stopping a thread that was not started does nothing.\<close>

definition ZAresHandlerThread_Init :: "'p handler_thread \<Rightarrow> 'p handler_thread" where
  "ZAresHandlerThread_Init t = t\<lparr>timer := True\<rparr>"

definition ZAresHandlerThread_CleanUp :: "'p handler_thread \<Rightarrow> 'p handler_thread" where
  "ZAresHandlerThread_CleanUp t = (if timer t then t\<lparr>timer := False\<rparr> else t)"

definition ZAresHandlerThread_Run ::
  "('p, 'q) net_env \<Rightarrow> 'p handler_thread \<Rightarrow> bool \<times> 'p handler_thread" where
  "ZAresHandlerThread_Run N t =
     (if starts N (thread_index t) then (True, (ZAresHandlerThread_Init t)\<lparr>running := True\<rparr>) else (False, t))"

definition ZAresHandlerThread_Shutdown :: "'p handler_thread \<Rightarrow> 'p handler_thread" where
  "ZAresHandlerThread_Shutdown t =
     (if running t then ZAresHandlerThread_CleanUp (t\<lparr>running := False\<rparr>) else t)"

definition DoMessageDataHandler :: "u64 \<Rightarrow> 'p \<Rightarrow> 'p handler_thread \<Rightarrow> 'p handler_thread option" where
  "DoMessageDataHandler sid p t =
     (if running t then Some (t\<lparr>tasks := tasks t @ [(sid, p)]\<rparr>) else None)"

definition OnMessageDataHandler ::
  "('p, 'q) net_env \<Rightarrow> ('w, 'r) db_env \<Rightarrow> handler_env \<Rightarrow> nat \<Rightarrow> u64 \<Rightarrow> 'p \<Rightarrow>
   ('w, 'z, int option) server_prog" where
  "OnMessageDataHandler N E H i sid p =
     (case ParseMessagePDUFromNetPacker N p of
        Some m \<Rightarrow> DispatchMessageHandler E H (Some i) sid m
      | None \<Rightarrow> return (Some 0))"

subsection \<open>The pool of threads\<close>

record ('p, 'q) thread_manager =
  thread_pool :: "'p handler_thread list"
  thread_pool_size :: nat
  next_thread :: 'q

definition ZAresHandlerThreadManager_Initialize ::
  "nat \<Rightarrow> ('p, 'q) thread_manager \<Rightarrow> ('p, 'q) thread_manager" where
  "ZAresHandlerThreadManager_Initialize max_conn_count m =
     m\<lparr>thread_pool_size := max_conn_count,
       thread_pool := thread_pool m @ map ZAresHandlerThread_ctor [0 ..< max_conn_count]\<rparr>"

text \<open>The first result of \<open>Shutdown\<close> is the threads it has deleted, as it left them.\<close>

definition ZAresHandlerThreadManager_Shutdown ::
  "('p, 'q) thread_manager \<Rightarrow> ('p handler_thread list \<times> ('p, 'q) thread_manager) option" where
  "ZAresHandlerThreadManager_Shutdown m =
     (if thread_pool_size m > 0 then
        (if thread_pool_size m \<le> length (thread_pool m)
         then Some (map ZAresHandlerThread_Shutdown (take (thread_pool_size m) (thread_pool m)),
                    m\<lparr>thread_pool := [], thread_pool_size := 0\<rparr>)
         else None)
      else Some ([], m))"

fun run_threads ::
  "('p, 'q) net_env \<Rightarrow> nat list \<Rightarrow> 'p handler_thread list \<Rightarrow> (bool \<times> 'p handler_thread list) option" where
  "run_threads N [] pool = Some (True, pool)"
| "run_threads N (i # is) pool =
     (if i < length pool then
        (let (ok, t) = ZAresHandlerThread_Run N (pool ! i); pool = pool[i := t]
         in if ok then run_threads N is pool else Some (False, pool))
      else None)"

definition ZAresHandlerThreadManager_Run ::
  "('p, 'q) net_env \<Rightarrow> ('p, 'q) thread_manager \<Rightarrow> (bool \<times> ('p, 'q) thread_manager) option" where
  "ZAresHandlerThreadManager_Run N m =
     (case run_threads N [0 ..< thread_pool_size m] (thread_pool m) of
        None \<Rightarrow> None
      | Some (b_rt, pool) \<Rightarrow>
          let m = m\<lparr>thread_pool := pool\<rparr>
          in if \<not> b_rt then map_option (\<lambda>(_, m). (b_rt, m)) (ZAresHandlerThreadManager_Shutdown m)
             else Some (b_rt, m))"

definition GetNextThread ::
  "('p, 'q) net_env \<Rightarrow> ('p, 'q) thread_manager \<Rightarrow> (nat \<times> ('p, 'q) thread_manager) option" where
  "GetNextThread N m =
     (if thread_pool_size m = 1 then (if thread_pool m \<noteq> [] then Some (0, m) else None)
      else if thread_pool_size m = 0 then None
      else (let (next, q) = GetNext N (next_thread m); i = unat next mod thread_pool_size m
            in if i < length (thread_pool m) then Some (i, m\<lparr>next_thread := q\<rparr>) else None))"

text \<open>The first result is the index of the thread that got the packet.\<close>

definition PostDataToDbHandler ::
  "('p, 'q) net_env \<Rightarrow> u64 \<Rightarrow> 'p \<Rightarrow> ('p, 'q) thread_manager \<Rightarrow> (nat \<times> ('p, 'q) thread_manager) option" where
  "PostDataToDbHandler N sid p m =
     (case GetNextThread N m of
        None \<Rightarrow> None
      | Some (i, m) \<Rightarrow>
          map_option (\<lambda>t. (i, m\<lparr>thread_pool := (thread_pool m)[i := t]\<rparr>))
            (DoMessageDataHandler sid p (thread_pool m ! i)))"

subsection \<open>The server\<close>

text \<open>\<open>synced\<close> is what \<^verbatim>\<open>SendSyncData\<close> has written back to connections.\<close>

record ('p, 'q, 'w) zaresd =
  manager :: "('p, 'q) thread_manager"
  server :: "'w server_state"
  synced :: "(u64 \<times> 'p) list"

definition OnDataReceived ::
  "('p, 'q) net_env \<Rightarrow> u64 \<Rightarrow> 'p \<Rightarrow> ('p, 'q, 'w) zaresd \<Rightarrow> (nat option \<times> ('p, 'q, 'w) zaresd) option" where
  "OnDataReceived N sid p s =
     (if packet_type N p = MESSAGE_HEARTBEAT then Some (None, s\<lparr>synced := synced s @ [(sid, p)]\<rparr>)
      else if CheckMessageHandler (packet_type N p) then
        map_option (\<lambda>(i, m). (Some i, s\<lparr>manager := m\<rparr>)) (PostDataToDbHandler N sid p (manager s))
      else Some (None, s))"

text \<open>The other callbacks of a connection. \<open>dec\<close> is the decimal form of a number and \<open>low_int32\<close> the
  macro \<^verbatim>\<open>GetLowInt32ByInt64\<close>; the log prefix is used for log lines only.\<close>

record client_handler =
  log_prefix :: string

definition ClientCommHandler_ctor :: client_handler where
  "ClientCommHandler_ctor = \<lparr>log_prefix = ''''\<rparr>"

definition OnNewConnection ::
  "(u32 \<Rightarrow> string) \<Rightarrow> (u64 \<Rightarrow> u32) \<Rightarrow> u64 \<Rightarrow> u32 \<Rightarrow> client_handler \<Rightarrow> int \<times> client_handler" where
  "OnNewConnection dec low_int32 sid rid h =
     (0, h\<lparr>log_prefix := ''['' @ dec (low_int32 sid) @ ''@'' @ dec rid @ '']>> ''\<rparr>)"

definition OnConnectionClosed :: "client_handler \<Rightarrow> int \<times> client_handler" where
  "OnConnectionClosed h = (0, h)"

text \<open>The steps of the running server: a connection delivers a packet, or a thread runs its next
  task. A handler runs as one step; the memory \<open>H\<close> it finds for its objects is arbitrary.\<close>

datatype 'p event =
    Received u64 'p "nat option"
  | Handled nat u64 'p

inductive server_step ::
  "('p, 'q) net_env \<Rightarrow> ('w, 'r) db_env \<Rightarrow> ('p, 'q, 'w) zaresd \<Rightarrow> 'p event \<Rightarrow>
   ('p, 'q, 'w) zaresd \<Rightarrow> bool" for N E where
  receive: "OnDataReceived N sid p s = Some (i, s') \<Longrightarrow> server_step N E s (Received sid p i) s'"
| handle: "i < length (thread_pool (manager s)) \<Longrightarrow> t = thread_pool (manager s) ! i \<Longrightarrow> running t \<Longrightarrow>
    tasks t = (sid, p) # rest \<Longrightarrow>
    run_state (OnMessageDataHandler N E H i sid p) (server s) = (Some 0, srv) \<Longrightarrow>
    server_step N E s (Handled i sid p)
      (s\<lparr>manager := (manager s)\<lparr>thread_pool := (thread_pool (manager s))[i := t\<lparr>tasks := rest\<rparr>]\<rparr>,
         server := srv\<rparr>)"

inductive server_run ::
  "('p, 'q) net_env \<Rightarrow> ('w, 'r) db_env \<Rightarrow> ('p, 'q, 'w) zaresd \<Rightarrow> 'p event list \<Rightarrow>
   ('p, 'q, 'w) zaresd \<Rightarrow> bool" for N E s where
  init: "server_run N E s [] s"
| step: "server_run N E s tr s' \<Longrightarrow> server_step N E s' e s'' \<Longrightarrow> server_run N E s (tr @ [e]) s''"

inductive_cases receive_cases: "server_step N E s (Received sid p i) s'"
inductive_cases handle_cases: "server_step N E s (Handled i sid p) s'"

subsection \<open>The pool in service\<close>

definition manager_ok :: "('p, 'q) thread_manager \<Rightarrow> bool" where
  "manager_ok m \<longleftrightarrow> thread_pool_size m = length (thread_pool m) \<and> 0 < length (thread_pool m) \<and>
     list_all running (thread_pool m)"

lemma run_threads_all:
  assumes "\<And>i. i \<in> set is \<Longrightarrow> i < length pool" "\<And>t. t \<in> set pool \<Longrightarrow> starts N (thread_index t)"
  shows "\<exists>pool'. run_threads N is pool = Some (True, pool') \<and> length pool' = length pool \<and>
    (\<forall>i < length pool. pool' ! i = (if i \<in> set is then (pool ! i)\<lparr>timer := True, running := True\<rparr> else pool ! i))"
  using assms
proof (induction "is" arbitrary: pool)
  case (Cons i "is")
  let ?pool = "pool[i := (pool ! i)\<lparr>timer := True, running := True\<rparr>]"
  have i: "i < length pool" and si: "starts N (thread_index (pool ! i))" using Cons.prems by simp_all
  have "\<exists>pool'. run_threads N is ?pool = Some (True, pool') \<and> length pool' = length ?pool \<and>
    (\<forall>j < length ?pool. pool' ! j = (if j \<in> set is then (?pool ! j)\<lparr>timer := True, running := True\<rparr> else ?pool ! j))"
  proof (rule Cons.IH)
    show "j < length ?pool" if "j \<in> set is" for j using that Cons.prems(1) by simp
    show "starts N (thread_index t)" if t: "t \<in> set ?pool" for t
      using subsetD [OF set_update_subset_insert t] Cons.prems(2) si by auto
  qed
  then obtain pool' where "run_threads N is ?pool = Some (True, pool')" "length pool' = length pool"
    and "\<forall>j < length pool. pool' ! j = (if j \<in> set is then (?pool ! j)\<lparr>timer := True, running := True\<rparr> else ?pool ! j)"
    by auto
  then show ?case
    by (intro exI [of _ pool']) (auto simp: i si ZAresHandlerThread_Run_def ZAresHandlerThread_Init_def nth_list_update)
qed simp

lemma Initialize_Run:
  assumes "thread_pool m = []" "0 < n" "\<And>i. i < n \<Longrightarrow> starts N i"
  shows "\<exists>m'. ZAresHandlerThreadManager_Run N (ZAresHandlerThreadManager_Initialize n m) = Some (True, m') \<and>
    manager_ok m' \<and> thread_pool m' = map (\<lambda>i. (ZAresHandlerThread_ctor i)\<lparr>timer := True, running := True\<rparr>) [0 ..< n] \<and>
    next_thread m' = next_thread m"
proof -
  let ?pool = "map ZAresHandlerThread_ctor [0 ..< n] :: 'a handler_thread list"
  obtain pool' where run: "run_threads N [0 ..< n] ?pool = Some (True, pool')"
    and len: "length pool' = n" and nth: "\<forall>i < n. pool' ! i = (?pool ! i)\<lparr>timer := True, running := True\<rparr>"
  proof -
    have "starts N (thread_index t)" if "t \<in> set ?pool" for t
      using that assms(3) by (auto simp: ZAresHandlerThread_ctor_def)
    with run_threads_all [of "[0 ..< n]" ?pool N] that show thesis by auto
  qed
  have pool': "pool' = map (\<lambda>i. (ZAresHandlerThread_ctor i)\<lparr>timer := True, running := True\<rparr>) [0 ..< n]"
    using len nth by (auto intro!: nth_equalityI)
  show ?thesis
    using assms(1,2) run
    by (simp add: ZAresHandlerThreadManager_Run_def ZAresHandlerThreadManager_Initialize_def
        manager_ok_def pool' list_all_iff)
qed

lemma GetNextThread_ok:
  assumes "manager_ok m"
  shows "\<exists>i q. GetNextThread N m = Some (i, m\<lparr>next_thread := q\<rparr>) \<and> i < length (thread_pool m)"
proof (cases "thread_pool_size m = 1")
  case True
  with assms show ?thesis
    by (intro exI [of _ 0] exI [of _ "next_thread m"]) (simp add: GetNextThread_def manager_ok_def)
next
  case False
  with assms show ?thesis
    by (intro exI [of _ "unat (fst (GetNext N (next_thread m))) mod thread_pool_size m"]
        exI [of _ "snd (GetNext N (next_thread m))"])
      (simp add: GetNextThread_def manager_ok_def case_prod_unfold Let_def)
qed

lemma PostData_ok:
  assumes "manager_ok m"
  shows "\<exists>i m'. PostDataToDbHandler N sid p m = Some (i, m') \<and> i < length (thread_pool m) \<and>
    manager_ok m' \<and> thread_pool m' =
      (thread_pool m)[i := (thread_pool m ! i)\<lparr>tasks := tasks (thread_pool m ! i) @ [(sid, p)]\<rparr>]"
proof -
  obtain i q where next_thr: "GetNextThread N m = Some (i, m\<lparr>next_thread := q\<rparr>)" and i: "i < length (thread_pool m)"
    using GetNextThread_ok [OF assms] by blast
  have run: "running (thread_pool m ! i)" using assms i by (simp add: manager_ok_def list_all_length)
  have "manager_ok (m\<lparr>next_thread := q, thread_pool := (thread_pool m)[i :=
      (thread_pool m ! i)\<lparr>tasks := tasks (thread_pool m ! i) @ [(sid, p)]\<rparr>]\<rparr>)"
    using assms i run by (auto simp: manager_ok_def list_all_length nth_list_update)
  then show ?thesis
    using i run by (simp add: PostDataToDbHandler_def DoMessageDataHandler_def next_thr)
qed

text \<open>A thread has its timer exactly while it runs, so a pool that is shut down leaves no timer behind,
  also when it shuts down because one of its threads did not start.\<close>

definition timers_ok :: "('p, 'q) thread_manager \<Rightarrow> bool" where
  "timers_ok m \<longleftrightarrow> list_all (\<lambda>t. timer t = running t) (thread_pool m)"

lemma timers_ok_Initialize:
  "timers_ok m \<Longrightarrow> timers_ok (ZAresHandlerThreadManager_Initialize n m)"
  by (auto simp: timers_ok_def ZAresHandlerThreadManager_Initialize_def ZAresHandlerThread_ctor_def
    list_all_iff)

lemma timers_ok_run_threads:
  "run_threads N is pool = Some (ok, pool') \<Longrightarrow> list_all (\<lambda>t. timer t = running t) pool \<Longrightarrow>
   list_all (\<lambda>t. timer t = running t) pool'"
proof (induction "is" arbitrary: pool)
  case (Cons i "is")
  have "list_all (\<lambda>t. timer t = running t) (pool[i := snd (ZAresHandlerThread_Run N (pool ! i))])"
    if "i < length pool"
    using Cons.prems(2) that
    by (auto simp: list_all_length nth_list_update ZAresHandlerThread_Run_def ZAresHandlerThread_Init_def)
  with Cons show ?case
    by (auto simp: case_prod_unfold Let_def split: if_splits)
qed simp

lemma Shutdown_timers:
  assumes "timers_ok m" "ZAresHandlerThreadManager_Shutdown m = Some (ts, m')"
  shows "list_all (\<lambda>t. \<not> running t \<and> \<not> timer t) ts \<and> timers_ok m'"
  using assms
  by (auto simp: ZAresHandlerThreadManager_Shutdown_def timers_ok_def list_all_iff
    ZAresHandlerThread_Shutdown_def ZAresHandlerThread_CleanUp_def dest!: in_set_takeD split: if_splits)

lemma timers_ok_Run:
  assumes "timers_ok m" "ZAresHandlerThreadManager_Run N m = Some (ok, m')"
  shows "timers_ok m'"
proof -
  from assms(2) obtain b pool where run: "run_threads N [0 ..< thread_pool_size m] (thread_pool m) = Some (b, pool)"
    by (auto simp: ZAresHandlerThreadManager_Run_def split: option.splits)
  with timers_ok_run_threads assms(1) have "timers_ok (m\<lparr>thread_pool := pool\<rparr>)"
    by (auto simp: timers_ok_def)
  with assms(2) run Shutdown_timers [of "m\<lparr>thread_pool := pool\<rparr>"] show ?thesis
    by (auto simp: ZAresHandlerThreadManager_Run_def Let_def split: if_splits)
qed

text \<open>An empty pool, which a failed start leaves behind, cannot take a packet.\<close>

lemma Run_failed:
  assumes "ZAresHandlerThreadManager_Run N m = Some (False, m')"
  shows "thread_pool_size m' = 0"
  using assms
  by (auto simp: ZAresHandlerThreadManager_Run_def ZAresHandlerThreadManager_Shutdown_def Let_def
    split: option.splits if_splits)

lemma PostData_empty: "thread_pool_size m = 0 \<Longrightarrow> PostDataToDbHandler N sid p m = None"
  by (simp add: PostDataToDbHandler_def GetNextThread_def)

subsection \<open>Runs\<close>

text \<open>What a run has posted to a thread, what the thread has handled, and what all have handled.\<close>

fun posted_event :: "nat \<Rightarrow> 'p event \<Rightarrow> (u64 \<times> 'p) list" where
  "posted_event i (Received sid p j) = (if j = Some i then [(sid, p)] else [])"
| "posted_event i (Handled j sid p) = []"

fun handled_event :: "nat \<Rightarrow> 'p event \<Rightarrow> (u64 \<times> 'p) list" where
  "handled_event i (Handled j sid p) = (if j = i then [(sid, p)] else [])"
| "handled_event i (Received sid p j) = []"

fun task_event :: "'p event \<Rightarrow> (u64 \<times> 'p) list" where
  "task_event (Handled j sid p) = [(sid, p)]"
| "task_event (Received sid p j) = []"

definition posted :: "nat \<Rightarrow> 'p event list \<Rightarrow> (u64 \<times> 'p) list" where
  "posted i tr = concat (map (posted_event i) tr)"

definition handled :: "nat \<Rightarrow> 'p event list \<Rightarrow> (u64 \<times> 'p) list" where
  "handled i tr = concat (map (handled_event i) tr)"

definition all_handled :: "'p event list \<Rightarrow> (u64 \<times> 'p) list" where
  "all_handled tr = concat (map task_event tr)"

text \<open>The parser's part of the contract: an object is of the class registered for the type of the
  packet and has the message type its constructor gave it.\<close>

definition parser_ok :: "('p, 'q) net_env \<Rightarrow> bool" where
  "parser_ok N \<longleftrightarrow> (\<forall>p m. ParseMessagePDUFromNetPacker N p = Some m \<longrightarrow>
     request_ok m \<and> (packet_type N p, request_class_of m) \<in> set RegisterPDUMessageFactory)"

text \<open>The packets that are answered, and the answers.\<close>

definition answered :: "('p, 'q) net_env \<Rightarrow> u64 \<times> 'p \<Rightarrow> bool" where
  "answered N = (\<lambda>(sid, p). case ParseMessagePDUFromNetPacker N p of
     None \<Rightarrow> False | Some m \<Rightarrow> request_class_of m \<noteq> Class_GroupHistoryMsgRequest)"

definition is_answer :: "('p, 'q) net_env \<Rightarrow> u64 \<times> 'p \<Rightarrow> u64 \<times> reply \<Rightarrow> bool" where
  "is_answer N = (\<lambda>(sid, p) (sid', r). sid' = sid \<and>
     (case ParseMessagePDUFromNetPacker N p of
        None \<Rightarrow> False
      | Some m \<Rightarrow> answer (request_base m) (answer_type (request_class_of m)) r))"

lemma OnMessage_run:
  assumes "parser_ok N"
  shows "fst (run_state (OnMessageDataHandler N E H i sid p) s) = Some 0 \<and>
    (\<exists>rs. outbox (snd (run_state (OnMessageDataHandler N E H i sid p) s)) = outbox s @ rs \<and>
       list_all2 (is_answer N) (filter (answered N) [(sid, p)]) rs)"
proof (cases "ParseMessagePDUFromNetPacker N p")
  case None
  then show ?thesis by (simp add: OnMessageDataHandler_def answered_def)
next
  case (Some m)
  with assms have ok: "request_ok m" by (simp add: parser_ok_def)
  show ?thesis
  proof (cases "request_class_of m = Class_GroupHistoryMsgRequest")
    case True
    with Some show ?thesis by (simp add: OnMessageDataHandler_def answered_def dispatch_history [OF ok])
  next
    case False
    from dispatch_replies [OF ok False, of "Some i" sid E H] obtain r where
      "fst (run_state (DispatchMessageHandler E H (Some i) sid m) s) = Some 0"
      "outbox (snd (run_state (DispatchMessageHandler E H (Some i) sid m) s)) = outbox s @ [(sid, r)]"
      "answer (request_base m) (answer_type (request_class_of m)) r"
      by (auto simp: sends_one_def)
    with Some False show ?thesis by (simp add: OnMessageDataHandler_def answered_def is_answer_def)
  qed
qed

lemma OnMessage_conns: "uses_conns 1 (OnMessageDataHandler N E H i sid p)"
  unfolding OnMessageDataHandler_def by (intro conns_intros dispatch_conns)

text \<open>What a run keeps.\<close>

definition run_inv ::
  "('p, 'q) net_env \<Rightarrow> ('p, 'q, 'w) zaresd \<Rightarrow> 'p event list \<Rightarrow> ('p, 'q, 'w) zaresd \<Rightarrow> bool" where
  "run_inv N s tr s' \<longleftrightarrow> manager_ok (manager s') \<and>
     length (thread_pool (manager s')) = length (thread_pool (manager s)) \<and>
     (\<forall>i < length (thread_pool (manager s)). tasks (thread_pool (manager s) ! i) @ posted i tr =
        handled i tr @ tasks (thread_pool (manager s') ! i)) \<and>
     (\<exists>rs. outbox (server s') = outbox (server s) @ rs \<and>
        list_all2 (is_answer N) (filter (answered N) (all_handled tr)) rs) \<and>
     conns_held (server s') = conns_held (server s) \<and>
     conns_peak (server s') \<le> max (conns_peak (server s)) (conns_held (server s) + 1)"

lemmas trace_defs = posted_def handled_def all_handled_def

lemma trace_snoc [simp]:
  "posted i (tr @ [e]) = posted i tr @ posted_event i e"
  "handled i (tr @ [e]) = handled i tr @ handled_event i e"
  "all_handled (tr @ [e]) = all_handled tr @ task_event e"
  "posted i [] = []" "handled i [] = []" "all_handled [] = []"
  by (simp_all add: trace_defs)

lemma receive_cases':
  assumes "server_step N E s (Received sid p j) s'" "manager_ok (manager s)"
  shows "server s' = server s \<and> manager_ok (manager s') \<and>
    ((j = None \<and> thread_pool (manager s') = thread_pool (manager s)) \<or>
     (\<exists>i < length (thread_pool (manager s)). j = Some i \<and> thread_pool (manager s') =
       (thread_pool (manager s))[i := (thread_pool (manager s) ! i)
         \<lparr>tasks := tasks (thread_pool (manager s) ! i) @ [(sid, p)]\<rparr>]))"
proof -
  from assms(1) have "OnDataReceived N sid p s = Some (j, s')" by (rule receive_cases)
  then show ?thesis
    using PostData_ok [OF assms(2), of N sid p] assms(2)
    by (auto simp: OnDataReceived_def split: if_splits)
qed

lemma run_inv_step:
  assumes inv: "run_inv N s tr s'" and st: "server_step N E s' e s''" and N: "parser_ok N"
  shows "run_inv N s (tr @ [e]) s''"
proof (cases e)
  case (Received sid p j)
  with inv receive_cases' [of N E s' sid p j s''] st show ?thesis
    by (auto simp: run_inv_def nth_list_update append_assoc [symmetric] simp del: append_assoc)
next
  case (Handled i sid p)
  let ?pool = "thread_pool (manager s')"
  from st [unfolded Handled] obtain rest H srv where s'': "s'' = s'\<lparr>manager := (manager s')\<lparr>thread_pool :=
        ?pool[i := (?pool ! i)\<lparr>tasks := rest\<rparr>]\<rparr>, server := srv\<rparr>"
    and i: "i < length ?pool" "running (?pool ! i)" "tasks (?pool ! i) = (sid, p) # rest"
    and run: "run_state (OnMessageDataHandler N E H i sid p) (server s') = (Some 0, srv)"
    by (rule handle_cases)
  from OnMessage_run [OF N, of E H i sid p "server s'"] run obtain rs where
    rs: "outbox srv = outbox (server s') @ rs" "list_all2 (is_answer N) (filter (answered N) [(sid, p)]) rs"
    by auto
  have conns: "conns_held srv = conns_held (server s')"
    "conns_peak srv \<le> max (conns_peak (server s')) (conns_held (server s') + 1)"
    using OnMessage_conns [of N E H i sid p] run unfolding uses_conns_def by (metis snd_conv)+
  have ok: "manager_ok (manager s'')"
    using inv i by (auto simp: s'' run_inv_def manager_ok_def list_all_length nth_list_update)
  from inv obtain rs' where "outbox (server s') = outbox (server s) @ rs'"
    "list_all2 (is_answer N) (filter (answered N) (all_handled tr)) rs'"
    by (auto simp: run_inv_def)
  with rs have "\<exists>rs. outbox (server s'') = outbox (server s) @ rs \<and>
      list_all2 (is_answer N) (filter (answered N) (all_handled (tr @ [e]))) rs"
    by (intro exI [of _ "rs' @ rs"])
      (simp add: s'' Handled list_all2_appendI del: filter.simps)
  with inv ok conns i show ?thesis
    by (auto simp: s'' run_inv_def Handled nth_list_update)
qed

lemma run_keeps_inv:
  assumes "server_run N E s tr s'" "manager_ok (manager s)" "parser_ok N"
  shows "run_inv N s tr s'"
  using assms
proof (induction rule: server_run.induct)
  case init
  then show ?case by (simp add: run_inv_def)
next
  case (step tr s' e s'')
  then show ?case by (blast intro: run_inv_step)
qed

text \<open>A packet is always accepted, and a thread can always run its next task.\<close>

lemma receive_total:
  assumes "manager_ok (manager s)"
  shows "\<exists>i s'. server_step N E s (Received sid p i) s'"
proof -
  have "OnDataReceived N sid p s \<noteq> None"
    using PostData_ok [OF assms, of N sid p] by (auto simp: OnDataReceived_def)
  then show ?thesis by (auto intro: server_step.receive)
qed

lemma handle_total:
  assumes "manager_ok (manager s)" "parser_ok N" "i < length (thread_pool (manager s))"
    and t: "tasks (thread_pool (manager s) ! i) = (sid, p) # rest"
  shows "\<exists>s'. server_step N E s (Handled i sid p) s' \<and>
    length (thread_pool (manager s')) = length (thread_pool (manager s)) \<and>
    map tasks (thread_pool (manager s')) = (map tasks (thread_pool (manager s)))[i := rest]"
proof -
  have "running (thread_pool (manager s) ! i)"
    using assms(1,3) by (simp add: manager_ok_def list_all_length)
  moreover have "run_state (OnMessageDataHandler N E undefined i sid p) (server s) =
      (Some 0, snd (run_state (OnMessageDataHandler N E undefined i sid p) (server s)))"
    using OnMessage_run [OF assms(2), of E undefined i sid p "server s"] by (metis prod.collapse)
  ultimately show ?thesis
    using server_step.handle [OF assms(3) refl _ t] by (fastforce simp: map_update)
qed

definition backlog :: "('p, 'q, 'w) zaresd \<Rightarrow> nat" where
  "backlog s = sum_list (map (\<lambda>t. length (tasks t)) (thread_pool (manager s)))"

lemma drain:
  assumes "server_run N E s tr s'" "manager_ok (manager s)" "parser_ok N"
  shows "\<exists>tr' s''. server_run N E s (tr @ tr') s'' \<and> backlog s'' = 0 \<and>
    list_all (\<lambda>e. task_event e \<noteq> []) tr'"
  using assms(1)
proof (induction "backlog s'" arbitrary: s' tr rule: less_induct)
  case less
  show ?case
  proof (cases "backlog s' = 0")
    case True
    with less.prems show ?thesis by (intro exI [of _ "[]"] exI [of _ s']) simp
  next
    case False
    then obtain i where i: "i < length (thread_pool (manager s'))"
      and ne: "tasks (thread_pool (manager s') ! i) \<noteq> []"
      by (auto simp: backlog_def in_set_conv_nth)
    then obtain sid p rest where t: "tasks (thread_pool (manager s') ! i) = (sid, p) # rest"
      by (cases "tasks (thread_pool (manager s') ! i)") auto
    have ok: "manager_ok (manager s')"
      using run_keeps_inv [OF less.prems assms(2,3)] by (simp add: run_inv_def)
    from handle_total [OF ok assms(3) i t, of E] obtain s1 where st: "server_step N E s' (Handled i sid p) s1"
      and new: "map tasks (thread_pool (manager s1)) = (map tasks (thread_pool (manager s')))[i := rest]"
      by blast
    have backlog: "backlog z = sum_list (map length (map tasks (thread_pool (manager z))))" for z
      by (simp add: backlog_def comp_def)
    have "map length (map tasks (thread_pool (manager s1))) =
        (map length (map tasks (thread_pool (manager s'))))[i := length rest]"
      unfolding new by (simp add: map_update)
    then have "backlog s1 < backlog s'"
      using i t elem_le_sum_list [of i "map length (map tasks (thread_pool (manager s')))"]
      by (simp add: backlog sum_list_update)
    with less.hyps [OF _ server_run.step [OF less.prems st]] obtain tr' s2 where
      "server_run N E s ((tr @ [Handled i sid p]) @ tr') s2" "backlog s2 = 0"
      "list_all (\<lambda>e. task_event e \<noteq> []) tr'"
      by blast
    then show ?thesis by (intro exI [of _ "Handled i sid p # tr'"] exI [of _ s2]) simp
  qed
qed

end
