(* ===== verification/Server_Counters.thy ===== *)
theory Server_Counters
  imports Handler_Threads
begin

text \<open>
  The counters of the running server: every handler leaves the cache in a state that the counter
  operations reach from the empty cache, and so does every run of the server. The facts about
  reachable caches hold in particular after any run: maps are well formed, and no group counter
  exists.
\<close>

definition keeps_counters :: "('w, 'z, 'a) model_prog \<Rightarrow> bool" where
  "keeps_counters p \<longleftrightarrow>
     (\<forall>s. cache_reachable (cache s) \<longrightarrow> cache_reachable (cache (snd (run_state p s))))"

named_theorems counters_intros "programs that keep the cache reachable"

lemma keeps_counters_control [counters_intros]:
  "keeps_counters (return x)"
  "keeps_counters p \<Longrightarrow> (\<And>x. keeps_counters (q x)) \<Longrightarrow> keeps_counters (p \<bind> q)"
  "keeps_counters p \<Longrightarrow> keeps_counters p' \<Longrightarrow> keeps_counters (if b then p else p')"
  "(\<And>x y. keeps_counters (k x y)) \<Longrightarrow> keeps_counters (case z of (x, y) \<Rightarrow> k x y)"
  by (auto simp: keeps_counters_def case_prod_unfold)

lemma keeps_counters_preserves: "preserves cache p \<Longrightarrow> keeps_counters p"
  by (simp add: keeps_counters_def preserves_def)

lemma keeps_counters_more: "preserves db_state.more p \<Longrightarrow> keeps_counters p"
  by (simp add: keeps_counters_preserves preserves_more_cache)

lemma keeps_counters_send [counters_intros]:
  "keeps_counters (SendSessionData ctx sid r)" "keeps_counters (SendSessionData_checked ctx sid r)"
  "(\<And>x. keeps_counters (k x)) \<Longrightarrow> keeps_counters (deref a k)"
  by (auto simp: SendSessionData_def SendSessionData_checked_def deref_def keeps_counters_def
    split: option.split)

text \<open>Reading the counters, and the operations that change them.\<close>

lemma keeps_counters_cache [counters_intros]:
  "keeps_counters (with_cache (\<lambda>c. (f c, c)))"
  "keeps_counters (with_cache (ClearUserUnreadItemCount a b t))"
  "keeps_counters (with_cache (DeleteUserReadedDialogMessages a b t))"
  "keeps_counters (with_cache (ClearUserGroupCounter a g t))"
  "keeps_counters (with_cache (\<lambda>c. (x, IncrUserMsgCount a b c)))"
  "keeps_counters (with_cache (\<lambda>c. (x, IncreaseUserUnreadMsgCount a b c)))"
  by (simp_all add: keeps_counters_def cache_reachable.intros)

lemma keeps_counters_managers [counters_intros]:
  "keeps_counters (NowMSTime E)"
  "keeps_counters (GetRecentContactByUserId E u l fs)"
  "keeps_counters (DeleteRecentContactByUserId E u f)"
  "keeps_counters (GetUserInfo_by_ids E us is)"
  "keeps_counters (GetUserInfo_by_name E n i)"
  "keeps_counters (GetAllUserInfo E is)"
  "keeps_counters (GetDepartmentInfos E ds)"
  "keeps_counters (Auth E n p)"
  "keeps_counters (GetUserFiles E u files)"
  "keeps_counters (SaveFileRecord E u v t p k)"
  "keeps_counters (DeleteFileRecord E t)"
  "keeps_counters (GetFileRecord E t f1)"
  "keeps_counters (GetGroupsByUserId E u b gs)"
  "keeps_counters (GetGroupIdsByUserId E u b ids)"
  "keeps_counters (GetGroupMembers_map E ids m)"
  "keeps_counters (GetGroupMembers E g ms)"
  "keeps_counters (GetGroupInfo E g i1)"
  "keeps_counters (GetRecentGroupsByUserId E u gs)"
  "keeps_counters (JoinGroup E ids g i1)"
  "keeps_counters (QuitGroup E u ids g i1)"
  "keeps_counters (CreateGroup E u n k av de ids i1)"
  by (rule keeps_counters_more, rule conns_intros)+

lemma keeps_counters_messages [counters_intros]:
  "keeps_counters (GetMessages E (zares_relationship E) a b i k ms)"
  "keeps_counters (GetDialogMessages a b i k ms)"
  "keeps_counters (GetGroupMessages g i k gs)"
  "keeps_counters (GetGroupMessagesFromId g i k gs)"
  "keeps_counters (SendAudioMessage a b x t)"
  "keeps_counters (SendIMGroupMessage a b x t)"
  by (simp add: keeps_counters_preserves zr.GetMessages_counters)
    (simp_all add: GetDialogMessages_def GetGroupMessages_def GetGroupMessagesFromId_def
      SendAudioMessage_def SendIMGroupMessage_def counters_intros)

lemma keeps_counters_SendIMMessage [counters_intros]:
  "keeps_counters (SendIMMessage E (zares_relationship E) a b n x t)"
  by (simp add: keeps_counters_def zr.SendIMMessage_counters [unfolded counts_success_def, rule_format]
    message_counted_def cache_reachable.intros)

subsection \<open>Handlers\<close>

lemma keeps_counters_MsgData_send [counters_intros]: "keeps_counters (MsgData_send E req)"
  unfolding MsgData_send_def Let_def by (intro counters_intros)

lemma keeps_counters_handlers:
  "keeps_counters (ValidateRequestHandler_Execute E H ctx sid r1)"
  "keeps_counters (FriendListRequestHandler_Execute E H ctx sid r2)"
  "keeps_counters (RemoveSessionRequestHandler_Execute E H ctx sid r3)"
  "keeps_counters (DepartmentRequestHandler_Execute E H ctx sid r4)"
  "keeps_counters (UsersInfoRequestHandler_Execute E H ctx sid r5)"
  "keeps_counters (AllUserRequestHandler_Execute E H ctx sid r6)"
  "keeps_counters (MsgDataHandler_Execute E H ctx sid r7)"
  "keeps_counters (UnreadMsgCountRequestHandler_Execute E H ctx sid r8)"
  "keeps_counters (UnreadMsgRequestHandler_Execute E H ctx sid r9)"
  "keeps_counters (MsgReadAckHandler_Execute E H ctx sid r10)"
  "keeps_counters (GroupListRequestHandler_Execute E H ctx sid r11)"
  "keeps_counters (GroupUserListRequestHandler_Execute E H ctx sid r12)"
  "keeps_counters (GroupUnreadMsgCountRequestHandler_Execute E H ctx sid r13)"
  "keeps_counters (GroupUnreadMsgRequestHandler_Execute E H ctx sid r14)"
  "keeps_counters (GroupHistoryMsgRequestHandler_Execute E H ctx sid r15)"
  "keeps_counters (GroupMsgReadAckHandler_Execute E H ctx sid r16)"
  "keeps_counters (GroupCreateTmpGroupRequestHandler_Execute E H ctx sid r17)"
  "keeps_counters (GroupChangeMemberRequestHandler_Execute E H ctx sid r18)"
  "keeps_counters (GroupDialogListRequestHandler_Execute E H ctx sid r19)"
  "keeps_counters (FileHasOfflineReqHandler_Execute E H ctx sid r20)"
  "keeps_counters (FileAddOfflineReqHandler_Execute E H ctx sid r21)"
  "keeps_counters (FileDelOfflineReqHandler_Execute E H ctx sid r22)"
  unfolding ValidateRequestHandler_Execute_def
    FriendListRequestHandler_Execute_def
    RemoveSessionRequestHandler_Execute_def
    DepartmentRequestHandler_Execute_def
    UsersInfoRequestHandler_Execute_def
    AllUserRequestHandler_Execute_def
    MsgDataHandler_Execute_def
    UnreadMsgCountRequestHandler_Execute_def
    UnreadMsgRequestHandler_Execute_def
    MsgReadAckHandler_Execute_def
    GroupListRequestHandler_Execute_def
    GroupUserListRequestHandler_Execute_def
    GroupUnreadMsgCountRequestHandler_Execute_def
    GroupUnreadMsgRequestHandler_Execute_def
    GroupHistoryMsgRequestHandler_Execute_def
    GroupMsgReadAckHandler_Execute_def
    GroupCreateTmpGroupRequestHandler_Execute_def
    GroupChangeMemberRequestHandler_Execute_def
    GroupDialogListRequestHandler_Execute_def
    FileHasOfflineReqHandler_Execute_def
    FileAddOfflineReqHandler_Execute_def
    FileDelOfflineReqHandler_Execute_def
    members_of_groups_def Let_def
  by (intro counters_intros)+

lemma keeps_counters_dispatch [counters_intros]: "keeps_counters (DispatchMessageHandler E H ctx sid m)"
proof -
  have "keeps_counters (execute_handler h E H ctx sid m)" for h
    by (cases h; simp add: keeps_counters_handlers counters_intros split: request.split)
  then show ?thesis
    unfolding DispatchMessageHandler_def by (auto intro!: counters_intros split: option.split)
qed

lemma keeps_counters_OnMessage: "keeps_counters (OnMessageDataHandler N E H i sid p)"
  by (simp add: OnMessageDataHandler_def counters_intros split: option.split)

subsection \<open>Runs\<close>

lemma run_keeps_counters:
  assumes "server_run N E s tr s'" "manager_ok (manager s)" "parser_ok N"
    and c: "cache_reachable (cache (server s))"
  shows "cache_reachable (cache (server s'))"
  using assms
proof (induction rule: server_run.induct)
  case (step tr s' e s'')
  then have "cache_reachable (cache (server s'))" by blast
  have ok: "manager_ok (manager s')"
    using run_keeps_inv [OF step.hyps(1) step.prems(1,2)] by (simp add: run_inv_def)
  show ?case
  proof (cases e)
    case (Received sid p j)
    with step have "server_step N E s' (Received sid p j) s''" by simp
    from receive_cases' [OF this ok] step show ?thesis by simp
  next
    case (Handled i sid p)
    from step.hyps(2) [unfolded Handled] obtain rest H srv where
      "server s'' = srv"
      "run_state (OnMessageDataHandler N E H i sid p) (server s') = (Some 0, srv)"
      by (rule handle_cases) simp
    with keeps_counters_OnMessage [of N E H i sid p] step show ?thesis
      unfolding keeps_counters_def by (metis snd_conv)
  qed
qed

end
