(* ===== verification/Counter_Races.thy ===== *)
theory Counter_Races
  imports Counter_Manager
begin

text \<open>
  The counter operations of several threads at once. \<^verbatim>\<open>CacheManager\<close> holds its lock only while it
  looks for the map of a user and a client type; what \<^verbatim>\<open>ZAresCounterManagerImpl\<close> then does through
  the pointer (\<^verbatim>\<open>zares_counter_manager_impl.cc:44-98\<close>) runs without it. Here an operation is a sequence
  of steps, each one call on a map, and the threads interleave them in any order. An iterator to an
  entry that another thread erases is invalid; using it is the value \<open>None\<close>. Insertions keep iterators
  valid, and no map of a user is ever removed. What two calls on one map do at the same instant is
  below this granularity; \<open>uses_race\<close> says which steps could meet so, and threads without a \<open>conflict\<close>
  never have two such steps to take at once.
\<close>

subsection \<open>Operations and where a thread stands in one\<close>

datatype cache_op =
    Op_IncrUserMsgCount u32 u32
  | Op_IncreaseUserUnreadMsgCount u32 u32
  | Op_ClearUserUnreadItemCount u32 u32 u32
  | Op_GetUnreadMsgCount u32 u32 Counter
  | Op_GetUserFriendUnreadCount u32 u32 u32

datatype op_result = Res_void | Res_bool bool | Res_counter bool Counter | Res_size nat

text \<open>The operations as the rest of the development takes them, in one step.\<close>

fun run_op :: "cache_op \<Rightarrow> CacheManager \<Rightarrow> op_result \<times> CacheManager" where
  "run_op (Op_IncrUserMsgCount a b) c = (Res_void, IncrUserMsgCount a b c)"
| "run_op (Op_IncreaseUserUnreadMsgCount a b) c = (Res_void, IncreaseUserUnreadMsgCount a b c)"
| "run_op (Op_ClearUserUnreadItemCount u f t) c = map_prod Res_bool id (ClearUserUnreadItemCount u f t c)"
| "run_op (Op_GetUnreadMsgCount u t k) c =
     ((case GetUnreadMsgCount u t k c of (b, k) \<Rightarrow> Res_counter b k), c)"
| "run_op (Op_GetUserFriendUnreadCount u f t) c = (Res_size (GetUserFriendUnreadCount u f t c), c)"

text \<open>\<open>At_ClearErase u f t\<close>: the thread has an iterator to the entry \<open>f\<close> of the map of \<open>u\<close> and \<open>t\<close>;
  in the walk \<open>None\<close> is the iterator \<^verbatim>\<open>end()\<close>.\<close>

datatype op_point =
    At_start cache_op
  | At_ClearFind u32 u32 u32
  | At_ClearErase u32 u32 u32
  | At_ListBegin u32 u32 Counter
  | At_ListWalk u32 u32 "u32 option" nat Counter
  | At_FriendFind u32 u32 u32
  | At_FriendRead u32 u32 u32
  | At_dangling
  | At_end op_result

definition std_first :: "('k, 'v) std_map \<Rightarrow> 'k option" where
  "std_first m = (case m of [] \<Rightarrow> None | (k, v) # _ \<Rightarrow> Some k)"

text \<open>\<^verbatim>\<open>++it\<close> at the entry of key \<open>k\<close>.\<close>

definition std_next :: "'k :: linorder \<Rightarrow> ('k, 'v) std_map \<Rightarrow> 'k option" where
  "std_next k m = std_first (dropWhile (\<lambda>e. fst e \<le> k) m)"

subsection \<open>Steps\<close>

text \<open>The part of an operation up to the end of \<^verbatim>\<open>CacheManager\<close>'s function, under its lock.\<close>

fun op_start :: "cache_op \<Rightarrow> CacheManager \<Rightarrow> op_point \<times> CacheManager" where
  "op_start (Op_IncrUserMsgCount a b) c = (At_end Res_void, IncrUserMsgCount a b c)"
| "op_start (Op_IncreaseUserUnreadMsgCount a b) c = (At_end Res_void, IncreaseUserUnreadMsgCount a b c)"
| "op_start (Op_ClearUserUnreadItemCount u f t) c =
     (if u = 0 \<or> f = 0 then At_end (Res_bool False)
      else if FindUnreadCount u t c = None then At_end (Res_bool False)
      else At_ClearFind u f t, c)"
| "op_start (Op_GetUnreadMsgCount u t k) c =
     (if u = 0 then At_end (Res_counter False k)
      else if FindUnreadCount u t c = None then At_end (Res_counter False k)
      else At_ListBegin u t k, c)"
| "op_start (Op_GetUserFriendUnreadCount u f t) c =
     (if u \<noteq> 0 \<and> f \<noteq> 0
      then if FindUnreadCount u t c = None then At_end (Res_size 0) else At_FriendFind u f t
      else At_end (Res_size 0), c)"

text \<open>One step of a thread: where it stands after it, the cache, and the entry it has erased.\<close>

fun op_step ::
  "op_point \<Rightarrow> CacheManager \<Rightarrow> (op_point \<times> CacheManager \<times> (u32 \<times> u32 \<times> u32) option) option" where
  "op_step (At_start op) c = (case op_start op c of (p, c) \<Rightarrow> Some (p, c, None))"
| "op_step (At_ClearFind u f t) c =
     (case FindUnreadCount u t c of
        None \<Rightarrow> None
      | Some m \<Rightarrow> Some (if std_find f m \<noteq> None then At_ClearErase u f t else At_end (Res_bool True), c, None))"
| "op_step (At_ClearErase u f t) c =
     (case FindUnreadCount u t c of
        None \<Rightarrow> None
      | Some m \<Rightarrow> if std_find f m = None then None
                  else Some (At_end (Res_bool True), at_UnreadCount u t (std_erase f) c, Some (u, t, f)))"
| "op_step (At_ListBegin u t k) c =
     (case FindUnreadCount u t c of
        None \<Rightarrow> None
      | Some m \<Rightarrow> Some (At_ListWalk u t (std_first m) 0 (k\<lparr>counter_user_id := u\<rparr>), c, None))"
| "op_step (At_ListWalk u t None n k) c = Some (At_end (Res_counter True k), c, None)"
| "op_step (At_ListWalk u t (Some f) n k) c =
     (case FindUnreadCount u t c of
        None \<Rightarrow> None
      | Some m \<Rightarrow>
         (case std_find f m of
            None \<Rightarrow> None
          | Some v \<Rightarrow> Some (if n < 300
              then At_ListWalk u t (std_next f m) (n + 1) (k\<lparr>unread_count := std_insert f v (unread_count k)\<rparr>)
              else At_end (Res_counter True k), c, None)))"
| "op_step (At_FriendFind u f t) c =
     (case FindUnreadCount u t c of
        None \<Rightarrow> None
      | Some m \<Rightarrow> Some (if std_find f m \<noteq> None then At_FriendRead u f t else At_end (Res_size 0), c, None))"
| "op_step (At_FriendRead u f t) c =
     (case FindUnreadCount u t c of
        None \<Rightarrow> None
      | Some m \<Rightarrow> (case std_find f m of None \<Rightarrow> None | Some n \<Rightarrow> Some (At_end (Res_size (unat n)), c, None)))"
| "op_step At_dangling c = None"
| "op_step (At_end r) c = Some (At_end r, c, None)"

text \<open>The iterator a thread holds, and what erasing an entry does to it.\<close>

fun op_iterator :: "op_point \<Rightarrow> (u32 \<times> u32 \<times> u32) option" where
  "op_iterator (At_ClearErase u f t) = Some (u, t, f)"
| "op_iterator (At_ListWalk u t (Some f) n k) = Some (u, t, f)"
| "op_iterator (At_FriendRead u f t) = Some (u, t, f)"
| "op_iterator _ = None"

fun same_entry :: "u32 \<times> u32 \<times> u32 \<Rightarrow> u32 \<times> u32 \<times> u32 \<Rightarrow> bool" where
  "same_entry (u, t, f) (u', t', f') \<longleftrightarrow> u = u' \<and> same_client t t' \<and> f = f'"

definition invalidate :: "(u32 \<times> u32 \<times> u32) option \<Rightarrow> op_point \<Rightarrow> op_point" where
  "invalidate erased p =
     (case (erased, op_iterator p) of
        (Some e, Some e') \<Rightarrow> if same_entry e e' then At_dangling else p
      | _ \<Rightarrow> p)"

record race_state =
  race_cache :: CacheManager
  race_points :: "op_point list"

definition race_step :: "nat \<Rightarrow> race_state \<Rightarrow> race_state option" where
  "race_step i s =
     (if i < length (race_points s) then
        (case op_step (race_points s ! i) (race_cache s) of
           None \<Rightarrow> None
         | Some (p, c, erased) \<Rightarrow>
             Some \<lparr>race_cache = c, race_points = (map (invalidate erased) (race_points s))[i := p]\<rparr>)
      else Some s)"

text \<open>A schedule names the thread of each step.\<close>

fun race_run :: "nat list \<Rightarrow> race_state \<Rightarrow> race_state option" where
  "race_run [] s = Some s"
| "race_run (i # is) s = (case race_step i s of None \<Rightarrow> None | Some s \<Rightarrow> race_run is s)"

definition race_init :: "cache_op list \<Rightarrow> CacheManager \<Rightarrow> race_state" where
  "race_init ops c = \<lparr>race_cache = c, race_points = map At_start ops\<rparr>"

lemma race_run_append:
  "race_run (is @ js) s = (case race_run is s of None \<Rightarrow> None | Some s \<Rightarrow> race_run js s)"
  by (induction "is" arbitrary: s) (auto split: option.splits)

subsection \<open>One thread alone\<close>

fun op_steps :: "nat \<Rightarrow> op_point \<Rightarrow> CacheManager \<Rightarrow> (op_point \<times> CacheManager) option" where
  "op_steps 0 p c = Some (p, c)"
| "op_steps (Suc n) p c = (case op_step p c of None \<Rightarrow> None | Some (p, c, _) \<Rightarrow> op_steps n p c)"

lemma op_steps_end [simp]: "op_steps n (At_end r) c = Some (At_end r, c)"
  by (induction n) simp_all

lemma std_next_sorted:
  assumes "std_valid (es @ (k, v) # fs)"
  shows "std_next k (es @ (k, v) # fs) = std_first fs"
proof -
  have "fst e \<le> k" if "e \<in> set es" for e
    using assms that by (auto simp: std_valid_def sorted_wrt_append)
  moreover have "dropWhile (\<lambda>e. fst e \<le> k) fs = fs"
    using assms by (cases fs) (auto simp: std_valid_def sorted_wrt_append)
  ultimately show ?thesis by (simp add: std_next_def dropWhile_append2)
qed

lemma walk_alone:
  assumes "FindUnreadCount u t c = Some (es @ fs)" "std_valid (es @ fs)" "n \<le> 300" "300 - n < N"
  shows "op_steps N (At_ListWalk u t (std_first fs) n k) c =
    Some (At_end (Res_counter True (k\<lparr>unread_count := copy_unread fs n (unread_count k)\<rparr>)), c)"
  using assms
proof (induction fs arbitrary: es n k N)
  case Nil
  then obtain M where "N = Suc M" by (cases N) auto
  then show ?case by (simp add: std_first_def)
next
  case (Cons e fs)
  obtain f v where e: "e = (f, v)" by (cases e)
  obtain M where N: "N = Suc M" using Cons.prems by (cases N) auto
  have v: "std_find f (es @ (f, v) # fs) = Some v"
    using Cons.prems(2) std.set_entries [OF Cons.prems(2), of f v] e by auto
  show ?case
  proof (cases "n < 300")
    case True
    have "op_steps M (At_ListWalk u t (std_first fs) (n + 1)
        (k\<lparr>unread_count := std_insert f v (unread_count k)\<rparr>)) c =
      Some (At_end (Res_counter True (k\<lparr>unread_count :=
        copy_unread fs (n + 1) (std_insert f v (unread_count k))\<rparr>)), c)"
      using Cons.IH [of "es @ [e]" "n + 1" M "k\<lparr>unread_count := std_insert f v (unread_count k)\<rparr>"]
        Cons.prems N True by simp
    with True Cons.prems(1) v show ?thesis
      using std_next_sorted [of es f v fs] Cons.prems(2) by (simp add: e N std_first_def)
  next
    case False
    with Cons.prems(1) v show ?thesis by (simp add: e N std_first_def)
  qed
qed

text \<open>302 steps after the start are enough: the walk stops after 300 entries.\<close>

lemma op_alone:
  assumes "cache_ok c"
  shows "op_steps 303 (At_start op) c =
    Some (At_end (fst (run_op op c)), snd (run_op op c))"
proof -
  have n: "op_steps 303 p c = (case op_step p c of None \<Rightarrow> None | Some (p, c, _) \<Rightarrow> op_steps 302 p c)"
    "op_steps 302 p c = (case op_step p c of None \<Rightarrow> None | Some (p, c, _) \<Rightarrow> op_steps 301 p c)"
    "op_steps 301 p c = (case op_step p c of None \<Rightarrow> None | Some (p, c, _) \<Rightarrow> op_steps 300 p c)" for p c
    using op_steps.simps(2) [of 302 p c] op_steps.simps(2) [of 301 p c] op_steps.simps(2) [of 300 p c]
    by (simp_all del: op_steps.simps)
  show ?thesis
  proof (cases op)
    case (Op_GetUnreadMsgCount u t k)
    have "op_steps 301 (At_ListWalk u t (std_first m) 0 (k\<lparr>counter_user_id := u\<rparr>)) c =
        Some (At_end (Res_counter True
          (k\<lparr>counter_user_id := u, unread_count := copy_unread m 0 (unread_count k)\<rparr>)), c)"
      if "FindUnreadCount u t c = Some m" for m
      using walk_alone [of u t c "[]" m 0 301 "k\<lparr>counter_user_id := u\<rparr>"] that
        FindUnreadCount_valid [OF assms that] by simp
    then show ?thesis
      by (cases "FindUnreadCount u t c")
        (simp_all add: Op_GetUnreadMsgCount GetUnreadMsgCount_def n(1,2) del: op_steps.simps)
  next
    case (Op_ClearUserUnreadItemCount u f t)
    then show ?thesis
      by (cases "FindUnreadCount u t c")
        (simp_all add: ClearUserUnreadItemCount_def n(1,2,3) del: op_steps.simps)
  next
    case (Op_GetUserFriendUnreadCount u f t)
    then show ?thesis
      by (cases "FindUnreadCount u t c"; cases "std_find f (the (FindUnreadCount u t c))")
        (simp_all add: GetUserFriendUnreadCount_def n(1,2,3) del: op_steps.simps)
  qed (simp_all add: n(1) del: op_steps.simps)
qed

text \<open>A thread that runs while no other holds an iterator.\<close>

lemma race_run_alone:
  assumes "op_steps n (pts ! i) c = Some (p, c')" "i < length pts"
    and "\<forall>j < length pts. j \<noteq> i \<longrightarrow> op_iterator (pts ! j) = None"
  shows "race_run (replicate n i) \<lparr>race_cache = c, race_points = pts\<rparr> =
    Some \<lparr>race_cache = c', race_points = pts[i := p]\<rparr>"
  using assms
proof (induction n arbitrary: pts c)
  case (Suc n)
  then obtain p1 c1 e where st: "op_step (pts ! i) c = Some (p1, c1, e)"
    and rest: "op_steps n p1 c1 = Some (p, c')"
    by (auto split: option.splits)
  have "(map (invalidate e) pts)[i := p1] ! j = pts[i := p1] ! j" if "j < length pts" for j
    using Suc.prems(3) that by (cases "j = i") (auto simp: invalidate_def split: option.splits)
  then have "(map (invalidate e) pts)[i := p1] = pts[i := p1]" by (intro nth_equalityI) simp_all
  then show ?case
    using Suc.IH [of "pts[i := p1]" c1] Suc.prems(2,3) st rest
    by (simp add: race_step_def nth_list_update)
qed (auto simp: list_update_id [symmetric] simp del: list_update_id)

lemma cache_ok_run_op: "cache_ok c \<Longrightarrow> cache_ok (snd (run_op op c))"
  by (cases op) (simp_all add: cache_ok_IncrUserMsgCount cache_ok_IncreaseUserUnreadMsgCount
    cache_ok_ClearUserUnreadItemCount)

text \<open>The results of operations one after the other, and the schedule that runs them so.\<close>

fun run_ops :: "cache_op list \<Rightarrow> CacheManager \<Rightarrow> op_result list \<times> CacheManager" where
  "run_ops [] c = ([], c)"
| "run_ops (op # ops) c =
     (case run_op op c of (r, c) \<Rightarrow> case run_ops ops c of (rs, c) \<Rightarrow> (r # rs, c))"

definition one_after_the_other :: "nat \<Rightarrow> nat list" where
  "one_after_the_other n = concat (map (replicate 303) [0 ..< n])"

lemma race_run_serial:
  assumes "cache_ok c" "list_all (\<lambda>p. op_iterator p = None) before"
  shows "race_run (concat (map (replicate 303) [length before ..< length before + length ops]))
      \<lparr>race_cache = c, race_points = before @ map At_start ops\<rparr> =
    Some \<lparr>race_cache = snd (run_ops ops c), race_points = before @ map At_end (fst (run_ops ops c))\<rparr>"
  using assms
proof (induction ops arbitrary: before c)
  case (Cons op ops)
  let ?i = "length before" and ?pts = "before @ At_start op # map At_start ops"
  let ?c = "snd (run_op op c)" and ?p = "At_end (fst (run_op op c))"
  have "op_iterator (?pts ! j) = None" if "j < length ?pts" for j
    using Cons.prems(2) that by (auto simp: nth_append nth_Cons list_all_length split: nat.split)
  with race_run_alone [of 303 ?pts ?i c ?p ?c] op_alone [OF Cons.prems(1), of op]
  have one: "race_run (replicate 303 ?i) \<lparr>race_cache = c, race_points = ?pts\<rparr> =
      Some \<lparr>race_cache = ?c, race_points = (before @ [?p]) @ map At_start ops\<rparr>"
    by simp
  have "[?i ..< ?i + length (op # ops)] = ?i # [length (before @ [?p]) ..< length (before @ [?p]) + length ops]"
    by (simp add: upt_rec [of ?i] del: upt_Suc)
  with one Cons.IH [of ?c "before @ [?p]"] cache_ok_run_op [OF Cons.prems(1), of op] Cons.prems(2)
  show ?case
    by (simp add: race_run_append case_prod_unfold del: upt_Suc replicate.simps)
qed simp

subsection \<open>Two threads at one entry\<close>

lemma two_clears:
  assumes "u \<noteq> 0" "f \<noteq> 0" "same_client t t'" "FindUnreadCount u t c = Some m" "std_find f m \<noteq> None"
  shows "race_run [0, 1, 0, 1, 0, 1] (race_init
      [Op_ClearUserUnreadItemCount u f t, Op_ClearUserUnreadItemCount u f t'] c) = None"
proof -
  have "FindUnreadCount u t' c = Some m" using FindUnreadCount_same [OF assms(3)] assms(4) by metis
  with assms show ?thesis
    by (simp add: race_init_def race_step_def invalidate_def numeral_2_eq_2)
qed

lemma list_and_clear:
  assumes "u \<noteq> 0" "f \<noteq> 0" "same_client t t'" "FindUnreadCount u t c = Some m" "std_first m = Some f"
  shows "race_run [0, 0, 1, 1, 1, 0] (race_init
      [Op_GetUnreadMsgCount u t k, Op_ClearUserUnreadItemCount u f t'] c) = None"
proof -
  have "FindUnreadCount u t' c = Some m" using FindUnreadCount_same [OF assms(3)] assms(4) by metis
  moreover have "std_find f m \<noteq> None" using assms(5) by (cases m) (auto simp: std_first_def std_find_def)
  moreover have "same_client t' t" using assms(3) by (auto simp: same_client_def)
  ultimately show ?thesis using assms
    by (simp add: race_init_def race_step_def invalidate_def numeral_2_eq_2)
qed

subsection \<open>Threads at different maps\<close>

text \<open>The uses of maps of unread counts an operation makes: which map, whether it changes the map, and
  whether under the lock of \<^verbatim>\<open>CacheManager\<close>. A counted message goes into the three maps of its user,
  under the lock; everything that goes through the pointer of \<^verbatim>\<open>FindUnreadCount\<close> is without it.\<close>

record map_use =
  use_map :: "u32 \<times> u32"
  use_writes :: bool
  use_locked :: bool

definition locked_write :: "u32 \<Rightarrow> u32 \<Rightarrow> map_use" where
  "locked_write u t = \<lparr>use_map = (u, t), use_writes = True, use_locked = True\<rparr>"

definition unlocked_write :: "u32 \<Rightarrow> u32 \<Rightarrow> map_use" where
  "unlocked_write u t = \<lparr>use_map = (u, t), use_writes = True, use_locked = False\<rparr>"

definition unlocked_read :: "u32 \<Rightarrow> u32 \<Rightarrow> map_use" where
  "unlocked_read u t = \<lparr>use_map = (u, t), use_writes = False, use_locked = False\<rparr>"

lemmas map_use_defs = locked_write_def unlocked_write_def unlocked_read_def

fun op_uses :: "cache_op \<Rightarrow> map_use list" where
  "op_uses (Op_IncrUserMsgCount a b) = []"
| "op_uses (Op_IncreaseUserUnreadMsgCount a b) = map (locked_write a) [17, 18, 0]"
| "op_uses (Op_ClearUserUnreadItemCount u f t) = [unlocked_read u t, unlocked_write u t]"
| "op_uses (Op_GetUnreadMsgCount u t k) = [unlocked_read u t]"
| "op_uses (Op_GetUserFriendUnreadCount u f t) = [unlocked_read u t]"

text \<open>The uses of the next step of a thread.\<close>

fun point_uses :: "op_point \<Rightarrow> map_use list" where
  "point_uses (At_start (Op_IncreaseUserUnreadMsgCount a b)) = map (locked_write a) [17, 18, 0]"
| "point_uses (At_start _) = []"
| "point_uses (At_ClearFind u f t) = [unlocked_read u t]"
| "point_uses (At_ClearErase u f t) = [unlocked_write u t]"
| "point_uses (At_ListBegin u t k) = [unlocked_read u t]"
| "point_uses (At_ListWalk u t pos n k) = [unlocked_read u t]"
| "point_uses (At_FriendFind u f t) = [unlocked_read u t]"
| "point_uses (At_FriendRead u f t) = [unlocked_read u t]"
| "point_uses _ = []"

text \<open>Two uses race when they are of the same map, one of them changes it, and not both hold the lock.\<close>

definition uses_race :: "map_use list \<Rightarrow> map_use list \<Rightarrow> bool" where
  "uses_race xs ys \<longleftrightarrow> (\<exists>x \<in> set xs. \<exists>y \<in> set ys.
     fst (use_map x) = fst (use_map y) \<and> same_client (snd (use_map x)) (snd (use_map y)) \<and>
     (use_writes x \<or> use_writes y) \<and> \<not> (use_locked x \<and> use_locked y))"

definition conflict :: "cache_op \<Rightarrow> cache_op \<Rightarrow> bool" where
  "conflict a b \<longleftrightarrow> uses_race (op_uses a) (op_uses b)"

lemma uses_race_mono:
  "set xs \<subseteq> set xs' \<Longrightarrow> set ys \<subseteq> set ys' \<Longrightarrow> uses_race xs ys \<Longrightarrow> uses_race xs' ys'"
  unfolding uses_race_def by blast

definition has_entry :: "u32 \<Rightarrow> u32 \<Rightarrow> u32 \<Rightarrow> CacheManager \<Rightarrow> bool" where
  "has_entry u t f c = (case FindUnreadCount u t c of None \<Rightarrow> False | Some m \<Rightarrow> std_find f m \<noteq> None)"

text \<open>Where a thread that runs an operation can stand, and that its pointers and iterators are valid.\<close>

fun point_ok :: "cache_op \<Rightarrow> CacheManager \<Rightarrow> op_point \<Rightarrow> bool" where
  "point_ok op c (At_start op') \<longleftrightarrow> op' = op"
| "point_ok op c (At_ClearFind u f t) \<longleftrightarrow>
     op = Op_ClearUserUnreadItemCount u f t \<and> FindUnreadCount u t c \<noteq> None"
| "point_ok op c (At_ClearErase u f t) \<longleftrightarrow> op = Op_ClearUserUnreadItemCount u f t \<and> has_entry u t f c"
| "point_ok op c (At_ListBegin u t k) \<longleftrightarrow>
     op = Op_GetUnreadMsgCount u t k \<and> FindUnreadCount u t c \<noteq> None"
| "point_ok op c (At_ListWalk u t pos n k) \<longleftrightarrow> (\<exists>k. op = Op_GetUnreadMsgCount u t k) \<and>
     (case pos of None \<Rightarrow> True | Some f \<Rightarrow> has_entry u t f c)"
| "point_ok op c (At_FriendFind u f t) \<longleftrightarrow>
     op = Op_GetUserFriendUnreadCount u f t \<and> FindUnreadCount u t c \<noteq> None"
| "point_ok op c (At_FriendRead u f t) \<longleftrightarrow> op = Op_GetUserFriendUnreadCount u f t \<and> has_entry u t f c"
| "point_ok op c At_dangling \<longleftrightarrow> False"
| "point_ok op c (At_end r) \<longleftrightarrow> True"

lemma FindUnreadCount_keeps:
  "FindUnreadCount u t c = Some m \<Longrightarrow> \<exists>m'. FindUnreadCount u t (IncreaseUserUnreadMsgCount a b c) = Some m' \<and>
     (\<forall>f. std_find f m \<noteq> None \<longrightarrow> std_find f m' \<noteq> None)"
  by (auto simp: FindUnreadCount_Increase)

text \<open>A step removes no map, and no entry but the one it erases: the pointers other threads hold stay
  valid.\<close>

lemma op_start_cache:
  "op_start op c = (p, c') \<Longrightarrow> c' = c \<or> (\<exists>a b. c' = IncrUserMsgCount a b c \<or> c' = IncreaseUserUnreadMsgCount a b c)"
  by (cases op) auto

lemma step_cache:
  assumes "op_step p c = Some (p', c', e)"
  obtains "e = None" "c' = c"
  | a b where "e = None" "c' = IncrUserMsgCount a b c"
  | a b where "e = None" "c' = IncreaseUserUnreadMsgCount a b c"
  | u f t where "p = At_ClearErase u f t" "e = Some (u, t, f)" "c' = at_UnreadCount u t (std_erase f) c"
  using assms
  by (cases "(p, c)" rule: op_step.cases)
    (auto split: option.splits if_splits prod.splits dest!: op_start_cache)

lemma step_keeps_maps:
  assumes "op_step p c = Some (p', c', e)" "FindUnreadCount u t c \<noteq> None"
  shows "FindUnreadCount u t c' \<noteq> None"
  using assms
proof (cases rule: step_cache)
  case (3 a b)
  with FindUnreadCount_keeps [of u t c _ a b] assms(2) show ?thesis by fastforce
qed (auto simp: FindUnreadCount_at)

lemma step_keeps_entries:
  assumes "op_step p c = Some (p', c', e)" "has_entry u t f c" "cache_ok c"
    and "\<forall>x. e = Some x \<longrightarrow> \<not> same_entry x (u, t, f)"
  shows "has_entry u t f c'"
proof -
  from assms(2) obtain m where m: "FindUnreadCount u t c = Some m" "std_find f m \<noteq> None"
    by (auto simp: has_entry_def split: option.splits)
  from assms(1) show ?thesis
  proof (cases rule: step_cache)
    case (3 a b)
    with FindUnreadCount_keeps [OF m(1), of a b] m(2) show ?thesis
      by (auto simp: has_entry_def split: option.splits)
  next
    case (4 u' f' t')
    with assms(4) m FindUnreadCount_valid [OF assms(3) m(1)] show ?thesis
      by (auto simp: has_entry_def FindUnreadCount_at same_client_def)
  qed (use assms in \<open>auto simp: has_entry_def\<close>)
qed

lemma step_keeps_cache_ok:
  assumes "op_step p c = Some (p', c', e)" "cache_ok c"
  shows "cache_ok c'"
  using assms
proof (cases rule: step_cache)
  case 4
  then show ?thesis using assms(2)
    unfolding cache_ok_def at_UnreadCount_def at_UnreadCountByClientType_def
    by (auto simp: unread_ok_def split: option.splits)
qed (simp_all add: cache_ok_IncrUserMsgCount cache_ok_IncreaseUserUnreadMsgCount)

text \<open>The thread itself: where its pointers are valid, it takes a step to a point where they are.\<close>

lemma std_next_in: "std_next k m = Some k' \<Longrightarrow> std_find k' m \<noteq> None"
proof -
  assume "std_next k m = Some k'"
  then have "k' \<in> fst ` set (dropWhile (\<lambda>e. fst e \<le> k) m)"
    by (cases "dropWhile (\<lambda>e. fst e \<le> k) m") (auto simp: std_next_def std_first_def)
  then have "k' \<in> fst ` set m" by (auto dest: set_dropWhileD)
  then show ?thesis by (simp add: std_find_def map_of_eq_None_iff)
qed

lemma std_first_in: "std_first m = Some k \<Longrightarrow> std_find k m \<noteq> None"
  by (cases m) (auto simp: std_first_def std_find_def)

lemma point_step:
  assumes "point_ok op c p"
  shows "\<exists>p' c' e. op_step p c = Some (p', c', e) \<and> point_ok op c' p'"
  using assms
proof (cases "(op, c, p)" rule: point_ok.cases)
  case (1 op' c op)
  with assms show ?thesis by (cases op) auto
next
  case (5 op' c u t pos n k)
  with assms show ?thesis
    by (cases pos; cases "std_next (the pos) (the (FindUnreadCount u t c))")
      (auto simp: has_entry_def split: option.splits dest: std_next_in)
qed (use assms in \<open>auto simp: has_entry_def split: option.splits dest: std_first_in\<close>)

lemma invalidate_None [simp]: "invalidate None p = p"
  by (simp add: invalidate_def)

text \<open>The other threads: they keep their place, or the entry of their iterator was erased.\<close>

lemma point_other:
  assumes "op_step p c = Some (p', c', e)" "point_ok op2 c q" "cache_ok c"
  shows "point_ok op2 c' (invalidate e q) \<or>
    (\<exists>x y. e = Some x \<and> op_iterator q = Some y \<and> same_entry x y \<and> invalidate e q = At_dangling)"
proof (cases "\<exists>x y. e = Some x \<and> op_iterator q = Some y \<and> same_entry x y")
  case True
  then show ?thesis by (auto simp: invalidate_def)
next
  case False
  then have i: "invalidate e q = q" by (auto simp: invalidate_def split: option.split)
  have q: "has_entry u t f c'" if "op_iterator q = Some (u, t, f)" for u t f
    using that assms(2) False step_keeps_entries [OF assms(1) _ assms(3), of u t f]
    by (cases q rule: op_iterator.cases) auto
  show ?thesis
    using i q assms(2) step_keeps_maps [OF assms(1)]
    by (cases "(op2, c, q)" rule: point_ok.cases) (auto split: option.splits)
qed

text \<open>Operations without a conflict do not erase an entry another one has an iterator to.\<close>

lemma point_ok_uses: "point_ok op c p \<Longrightarrow> set (point_uses p) \<subseteq> set (op_uses op)"
  by (cases "(op, c, p)" rule: point_ok.cases; cases op) (auto simp: map_use_defs)

lemma erased_conflict:
  assumes "op_step p c = Some (p', c', Some x)" "point_ok op c p" "point_ok op2 c q"
    and "op_iterator q = Some y" "same_entry x y"
  shows "conflict op op2"
proof -
  from assms(1) obtain u f t where p: "p = At_ClearErase u f t" "x = (u, t, f)"
    by (cases rule: step_cache) auto
  have "uses_race (point_uses p) (point_uses q)"
    using p assms(4,5) by (cases q rule: op_iterator.cases) (auto simp: uses_race_def map_use_defs)
  with uses_race_mono point_ok_uses assms(2,3) show ?thesis unfolding conflict_def by metis
qed

text \<open>Without any condition a thread is at a point with valid pointers, or its entry has been erased.\<close>

definition race_ok :: "cache_op list \<Rightarrow> race_state \<Rightarrow> bool" where
  "race_ok ops s \<longleftrightarrow> cache_ok (race_cache s) \<and> length (race_points s) = length ops \<and>
     (\<forall>i < length ops. race_points s ! i = At_dangling \<or> point_ok (ops ! i) (race_cache s) (race_points s ! i))"

lemma race_step_ok:
  assumes "race_ok ops s" "\<not> (i < length ops \<and> race_points s ! i = At_dangling)"
  shows "\<exists>s'. race_step i s = Some s' \<and> race_ok ops s' \<and>
    (At_dangling \<in> set (race_points s') \<longrightarrow> At_dangling \<in> set (race_points s) \<or>
      (\<exists>j < length ops. i < length ops \<and> j \<noteq> i \<and> conflict (ops ! i) (ops ! j)))"
proof (cases "i < length ops")
  case True
  with assms have p: "point_ok (ops ! i) (race_cache s) (race_points s ! i)" "cache_ok (race_cache s)"
    and len: "length (race_points s) = length ops" by (auto simp: race_ok_def)
  from point_step [OF p(1)] obtain p' c' e where
    st: "op_step (race_points s ! i) (race_cache s) = Some (p', c', e)" "point_ok (ops ! i) c' p'" by blast
  let ?pts = "(map (invalidate e) (race_points s))[i := p']"
  have pt: "?pts ! j = At_dangling \<or> point_ok (ops ! j) c' (?pts ! j)"
    "?pts ! j = At_dangling \<Longrightarrow> At_dangling \<in> set (race_points s) \<or> j \<noteq> i \<and> conflict (ops ! i) (ops ! j)"
    if j: "j < length ops" for j
  proof -
    consider "j = i" | "j \<noteq> i" "race_points s ! j = At_dangling"
      | "j \<noteq> i" "point_ok (ops ! j) (race_cache s) (race_points s ! j)"
      using assms(1) j by (auto simp: race_ok_def)
    note cs = this
    show "?pts ! j = At_dangling \<or> point_ok (ops ! j) c' (?pts ! j)"
      using cs
    proof cases
      case 3
      with point_other [OF st(1) _ p(2)] j len show ?thesis by fastforce
    qed (use j len st(2) in \<open>auto simp: invalidate_def split: option.splits\<close>)
    show "At_dangling \<in> set (race_points s) \<or> j \<noteq> i \<and> conflict (ops ! i) (ops ! j)"
      if d: "?pts ! j = At_dangling"
      using cs
    proof cases
      case 1
      with d j len st(2) show ?thesis by simp
    next
      case 2
      with j len show ?thesis by (metis nth_mem)
    next
      case 3
      with point_other [OF st(1) 3(2) p(2)] d j len st(1) erased_conflict [OF _ p(1) 3(2)] show ?thesis
        by auto
    qed
  qed
  have "At_dangling \<in> set ?pts \<longrightarrow> At_dangling \<in> set (race_points s) \<or>
      (\<exists>j < length ops. j \<noteq> i \<and> conflict (ops ! i) (ops ! j))"
    using pt(2) len by (metis in_set_conv_nth length_list_update length_map)
  with True st(1) len step_keeps_cache_ok [OF st(1) p(2)] pt(1) show ?thesis
    by (simp add: race_step_def race_ok_def)
qed (use assms in \<open>auto simp: race_step_def race_ok_def\<close>)

text \<open>A run ends in such a state, or a thread uses an iterator to an erased entry.\<close>

lemma race_run_crash:
  assumes "race_ok ops s"
  shows "(\<exists>s'. race_run is s = Some s' \<and> race_ok ops s') \<or>
    (\<exists>is1 j is2 s'. is = is1 @ j # is2 \<and> race_run is1 s = Some s' \<and> race_ok ops s' \<and>
      j < length ops \<and> race_points s' ! j = At_dangling)"
  using assms
proof (induction "is" arbitrary: s)
  case (Cons i "is")
  show ?case
  proof (cases "i < length ops \<and> race_points s ! i = At_dangling")
    case True
    with Cons.prems show ?thesis
      by (intro disjI2 exI [of _ "[]"] exI [of _ i] exI [of _ "is"] exI [of _ s]) simp
  next
    case False
    with race_step_ok [OF Cons.prems] obtain s1 where s1: "race_step i s = Some s1" "race_ok ops s1" by blast
    from Cons.IH [OF s1(2)] show ?thesis
    proof
      assume "\<exists>is1 j is2 s'. is = is1 @ j # is2 \<and> race_run is1 s1 = Some s' \<and> race_ok ops s' \<and>
        j < length ops \<and> race_points s' ! j = At_dangling"
      then obtain is1 j is2 s' where "is = is1 @ j # is2" "race_run is1 s1 = Some s'" "race_ok ops s'"
        "j < length ops" "race_points s' ! j = At_dangling" by blast
      with s1(1) show ?thesis
        by (intro disjI2 exI [of _ "i # is1"] exI [of _ j] exI [of _ is2] exI [of _ s']) simp
    qed (use s1(1) in simp)
  qed
qed simp

lemma race_run_ok:
  assumes "race_ok ops s" "At_dangling \<notin> set (race_points s)"
    and "\<And>i j. i < length ops \<Longrightarrow> j < length ops \<Longrightarrow> i \<noteq> j \<Longrightarrow> \<not> conflict (ops ! i) (ops ! j)"
  shows "\<exists>s'. race_run is s = Some s' \<and> race_ok ops s' \<and> At_dangling \<notin> set (race_points s')"
  using assms(1,2)
proof (induction "is" arbitrary: s)
  case (Cons i "is")
  have "\<not> (i < length ops \<and> race_points s ! i = At_dangling)"
    using Cons.prems by (metis nth_mem race_ok_def)
  from race_step_ok [OF Cons.prems(1) this] Cons.prems(2) assms(3) obtain s'
    where "race_step i s = Some s'" "race_ok ops s'" "At_dangling \<notin> set (race_points s')" by metis
  with Cons.IH show ?case by simp
qed simp

lemma race_init_ok:
  "cache_ok c \<Longrightarrow> race_ok ops (race_init ops c)" "At_dangling \<notin> set (race_points (race_init ops c))"
  by (auto simp: race_ok_def race_init_def)

text \<open>Operations without a conflict never have a step to take that races with one of another thread.\<close>

lemma no_conflict_no_race:
  assumes "race_ok ops s" "At_dangling \<notin> set (race_points s)" "i < length ops" "j < length ops"
    and "\<not> conflict (ops ! i) (ops ! j)"
  shows "\<not> uses_race (point_uses (race_points s ! i)) (point_uses (race_points s ! j))"
proof -
  have "set (point_uses (race_points s ! k)) \<subseteq> set (op_uses (ops ! k))" if "k < length ops" for k
    using assms(1,2) that point_ok_uses by (metis nth_mem race_ok_def)
  with assms(3-5) uses_race_mono show ?thesis unfolding conflict_def by metis
qed

subsection \<open>Every operation ends\<close>

text \<open>A bound on the steps a thread still takes, whatever the others do.\<close>

fun steps_left :: "op_point \<Rightarrow> nat" where
  "steps_left (At_start op) = 303"
| "steps_left (At_ListBegin u t k) = 302"
| "steps_left (At_ListWalk u t pos n k) = Suc (300 - n)"
| "steps_left (At_ClearFind u f t) = 2"
| "steps_left (At_ClearErase u f t) = 1"
| "steps_left (At_FriendFind u f t) = 2"
| "steps_left (At_FriendRead u f t) = 1"
| "steps_left At_dangling = 1"
| "steps_left (At_end r) = 0"

lemma op_start_left: "op_start op c = (p, c') \<Longrightarrow> steps_left p \<le> 302"
  by (cases op) (auto split: if_splits)

lemma op_step_left: "op_step p c = Some (p', c', e) \<Longrightarrow> steps_left p' \<le> steps_left p - 1"
  by (cases "(p, c)" rule: op_step.cases)
    (auto split: option.splits if_splits prod.splits dest: op_start_left)

lemma steps_left_iterator: "op_iterator p \<noteq> None \<Longrightarrow> 1 \<le> steps_left p"
  by (cases p rule: op_iterator.cases) auto

lemma invalidate_left: "steps_left (invalidate e p) \<le> steps_left p"
  using steps_left_iterator [of p] by (auto simp: invalidate_def split: option.splits)

lemma race_run_left:
  assumes "race_run is s = Some s'" "i < length (race_points s)"
  shows "steps_left (race_points s' ! i) \<le> steps_left (race_points s ! i) - count_list is i \<and>
    length (race_points s') = length (race_points s)"
  using assms
proof (induction "is" arbitrary: s)
  case (Cons j "is")
  then obtain s1 where st: "race_step j s = Some s1" and rest: "race_run is s1 = Some s'"
    by (auto split: option.splits)
  have "length (race_points s1) = length (race_points s) \<and>
      steps_left (race_points s1 ! i) \<le> steps_left (race_points s ! i) - (if j = i then 1 else 0)"
    using st Cons.prems(2) invalidate_left
    by (auto simp: race_step_def nth_list_update dest: op_step_left split: option.splits if_splits)
  with Cons.IH [OF rest] Cons.prems(2) show ?case by auto
qed simp

end
