(* ===== verification/Relation_Table.thy ===== *)
theory Relation_Table
  imports Relationship_Manager Array_Stream
begin

text \<open>
  The relation of users over a database that keeps its table: what the statements of
  \<^verbatim>\<open>ZAresRelationshipManagerImpl\<close> on \<^verbatim>\<open>IMRecentContact\<close> do, as hypotheses on the database, the
  invariant the manager keeps on the rows, and what its operations do to the relation the rows stand
  for: a partial map from pairs of users, the smaller id first, to relation ids.
\<close>

subsection \<open>The table\<close>

record contact =
  contact_id :: u32
  contact_user :: u32
  contact_friend :: u32
  contact_status :: u32

text \<open>\<open>contact_db E contacts\<close>: \<open>contacts\<close> is the content of the table in a state of the database, and
  the database executes the statements: the query answers with one of the rows of the pair, or with
  none if there is none; the first column of the answer is the id; an insertion appends its rows,
  numbers them one after the other and returns the number of the first; reading the clock does
  nothing to the table.\<close>

definition select_relation :: "('w, 'r) db_env \<Rightarrow> u32 \<Rightarrow> u32 \<Rightarrow> string" where
  "select_relation E a b = fmt_printf E
     ''SELECT relateId FROM IMRecentContact WHERE userId = %i and friendUserId = %i limit 1'' [AInt a, AInt b]"

definition insert_relation :: "('w, 'r) db_env \<Rightarrow> u32 \<Rightarrow> u32 \<Rightarrow> u32 \<Rightarrow> string" where
  "insert_relation E a b t = (if a \<noteq> b
     then fmt_query E ''INSERT INTO IMRecentContact(`userId`,`friendUserId`,`status`,`created`,`updated`) VALUES(:1, :2, :3, :4, :5),(:6, :7, :8, :9, :10)''
       [AInt a, AInt b, AInt 0, AInt t, AInt t, AInt b, AInt a, AInt 0, AInt t, AInt t]
     else fmt_query E ''INSERT INTO IMRecentContact(`userId`,`friendUserId`,`status`,`created`,`updated`) VALUES(:1, :2, :3, :4, :5)''
       [AInt a, AInt b, AInt 0, AInt t, AInt t])"

definition new_contacts :: "u32 \<Rightarrow> u32 \<Rightarrow> u32 \<Rightarrow> contact list" where
  "new_contacts i a b =
     \<lparr>contact_id = i, contact_user = a, contact_friend = b, contact_status = 0\<rparr> #
     (if a \<noteq> b then [\<lparr>contact_id = i + 1, contact_user = b, contact_friend = a, contact_status = 0\<rparr>] else [])"

definition contact_db :: "('w, 'r) db_env \<Rightarrow> ('w \<Rightarrow> contact list) \<Rightarrow> bool" where
  "contact_db E contacts \<longleftrightarrow>
     (\<forall>w a b. \<exists>rows w'. db_query E (select_relation E a b) w = (Some rows, w') \<and> contacts w' = contacts w \<and>
        (case rows of
           [] \<Rightarrow> \<forall>c \<in> set (contacts w). \<not> (contact_user c = a \<and> contact_friend c = b)
         | row # _ \<Rightarrow> \<exists>c \<in> set (contacts w). contact_user c = a \<and> contact_friend c = b \<and>
             (\<forall>x. row_u32 E row 0 x = contact_id c))) \<and>
     (\<forall>w a b t. \<exists>i w'. db_insert_id E (insert_relation E a b t) w = (i, w') \<and>
        (ucast i :: u32) \<noteq> kInvalidID \<and> (ucast i :: u32) + 1 \<noteq> kInvalidID \<and>
        contacts w' = contacts w @ new_contacts (ucast i) a b) \<and>
     (\<forall>w. contacts (snd (now_ms E w)) = contacts w)"

text \<open>The ids of rows are different: those of an insertion are new as long as there is room for them. What an
  operation that inserts once keeps: it adds at most two rows, and ids stay different.\<close>

definition fresh_ids :: "('w, 'r) db_env \<Rightarrow> ('w \<Rightarrow> contact list) \<Rightarrow> bool" where
  "fresh_ids E contacts \<longleftrightarrow> (\<forall>w a b t. length (contacts w) < 2 ^ 31 - 1 \<and> distinct (map contact_id (contacts w)) \<longrightarrow>
     distinct (map contact_id (contacts (snd (db_insert_id E (insert_relation E a b t) w)))))"

definition ids_kept :: "('w, 'r) db_env \<Rightarrow> ('w \<Rightarrow> contact list) \<Rightarrow> 'w \<Rightarrow> 'w \<Rightarrow> bool" where
  "ids_kept E contacts w w' \<longleftrightarrow> length (contacts w') \<le> length (contacts w) + 2 \<and>
     (fresh_ids E contacts \<and> length (contacts w) < 2 ^ 31 - 1 \<and> distinct (map contact_id (contacts w)) \<longrightarrow>
        distinct (map contact_id (contacts w')))"

lemma ids_kept_same: "map contact_id (contacts w') = map contact_id (contacts w) \<Longrightarrow> ids_kept E contacts w w'"
  using map_eq_imp_length_eq by (fastforce simp: ids_kept_def)

lemma ids_kept_trans:
  "map contact_id (contacts w1) = map contact_id (contacts w) \<Longrightarrow> ids_kept E contacts w1 w' \<Longrightarrow> ids_kept E contacts w w'"
  using map_eq_imp_length_eq [of contact_id "contacts w1" contact_id "contacts w"] by (simp add: ids_kept_def)

text \<open>The invariant: no pair has two rows, a pair has a row exactly if its reverse has one, and no id
  is the invalid one.\<close>

definition contact_pair :: "contact \<Rightarrow> u32 \<times> u32" where
  "contact_pair c = (contact_user c, contact_friend c)"

definition contacts_ok :: "contact list \<Rightarrow> bool" where
  "contacts_ok cs \<longleftrightarrow> distinct (map contact_pair cs) \<and>
     (\<forall>(a, b) \<in> contact_pair ` set cs. (b, a) \<in> contact_pair ` set cs) \<and>
     (\<forall>c \<in> set cs. contact_id c \<noteq> kInvalidID)"

text \<open>The relation the rows stand for.\<close>

definition ordered_pair :: "u32 \<Rightarrow> u32 \<Rightarrow> u32 \<times> u32" where
  "ordered_pair a b = (if a > b then (b, a) else (a, b))"

definition relation_of :: "contact list \<Rightarrow> u32 \<times> u32 \<Rightarrow> u32 option" where
  "relation_of cs p = (if fst p \<le> snd p then map_of (map (\<lambda>c. (contact_pair c, contact_id c)) cs) p else None)"

lemma distinct_once: "distinct (map f xs) \<Longrightarrow> length (filter (\<lambda>x. f x = k) xs) \<le> 1"
  by (induction xs) (auto simp: filter_empty_conv image_iff)

lemma ordered_pair_sym: "ordered_pair a b = ordered_pair b a"
  by (auto simp: ordered_pair_def)

lemma ordered_pair_le: "fst (ordered_pair a b) \<le> snd (ordered_pair a b)"
  by (auto simp: ordered_pair_def)

lemma relation_of_row:
  assumes "contacts_ok cs" "c \<in> set cs" "contact_user c \<le> contact_friend c"
  shows "relation_of cs (contact_pair c) = Some (contact_id c)"
proof -
  have "map_of (map (\<lambda>c. (contact_pair c, contact_id c)) cs) (contact_pair c) = Some (contact_id c)"
    using assms(1,2) by (intro map_of_is_SomeI) (auto simp: contacts_ok_def comp_def)
  with assms(3) show ?thesis by (simp add: relation_of_def) (simp add: contact_pair_def)
qed

lemma relation_of_None:
  "fst p \<le> snd p \<Longrightarrow> relation_of cs p = None \<longleftrightarrow> p \<notin> contact_pair ` set cs"
  by (auto simp: relation_of_def map_of_eq_None_iff image_image)

subsection \<open>The operations\<close>

text \<open>Looking up a relation.\<close>

lemma GetRelateId_table:
  assumes db: "contact_db E contacts" and ok: "contacts_ok (contacts (world s))" and "a \<noteq> 0" "b \<noteq> 0"
  shows "\<exists>w. run_state (GetRelateId E a b) s = 
      (case relation_of (contacts (world s)) (ordered_pair a b) of None \<Rightarrow> kInvalidID | Some i \<Rightarrow> i,
       s\<lparr>world := w, conns_peak := max (conns_held s + 1) (conns_peak s)\<rparr>) \<and> contacts w = contacts (world s)"
proof -
  obtain x y where xy: "ordered_pair a b = (x, y)" "x \<le> y"
    using ordered_pair_le [of a b] by (cases "ordered_pair a b") simp
  from db obtain rows w where q: "db_query E (select_relation E x y) (world s) = (Some rows, w)"
    "contacts w = contacts (world s)"
    and rows: "case rows of
        [] \<Rightarrow> \<forall>c \<in> set (contacts (world s)). \<not> (contact_user c = x \<and> contact_friend c = y)
      | row # _ \<Rightarrow> \<exists>c \<in> set (contacts (world s)). contact_user c = x \<and> contact_friend c = y \<and>
          (\<forall>z. row_u32 E row 0 z = contact_id c)"
    unfolding contact_db_def by blast
  let ?r = "case rows of row # _ \<Rightarrow> row_u32 E row 0 kInvalidID | [] \<Rightarrow> kInvalidID"
  have r: "?r = (case relation_of (contacts (world s)) (x, y) of None \<Rightarrow> kInvalidID | Some i \<Rightarrow> i)"
  proof (cases rows)
    case Nil
    with rows relation_of_None [of "(x, y)" "contacts (world s)"] xy(2) show ?thesis
      by (auto simp: contact_pair_def split: option.split)
  next
    case (Cons row rest)
    with rows obtain c where "c \<in> set (contacts (world s))" "contact_pair c = (x, y)"
      "row_u32 E row 0 kInvalidID = contact_id c" by (auto simp: contact_pair_def)
    with relation_of_row [OF ok this(1)] xy(2) Cons show ?thesis by (auto simp: contact_pair_def)
  qed
  have "run_state (GetRelateId E a b) s = (?r, s\<lparr>world := w, conns_peak := max (conns_held s + 1) (conns_peak s)\<rparr>)"
    using assms(3,4) q(1) xy(1)
    by (auto simp: GetRelateId_def ordered_pair_def select_relation_def run_ScopedPtr Query_def Let_def
        split: if_splits list.split)
  with q(2) r show ?thesis by (auto simp: xy(1))
qed

text \<open>New rows for a pair that had none.\<close>

lemma new_contacts_pairs: "contact_pair ` set (new_contacts i a b) = {(a, b), (b, a)}"
  by (auto simp: new_contacts_def contact_pair_def)

lemma contacts_ok_insert:
  assumes ok: "contacts_ok cs" and new: "relation_of cs (ordered_pair a b) = None"
    and i: "i \<noteq> kInvalidID" "i + 1 \<noteq> kInvalidID"
  shows "contacts_ok (cs @ new_contacts i a b)"
proof -
  have "ordered_pair a b \<notin> contact_pair ` set cs"
    using new relation_of_None [OF ordered_pair_le] by blast
  then have "(a, b) \<notin> contact_pair ` set cs" "(b, a) \<notin> contact_pair ` set cs"
    using ok by (auto simp: contacts_ok_def ordered_pair_def split: if_splits)
  moreover have "distinct (map contact_pair (new_contacts i a b))"
    by (auto simp: new_contacts_def contact_pair_def)
  moreover have "\<forall>c \<in> set (new_contacts i a b). contact_id c \<noteq> kInvalidID"
    using i by (auto simp: new_contacts_def)
  ultimately have "distinct (map contact_pair (cs @ new_contacts i a b))"
    "\<forall>c \<in> set (cs @ new_contacts i a b). contact_id c \<noteq> kInvalidID"
    using ok new_contacts_pairs [of i a b] by (auto simp: contacts_ok_def)
  moreover have "\<forall>(x, y) \<in> contact_pair ` set (cs @ new_contacts i a b).
      (y, x) \<in> contact_pair ` set (cs @ new_contacts i a b)"
    using ok unfolding set_append image_Un new_contacts_pairs by (auto simp: contacts_ok_def)
  ultimately show ?thesis unfolding contacts_ok_def by blast
qed

lemma relation_of_insert:
  assumes "relation_of cs (a, b) = None" "a \<le> b"
  shows "relation_of (cs @ new_contacts i a b) = (relation_of cs)((a, b) \<mapsto> i)"
proof
  fix p
  have "map_of (map (\<lambda>c. (contact_pair c, contact_id c)) cs) (a, b) = None"
    using assms by (simp add: relation_of_def)
  then show "relation_of (cs @ new_contacts i a b) p = ((relation_of cs)((a, b) \<mapsto> i)) p"
    using assms(2)
    by (cases p) (auto simp: relation_of_def new_contacts_def contact_pair_def map_add_def split: option.split)
qed

text \<open>Adding a friendship: the abstract operation is an update of the relation where it has no value.\<close>

lemma AddFriendship_table:
  assumes db: "contact_db E contacts" and ok: "contacts_ok (contacts (world s))" and "a \<noteq> 0" "b \<noteq> 0"
  shows "\<exists>i s'. run_state (AddFriendship E a b) s = (i, s') \<and> i \<noteq> kInvalidID \<and>
    contacts_ok (contacts (world s')) \<and>
    relation_of (contacts (world s')) = (relation_of (contacts (world s)))(ordered_pair a b \<mapsto> i) \<and>
    (\<forall>j. relation_of (contacts (world s)) (ordered_pair a b) = Some j \<longrightarrow>
      i = j \<and> contacts (world s') = contacts (world s))"
proof -
  let ?R = "relation_of (contacts (world s))" and ?p = "ordered_pair a b"
  from GetRelateId_table [OF assms] obtain w where
    look: "run_state (GetRelateId E a b) s = (case ?R ?p of None \<Rightarrow> kInvalidID | Some i \<Rightarrow> i,
       s\<lparr>world := w, conns_peak := max (conns_held s + 1) (conns_peak s)\<rparr>)"
    and w: "contacts w = contacts (world s)" by blast
  show ?thesis
  proof (cases "?R ?p")
    case (Some j)
    then obtain c where "c \<in> set (contacts (world s))" "contact_id c = j"
      by (auto simp: relation_of_def dest!: map_of_SomeD split: if_splits)
    with ok have j: "j \<noteq> kInvalidID" by (auto simp: contacts_ok_def)
    with look Some assms(3,4) ok w show ?thesis
      by (auto simp: AddFriendship_def fun_upd_idem)
  next
    case None
    obtain x y where xy: "?p = (x, y)" "x \<le> y"
      using ordered_pair_le [of a b] by (cases ?p) simp
    define t where "t = (ucast (fst (now_ms E w) div 1000) :: u32)"
    let ?w1 = "snd (now_ms E w)"
    from db obtain i w' where ins: "db_insert_id E (insert_relation E x y t) ?w1 = (i, w')"
      and i: "(ucast i :: u32) \<noteq> kInvalidID" "(ucast i :: u32) + 1 \<noteq> kInvalidID"
      and w': "contacts w' = contacts ?w1 @ new_contacts (ucast i) x y"
      unfolding contact_db_def by blast
    have now: "contacts ?w1 = contacts (world s)" using db w by (simp add: contact_db_def)
    have "\<exists>s'. run_state (AddFriendship E a b) s = (ucast i, s') \<and> world s' = w'"
      using look None xy(1) ins assms(3,4)
      by (auto simp: AddFriendship_def ordered_pair_def insert_relation_def t_def run_ScopedPtr db_ops Let_def
          split: if_splits)
    then obtain s' where s': "run_state (AddFriendship E a b) s = (ucast i, s')" "world s' = w'" by blast
    have None': "?R (x, y) = None" using None by (simp add: xy(1))
    have o: "ordered_pair x y = (x, y)" using xy(2) by (auto simp: ordered_pair_def)
    with contacts_ok_insert [OF ok, of x y "ucast i"] None' i relation_of_insert [OF None' xy(2), of "ucast i"]
      s' w' now show ?thesis
      by (auto simp: xy(1))
  qed
qed

subsection \<open>Two threads\<close>

text \<open>The part of \<^verbatim>\<open>AddFriendship\<close> after the lookup, on another connection and in no transaction with
  it.\<close>

definition AddFriendship_insert :: "('w, 'r) db_env \<Rightarrow> u32 \<Rightarrow> u32 \<Rightarrow> u32 \<Rightarrow> ('w, 'z, u32) db_prog" where
  "AddFriendship_insert E relate_id usera_id userb_id =
     (if relate_id \<noteq> kInvalidID then return relate_id
      else do {
        let (usera_id, userb_id) =
          (if usera_id > userb_id then (userb_id, usera_id) else (usera_id, userb_id));
        now \<leftarrow> NowMSTime E;
        let ctime = (ucast (now div 1000) :: u32);
        ScopedPtr_DatabaseConnection (do {
          ident \<leftarrow> ExecuteInsertID E (insert_relation E usera_id userb_id ctime);
          return (ucast ident)
        })
      })"

lemma AddFriendship_steps:
  "AddFriendship E a b = (if a = 0 \<or> b = 0 then return kInvalidID
     else do { r \<leftarrow> GetRelateId E a b; AddFriendship_insert E r a b })"
  by (auto simp: AddFriendship_def AddFriendship_insert_def insert_relation_def Let_def
      intro!: arg_cong2 [where f = State_Monad.bind] ext)

text \<open>Two threads that add the same friendship, each after its own lookup.\<close>

definition AddFriendship_twice :: "('w, 'r) db_env \<Rightarrow> u32 \<Rightarrow> u32 \<Rightarrow> ('w, 'z, u32 \<times> u32) db_prog" where
  "AddFriendship_twice E a b = do {
     r1 \<leftarrow> GetRelateId E a b;
     r2 \<leftarrow> GetRelateId E b a;
     i1 \<leftarrow> AddFriendship_insert E r1 a b;
     i2 \<leftarrow> AddFriendship_insert E r2 b a;
     return (i1, i2)
   }"

lemma insert_table:
  assumes db: "contact_db E contacts" and xy: "ordered_pair a b = (x, y)"
  shows "\<exists>i s'. run_state (AddFriendship_insert E kInvalidID a b) s = (i, s') \<and>
    contacts (world s') = contacts (world s) @ new_contacts i x y \<and> ids_kept E contacts (world s) (world s')"
proof -
  define t where "t = (ucast (fst (now_ms E (world s)) div 1000) :: u32)"
  let ?w = "snd (now_ms E (world s))"
  from db obtain i w' where ins: "db_insert_id E (insert_relation E x y t) ?w = (i, w')"
    and w': "contacts w' = contacts ?w @ new_contacts (ucast i) x y"
    unfolding contact_db_def by blast
  have "\<exists>s'. run_state (AddFriendship_insert E kInvalidID a b) s = (ucast i, s') \<and> world s' = w'"
    using xy ins
    by (auto simp: AddFriendship_insert_def ordered_pair_def t_def run_ScopedPtr db_ops Let_def split: if_splits)
  moreover have "contacts ?w = contacts (world s)" using db by (simp add: contact_db_def)
  moreover have "ids_kept E contacts ?w w'"
  proof -
    have "distinct (map contact_id (contacts w'))"
      if "fresh_ids E contacts" "length (contacts ?w) < 2 ^ 31 - 1" "distinct (map contact_id (contacts ?w))"
      using that ins unfolding fresh_ids_def by (metis snd_conv)
    moreover have "length (contacts w') \<le> length (contacts ?w) + 2" by (simp add: w' new_contacts_def)
    ultimately show ?thesis by (auto simp: ids_kept_def)
  qed
  ultimately show ?thesis using w' by (auto simp: ids_kept_def)
qed

lemma filter_new_contacts:
  "a \<noteq> b \<Longrightarrow> filter (\<lambda>c. contact_pair c = (a, b)) (new_contacts i a b) =
     [\<lparr>contact_id = i, contact_user = a, contact_friend = b, contact_status = 0\<rparr>]"
  "a = b \<Longrightarrow> filter (\<lambda>c. contact_pair c = (a, b)) (new_contacts i a b) =
     [\<lparr>contact_id = i, contact_user = a, contact_friend = b, contact_status = 0\<rparr>]"
  by (auto simp: new_contacts_def contact_pair_def)

lemma AddFriendship_twice_table:
  assumes db: "contact_db E contacts" and ok: "contacts_ok (contacts (world s))" and "a \<noteq> 0" "b \<noteq> 0"
    and new: "relation_of (contacts (world s)) (ordered_pair a b) = None"
  shows "\<exists>i j s'. run_state (AddFriendship_twice E a b) s = ((i, j), s') \<and>
    map contact_id (filter (\<lambda>c. contact_pair c = ordered_pair a b) (contacts (world s'))) = [i, j]"
proof -
  obtain x y where xy: "ordered_pair a b = (x, y)" by (cases "ordered_pair a b")
  from GetRelateId_table [OF db ok assms(3,4)] new obtain s1 where
    s1: "run_state (GetRelateId E a b) s = (kInvalidID, s1)" "contacts (world s1) = contacts (world s)" by auto
  from GetRelateId_table [OF db _ assms(4,3), of s1] ok new obtain s2 where
    s2: "run_state (GetRelateId E b a) s1 = (kInvalidID, s2)" "contacts (world s2) = contacts (world s)"
    by (auto simp: s1(2) ordered_pair_sym [of b a])
  from insert_table [OF db xy, of s2] obtain i s3 where
    s3: "run_state (AddFriendship_insert E kInvalidID a b) s2 = (i, s3)"
      "contacts (world s3) = contacts (world s) @ new_contacts i x y" by (auto simp: s2(2))
  from insert_table [OF db, of b a x y s3] xy obtain j s4 where
    s4: "run_state (AddFriendship_insert E kInvalidID b a) s3 = (j, s4)"
      "contacts (world s4) = contacts (world s) @ new_contacts i x y @ new_contacts j x y"
    by (auto simp: s3(2) ordered_pair_sym [of b a])
  have "(x, y) \<notin> contact_pair ` set (contacts (world s))"
    using new relation_of_None [OF ordered_pair_le, of "contacts (world s)" a b] by (simp add: xy)
  then have "filter (\<lambda>c. contact_pair c = (x, y)) (contacts (world s)) = []"
    by (force simp: filter_empty_conv)
  then have "map contact_id (filter (\<lambda>c. contact_pair c = (x, y)) (contacts (world s4))) = [i, j]"
    by (cases "x = y") (simp_all add: s4(2) filter_new_contacts)
  then show ?thesis using s1 s2 s3 s4 by (auto simp: AddFriendship_twice_def xy)
qed

subsection \<open>A database that keeps the table\<close>

text \<open>A small database, to show that the hypotheses can hold: the text of a statement starts with its
  numbers, four characters each.\<close>

fun enc_arg :: "sql_arg \<Rightarrow> string" where
  "enc_arg (AInt w) = string_of_bytes (be32 w)"
| "enc_arg _ = ''''"

definition dec_arg :: "nat \<Rightarrow> string \<Rightarrow> u32" where
  "dec_arg k sql = of_be32 (bytes_of_string (take 4 (drop (4 * k) sql)))"

definition table_env :: "(contact list, u32) db_env" where
  "table_env = \<lparr>
     db_query = (\<lambda>sql w. (Some (map contact_id (take 1
       (filter (\<lambda>c. contact_user c = dec_arg 0 sql \<and> contact_friend c = dec_arg 1 sql) w))), w)),
     db_execute = (\<lambda>sql w. (0, w)),
     db_insert_id = (\<lambda>sql w. let i = of_nat (length w mod 1000) + 1
       in (i, w @ new_contacts (ucast i) (dec_arg 0 sql) (dec_arg 1 sql))),
     now_ms = (\<lambda>w. (0, w)), row_u32 = (\<lambda>r i x. r), row_str = (\<lambda>r i x. x),
     ret_u32 = (\<lambda>r i x. (True, r)), ret_str = (\<lambda>r i x. (True, x)), uninit_u32 = 0,
     fmt_printf = (\<lambda>f args. concat (map enc_arg args) @ f),
     fmt_query = (\<lambda>f args. concat (map enc_arg args) @ f),
     fmt_join = (\<lambda>xs c. ''''), fmt_join_str = (\<lambda>xs c. ''''), fmt_uint = (\<lambda>n. '''')\<rparr>"

lemma bytes_of_string_of_bytes [simp]: "bytes_of_string (string_of_bytes bs) = bs"
proof -
  have "(of_nat (of_char (char_of (unat b) :: char)) :: byte) = b" for b :: byte
    using unsigned_less [of b, where ?'a = nat] by (simp add: of_char_of)
  then show ?thesis by (simp add: bytes_of_string_def string_of_bytes_def comp_def)
qed

lemma length_enc: "length (string_of_bytes (be32 w)) = 4"
  by (simp add: string_of_bytes_def be32_def)

lemma dec_enc [unfolded One_nat_def, simp]:
  "dec_arg 0 (string_of_bytes (be32 a) @ string_of_bytes (be32 b) @ r) = a"
  "dec_arg 1 (string_of_bytes (be32 a) @ string_of_bytes (be32 b) @ r) = b"
  by (simp_all add: dec_arg_def length_enc)

lemma table_env_db: "contact_db table_env (\<lambda>w. w)"
proof -
  have sel: "dec_arg 0 (select_relation table_env a b) = a" "dec_arg 1 (select_relation table_env a b) = b" for a b
    by (simp_all add: select_relation_def table_env_def)
  have ins: "dec_arg 0 (insert_relation table_env a b t) = a" "dec_arg 1 (insert_relation table_env a b t) = b" for a b t
    by (simp_all add: insert_relation_def table_env_def)
  have id: "(ucast (of_nat (k mod 1000) + 1 :: u64) :: u32) = of_nat (k mod 1000 + 1)" for k
    by (rule word_unat_eq_iff [THEN iffD2]) (simp add: unsigned_ucast_eq unat_of_nat unat_word_ariths take_bit_eq_mod)
  have small: "(of_nat (k mod 1000 + 1) :: u32) \<noteq> kInvalidID" "(of_nat (k mod 1000 + 1) :: u32) + 1 \<noteq> kInvalidID" for k
    by (auto simp: word_unat_eq_iff unat_of_nat unat_word_ariths)
  have q: "case map contact_id (take 1 (filter (\<lambda>c. contact_user c = a \<and> contact_friend c = b) w)) of
      [] \<Rightarrow> \<forall>c \<in> set w. \<not> (contact_user c = a \<and> contact_friend c = b)
    | row # _ \<Rightarrow> \<exists>c \<in> set w. contact_user c = a \<and> contact_friend c = b \<and>
        (\<forall>x. row_u32 table_env row 0 x = contact_id c)" for w a b
    by (cases "filter (\<lambda>c. contact_user c = a \<and> contact_friend c = b) w")
      (auto simp: table_env_def filter_empty_conv dest: Cons_eq_filterD [OF sym])
  have qry: "db_query table_env (select_relation table_env a b) w = (Some (map contact_id (take 1
      (filter (\<lambda>c. contact_user c = a \<and> contact_friend c = b) w))), w)" for w a b
    using sel [of a b] by (simp add: table_env_def)
  have dbi: "db_insert_id table_env (insert_relation table_env a b t) w =
      (of_nat (length w mod 1000) + 1, w @ new_contacts (of_nat (length w mod 1000 + 1)) a b)" for w a b t
    using ins [of a b t] by (simp add: table_env_def Let_def id del: of_nat_add)
  have now: "snd (now_ms table_env w) = w" for w by (simp add: table_env_def)
  show ?thesis
    unfolding contact_db_def qry dbi now using q small id by auto
qed

end
