(* ===== verification/Table_Lists.thy ===== *)
theory Table_Lists
  imports Prelude "HOL-Library.Multiset"
begin

text \<open>
  Answers of queries with a limit: rows of a table in an order that is not known, all of them if there
  are not too many.
\<close>

definition limited_rows :: "nat \<Rightarrow> 'a list \<Rightarrow> 'a list \<Rightarrow> bool" where
  "limited_rows n rows xs \<longleftrightarrow> mset rows \<subseteq># mset xs \<and> length rows = min n (length xs)"

text \<open>A list whose elements are among those of a list without repetition.\<close>

lemma distinct_submset:
  assumes "mset xs \<subseteq># mset ys" "distinct ys"
  shows "distinct xs"
proof -
  have "count (mset xs) a = (if a \<in> set xs then 1 else 0)" for a
  proof -
    have "count (mset xs) a \<le> count (mset ys) a" using assms(1) by (rule mset_subset_eq_count)
    also have "\<dots> \<le> 1" using assms(2) by (simp add: distinct_count_atmost_1)
    finally show ?thesis
      using count_greater_zero_iff [of "mset xs" a] by (auto simp: le_Suc_eq not_in_iff [symmetric])
  qed
  then show ?thesis by (simp add: distinct_count_atmost_1)
qed

text \<open>What is known of a column without repetition.\<close>

lemma limited_column:
  assumes "limited_rows n rows xs" "distinct (map f xs)"
  shows "distinct (map f rows)" "set (map f rows) \<subseteq> f ` set xs" "length rows = min n (card (f ` set xs))"
proof -
  have sub: "mset (map f rows) \<subseteq># mset (map f xs)"
    using assms(1) image_mset_subseteq_mono [of "mset rows" "mset xs" f] by (simp add: limited_rows_def)
  then show "distinct (map f rows)" using assms(2) by (rule distinct_submset)
  show "set (map f rows) \<subseteq> f ` set xs" using set_mset_mono [OF sub] by simp
  show "length rows = min n (card (f ` set xs))"
    using assms(1) distinct_card [OF assms(2)] by (simp add: limited_rows_def)
qed

lemma limited_take: "limited_rows n (take n xs) xs"
proof -
  have "mset (take n xs) \<subseteq># mset xs" by (metis append_take_drop_id mset_append mset_subset_eq_add_left)
  then show ?thesis by (simp add: limited_rows_def min.commute)
qed

end
