(* ===== verification/Contact_Book.thy ===== *)
theory Contact_Book
  imports Relation_Table Message_Manager Table_Lists
begin

text \<open>
  The contact lists of users: what all operations of \<^verbatim>\<open>ZAresRelationshipManagerImpl\<close>, and the sending of a
  message, do to the table \<^verbatim>\<open>IMRecentContact\<close>, as operations on an abstract contact book: which pairs of
  users are related, and which friends each user's list shows. A row of status 0 is shown.
\<close>

subsection \<open>The other statements\<close>

definition select_recent :: "('w, 'r) db_env \<Rightarrow> u32 \<Rightarrow> string" where
  "select_recent E u = fmt_printf E
     ''SELECT relateId,friendUserId,status,created,updated FROM IMRecentContact WHERE userId = %d AND status = 0 ORDER BY updated DESC, relateId DESC LIMIT 100'' [AInt u]"

definition select_status :: "('w, 'r) db_env \<Rightarrow> u32 \<Rightarrow> u32 \<Rightarrow> u32 \<Rightarrow> u32 \<Rightarrow> string" where
  "select_status E a b c d = fmt_query E
     ''SELECT relateId,status FROM IMRecentContact WHERE (userId=:1 AND friendUserId=:2) OR (userId=:3 AND friendUserId=:4) LIMIT 2''
     [AInt a, AInt b, AInt c, AInt d]"

definition update_hidden :: "('w, 'r) db_env \<Rightarrow> u32 \<Rightarrow> u32 \<Rightarrow> string" where
  "update_hidden E u f = fmt_printf E
     ''UPDATE IMRecentContact SET status = 1 WHERE userId = %d AND friendUserId = %d LIMIT 1'' [AInt u, AInt f]"

text \<open>The ids of \<^verbatim>\<open>CheckAndUpdateRelation\<close>, separated by commas.\<close>

fun id_list :: "('w, 'r) db_env \<Rightarrow> u32 list \<Rightarrow> string" where
  "id_list E [] = ''''"
| "id_list E [i] = fmt_uint E i"
| "id_list E (i # is) = fmt_uint E i @ '','' @ id_list E is"

definition update_shown :: "('w, 'r) db_env \<Rightarrow> u32 list \<Rightarrow> string" where
  "update_shown E is = fmt_printf E
     ''UPDATE IMRecentContact SET status = 0 WHERE relateId in (%s) LIMIT 4'' [AStr (id_list E is)]"

definition insert_message :: "('w, 'r) db_env \<Rightarrow> sql_arg list \<Rightarrow> string" where
  "insert_message E args = fmt_query E
     ''INSERT INTO IMMessage(`relateId`,`fromUserId`,`toUserId`,`content`,`type`,`created`,`updated`) VALUES(:1,:2,:3,:4,:5,:6,:7)'' args"

definition set_status :: "(contact \<Rightarrow> bool) \<Rightarrow> u32 \<Rightarrow> contact list \<Rightarrow> contact list" where
  "set_status P v = map (\<lambda>c. if P c then c\<lparr>contact_status := v\<rparr> else c)"

text \<open>What the database does: the list query answers with rows of the user's shown contacts, all of them
  if there are at most 100.\<close>

definition answers_recent :: "('w, 'r) db_env \<Rightarrow> ('w \<Rightarrow> contact list) \<Rightarrow> bool" where
  "answers_recent E contacts \<longleftrightarrow> (\<forall>w u. \<exists>rows w' cs.
     db_query E (select_recent E u) w = (Some rows, w') \<and> contacts w' = contacts w \<and>
     limited_rows 100 cs (filter (\<lambda>c. contact_user c = u \<and> contact_status c = 0) (contacts w)) \<and>
     list_all2 (\<lambda>row c. \<forall>x. ret_u32 E row 1 x = (True, contact_friend c)) rows cs)"

text \<open>The status query answers with the first two rows of the two pairs it names.\<close>

definition answers_status :: "('w, 'r) db_env \<Rightarrow> ('w \<Rightarrow> contact list) \<Rightarrow> bool" where
  "answers_status E contacts \<longleftrightarrow> (\<forall>w a b c d. \<exists>rows w'.
     db_query E (select_status E a b c d) w = (Some rows, w') \<and> contacts w' = contacts w \<and>
     list_all2 (\<lambda>row c. (\<forall>x. row_u32 E row 0 x = contact_id c) \<and> (\<forall>x. row_u32 E row 1 x = contact_status c))
       rows (take 2 (filter (\<lambda>e. contact_pair e = (a, b) \<or> contact_pair e = (c, d)) (contacts w))))"

text \<open>An update changes the status of the rows it names, if these are not more than its limit, and an
  insertion into the table of messages leaves the contacts alone. The decimal form of a number is
  not empty.\<close>

definition hides_rows :: "('w, 'r) db_env \<Rightarrow> ('w \<Rightarrow> contact list) \<Rightarrow> bool" where
  "hides_rows E contacts \<longleftrightarrow> (\<forall>w u f. length (filter (\<lambda>c. contact_pair c = (u, f)) (contacts w)) \<le> 1 \<longrightarrow>
     contacts (snd (db_execute E (update_hidden E u f) w)) =
       set_status (\<lambda>c. contact_pair c = (u, f)) 1 (contacts w))"

definition shows_rows :: "('w, 'r) db_env \<Rightarrow> ('w \<Rightarrow> contact list) \<Rightarrow> bool" where
  "shows_rows E contacts \<longleftrightarrow> (\<forall>w is. is \<noteq> [] \<and> length (filter (\<lambda>c. contact_id c \<in> set is) (contacts w)) \<le> 4 \<longrightarrow>
     contacts (snd (db_execute E (update_shown E is) w)) =
       set_status (\<lambda>c. contact_id c \<in> set is) 0 (contacts w))"

definition book_db :: "('w, 'r) db_env \<Rightarrow> ('w \<Rightarrow> contact list) \<Rightarrow> bool" where
  "book_db E contacts \<longleftrightarrow> contact_db E contacts \<and> answers_recent E contacts \<and> answers_status E contacts \<and>
     hides_rows E contacts \<and> shows_rows E contacts \<and>
     (\<forall>w args. contacts (snd (db_execute E (insert_message E args) w)) = contacts w) \<and>
     (\<forall>n. fmt_uint E n \<noteq> [])"

subsection \<open>The contact book\<close>

record contact_book =
  related :: "u32 \<times> u32 \<Rightarrow> u32 option"
  shows_friend :: "(u32 \<times> u32) set"

definition book_of :: "contact list \<Rightarrow> contact_book" where
  "book_of cs = \<lparr>related = relation_of cs, shows_friend = contact_pair ` {c \<in> set cs. contact_status c = 0}\<rparr>"

text \<open>Two users are related when their pair has an id.\<close>

definition are_related :: "contact_book \<Rightarrow> u32 \<Rightarrow> u32 \<Rightarrow> bool" where
  "are_related k a b \<longleftrightarrow> related k (ordered_pair a b) \<noteq> None"

definition relate :: "u32 \<Rightarrow> u32 \<Rightarrow> u32 \<Rightarrow> contact_book \<Rightarrow> contact_book" where
  "relate a b i k = (if are_related k a b then k
     else k\<lparr>related := (related k)(ordered_pair a b \<mapsto> i), shows_friend := shows_friend k \<union> {(a, b), (b, a)}\<rparr>)"

definition hide_friend :: "u32 \<Rightarrow> u32 \<Rightarrow> contact_book \<Rightarrow> contact_book" where
  "hide_friend u f k = k\<lparr>shows_friend := shows_friend k - {(u, f)}\<rparr>"

definition show_friend :: "u32 \<Rightarrow> u32 \<Rightarrow> contact_book \<Rightarrow> contact_book" where
  "show_friend a b k = (if are_related k a b then k\<lparr>shows_friend := insert (a, b) (shows_friend k)\<rparr> else k)"

subsection \<open>Changing the status of rows\<close>

lemma set_status_keeps:
  "contact_pair ` set (set_status P v cs) = contact_pair ` set cs"
  "map contact_pair (set_status P v cs) = map contact_pair cs"
  "map contact_id (set_status P v cs) = map contact_id cs"
  "relation_of (set_status P v cs) = relation_of cs"
proof -
  show p: "map contact_pair (set_status P v cs) = map contact_pair cs"
    "map contact_id (set_status P v cs) = map contact_id cs"
    by (simp_all add: set_status_def contact_pair_def)
  then show "contact_pair ` set (set_status P v cs) = contact_pair ` set cs" by (metis set_map)
  have "map (\<lambda>c. (contact_pair c, contact_id c)) (set_status P v cs) = map (\<lambda>c. (contact_pair c, contact_id c)) cs"
    by (simp add: set_status_def contact_pair_def)
  then show "relation_of (set_status P v cs) = relation_of cs" by (simp add: relation_of_def fun_eq_iff)
qed

lemma set_status_ok: "contacts_ok (set_status P v cs) = contacts_ok cs"
proof -
  have "(\<forall>c \<in> set (set_status P v cs). contact_id c \<noteq> kInvalidID) \<longleftrightarrow>
      (\<forall>i \<in> set (map contact_id (set_status P v cs)). i \<noteq> kInvalidID)" by simp
  then show ?thesis
    unfolding contacts_ok_def set_status_keeps by (simp add: set_status_keeps(3))
qed

lemma pair_unique: "contacts_ok cs \<Longrightarrow> c \<in> set cs \<Longrightarrow> d \<in> set cs \<Longrightarrow> contact_pair c = contact_pair d \<Longrightarrow> c = d"
  by (auto simp: contacts_ok_def distinct_map inj_on_def)

lemma shows_set_status:
  "shows_friend (book_of (set_status P v cs)) =
     contact_pair ` {c \<in> set cs. if P c then v = 0 else contact_status c = 0}"
proof -
  let ?g = "\<lambda>c. if P c then c\<lparr>contact_status := v\<rparr> else c"
  have g: "contact_pair (?g c) = contact_pair c"
    "contact_status (?g c) = 0 \<longleftrightarrow> (if P c then v = 0 else contact_status c = 0)" for c
    by (simp_all add: contact_pair_def)
  have "{d \<in> ?g ` set cs. contact_status d = 0} = ?g ` {c \<in> set cs. contact_status (?g c) = 0}" by blast
  then show ?thesis
    by (simp only: book_of_def contact_book.select_convs set_status_def set_map g image_image)
qed

subsection \<open>The list of a user\<close>

definition friends_shown :: "contact_book \<Rightarrow> u32 \<Rightarrow> u32 set" where
  "friends_shown k u = {f. (u, f) \<in> shows_friend k}"

lemma friends_shown_book:
  "friends_shown (book_of cs) u = contact_friend ` set (filter (\<lambda>c. contact_user c = u \<and> contact_status c = 0) cs)"
  by (force simp: friends_shown_def book_of_def contact_pair_def)

lemma friends_distinct:
  "contacts_ok cs \<Longrightarrow> distinct (map contact_friend (filter (\<lambda>c. contact_user c = u \<and> contact_status c = 0) cs))"
  by (auto simp: contacts_ok_def distinct_map inj_on_def contact_pair_def)

lemma parsed_friend:
  "ret_u32 E row 1 (FriendInfo.friend_user_id i) = (True, f) \<Longrightarrow>
   FriendInfo.friend_user_id (snd (friend_ParseFromDatabase E i row)) = f"
  by (simp add: friend_ParseFromDatabase_def DB_column_u32_def case_prod_unfold Let_def)

lemma GetRecentContact_book:
  assumes db: "book_db E contacts" and ok: "contacts_ok (contacts (world s))" and u: "u \<noteq> 0"
  shows "\<exists>fs s'. run_state (GetRecentContactByUserId E u l []) s = ((True, fs), s') \<and>
    contacts (world s') = contacts (world s) \<and> distinct (map FriendInfo.friend_user_id fs) \<and>
    set (map FriendInfo.friend_user_id fs) \<subseteq> friends_shown (book_of (contacts (world s))) u \<and>
    length fs = min 100 (card (friends_shown (book_of (contacts (world s))) u))"
proof -
  let ?sh = "filter (\<lambda>c. contact_user c = u \<and> contact_status c = 0) (contacts (world s))"
  from db obtain rows w cs where q: "db_query E (select_recent E u) (world s) = (Some rows, w)"
    "contacts w = contacts (world s)"
    and cs: "limited_rows 100 cs ?sh"
    and rows: "list_all2 (\<lambda>row c. \<forall>x. ret_u32 E row 1 x = (True, contact_friend c)) rows cs"
    using db [unfolded book_db_def answers_recent_def, THEN conjunct2, THEN conjunct1] by blast
  let ?fs = "map (\<lambda>row. snd (friend_ParseFromDatabase E new_FriendInfo row)) rows"
  have fs: "fold (\<lambda>row friends. friends @ [snd (friend_ParseFromDatabase E new_FriendInfo row)]) rows [] = ?fs"
    by (simp only: fold_append append_Nil)
  have run: "\<exists>s'. run_state (GetRecentContactByUserId E u l []) s = ((True, ?fs), s') \<and> world s' = w"
    unfolding GetRecentContactByUserId_def select_recent_def [symmetric] if_not_P [OF u]
    by (simp add: run_ScopedPtr Query_def Let_def q(1) fs)
  have ids: "map FriendInfo.friend_user_id ?fs = map contact_friend cs"
    using rows by (induction rule: list_all2_induct) (simp_all add: parsed_friend)
  have dist: "distinct (map contact_friend ?sh)" using ok by (rule friends_distinct)
  have col: "distinct (map contact_friend cs)"
    "set (map contact_friend cs) \<subseteq> friends_shown (book_of (contacts (world s))) u"
    "length cs = min 100 (card (friends_shown (book_of (contacts (world s))) u))"
    unfolding friends_shown_book by (rule limited_column [OF cs dist])+
  have "length ?fs = length cs" using rows by (simp add: list_all2_lengthD)
  moreover from run obtain s' where "run_state (GetRecentContactByUserId E u l []) s = ((True, ?fs), s')"
    "world s' = w" by blast
  ultimately show ?thesis
    using col by (intro exI [of _ ?fs] exI [of _ s']) (simp only: q(2) ids simp_thms)
qed

subsection \<open>Hiding and showing\<close>

lemma Delete_book:
  assumes db: "book_db E contacts" and ok: "contacts_ok (contacts (world s))"
  shows "\<exists>r s'. run_state (DeleteRecentContactByUserId E u f) s = (r, s') \<and> contacts_ok (contacts (world s')) \<and>
    map contact_id (contacts (world s')) = map contact_id (contacts (world s)) \<and>
    book_of (contacts (world s')) = hide_friend u f (book_of (contacts (world s)))"
proof -
  let ?cs = "contacts (world s)"
  have "length (filter (\<lambda>c. contact_pair c = (u, f)) ?cs) \<le> 1"
    using ok by (intro distinct_once) (simp add: contacts_ok_def)
  with db have up: "contacts (snd (db_execute E (update_hidden E u f) (world s))) =
      set_status (\<lambda>c. contact_pair c = (u, f)) 1 ?cs"
    by (simp add: book_db_def hides_rows_def)
  have "\<exists>r s'. run_state (DeleteRecentContactByUserId E u f) s = (r, s') \<and>
      world s' = snd (db_execute E (update_hidden E u f) (world s))"
    unfolding DeleteRecentContactByUserId_def update_hidden_def [symmetric]
    by (simp add: run_ScopedPtr DbExecute_def Let_def)
  then obtain r s' where s': "run_state (DeleteRecentContactByUserId E u f) s = (r, s')"
    "contacts (world s') = set_status (\<lambda>c. contact_pair c = (u, f)) 1 ?cs" using up by auto
  have "contact_pair ` {c \<in> set ?cs. if contact_pair c = (u, f) then (1::u32) = 0 else contact_status c = 0} =
      contact_pair ` {c \<in> set ?cs. contact_status c = 0} - {(u, f)}" by (auto simp: image_iff)
  then have "book_of (contacts (world s')) = hide_friend u f (book_of ?cs)"
    by (intro contact_book.equality) (simp_all add: s'(2) shows_set_status hide_friend_def,
      simp_all add: book_of_def set_status_keeps)
  with s' ok show ?thesis by (auto simp: set_status_ok set_status_keeps)
qed

text \<open>Related users have a row in either order.\<close>

lemma are_related_row:
  assumes "contacts_ok cs"
  shows "are_related (book_of cs) a b \<longleftrightarrow> (a, b) \<in> contact_pair ` set cs"
  using assms relation_of_None [OF ordered_pair_le, of cs a b]
  by (auto simp: are_related_def book_of_def contacts_ok_def ordered_pair_def split: if_splits)

lemma Check_book:
  assumes db: "book_db E contacts" and ok: "contacts_ok (contacts (world s))"
    and ids: "distinct (map contact_id (contacts (world s)))" and ab: "a \<noteq> 0" "b \<noteq> 0"
  shows "\<exists>r s'. run_state (CheckAndUpdateRelation E a b) s = (r, s') \<and> contacts_ok (contacts (world s')) \<and>
    map contact_id (contacts (world s')) = map contact_id (contacts (world s)) \<and>
    book_of (contacts (world s')) = show_friend a b (book_of (contacts (world s)))"
proof -
  let ?cs = "contacts (world s)"
  have ok0: "\<not> (a = 0 \<or> b = 0)" using ab by simp
  obtain rows w where q: "db_query E (select_status E a b a b) (world s) = (Some rows, w)" "contacts w = ?cs"
    and rows: "list_all2 (\<lambda>row c. (\<forall>x. row_u32 E row 0 x = contact_id c) \<and> (\<forall>x. row_u32 E row 1 x = contact_status c))
       rows (take 2 (filter (\<lambda>e. contact_pair e = (a, b)) ?cs))"
    using db [unfolded book_db_def answers_status_def, THEN conjunct2, THEN conjunct2, THEN conjunct1, rule_format,
      of a b a b "world s"] by auto
  let ?ids = "snd (fold (relate_ids_step E) rows (0, []))"
  let ?w = "if ?ids \<noteq> [] then snd (db_execute E (fmt_printf E
    ''UPDATE IMRecentContact SET status = 0 WHERE relateId in (%s) LIMIT 4'' [AStr ?ids]) w) else w"
  have "\<exists>r s'. run_state (CheckAndUpdateRelation E a b) s = (r, s') \<and> world s' = ?w"
    unfolding CheckAndUpdateRelation_def select_status_def [symmetric] if_not_P [OF ok0]
    by (simp add: run_ScopedPtr Query_def DbExecute_def Let_def q(1))
  then obtain r s' where run: "run_state (CheckAndUpdateRelation E a b) s = (r, s')" "world s' = ?w" by blast
  have le: "length (filter (\<lambda>e. contact_pair e = (a, b)) ?cs) \<le> 1"
    using ok by (intro distinct_once) (simp add: contacts_ok_def)
  show ?thesis
  proof (cases "filter (\<lambda>e. contact_pair e = (a, b)) ?cs")
    case Nil
    with rows have "contacts (world s') = ?cs" by (simp add: run(2) q(2))
    moreover from Nil have "\<not> are_related (book_of ?cs) a b"
      by (auto simp: are_related_row [OF ok] filter_empty_conv)
    ultimately show ?thesis using run(1) ok by (simp add: show_friend_def)
  next
    case (Cons c rest)
    with le have f: "filter (\<lambda>e. contact_pair e = (a, b)) ?cs = [c]" by simp
    then have c: "c \<in> set ?cs" "contact_pair c = (a, b)" by (auto dest: filter_eq_ConsD)
    then have rel: "are_related (book_of ?cs) a b" by (force simp: are_related_row [OF ok])
    from rows f obtain row where row: "rows = [row]" "\<forall>x. row_u32 E row 0 x = contact_id c"
      "\<forall>x. row_u32 E row 1 x = contact_status c" by (auto simp: list_all2_Cons2)
    show ?thesis
    proof (cases "contact_status c = 0")
      case True
      with row have "contacts (world s') = ?cs" by (simp add: run(2) q(2) relate_ids_step_def Let_def)
      moreover have "(a, b) \<in> shows_friend (book_of ?cs)"
        using c True by (force simp: book_of_def)
      ultimately show ?thesis using run(1) ok rel by (simp add: show_friend_def insert_absorb)
    next
      case False
      have "?ids = id_list E [contact_id c]" "id_list E [contact_id c] \<noteq> []"
        using False row db by (simp_all add: relate_ids_step_def Let_def book_db_def)
      moreover have "contacts (snd (db_execute E (update_shown E [contact_id c]) w)) =
          set_status (\<lambda>e. contact_id e \<in> set [contact_id c]) 0 ?cs"
      proof -
        have "shows_rows E contacts" using db by (simp add: book_db_def)
        moreover have "length (filter (\<lambda>e. contact_id e \<in> set [contact_id c]) (contacts w)) \<le> 4"
          using distinct_once [OF ids, of "contact_id c"] by (simp add: q(2))
        ultimately show ?thesis unfolding shows_rows_def q(2) [symmetric] by blast
      qed
      ultimately have "contacts (world s') = set_status (\<lambda>e. contact_id e \<in> set [contact_id c]) 0 ?cs"
        by (simp add: run(2) update_shown_def)
      then have new: "contacts (world s') = set_status (\<lambda>e. contact_id e = contact_id c) 0 ?cs" by simp
      have uniq: "e = c" if "e \<in> set ?cs" "contact_id e = contact_id c" for e
        using ids that c(1) by (auto simp: distinct_map inj_on_def)
      have "contact_pair ` {e \<in> set ?cs. if contact_id e = contact_id c then (0::u32) = 0 else contact_status e = 0} =
          insert (a, b) (contact_pair ` {e \<in> set ?cs. contact_status e = 0})"
      proof -
        have "{e \<in> set ?cs. if contact_id e = contact_id c then (0::u32) = 0 else contact_status e = 0} =
            insert c {e \<in> set ?cs. contact_status e = 0}" using c(1) uniq by auto
        then show ?thesis by (simp only: image_insert c(2))
      qed
      then have "book_of (contacts (world s')) = show_friend a b (book_of ?cs)"
        by (intro contact_book.equality) (simp_all add: new shows_set_status show_friend_def rel,
          simp_all add: book_of_def set_status_keeps)
      with run(1) ok show ?thesis by (simp add: new set_status_ok set_status_keeps)
    qed
  qed
qed

subsection \<open>Adding a friend and sending a message\<close>

lemma GetRelateId_book:
  assumes db: "book_db E contacts" and ok: "contacts_ok (contacts (world s))" and ab: "a \<noteq> 0" "b \<noteq> 0"
  shows "\<exists>i s'. run_state (GetRelateId E a b) s = (i, s') \<and> contacts (world s') = contacts (world s) \<and>
    (i \<noteq> kInvalidID \<longleftrightarrow> are_related (book_of (contacts (world s))) a b)"
proof -
  let ?cs = "contacts (world s)"
  have valid: "i \<noteq> kInvalidID" if "relation_of ?cs p = Some i" for p i
    using that ok by (auto simp: relation_of_def contacts_ok_def dest!: map_of_SomeD split: if_splits)
  from db have "contact_db E contacts" by (simp add: book_db_def)
  from GetRelateId_table [OF this ok ab] valid show ?thesis
    by (fastforce simp: are_related_def book_of_def split: option.splits)
qed

lemma shows_append: "shows_friend (book_of (cs @ ds)) = shows_friend (book_of cs) \<union> shows_friend (book_of ds)"
  by (auto simp: book_of_def)

lemma shows_new: "shows_friend (book_of (new_contacts i x y)) = {(x, y), (y, x)}"
proof -
  have "{c \<in> set (new_contacts i x y). contact_status c = 0} = set (new_contacts i x y)"
    by (auto simp: new_contacts_def)
  then show ?thesis by (simp add: book_of_def new_contacts_pairs)
qed

lemma Add_book:
  assumes db: "book_db E contacts" and ok: "contacts_ok (contacts (world s))" and ab: "a \<noteq> 0" "b \<noteq> 0"
  shows "\<exists>i s'. run_state (AddFriendship E a b) s = (i, s') \<and> contacts_ok (contacts (world s')) \<and>
    book_of (contacts (world s')) = relate a b i (book_of (contacts (world s))) \<and>
    related (book_of (contacts (world s'))) (ordered_pair a b) = Some i \<and> ids_kept E contacts (world s) (world s')"
proof -
  let ?cs = "contacts (world s)"
  from db have cdb: "contact_db E contacts" by (simp add: book_db_def)
  from AddFriendship_table [OF cdb ok ab] obtain i s' where
    run: "run_state (AddFriendship E a b) s = (i, s')" and ok': "contacts_ok (contacts (world s'))"
    and rel: "relation_of (contacts (world s')) = (relation_of ?cs)(ordered_pair a b \<mapsto> i)"
    and old: "\<forall>j. relation_of ?cs (ordered_pair a b) = Some j \<longrightarrow> i = j \<and> contacts (world s') = ?cs" by blast
  have "book_of (contacts (world s')) = relate a b i (book_of ?cs) \<and> ids_kept E contacts (world s) (world s')"
  proof (cases "are_related (book_of ?cs) a b")
    case True
    with old show ?thesis by (auto simp: relate_def are_related_def book_of_def intro: ids_kept_same)
  next
    case False
    obtain x y where xy: "ordered_pair a b = (x, y)" by (cases "ordered_pair a b")
    from GetRelateId_book [OF db ok ab] False obtain s1 where
      s1: "run_state (GetRelateId E a b) s = (kInvalidID, s1)" "contacts (world s1) = ?cs" by auto
    from insert_table [OF cdb xy, of s1] obtain j s2 where
      s2: "run_state (AddFriendship_insert E kInvalidID a b) s1 = (j, s2)"
        "contacts (world s2) = ?cs @ new_contacts j x y" "ids_kept E contacts (world s1) (world s2)" by (auto simp: s1(2))
    have "run_state (AddFriendship E a b) s = (j, s2)"
      using s1(1) s2(1) ab by (simp add: AddFriendship_steps)
    with run s2(2) have "contacts (world s') = ?cs @ new_contacts j x y" "s' = s2" by simp_all
    moreover have "ids_kept E contacts (world s) (world s2)"
      using s2(3) by (rule ids_kept_trans [rotated]) (simp add: s1(2))
    moreover have "{(x, y), (y, x)} = {(a, b), (b, a)}"
      using xy by (auto simp: ordered_pair_def split: if_splits)
    ultimately have "shows_friend (book_of (contacts (world s'))) = shows_friend (book_of ?cs) \<union> {(a, b), (b, a)}"
      "ids_kept E contacts (world s) (world s')"
      by (simp_all only: shows_append shows_new)
    with rel False show ?thesis
      by (intro conjI contact_book.equality) (simp_all add: relate_def, simp add: book_of_def)
  qed
  with run ok' rel show ?thesis by (auto simp: book_of_def)
qed

text \<open>What sending does to the book: the sender's list shows the receiver; the receiver's list shows the
  sender only if the two were not related before.\<close>

definition message_shown :: "u32 \<Rightarrow> u32 \<Rightarrow> u32 \<Rightarrow> contact_book \<Rightarrow> contact_book" where
  "message_shown a b i k = (if are_related k a b then show_friend a b k else relate a b i k)"

lemma SendIMMessage_book:
  assumes db: "book_db E contacts" and ok: "contacts_ok (contacts (world s))"
    and ids: "distinct (map contact_id (contacts (world s)))" and ab: "a \<noteq> 0" "b \<noteq> 0" "content \<noteq> []"
  shows "\<exists>i r s'. run_state (SendIMMessage E (zares_relationship E) a b mtype content time) s = (r, s') \<and>
    contacts_ok (contacts (world s')) \<and>
    book_of (contacts (world s')) = message_shown a b i (book_of (contacts (world s))) \<and>
    ids_kept E contacts (world s) (world s')"
proof -
  let ?k = "book_of (contacts (world s))"
  from Check_book [OF db ok ids ab(1,2)] obtain r1 s1 where
    s1: "run_state (CheckAndUpdateRelation E a b) s = (r1, s1)" "contacts_ok (contacts (world s1))"
      "book_of (contacts (world s1)) = show_friend a b ?k"
      "map contact_id (contacts (world s1)) = map contact_id (contacts (world s))" by blast
  have same: "are_related (show_friend a b ?k) a b = are_related ?k a b"
    by (simp add: show_friend_def are_related_def)
  from GetRelateId_book [OF db s1(2) ab(1,2)] obtain i2 s2 where
    s2: "run_state (GetRelateId E a b) s1 = (i2, s2)" "contacts (world s2) = contacts (world s1)"
      "i2 \<noteq> kInvalidID \<longleftrightarrow> are_related ?k a b" by (auto simp: s1(3) same)
  have "\<exists>i s3. run_state (if i2 = kInvalidID then AddFriendship E a b else return i2) s2 = (i, s3) \<and>
      contacts_ok (contacts (world s3)) \<and> book_of (contacts (world s3)) = message_shown a b i ?k \<and>
      ids_kept E contacts (world s2) (world s3)"
  proof (cases "i2 = kInvalidID")
    case True
    then have "\<not> are_related ?k a b" using s2(3) by simp
    then have "show_friend a b ?k = ?k" "message_shown a b i ?k = relate a b i ?k" for i
      by (simp_all add: show_friend_def message_shown_def)
    with Add_book [OF db _ ab(1,2), of s2] s1(2,3) s2(2) True show ?thesis by auto
  next
    case False
    with s2(3) s1(2,3) s2(2) show ?thesis by (simp add: message_shown_def ids_kept_same)
  qed
  then obtain i s3 where s3: "run_state (if i2 = kInvalidID then AddFriendship E a b else return i2) s2 = (i, s3)"
    "contacts_ok (contacts (world s3))" "book_of (contacts (world s3)) = message_shown a b i ?k"
    "ids_kept E contacts (world s2) (world s3)" by blast
  have now: "contacts (snd (now_ms E w)) = contacts w" for w
    using db by (simp add: book_db_def contact_db_def)
  have ins: "contacts (snd (db_execute E (insert_message E args) w)) = contacts w" for args w
    using db by (simp add: book_db_def)
  have guard: "\<not> (a = 0 \<or> b = 0 \<or> content = [])" using ab by simp
  let ?p = "run_state (SendIMMessage E (zares_relationship E) a b mtype content time) s"
  have c: "contacts (world (snd ?p)) = contacts (world s3)"
    unfolding SendIMMessage_def if_not_P [OF guard] zares_relationship_def relationship_ops.select_convs
      insert_message_def [symmetric]
    using s3(1)
    by (cases "i2 = kInvalidID") (simp_all add: s1(1) s2(1) run_ScopedPtr DbExecute_def NowMSTime_def Let_def case_prod_unfold
        IncrCounterForNewMessage_def ins now)
  have "ids_kept E contacts (world s) (world s3)"
    using s3(4) by (rule ids_kept_trans [rotated]) (simp add: s1(4) s2(2))
  then have "ids_kept E contacts (world s) (world (snd ?p))" by (simp add: ids_kept_def c)
  with s3(2,3) show ?thesis
    by (intro exI [of _ i] exI [of _ "fst ?p"] exI [of _ "snd ?p"]) (simp add: c)
qed

subsection \<open>A database that keeps the book\<close>

text \<open>A small database in which the statements can be told apart by two characters of their formats: the
  text of a statement is these characters and four for each number; a row is the list of its columns.
  New rows get the first two odd and even ids that are free.\<close>

definition tag :: "string \<Rightarrow> string" where
  "tag f = [f ! 14, f ! 36]"

definition book_text :: "string \<Rightarrow> sql_arg list \<Rightarrow> string" where
  "book_text f args = tag f @ concat (map (\<lambda>a. case a of AInt w \<Rightarrow> string_of_bytes (be32 w) | AStr s \<Rightarrow> s | _ \<Rightarrow> []) args)"

fun dec_ids :: "string \<Rightarrow> u32 list" where
  "dec_ids [] = []"
| "dec_ids (x # xs) = of_be32 (bytes_of_string (take 4 (x # xs))) # dec_ids (drop 4 xs)"

definition id_free :: "contact list \<Rightarrow> u32 \<Rightarrow> bool" where
  "id_free cs i \<longleftrightarrow> i \<notin> set (map contact_id cs) \<and> i + 1 \<notin> set (map contact_id cs) \<and> i \<noteq> kInvalidID \<and> i + 1 \<noteq> kInvalidID"

definition free_id :: "contact list \<Rightarrow> u32" where
  "free_id cs = (case find (id_free cs) (map (\<lambda>j. of_nat (2 * j + 1)) [0 ..< Suc (length cs)]) of
     None \<Rightarrow> 1
   | Some i \<Rightarrow> i)"

definition book_env :: "(contact list, u32 list) db_env" where
  "book_env = \<lparr>
     db_query = (\<lambda>sql w. (Some (
       if take 2 sql = tag ''SELECT relateId FROM IMRecentContact WHERE userId = %i and friendUserId = %i limit 1''
       then map (\<lambda>c. [contact_id c]) (take 1
         (filter (\<lambda>c. contact_pair c = (dec_arg 0 (drop 2 sql), dec_arg 1 (drop 2 sql))) w))
       else if take 2 sql = tag ''SELECT relateId,friendUserId,status,created,updated FROM IMRecentContact WHERE userId = %d AND status = 0 ORDER BY updated DESC, relateId DESC LIMIT 100''
       then map (\<lambda>c. [contact_id c, contact_friend c, contact_status c]) (take 100
         (filter (\<lambda>c. contact_user c = dec_arg 0 (drop 2 sql) \<and> contact_status c = 0) w))
       else map (\<lambda>c. [contact_id c, contact_status c]) (take 2
         (filter (\<lambda>c. contact_pair c = (dec_arg 0 (drop 2 sql), dec_arg 1 (drop 2 sql)) \<or>
            contact_pair c = (dec_arg 2 (drop 2 sql), dec_arg 3 (drop 2 sql))) w))), w)),
     db_execute = (\<lambda>sql w.
       if take 2 sql = tag ''UPDATE IMRecentContact SET status = 1 WHERE userId = %d AND friendUserId = %d LIMIT 1''
       then (1, set_status (\<lambda>c. contact_pair c = (dec_arg 0 (drop 2 sql), dec_arg 1 (drop 2 sql))) 1 w)
       else if take 2 sql = tag ''UPDATE IMRecentContact SET status = 0 WHERE relateId in (%s) LIMIT 4''
       then (1, set_status (\<lambda>c. contact_id c \<in> set (dec_ids (drop 2 sql))) 0 w)
       else (1, w)),
     db_insert_id = (\<lambda>sql w.
       if take 2 sql = tag ''INSERT INTO IMRecentContact(`userId`,`friendUserId`,`status`,`created`,`updated`) VALUES(:1, :2, :3, :4, :5)''
       then (ucast (free_id w), w @ new_contacts (free_id w) (dec_arg 0 (drop 2 sql)) (dec_arg 1 (drop 2 sql)))
       else (0, w)),
     now_ms = (\<lambda>w. (0, w)), row_u32 = (\<lambda>r i x. if i < length r then r ! i else x), row_str = (\<lambda>r i x. x),
     ret_u32 = (\<lambda>r i x. (True, if i < length r then r ! i else x)), ret_str = (\<lambda>r i x. (True, x)), uninit_u32 = 0,
     fmt_printf = book_text, fmt_query = book_text,
     fmt_join = (\<lambda>xs c. []), fmt_join_str = (\<lambda>xs c. []), fmt_uint = (\<lambda>n. string_of_bytes (be32 n))\<rparr>"

lemma bytes4: "bytes_of_string (string_of_bytes (be32 n)) = be32 n" "be32 n \<noteq> []" "length (be32 n) = 4"
  by (simp_all add: be32_def)

lemma take_enc: "take 4 (string_of_bytes (be32 a) @ r) = string_of_bytes (be32 a)"
  "drop 4 (string_of_bytes (be32 a) @ r) = r"
  by (simp_all add: length_enc)

lemma dec_enc4:
  "dec_arg 0 (string_of_bytes (be32 a) @ r) = a"
  "dec_arg (Suc k) (string_of_bytes (be32 a) @ r) = dec_arg k r"
  by (simp_all add: dec_arg_def length_enc add.commute [of 4])

lemma dec_next:
  "dec_arg 1 (string_of_bytes (be32 a) @ r) = dec_arg 0 r"
  "dec_arg 2 (string_of_bytes (be32 a) @ r) = dec_arg 1 r"
  "dec_arg 3 (string_of_bytes (be32 a) @ r) = dec_arg 2 r"
  using dec_enc4(2) [of 0] dec_enc4(2) [of 1] dec_enc4(2) [of 2] by (simp_all add: eval_nat_numeral)

abbreviation (input) "F_rel \<equiv> ''SELECT relateId FROM IMRecentContact WHERE userId = %i and friendUserId = %i limit 1''"
abbreviation (input) "F_list \<equiv> ''SELECT relateId,friendUserId,status,created,updated FROM IMRecentContact WHERE userId = %d AND status = 0 ORDER BY updated DESC, relateId DESC LIMIT 100''"
abbreviation (input) "F_stat \<equiv> ''SELECT relateId,status FROM IMRecentContact WHERE (userId=:1 AND friendUserId=:2) OR (userId=:3 AND friendUserId=:4) LIMIT 2''"
abbreviation (input) "F_hide \<equiv> ''UPDATE IMRecentContact SET status = 1 WHERE userId = %d AND friendUserId = %d LIMIT 1''"
abbreviation (input) "F_show \<equiv> ''UPDATE IMRecentContact SET status = 0 WHERE relateId in (%s) LIMIT 4''"
abbreviation (input) "F_new \<equiv> ''INSERT INTO IMRecentContact(`userId`,`friendUserId`,`status`,`created`,`updated`) VALUES(:1, :2, :3, :4, :5)''"
abbreviation (input) "F_news \<equiv> ''INSERT INTO IMRecentContact(`userId`,`friendUserId`,`status`,`created`,`updated`) VALUES(:1, :2, :3, :4, :5),(:6, :7, :8, :9, :10)''"
abbreviation (input) "F_msg \<equiv> ''INSERT INTO IMMessage(`relateId`,`fromUserId`,`toUserId`,`content`,`type`,`created`,`updated`) VALUES(:1,:2,:3,:4,:5,:6,:7)''"

lemma tags:
  "tag F_list \<noteq> tag F_rel" "tag F_stat \<noteq> tag F_rel" "tag F_stat \<noteq> tag F_list"
  "tag F_show \<noteq> tag F_hide" "tag F_msg \<noteq> tag F_hide" "tag F_msg \<noteq> tag F_show"
  "tag F_news = tag F_new"
  by (simp_all add: tag_def)

lemma id_list_cons: "is \<noteq> [] \<Longrightarrow> id_list E (i # is) = fmt_uint E i @ '','' @ id_list E is"
  by (cases "is") simp_all

lemma fmt_uint_book: "fmt_uint book_env n = string_of_bytes (be32 n)"
  by (simp add: book_env_def)

lemma dec_ids_enc:
  "dec_ids (string_of_bytes (be32 i) @ r) = i # dec_ids (drop 1 r)"
proof -
  obtain x y z u where e: "string_of_bytes (be32 i) = [x, y, z, u]"
    using length_enc [of i] by (auto simp: eval_nat_numeral length_Suc_conv)
  have "of_be32 (bytes_of_string [x, y, z, u]) = i" unfolding e [symmetric] by simp
  then show ?thesis by (simp add: e eval_nat_numeral)
qed

lemma dec_ids_list: "dec_ids (id_list book_env is) = is"
proof (induction "is")
  case (Cons i "is")
  then show ?case
    using dec_ids_enc [of i "[]"]
    by (cases "is = []") (simp_all add: id_list_cons fmt_uint_book dec_ids_enc)
qed simp

lemma book_text_simps:
  "take 2 (book_text f args) = tag f"
  "drop 2 (book_text f (AInt w # args)) = string_of_bytes (be32 w) @ drop 2 (book_text f args)"
  "drop 2 (book_text f []) = []" "drop 2 (book_text f [AStr x]) = x"
  by (simp_all add: book_text_def tag_def)

lemma book_env_formats: "fmt_printf book_env = book_text" "fmt_query book_env = book_text"
  by (simp_all add: book_env_def)

lemma book_env_statements:
  "db_query book_env (select_relation book_env a b) w =
     (Some (map (\<lambda>c. [contact_id c]) (take 1 (filter (\<lambda>c. contact_pair c = (a, b)) w))), w)"
  "db_query book_env (select_recent book_env u) w =
     (Some (map (\<lambda>c. [contact_id c, contact_friend c, contact_status c]) (take 100
       (filter (\<lambda>c. contact_user c = u \<and> contact_status c = 0) w))), w)"
  "db_query book_env (select_status book_env a b c d) w =
     (Some (map (\<lambda>c. [contact_id c, contact_status c]) (take 2
       (filter (\<lambda>e. contact_pair e = (a, b) \<or> contact_pair e = (c, d)) w))), w)"
  unfolding select_relation_def select_recent_def select_status_def book_env_formats
  by (simp_all only: book_env_def db_env.select_convs book_text_simps dec_enc4(1) dec_next tags if_True if_False
      simp_thms)

lemma book_env_execute:
  "db_execute book_env sql w =
     (if take 2 sql = tag F_hide
      then (1, set_status (\<lambda>c. contact_pair c = (dec_arg 0 (drop 2 sql), dec_arg 1 (drop 2 sql))) 1 w)
      else if take 2 sql = tag F_show
      then (1, set_status (\<lambda>c. contact_id c \<in> set (dec_ids (drop 2 sql))) 0 w)
      else (1, w))"
  by (simp only: book_env_def db_env.select_convs)

lemma book_env_updates:
  "db_execute book_env (update_hidden book_env u f) w = (1, set_status (\<lambda>c. contact_pair c = (u, f)) 1 w)"
  "db_execute book_env (update_shown book_env is) w = (1, set_status (\<lambda>c. contact_id c \<in> set is) 0 w)"
  "db_execute book_env (insert_message book_env args) w = (1, w)"
  unfolding update_hidden_def update_shown_def insert_message_def book_env_formats
  by (simp_all only: book_env_execute book_text_simps dec_ids_list dec_enc4(1) dec_next tags if_True if_False
      simp_thms)

lemma book_env_insert:
  "db_insert_id book_env sql w = (if take 2 sql = tag F_new
     then (ucast (free_id w), w @ new_contacts (free_id w) (dec_arg 0 (drop 2 sql)) (dec_arg 1 (drop 2 sql)))
     else (0, w))"
  by (simp only: book_env_def db_env.select_convs)

lemma book_env_other:
  "db_insert_id book_env (insert_relation book_env a b t) w = (ucast (free_id w), w @ new_contacts (free_id w) a b)"
  "now_ms book_env w = (0, w)" "ret_u32 book_env r i x = (True, if i < length r then r ! i else x)"
  "row_u32 book_env r i x = (if i < length r then r ! i else x)"
proof -
  show "db_insert_id book_env (insert_relation book_env a b t) w = (ucast (free_id w), w @ new_contacts (free_id w) a b)"
    unfolding insert_relation_def book_env_formats
    by (cases "a = b") (simp_all only: book_env_insert book_text_simps dec_enc4(1) dec_next tags if_True if_False simp_thms)
qed (simp_all add: book_env_def)

text \<open>There are two free ids as long as there are fewer than 2147483647 rows: each row uses one of them at most
  once.\<close>

lemma free_id_valid: "free_id w \<noteq> kInvalidID" "free_id w + 1 \<noteq> kInvalidID"
  by (auto simp: free_id_def id_free_def find_Some_iff split: option.split)

lemma free_id_free:
  assumes "length w < 2 ^ 31 - 1"
  shows "id_free w (free_id w)"
proof (cases "find (id_free w) (map (\<lambda>j. of_nat (2 * j + 1)) [0 ..< Suc (length w)])")
  case (Some i)
  then have "id_free w i" by (auto simp: find_Some_iff)
  moreover have "free_id w = i" by (simp only: free_id_def Some option.case)
  ultimately show ?thesis by simp
next
  case None
  let ?g = "\<lambda>i :: u32. (unat i - 1) div 2"
  have "j \<in> ?g ` set (map contact_id w)" if j: "j \<in> {0 ..< Suc (length w)}" for j
  proof -
    let ?i = "of_nat (2 * j + 1) :: u32"
    have u: "unat ?i = 2 * j + 1" "unat (?i + 1) = 2 * j + 2"
      using j assms by (simp_all add: unat_of_nat unat_word_ariths take_bit_eq_mod)
    have "\<not> id_free w ?i"
      using None [unfolded find_None_iff set_map set_upt] j by blast
    moreover have "?i \<noteq> kInvalidID" "?i + 1 \<noteq> kInvalidID"
    proof -
      have "unat ?i < unat kInvalidID" "unat (?i + 1) < unat kInvalidID"
        unfolding u using j assms by simp_all
      then show "?i \<noteq> kInvalidID" "?i + 1 \<noteq> kInvalidID" by (metis less_irrefl)+
    qed
    ultimately have "?i \<in> set (map contact_id w) \<or> ?i + 1 \<in> set (map contact_id w)"
      by (simp add: id_free_def)
    moreover have "j = ?g ?i" "j = ?g (?i + 1)" unfolding u by simp_all
    ultimately show ?thesis using image_eqI [of j ?g ?i] image_eqI [of j ?g "?i + 1"] by blast
  qed
  then have "card {0 ..< Suc (length w)} \<le> card (?g ` set (map contact_id w))"
    by (intro card_mono) auto
  also have "\<dots> \<le> card (set (map contact_id w))" by (rule card_image_le) simp
  also have "\<dots> \<le> length w" using card_length [of "map contact_id w"] by simp
  finally show ?thesis by simp
qed

lemma book_env_db: "book_db book_env (\<lambda>w. w)"
proof -
  have id: "(ucast (ucast i :: u64) :: u32) = i" for i :: u32
    by transfer simp
  have q: "case map (\<lambda>c. [contact_id c]) (take 1 (filter (\<lambda>c. contact_pair c = (a, b)) w)) of
      [] \<Rightarrow> \<forall>c \<in> set w. \<not> (contact_user c = a \<and> contact_friend c = b)
    | row # _ \<Rightarrow> \<exists>c \<in> set w. contact_user c = a \<and> contact_friend c = b \<and>
        (\<forall>x. row_u32 book_env row 0 x = contact_id c)" for w a b
    by (cases "filter (\<lambda>c. contact_pair c = (a, b)) w")
      (auto simp: book_env_other contact_pair_def filter_empty_conv dest: Cons_eq_filterD [OF sym])
  have "contact_db book_env (\<lambda>w. w)"
    unfolding contact_db_def book_env_statements book_env_other(1,2) using q free_id_valid by (simp add: id)
  moreover have "answers_recent book_env (\<lambda>w. w)"
  proof -
    show ?thesis
      unfolding answers_recent_def book_env_statements
    proof (intro allI)
      fix w :: "contact list" and u
      let ?f = "filter (\<lambda>c. contact_user c = u \<and> contact_status c = 0) w"
      have "list_all2 (\<lambda>row c. \<forall>x. ret_u32 book_env row 1 x = (True, contact_friend c))
          (map (\<lambda>c. [contact_id c, contact_friend c, contact_status c]) (take 100 ?f)) (take 100 ?f)"
        unfolding list_all2_map1 list_all2_same by (simp add: book_env_other)
      then show "\<exists>rows w' cs. (Some (map (\<lambda>c. [contact_id c, contact_friend c, contact_status c]) (take 100 ?f)), w) =
          (Some rows, w') \<and> w' = w \<and> limited_rows 100 cs ?f \<and>
          list_all2 (\<lambda>row c. \<forall>x. ret_u32 book_env row 1 x = (True, contact_friend c)) rows cs"
        by (intro exI [of _ "map (\<lambda>c. [contact_id c, contact_friend c, contact_status c]) (take 100 ?f)"]
            exI [of _ w] exI [of _ "take 100 ?f"] conjI) (simp_all add: limited_take)
    qed
  qed
  moreover have "answers_status book_env (\<lambda>w. w)"
    unfolding answers_status_def book_env_statements by (simp add: book_env_other list_all2_map1 list_all2_same)
  moreover have "hides_rows book_env (\<lambda>w. w)" "shows_rows book_env (\<lambda>w. w)"
    by (simp_all add: hides_rows_def shows_rows_def book_env_updates)
  moreover have "fmt_uint book_env n \<noteq> []" for n
    using length_enc [of n] by (auto simp: fmt_uint_book)
  ultimately show ?thesis by (simp add: book_db_def book_env_updates)
qed

lemma book_env_fresh: "fresh_ids book_env (\<lambda>w. w)"
  using free_id_free by (auto simp: fresh_ids_def book_env_other new_contacts_def id_free_def)

end
