(* ===== verification/Member_Table.thy ===== *)
theory Member_Table
  imports Group_Manager Table_Lists
begin

text \<open>
  The groups and their members over a database that keeps the tables \<^verbatim>\<open>IMGroup\<close> and \<^verbatim>\<open>IMGroupRelation\<close>: what
  the statements of \<^verbatim>\<open>ZAresGroupManagerImpl\<close> do to them, as hypotheses on the database, and what its
  operations do to the sets of members the rows stand for and to the number of members that is kept
  with each group.
\<close>

subsection \<open>The statements\<close>

text \<open>A list of texts with a separator between them.\<close>

fun separated :: "string \<Rightarrow> string list \<Rightarrow> string" where
  "separated sep [] = ''''"
| "separated sep [x] = x"
| "separated sep (x # y # xs) = x @ sep @ separated sep (y # xs)"

definition member_values :: "('w, 'r) db_env \<Rightarrow> u32 \<Rightarrow> GroupInfo \<Rightarrow> u32 \<Rightarrow> u32 \<Rightarrow> string" where
  "member_values E g grp now u = fmt_printf E ''(%d,%d,%d,%d,%d,%d)''
     [AInt g, AInt u, AInt (if GroupInfo.group_creator_id grp = u then 1 else 0),
      AInt (GroupInfo.group_type grp), AInt now, AInt now]"

definition insert_members :: "('w, 'r) db_env \<Rightarrow> u32 \<Rightarrow> GroupInfo \<Rightarrow> u32 \<Rightarrow> u32 list \<Rightarrow> string" where
  "insert_members E g grp now us =
     ''INSERT INTO IMGroupRelation(`groupId`, `userId`, `title`, `groupType`, `created`, `updated`) VALUES '' @
     separated '', '' (map (member_values E g grp now) us)"

definition select_join :: "('w, 'r) db_env \<Rightarrow> u32 \<Rightarrow> u32 list \<Rightarrow> string" where
  "select_join E g us = fmt_printf E
     ''SELECT status,userId FROM IMGroupRelation WHERE groupId = %d AND userId IN (%s) GROUP BY userId ORDER BY id''
     [AInt g, AStr (fmt_join E us CHR '','')]"

definition select_quit :: "('w, 'r) db_env \<Rightarrow> u32 \<Rightarrow> u32 list \<Rightarrow> string" where
  "select_quit E g us = fmt_printf E
     ''SELECT status,userId FROM IMGroupRelation WHERE groupId = %d AND userId in (%s) GROUP BY userId ORDER BY id''
     [AInt g, AStr (fmt_join E us CHR '','')]"

definition comma_list :: "('w, 'r) db_env \<Rightarrow> u32 list \<Rightarrow> string" where
  "comma_list E us = separated '','' (map (fmt_uint E) us)"

definition show_members :: "('w, 'r) db_env \<Rightarrow> u32 \<Rightarrow> u32 list \<Rightarrow> string" where
  "show_members E g us = fmt_printf E
     ''UPDATE IMGroupRelation SET status = 1 WHERE groupId = %d AND userId IN (%s)''
     [AInt g, AStr (comma_list E us)]"

definition hide_members :: "('w, 'r) db_env \<Rightarrow> u32 \<Rightarrow> u32 \<Rightarrow> u32 list \<Rightarrow> string" where
  "hide_members E now g us = fmt_printf E
     ''UPDATE IMGroupRelation SET status = 0, updated=%d  WHERE groupId = %d AND userId IN (%s)''
     [AInt now, AInt g, AStr (comma_list E us)]"

definition add_count :: "('w, 'r) db_env \<Rightarrow> u32 \<Rightarrow> u32 \<Rightarrow> string" where
  "add_count E n g = fmt_printf E
     ''UPDATE IMGroup SET memberCnt = memberCnt + %d WHERE groupId = %d LIMIT 1'' [AInt n, AInt g]"

definition sub_count :: "('w, 'r) db_env \<Rightarrow> u32 \<Rightarrow> u32 \<Rightarrow> u32 \<Rightarrow> string" where
  "sub_count E n now g = fmt_printf E
     ''UPDATE IMGroup SET memberCnt = memberCnt - %d, updated = %d WHERE groupId = %d LIMIT 1''
     [AInt n, AInt now, AInt g]"

definition select_members :: "('w, 'r) db_env \<Rightarrow> u32 \<Rightarrow> string" where
  "select_members E g = fmt_printf E
     ''SELECT groupId,userId FROM IMGroupRelation WHERE groupId=%d AND status >= 1 ORDER BY created ASC LIMIT 10000''
     [AInt g]"

definition select_group :: "('w, 'r) db_env \<Rightarrow> u32 \<Rightarrow> string" where
  "select_group E g = fmt_printf E
     ''SELECT groupId,groupName,avatar,createUserId,groupType,updated FROM IMGroup WHERE groupId=%d AND status>=1''
     [AInt g]"

definition insert_group :: "('w, 'r) db_env \<Rightarrow> sql_arg list \<Rightarrow> string" where
  "insert_group E args = fmt_query E
     ''INSERT INTO IMGroup(`groupName`,`avatar`,`adesc`,`createUserId`,`groupType`,`memberCnt`,`created`,`updated`) VALUES(:1,:2,:3,:4,:5,0,:7,:8)'' args"

subsection \<open>The tables\<close>

record member_row =
  row_group :: u32
  row_user :: u32
  row_status :: u32

text \<open>Of the row of a group, the columns \<^verbatim>\<open>memberCnt\<close> and \<^verbatim>\<open>createUserId\<close>, and whether the status is at
  least 1.\<close>

record group_row =
  group_number :: nat
  group_owner :: u32
  group_active :: bool

text \<open>The rows of \<^verbatim>\<open>IMGroupRelation\<close>, and those of \<^verbatim>\<open>IMGroup\<close>.\<close>

record member_tables =
  member_rows :: "member_row list"
  group_rows :: "u32 \<Rightarrow> group_row option"

definition member_key :: "member_row \<Rightarrow> u32 \<times> u32" where
  "member_key r = (row_group r, row_user r)"

definition named :: "u32 \<Rightarrow> u32 list \<Rightarrow> member_row \<Rightarrow> bool" where
  "named g us r \<longleftrightarrow> row_group r = g \<and> row_user r \<in> set us"

definition set_members :: "(member_row \<Rightarrow> bool) \<Rightarrow> u32 \<Rightarrow> member_row list \<Rightarrow> member_row list" where
  "set_members P v = map (\<lambda>r. if P r then r\<lparr>row_status := v\<rparr> else r)"

definition new_member :: "u32 \<Rightarrow> u32 \<Rightarrow> u32 \<Rightarrow> member_row" where
  "new_member d g u = \<lparr>row_group = g, row_user = u, row_status = d\<rparr>"

text \<open>What the database does, each part for the inputs the program has. The lookup of statuses answers
  with the rows it names, in any order.\<close>

definition answers_statuses :: "('w, 'r) db_env \<Rightarrow> ('w \<Rightarrow> member_tables) \<Rightarrow> bool" where
  "answers_statuses E tables \<longleftrightarrow> (\<forall>w g us. \<forall>sql \<in> {select_join E g us, select_quit E g us}.
     distinct (map member_key (member_rows (tables w))) \<longrightarrow>
     (\<exists>rows w' rs. db_query E sql w = (Some rows, w') \<and> tables w' = tables w \<and>
        mset rs = mset (filter (named g us) (member_rows (tables w))) \<and>
        list_all2 (\<lambda>row r. (\<forall>x. row_u32 E row 0 x = row_status r) \<and> (\<forall>x. row_u32 E row 1 x = row_user r)) rows rs))"

text \<open>An insertion appends its rows, whose status, which it does not mention, is \<open>d\<close>, the default of the
  column; an update sets the status of the rows it names; both return the number of rows they have
  changed.\<close>

definition inserts_members :: "('w, 'r) db_env \<Rightarrow> ('w \<Rightarrow> member_tables) \<Rightarrow> u32 \<Rightarrow> bool" where
  "inserts_members E tables d \<longleftrightarrow> (\<forall>w g grp now us.
     us \<noteq> [] \<and> distinct us \<and> filter (named g us) (member_rows (tables w)) = [] \<longrightarrow>
     (\<exists>w'. db_execute E (insert_members E g grp now us) w = (int (length us), w') \<and>
        tables w' = (tables w)\<lparr>member_rows := member_rows (tables w) @ map (new_member d g) us\<rparr>))"

definition updates_members :: "('w, 'r) db_env \<Rightarrow> ('w \<Rightarrow> member_tables) \<Rightarrow> bool" where
  "updates_members E tables \<longleftrightarrow>
     (\<forall>w g us. us \<noteq> [] \<and> (\<forall>r \<in> set (member_rows (tables w)). named g us r \<longrightarrow> row_status r = 0) \<longrightarrow>
        (\<exists>w'. db_execute E (show_members E g us) w =
            (int (length (filter (named g us) (member_rows (tables w)))), w') \<and>
          tables w' = (tables w)\<lparr>member_rows := set_members (named g us) 1 (member_rows (tables w))\<rparr>)) \<and>
     (\<forall>w now g us. us \<noteq> [] \<and> (\<forall>r \<in> set (member_rows (tables w)). named g us r \<longrightarrow> row_status r \<noteq> 0) \<longrightarrow>
        (\<exists>w'. db_execute E (hide_members E now g us) w =
            (int (length (filter (named g us) (member_rows (tables w)))), w') \<and>
          tables w' = (tables w)\<lparr>member_rows := set_members (named g us) 0 (member_rows (tables w))\<rparr>))"

text \<open>The number of members is added to and subtracted from, as long as it fits an \<^verbatim>\<open>INT\<close>.\<close>

definition counts_members :: "('w, 'r) db_env \<Rightarrow> ('w \<Rightarrow> member_tables) \<Rightarrow> bool" where
  "counts_members E tables \<longleftrightarrow> (\<forall>w g n now r. group_rows (tables w) g = Some r \<longrightarrow>
     (group_number r + unat n < 2 ^ 31 \<longrightarrow> tables (snd (db_execute E (add_count E n g) w)) =
        (tables w)\<lparr>group_rows := (group_rows (tables w))(g \<mapsto> r\<lparr>group_number := group_number r + unat n\<rparr>)\<rparr>) \<and>
     (unat n \<le> group_number r \<longrightarrow> tables (snd (db_execute E (sub_count E n now g) w)) =
        (tables w)\<lparr>group_rows := (group_rows (tables w))(g \<mapsto> r\<lparr>group_number := group_number r - unat n\<rparr>)\<rparr>))"

text \<open>The list of members has rows of the group with a status other than 0, all of them if there are at
  most 10000. The lookup of a group delivers its row if it is active.\<close>

definition answers_members :: "('w, 'r) db_env \<Rightarrow> ('w \<Rightarrow> member_tables) \<Rightarrow> bool" where
  "answers_members E tables \<longleftrightarrow> (\<forall>w g. \<exists>rows w' rs.
     db_query E (select_members E g) w = (Some rows, w') \<and> tables w' = tables w \<and>
     limited_rows 10000 rs (filter (\<lambda>r. row_group r = g \<and> row_status r \<noteq> 0) (member_rows (tables w))) \<and>
     list_all2 (\<lambda>row r. \<forall>x. row_u32 E row 1 x = row_user r) rows rs)"

definition is_active :: "u32 \<Rightarrow> (u32 \<Rightarrow> group_row option) \<Rightarrow> bool" where
  "is_active g rows \<longleftrightarrow> (case rows g of None \<Rightarrow> False | Some r \<Rightarrow> group_active r)"

definition answers_group :: "('w, 'r) db_env \<Rightarrow> ('w \<Rightarrow> member_tables) \<Rightarrow> bool" where
  "answers_group E tables \<longleftrightarrow> (\<forall>w g. \<exists>rows w'.
     db_query E (select_group E g) w = (Some rows, w') \<and> tables w' = tables w \<and>
     (rows \<noteq> [] \<longleftrightarrow> is_active g (group_rows (tables w))) \<and>
     (\<forall>row \<in> set rows. (\<forall>x. ret_u32 E row 0 x = (True, g)) \<and> (\<forall>x. fst (ret_str E row 1 x)) \<and>
        (\<forall>x. fst (ret_str E row 2 x)) \<and>
        (\<forall>x r. group_rows (tables w) g = Some r \<longrightarrow> ret_u32 E row 3 x = (True, group_owner r))))"

text \<open>Inserting a group either fails, and gives the id 0, or makes a group without members, of an id that
  was not in use; whether it is active is again the default of a column the statement does not
  mention.\<close>

definition inserts_group :: "('w, 'r) db_env \<Rightarrow> ('w \<Rightarrow> member_tables) \<Rightarrow> bool \<Rightarrow> bool" where
  "inserts_group E tables a \<longleftrightarrow> (\<forall>w n av ad u t now. \<exists>i w'.
     db_insert_id E (insert_group E [AStr n, AStr av, AStr ad, AInt u, AInt t, AInt now, AInt now]) w = (i, w') \<and>
     (i = 0 \<and> tables w' = tables w \<or>
      0 < i \<and> (ucast i :: u32) \<noteq> 0 \<and> group_rows (tables w) (ucast i) = None \<and>
      tables w' = (tables w)\<lparr>group_rows := (group_rows (tables w))
        (ucast i \<mapsto> \<lparr>group_number = 0, group_owner = u, group_active = a\<rparr>)\<rparr>))"

definition member_db :: "('w, 'r) db_env \<Rightarrow> ('w \<Rightarrow> member_tables) \<Rightarrow> u32 \<Rightarrow> bool \<Rightarrow> bool" where
  "member_db E tables d a \<longleftrightarrow> answers_statuses E tables \<and> inserts_members E tables d \<and>
     updates_members E tables \<and> counts_members E tables \<and> answers_members E tables \<and>
     answers_group E tables \<and> inserts_group E tables a \<and>
     (\<forall>w. tables (snd (now_ms E w)) = tables w) \<and> (\<forall>n. fmt_uint E n \<noteq> [])"

subsection \<open>Texts\<close>

lemma insert_member_step:
  "insert_member E g grp now st u (first, sql) =
     (if std_find u st = None
      then (False, sql @ (if first then '''' else '', '') @ member_values E g grp now u)
      else (first, sql))"
  by (auto simp: insert_member_def member_values_def split: option.split)

lemma insert_member_more:
  "fold (insert_member E g grp now st) ids (False, sql) =
     (False, sql @ concat (map (\<lambda>u. '', '' @ member_values E g grp now u)
       (filter (\<lambda>u. std_find u st = None) ids)))"
  by (induction ids arbitrary: sql) (simp_all add: insert_member_step)

lemma separated_Cons: "separated sep (x # xs) = x @ concat (map (\<lambda>y. sep @ y) xs)"
  by (induction xs arbitrary: x) auto

text \<open>The statement that inserts the new members of a group has one tuple, separated by commas,
  for each given user without a row in the group, in the order they were given; the loop reports
  that there is none exactly when every user has a row.\<close>

lemma join_group_inserts:
  "fold (insert_member E g grp now st) ids (True, sql) =
     (let new = filter (\<lambda>u. std_find u st = None) ids
      in (new = [], sql @ separated '', '' (map (member_values E g grp now) new)))"
proof (induction ids arbitrary: sql)
  case (Cons u ids)
  then show ?case
    by (simp add: insert_member_step insert_member_more separated_Cons Let_def comp_def)
qed simp

text \<open>The users with a status, as \<^verbatim>\<open>JoinGroup\<close> and \<^verbatim>\<open>QuitGroup\<close> put them into a statement.\<close>

lemma separated_eq_Nil: "(\<forall>x \<in> set xs. x \<noteq> []) \<Longrightarrow> separated sep xs = [] \<longleftrightarrow> xs = []"
  by (cases xs) (auto simp: separated_Cons)

lemma separated_snoc: "separated sep (xs @ [x]) = (if xs = [] then x else separated sep xs @ sep @ x)"
  by (cases xs) (simp_all add: separated_Cons)

lemma comma_list_eq_Nil: "(\<And>n. fmt_uint E n \<noteq> []) \<Longrightarrow> comma_list E us = [] \<longleftrightarrow> us = []"
  unfolding comma_list_def by (subst separated_eq_Nil) auto

lemma join_if_list:
  assumes "\<And>n. fmt_uint E n \<noteq> []"
  shows "join_if E test st = comma_list E (map fst (filter (\<lambda>(u, x). test (member_status x)) st))"
proof (induction st rule: rev_induct)
  case Nil
  then show ?case by (simp add: join_if_def comma_list_def)
next
  case (snoc e st)
  obtain u x where e: "e = (u, x)" by (cases e)
  have step: "join_if E test (st @ [e]) = (if test (member_status x)
      then (if join_if E test st \<noteq> [] then join_if E test st @ '','' else join_if E test st) @ fmt_uint E u
      else join_if E test st)"
    unfolding join_if_def e by simp
  show ?case
  proof (cases "test (member_status x)")
    case True
    show ?thesis
      unfolding step snoc using True comma_list_eq_Nil [OF assms]
      by (simp add: e) (simp add: comma_list_def separated_snoc)
  next
    case False
    then show ?thesis unfolding step snoc by (simp add: e)
  qed
qed

subsection \<open>Statuses\<close>

definition status_of :: "member_row \<Rightarrow> UserStatus" where
  "status_of r = \<lparr>member_status = row_status r, member_id = row_user r\<rparr>"

text \<open>The map of statuses has an entry for each user with a row.\<close>

lemma read_statuses_rows:
  assumes "list_all2 (\<lambda>row r. (\<forall>x. row_u32 E row 0 x = row_status r) \<and> (\<forall>x. row_u32 E row 1 x = row_user r)) rows rs"
  shows "std_valid (read_statuses E (Some rows))"
    "std_find u (read_statuses E (Some rows)) = map_of (map (\<lambda>r. (row_user r, status_of r)) rs) u"
proof -
  let ?es = "map (\<lambda>r. (row_user r, status_of r)) rs"
  have "map (\<lambda>row. (member_id (read_status E row), read_status E row)) rows = ?es"
    using assms by (induction rule: list_all2_induct) (simp_all add: read_status_def status_of_def)
  moreover have "fold (\<lambda>row m. let x = read_status E row in std_insert (member_id x) x m) rows m =
      fold (\<lambda>(a, v). std.insert_new a v)
        (map (\<lambda>row. (member_id (read_status E row), read_status E row)) rows) m" for m
    by (induction rows arbitrary: m) (simp_all add: Let_def std_insert_new)
  ultimately have eq: "read_statuses E (Some rows) = fold (\<lambda>(a, v). std.insert_new a v) ?es []"
    by (simp add: read_statuses_def)
  show "std_find u (read_statuses E (Some rows)) = map_of ?es u"
    unfolding eq by (simp add: std.find_fold_insert)
  show "std_valid (read_statuses E (Some rows))"
    unfolding eq by (rule std.valid_fold) auto
qed

text \<open>One row for each user of the group: what the two loops select.\<close>

lemma statuses_select:
  assumes st: "list_all2 (\<lambda>row r. (\<forall>x. row_u32 E row 0 x = row_status r) \<and> (\<forall>x. row_u32 E row 1 x = row_user r)) rows rs"
    and rs: "mset rs = mset (filter (named g us) mrs)" and d: "distinct (map member_key mrs)"
  shows "std_find u (read_statuses E (Some rows)) = None \<longleftrightarrow> \<not> (\<exists>r \<in> set mrs. named g us r \<and> row_user r = u)"
    "distinct (map fst (filter (\<lambda>(u, x). test (member_status x)) (read_statuses E (Some rows))))"
    "set (map fst (filter (\<lambda>(u, x). test (member_status x)) (read_statuses E (Some rows)))) =
      row_user ` {r \<in> set mrs. named g us r \<and> test (row_status r)}"
proof -
  let ?m = "read_statuses E (Some rows)"
  note find = read_statuses_rows(2) [OF st] and valid = read_statuses_rows(1) [OF st]
  have set: "set rs = {r \<in> set mrs. named g us r}"
    using arg_cong [OF rs, of set_mset] by simp
  have inj: "inj_on row_user (set rs)"
    using d by (auto simp: set named_def member_key_def distinct_map inj_on_def)
  have "distinct rs"
    using d mset_eq_imp_distinct_iff [OF rs] by (simp add: distinct_map)
  with inj have dist: "distinct (map fst (map (\<lambda>r. (row_user r, status_of r)) rs))"
    by (simp add: distinct_map comp_def inj_on_def)
  show "std_find u ?m = None \<longleftrightarrow> \<not> (\<exists>r \<in> set mrs. named g us r \<and> row_user r = u)"
    unfolding find by (auto simp: map_of_eq_None_iff set image_image)
  show "distinct (map fst (filter (\<lambda>(u, x). test (member_status x)) ?m))"
    using std.entries_distinct [OF valid] by (rule distinct_map_filter)
  have "(u, x) \<in> set ?m \<longleftrightarrow> (\<exists>r \<in> set rs. u = row_user r \<and> x = status_of r)" for u x
    unfolding std.set_entries [OF valid] find using dist by (auto simp: map_of_eq_Some_iff)
  then have "set ?m = (\<lambda>r. (row_user r, status_of r)) ` set rs" by auto
  then have "set (filter (\<lambda>(u, x). test (member_status x)) ?m) =
      (\<lambda>r. (row_user r, status_of r)) ` {r \<in> set rs. test (row_status r)}"
    by (auto simp: status_of_def)
  then show "set (map fst (filter (\<lambda>(u, x). test (member_status x)) ?m)) =
      row_user ` {r \<in> set mrs. named g us r \<and> test (row_status r)}"
    unfolding set_map by (simp add: image_image set conj_assoc)
qed

subsection \<open>The group book\<close>

text \<open>What the tables stand for: the members of each group, the users that are or were members, and the
  number that is kept.\<close>

record group_book =
  book_members :: "u32 \<Rightarrow> u32 set"
  book_known :: "u32 \<Rightarrow> u32 set"
  book_groups :: "u32 \<Rightarrow> group_row option"

definition members_of :: "member_row list \<Rightarrow> u32 \<Rightarrow> u32 set" where
  "members_of mrs g = row_user ` {r \<in> set mrs. row_group r = g \<and> row_status r \<noteq> 0}"

definition known_of :: "member_row list \<Rightarrow> u32 \<Rightarrow> u32 set" where
  "known_of mrs g = row_user ` {r \<in> set mrs. row_group r = g}"

definition group_book_of :: "member_tables \<Rightarrow> group_book" where
  "group_book_of T = \<lparr>book_members = members_of (member_rows T), book_known = known_of (member_rows T),
     book_groups = group_rows T\<rparr>"

text \<open>Joining makes members of the users a group knows, and of the others if the status of a new row
  says so; the number grows by the users that were no members. Quitting removes members.\<close>

definition join_book :: "u32 \<Rightarrow> u32 \<Rightarrow> u32 set \<Rightarrow> group_book \<Rightarrow> group_book" where
  "join_book d g us k = k\<lparr>
     book_members := (book_members k)(g := book_members k g \<union> (if d = 0 then us \<inter> book_known k g else us)),
     book_known := (book_known k)(g := book_known k g \<union> us),
     book_groups := (book_groups k)(g := map_option (group_number_update (\<lambda>c. c + card (us - book_members k g))) (book_groups k g))\<rparr>"

definition quit_book :: "u32 \<Rightarrow> u32 set \<Rightarrow> group_book \<Rightarrow> group_book" where
  "quit_book g us k = k\<lparr>
     book_members := (book_members k)(g := book_members k g - us),
     book_groups := (book_groups k)(g := map_option (group_number_update (\<lambda>c. c - card (us \<inter> book_members k g))) (book_groups k g))\<rparr>"

definition new_group :: "u32 \<Rightarrow> bool \<Rightarrow> u32 \<Rightarrow> group_book \<Rightarrow> group_book" where
  "new_group u a g k = k\<lparr>book_groups := (book_groups k)(g \<mapsto> \<lparr>group_number = 0, group_owner = u, group_active = a\<rparr>)\<rparr>"

text \<open>The invariant: one row for a user in a group, only groups that exist have rows, and the number kept
  is the number of members.\<close>

definition rows_ok :: "member_tables \<Rightarrow> bool" where
  "rows_ok T \<longleftrightarrow> distinct (map member_key (member_rows T)) \<and>
     (\<forall>g \<in> set (map row_group (member_rows T)). group_rows T g \<noteq> None)"

definition numbers_exact :: "group_book \<Rightarrow> bool" where
  "numbers_exact k \<longleftrightarrow> (\<forall>g r. book_groups k g = Some r \<longrightarrow> group_number r = card (book_members k g)) \<and>
     (\<forall>g. book_members k g \<subseteq> book_known k g)"

lemma members_known: "members_of mrs g \<subseteq> known_of mrs g"
  by (auto simp: members_of_def known_of_def)

lemma finite_members [simp]: "finite (members_of mrs g)" "finite (known_of mrs g)"
  by (simp_all add: members_of_def known_of_def)

lemma join_numbers:
  assumes "numbers_exact k" "d \<noteq> 0" "finite us" "finite (book_members k g)"
  shows "numbers_exact (join_book d g us k)"
proof -
  have "card (book_members k g \<union> us) = card (book_members k g) + card (us - book_members k g)"
    using assms(3,4) card_Un_disjoint [of "book_members k g" "us - book_members k g"] by (simp add: Diff_disjoint)
  with assms(1,2) show ?thesis by (fastforce simp: numbers_exact_def join_book_def)
qed

lemma quit_numbers:
  assumes "numbers_exact k" "finite (book_members k g)"
  shows "numbers_exact (quit_book g us k)"
proof -
  have "card (book_members k g - us) = card (book_members k g) - card (us \<inter> book_members k g)"
    using assms(2) by (metis card_Diff_subset_Int finite_Int inf_commute)
  with assms(1) show ?thesis by (fastforce simp: numbers_exact_def quit_book_def)
qed

subsection \<open>Changing rows\<close>

lemma set_members_simps [simp]:
  "map member_key (set_members P v mrs) = map member_key mrs"
  "map row_group (set_members P v mrs) = map row_group mrs"
  by (simp_all add: set_members_def member_key_def)

lemma set_members_image:
  "row_user ` {r \<in> set (set_members P v mrs). row_group r = g \<and> Q (row_status r)} =
     row_user ` {r \<in> set mrs. row_group r = g \<and> Q (if P r then v else row_status r)}"
proof -
  let ?f = "\<lambda>r. if P r then r\<lparr>row_status := v\<rparr> else r"
  have f: "row_user (?f r) = row_user r" "row_group (?f r) = row_group r"
    "row_status (?f r) = (if P r then v else row_status r)" for r
    by simp_all
  have "{r \<in> ?f ` set mrs. row_group r = g \<and> Q (row_status r)} =
      ?f ` {r \<in> set mrs. row_group (?f r) = g \<and> Q (row_status (?f r))}" by blast
  then show ?thesis by (simp only: set_members_def set_map f image_image)
qed

lemma known_of_set [simp]: "known_of (set_members P v mrs) g = known_of mrs g"
  using set_members_image [of P v mrs g "\<lambda>x. True"] by (simp add: known_of_def)

lemma members_of_set:
  "members_of (set_members (named g us) v mrs) h =
     (if h = g then (if v = 0 then members_of mrs g - set us else members_of mrs g \<union> known_of mrs g \<inter> set us)
      else members_of mrs h)"
  if "distinct (map member_key mrs)"
proof -
  have key: "r = r'" if "r \<in> set mrs" "r' \<in> set mrs" "row_group r = row_group r'" "row_user r = row_user r'" for r r'
    using that \<open>distinct (map member_key mrs)\<close> by (auto simp: distinct_map inj_on_def member_key_def)
  show ?thesis
    unfolding members_of_def set_members_image [of _ _ _ _ "\<lambda>x. x \<noteq> 0"]
    by (auto simp: known_of_def named_def dest: key)
qed

lemma members_of_new:
  "members_of (mrs @ map (new_member d g) us) h =
     members_of mrs h \<union> (if h = g \<and> d \<noteq> 0 then set us else {})"
  "known_of (mrs @ map (new_member d g) us) h = known_of mrs h \<union> (if h = g then set us else {})"
proof -
  have n: "row_group (new_member d g u) = g" "row_user (new_member d g u) = u" "row_status (new_member d g u) = d" for u
    by (simp_all add: new_member_def)
  have "row_user ` {r \<in> set (mrs @ map (new_member d g) us). row_group r = h \<and> Q (row_status r)} =
      row_user ` {r \<in> set mrs. row_group r = h \<and> Q (row_status r)} \<union> (if h = g \<and> Q d then set us else {})" for Q
  proof -
    have "{r \<in> set (mrs @ map (new_member d g) us). row_group r = h \<and> Q (row_status r)} =
        {r \<in> set mrs. row_group r = h \<and> Q (row_status r)} \<union>
        (if h = g \<and> Q d then new_member d g ` set us else {})"
      by (auto simp: n)
    then show ?thesis by (simp add: image_Un image_image n)
  qed
  from this [of "\<lambda>x. x \<noteq> 0"] this [of "\<lambda>x. True"] show
    "members_of (mrs @ map (new_member d g) us) h =
       members_of mrs h \<union> (if h = g \<and> d \<noteq> 0 then set us else {})"
    "known_of (mrs @ map (new_member d g) us) h = known_of mrs h \<union> (if h = g then set us else {})"
    by (simp_all add: members_of_def known_of_def)
qed

text \<open>The number of rows an update names.\<close>

lemma named_length:
  assumes "distinct (map member_key mrs)" "set us \<subseteq> known_of mrs g"
  shows "length (filter (named g us) mrs) = card (set us)"
proof -
  have "distinct (map row_user (filter (named g us) mrs))"
    using assms(1) by (auto simp: named_def member_key_def distinct_map inj_on_def)
  moreover have "row_user ` set (filter (named g us) mrs) = set us"
    using assms(2) by (auto simp: named_def known_of_def)
  ultimately show ?thesis using distinct_card by fastforce
qed

subsection \<open>Joining\<close>

text \<open>The hypothesis on the database, one statement at a time.\<close>

lemma member_dbD:
  assumes "member_db E tables d a"
  shows "tables (snd (now_ms E w)) = tables w" "fmt_uint E n \<noteq> []"
    "sql \<in> {select_join E g us, select_quit E g us} \<Longrightarrow> distinct (map member_key (member_rows (tables w))) \<Longrightarrow>
     \<exists>rows w' rs. db_query E sql w = (Some rows, w') \<and> tables w' = tables w \<and>
        mset rs = mset (filter (named g us) (member_rows (tables w))) \<and>
        list_all2 (\<lambda>row r. (\<forall>x. row_u32 E row 0 x = row_status r) \<and> (\<forall>x. row_u32 E row 1 x = row_user r)) rows rs"
    "us \<noteq> [] \<Longrightarrow> distinct us \<Longrightarrow> filter (named g us) (member_rows (tables w)) = [] \<Longrightarrow>
     \<exists>w'. db_execute E (insert_members E g grp now us) w = (int (length us), w') \<and>
       tables w' = (tables w)\<lparr>member_rows := member_rows (tables w) @ map (new_member d g) us\<rparr>"
    "us \<noteq> [] \<Longrightarrow> (\<And>r. r \<in> set (member_rows (tables w)) \<Longrightarrow> named g us r \<Longrightarrow> row_status r = 0) \<Longrightarrow>
     \<exists>w'. db_execute E (show_members E g us) w = (int (length (filter (named g us) (member_rows (tables w)))), w') \<and>
       tables w' = (tables w)\<lparr>member_rows := set_members (named g us) 1 (member_rows (tables w))\<rparr>"
    "us \<noteq> [] \<Longrightarrow> (\<And>r. r \<in> set (member_rows (tables w)) \<Longrightarrow> named g us r \<Longrightarrow> row_status r \<noteq> 0) \<Longrightarrow>
     \<exists>w'. db_execute E (hide_members E now g us) w = (int (length (filter (named g us) (member_rows (tables w)))), w') \<and>
       tables w' = (tables w)\<lparr>member_rows := set_members (named g us) 0 (member_rows (tables w))\<rparr>"
    "group_rows (tables w) g = Some r \<Longrightarrow> group_number r + unat k < 2 ^ 31 \<Longrightarrow>
     tables (snd (db_execute E (add_count E k g) w)) =
       (tables w)\<lparr>group_rows := (group_rows (tables w))(g \<mapsto> r\<lparr>group_number := group_number r + unat k\<rparr>)\<rparr>"
    "group_rows (tables w) g = Some r \<Longrightarrow> unat k \<le> group_number r \<Longrightarrow>
     tables (snd (db_execute E (sub_count E k now g) w)) =
       (tables w)\<lparr>group_rows := (group_rows (tables w))(g \<mapsto> r\<lparr>group_number := group_number r - unat k\<rparr>)\<rparr>"
proof -
  note parts = assms [unfolded member_db_def]
  show "tables (snd (now_ms E w)) = tables w" "fmt_uint E n \<noteq> []" using parts by blast+
  show "\<exists>rows w' rs. db_query E sql w = (Some rows, w') \<and> tables w' = tables w \<and>
        mset rs = mset (filter (named g us) (member_rows (tables w))) \<and>
        list_all2 (\<lambda>row r. (\<forall>x. row_u32 E row 0 x = row_status r) \<and> (\<forall>x. row_u32 E row 1 x = row_user r)) rows rs"
    if "sql \<in> {select_join E g us, select_quit E g us}" "distinct (map member_key (member_rows (tables w)))"
    using parts that unfolding answers_statuses_def by blast
qed (use assms in \<open>simp_all add: member_db_def inserts_members_def updates_members_def counts_members_def\<close>)

lemma run_if_execute:
  "run_state (if b then DbExecute E q else return 0) s =
     (fst (if b then db_execute E q (world s) else (0, world s)),
      s\<lparr>world := snd (if b then db_execute E q (world s) else (0, world s))\<rparr>)"
  by (simp add: DbExecute_def)

text \<open>The two selections of \<^verbatim>\<open>JoinGroup\<close>, as sets.\<close>

lemma hidden_users:
  assumes "distinct (map member_key mrs)"
  shows "row_user ` {r \<in> set mrs. named g us r \<and> row_status r = 0} = set us \<inter> known_of mrs g - members_of mrs g"
    "row_user ` {r \<in> set mrs. named g us r \<and> row_status r \<noteq> 0} = set us \<inter> members_of mrs g"
proof -
  have key: "r = r'" if "r \<in> set mrs" "r' \<in> set mrs" "row_group r = row_group r'" "row_user r = row_user r'" for r r'
    using that assms by (auto simp: distinct_map inj_on_def member_key_def)
  show "row_user ` {r \<in> set mrs. named g us r \<and> row_status r = 0} = set us \<inter> known_of mrs g - members_of mrs g"
    by (auto simp: named_def known_of_def members_of_def dest: key)
  show "row_user ` {r \<in> set mrs. named g us r \<and> row_status r \<noteq> 0} = set us \<inter> members_of mrs g"
    by (auto simp: named_def members_of_def)
qed

lemma JoinGroup_run:
  assumes "ids \<noteq> []" "g \<noteq> 0" "g = GroupInfo.group_id grp" "\<And>n. fmt_uint E n \<noteq> []"
    and now: "now_ms E (world s) = (t, w1)"
    and q: "db_query E (select_join E g ids) w1 = (answ, w2)"
    and new: "new = filter (\<lambda>u. std_find u (read_statuses E answ) = None) ids"
    and hidden: "hidden = map fst (filter (\<lambda>(u, x). member_status x = 0) (read_statuses E answ))"
    and ins: "(if new \<noteq> [] then db_execute E (insert_members E g grp (ucast t) new) w2 else (0, w2)) = (n, w3)"
    and upd: "(if hidden \<noteq> [] then db_execute E (show_members E g hidden) w3 else (0, w3)) = (m, w4)"
  shows "\<exists>s'. run_state (JoinGroup E ids g grp) s = (True, s') \<and>
    world s' = snd (db_execute E (add_count E (of_int (n + m)) g) w4)"
proof -
  have c: "join_if E (\<lambda>st. st = 0) (read_statuses E answ) = comma_list E hidden"
    using join_if_list [OF assms(4), of "\<lambda>st. st = 0"] by (simp add: hidden)
  have nil: "comma_list E hidden = [] \<longleftrightarrow> hidden = []" "comma_list E [] = []"
    using comma_list_eq_Nil [OF assms(4)] by (simp_all add: comma_list_def)
  have p: "\<not> (ids = [] \<or> g = 0)" "\<not> g \<noteq> GroupInfo.group_id grp" using assms(1-3) by auto
  note facts = now q [unfolded select_join_def] new [symmetric] c nil
  show ?thesis
    unfolding JoinGroup_def if_not_P [OF p(1)] if_not_P [OF p(2)] add_count_def
    using ins [unfolded insert_members_def] upd [unfolded show_members_def]
    by (cases "new = []"; cases "hidden = []")
      (simp_all add: run_ScopedPtr Query_def NowMSTime_def DbExecute_def Let_def join_group_inserts facts
        del: append.simps)
qed

text \<open>A group's number after \<open>k\<close> members were added.\<close>

lemma JoinGroup_book:
  assumes db: "member_db E tables d a" and ok: "rows_ok (tables (world s))"
    and ids: "ids \<noteq> []" "distinct ids" and g: "g \<noteq> 0" "g = GroupInfo.group_id grp"
    and c: "group_rows (tables (world s)) g = Some r" "group_number r + length ids < 2 ^ 31"
  shows "\<exists>s'. run_state (JoinGroup E ids g grp) s = (True, s') \<and> rows_ok (tables (world s')) \<and>
    group_book_of (tables (world s')) = join_book d g (set ids) (group_book_of (tables (world s)))"
proof -
  let ?T = "tables (world s)" let ?m = "member_rows (tables (world s))"
  have dist: "distinct (map member_key ?m)" using ok by (simp add: rows_ok_def)
  note fmt = member_dbD(2) [OF db]
  obtain t w1 where now: "now_ms E (world s) = (t, w1)" "tables w1 = ?T"
    using member_dbD(1) [OF db, of "world s"] by (cases "now_ms E (world s)") auto
  obtain rows w2 rs where q: "db_query E (select_join E g ids) w1 = (Some rows, w2)" "tables w2 = ?T"
    and rs: "mset rs = mset (filter (named g ids) ?m)"
      "list_all2 (\<lambda>row r. (\<forall>x. row_u32 E row 0 x = row_status r) \<and> (\<forall>x. row_u32 E row 1 x = row_user r)) rows rs"
    using member_dbD(3) [OF db, of "select_join E g ids" g ids w1] dist by (auto simp: now(2))
  define new where "new = filter (\<lambda>u. std_find u (read_statuses E (Some rows)) = None) ids"
  define hidden where "hidden = map fst (filter (\<lambda>(u, x). member_status x = 0) (read_statuses E (Some rows)))"
  note sel = statuses_select [OF rs(2,1) dist]
  have new_set: "set new = set ids - known_of ?m g" "distinct new"
    using ids(2) by (auto simp: new_def sel(1) named_def known_of_def)
  have hid_set: "set hidden = set ids \<inter> known_of ?m g - members_of ?m g" "distinct hidden"
    unfolding hidden_def using sel(2,3) [of "\<lambda>st. st = 0"] by (simp_all add: hidden_users(1) [OF dist])
  obtain n w3 where ins: "(if new \<noteq> [] then db_execute E (insert_members E g grp (ucast t) new) w2 else (0, w2)) = (n, w3)"
    by (cases "if new \<noteq> [] then db_execute E (insert_members E g grp (ucast t) new) w2 else (0, w2)")
  obtain m w4 where upd: "(if hidden \<noteq> [] then db_execute E (show_members E g hidden) w3 else (0, w3)) = (m, w4)"
    by (cases "if hidden \<noteq> [] then db_execute E (show_members E g hidden) w3 else (0, w3)")
  let ?m1 = "?m @ map (new_member d g) new"
  have free: "filter (named g new) ?m = []"
    using new_set(1) by (auto simp: filter_empty_conv named_def known_of_def)
  have T3: "n = int (length new)" "tables w3 = ?T\<lparr>member_rows := ?m1\<rparr>"
    using ins q(2) member_dbD(4) [OF db, of new g w2 grp "ucast t"] new_set(2) free
    by (auto split: if_splits)
  have dist1: "distinct (map member_key ?m1)"
    using dist new_set by (auto simp: member_key_def new_member_def known_of_def distinct_map inj_on_def)
  have known1: "known_of ?m1 h = known_of ?m h \<union> (if h = g then set new else {})"
    "members_of ?m1 h = members_of ?m h \<union> (if h = g \<and> d \<noteq> 0 then set new else {})" for h
    by (rule members_of_new)+
  have stat0: "row_status r = 0" if "r \<in> set ?m1" "named g hidden r" for r
  proof -
    from that(2) hid_set(1) have u: "row_user r \<in> known_of ?m g" "row_user r \<notin> members_of ?m g" "row_group r = g"
      by (auto simp: named_def)
    have "r \<in> set ?m"
    proof (rule ccontr)
      assume "r \<notin> set ?m"
      with that(1) obtain x where x: "x \<in> set new" "r = new_member d g x" by auto
      from x(2) have "row_user r = x" by (simp add: new_member_def)
      with x(1) u(1) new_set(1) show False by blast
    qed
    with u(2,3) show ?thesis by (auto simp: members_of_def)
  qed
  have len: "length (filter (named g hidden) ?m1) = length hidden"
    using named_length [OF dist1, of hidden g] hid_set distinct_card [OF hid_set(2)] by (auto simp: known1)
  have T4: "m = int (length hidden) \<and> tables w4 = ?T\<lparr>member_rows := set_members (named g hidden) 1 ?m1\<rparr>"
  proof (cases "hidden = []")
    case True
    have "set_members (named g []) 1 mrs = mrs" for mrs by (simp add: set_members_def named_def)
    with True upd T3(2) show ?thesis by simp
  next
    case False
    have T3': "member_rows (tables w3) = ?m1" by (simp add: T3(2))
    from member_dbD(5) [OF db False, of w3 g] stat0 obtain w' where
      "db_execute E (show_members E g hidden) w3 = (int (length (filter (named g hidden) ?m1)), w')"
      "tables w' = (tables w3)\<lparr>member_rows := set_members (named g hidden) 1 ?m1\<rparr>"
      unfolding T3' by blast
    with False upd show ?thesis by (simp only: len if_True not_False_eq_True prod.inject T3(2)) simp
  qed
  have total: "length new + length hidden = card (set ids - members_of ?m g)"
  proof -
    have "set ids - members_of ?m g = set new \<union> set hidden" "set new \<inter> set hidden = {}"
      using members_known [of ?m g] by (auto simp: new_set(1) hid_set(1))
    then show ?thesis by (simp add: card_Un_disjoint distinct_card new_set(2) hid_set(2))
  qed
  have "card (set ids - members_of ?m g) \<le> length ids"
    using card_mono [of "set ids" "set ids - members_of ?m g"] card_length [of ids] by simp
  with c(2) have small: "group_number r + card (set ids - members_of ?m g) < 2 ^ 31" by linarith
  then have num: "unat (of_int (n + m) :: u32) = card (set ids - members_of ?m g)"
    unfolding T3(1) T4 [THEN conjunct1] by (simp flip: of_nat_add total add: unat_of_nat take_bit_eq_mod)
  from JoinGroup_run [OF ids(1) g fmt now(1) q(1) new_def hidden_def ins upd] obtain s' where
    s': "run_state (JoinGroup E ids g grp) s = (True, s')"
      "world s' = snd (db_execute E (add_count E (of_int (n + m)) g) w4)" by blast
  have T: "tables (world s') = (tables w4)\<lparr>group_rows := (group_rows (tables w4))
      (g \<mapsto> r\<lparr>group_number := group_number r + card (set ids - members_of ?m g)\<rparr>)\<rparr>"
    using member_dbD(7) [OF db, of w4 g r "of_int (n + m)"] c(1) small num by (simp add: s'(2) T4 [THEN conjunct2])
  have "set (map row_group (set_members (named g hidden) 1 ?m1)) \<subseteq> insert g (set (map row_group ?m))"
    unfolding set_members_simps by (auto simp: new_member_def)
  moreover have "distinct (map member_key (set_members (named g hidden) 1 ?m1))"
    unfolding set_members_simps by (rule dist1)
  ultimately have "rows_ok (tables (world s'))"
    using ok c(1) unfolding rows_ok_def T T4 [THEN conjunct2] by (simp del: set_map map_append set_members_simps) blast
  moreover have "group_book_of (tables (world s')) = join_book d g (set ids) (group_book_of ?T)"
    using hid_set(1) new_set(1) members_known [of ?m g] c(1)
    by (intro group_book.equality ext) (auto simp: group_book_of_def join_book_def T T4 [THEN conjunct2]
        members_of_set [OF dist1] known1)
  ultimately show ?thesis using s'(1) by blast
qed
subsection \<open>Quitting\<close>

lemma QuitGroup_run:
  assumes "ids \<noteq> []" "g \<noteq> 0" "u \<noteq> 0" "u = GroupInfo.group_creator_id grp" "g = GroupInfo.group_id grp"
    and fmt: "\<And>n. fmt_uint E n \<noteq> []"
    and now: "now_ms E (world s) = (t, w1)"
    and q: "db_query E (select_quit E g ids) w1 = (answ, w2)"
    and gone: "gone = map fst (filter (\<lambda>(u, x). member_status x \<noteq> 0) (read_statuses E answ))"
    and upd: "(if gone \<noteq> [] then db_execute E (hide_members E (ucast t) g gone) w2 else (0, w2)) = (n, w3)"
  shows "\<exists>s'. run_state (QuitGroup E u ids g grp) s = (True, s') \<and>
    world s' = snd (db_execute E (sub_count E (of_int n) (ucast t) g) w3)"
proof -
  have c: "join_if E (\<lambda>st. st \<noteq> 0) (read_statuses E answ) = comma_list E gone"
    using join_if_list [OF fmt, of "\<lambda>st. st \<noteq> 0"] by (simp add: gone)
  have nil: "comma_list E gone = [] \<longleftrightarrow> gone = []" "comma_list E [] = []"
    using comma_list_eq_Nil [OF fmt] by (simp_all add: comma_list_def)
  have p: "\<not> (ids = [] \<or> g = 0 \<or> u = 0 \<or> g = 0)"
    "\<not> (u \<noteq> GroupInfo.group_creator_id grp \<or> g \<noteq> GroupInfo.group_id grp)" using assms(1-5) by auto
  note facts = now q [unfolded select_quit_def] c nil
  show ?thesis
    unfolding QuitGroup_def if_not_P [OF p(1)] if_not_P [OF p(2)] sub_count_def
    using upd [unfolded hide_members_def]
    by (cases "gone = []")
      (simp_all add: run_ScopedPtr Query_def NowMSTime_def DbExecute_def Let_def facts)
qed

lemma QuitGroup_book:
  assumes db: "member_db E tables d a" and ok: "rows_ok (tables (world s))"
    and ids: "ids \<noteq> []" and g: "g \<noteq> 0" "u \<noteq> 0" "u = GroupInfo.group_creator_id grp" "g = GroupInfo.group_id grp"
    and c: "group_rows (tables (world s)) g = Some r"
      "group_number r = card (members_of (member_rows (tables (world s))) g)"
    and small: "group_number r < 2 ^ 32"
  shows "\<exists>s'. run_state (QuitGroup E u ids g grp) s = (True, s') \<and> rows_ok (tables (world s')) \<and>
    group_book_of (tables (world s')) = quit_book g (set ids) (group_book_of (tables (world s)))"
proof -
  let ?T = "tables (world s)" let ?m = "member_rows (tables (world s))"
  have dist: "distinct (map member_key ?m)" using ok by (simp add: rows_ok_def)
  note fmt = member_dbD(2) [OF db]
  obtain t w1 where now: "now_ms E (world s) = (t, w1)" "tables w1 = ?T"
    using member_dbD(1) [OF db, of "world s"] by (cases "now_ms E (world s)") auto
  obtain rows w2 rs where q: "db_query E (select_quit E g ids) w1 = (Some rows, w2)" "tables w2 = ?T"
    and rs: "mset rs = mset (filter (named g ids) ?m)"
      "list_all2 (\<lambda>row r. (\<forall>x. row_u32 E row 0 x = row_status r) \<and> (\<forall>x. row_u32 E row 1 x = row_user r)) rows rs"
    using member_dbD(3) [OF db, of "select_quit E g ids" g ids w1] dist by (auto simp: now(2))
  define gone where "gone = map fst (filter (\<lambda>(u, x). member_status x \<noteq> 0) (read_statuses E (Some rows)))"
  have gone_set: "set gone = set ids \<inter> members_of ?m g" "distinct gone"
    unfolding gone_def using statuses_select(2,3) [OF rs(2,1) dist, of "\<lambda>st. st \<noteq> 0"]
    by (simp_all add: hidden_users(2) [OF dist])
  obtain n w3 where upd: "(if gone \<noteq> [] then db_execute E (hide_members E (ucast t) g gone) w2 else (0, w2)) = (n, w3)"
    by (cases "if gone \<noteq> [] then db_execute E (hide_members E (ucast t) g gone) w2 else (0, w2)")
  have key: "r = r'" if "r \<in> set ?m" "r' \<in> set ?m" "row_group r = row_group r'" "row_user r = row_user r'" for r r'
    using that dist by (auto simp: distinct_map inj_on_def member_key_def)
  have stat: "row_status r \<noteq> 0" if "r \<in> set ?m" "named g gone r" for r
    using that gone_set(1) by (auto simp: named_def members_of_def dest: key)
  have len: "length (filter (named g gone) ?m) = length gone"
    using named_length [OF dist, of gone g] gone_set distinct_card [OF gone_set(2)] members_known [of ?m g] by auto
  have T3: "n = int (length gone) \<and> tables w3 = ?T\<lparr>member_rows := set_members (named g gone) 0 ?m\<rparr>"
  proof (cases "gone = []")
    case True
    have "set_members (named g []) 0 mrs = mrs" for mrs by (simp add: set_members_def named_def)
    with True upd q(2) show ?thesis by simp
  next
    case False
    from member_dbD(6) [OF db False, of w2 g] stat obtain w' where
      "db_execute E (hide_members E (ucast t) g gone) w2 = (int (length (filter (named g gone) ?m)), w')"
      "tables w' = (tables w2)\<lparr>member_rows := set_members (named g gone) 0 ?m\<rparr>"
      unfolding q(2) by blast
    with False upd show ?thesis by (simp only: len if_True not_False_eq_True prod.inject q(2))
  qed
  have n: "length gone = card (set ids \<inter> members_of ?m g)" "length gone \<le> group_number r"
    using distinct_card [OF gone_set(2)] card_mono [of "members_of ?m g" "set ids \<inter> members_of ?m g"]
    by (simp_all add: gone_set(1) c(2))
  have "unat (of_int n :: u32) = length gone"
    using n(2) small by (simp add: T3 [THEN conjunct1] unat_of_nat take_bit_eq_mod)
  moreover from QuitGroup_run [OF ids g fmt now(1) q(1) gone_def upd] obtain s' where
    s': "run_state (QuitGroup E u ids g grp) s = (True, s')"
      "world s' = snd (db_execute E (sub_count E (of_int n) (ucast t) g) w3)" by blast
  ultimately have T: "tables (world s') = (tables w3)\<lparr>group_rows := (group_rows (tables w3))
      (g \<mapsto> r\<lparr>group_number := group_number r - length gone\<rparr>)\<rparr>"
    using member_dbD(8) [OF db, of w3 g r "of_int n"] c(1) n(2) by (simp add: s'(2) T3 [THEN conjunct2])
  have "rows_ok (tables (world s'))"
    using ok c(1) unfolding rows_ok_def T T3 [THEN conjunct2] by (simp del: set_map)
  moreover have "group_book_of (tables (world s')) = quit_book g (set ids) (group_book_of ?T)"
    using gone_set(1) c(1) n(1)
    by (intro group_book.equality ext) (auto simp: group_book_of_def quit_book_def T T3 [THEN conjunct2]
        members_of_set [OF dist])
  ultimately show ?thesis using s'(1) by blast
qed

subsection \<open>Creating a group\<close>

lemma new_group_book:
  assumes "rows_ok T" "group_rows T g = None"
    and "T' = T\<lparr>group_rows := (group_rows T)(g \<mapsto> \<lparr>group_number = 0, group_owner = u, group_active = a\<rparr>)\<rparr>"
  shows "rows_ok T'" "group_book_of T' = new_group u a g (group_book_of T)" "known_of (member_rows T) g = {}"
proof -
  show "known_of (member_rows T) g = {}" using assms by (auto simp: rows_ok_def known_of_def)
qed (use assms in \<open>auto simp: rows_ok_def group_book_of_def new_group_def\<close>)

text \<open>A group that was created has the given members, if there are any; with an empty list the group is
  there, but the caller is told that it is not.\<close>

lemma CreateGroup_run:
  assumes "\<not> (u = 0 \<or> n = '''' \<or> t = 0)" "\<And>w. tables (snd (now_ms E w)) = tables w"
  shows "\<exists>now w2 i w3 s4 grp1 grp4. tables w2 = tables (world s) \<and>
    db_insert_id E (insert_group E [AStr n, AStr av, AStr ad, AInt u, AInt t, AInt now, AInt now]) w2 = (i, w3) \<and>
    tables (world s4) = tables w3 \<and>
    GroupInfo.group_id grp4 = ucast i \<and>
    run_state (CreateGroup E u n t av ad us grp) s =
      (if i > 0 then ((fst (run_state (JoinGroup E us (ucast i) grp4) s4), grp4),
                      snd (run_state (JoinGroup E us (ucast i) grp4) s4))
       else ((False, grp1), s4))"
proof -
  obtain t1 w1 where now1: "now_ms E (world s) = (t1, w1)" by fastforce
  obtain t2 w2 where now2: "now_ms E w1 = (t2, w2)" by fastforce
  let ?args = "[AStr n, AStr av, AStr ad, AInt u, AInt t, AInt (ucast (t2 div 1000)), AInt (ucast (t2 div 1000))]"
  obtain i w3 where ins: "db_insert_id E (insert_group E ?args) w2 = (i, w3)" by fastforce
  obtain t3 w4 where now3: "now_ms E w3 = (t3, w4)" by fastforce
  let ?g1 = "grp\<lparr>GroupInfo.group_id := 0, GroupInfo.group_creator_id := u, GroupInfo.group_name := n,
    GroupInfo.group_avatar := av, GroupInfo.group_type := t, GroupInfo.group_updated := ucast (t1 div 1000)\<rparr>"
  let ?g4 = "?g1\<lparr>GroupInfo.group_id := ucast i, GroupInfo.group_creator_id := u, GroupInfo.group_name := n,
    GroupInfo.group_avatar := av, GroupInfo.group_type := t, GroupInfo.group_updated := ucast t3\<rparr>"
  let ?s4 = "s\<lparr>conns_peak := max (conns_held s + 1) (conns_peak s), world := if i > 0 then w4 else w3\<rparr>"
  have T: "tables w2 = tables (world s)" "tables w4 = tables w3"
    using assms(2) [of "world s"] assms(2) [of w1] assms(2) [of w3] by (simp_all add: now1 now2 now3)
  have t4: "tables (world ?s4) = tables w3" using T(2) by simp
  have gid: "GroupInfo.group_id ?g4 = ucast i" by simp
  have run: "run_state (CreateGroup E u n t av ad us grp) s =
      (if i > 0 then ((fst (run_state (JoinGroup E us (ucast i) ?g4) ?s4), ?g4),
                      snd (run_state (JoinGroup E us (ucast i) ?g4) ?s4))
       else ((False, ?g1), ?s4))"
    unfolding CreateGroup_def if_not_P [OF assms(1)] using ins [unfolded insert_group_def]
    by (cases "i > 0")
      (simp_all add: run_ScopedPtr NowMSTime_def ExecuteInsertID_def now1 now2 now3 Let_def case_prod_unfold)
  show ?thesis
    by (intro exI conjI, rule T(1), rule ins, rule t4, rule gid, rule run)
qed

lemma CreateGroup_book:
  assumes db: "member_db E tables d a" and ok: "rows_ok (tables (world s))"
    and us: "distinct us" "length us < 2 ^ 31"
  shows "\<exists>r grp' s'. run_state (CreateGroup E u n t av ad us grp) s = ((r, grp'), s') \<and> rows_ok (tables (world s')) \<and>
    (\<not> r \<and> tables (world s') = tables (world s) \<or>
     u \<noteq> 0 \<and> n \<noteq> '''' \<and> (\<exists>g. g \<noteq> 0 \<and> GroupInfo.group_id grp' = g \<and> group_rows (tables (world s)) g = None \<and> (r \<longleftrightarrow> us \<noteq> []) \<and>
        group_book_of (tables (world s')) =
          (if us = [] then new_group u a g (group_book_of (tables (world s)))
           else join_book d g (set us) (new_group u a g (group_book_of (tables (world s)))))))"
proof (cases "u = 0 \<or> n = '''' \<or> t = 0")
  case True
  with ok show ?thesis by (auto simp: CreateGroup_def)
next
  case False
  then have un: "u \<noteq> 0" "n \<noteq> ''''" by auto
  let ?T = "tables (world s)"
  from CreateGroup_run [where tables = tables, OF False member_dbD(1) [OF db], of s av ad us grp]
  obtain now w2 i w3 s4 grp1 grp4 where c: "tables w2 = ?T"
    "db_insert_id E (insert_group E [AStr n, AStr av, AStr ad, AInt u, AInt t, AInt now, AInt now]) w2 = (i, w3)"
    "tables (world s4) = tables w3"
    "GroupInfo.group_id grp4 = ucast i"
    "run_state (CreateGroup E u n t av ad us grp) s =
      (if i > 0 then ((fst (run_state (JoinGroup E us (ucast i) grp4) s4), grp4),
                      snd (run_state (JoinGroup E us (ucast i) grp4) s4))
       else ((False, grp1), s4))" by blast
  have "inserts_group E tables a" using db by (simp add: member_db_def)
  with c(1,2) consider "i = 0" "tables w3 = ?T"
    | "0 < i" "(ucast i :: u32) \<noteq> 0" "group_rows ?T (ucast i) = None"
      "tables w3 = ?T\<lparr>group_rows := (group_rows ?T)
        (ucast i \<mapsto> \<lparr>group_number = 0, group_owner = u, group_active = a\<rparr>)\<rparr>"
    unfolding inserts_group_def by (metis fst_conv snd_conv)
  then show ?thesis
  proof cases
    case 1
    with ok c(3,5) show ?thesis by auto
  next
    case 2
    let ?g = "ucast i :: u32"
    note new = new_group_book [OF ok 2(3,4)]
    have T4: "tables (world s4) = tables w3" "group_rows (tables w3) ?g = Some \<lparr>group_number = 0, group_owner = u, group_active = a\<rparr>"
      by (simp_all add: c(3) 2(4))
    show ?thesis
    proof (cases "us = []")
      case True
      have "run_state (JoinGroup E [] ?g grp4) s4 = (False, s4)" by (simp add: JoinGroup_def)
      with un True 2 c(4,5) new(1,2) show ?thesis by (auto simp: T4)
    next
      case ne: False
      have "\<exists>s'. run_state (JoinGroup E us ?g grp4) s4 = (True, s') \<and> rows_ok (tables (world s')) \<and>
          group_book_of (tables (world s')) = join_book d ?g (set us) (group_book_of (tables (world s4)))"
        using new(1) us(2) by (intro JoinGroup_book [where r = "\<lparr>group_number = 0, group_owner = u, group_active = a\<rparr>", OF db _ ne us(1) 2(2) c(4) [symmetric]])
          (simp_all add: T4)
      with un ne 2 c(4,5) new(2) show ?thesis by (auto simp: T4)
    qed
  qed
qed

subsection \<open>Reading\<close>

lemma group_parsed:
  assumes "\<forall>x. ret_u32 E row 0 x = (True, g)" "\<forall>x. fst (ret_str E row 1 x)" "\<forall>x. fst (ret_str E row 2 x)"
    and "\<forall>x. ret_u32 E row 3 x = (True, u)"
  shows "GroupInfo.group_id (snd (group_ParseFromDatabase E i row)) = g"
    "GroupInfo.group_creator_id (snd (group_ParseFromDatabase E i row)) = u"
  using assms by (simp_all add: group_ParseFromDatabase_def DB_column_u32_def DB_column_str_def case_prod_unfold Let_def)

lemma GetGroupInfo_book:
  assumes "member_db E tables d a"
  shows "\<exists>found grp' s'. run_state (GetGroupInfo E g grp) s = ((found, grp'), s') \<and>
    tables (world s') = tables (world s) \<and>
    (found \<longleftrightarrow> g \<noteq> 0 \<and> is_active g (group_rows (tables (world s)))) \<and>
    (found \<longrightarrow> GroupInfo.group_id grp' = g \<and>
       (\<exists>r. group_rows (tables (world s)) g = Some r \<and> GroupInfo.group_creator_id grp' = group_owner r))"
proof (cases "g = 0")
  case True
  then show ?thesis by (intro exI [of _ False] exI [of _ grp]) (simp add: GetGroupInfo_def)
next
  case False
  from assms obtain rows w' where q: "db_query E (select_group E g) (world s) = (Some rows, w')" "tables w' = tables (world s)"
    "rows \<noteq> [] \<longleftrightarrow> is_active g (group_rows (tables (world s)))"
    and cols: "\<forall>row \<in> set rows. (\<forall>x. ret_u32 E row 0 x = (True, g)) \<and> (\<forall>x. fst (ret_str E row 1 x)) \<and>
        (\<forall>x. fst (ret_str E row 2 x)) \<and>
        (\<forall>x r. group_rows (tables (world s)) g = Some r \<longrightarrow> ret_u32 E row 3 x = (True, group_owner r))"
    unfolding member_db_def answers_group_def by blast
  have run: "\<exists>s'. run_state (GetGroupInfo E g grp) s =
      ((case rows of [] \<Rightarrow> (False, grp) | row # _ \<Rightarrow> (True, snd (group_ParseFromDatabase E grp row))), s') \<and> world s' = w'"
    unfolding GetGroupInfo_def select_group_def [symmetric] if_not_P [OF False] Let_def
    by (cases rows) (simp_all add: run_ScopedPtr Query_def Let_def q(1))
  show ?thesis
  proof (cases rows)
    case Nil
    with run q(2,3) show ?thesis by (intro exI [of _ False] exI [of _ grp]) auto
  next
    case (Cons row rest)
    with q(3) obtain r where r: "group_rows (tables (world s)) g = Some r"
      by (auto simp: is_active_def split: option.splits)
    have "GroupInfo.group_id (snd (group_ParseFromDatabase E grp row)) = g"
      "GroupInfo.group_creator_id (snd (group_ParseFromDatabase E grp row)) = group_owner r"
      using cols r Cons by (intro group_parsed; simp)+
    with Cons run q(2,3) False r show ?thesis
      by (intro exI [of _ True] exI [of _ "snd (group_ParseFromDatabase E grp row)"]) auto
  qed
qed

lemma GetGroupMembers_book:
  assumes db: "member_db E tables d a" and ok: "rows_ok (tables (world s))" and g: "g \<noteq> 0"
  shows "\<exists>rs s'. run_state (GetGroupMembers E g []) s = ((length rs, rs), s') \<and>
    tables (world s') = tables (world s) \<and> distinct (map rel_user_id rs) \<and>
    set (map rel_user_id rs) \<subseteq> members_of (member_rows (tables (world s))) g \<and>
    length rs = min 10000 (card (members_of (member_rows (tables (world s))) g))"
proof -
  let ?f = "filter (\<lambda>r. row_group r = g \<and> row_status r \<noteq> 0) (member_rows (tables (world s)))"
  from db obtain rows w' mrs where q: "db_query E (select_members E g) (world s) = (Some rows, w')"
      "tables w' = tables (world s)"
    and rs: "limited_rows 10000 mrs ?f" "list_all2 (\<lambda>row r. \<forall>x. row_u32 E row 1 x = row_user r) rows mrs"
    unfolding member_db_def answers_members_def by blast
  have "distinct (map row_user ?f)"
    using ok by (auto simp: rows_ok_def member_key_def distinct_map inj_on_def)
  note col = limited_column [OF rs(1) this]
  have ids: "map (\<lambda>row. rel_user_id (read_relation E row)) rows = map row_user mrs"
    using rs(2) by (induction rule: list_all2_induct) (simp_all add: read_relation_def)
  have "\<exists>s'. run_state (GetGroupMembers E g []) s = ((length rows, map (read_relation E) rows), s') \<and> world s' = w'"
    unfolding GetGroupMembers_def select_members_def [symmetric] if_not_P [OF g]
    by (simp add: run_ScopedPtr Query_def Let_def q(1) fold_append)
  moreover have "length rows = length mrs" using rs(2) by (simp add: list_all2_lengthD)
  moreover have "row_user ` set ?f = members_of (member_rows (tables (world s))) g"
    by (auto simp: members_of_def)
  ultimately show ?thesis
    using col q(2) ids by (intro exI [of _ "map (read_relation E) rows"]) (auto simp: comp_def)
qed

end
