(* ===== verification/Model_Properties.thy ===== *)
theory Model_Properties
  imports Server_Counters Counter_Races Contact_Book Member_Table
begin

text \<open>
  The properties of the managers: the message counters against their history and for several
  threads, relations, contact lists, messages, authentication, groups and offline files. The witnesses
  run the managers on \<open>demo_env\<close>, a database whose every query delivers the same two rows and which logs
  the statements it gets, and on \<open>book_env\<close>, which keeps a table of contacts.
\<close>

definition demo_env :: "(string list, u32 list) db_env" where
  "demo_env = \<lparr>
     db_query = (\<lambda>q w. (Some [[7, 1], [8, 2]], w @ [q])),
     db_execute = (\<lambda>q w. (1, w @ [q])),
     db_insert_id = (\<lambda>q w. (5, w @ [q])),
     now_ms = (\<lambda>w. (1000000000, w)),
     row_u32 = (\<lambda>r i x. if i < length r then r ! i else x),
     row_str = (\<lambda>r i x. ''pw''),
     ret_u32 = (\<lambda>r i x. (True, if i < length r then r ! i else x)),
     ret_str = (\<lambda>r i x. (True, ''name'')),
     uninit_u32 = 0,
     fmt_printf = (\<lambda>f as. f),
     fmt_query = (\<lambda>f as. f),
     fmt_join = (\<lambda>xs c. ''1''),
     fmt_join_str = (\<lambda>xs c. ''a''),
     fmt_uint = (\<lambda>n. ''1'')\<rparr>"

definition demo_state :: "string list server_state" where
  "demo_state = \<lparr>world = [], conns_held = 0, conns_peak = 0, cache = CacheManager_new, outbox = []\<rparr>"

subsection \<open>Counters\<close>

text \<open>Starting from an empty cache, the unread count the server reports for a user, a friend and
  a client type is the number of messages counted for that pair since the last read
  acknowledgement of a client that shares the map, as a \<^verbatim>\<open>uint32\<close>.\<close>

lemma unread_count_history:
  "GetUserFriendUnreadCount u f t (fold counter_step es CacheManager_new) =
     (if u = 0 \<or> f = 0 then 0 else unread_since_read u f t es mod 2 ^ 32)"
  using cm.counted_history [of u f t es]
  by (simp add: GetUserFriendUnreadCount_eq counter_step_eq unat_of_nat take_bit_eq_mod)

lemmas send_counters = zr.SendIMMessage_counters [unfolded counts_success_def message_counted_def, rule_format]

text \<open>C23: \<^verbatim>\<open>SendIMMessage\<close> changes the counters exactly when it returns true, and then by counting one
  message from a user other than 0 to a user other than 0; its content was not empty.\<close>

theorem send_counts_exactly:
  "let r = run_state (SendIMMessage E (zares_relationship E) a b mtype content time) s
   in if fst r
      then cache (snd r) = IncreaseUserUnreadMsgCount a b (IncrUserMsgCount a b (cache s)) \<and>
        a \<noteq> 0 \<and> b \<noteq> 0 \<and> content \<noteq> ''''
      else cache (snd r) = cache s"
  by (auto simp: send_counters Let_def dest: zr.SendIMMessage_guard)

text \<open>C39: The unread count is kept under the sender: a message from \<open>a\<close> to \<open>b\<close> leaves the count that
  \<open>b\<close> is told for messages of \<open>a\<close> as it was, whether or not the message was stored.\<close>

theorem receiver_not_counted:
  assumes "a \<noteq> b"
  shows "GetUserFriendUnreadCount b a t (cache (snd (run_state
      (SendIMMessage E (zares_relationship E) a b mtype content time) s))) =
    GetUserFriendUnreadCount b a t (cache s)"
  using assms
  by (simp add: send_counters GetUserFriendUnreadCount_eq unread_at_Increase unread_at_IncrUserMsgCount)

theorem receiver_not_counted_witness:
  "GetUserFriendUnreadCount 2 1 17 (cache (snd (run_state
      (SendIMMessage demo_env (zares_relationship demo_env) 1 2 1 ''hi'' 0) demo_state))) = 0"
  using receiver_not_counted [of 1 2 17 demo_env 1 "''hi''" 0 demo_state]
  by (simp add: demo_state_def GetUserFriendUnreadCount_def FindUnreadCount_def CacheManager_new_def
      std_find_def)

lemma length_std_assign: "length (std_assign k v m) \<le> length m + 1"
  by (induction k v m rule: std_assign.induct) auto

lemma length_std_insert: "length (std_insert k v m) \<le> length m + 1"
  using length_std_assign [of k v m] by (simp add: std_insert_def split: option.split)

lemma length_fold_insert: "length (fold (\<lambda>(k, v). std_insert k v) es m) \<le> length m + length es"
proof (induction es arbitrary: m)
  case (Cons e es)
  show ?case using Cons [of "std_insert (fst e) (snd e) m"] length_std_insert [of "fst e" "snd e" m]
    by (simp add: case_prod_unfold)
qed simp

lemma std_find_fold_insert:
  "std_find k (fold (\<lambda>(a, v). std_insert a v) xs m) =
     (case std_find k m of None \<Rightarrow> map_of xs k | Some v \<Rightarrow> Some v)"
  using std.find_fold_insert [of k xs m] by (simp add: std_insert_new)

lemma map_of_take: "distinct (map fst xs) \<Longrightarrow> map_of (take n xs) k = Some v \<Longrightarrow> map_of xs k = Some v"
  by (metis (no_types, lifting) in_set_takeD map_of_SomeD map_of_is_SomeI)

text \<open>The answer to an unread count request: in a well-formed cache at most 300 friends are copied
  into an empty counter, and each copied count is the one the cache holds.\<close>

lemma unread_list_bounded:
  assumes "cache_ok c" "Counter.unread_count k = []"
  shows "length (Counter.unread_count (snd (GetUnreadMsgCount u t k c))) \<le> 300 \<and>
    (\<forall>f n. std_find f (Counter.unread_count (snd (GetUnreadMsgCount u t k c))) = Some n \<longrightarrow>
      n = unread_at u f t c)"
proof (cases "u = 0 \<or> FindUnreadCount u t c = None")
  case True
  then show ?thesis using assms(2) by (auto simp: GetUnreadMsgCount_def std_find_def)
next
  case False
  then obtain m where m: "FindUnreadCount u t c = Some m" by auto
  have dist: "distinct (map fst m)"
    using std.entries_distinct [OF FindUnreadCount_valid [OF assms(1) m]] .
  have list: "Counter.unread_count (snd (GetUnreadMsgCount u t k c)) =
      fold (\<lambda>(k, v). std_insert k v) (take 300 m) []"
    using False m assms(2) by (simp add: GetUnreadMsgCount_def copy_unread_eq)
  have "length (fold (\<lambda>(k, v). std_insert k v) (take 300 m) []) \<le> 300"
    using length_fold_insert [of "take 300 m" "[]"] by simp
  moreover have "n = unread_at u f t c"
    if "std_find f (fold (\<lambda>(k, v). std_insert k v) (take 300 m) []) = Some n" for f n
  proof -
    have "map_of (take 300 m) f = Some n" using that by (simp add: std_find_fold_insert)
    then have "std_find f m = Some n" using map_of_take [OF dist] by (simp add: std_find_def)
    then show ?thesis by (simp add: unread_at_def m)
  qed
  ultimately show ?thesis by (simp add: list)
qed

theorem unread_list_bounded_witness:
  "length (Counter.unread_count (snd (GetUnreadMsgCount 1 17
      \<lparr>counter_user_id = 0, unread_count = [], msg_count = []\<rparr>
      (IncreaseUserUnreadMsgCount 1 2 CacheManager_new)))) \<le> 300"
  using unread_list_bounded [of "IncreaseUserUnreadMsgCount 1 2 CacheManager_new"
      "\<lparr>counter_user_id = 0, unread_count = [], msg_count = []\<rparr>" 1 17]
  by (simp add: cache_ok_IncreaseUserUnreadMsgCount)

subsection \<open>Relations\<close>

text \<open>The relation of two users does not depend on their order: looking up its id and creating it
  run the same statements, give the same result and leave the same state with the two users
  exchanged.\<close>

lemma relation_symmetric:
  "GetRelateId E a b = GetRelateId E b a \<and> AddFriendship E a b = AddFriendship E b a"
proof -
  have id: "GetRelateId E a b = GetRelateId E b a"
    by (cases a b rule: linorder_cases) (auto simp: GetRelateId_def Let_def)
  moreover have "AddFriendship E a b = AddFriendship E b a"
    by (cases a b rule: linorder_cases) (auto simp: AddFriendship_def id Let_def)
  ultimately show ?thesis by blast
qed

text \<open>Over a database that keeps the table of contacts, the relation of users is a partial map from
  unordered pairs to ids, and adding a friendship is an update of that map where it has no value: the
  id returned is the one stored, which every later lookup finds in either order of the two users; an
  existing relation keeps its id and its rows; no pair gets a second row and every row its mirror.\<close>

lemma friendship_recorded:
  assumes "contact_db E contacts" "contacts_ok (contacts (world s))" "a \<noteq> 0" "b \<noteq> 0"
  shows "\<exists>i s'. run_state (AddFriendship E a b) s = (i, s') \<and> contacts_ok (contacts (world s')) \<and>
    relation_of (contacts (world s')) = (relation_of (contacts (world s)))(ordered_pair a b \<mapsto> i) \<and>
    fst (run_state (GetRelateId E a b) s') = i \<and> fst (run_state (GetRelateId E b a) s') = i \<and>
    (\<forall>j. relation_of (contacts (world s)) (ordered_pair a b) = Some j \<longrightarrow>
      i = j \<and> contacts (world s') = contacts (world s))"
proof -
  from AddFriendship_table [OF assms] obtain i s' where
    add: "run_state (AddFriendship E a b) s = (i, s')" "contacts_ok (contacts (world s'))"
      "relation_of (contacts (world s')) = (relation_of (contacts (world s)))(ordered_pair a b \<mapsto> i)"
      "\<forall>j. relation_of (contacts (world s)) (ordered_pair a b) = Some j \<longrightarrow>
        i = j \<and> contacts (world s') = contacts (world s)" by blast
  with GetRelateId_table [OF assms(1) add(2) assms(3,4)] GetRelateId_table [OF assms(1) add(2) assms(4,3)]
  have "fst (run_state (GetRelateId E a b) s') = i" "fst (run_state (GetRelateId E b a) s') = i"
    by (auto simp: ordered_pair_sym [of b a])
  with add show ?thesis by blast
qed

theorem friendship_recorded_witness:
  "\<exists>i s. run_state (AddFriendship table_env 2 1) \<lparr>world = [], conns_held = 0, conns_peak = 0\<rparr> = (i, s) \<and>
    fst (run_state (GetRelateId table_env 1 2) s) = i"
proof -
  have "contacts_ok []" by (simp add: contacts_ok_def)
  with friendship_recorded [OF table_env_db, of "\<lparr>world = [], conns_held = 0, conns_peak = 0\<rparr>" 2 1]
  show ?thesis by auto
qed

text \<open>C28: Two threads can create one relation twice: the lookup of \<^verbatim>\<open>AddFriendship\<close> and its insertion are
  separate statements, so when two threads handle the first messages between two users and both look
  before either inserts, the pair gets two rows, each thread goes on with an id of its own, and the
  table is no longer one row per pair.\<close>

theorem friendship_created_twice:
  assumes "contact_db E contacts" "contacts_ok (contacts (world s))" "a \<noteq> 0" "b \<noteq> 0"
    and "relation_of (contacts (world s)) (ordered_pair a b) = None"
  shows "\<exists>i j s'. run_state (AddFriendship_twice E a b) s = ((i, j), s') \<and>
    map contact_id (filter (\<lambda>c. contact_pair c = ordered_pair a b) (contacts (world s'))) = [i, j] \<and>
    \<not> contacts_ok (contacts (world s'))"
proof -
  from AddFriendship_twice_table [OF assms] obtain i j s' where
    run: "run_state (AddFriendship_twice E a b) s = ((i, j), s')"
    and ids: "map contact_id (filter (\<lambda>c. contact_pair c = ordered_pair a b) (contacts (world s'))) = [i, j]"
    by (elim exE conjE) (rule that)
  have "length (filter (\<lambda>c. contact_pair c = ordered_pair a b) (contacts (world s'))) = 2"
    using arg_cong [OF ids, of length] by simp
  then have "\<not> distinct (map contact_pair (contacts (world s')))"
    using distinct_once [of contact_pair "contacts (world s')" "ordered_pair a b"] by auto
  with run ids show ?thesis by (auto simp: contacts_ok_def)
qed

theorem friendship_created_twice_witness:
  "\<exists>i j s. run_state (AddFriendship_twice table_env 1 2) \<lparr>world = [], conns_held = 0, conns_peak = 0\<rparr> =
      ((i, j), s) \<and> \<not> contacts_ok (world s)"
proof -
  have "contacts_ok []" "relation_of [] p = None" for p by (simp_all add: contacts_ok_def relation_of_def)
  with friendship_created_twice [OF table_env_db, of "\<lparr>world = [], conns_held = 0, conns_peak = 0\<rparr>" 1 2]
  show ?thesis by auto
qed

text \<open>A relation that exists is not created again: when the lookup finds an id, adding the
  friendship returns that id and runs no statement but the lookup.\<close>

lemma friendship_exists:
  assumes "run_state (GetRelateId E a b) s = (r, s')" "r \<noteq> kInvalidID" "a \<noteq> 0" "b \<noteq> 0"
  shows "run_state (AddFriendship E a b) s = (r, s')"
  using assms by (simp add: AddFriendship_def)

theorem friendship_exists_witness:
  "fst (run_state (AddFriendship demo_env 1 2) demo_state) = 7"
proof -
  have "run_state (GetRelateId demo_env 1 2) demo_state =
      (7, snd (run_state (GetRelateId demo_env 1 2) demo_state))"
    by (simp add: GetRelateId_def demo_env_def run_ScopedPtr Query_def)
  from friendship_exists [OF this] show ?thesis by simp
qed

subsection \<open>Messages\<close>

text \<open>No message is ever delivered: the answer to a request for unread messages has an empty
  message list, whatever the database holds and however many messages are counted.\<close>

lemma unread_messages_empty:
  assumes "attach_data_type req = kAttachDataTypeDB"
  shows "\<exists>r. outbox (snd (run_state (UnreadMsgRequestHandler_Execute E H (Some i) sid req) s)) =
      outbox s @ [(sid, Reply (Rs_MsgListResponse r))] \<and> MsgListResponse.msg_list r = []"
proof -
  let ?empty = "\<lambda>r. \<exists>m. r = Reply (Rs_MsgListResponse m) \<and> MsgListResponse.msg_list m = []"

  have "sends_one (Some i) sid ?empty (UnreadMsgRequestHandler_Execute E H (Some i) sid req)"
    unfolding UnreadMsgRequestHandler_Execute_def Let_def
    apply (rule sends_one_deref, simp add: GetAttachData_def HasAttachData_def assms)
    apply (rule sends_one_bind, intro conns_intros)
    apply (rule sends_one_then [where Q = "\<lambda>r. MsgListResponse.msg_list r = []"], intro conns_intros)
    by (auto simp: serializable_def MsgListResponse_ctor_def SetAttachData_def yields_def
        case_prod_unfold BaseTeamTalkPDU_ctor_def GetMessages_nothing intro!: sends_one_send)
  then show ?thesis by (auto simp: sends_one_def)
qed

definition demo_handler_env :: handler_env where
  "demo_handler_env = undefined"

theorem unread_messages_empty_witness:
  "\<exists>r. outbox (snd (run_state (UnreadMsgRequestHandler_Execute demo_env demo_handler_env (Some 0) 9
      ((UnreadMsgRequest_ctor undefined)\<lparr>UnreadMsgRequest.from_user_id := 1,
        UnreadMsgRequest.to_user_id := 2\<rparr>)) demo_state)) = [(9, Reply (Rs_MsgListResponse r))] \<and>
    MsgListResponse.msg_list r = []"
  using unread_messages_empty [of "(UnreadMsgRequest_ctor undefined)\<lparr>UnreadMsgRequest.from_user_id := 1,
        UnreadMsgRequest.to_user_id := 2\<rparr>" demo_env demo_handler_env 0 9 demo_state]
  by (simp add: UnreadMsgRequest_ctor_def BaseTeamTalkPDU_ctor_def demo_state_def)

subsection \<open>Contact lists\<close>


definition book_sample :: "contact list" where
  "book_sample = [\<lparr>contact_id = 5, contact_user = 1, contact_friend = 2, contact_status = 1\<rparr>,
     \<lparr>contact_id = 6, contact_user = 2, contact_friend = 1, contact_status = 1\<rparr>]"

lemma book_sample_ok: "contacts_ok book_sample" "distinct (map contact_id book_sample)"
  "friends_shown (book_of book_sample) 1 = {}" "are_related (book_of book_sample) 1 2"
proof -
  show ok: "contacts_ok book_sample" by (simp add: contacts_ok_def contact_pair_def book_sample_def)
  show "distinct (map contact_id book_sample)" by (simp add: book_sample_def)
  show "friends_shown (book_of book_sample) 1 = {}" by (simp add: friends_shown_book book_sample_def)
  show "are_related (book_of book_sample) 1 2"
    by (simp add: are_related_row [OF ok]) (simp add: book_sample_def contact_pair_def)
qed

text \<open>Users 1 and 2 see each other in their lists.\<close>

definition shown_sample :: "contact list" where
  "shown_sample = [\<lparr>contact_id = 5, contact_user = 1, contact_friend = 2, contact_status = 0\<rparr>,
     \<lparr>contact_id = 6, contact_user = 2, contact_friend = 1, contact_status = 0\<rparr>]"

lemma shown_sample_ok: "contacts_ok shown_sample" "distinct (map contact_id shown_sample)"
  "friends_shown (book_of shown_sample) 1 = {2}" "friends_shown (book_of shown_sample) 2 = {1}"
  by (auto simp: contacts_ok_def contact_pair_def shown_sample_def friends_shown_book)




text \<open>C24: The answer to a request for the friend list: over a database that keeps its table, it names
  friends that the user's contact list shows, none twice, and all of them if there are at most 100;
  the table is not changed. A request without a user gets an empty list.\<close>

theorem friend_list_answer:
  assumes "book_db E contacts" "contacts_ok (contacts (world s))" "attach_data_type req = kAttachDataTypeDB"
  shows "\<exists>r s'. run_state (FriendListRequestHandler_Execute E H (Some i) sid req) s = (Some 0, s') \<and>
    contacts (world s') = contacts (world s) \<and>
    outbox s' = outbox s @ [(sid, Reply (Rs_FriendListResponse r))] \<and>
    FriendListResponse.from_user_id r = FriendListRequest.user_id req \<and>
    distinct (map FriendInfo.friend_user_id (FriendListResponse.friend_lists r)) \<and>
    set (map FriendInfo.friend_user_id (FriendListResponse.friend_lists r)) \<subseteq>
      friends_shown (book_of (contacts (world s))) (FriendListRequest.user_id req) \<and>
    length (FriendListResponse.friend_lists r) = (if FriendListRequest.user_id req = 0 then 0
      else min 100 (card (friends_shown (book_of (contacts (world s))) (FriendListRequest.user_id req))))"
proof (cases "FriendListRequest.user_id req = 0")
  case True
  then show ?thesis
    using assms(3) by (simp add: FriendListRequestHandler_Execute_def deref_def GetAttachData_def HasAttachData_def
        Let_def SendSessionData_checked_def SendSessionData_def serializable_def SetAttachData_def
        FriendListResponse_ctor_def)
next
  case False
  from GetRecentContact_book [OF assms(1,2) False, of 100] obtain fs s1 where
    fs: "run_state (GetRecentContactByUserId E (FriendListRequest.user_id req) 100 []) s = ((True, fs), s1)"
      "contacts (world s1) = contacts (world s)" "distinct (map FriendInfo.friend_user_id fs)"
      "set (map FriendInfo.friend_user_id fs) \<subseteq> friends_shown (book_of (contacts (world s))) (FriendListRequest.user_id req)"
      "length fs = min 100 (card (friends_shown (book_of (contacts (world s))) (FriendListRequest.user_id req)))"
    by blast
  moreover have "outbox s1 = outbox s"
    using preserves_outbox_managers(1) [of E "FriendListRequest.user_id req" 100 "[]"] fs(1)
    unfolding preserves_def by (metis snd_conv)
  ultimately show ?thesis
    using assms(3) False
    by (simp add: FriendListRequestHandler_Execute_def deref_def GetAttachData_def HasAttachData_def
        Let_def SendSessionData_checked_def SendSessionData_def serializable_def SetAttachData_def
        FriendListResponse_ctor_def word_gt_0)
qed

theorem friend_list_answer_witness:
  "\<exists>r s. run_state (FriendListRequestHandler_Execute book_env demo_handler_env (Some 0) 9
      ((FriendListRequest_ctor undefined)\<lparr>FriendListRequest.user_id := 1\<rparr>))
      \<lparr>world = shown_sample, conns_held = 0, conns_peak = 0, cache = CacheManager_new, outbox = []\<rparr> = (Some 0, s) \<and>
    outbox s = [(9, Reply (Rs_FriendListResponse r))] \<and>
    map FriendInfo.friend_user_id (FriendListResponse.friend_lists r) = [2]"
proof -
  let ?req = "(FriendListRequest_ctor undefined)\<lparr>FriendListRequest.user_id := 1\<rparr>"
  let ?s = "\<lparr>world = shown_sample, conns_held = 0, conns_peak = 0, cache = CacheManager_new, outbox = []\<rparr>"
  have "attach_data_type ?req = kAttachDataTypeDB"
    by (simp add: FriendListRequest_ctor_def BaseTeamTalkPDU_ctor_def)
  with friend_list_answer [OF book_env_db, of ?s ?req demo_handler_env 0 9] shown_sample_ok(1,3) obtain r s where
    "run_state (FriendListRequestHandler_Execute book_env demo_handler_env (Some 0) 9 ?req) ?s = (Some 0, s)"
    "outbox s = [(9, Reply (Rs_FriendListResponse r))]"
    "set (map FriendInfo.friend_user_id (FriendListResponse.friend_lists r)) \<subseteq> {2}"
    "length (FriendListResponse.friend_lists r) = 1"
    by auto
  moreover from this have "map FriendInfo.friend_user_id (FriendListResponse.friend_lists r) = [2]"
    by (cases "FriendListResponse.friend_lists r") auto
  ultimately show ?thesis by (intro exI [of _ r] exI [of _ s] conjI)
qed

subsection \<open>Messages that are refused\<close>

text \<open>A message that fails the checks of the handler (a user id or the type is 0, no content, text
  over 1536 bytes or audio over 102400 bytes) is answered with result 1, and nothing but the
  answer happens: no statement runs and no counter changes.\<close>

lemma invalid_message_rejected:
  assumes "MsgData_invalid req"
  shows "\<exists>r. run_state (MsgDataHandler_Execute E H (Some i) sid req) s =
      (Some 0, s\<lparr>outbox := outbox s @ [(sid, Reply (Rs_DBWriteResponse r))]\<rparr>) \<and>
    DBWriteResponse.result r = 1"
  by (simp add: MsgDataHandler_Execute_def SendSessionData_checked_def SendSessionData_def
      serializable_def Let_def assms)
    (rule exI, rule conjI, rule refl, simp)

theorem invalid_message_rejected_witness:
  "\<exists>r. run_state (MsgDataHandler_Execute demo_env demo_handler_env (Some 0) 9
      ((MsgData_ctor undefined)\<lparr>MsgData.from_user_id := 0\<rparr>)) demo_state =
    (Some 0, demo_state\<lparr>outbox := [(9, Reply (Rs_DBWriteResponse r))]\<rparr>) \<and> DBWriteResponse.result r = 1"
  using invalid_message_rejected [of "(MsgData_ctor undefined)\<lparr>MsgData.from_user_id := 0\<rparr>" demo_env
      demo_handler_env 0 9 demo_state]
  by (simp add: MsgData_invalid_def demo_state_def)

subsection \<open>Authentication\<close>

text \<open>Authentication succeeds when the first row the database delivers for the name has the given
  password, and also when the query fails or delivers no row.\<close>

lemma auth_decision:
  "fst (run_state (Auth E uname passwd) s) =
     (case fst (db_query E (auth_query E uname) (world s)) of
        Some (row # _) \<Rightarrow> row_str E row 0 '''' = passwd
      | Some [] \<Rightarrow> True
      | None \<Rightarrow> True)"
  by (simp add: Auth_result split: option.split list.split)

text \<open>The answer to every validate request can be serialised: it carries a user record exactly when
  its result is 0, so the writer never dereferences NULL and the byte size is the size written.\<close>

lemma validate_answer_ok:
  assumes "attach_data_type req = kAttachDataTypeDB"
  shows "\<exists>r. outbox (snd (run_state (ValidateRequestHandler_Execute E H (Some i) sid req) s)) =
      outbox s @ [(sid, Rs_ValidateResponse r)] \<and> ValidateResponse_ok r \<and>
      ValidateResponse.user_name r = ValidateRequest.user_name req"
proof -
  let ?ok = "\<lambda>m. ValidateResponse_ok m \<and> ValidateResponse.user_name m = ValidateRequest.user_name req"
  have "sends_one (Some i) sid (\<lambda>r. \<exists>m. r = Rs_ValidateResponse m \<and> ?ok m)
      (ValidateRequestHandler_Execute E H (Some i) sid req)"
    using assms unfolding ValidateRequestHandler_Execute_def Let_def
    by (intro sends_one_deref sends_one_then [where Q = ?ok] sends_one_send yields_intros conns_intros)
      (auto simp: serializable_def ValidateResponse_ok_def ValidateResponse_ctor_def SetAttachData_def
        GetAttachData_def HasAttachData_def)
  then show ?thesis by (auto simp: sends_one_def)
qed

theorem validate_answer_ok_witness:
  "\<exists>r. outbox (snd (run_state (ValidateRequestHandler_Execute demo_env demo_handler_env (Some 0) 9
      ((ValidateRequest_ctor undefined)\<lparr>ValidateRequest.user_name := ''ab''\<rparr>)) demo_state)) =
    [(9, Rs_ValidateResponse r)] \<and> ValidateResponse_ok r"
  using validate_answer_ok [of "(ValidateRequest_ctor undefined)\<lparr>ValidateRequest.user_name := ''ab''\<rparr>"
      demo_env demo_handler_env 0 9 demo_state]
  by (auto simp: ValidateRequest_ctor_def BaseTeamTalkPDU_ctor_def demo_state_def)

lemma user_reads_keep:
  "outbox (snd (run_state (Auth E n p) s)) = outbox s"
  "outbox (snd (run_state (GetUserInfo_by_name E n u) s)) = outbox s"
  using preserves_outbox_managers(7,10) unfolding preserves_def by blast+

text \<open>C38: A user the database does not know passes: when the query for the password delivers no row, a
  validate request with a name and any password is answered with result 0.\<close>

theorem unknown_user_validated:
  assumes "attach_data_type req = kAttachDataTypeDB" "ValidateRequest.user_name req \<noteq> ''''"
    and "ValidateRequest.password req \<noteq> ''''"
    and "fst (db_query E (auth_query E (ValidateRequest.user_name req)) (world s)) = Some []"
  shows "\<exists>r. outbox (snd (run_state (ValidateRequestHandler_Execute E H (Some i) sid req) s)) =
      outbox s @ [(sid, Rs_ValidateResponse r)] \<and> ValidateResponse.result r = 0"
proof -
  let ?auth = "run_state (Auth E (ValidateRequest.user_name req) (ValidateRequest.password req)) s"
  have auth: "fst ?auth" using assms(4) by (simp add: Auth_result)
  show ?thesis
    using assms(1-3) auth
    by (simp add: ValidateRequestHandler_Execute_def deref_def GetAttachData_def HasAttachData_def Let_def
        SendSessionData_checked_def SendSessionData_def serializable_def case_prod_unfold user_reads_keep)
qed

definition empty_env :: "(string list, u32 list) db_env" where
  "empty_env = demo_env\<lparr>db_query := (\<lambda>q w. (Some [], w @ [q]))\<rparr>"

theorem unknown_user_validated_witness:
  "\<exists>r. outbox (snd (run_state (ValidateRequestHandler_Execute empty_env demo_handler_env (Some 0) 9
      ((ValidateRequest_ctor undefined)\<lparr>ValidateRequest.user_name := ''nobody'',
        ValidateRequest.password := ''x''\<rparr>)) demo_state)) =
    [(9, Rs_ValidateResponse r)] \<and> ValidateResponse.result r = 0"
  using unknown_user_validated [of "(ValidateRequest_ctor undefined)\<lparr>ValidateRequest.user_name := ''nobody'',
        ValidateRequest.password := ''x''\<rparr>" empty_env demo_state demo_handler_env 0 9]
  by (simp add: ValidateRequest_ctor_def BaseTeamTalkPDU_ctor_def demo_state_def empty_env_def)

subsection \<open>Sessions\<close>

text \<open>Removing a contact session is reported with result 0 when the \<^verbatim>\<open>UPDATE\<close> returned 0, and with
  result 1 when it returned anything else, the number of the changed rows included.\<close>

lemma remove_contact_session_result:
  assumes "attach_data_type req = kAttachDataTypeDB" "RemoveSessionRequest.req_user_id req \<noteq> 0"
    and "RemoveSessionRequest.session_id req \<noteq> 0"
    and "RemoveSessionRequest.session_id req \<noteq> SYS_SERVER_USER_ID"
    and "RemoveSessionRequest.session_type req = 1"
  shows "\<exists>r. outbox (snd (run_state (RemoveSessionRequestHandler_Execute E H (Some i) sid req) s)) =
      outbox s @ [(sid, Reply (Rs_RemoveSessionResponse r))] \<and>
    RemoveSessionResponse.result r =
      (if fst (db_execute E (fmt_printf E ''UPDATE IMRecentContact SET status = 1 WHERE userId = %d AND friendUserId = %d LIMIT 1''
          [AInt (RemoveSessionRequest.req_user_id req), AInt (RemoveSessionRequest.session_id req)])
          (world s)) = 0 then 0 else 1)"
  using assms
  by (simp add: RemoveSessionRequestHandler_Execute_def deref_def GetAttachData_def HasAttachData_def
      SetAttachData_def Let_def SendSessionData_checked_def SendSessionData_def serializable_def
      DeleteRecentContactByUserId_def DbExecute_def run_ScopedPtr case_prod_unfold)

theorem remove_contact_session_result_witness:
  "\<exists>r. outbox (snd (run_state (RemoveSessionRequestHandler_Execute demo_env demo_handler_env (Some 0) 9
      ((RemoveSessionRequest_ctor undefined)\<lparr>RemoveSessionRequest.req_user_id := 1,
        RemoveSessionRequest.session_id := 2, RemoveSessionRequest.session_type := 1\<rparr>)) demo_state)) =
    [(9, Reply (Rs_RemoveSessionResponse r))] \<and> RemoveSessionResponse.result r = 1"
  using remove_contact_session_result [of "(RemoveSessionRequest_ctor undefined)
        \<lparr>RemoveSessionRequest.req_user_id := 1, RemoveSessionRequest.session_id := 2,
         RemoveSessionRequest.session_type := 1\<rparr>" demo_env demo_handler_env 0 9 demo_state]
  by (simp add: RemoveSessionRequest_ctor_def BaseTeamTalkPDU_ctor_def demo_state_def demo_env_def)

subsection \<open>Groups\<close>

text \<open>\<^verbatim>\<open>JoinGroup\<close> refuses an empty list of users, the group 0 and a group other than that of the
  information it is given, without running a statement; otherwise it returns true, whatever the
  statements return.\<close>

lemma join_group_result:
  "if ids \<noteq> [] \<and> g \<noteq> 0 \<and> g = GroupInfo.group_id grp
   then fst (run_state (JoinGroup E ids g grp) s)
   else run_state (JoinGroup E ids g grp) s = (False, s)"
  by (auto simp: JoinGroup_def Let_def run_ScopedPtr case_prod_unfold)

text \<open>\<^verbatim>\<open>QuitGroup\<close> is granted to the creator of the group only, who is not the user 0: it refuses
  everybody else, an empty list and another group without running a statement; otherwise it
  returns true, whatever the statements return.\<close>

lemma quit_group_result:
  "if ids \<noteq> [] \<and> g \<noteq> 0 \<and> u \<noteq> 0 \<and> u = GroupInfo.group_creator_id grp \<and> g = GroupInfo.group_id grp
   then fst (run_state (QuitGroup E u ids g grp) s)
   else run_state (QuitGroup E u ids g grp) s = (False, s)"
  by (auto simp: QuitGroup_def Let_def run_ScopedPtr case_prod_unfold)

text \<open>The members of groups are returned by group: starting from an empty map, the list of a group
  holds the rows of that group in the order the database delivered them, a group without rows is
  not in the map, and the map is well formed.\<close>

lemma group_members_by_group:
  "let m = fold (push_relation E) rows [];
       of_group = filter (\<lambda>r. rel_group_id r = g) (map (read_relation E) rows)
   in std_valid m \<and> std_find g m = (if of_group = [] then None else Some of_group)"
proof -
  have "std_valid (fold (push_relation E) rows m) \<and>
      std_find g (fold (push_relation E) rows m) =
        (let l = (case std_find g m of None \<Rightarrow> [] | Some l \<Rightarrow> l) @
             filter (\<lambda>r. rel_group_id r = g) (map (read_relation E) rows)
         in if l = [] \<and> std_find g m = None then None else Some l)"
    if "std_valid m" for m
    using that
  proof (induction rows arbitrary: m)
    case (Cons row rows)
    have "std_valid (push_relation E row m)"
      using Cons.prems by (simp add: push_relation_def Let_def split: option.split)
    from Cons.IH [OF this] show ?case
      by (auto simp: push_relation_def Let_def split: option.splits)
  qed (auto split: option.split)
  from this [of "[]"] show ?thesis by (simp add: Let_def)
qed

text \<open>What a database answers to the two queries of a group list: the groups, and the ids of the members
  of a group in the order the rows were delivered.\<close>

definition groups_read :: "('w, 'r) db_env \<Rightarrow> 'r list option \<Rightarrow> GroupInfo list" where
  "groups_read E answ = (case answ of None \<Rightarrow> []
     | Some rows \<Rightarrow> map (\<lambda>row. snd (group_ParseFromDatabase E new_GroupInfo row)) rows)"

definition member_ids :: "('w, 'r) db_env \<Rightarrow> 'r list option \<Rightarrow> u32 \<Rightarrow> u32 list" where
  "member_ids E answ g = (case answ of None \<Rightarrow> []
     | Some rows \<Rightarrow> map rel_user_id (filter (\<lambda>r. rel_group_id r = g) (map (read_relation E) rows)))"

lemma push_groups_rows: "(case answ of Some rows \<Rightarrow> push_groups E rows [] | None \<Rightarrow> []) = groups_read E answ"
  by (simp add: groups_read_def push_groups_def fold_append split: option.split)

lemma append_members:
  "fold (\<lambda>relation g. g\<lparr>GroupInfo.group_memeber_list := GroupInfo.group_memeber_list g @ [rel_user_id relation]\<rparr>) rs g =
     g\<lparr>GroupInfo.group_memeber_list := GroupInfo.group_memeber_list g @ map rel_user_id rs\<rparr>"
  by (induction rs arbitrary: g) simp_all

lemma fill_members_rows:
  "fill_members (case answ of Some rows \<Rightarrow> fold (push_relation E) rows [] | None \<Rightarrow> []) groups =
     map (\<lambda>g. g\<lparr>GroupInfo.group_memeber_list :=
       GroupInfo.group_memeber_list g @ member_ids E answ (GroupInfo.group_id g)\<rparr>) groups"
proof (cases answ)
  case None
  then show ?thesis by (simp add: fill_members_def member_ids_def std_find_def)
next
  case (Some rows)
  have "std_find g (fold (push_relation E) rows []) =
      (let l = filter (\<lambda>r. rel_group_id r = g) (map (read_relation E) rows) in if l = [] then None else Some l)" for g
    using group_members_by_group [of E rows g] by (simp add: Let_def)
  with Some show ?thesis
    by (auto simp: fill_members_def member_ids_def append_members Let_def split: option.split)
qed

lemma group_ids_eq: "fold (\<lambda>g ids. ids @ [GroupInfo.group_id g]) groups [] = map GroupInfo.group_id groups"
  by (simp add: fold_append)

text \<open>C27: The answer to a request for the groups of a user, against the rows of its two queries: the groups
  the first query delivers, in its order, each with the members the second query, which names the
  groups found, has for it, in the order of that query; members of other groups, and groups without
  a member row, do not get in the way. Without groups the second query is not run.\<close>

theorem group_list_answer:
  assumes "attach_data_type req = kAttachDataTypeDB" "GroupListRequest.user_id req \<noteq> 0"
    and "db_query E (fmt_printf E ''SELECT groupId,groupName,avatar,createUserId,groupType,updated FROM IMGroup WHERE groupId IN (SELECT groupId FROM (SELECT groupId FROM IMGroupRelation WHERE userId=%d AND status>=1 %s ORDER BY created DESC, id DESC LIMIT %d) AS tp)''
      [AInt (GroupListRequest.user_id req), AStr '' AND groupType = 1 '', AInt 200]) (world s) = (answ, w)"
    and "(if groups_read E answ = [] then (None, w) else
      db_query E (fmt_printf E ''SELECT groupId,userId FROM IMGroupRelation WHERE groupId in (%s) AND status >= 1 ORDER BY created ASC LIMIT 10000''
        [AStr (fmt_join E (map GroupInfo.group_id (groups_read E answ)) CHR '','')]) w) = (answ', w')"
  shows "\<exists>r s'. run_state (GroupListRequestHandler_Execute E H (Some i) sid req) s = (Some 0, s') \<and>
    world s' = w' \<and> outbox s' = outbox s @ [(sid, Reply (Rs_GroupListResponse r))] \<and>
    GroupListResponse.req_user_id r = GroupListRequest.user_id req \<and>
    GroupListResponse.group_list r = map (\<lambda>g. g\<lparr>GroupInfo.group_memeber_list :=
      GroupInfo.group_memeber_list g @ member_ids E answ' (GroupInfo.group_id g)\<rparr>) (groups_read E answ)"
proof -
  let ?raw = "(raw_GroupListResponse (raws H))"
  have groups: "\<exists>s1. run_state (GetGroupsByUserId E (GroupListRequest.user_id req) True []) s =
      ((length (groups_read E answ), groups_read E answ), s1) \<and> world s1 = w \<and> outbox s1 = outbox s"
    using assms(2,3)
    by (simp add: GetGroupsByUserId_def run_ScopedPtr Query_def Let_def push_groups_rows)
  then obtain s1 where s1: "run_state (GetGroupsByUserId E (GroupListRequest.user_id req) True []) s =
      ((length (groups_read E answ), groups_read E answ), s1)" "world s1 = w" "outbox s1 = outbox s" by blast
  have "\<exists>s2. run_state (if length (groups_read E answ) > 0 then members_of_groups E (groups_read E answ)
        else return (groups_read E answ)) s1 =
      (map (\<lambda>g. g\<lparr>GroupInfo.group_memeber_list :=
        GroupInfo.group_memeber_list g @ member_ids E answ' (GroupInfo.group_id g)\<rparr>) (groups_read E answ), s2) \<and>
      world s2 = w' \<and> outbox s2 = outbox s"
  proof (cases "groups_read E answ = []")
    case True
    with assms(4) s1(2,3) show ?thesis by simp
  next
    case False
    with assms(4) s1(2,3) show ?thesis
      by (simp add: members_of_groups_def group_ids_eq GetGroupMembers_map_def run_ScopedPtr Query_def Let_def
          fill_members_rows)
  qed
  with s1(1) assms(1) show ?thesis
    by (auto simp: GroupListRequestHandler_Execute_def deref_def GetAttachData_def HasAttachData_def
        Let_def SendSessionData_checked_def SendSessionData_def serializable_def SetAttachData_def
        GroupListResponse_ctor_def)
qed

theorem group_list_answer_witness:
  "\<exists>r s. run_state (GroupListRequestHandler_Execute demo_env demo_handler_env (Some 0) 9
      ((GroupListRequest_ctor undefined)\<lparr>GroupListRequest.user_id := 4\<rparr>)) demo_state = (Some 0, s) \<and>
    outbox s = [(9, Reply (Rs_GroupListResponse r))] \<and>
    map (\<lambda>g. (GroupInfo.group_id g, GroupInfo.group_memeber_list g)) (GroupListResponse.group_list r) =
      [(7, [1]), (8, [2])]"
proof -
  let ?req = "(GroupListRequest_ctor undefined)\<lparr>GroupListRequest.user_id := 4\<rparr>"
  have req: "attach_data_type ?req = kAttachDataTypeDB" "GroupListRequest.user_id ?req \<noteq> 0"
    by (simp_all add: GroupListRequest_ctor_def BaseTeamTalkPDU_ctor_def)
  have q: "db_query demo_env sql w = (Some [[7, 1], [8, 2]], w @ [sql])" for sql w by (simp add: demo_env_def)
  have g: "groups_read demo_env (Some [[7, 1], [8, 2]]) \<noteq> []" by (simp add: groups_read_def)
  have "map (\<lambda>g. (GroupInfo.group_id g, GroupInfo.group_memeber_list g)) (map (\<lambda>g. g\<lparr>GroupInfo.group_memeber_list :=
      GroupInfo.group_memeber_list g @ member_ids demo_env (Some [[7, 1], [8, 2]]) (GroupInfo.group_id g)\<rparr>)
        (groups_read demo_env (Some [[7, 1], [8, 2]]))) = [(7, [1]), (8, [2])]"
    by (simp add: groups_read_def member_ids_def group_ParseFromDatabase_def DB_column_u32_def DB_column_str_def
        demo_env_def new_GroupInfo_def read_relation_def Let_def)
  with group_list_answer [OF req q, unfolded if_not_P [OF g], OF q, of demo_handler_env 0 9 demo_state]
  show ?thesis by (auto simp: demo_state_def)
qed

text \<open>A change of the members of a group is answered with result 0, whether or not the group
  exists, the request is granted or the statements succeed.\<close>

lemma change_member_always_ok:
  assumes "attach_data_type req = kAttachDataTypeDB"
  shows "\<exists>r. outbox (snd (run_state (GroupChangeMemberRequestHandler_Execute E H (Some i) sid req) s)) =
      outbox s @ [(sid, Reply (Rs_GroupChangeMemberResponse r))] \<and>
    GroupChangeMemberResponse.result r = 0"
proof -
  have "sends_one (Some i) sid (\<lambda>r. \<exists>m. r = Reply (Rs_GroupChangeMemberResponse m) \<and>
      GroupChangeMemberResponse.result m = 0) (GroupChangeMemberRequestHandler_Execute E H (Some i) sid req)"
    unfolding GroupChangeMemberRequestHandler_Execute_def Let_def
    by (intro sends_one_deref sends_one_bind sends_one_prod sends_one_send conns_intros)
      (simp_all add: serializable_def GetAttachData_def HasAttachData_def assms)
  then show ?thesis by (auto simp: sends_one_def)
qed

theorem change_member_always_ok_witness:
  "\<exists>r. outbox (snd (run_state (GroupChangeMemberRequestHandler_Execute empty_env demo_handler_env (Some 0) 9
      ((GroupChangeMemberRequest_ctor undefined)\<lparr>GroupChangeMemberRequest.group_id := 0\<rparr>)) demo_state)) =
    [(9, Reply (Rs_GroupChangeMemberResponse r))] \<and> GroupChangeMemberResponse.result r = 0"
  using change_member_always_ok [of "(GroupChangeMemberRequest_ctor undefined)
      \<lparr>GroupChangeMemberRequest.group_id := 0\<rparr>" empty_env demo_handler_env 0 9 demo_state]
  by (simp add: GroupChangeMemberRequest_ctor_def BaseTeamTalkPDU_ctor_def demo_state_def)

subsection \<open>Offline files\<close>

text \<open>Saving the record of an offline file succeeds when both users and the path are given; the
  result of the statement does not matter, and without them no statement runs.\<close>

lemma save_file_result:
  "if a \<noteq> 0 \<and> b \<noteq> 0 \<and> path \<noteq> ''''
   then fst (run_state (SaveFileRecord E a b tsk path k) s)
   else run_state (SaveFileRecord E a b tsk path k) s = (False, s)"
  by (auto simp: SaveFileRecord_def Let_def run_ScopedPtr case_prod_unfold)

text \<open>From the eighth day of the clock on, a file record can be deleted exactly when its status is
  1 and the second it was created in is one of the last 604800 or later.\<close>

lemma file_delete_rule:
  assumes "604800 \<le> unat now"
  shows "FileDel_allowed now file \<longleftrightarrow> stat file = 1 \<and> unat now - 604800 < unat (created_at file)"
proof -
  have "unat (now - 604800) = unat now - 604800"
    using assms by (subst unat_sub) (simp_all add: word_le_nat_alt)
  then show ?thesis by (simp add: FileDel_allowed_def word_less_nat_alt)
qed

theorem file_delete_rule_witness:
  "FileDel_allowed 1000000 \<lparr>id_num = 1, from_user = 1, to_user = 2, task = ''t'', file_path = ''p'',
     size_bytes = 1, stat = 1, created_at = 500000, updated_at = 0\<rparr>"
  using file_delete_rule [of 1000000 "\<lparr>id_num = 1, from_user = 1, to_user = 2, task = ''t'',
     file_path = ''p'', size_bytes = 1, stat = 1, created_at = 500000, updated_at = 0\<rparr>"]
  by simp

subsection \<open>Counters and threads\<close>

text \<open>C19: Counter operations of several threads that do not overlap, each split into its calls on the
  maps, have the results and leave the counters that the operations have one after the other in one
  step each; 303 steps are enough for any of them.\<close>

theorem counter_ops_serial:
  assumes "cache_ok c"
  shows "race_run (one_after_the_other (length ops)) (race_init ops c) =
    Some \<lparr>race_cache = snd (run_ops ops c), race_points = map At_end (fst (run_ops ops c))\<rparr>"
  using race_run_serial [OF assms, of "[]" ops] by (simp add: one_after_the_other_def race_init_def)

theorem counter_ops_serial_witness:
  "race_run (one_after_the_other 3) (race_init [Op_IncreaseUserUnreadMsgCount 1 2,
      Op_ClearUserUnreadItemCount 1 2 17, Op_GetUserFriendUnreadCount 1 2 18] CacheManager_new) =
    Some \<lparr>race_cache = snd (ClearUserUnreadItemCount 1 2 17 (IncreaseUserUnreadMsgCount 1 2 CacheManager_new)),
      race_points = [At_end Res_void, At_end (Res_bool True), At_end (Res_size 1)]\<rparr>"
proof -
  let ?ops = "[Op_IncreaseUserUnreadMsgCount 1 2, Op_ClearUserUnreadItemCount 1 2 17,
    Op_GetUserFriendUnreadCount 1 2 18]"
  have len: "length ?ops = 3" by simp
  have ops: "run_ops ?ops CacheManager_new = ([Res_void, Res_bool True, Res_size 1],
      snd (ClearUserUnreadItemCount 1 2 17 (IncreaseUserUnreadMsgCount 1 2 CacheManager_new)))"
    by (simp add: IncreaseUserUnreadMsgCount_def Cache_IncreaseUserUnreadMsgCount_def CacheManager_new_def
        ClearUserUnreadItemCount_def FindUnreadCount_def GetUnreadCountByClientType_def at_UnreadCount_def
        at_UnreadCountByClientType_def std_erase_def std_find_def GetUserFriendUnreadCount_def)
  show ?thesis
    using counter_ops_serial [OF cache_ok_new, of ?ops] unfolding len ops by simp
qed

text \<open>C20: Two threads that acknowledge messages of one friend at the same time can crash the server: both
  get an iterator to the entry of the friend, because the lock is held only while the map is looked
  up, the first erases the entry, and the second erases through an iterator that is no longer valid.\<close>

theorem concurrent_clears_crash:
  assumes "u \<noteq> 0" "f \<noteq> 0" "same_client t t'" "unread_at u f t c \<noteq> 0"
  shows "race_run [0, 1, 0, 1, 0, 1] (race_init
      [Op_ClearUserUnreadItemCount u f t, Op_ClearUserUnreadItemCount u f t'] c) = None"
proof -
  from assms(4) obtain m where "FindUnreadCount u t c = Some m" "std_find f m \<noteq> None"
    by (auto simp: unread_at_def split: option.splits)
  then show ?thesis by (rule two_clears [OF assms(1-3)])
qed

theorem concurrent_clears_crash_witness:
  "race_run [0, 1, 0, 1, 0, 1] (race_init
      [Op_ClearUserUnreadItemCount 1 2 17, Op_ClearUserUnreadItemCount 1 2 17]
      (IncreaseUserUnreadMsgCount 1 2 CacheManager_new)) = None"
  using concurrent_clears_crash [of 1 2 17 17 "IncreaseUserUnreadMsgCount 1 2 CacheManager_new"]
  by (simp add: unread_at_Increase unread_at_new same_client_def)

text \<open>C21: Counter operations of several threads are safe when no two of them conflict, that is, use one
  map of unread counts, one of them changes it, and not both hold the lock of \<^verbatim>\<open>CacheManager\<close> in doing so
  (a counted message changes all maps of its user, under the lock; acknowledging, listing and reading
  use theirs without it). Then every schedule of their steps runs without a crash and keeps the counters
  well formed, every iterator a thread holds stays valid, and at no time do two threads have steps to
  take that race, so that nothing depends on calls on one map being one step each.\<close>

theorem counter_threads_safe:
  assumes "cache_ok c"
    and "\<And>i j. i < length ops \<Longrightarrow> j < length ops \<Longrightarrow> i \<noteq> j \<Longrightarrow> \<not> conflict (ops ! i) (ops ! j)"
  shows "\<exists>s. race_run sched (race_init ops c) = Some s \<and> cache_ok (race_cache s) \<and>
    At_dangling \<notin> set (race_points s) \<and>
    (\<forall>i < length ops. \<forall>j < length ops. i \<noteq> j \<longrightarrow>
       \<not> uses_race (point_uses (race_points s ! i)) (point_uses (race_points s ! j)))"
proof -
  from race_run_ok [OF race_init_ok(1) [OF assms(1)] race_init_ok(2) assms(2), of sched] obtain s where
    s: "race_run sched (race_init ops c) = Some s" "race_ok ops s" "At_dangling \<notin> set (race_points s)" by blast
  with no_conflict_no_race [OF s(2,3)] assms(2) show ?thesis by (auto simp: race_ok_def)
qed

text \<open>A user with unread messages of two friends.\<close>

definition two_unread :: CacheManager where
  "two_unread = IncreaseUserUnreadMsgCount 1 5 (IncreaseUserUnreadMsgCount 1 2 CacheManager_new)"

definition no_counter :: Counter where
  "no_counter = \<lparr>counter_user_id = 0, unread_count = [], msg_count = []\<rparr>"

lemma two_unread_ok: "cache_ok two_unread"
  by (simp add: two_unread_def cache_ok_IncreaseUserUnreadMsgCount)

lemma two_unread_find:
  "FindUnreadCount 1 17 two_unread = Some [(2, 1), (5, 1)]"
  "FindUnreadCount 1 18 two_unread = Some [(2, 1), (5, 1)]"
  by (simp_all add: two_unread_def IncreaseUserUnreadMsgCount_def Cache_IncreaseUserUnreadMsgCount_def
      CacheManager_new_def FindUnreadCount_def GetUnreadCountByClientType_def std_find_def std_modify_def)

theorem counter_threads_safe_witness:
  "\<exists>s. race_run [0, 1, 2, 0, 1, 1, 3, 0, 1] (race_init [Op_ClearUserUnreadItemCount 1 2 17,
      Op_GetUnreadMsgCount 1 18 no_counter,
      Op_IncreaseUserUnreadMsgCount 3 1, Op_IncreaseUserUnreadMsgCount 3 4] two_unread) = Some s \<and>
    At_dangling \<notin> set (race_points s)"
proof -
  let ?ops = "[Op_ClearUserUnreadItemCount 1 2 17,
    Op_GetUnreadMsgCount 1 18 no_counter,
    Op_IncreaseUserUnreadMsgCount 3 1, Op_IncreaseUserUnreadMsgCount 3 4]"
  have "\<not> conflict (?ops ! i) (?ops ! j)" if "i < length ?ops" "j < length ?ops" "i \<noteq> j" for i j
    using that
    by (auto simp: less_Suc_eq conflict_def uses_race_def map_use_defs same_client_def)
  from counter_threads_safe [OF two_unread_ok this, of "[0, 1, 2, 0, 1, 1, 3, 0, 1]"]
  show ?thesis by blast
qed

text \<open>C22: In every schedule of counter operations, conflicting or not, a thread that has taken 303 steps is
  at the end of its operation, also while the map it walks over grows, unless the run has crashed
  before; and a crash is always the step of a thread whose iterator is to an entry that another
  thread has erased. Without conflicts the first is always the case.\<close>

theorem counter_ops_end:
  assumes "cache_ok c" "i < length ops" "303 \<le> count_list sched i"
  shows "(\<exists>s r. race_run sched (race_init ops c) = Some s \<and> race_points s ! i = At_end r) \<or>
    (\<exists>done j rest s. sched = done @ j # rest \<and> race_run done (race_init ops c) = Some s \<and>
       j < length ops \<and> race_points s ! j = At_dangling \<and>
       (\<exists>a < length ops. \<exists>b < length ops. a \<noteq> b \<and> conflict (ops ! a) (ops ! b)))"
proof (cases "race_run sched (race_init ops c)")
  case (Some s)
  have "steps_left (race_points s ! i) = 0"
    using race_run_left [OF Some, of i] assms(2,3) by (simp add: race_init_def)
  with Some show ?thesis by (cases "race_points s ! i") auto
next
  case None
  have "\<exists>a < length ops. \<exists>b < length ops. a \<noteq> b \<and> conflict (ops ! a) (ops ! b)"
  proof (rule ccontr)
    assume "\<not> ?thesis"
    then have "\<not> conflict (ops ! a) (ops ! b)" if "a < length ops" "b < length ops" "a \<noteq> b" for a b
      using that by blast
    from race_run_ok [OF race_init_ok(1) [OF assms(1)] race_init_ok(2) this, of sched] None
    show False by simp
  qed
  with None race_run_crash [OF race_init_ok(1) [OF assms(1)], of sched ops] show ?thesis by fastforce
qed

text \<open>A walk over two entries while another thread erases the one it has just left; the walk then takes
  the rest of its steps.\<close>

theorem counter_ops_end_witness:
  "\<exists>s r. race_run ([0, 0, 0, 1, 1, 1] @ replicate 300 0) (race_init
      [Op_GetUnreadMsgCount 1 17 no_counter,
       Op_ClearUserUnreadItemCount 1 2 17] two_unread) = Some s \<and>
    race_points s ! 0 = At_end r \<and> FindUnreadCount 1 17 (race_cache s) = Some [(5, 1)]"
proof -
  let ?k = "no_counter"
  let ?ops = "[Op_GetUnreadMsgCount 1 17 ?k, Op_ClearUserUnreadItemCount 1 2 17]"
  let ?sched = "[0, 0, 0, 1, 1, 1] @ replicate 300 0"
  let ?k2 = "\<lparr>counter_user_id = 1, unread_count = [(2, 1)], msg_count = []\<rparr>"
  let ?c = "at_UnreadCount 1 17 (std_erase 2) two_unread"
  let ?pts = "[At_ListWalk 1 17 (Some 5) 1 ?k2, At_end (Res_bool True)]"
  have "race_run [0, 0, 0, 1, 1, 1] (race_init ?ops two_unread) =
      Some \<lparr>race_cache = ?c, race_points = ?pts\<rparr>"
    by (simp add: race_init_def race_step_def invalidate_def two_unread_find std_first_def std_next_def
        std_find_def same_client_def std_insert_def no_counter_def)
  moreover have c: "FindUnreadCount 1 17 ?c = Some [(5, 1)]"
    by (simp add: FindUnreadCount_at two_unread_find same_client_def std_erase_def)
  have "op_steps 300 (At_ListWalk 1 17 (std_first [(5, 1 :: u32)]) 1 ?k2) ?c =
      Some (At_end (Res_counter True (?k2\<lparr>unread_count := copy_unread [(5, 1)] 1 (unread_count ?k2)\<rparr>)), ?c)"
    using walk_alone [of 1 17 ?c "[]" "[(5, 1)]" 1 300 ?k2] c by (simp add: std_valid_def)
  then have "race_run (replicate 300 0) \<lparr>race_cache = ?c, race_points = ?pts\<rparr> =
      Some \<lparr>race_cache = ?c, race_points = ?pts[0 := At_end (Res_counter True
        (?k2\<lparr>unread_count := copy_unread [(5, 1)] 1 (unread_count ?k2)\<rparr>))]\<rparr>"
    by (intro race_run_alone) (auto simp: std_first_def less_Suc_eq)
  ultimately obtain pts where s: "race_run ?sched (race_init ?ops two_unread) =
      Some \<lparr>race_cache = ?c, race_points = pts\<rparr>"
    unfolding race_run_append by auto
  have "count_list (replicate n (0::nat)) 0 = n" for n by (induction n) simp_all
  then have n: "303 \<le> count_list ?sched (0::nat)" by simp
  have no_crash: False if "?sched = done @ j # rest" "race_run done (race_init ?ops two_unread) = Some s'"
    "race_points s' ! j = At_dangling" "j < length ?ops" for "done" j rest s'
    using s race_run_left [OF that(2), of 0] that(2-) unfolding that(1) race_run_append
    by (simp add: race_step_def race_init_def)
  have "0 < length ?ops" by simp
  from counter_ops_end [OF two_unread_ok this n] obtain s' r where
    "race_run ?sched (race_init ?ops two_unread) = Some s'" "race_points s' ! 0 = At_end r"
    by (elim disjE exE conjE) (blast dest: no_crash)+
  with s c show ?thesis by auto
qed

end
