(* ===== verification/Wire_Server.thy ===== *)
theory Wire_Server
  imports Handler_Threads
begin

text \<open>
  Requests and answers as packets: what \<^verbatim>\<open>MessageToIOBuffer\<close> makes of an answer, what a parser that
  follows the registered factory makes of a packet, and a whole exchange, from the request a client
  serialises to the object in which it reads the answer. A packet that ends too early is not parsed.
\<close>

subsection \<open>Answers as packets\<close>

text \<open>The virtual functions of the answers.\<close>

definition reply_ByteSize :: "reply \<Rightarrow> u32" where
  "reply_ByteSize r = (case r of
     Rs_ValidateResponse m \<Rightarrow> ValidateResponse_ByteSize m
   | Reply m \<Rightarrow> response_ByteSize m)"

definition reply_SerializeToArray ::
  "reply \<Rightarrow> 's bytestream \<Rightarrow> byte list \<Rightarrow> (bool \<times> byte list) option" where
  "reply_SerializeToArray r B data = (case r of
     Rs_ValidateResponse m \<Rightarrow> ValidateResponse_SerializeToArray B m data
   | Reply m \<Rightarrow> Some (response_SerializeToArray m B data))"

text \<open>The number of bytes of an answer, without wrap-around.\<close>

definition reply_size :: "reply \<Rightarrow> nat" where
  "reply_size r = (case r of
     Rs_ValidateResponse m \<Rightarrow> fields_size (wire_fields ValidateResponse_fields m)
   | Reply m \<Rightarrow> response_size m)"

text \<open>\<open>reply_arrives B r packet\<close>: a fresh object of the class of \<open>r\<close>, in any memory, parses the packet
  into the members of \<open>r\<close>. \<^verbatim>\<open>ValidateResponse\<close> is different: of it the user name and the result
  arrive, after a successful validation the object has no user record, and whether the packet is
  accepted is not said: for another result the reader takes what follows for a user record.\<close>

definition reply_arrives :: "'s bytestream \<Rightarrow> reply \<Rightarrow> byte list \<Rightarrow> bool" where
  "reply_arrives B r packet = (case r of
     Rs_ValidateResponse m \<Rightarrow> (\<forall>raw.
       let n = snd (BaseTeamTalkPDU_ParseFromArray ValidateResponse_ParseFromByteStream B
             (ValidateResponse_ctor raw) packet)
       in ValidateResponse.user_name n = ValidateResponse.user_name m \<and>
          ValidateResponse.result n = ValidateResponse.result m \<and>
          (ValidateResponse.result m = 0 \<longrightarrow> user n = None))
   | Reply m \<Rightarrow> (\<forall>raw. response_ParseFromArray (response_new (response_class_of m) raw) B packet =
       (True, response_received m raw)))"

lemma validate_arrives:
  assumes B: "byte_stream B cur W"
    and sz: "fields_size (wire_fields ValidateResponse_fields m) < 2 ^ 32"
  shows "reply_arrives B (Rs_ValidateResponse m) (encs W (wire_fields ValidateResponse_fields m))"
proof -
  let ?p = "encs W (wire_fields ValidateResponse_fields m)"
  let ?read = "steps [in_str B ValidateResponse.user_name ValidateResponse.user_name_update,
    in32 B ValidateResponse.result ValidateResponse.result_update]"
  let ?h = "[FStr (ValidateResponse.user_name m), F32 (ValidateResponse.result m)]"
  have "prefix (encs W ?h) (unread B cur (bs_open B ?p))"
    by (simp add: unread_def bs_openD [OF B] wire_fields_def ValidateResponse_fields_def)
  moreover have "consumes B cur W ?read ?h n (n\<lparr>ValidateResponse.user_name := ValidateResponse.user_name m,
      ValidateResponse.result := ValidateResponse.result m\<rparr>)" for n :: ValidateResponse
  proof -
    have "length (ValidateResponse.user_name m) < 2 ^ 32"
      using sz by (simp add: wire_fields_def ValidateResponse_fields_def)
    with ValidateResponse_reads_head [of B cur W "ValidateResponse.user_name m" "ValidateResponse.result m" n]
      B sz show ?thesis by (simp add: reads_def wire_fields_def ValidateResponse_fields_def)
  qed
  ultimately have "\<exists>s'. ?read (n, bs_open B ?p) = (n\<lparr>ValidateResponse.user_name := ValidateResponse.user_name m,
      ValidateResponse.result := ValidateResponse.result m\<rparr>, s')" for n :: ValidateResponse
    using bs_openD(1) [OF B] by (metis consumes_prefixE)
  then obtain f where f: "?read (n, bs_open B ?p) = (n\<lparr>ValidateResponse.user_name := ValidateResponse.user_name m,
      ValidateResponse.result := ValidateResponse.result m\<rparr>, f n)" for n :: ValidateResponse
    by metis
  show ?thesis
    by (simp only: reply_arrives_def reply.case BaseTeamTalkPDU_ParseFromArray_def
        ValidateResponse_ParseFromByteStream_def f read_ok_def case_prod_unfold Let_def fst_conv snd_conv)
      (simp add: ValidateResponse_ctor_def BaseTeamTalkPDU_ctor_def)
qed

lemma reply_packet:
  assumes B: "byte_stream B cur W" and ok: "reply_ok r"
    and sz: "reply_size r < 2 ^ 32" and len: "length data = unat (reply_ByteSize r)"
  shows "\<exists>packet. reply_SerializeToArray r B data = Some (True, packet) \<and> reply_arrives B r packet"
proof (cases r)
  case (Rs_ValidateResponse m)
  with ValidateResponse_packet [OF B, of m data] validate_arrives [OF B, of m] ok sz len show ?thesis
    by (simp add: reply_ok_def reply_size_def reply_ByteSize_def reply_SerializeToArray_def)
next
  case (Reply m)
  from Reply ok sz len have m: "response_ok m" "response_size m < 2 ^ 32"
    "length data = unat (response_ByteSize m)"
    by (simp_all add: reply_ok_def reply_size_def reply_ByteSize_def)
  have "fst (response_SerializeToArray m B data) \<and>
      response_ParseFromArray (response_new (response_class_of m) raw) B
        (snd (response_SerializeToArray m B data)) = (True, response_received m raw)" for raw
    using response_packets [OF B m, of raw] by auto
  then show ?thesis
    by (intro exI [where x = "snd (response_SerializeToArray m B data)"])
      (simp add: Reply reply_SerializeToArray_def reply_arrives_def prod_eq_iff)
qed

subsection \<open>Requests as packets\<close>

text \<open>The parser makes the object the factory has for the type of a packet, in some memory, and has
  it parse the body; it returns nothing when there is no class or the object reports failure. The
  memory may hold what the parser has put into members of the base class that no reader touches.\<close>

definition wire_parser ::
  "('p, 'q) net_env \<Rightarrow> 's bytestream \<Rightarrow> ('p \<Rightarrow> byte list) \<Rightarrow> ('p \<Rightarrow> raw_requests) \<Rightarrow> bool" where
  "wire_parser N B body mem \<longleftrightarrow> (\<forall>p. ParseMessagePDUFromNetPacker N p =
     (case map_of RegisterPDUMessageFactory (packet_type N p) of
        None \<Rightarrow> None
      | Some c \<Rightarrow> (case request_ParseFromArray (request_new c (mem p)) B (body p) of
          (ok, m) \<Rightarrow> if ok then Some m else None)))"

lemma wire_parser_ok:
  assumes "wire_parser N B body mem"
  shows "parser_ok N"
  unfolding parser_ok_def
proof (intro allI impI)
  fix p m
  assume "ParseMessagePDUFromNetPacker N p = Some m"
  with assms obtain c where c: "map_of RegisterPDUMessageFactory (packet_type N p) = Some c"
    and m: "request_ParseFromArray (request_new c (mem p)) B (body p) = (True, m)"
    by (auto simp: wire_parser_def split: option.splits prod.splits if_splits)
  have "request_ok m" "request_class_of m = c"
    using request_parse_ok [OF request_new_ok, of c "mem p" B "body p"]
      request_parse_class [of "request_new c (mem p)" B "body p"] by (simp_all add: m)
  with map_of_SomeD [OF c] show
    "request_ok m \<and> (packet_type N p, request_class_of m) \<in> set RegisterPDUMessageFactory"
    by simp
qed

text \<open>\<open>carries N B body p m\<close>: the packet is what a sender makes of the request.\<close>

definition carries ::
  "('p, 'q) net_env \<Rightarrow> 's bytestream \<Rightarrow> ('p \<Rightarrow> byte list) \<Rightarrow> 'p \<Rightarrow> request \<Rightarrow> bool" where
  "carries N B body p m \<longleftrightarrow> packet_type N p = message_type (request_base m) \<and>
     (\<exists>data. length data = unat (request_ByteSize m) \<and> request_SerializeToArray m B data = (True, body p))"

lemma factory_class:
  "c \<noteq> Class_GroupHistoryMsgRequest \<Longrightarrow>
   map_of RegisterPDUMessageFactory (fst (request_class_kind c)) = Some c"
  by (cases c) (simp_all add: RegisterPDUMessageFactory_def)

lemma parse_carried:
  assumes B: "byte_stream B cur W" and N: "wire_parser N B body mem"
    and m: "request_ok m" "request_class_of m \<noteq> Class_GroupHistoryMsgRequest" "request_size m < 2 ^ 32"
    and p: "carries N B body p m"
  shows "ParseMessagePDUFromNetPacker N p = Some (request_received m (mem p))"
proof -
  from p obtain data where data: "length data = unat (request_ByteSize m)"
    "request_SerializeToArray m B data = (True, body p)" by (auto simp: carries_def)
  from request_packets [OF B m(1,3) data(1), of "mem p"] data(2)
  have "request_ParseFromArray (request_new (request_class_of m) (mem p)) B (body p) =
      (True, request_received m (mem p))" by auto
  moreover have "packet_type N p = fst (request_class_kind (request_class_of m))"
    using p m(1) by (simp add: carries_def request_ok_def pdu_kind_def prod_eq_iff)
  ultimately show ?thesis
    using N factory_class [OF m(2)] by (simp add: wire_parser_def)
qed

lemma received_class: "request_class_of (request_received m raw) = request_class_of m"
  by (cases m) simp_all

lemma received_base:
  assumes "request_ok m"
  shows "attach_data (request_base (request_received m raw)) =
     (if HasAttachData (request_base m) then attach_data (request_base m) else
        attach_data (request_base (request_new (request_class_of m) raw)))"
    "request_ok (request_received m raw)"
  using assms request_kind_ctor [OF assms, of raw] request_new_ok [of "request_class_of m" raw]
  by (cases m; simp add: received_def HasAttachData_def request_ok_def pdu_kind_def base_pdu.defs
      GroupChangeMemberRequest_canon_def)+

subsection \<open>A whole exchange\<close>

text \<open>What comes back for a request: an answer of the right type and, but for write responses, with
  the attach data the client sent, which any buffer of its byte size can take and the other side reads back.\<close>

definition comes_back ::
  "'s bytestream \<Rightarrow> request \<Rightarrow> reply \<Rightarrow> bool" where
  "comes_back B m r \<longleftrightarrow> message_type (reply_base r) = answer_type (request_class_of m) \<and>
     GetAttachData (reply_base r) =
       (if message_type (reply_base r) = MESSAGE_DB_WRITE_RESPONSE then None
        else Some (attach_data (request_base m))) \<and>
     (\<forall>data. length data = unat (reply_ByteSize r) \<and> reply_size r < 2 ^ 32 \<longrightarrow>
        (\<exists>packet. reply_SerializeToArray r B data = Some (True, packet) \<and> reply_arrives B r packet))"

lemma answered_attach:
  assumes "request_ok m" "answer_type (request_class_of m) \<noteq> MESSAGE_DB_WRITE_RESPONSE"
  shows "HasAttachData (request_base m)"
  using assms
  by (cases "request_class_of m")
    (simp_all add: request_ok_def pdu_kind_def HasAttachData_def)

lemma exchange:
  assumes B: "byte_stream B cur W" and N: "wire_parser N B body mem"
    and m: "request_ok m" "request_class_of m \<noteq> Class_GroupHistoryMsgRequest" "request_size m < 2 ^ 32"
    and p: "carries N B body p m"
  shows "\<exists>r. fst (run_state (OnMessageDataHandler N E H i sid p) s) = Some 0 \<and>
    outbox (snd (run_state (OnMessageDataHandler N E H i sid p) s)) = outbox s @ [(sid, r)] \<and>
    comes_back B m r"
proof -
  let ?m = "request_received m (mem p)"
  have parse: "ParseMessagePDUFromNetPacker N p = Some ?m" by (rule parse_carried [OF B N m p])
  have ok: "request_ok ?m" "request_class_of ?m \<noteq> Class_GroupHistoryMsgRequest"
    using received_base(2) [OF m(1)] m(2) by (simp_all add: received_class)
  from dispatch_replies [OF ok, of "Some i" sid E H] obtain r where
    run: "fst (run_state (DispatchMessageHandler E H (Some i) sid ?m) s) = Some 0"
      "outbox (snd (run_state (DispatchMessageHandler E H (Some i) sid ?m) s)) = outbox s @ [(sid, r)]"
    and r: "answer (request_base ?m) (answer_type (request_class_of m)) r"
    by (auto simp: sends_one_def received_class)
  have "comes_back B m r"
    using r received_base(1) [OF m(1), of "mem p"] reply_packet [OF B, of r] answered_attach [OF m(1)]
    by (auto simp: comes_back_def answer_def)
  with run show ?thesis by (auto simp: OnMessageDataHandler_def parse)
qed

text \<open>The packet of a request is not taken for a heartbeat and has a handler, so it is posted.\<close>

lemma factory_posted:
  assumes tc: "(t, c) \<in> set RegisterPDUMessageFactory"
  shows "t \<noteq> MESSAGE_HEARTBEAT \<and> CheckMessageHandler t"
proof
  from tc show "CheckMessageHandler t" using handler_of_type by (auto simp: CheckMessageHandler_def)
  have "\<forall>(t, c) \<in> set RegisterPDUMessageFactory. t \<noteq> MESSAGE_HEARTBEAT"
    by (simp add: RegisterPDUMessageFactory_def)
  with tc show "t \<noteq> MESSAGE_HEARTBEAT" by blast
qed

lemma carried_posted:
  assumes "request_ok m" "request_class_of m \<noteq> Class_GroupHistoryMsgRequest" "carries N B body p m"
    and "manager_ok (manager s)"
  shows "\<exists>i s'. OnDataReceived N sid p s = Some (Some i, s') \<and> i < length (thread_pool (manager s))"
proof -
  have "packet_type N p = fst (request_class_kind (request_class_of m))"
    using assms(1,3) by (simp add: carries_def request_ok_def pdu_kind_def prod_eq_iff)
  with map_of_SomeD [OF factory_class [OF assms(2)]] factory_posted
  have "packet_type N p \<noteq> MESSAGE_HEARTBEAT" "CheckMessageHandler (packet_type N p)" by metis+
  with PostData_ok [OF assms(4), of N sid p] show ?thesis by (auto simp: OnDataReceived_def)
qed

subsection \<open>Packets that are cut short\<close>

text \<open>The packet is a proper prefix of what a sender makes of the request, under its message type.\<close>

definition cut_from ::
  "('p, 'q) net_env \<Rightarrow> 's bytestream \<Rightarrow> ('p \<Rightarrow> byte list) \<Rightarrow> 'p \<Rightarrow> request \<Rightarrow> bool" where
  "cut_from N B body p m \<longleftrightarrow> packet_type N p = message_type (request_base m) \<and>
     (\<exists>data packet n. length data = unat (request_ByteSize m) \<and>
        request_SerializeToArray m B data = (True, packet) \<and> n < length packet \<and> body p = take n packet)"

lemma history_no_class:
  "map_of RegisterPDUMessageFactory (fst (request_class_kind Class_GroupHistoryMsgRequest)) = None"
  by (simp add: RegisterPDUMessageFactory_def)

lemma parse_cut:
  assumes B: "byte_stream B cur W" and N: "wire_parser N B body mem"
    and m: "request_ok m" "request_size m < 2 ^ 32" and p: "cut_from N B body p m"
  shows "ParseMessagePDUFromNetPacker N p = None"
proof (cases "request_class_of m = Class_GroupHistoryMsgRequest")
  case True
  with p m(1) have "map_of RegisterPDUMessageFactory (packet_type N p) = None"
    using history_no_class by (simp add: cut_from_def request_ok_def pdu_kind_def prod_eq_iff)
  with N show ?thesis by (simp add: wire_parser_def)
next
  case False
  from p obtain data packet n where data: "length data = unat (request_ByteSize m)"
    "request_SerializeToArray m B data = (True, packet)" "n < length packet" "body p = take n packet"
    by (auto simp: cut_from_def)
  from request_packets [OF B m data(1), of "mem p"] data(2-4)
  have "\<not> fst (request_ParseFromArray (request_new (request_class_of m) (mem p)) B (body p))" by auto
  moreover have "packet_type N p = fst (request_class_kind (request_class_of m))"
    using p m(1) by (simp add: cut_from_def request_ok_def pdu_kind_def prod_eq_iff)
  ultimately show ?thesis
    using N factory_class [OF False] by (auto simp: wire_parser_def split: prod.splits)
qed

end
