(* ===== verification/Server_Progress.thy ===== *)
theory Server_Progress
  imports Server_Counters Wire_Server
begin

text \<open>
  Progress and well-formedness of the running server: a run keeps the types of everything the server
  holds: the pool, the counters, the connections it has and the answers it has sent. Then the
  server as it looks from outside: queues of requests, each answered once or dropped. Last, runs that
  never end, in which a fair scheduler gets to every task.
\<close>

subsection \<open>Types\<close>

text \<open>A well-formed server: a pool in service, counters whose maps are ordered and well formed, no
  connection taken and every message sent one that the wire can carry.\<close>

definition server_typed :: "('p, 'q, 'w) zaresd \<Rightarrow> bool" where
  "server_typed s \<longleftrightarrow> manager_ok (manager s) \<and> cache_reachable (cache (server s)) \<and>
     conns_held (server s) = 0 \<and> list_all (\<lambda>(sid, r). reply_ok r) (outbox (server s))"

lemma is_answer_ok: "is_answer N q r \<Longrightarrow> reply_ok (snd r)"
  by (auto simp: is_answer_def answer_def split: prod.splits option.splits)

lemma server_typed_run:
  assumes "server_run N E s tr s'" "server_typed s" "parser_ok N"
  shows "server_typed s'"
proof -
  have s: "manager_ok (manager s)" "cache_reachable (cache (server s))"
    using assms(2) by (simp_all add: server_typed_def)
  from run_keeps_inv [OF assms(1) s(1) assms(3)] obtain rs where
    rs: "outbox (server s') = outbox (server s) @ rs"
      "list_all2 (is_answer N) (filter (answered N) (all_handled tr)) rs"
    and "manager_ok (manager s')" "conns_held (server s') = conns_held (server s)"
    by (auto simp: run_inv_def)
  moreover have "list_all (\<lambda>(sid, r). reply_ok r) rs"
  proof -
    have "list_all2 (\<lambda>q r. reply_ok (snd r)) (filter (answered N) (all_handled tr)) rs"
      using rs(2) by (rule list_all2_mono) (rule is_answer_ok)
    then show ?thesis by (auto simp: list_all2_conv_all_nth list_all_length case_prod_beta)
  qed
  ultimately show ?thesis
    using assms(2) run_keeps_counters [OF assms(1) s(1) assms(3) s(2)] by (simp add: server_typed_def)
qed

subsection \<open>The server as queues\<close>

text \<open>What the server promises, without handlers, database, counters and pool: queues of packets and the
  list of what was sent. A packet that has a handler joins one of the queues, others change nothing;
  the first packet of any queue is taken and answered, or dropped if it cannot be.\<close>

record 'p queue_server =
  queues :: "(u64 \<times> 'p) list list"
  sent :: "(u64 \<times> reply) list"

definition has_handler :: "('p, 'q) net_env \<Rightarrow> 'p \<Rightarrow> bool" where
  "has_handler N p \<longleftrightarrow> packet_type N p \<noteq> MESSAGE_HEARTBEAT \<and> CheckMessageHandler (packet_type N p)"

inductive queue_step ::
  "('p, 'q) net_env \<Rightarrow> 'p queue_server \<Rightarrow> 'p event \<Rightarrow> 'p queue_server \<Rightarrow> bool" for N where
  join: "has_handler N p \<Longrightarrow> i < length (queues a) \<Longrightarrow>
    queue_step N a (Received sid p (Some i)) (a\<lparr>queues := (queues a)[i := queues a ! i @ [(sid, p)]]\<rparr>)"
| pass: "\<not> has_handler N p \<Longrightarrow> queue_step N a (Received sid p None) a"
| serve: "i < length (queues a) \<Longrightarrow> queues a ! i = (sid, p) # rest \<Longrightarrow> answered N (sid, p) \<Longrightarrow>
    is_answer N (sid, p) r \<Longrightarrow>
    queue_step N a (Handled i sid p) (a\<lparr>queues := (queues a)[i := rest], sent := sent a @ [r]\<rparr>)"
| discard: "i < length (queues a) \<Longrightarrow> queues a ! i = (sid, p) # rest \<Longrightarrow> \<not> answered N (sid, p) \<Longrightarrow>
    queue_step N a (Handled i sid p) (a\<lparr>queues := (queues a)[i := rest]\<rparr>)"

inductive queue_run ::
  "('p, 'q) net_env \<Rightarrow> 'p queue_server \<Rightarrow> 'p event list \<Rightarrow> 'p queue_server \<Rightarrow> bool" for N a where
  queue_init: "queue_run N a [] a"
| queue_next: "queue_run N a tr b \<Longrightarrow> queue_step N b e c \<Longrightarrow> queue_run N a (tr @ [e]) c"

definition as_queues :: "('p, 'q, 'w) zaresd \<Rightarrow> 'p queue_server" where
  "as_queues s = \<lparr>queues = map tasks (thread_pool (manager s)), sent = outbox (server s)\<rparr>"

lemma receive_event:
  assumes "server_step N E s (Received sid p j) s'"
  shows "j = None \<longleftrightarrow> \<not> has_handler N p"
  using assms by (rule receive_cases) (auto simp: OnDataReceived_def has_handler_def split: if_splits)

lemma server_step_refines:
  assumes st: "server_step N E s e s'" and ok: "manager_ok (manager s)" and N: "parser_ok N"
  shows "queue_step N (as_queues s) e (as_queues s')"
proof (cases e)
  case (Received sid p j)
  note st = st [unfolded Received]
  show ?thesis
    using receive_cases' [OF st ok] receive_event [OF st]
      queue_step.join [of N p _ "as_queues s" sid] queue_step.pass [of N p "as_queues s" sid]
    by (auto simp: as_queues_def Received map_update)
next
  case (Handled i sid p)
  let ?pool = "thread_pool (manager s)"
  from st [unfolded Handled] obtain rest H srv where s': "s' = s\<lparr>manager := (manager s)\<lparr>thread_pool :=
        ?pool[i := (?pool ! i)\<lparr>tasks := rest\<rparr>]\<rparr>, server := srv\<rparr>"
    and i: "i < length ?pool" "tasks (?pool ! i) = (sid, p) # rest"
    and run: "run_state (OnMessageDataHandler N E H i sid p) (server s) = (Some 0, srv)"
    by (rule handle_cases)
  from OnMessage_run [OF N, of E H i sid p "server s"] run obtain rs where
    out: "outbox srv = outbox (server s) @ rs"
    and rs: "list_all2 (is_answer N) (filter (answered N) [(sid, p)]) rs" by auto
  have q: "i < length (queues (as_queues s))" "queues (as_queues s) ! i = (sid, p) # rest"
    using i by (simp_all add: as_queues_def)
  have new: "as_queues s' = (as_queues s)\<lparr>queues := (queues (as_queues s))[i := rest],
      sent := sent (as_queues s) @ rs\<rparr>"
    by (simp add: as_queues_def s' out map_update)
  show ?thesis
  proof (cases "answered N (sid, p)")
    case True
    with rs obtain r where "rs = [r]" "is_answer N (sid, p) r" by (auto simp: list_all2_Cons1)
    with queue_step.serve [OF q True] new show ?thesis by (simp add: Handled)
  next
    case False
    with rs new queue_step.discard [OF q False] show ?thesis by (simp add: Handled as_queues_def)
  qed
qed

lemma server_run_refines:
  assumes "server_run N E s tr s'" "manager_ok (manager s)" "parser_ok N"
  shows "queue_run N (as_queues s) tr (as_queues s')"
  using assms
proof (induction rule: server_run.induct)
  case (step tr s' e s'')
  have "manager_ok (manager s')"
    using run_keeps_inv [OF step.hyps(1) step.prems] by (simp add: run_inv_def)
  with step show ?case by (blast intro: queue_run.queue_next server_step_refines)
qed (rule queue_run.queue_init)

subsection \<open>Infinite runs\<close>

text \<open>A run that goes on forever, and a scheduler that is fair to a thread: again and again the thread has
  nothing to do or handles a task.\<close>

definition endless_run ::
  "('p, 'q) net_env \<Rightarrow> ('w, 'r) db_env \<Rightarrow> (nat \<Rightarrow> ('p, 'q, 'w) zaresd) \<Rightarrow> (nat \<Rightarrow> 'p event) \<Rightarrow> bool" where
  "endless_run N E S ev \<longleftrightarrow> manager_ok (manager (S 0)) \<and> (\<forall>n. server_step N E (S n) (ev n) (S (Suc n)))"

definition queue_of :: "nat \<Rightarrow> ('p, 'q, 'w) zaresd \<Rightarrow> (u64 \<times> 'p) list" where
  "queue_of i s = tasks (thread_pool (manager s) ! i)"

definition handles :: "nat \<Rightarrow> 'p event \<Rightarrow> bool" where
  "handles i e \<longleftrightarrow> (\<exists>sid p. e = Handled i sid p)"

definition fair_to :: "nat \<Rightarrow> (nat \<Rightarrow> ('p, 'q, 'w) zaresd) \<Rightarrow> (nat \<Rightarrow> 'p event) \<Rightarrow> bool" where
  "fair_to i S ev \<longleftrightarrow> (\<forall>n. \<exists>m \<ge> n. queue_of i (S m) = [] \<or> handles i (ev m))"

lemma endless_run_ok:
  assumes "endless_run N E S ev" "parser_ok N"
  shows "manager_ok (manager (S n)) \<and> length (thread_pool (manager (S n))) = length (thread_pool (manager (S 0)))"
proof (induction n)
  case 0
  with assms show ?case by (simp add: endless_run_def)
next
  case (Suc n)
  from assms(1) have "server_run N E (S n) ([] @ [ev n]) (S (Suc n))"
    by (intro server_run.step [OF server_run.init]) (simp add: endless_run_def)
  from run_keeps_inv [OF this _ assms(2)] Suc show ?case by (simp add: run_inv_def)
qed

lemma queue_step_of:
  assumes "server_step N E s e s'" "manager_ok (manager s)"
  shows "handles i e \<and> (\<exists>sid p. e = Handled i sid p \<and> queue_of i s = (sid, p) # queue_of i s') \<or>
    \<not> handles i e \<and> (\<exists>ext. queue_of i s' = queue_of i s @ ext)"
proof (cases e)
  case (Received sid p j)
  with receive_cases' [of N E s sid p j s'] assms show ?thesis
    by (cases "j = Some i") (auto simp: handles_def queue_of_def nth_list_update)
next
  case (Handled j sid p)
  from assms(1) [unfolded Handled] show ?thesis
    by (rule handle_cases) (auto simp: Handled handles_def queue_of_def nth_list_update)
qed

lemma next_handled:
  assumes run: "endless_run N E S ev" and N: "parser_ok N"
    and "queue_of i (S n) \<noteq> []" "queue_of i (S (n + d)) = [] \<or> handles i (ev (n + d))"
  shows "\<exists>m \<ge> n. handles i (ev m) \<and> (\<exists>ext. queue_of i (S m) = queue_of i (S n) @ ext) \<and>
    (\<forall>j \<in> {n ..< m}. \<not> handles i (ev j))"
  using assms(3,4)
proof (induction d arbitrary: n)
  case 0
  then show ?case by (intro exI [of _ n]) auto
next
  case (Suc d)
  show ?case
  proof (cases "handles i (ev n)")
    case True
    then show ?thesis by (intro exI [of _ n]) auto
  next
    case False
    with queue_step_of [of N E "S n" "ev n" "S (Suc n)" i] run endless_run_ok [OF run N, of n] obtain ext where
      ext: "queue_of i (S (Suc n)) = queue_of i (S n) @ ext" by (auto simp: endless_run_def)
    with Suc.IH [of "Suc n"] Suc.prems obtain m ext' where m: "m \<ge> Suc n" "handles i (ev m)"
      "queue_of i (S m) = queue_of i (S (Suc n)) @ ext'" "\<forall>j \<in> {Suc n ..< m}. \<not> handles i (ev j)" by auto
    have "\<not> handles i (ev j)" if "j \<in> {n ..< m}" for j
      using that m(4) False by (cases "j = n") auto
    with m(1-3) ext show ?thesis by (intro exI [of _ m]) auto
  qed
qed

text \<open>The task at position \<open>k\<close> of a queue is handled after \<open>k\<close> others.\<close>

lemma task_handled:
  assumes run: "endless_run N E S ev" and N: "parser_ok N" and fair: "fair_to i S ev"
    and "k < length (queue_of i (S n))"
  shows "\<exists>m \<ge> n. ev m = Handled i (fst (queue_of i (S n) ! k)) (snd (queue_of i (S n) ! k)) \<and>
    card {j \<in> {n ..< m}. handles i (ev j)} = k"
  using assms(4)
proof (induction k arbitrary: n)
  case (0 n)
  have ne: "queue_of i (S n) \<noteq> []" using 0 by auto
  from fair obtain m0 where "m0 \<ge> n" "queue_of i (S m0) = [] \<or> handles i (ev m0)"
    unfolding fair_to_def by blast
  with next_handled [OF run N ne, of "m0 - n"] obtain m ext where
    m: "m \<ge> n" "handles i (ev m)" "queue_of i (S m) = queue_of i (S n) @ ext"
      "\<forall>j \<in> {n ..< m}. \<not> handles i (ev j)" by auto
  from queue_step_of [of N E "S m" "ev m" "S (Suc m)" i] run endless_run_ok [OF run N, of m] m(2)
  obtain sid p where "ev m = Handled i sid p" "queue_of i (S m) = (sid, p) # queue_of i (S (Suc m))"
    by (auto simp: endless_run_def)
  moreover have "{j \<in> {n ..< m}. handles i (ev j)} = {}" using m(4) by blast
  ultimately show ?case using m(1,3) ne by (intro exI [of _ m]) (cases "queue_of i (S n)", auto)
next
  case (Suc k n)
  have ne: "queue_of i (S n) \<noteq> []" using Suc.prems by auto
  from fair obtain m0 where "m0 \<ge> n" "queue_of i (S m0) = [] \<or> handles i (ev m0)"
    unfolding fair_to_def by blast
  with next_handled [OF run N ne, of "m0 - n"] obtain m ext where
    m: "m \<ge> n" "handles i (ev m)" "queue_of i (S m) = queue_of i (S n) @ ext"
      "\<forall>j \<in> {n ..< m}. \<not> handles i (ev j)" by auto
  from queue_step_of [of N E "S m" "ev m" "S (Suc m)" i] run endless_run_ok [OF run N, of m] m(2)
  obtain sid p where "queue_of i (S m) = (sid, p) # queue_of i (S (Suc m))"
    by (auto simp: endless_run_def)
  with m(3) ne have tl: "queue_of i (S (Suc m)) = tl (queue_of i (S n)) @ ext"
    by (cases "queue_of i (S n)") auto
  then have nth: "queue_of i (S (Suc m)) ! k = queue_of i (S n) ! Suc k" "k < length (queue_of i (S (Suc m)))"
    using Suc.prems by (auto simp: nth_append nth_tl)
  from Suc.IH [OF nth(2)] obtain m' where m': "m' \<ge> Suc m"
    "ev m' = Handled i (fst (queue_of i (S n) ! Suc k)) (snd (queue_of i (S n) ! Suc k))"
    "card {j \<in> {Suc m ..< m'}. handles i (ev j)} = k" by (auto simp: nth(1))
  have "{j \<in> {n ..< m'}. handles i (ev j)} = insert m {j \<in> {Suc m ..< m'}. handles i (ev j)}"
    using m(1,2,4) m'(1) by (auto simp: not_less_eq_eq)
  with m(1) m' show ?case by (intro exI [of _ m']) simp
qed

end
