(* ===== verification/Server_History.thy ===== *)
theory Server_History
  imports Server_Progress
begin

text \<open>
  The counters of the server as the messages it exchanges determine them: what a request and its answer
  together do to the counters, what the counters say in answers, and the abstract server \<open>chat_run\<close>,
  which has the history of messages sent and read in place of the cache.
\<close>

subsection \<open>The history\<close>

text \<open>What an exchange adds to the history: a text message that was stored, as the answer says, and
  every acknowledgement.\<close>

definition exchange_events :: "request \<Rightarrow> reply \<Rightarrow> counter_event list" where
  "exchange_events m r = (case m of
     Rq_MsgData q \<Rightarrow>
       (case r of
          Reply (Rs_DBWriteResponse w) \<Rightarrow>
            if uint (MsgData.msg_type q) = MESSAGE_TYPE_IM \<and> DBWriteResponse.result w = 0
            then [MsgSent (MsgData.from_user_id q) (MsgData.to_user_id q)] else []
        | _ \<Rightarrow> [])
   | Rq_MsgReadAck q \<Rightarrow>
       [MsgsRead (MsgReadAck.from_user_id q) (MsgReadAck.to_user_id q) (MsgReadAck.client_type q)]
   | _ \<Rightarrow> [])"

text \<open>A cache with a history.\<close>

definition has_history :: "counter_event list \<Rightarrow> CacheManager \<Rightarrow> bool" where
  "has_history es c \<longleftrightarrow> c = fold counter_step es CacheManager_new"

lemma has_history_new: "has_history [] CacheManager_new"
  by (simp add: has_history_def)

lemma has_history_step: "has_history es c \<Longrightarrow> has_history (es @ es') (fold counter_step es' c)"
  by (simp add: has_history_def)

lemma has_history_reachable: "has_history es c \<Longrightarrow> cache_reachable c"
proof (induction es arbitrary: c rule: rev_induct)
  case (snoc e es)
  then show ?case by (cases e) (simp_all add: has_history_def cache_reachable.intros)
qed (simp add: has_history_def cache_reachable.new)

lemmas has_history_ok = cache_reachable_ok [OF has_history_reachable]

lemma has_history_unread:
  "has_history es c \<Longrightarrow> u \<noteq> 0 \<Longrightarrow> f \<noteq> 0 \<Longrightarrow> unread_at u f t c = of_nat (unread_since_read u f t es)"
  using cm.counted_history [of u f t es] by (simp add: has_history_def counter_step_eq)

text \<open>A user has a map of unread counts exactly if a message of the user has been counted, and no map
  has an entry for the user id 0.\<close>

definition has_sent :: "u32 \<Rightarrow> counter_event list \<Rightarrow> bool" where
  "has_sent u es \<longleftrightarrow> u \<noteq> 0 \<and> (\<exists>b. b \<noteq> 0 \<and> MsgSent u b \<in> set es)"

lemma FindUnreadCount_Clear:
  "FindUnreadCount u t (snd (ClearUserUnreadItemCount a b t' c)) =
     (if a \<noteq> 0 \<and> b \<noteq> 0 \<and> u = a \<and> same_client t t'
      then map_option (\<lambda>m. if std_find b m = None then m else std_erase b m) (FindUnreadCount u t c)
      else FindUnreadCount u t c)"
  using FindUnreadCount_same [of t t' u c]
  by (auto simp: ClearUserUnreadItemCount_def FindUnreadCount_at split: option.splits)

lemma has_history_map:
  "has_history es c \<Longrightarrow> FindUnreadCount u t c \<noteq> None \<longleftrightarrow> has_sent u es"
proof (induction es arbitrary: c rule: rev_induct)
  case Nil
  then show ?case
    by (simp add: has_history_def has_sent_def FindUnreadCount_def CacheManager_new_def std_find_def)
next
  case (snoc e es)
  from snoc.IH [of "fold counter_step es CacheManager_new"] snoc.prems show ?case
    by (cases e) (auto simp: has_history_def has_sent_def FindUnreadCount_Increase
        FindUnreadCount_IncrUserMsgCount FindUnreadCount_Clear)
qed

lemma has_history_no_zero:
  "has_history es c \<Longrightarrow> FindUnreadCount u t c = Some m \<Longrightarrow> std_find 0 m = None"
proof (induction es arbitrary: c m rule: rev_induct)
  case Nil
  then show ?case
    by (simp add: has_history_def FindUnreadCount_def CacheManager_new_def std_find_def)
next
  case (snoc e es)
  let ?c = "fold counter_step es CacheManager_new"
  have IH: "std_find 0 m = None" if "FindUnreadCount u t ?c = Some m" for m
    using snoc.IH [of ?c m] that by (simp add: has_history_def)
  have ok: "std_valid m" if "FindUnreadCount u t ?c = Some m" for m
    using FindUnreadCount_valid [OF has_history_ok that] by (simp add: has_history_def)
  show ?case
  proof (cases e)
    case (MsgSent a b)
    with snoc.prems IH show ?thesis
      by (auto simp: has_history_def FindUnreadCount_Increase FindUnreadCount_IncrUserMsgCount std_find_def [of _ "[]"]
          split: if_splits option.splits)
  next
    case (MsgsRead a b t')
    with snoc.prems IH ok show ?thesis
      by (auto simp: has_history_def FindUnreadCount_Clear split: if_splits)
  qed
qed

subsection \<open>What an answer says of the counters\<close>

text \<open>The list an unread count answer is filled from: the first 300 entries of the user's map.\<close>

definition unread_entries :: "u32 \<Rightarrow> u32 \<Rightarrow> CacheManager \<Rightarrow> (u32 \<times> u32) list" where
  "unread_entries u t c =
     (if u = 0 then [] else case FindUnreadCount u t c of None \<Rightarrow> [] | Some m \<Rightarrow> take 300 m)"

definition unread_pairs :: "UserUnreadMsgCount list \<Rightarrow> (u32 \<times> u32) list" where
  "unread_pairs = map (\<lambda>e. (UserUnreadMsgCount.from_user_id e, UserUnreadMsgCount.unread_msg_count e))"

text \<open>The answer to the request \<open>m\<close>, given the counters before it was handled.\<close>

definition answer_from_cache :: "CacheManager \<Rightarrow> request \<Rightarrow> reply \<Rightarrow> bool" where
  "answer_from_cache c m r = (case m of
     Rq_MsgData q \<Rightarrow> (\<exists>w. r = Reply (Rs_DBWriteResponse w) \<and> DBWriteResponse.result w \<in> {0, 1} \<and>
       (MsgData_invalid q \<longrightarrow> DBWriteResponse.result w = 1))
   | Rq_MsgReadAck q \<Rightarrow> (\<exists>w. r = Reply (Rs_DBWriteResponse w) \<and>
       DBWriteResponse.result w = (if fst (ClearUserUnreadItemCount (MsgReadAck.from_user_id q)
         (MsgReadAck.to_user_id q) (MsgReadAck.client_type q) c) then 0 else 1))
   | Rq_UnreadMsgCountRequest q \<Rightarrow> (\<exists>w. r = Reply (Rs_UnreadMsgCountResponse w) \<and>
       UnreadMsgCountResponse.to_user_id w = UnreadMsgCountRequest.user_id q \<and>
       unread_pairs (UnreadMsgCountResponse.user_unread_list w) =
         unread_entries (UnreadMsgCountRequest.user_id q) (UnreadMsgCountRequest.client_type q) c)
   | Rq_UnreadMsgRequest q \<Rightarrow> (\<exists>w. r = Reply (Rs_MsgListResponse w) \<and> MsgListResponse.msg_list w = [])
   | Rq_GroupUnreadMsgCountRequest q \<Rightarrow> (\<exists>w. r = Reply (Rs_GroupUnreadMsgCountResponse w) \<and>
       list_all (\<lambda>e. GroupUnreadMsgCount.unread_msg_count e = 0) (GroupUnreadMsgCountResponse.group_unread_list w))
   | Rq_GroupUnreadMsgRequest q \<Rightarrow>
       (\<exists>w. r = Reply (Rs_GroupMsgListResponse w) \<and> GroupMsgListResponse.msg_list w = [])
   | Rq_GroupMsgReadAck q \<Rightarrow> (\<exists>w. r = Reply (Rs_DBWriteResponse w) \<and> DBWriteResponse.result w = 0)
   | _ \<Rightarrow> True)"

text \<open>A handler, started by a thread on counters without groups, sends one message that says what the
  counters say, and changes them by the events of the exchange.\<close>

definition exchanges :: "nat option \<Rightarrow> u64 \<Rightarrow> request \<Rightarrow> ('w, 'z, int option) server_prog \<Rightarrow> bool" where
  "exchanges ctx sid m p \<longleftrightarrow> (ctx \<noteq> None \<longrightarrow> (\<forall>s. cache_reachable (cache s) \<longrightarrow>
     (\<exists>r. outbox (snd (run_state p s)) = outbox s @ [(sid, r)] \<and> answer_from_cache (cache s) m r \<and>
        cache (snd (run_state p s)) = fold counter_step (exchange_events m r) (cache s))))"

lemma exchanges_quiet:
  assumes "sends_one ctx sid P p" "preserves cache p"
    and "\<And>c r. P r \<Longrightarrow> answer_from_cache c m r" "\<And>r. exchange_events m r = []"
  shows "exchanges ctx sid m p"
  using assms unfolding exchanges_def sends_one_def preserves_def
  by (metis fold_simps(1))

lemma exchanges_result:
  "exchanges ctx sid m p \<Longrightarrow> exchanges ctx sid m (p \<bind> (\<lambda>rc. return (map_option f rc)))"
  by (simp add: exchanges_def case_prod_unfold)

text \<open>A message that is made from what a program returns.\<close>

lemma exchanges_after:
  assumes "preserves outbox p" "\<And>x. serializable (f x)"
    and "\<And>s. cache_reachable (cache s) \<Longrightarrow> answer_from_cache (cache s) m (f (fst (run_state p s))) \<and>
      cache (snd (run_state p s)) = fold counter_step (exchange_events m (f (fst (run_state p s)))) (cache s)"
  shows "exchanges ctx sid m (p \<bind> (\<lambda>x. SendSessionData ctx sid (f x)))"
    "exchanges ctx sid m (p \<bind> (\<lambda>x. SendSessionData_checked ctx sid (f x)))"
  using assms
  by (auto simp: exchanges_def SendSessionData_def SendSessionData_checked_def case_prod_unfold preserves_def)

lemma exchanges_after_prod:
  assumes "preserves outbox p" "\<And>x y. serializable (f x y)"
    and "\<And>s x y s'. cache_reachable (cache s) \<Longrightarrow> run_state p s = ((x, y), s') \<Longrightarrow>
      answer_from_cache (cache s) m (f x y) \<and>
      cache s' = fold counter_step (exchange_events m (f x y)) (cache s)"
  shows "exchanges ctx sid m (p \<bind> (\<lambda>(x, y). SendSessionData ctx sid (f x y)))"
  unfolding case_prod_unfold
  by (rule exchanges_after(1) [OF assms(1,2)]) (metis assms(3) prod.collapse)

lemma exchanges_bind:
  assumes "preserves outbox p" "preserves cache p" "\<And>x. exchanges ctx sid m (q x)"
  shows "exchanges ctx sid m (p \<bind> q)"
  unfolding exchanges_def
proof (intro impI allI)
  fix s :: "('a, 'b) server_state_scheme"
  assume ctx: "ctx \<noteq> None" "cache_reachable (cache s)"
  obtain x s' where ps: "run_state p s = (x, s')" by fastforce
  with assms(1,2) have "outbox s' = outbox s" "cache s' = cache s"
    unfolding preserves_def by (metis snd_conv)+
  with assms(3) [of x] ctx show "\<exists>r. outbox (snd (run_state (p \<bind> q) s)) = outbox s @ [(sid, r)] \<and>
      answer_from_cache (cache s) m r \<and>
      cache (snd (run_state (p \<bind> q) s)) = fold counter_step (exchange_events m r) (cache s)"
    unfolding exchanges_def by (simp add: ps) metis
qed

lemma exchanges_bind_prod:
  assumes "preserves outbox p" "preserves cache p" "\<And>x y. exchanges ctx sid m (q x y)"
  shows "exchanges ctx sid m (p \<bind> (\<lambda>(x, y). q x y))"
  using assms by (intro exchanges_bind) auto

lemma exchanges_deref:
  "attach_data_type req = kAttachDataTypeDB \<Longrightarrow> (\<And>x. exchanges ctx sid m (k x)) \<Longrightarrow>
   exchanges ctx sid m (deref (GetAttachData req) k)"
  by (simp add: deref_def GetAttachData_def HasAttachData_def)

subsection \<open>The handlers that touch the counters\<close>

lemma MsgData_send_counters:
  "cache (snd (run_state (MsgData_send E req) s)) =
     (if fst (run_state (MsgData_send E req) s) \<and> uint (MsgData.msg_type req) = MESSAGE_TYPE_IM
      then counter_step (MsgSent (MsgData.from_user_id req) (MsgData.to_user_id req)) (cache s) else cache s)"
  by (simp add: zr.SendIMMessage_counters [unfolded counts_success_def, rule_format] MsgData_send_def Let_def
      message_counted_def SendAudioMessage_def SendIMGroupMessage_def)

lemma MsgData_exchanges:
  "exchanges ctx sid (Rq_MsgData req) (MsgDataHandler_Execute E H ctx sid req)"
  unfolding MsgDataHandler_Execute_def Let_def
proof (rule exchanges_after(2), goal_cases)
  case 1
  show ?case by (intro conns_intros)
next
  case (3 s)
  then show ?case
    by (auto simp: MsgData_send_counters answer_from_cache_def exchange_events_def)
qed (simp add: serializable_def)

lemma MsgReadAck_exchanges:
  "exchanges ctx sid (Rq_MsgReadAck req) (MsgReadAckHandler_Execute E H ctx sid req)"
  unfolding exchanges_def MsgReadAckHandler_Execute_def Let_def
  by (auto simp: SendSessionData_def serializable_def answer_from_cache_def exchange_events_def
      DeleteUserReadedDialogMessages_def)

text \<open>Copying the entries into an empty map keeps them as they are.\<close>

lemma valid_take: "std_valid m \<Longrightarrow> std_valid (take n m)"
  by (simp add: std_valid_def take_map [symmetric] sorted_wrt_take)

lemma copy_unread_valid: "std_valid m \<Longrightarrow> copy_unread m 0 [] = take 300 m"
proof -
  assume m: "std_valid m"
  let ?f = "fold (\<lambda>(k, v). std_insert k v) (take 300 m) []"
  have "std_valid ?f"
    by (rule std.valid_fold) (auto simp: std_insert_new)
  moreover have "std_find k ?f = std_find k (take 300 m)" for k
    using std.find_fold_insert [of k "take 300 m" "[]"]
    by (simp add: std_insert_new std_find_def [of _ "take 300 m"])
  ultimately have "?f = take 300 m"
    using std.entries_determined [OF _ valid_take [OF m]] by blast
  then show ?thesis by (simp add: copy_unread_eq)
qed

lemma GetUnreadMsgCount_entries:
  assumes "cache_ok c"
  shows "Counter.unread_count (snd (GetUnreadMsgCount u t (local_Counter H) c)) = unread_entries u t c"
  using FindUnreadCount_valid [OF assms]
  by (auto simp: GetUnreadMsgCount_def unread_entries_def local_Counter_def copy_unread_valid
      split: option.split)

lemma fold_unread_list:
  "UnreadMsgCountResponse.user_unread_list (fold (\<lambda>(uid, n) r. r\<lparr>UnreadMsgCountResponse.user_unread_list :=
      UnreadMsgCountResponse.user_unread_list r @ [e uid n]\<rparr>) es r) =
     UnreadMsgCountResponse.user_unread_list r @ map (\<lambda>(uid, n). e uid n) es"
  "UnreadMsgCountResponse.to_user_id (fold (\<lambda>(uid, n) r. r\<lparr>UnreadMsgCountResponse.user_unread_list :=
      UnreadMsgCountResponse.user_unread_list r @ [e uid n]\<rparr>) es r) = UnreadMsgCountResponse.to_user_id r"
  by (induction es arbitrary: r) auto

lemma unread_pairs_entries:
  "unread_pairs (map (\<lambda>(uid, n). e\<lparr>UserUnreadMsgCount.from_user_id := uid,
     UserUnreadMsgCount.unread_msg_count := n\<rparr>) es) = es"
  by (induction es) (auto simp: unread_pairs_def)

lemma UnreadMsgCount_exchanges:
  assumes "attach_data_type req = kAttachDataTypeDB"
  shows "exchanges ctx sid (Rq_UnreadMsgCountRequest req) (UnreadMsgCountRequestHandler_Execute E H ctx sid req)"
  unfolding UnreadMsgCountRequestHandler_Execute_def Let_def
proof (rule exchanges_deref [OF assms], rule exchanges_after_prod, goal_cases)
  case (3 x s found counter s')
  then show ?case
    using GetUnreadMsgCount_entries [OF cache_reachable_ok [OF 3(1)],
        of "UnreadMsgCountRequest.user_id req" "UnreadMsgCountRequest.client_type req" H]
    by (auto simp: answer_from_cache_def exchange_events_def fold_unread_list SetAttachData_def
        UnreadMsgCountResponse_ctor_def unread_pairs_entries)
qed (simp_all add: serializable_def conns_intros)


text \<open>What the other handlers call leaves the counters as they are.\<close>

lemma preserves_cache_send [conns_intros]:
  "preserves cache (SendSessionData ctx sid r)" "preserves cache (SendSessionData_checked ctx sid r)"
  "(\<And>x. preserves cache (k x)) \<Longrightarrow> preserves cache (deref a k)"
  "preserves cache (with_cache (\<lambda>c. (f c, c)))"
  by (auto simp: SendSessionData_def SendSessionData_checked_def deref_def preserves_def
    split: option.split)

lemma preserves_cache_managers [conns_intros]:
  "preserves cache (GetRecentContactByUserId E u l fs)"
  "preserves cache (DeleteRecentContactByUserId E u f)"
  "preserves cache (GetUserInfo_by_ids E us is)"
  "preserves cache (GetUserInfo_by_name E n i)"
  "preserves cache (GetAllUserInfo E is)"
  "preserves cache (GetDepartmentInfos E ds)"
  "preserves cache (Auth E n p)"
  "preserves cache (GetUserFiles E u files)"
  "preserves cache (SaveFileRecord E u v t p k)"
  "preserves cache (DeleteFileRecord E t)"
  "preserves cache (GetFileRecord E t f1)"
  "preserves cache (GetGroupsByUserId E u b gs)"
  "preserves cache (GetGroupIdsByUserId E u b ids)"
  "preserves cache (GetGroupMembers_map E ids m)"
  "preserves cache (GetGroupMembers E g ms)"
  "preserves cache (GetGroupInfo E g i1)"
  "preserves cache (GetRecentGroupsByUserId E u gs)"
  "preserves cache (JoinGroup E ids g i1)"
  "preserves cache (QuitGroup E u ids g i1)"
  "preserves cache (CreateGroup E u n k av de ids i1)"
  by (rule preserves_more_cache, rule conns_intros)+

lemma preserves_cache_messages [conns_intros]:
  "preserves cache (GetMessages E (zares_relationship E) a b i k ms)"
  "preserves cache (GetDialogMessages a b i k ms)"
  "preserves cache (GetGroupMessages g i k gs)"
  "preserves cache (GetGroupMessagesFromId g i k gs)"
  by (simp add: zr.GetMessages_counters)
    (simp_all add: GetDialogMessages_def GetGroupMessages_def GetGroupMessagesFromId_def preserves_def)

lemma UnreadMsg_exchanges:
  assumes "attach_data_type req = kAttachDataTypeDB"
  shows "exchanges ctx sid (Rq_UnreadMsgRequest req) (UnreadMsgRequestHandler_Execute E H ctx sid req)"
proof -
  let ?empty = "\<lambda>r. \<exists>m. r = Reply (Rs_MsgListResponse m) \<and> MsgListResponse.msg_list m = []"
  have "sends_one ctx sid ?empty (UnreadMsgRequestHandler_Execute E H ctx sid req)"
    unfolding UnreadMsgRequestHandler_Execute_def Let_def
    apply (rule sends_one_deref, simp add: GetAttachData_def HasAttachData_def assms)
    apply (rule sends_one_bind, intro conns_intros)
    apply (rule sends_one_then [where Q = "\<lambda>r. MsgListResponse.msg_list r = []"], intro conns_intros)
    by (auto simp: serializable_def MsgListResponse_ctor_def SetAttachData_def yields_def
        case_prod_unfold BaseTeamTalkPDU_ctor_def GetMessages_nothing intro!: sends_one_send)
  moreover have "preserves cache (UnreadMsgRequestHandler_Execute E H ctx sid req)"
    unfolding UnreadMsgRequestHandler_Execute_def Let_def
    by (intro conns_intros)
  ultimately show ?thesis
    by (rule exchanges_quiet) (auto simp: answer_from_cache_def exchange_events_def)
qed


subsection \<open>Groups\<close>

lemma GetUserGroupUnreadCount_zero:
  assumes "cache_reachable c"
  shows "list_all (\<lambda>(g, n). n = 0) (snd (GetUserGroupUnreadCount u gs t [] c))"
proof -
  have "list_all (\<lambda>(g, n). n = 0) (std_assign g 0 m)"
    if "list_all (\<lambda>(g, n). n = 0) m" for g and m :: "(u32, u32) std_map"
    using that by (induction m rule: std_assign.induct [of _ g 0]) auto
  then have "list_all (\<lambda>(g, n). n = 0) (fold (\<lambda>g m. std_insert g 0 m) gs m)"
    if "list_all (\<lambda>(g, n). n = 0) m" for m :: "(u32, u32) std_map"
    using that by (induction gs arbitrary: m) (auto simp: std_insert_def split: option.split)
  from this [of "[]"] show ?thesis
    by (simp add: GetUserGroupUnreadCount_def Let_def
        GetUserGroupCount_no_groups [OF cache_reachable_no_groups [OF assms]])
qed

lemma fold_group_unread_list:
  "GroupUnreadMsgCountResponse.group_unread_list (fold (\<lambda>(gid, n) r. r\<lparr>GroupUnreadMsgCountResponse.group_unread_list :=
      GroupUnreadMsgCountResponse.group_unread_list r @ [e gid n]\<rparr>) es r) =
     GroupUnreadMsgCountResponse.group_unread_list r @ map (\<lambda>(gid, n). e gid n) es"
  by (induction es arbitrary: r) auto

lemma GroupUnreadMsgCount_exchanges:
  assumes "attach_data_type req = kAttachDataTypeDB"
  shows "exchanges ctx sid (Rq_GroupUnreadMsgCountRequest req)
    (GroupUnreadMsgCountRequestHandler_Execute E H ctx sid req)"
  unfolding GroupUnreadMsgCountRequestHandler_Execute_def Let_def
proof (rule exchanges_deref [OF assms], rule exchanges_bind_prod, goal_cases)
  case (3 attach n gs)
  show ?case
  proof (rule exchanges_after_prod, goal_cases)
    case (3 s k unreads s')
    then show ?case
      using GetUserGroupUnreadCount_zero [OF 3(1), of "GroupUnreadMsgCountRequest.req_user_id req" gs
          "GroupUnreadMsgCountRequest.client_type req"]
      by (auto simp: answer_from_cache_def exchange_events_def fold_group_unread_list SetAttachData_def
          GroupUnreadMsgCountResponse_ctor_def list_all_iff)
  qed (simp_all add: serializable_def conns_intros)
qed (intro conns_intros)+

lemma GroupUnreadMsg_exchanges:
  assumes "attach_data_type req = kAttachDataTypeDB"
  shows "exchanges ctx sid (Rq_GroupUnreadMsgRequest req) (GroupUnreadMsgRequestHandler_Execute E H ctx sid req)"
  unfolding GroupUnreadMsgRequestHandler_Execute_def Let_def
proof (rule exchanges_deref [OF assms], rule exchanges_bind, goal_cases)
  case (3 attach item)
  show ?case
    by (rule exchanges_after_prod)
      (auto simp: serializable_def conns_intros answer_from_cache_def exchange_events_def
        GetGroupMessagesFromId_def GroupMsgListResponse_ctor_def SetAttachData_def)
qed (intro conns_intros)+

lemma GroupMsgReadAck_exchanges:
  "exchanges ctx sid (Rq_GroupMsgReadAck req) (GroupMsgReadAckHandler_Execute E H ctx sid req)"
  unfolding GroupMsgReadAckHandler_Execute_def Let_def
proof (rule exchanges_after(1), goal_cases)
  case (3 s)
  then show ?case
    by (auto dest!: cache_reachable_no_groups simp: ClearUserGroupCounter_def FindCounterAndLastIDs_def
        std_find_def answer_from_cache_def exchange_events_def)
qed (simp_all add: serializable_def conns_intros)


subsection \<open>Every request\<close>

lemma quiet_handlers:
  "preserves cache (ValidateRequestHandler_Execute E H ctx sid r1)"
  "preserves cache (FriendListRequestHandler_Execute E H ctx sid r2)"
  "preserves cache (RemoveSessionRequestHandler_Execute E H ctx sid r3)"
  "preserves cache (DepartmentRequestHandler_Execute E H ctx sid r4)"
  "preserves cache (UsersInfoRequestHandler_Execute E H ctx sid r5)"
  "preserves cache (AllUserRequestHandler_Execute E H ctx sid r6)"
  "preserves cache (GroupListRequestHandler_Execute E H ctx sid r7)"
  "preserves cache (GroupUserListRequestHandler_Execute E H ctx sid r8)"
  "preserves cache (GroupHistoryMsgRequestHandler_Execute E H ctx sid r9)"
  "preserves cache (GroupCreateTmpGroupRequestHandler_Execute E H ctx sid r10)"
  "preserves cache (GroupChangeMemberRequestHandler_Execute E H ctx sid r11)"
  "preserves cache (GroupDialogListRequestHandler_Execute E H ctx sid r12)"
  "preserves cache (FileHasOfflineReqHandler_Execute E H ctx sid r13)"
  "preserves cache (FileAddOfflineReqHandler_Execute E H ctx sid r14)"
  "preserves cache (FileDelOfflineReqHandler_Execute E H ctx sid r15)"
  unfolding ValidateRequestHandler_Execute_def FriendListRequestHandler_Execute_def
    RemoveSessionRequestHandler_Execute_def DepartmentRequestHandler_Execute_def
    UsersInfoRequestHandler_Execute_def AllUserRequestHandler_Execute_def
    GroupListRequestHandler_Execute_def GroupUserListRequestHandler_Execute_def
    GroupHistoryMsgRequestHandler_Execute_def GroupCreateTmpGroupRequestHandler_Execute_def
    GroupChangeMemberRequestHandler_Execute_def GroupDialogListRequestHandler_Execute_def
    FileHasOfflineReqHandler_Execute_def FileAddOfflineReqHandler_Execute_def
    FileDelOfflineReqHandler_Execute_def members_of_groups_def Let_def
  by (intro conns_intros)+

lemma execute_exchanges:
  assumes "request_ok m"
  shows "exchanges ctx sid m (execute_handler (handler_for (request_class_of m)) E H ctx sid m)"
    (is "exchanges _ _ _ ?p")
proof (cases "request_class_of m \<in> {Class_MsgData, Class_MsgReadAck, Class_UnreadMsgCountRequest,
    Class_UnreadMsgRequest, Class_GroupUnreadMsgCountRequest, Class_GroupUnreadMsgRequest,
    Class_GroupMsgReadAck}")
  case True
  with assms show ?thesis
    by (cases m) (simp_all add: request_ok_def pdu_kind_def MsgData_exchanges MsgReadAck_exchanges
      UnreadMsgCount_exchanges UnreadMsg_exchanges GroupUnreadMsgCount_exchanges GroupUnreadMsg_exchanges
      GroupMsgReadAck_exchanges)
next
  case False
  then have "preserves cache ?p" by (cases m) (simp_all add: quiet_handlers)
  moreover have "answer_from_cache c m r" "exchange_events m r = []" for c r
    using False by (cases m; simp add: answer_from_cache_def exchange_events_def)+
  ultimately show ?thesis
    using exchanges_quiet [OF execute_replies [OF assms]] by blast
qed

lemma dispatch_exchanges:
  assumes "request_ok m" "request_class_of m \<noteq> Class_GroupHistoryMsgRequest"
  shows "exchanges ctx sid m (DispatchMessageHandler E H ctx sid m)"
  unfolding dispatch_request [OF assms] by (rule exchanges_result [OF execute_exchanges [OF assms(1)]])


subsection \<open>Answers and the history\<close>

text \<open>What the list of unread counts of a user says: friends in increasing order, at most 300, each with
  the number of messages since the last acknowledgement, as a \<^verbatim>\<open>uint32\<close>; and if it is shorter than that, no
  friend with unread messages is left out.\<close>

definition unread_list_says :: "counter_event list \<Rightarrow> u32 \<Rightarrow> u32 \<Rightarrow> (u32 \<times> u32) list \<Rightarrow> bool" where
  "unread_list_says es u t l \<longleftrightarrow> length l \<le> 300 \<and> sorted_wrt (<) (map fst l) \<and>
     (\<forall>(f, n) \<in> set l. f \<noteq> 0 \<and> n = of_nat (unread_since_read u f t es)) \<and>
     (length l < 300 \<longrightarrow> (\<forall>f. u \<noteq> 0 \<and> f \<noteq> 0 \<and> (of_nat (unread_since_read u f t es) :: u32) \<noteq> 0 \<longrightarrow>
        f \<in> fst ` set l))"

text \<open>The answer to a request, given the history.\<close>

definition answer_says :: "counter_event list \<Rightarrow> request \<Rightarrow> reply \<Rightarrow> bool" where
  "answer_says es m r = (case m of
     Rq_MsgData q \<Rightarrow> (\<exists>w. r = Reply (Rs_DBWriteResponse w) \<and> DBWriteResponse.result w \<in> {0, 1} \<and>
       (MsgData_invalid q \<longrightarrow> DBWriteResponse.result w = 1))
   | Rq_MsgReadAck q \<Rightarrow> (\<exists>w. r = Reply (Rs_DBWriteResponse w) \<and> DBWriteResponse.result w =
       (if has_sent (MsgReadAck.from_user_id q) es \<and> MsgReadAck.to_user_id q \<noteq> 0 then 0 else 1))
   | Rq_UnreadMsgCountRequest q \<Rightarrow> (\<exists>w. r = Reply (Rs_UnreadMsgCountResponse w) \<and>
       UnreadMsgCountResponse.to_user_id w = UnreadMsgCountRequest.user_id q \<and>
       unread_list_says es (UnreadMsgCountRequest.user_id q) (UnreadMsgCountRequest.client_type q)
         (unread_pairs (UnreadMsgCountResponse.user_unread_list w)))
   | Rq_UnreadMsgRequest q \<Rightarrow> (\<exists>w. r = Reply (Rs_MsgListResponse w) \<and> MsgListResponse.msg_list w = [])
   | Rq_GroupUnreadMsgCountRequest q \<Rightarrow> (\<exists>w. r = Reply (Rs_GroupUnreadMsgCountResponse w) \<and>
       list_all (\<lambda>e. GroupUnreadMsgCount.unread_msg_count e = 0) (GroupUnreadMsgCountResponse.group_unread_list w))
   | Rq_GroupUnreadMsgRequest q \<Rightarrow>
       (\<exists>w. r = Reply (Rs_GroupMsgListResponse w) \<and> GroupMsgListResponse.msg_list w = [])
   | Rq_GroupMsgReadAck q \<Rightarrow> (\<exists>w. r = Reply (Rs_DBWriteResponse w) \<and> DBWriteResponse.result w = 0)
   | _ \<Rightarrow> True)"

lemma unread_entries_says:
  assumes "has_history es c"
  shows "unread_list_says es u t (unread_entries u t c)"
proof (cases "u = 0 \<or> FindUnreadCount u t c = None")
  case True
  then have "unread_entries u t c = []" by (auto simp: unread_entries_def)
  moreover have "(of_nat (unread_since_read u f t es) :: u32) = 0" if "u \<noteq> 0" "f \<noteq> 0" for f
    using has_history_unread [OF assms that, of t] True that by (simp add: unread_at_def)
  ultimately show ?thesis by (auto simp: unread_list_says_def)
next
  case False
  then obtain m where m: "FindUnreadCount u t c = Some m" and u: "u \<noteq> 0" by auto
  have ok: "std_valid m" using FindUnreadCount_valid [OF has_history_ok [OF assms] m] .
  have entry: "f \<noteq> 0 \<and> n = of_nat (unread_since_read u f t es)" if "(f, n) \<in> set m" for f n
  proof -
    have n: "std_find f m = Some n" using that std.set_entries [OF ok] by simp
    then have f: "f \<noteq> 0" using has_history_no_zero [OF assms m] by auto
    with has_history_unread [OF assms u f, of t] n show ?thesis by (simp add: unread_at_def m)
  qed
  have "f \<in> fst ` set m" if "f \<noteq> 0" "(of_nat (unread_since_read u f t es) :: u32) \<noteq> 0" for f
  proof -
    from has_history_unread [OF assms u that(1), of t] that(2) obtain n where "std_find f m = Some n"
      by (auto simp: unread_at_def m split: option.splits)
    then show ?thesis using std.set_entries [OF ok] by force
  qed
  moreover have "unread_entries u t c = take 300 m" by (simp add: unread_entries_def u m)
  moreover have "sorted_wrt (<) (map fst (take 300 m))" using valid_take [OF ok] by (simp add: std_valid_def)
  moreover have "take 300 m = m" if "length (take 300 m) < 300" using that by simp
  ultimately show ?thesis
    using entry by (fastforce simp: unread_list_says_def dest: in_set_takeD)
qed

lemma cleared_history:
  "has_history es c \<Longrightarrow> fst (ClearUserUnreadItemCount u f t c) \<longleftrightarrow> has_sent u es \<and> f \<noteq> 0"
  using has_history_map [of es c u t]
  by (auto simp: ClearUserUnreadItemCount_def has_sent_def split: option.splits)

lemma answer_says_history: "has_history es c \<Longrightarrow> answer_from_cache c m r \<Longrightarrow> answer_says es m r"
  by (cases m) (auto simp: answer_from_cache_def answer_says_def cleared_history unread_entries_says)


subsection \<open>The server with a history\<close>

text \<open>What the server promises: queues of packets, the list of what was sent, and the history of messages
  sent and read. The first packet of a queue is answered from the history, and the exchange becomes
  part of it.\<close>

record 'p chat_server = "'p queue_server" +
  history :: "counter_event list"

definition says :: "('p, 'q) net_env \<Rightarrow> counter_event list \<Rightarrow> u64 \<times> 'p \<Rightarrow> u64 \<times> reply \<Rightarrow> bool" where
  "says N es = (\<lambda>(sid, p) (sid', r). is_answer N (sid, p) (sid', r) \<and>
     (\<forall>m. ParseMessagePDUFromNetPacker N p = Some m \<longrightarrow> answer_says es m r))"

definition adds :: "('p, 'q) net_env \<Rightarrow> u64 \<times> 'p \<Rightarrow> u64 \<times> reply \<Rightarrow> counter_event list" where
  "adds N = (\<lambda>(sid, p) (sid', r).
     case ParseMessagePDUFromNetPacker N p of None \<Rightarrow> [] | Some m \<Rightarrow> exchange_events m r)"

inductive chat_step ::
  "('p, 'q) net_env \<Rightarrow> 'p chat_server \<Rightarrow> 'p event \<Rightarrow> 'p chat_server \<Rightarrow> bool" for N where
  chat_join: "has_handler N p \<Longrightarrow> i < length (queues a) \<Longrightarrow>
    chat_step N a (Received sid p (Some i)) (a\<lparr>queues := (queues a)[i := queues a ! i @ [(sid, p)]]\<rparr>)"
| chat_pass: "\<not> has_handler N p \<Longrightarrow> chat_step N a (Received sid p None) a"
| chat_serve: "i < length (queues a) \<Longrightarrow> queues a ! i = (sid, p) # rest \<Longrightarrow> answered N (sid, p) \<Longrightarrow>
    says N (history a) (sid, p) r \<Longrightarrow>
    chat_step N a (Handled i sid p) (a\<lparr>queues := (queues a)[i := rest], sent := sent a @ [r],
      history := history a @ adds N (sid, p) r\<rparr>)"
| chat_discard: "i < length (queues a) \<Longrightarrow> queues a ! i = (sid, p) # rest \<Longrightarrow> \<not> answered N (sid, p) \<Longrightarrow>
    chat_step N a (Handled i sid p) (a\<lparr>queues := (queues a)[i := rest]\<rparr>)"

inductive chat_run ::
  "('p, 'q) net_env \<Rightarrow> 'p chat_server \<Rightarrow> 'p event list \<Rightarrow> 'p chat_server \<Rightarrow> bool" for N a where
  chat_init: "chat_run N a [] a"
| chat_next: "chat_run N a tr b \<Longrightarrow> chat_step N b e c \<Longrightarrow> chat_run N a (tr @ [e]) c"

definition as_chat :: "counter_event list \<Rightarrow> ('p, 'q, 'w) zaresd \<Rightarrow> 'p chat_server" where
  "as_chat es s = \<lparr>queues = map tasks (thread_pool (manager s)), sent = outbox (server s), history = es\<rparr>"

lemma OnMessage_exchange:
  assumes N: "parser_ok N" and es: "has_history es (cache s)"
  shows "\<exists>rs. outbox (snd (run_state (OnMessageDataHandler N E H i sid p) s)) = outbox s @ rs \<and>
    list_all2 (says N es) (filter (answered N) [(sid, p)]) rs \<and>
    has_history (es @ concat (map (adds N (sid, p)) rs))
      (cache (snd (run_state (OnMessageDataHandler N E H i sid p) s)))"
proof (cases "ParseMessagePDUFromNetPacker N p")
  case None
  then show ?thesis using es by (simp add: OnMessageDataHandler_def answered_def)
next
  case (Some m)
  with N have ok: "request_ok m" by (simp add: parser_ok_def)
  show ?thesis
  proof (cases "request_class_of m = Class_GroupHistoryMsgRequest")
    case True
    with Some es show ?thesis by (simp add: OnMessageDataHandler_def answered_def dispatch_history [OF ok])
  next
    case False
    let ?s = "snd (run_state (DispatchMessageHandler E H (Some i) sid m) s)"
    from dispatch_exchanges [OF ok False, of "Some i" sid E H] has_history_reachable [OF es] obtain r where
      r: "outbox ?s = outbox s @ [(sid, r)]" "answer_from_cache (cache s) m r"
        "cache ?s = fold counter_step (exchange_events m r) (cache s)"
      by (auto simp: exchanges_def)
    from dispatch_replies [OF ok False, of "Some i" sid E H] obtain r' where
      "outbox ?s = outbox s @ [(sid, r')]" "answer (request_base m) (answer_type (request_class_of m)) r'"
      unfolding sends_one_def by blast
    with r(1) have "answer (request_base m) (answer_type (request_class_of m)) r" by simp
    with Some False r answer_says_history [OF es r(2)] has_history_step [OF es] show ?thesis
      by (simp add: OnMessageDataHandler_def answered_def is_answer_def says_def adds_def)
  qed
qed

lemma chat_step_refines:
  assumes st: "server_step N E s e s'" and ok: "manager_ok (manager s)" and N: "parser_ok N"
    and es: "has_history es (cache (server s))"
  shows "\<exists>es'. chat_step N (as_chat es s) e (as_chat es' s') \<and> has_history es' (cache (server s'))"
proof (cases e)
  case (Received sid p j)
  note st = st [unfolded Received]
  show ?thesis
    using receive_cases' [OF st ok] receive_event [OF st] es
      chat_step.chat_join [of N p _ "as_chat es s" sid] chat_step.chat_pass [of N p "as_chat es s" sid]
    by (intro exI [of _ es]) (auto simp: as_chat_def Received map_update)
next
  case (Handled i sid p)
  let ?pool = "thread_pool (manager s)"
  from st [unfolded Handled] obtain rest H srv where s': "s' = s\<lparr>manager := (manager s)\<lparr>thread_pool :=
        ?pool[i := (?pool ! i)\<lparr>tasks := rest\<rparr>]\<rparr>, server := srv\<rparr>"
    and i: "i < length ?pool" "tasks (?pool ! i) = (sid, p) # rest"
    and run: "run_state (OnMessageDataHandler N E H i sid p) (server s) = (Some 0, srv)"
    by (rule handle_cases)
  from OnMessage_exchange [OF N es, of E H i sid p] run obtain rs where
    out: "outbox srv = outbox (server s) @ rs"
    and rs: "list_all2 (says N es) (filter (answered N) [(sid, p)]) rs"
    and es': "has_history (es @ concat (map (adds N (sid, p)) rs)) (cache srv)" by auto
  have q: "i < length (queues (as_chat es s))" "queues (as_chat es s) ! i = (sid, p) # rest"
    using i by (simp_all add: as_chat_def)
  have new: "as_chat es1 s' = (as_chat es s)\<lparr>queues := (queues (as_chat es s))[i := rest],
      sent := sent (as_chat es s) @ rs, history := es1\<rparr>" for es1
    by (simp add: as_chat_def s' out map_update)
  show ?thesis
  proof (cases "answered N (sid, p)")
    case True
    with rs obtain r where "rs = [r]" "says N es (sid, p) r" by (auto simp: list_all2_Cons1)
    with chat_step.chat_serve [OF q True] new es' show ?thesis
      by (intro exI [of _ "es @ adds N (sid, p) r"]) (simp add: Handled s' as_chat_def)
  next
    case False
    with rs new chat_step.chat_discard [OF q False] es' show ?thesis
      by (intro exI [of _ es]) (simp add: Handled s' as_chat_def)
  qed
qed

lemma chat_run_refines:
  assumes "server_run N E s tr s'" "manager_ok (manager s)" "parser_ok N" "has_history es (cache (server s))"
  shows "\<exists>es'. chat_run N (as_chat es s) tr (as_chat es' s') \<and> has_history es' (cache (server s'))"
  using assms
proof (induction rule: server_run.induct)
  case init
  then show ?case using chat_run.chat_init by blast
next
  case (step tr s' e s'')
  then obtain es' where "chat_run N (as_chat es s) tr (as_chat es' s')" "has_history es' (cache (server s'))"
    by blast
  moreover have "manager_ok (manager s')"
    using run_keeps_inv [OF step.hyps(1) step.prems(1,2)] by (simp add: run_inv_def)
  ultimately show ?case
    using chat_step_refines [OF step.hyps(2) _ step.prems(2)] by (meson chat_run.chat_next)
qed


text \<open>What the abstract server has sent are the answers to what it has handled, and its history is what
  these exchanges add.\<close>

definition history_of :: "('p, 'q) net_env \<Rightarrow> (u64 \<times> 'p) list \<Rightarrow> (u64 \<times> reply) list \<Rightarrow> counter_event list" where
  "history_of N qs rs = concat (map2 (adds N) qs rs)"

lemma chat_run_history:
  assumes "chat_run N a tr b"
  shows "\<exists>rs. sent b = sent a @ rs \<and> list_all2 (is_answer N) (filter (answered N) (all_handled tr)) rs \<and>
    history b = history a @ history_of N (filter (answered N) (all_handled tr)) rs"
  using assms
proof (induction rule: chat_run.induct)
  case chat_init
  then show ?case by (simp add: history_of_def)
next
  case (chat_next tr b e c)
  then obtain rs where rs: "sent b = sent a @ rs"
    "list_all2 (is_answer N) (filter (answered N) (all_handled tr)) rs"
    "history b = history a @ history_of N (filter (answered N) (all_handled tr)) rs" by blast
  have len: "length (filter (answered N) (all_handled tr)) = length rs"
    using rs(2) by (rule list_all2_lengthD)
  from chat_next.hyps(2) show ?case
  proof (cases rule: chat_step.cases)
    case (chat_serve i sid p rest r)
    with rs len show ?thesis
      by (intro exI [of _ "rs @ [r]"])
        (auto simp: says_def history_of_def list_all2_appendI)
  qed (use rs in auto)
qed

end
