(* ===== verification/Server_Properties.thy ===== *)
theory Server_Properties
  imports Wire_Properties Model_Properties Server_History
begin

text \<open>
  The properties of the server that speak of what its answers say: the refinement of the abstract server
  with a history, what follows from it for the counts users are told, packets of arbitrary bytes, the
  answers of endless runs, and the counts of group messages. The witnesses run a server of two threads,
  whose packets are requests, over \<open>demo_env\<close>.
\<close>

subsection \<open>Sample servers\<close>

text \<open>A server of two threads, whose packets are requests, and the parser that the factory and the
  classes make up.\<close>

definition sample_net :: "(request, nat) net_env" where
  "sample_net = \<lparr>packet_type = (\<lambda>m. fst (request_class_kind (request_class_of m))),
     ParseMessagePDUFromNetPacker = (\<lambda>m. if request_ok m \<and>
       request_class_of m \<noteq> Class_GroupHistoryMsgRequest then Some m else None),
     GetNext = (\<lambda>q. (of_nat q, q + 1)), starts = (\<lambda>i. True)\<rparr>"

definition sample_server :: "(request, nat, string list) zaresd" where
  "sample_server = \<lparr>manager = \<lparr>thread_pool =
       map (\<lambda>i. \<lparr>thread_index = i, running = True, timer = True, tasks = []\<rparr>) [0, 1],
     thread_pool_size = 2, next_thread = 0\<rparr>, server = demo_state, synced = []\<rparr>"

lemma sample_ok: "manager_ok (manager sample_server)" "parser_ok sample_net"
proof -
  show "manager_ok (manager sample_server)" by (simp add: sample_server_def manager_ok_def)
  have "(fst (request_class_kind c), c) \<in> set RegisterPDUMessageFactory"
    if "c \<noteq> Class_GroupHistoryMsgRequest" for c
    using that by (cases c) (simp_all add: RegisterPDUMessageFactory_def)
  then show "parser_ok sample_net" by (simp add: parser_ok_def sample_net_def)
qed

lemma sample_run:
  "\<exists>s. server_run sample_net demo_env sample_server [Received 9 sample_ValidateRequest (Some 0)] s \<and>
    tasks (thread_pool (manager s) ! 0) = [(9, sample_ValidateRequest)]"
proof -
  have c: "request_class_of sample_ValidateRequest = Class_ValidateRequest"
    by (simp add: sample_ValidateRequest_def)
  have h: "CheckMessageHandler MESSAGE_VALIDATE_REQUEST"
    using handler_of_class [of Class_ValidateRequest] by (auto simp: CheckMessageHandler_def)
  have "\<exists>s. OnDataReceived sample_net 9 sample_ValidateRequest sample_server = Some (Some 0, s) \<and>
      tasks (thread_pool (manager s) ! 0) = [(9, sample_ValidateRequest)]"
    using h by (simp add: OnDataReceived_def sample_net_def sample_server_def c PostDataToDbHandler_def
        GetNextThread_def DoMessageDataHandler_def)
  then obtain s where s: "OnDataReceived sample_net 9 sample_ValidateRequest sample_server = Some (Some 0, s)"
    "tasks (thread_pool (manager s) ! 0) = [(9, sample_ValidateRequest)]" by blast
  with server_run.step [OF server_run.init server_step.receive [OF s(1)]] show ?thesis by auto
qed

text \<open>A server whose packets are a message type and the bytes of the body.\<close>

definition wire_net :: "(u32 \<times> byte list, nat) net_env" where
  "wire_net = \<lparr>packet_type = fst,
     ParseMessagePDUFromNetPacker = (\<lambda>p. case map_of RegisterPDUMessageFactory (fst p) of
        None \<Rightarrow> None
      | Some c \<Rightarrow> (case request_ParseFromArray (request_new c undefined) array_stream (snd p) of
          (ok, m) \<Rightarrow> if ok then Some m else None)),
     GetNext = (\<lambda>q. (of_nat q, q + 1)), starts = (\<lambda>i. True)\<rparr>"

definition wire_server :: "(u32 \<times> byte list, nat, string list) zaresd" where
  "wire_server = \<lparr>manager = \<lparr>thread_pool =
       map (\<lambda>i. \<lparr>thread_index = i, running = True, timer = True, tasks = []\<rparr>) [0, 1],
     thread_pool_size = 2, next_thread = 0\<rparr>, server = demo_state, synced = []\<rparr>"

lemma wire_net_parser: "wire_parser wire_net array_stream snd (\<lambda>p. undefined)"
  by (simp add: wire_parser_def wire_net_def)

text \<open>A run in which a message is received and stored.\<close>

definition sample_MsgData :: request where
  "sample_MsgData = Rq_MsgData ((MsgData_ctor undefined)\<lparr>MsgData.from_user_id := 1, MsgData.to_user_id := 2,
     MsgData.msg_type := 1, MsgData.msg_data := ''hi''\<rparr>)"

abbreviation (input) sample_chat :: "request event list" where
  "sample_chat \<equiv> [Received 9 sample_MsgData (Some 0), Handled 0 9 sample_MsgData]"

lemma sample_MsgData_ok:
  "request_ok sample_MsgData" "request_class_of sample_MsgData = Class_MsgData"
  "ParseMessagePDUFromNetPacker sample_net sample_MsgData = Some sample_MsgData"
  by (simp_all add: sample_MsgData_def sample_net_def request_ok_def pdu_kind_def MsgData_ctor_def
      BaseTeamTalkPDU_ctor_def)

lemma sample_chat_run:
  "\<exists>s r. server_run sample_net demo_env sample_server sample_chat s \<and>
    outbox (server s) = [(9, Reply (Rs_DBWriteResponse r))] \<and> DBWriteResponse.result r = 0"
proof -
  have h: "CheckMessageHandler MESSAGE_MSG_DATA"
    using handler_of_class [of Class_MsgData] by (auto simp: CheckMessageHandler_def)
  have "\<exists>s. OnDataReceived sample_net 9 sample_MsgData sample_server = Some (Some 0, s) \<and>
      0 < length (thread_pool (manager s)) \<and> running (thread_pool (manager s) ! 0) \<and>
      tasks (thread_pool (manager s) ! 0) = [(9, sample_MsgData)] \<and> server s = demo_state"
    using h sample_MsgData_ok(2) by (simp add: OnDataReceived_def sample_net_def sample_server_def PostDataToDbHandler_def
        GetNextThread_def DoMessageDataHandler_def)
  then obtain s where s: "OnDataReceived sample_net 9 sample_MsgData sample_server = Some (Some 0, s)"
    "0 < length (thread_pool (manager s))" "running (thread_pool (manager s) ! 0)"
    "tasks (thread_pool (manager s) ! 0) = [(9, sample_MsgData)]" "server s = demo_state" by blast
  have g: "g_message_handlers 458892 = Some MsgDataHandler"
    using handler_of_class [of Class_MsgData] by simp
  obtain r srv where srv: "run_state (OnMessageDataHandler sample_net demo_env demo_handler_env 0 9 sample_MsgData) demo_state =
      (Some 0, srv)" "outbox srv = [(9, Reply (Rs_DBWriteResponse r))]" "DBWriteResponse.result r = 0"
    unfolding OnMessageDataHandler_def sample_MsgData_ok(3)
    by (simp add: DispatchMessageHandler_def sample_MsgData_def MsgData_ctor_def BaseTeamTalkPDU_ctor_def g
        MsgDataHandler_Execute_def MsgData_invalid_def MsgData_send_def SendIMMessage_def
        zares_relationship_def CheckAndUpdateRelation_def GetRelateId_def run_ScopedPtr Query_def DbExecute_def
        NowMSTime_def Let_def demo_env_def demo_state_def IncrCounterForNewMessage_def
        SendSessionData_checked_def SendSessionData_def serializable_def)
  show ?thesis
    using server_run.step [OF server_run.step [OF server_run.init server_step.receive [OF s(1)]]
        server_step.handle [OF s(2) refl s(3,4), unfolded s(5), OF srv(1)]] srv by auto
qed

subsection \<open>The server and its history\<close>

text \<open>C2: The server implements a chat service without handlers, database, cache and pool: queues of packets and
  the history of messages sent and read. Every run from an empty cache is a run of that service, in
  which the first packet of a queue is answered from the history (an acknowledgement by whether the
  user has sent a message, a request for counts by the numbers of messages since the last
  acknowledgement) and a stored message or an acknowledgement becomes part of it; and the next handling
  step of the service is always possible in the server.\<close>

theorem server_refines_chat:
  assumes "server_run N E s tr s'" "manager_ok (manager s)" "parser_ok N"
    and "cache (server s) = CacheManager_new"
  shows "\<exists>es. chat_run N (as_chat [] s) tr (as_chat es s') \<and>
    (\<forall>i sid p a. chat_step N (as_chat es s') (Handled i sid p) a \<longrightarrow>
       (\<exists>s''. server_step N E s' (Handled i sid p) s''))"
proof -
  have ok: "manager_ok (manager s')" using run_keeps_inv [OF assms(1-3)] by (simp add: run_inv_def)
  have "\<exists>s''. server_step N E s' (Handled i sid p) s''"
    if "chat_step N (as_chat es s') (Handled i sid p) a" for es i sid p a
  proof -
    from that obtain rest where "i < length (thread_pool (manager s'))"
      "tasks (thread_pool (manager s') ! i) = (sid, p) # rest"
      by (cases rule: chat_step.cases) (auto simp: as_chat_def)
    with handle_total [OF ok assms(3)] show ?thesis by blast
  qed
  with chat_run_refines [OF assms(1-3), of "[]"] assms(4) show ?thesis
    by (auto simp: has_history_new)
qed

theorem server_refines_chat_witness:
  "\<exists>a. chat_run sample_net \<lparr>queues = [[], []], sent = [], history = []\<rparr> sample_chat a"
proof -
  obtain s where run: "server_run sample_net demo_env sample_server sample_chat s"
    using sample_chat_run by blast
  have "as_chat [] sample_server = \<lparr>queues = [[], []], sent = [], history = []\<rparr>"
    "cache (server sample_server) = CacheManager_new"
    by (simp_all add: as_chat_def sample_server_def demo_state_def)
  with server_refines_chat [OF run sample_ok] show ?thesis by auto
qed

lemma sample_history:
  assumes "DBWriteResponse.result r = 0"
  shows "history_of sample_net (filter (answered sample_net) (all_handled sample_chat))
    [(9, Reply (Rs_DBWriteResponse r))] = [MsgSent 1 2]"
  using sample_MsgData_ok(2) assms
  by (simp add: all_handled_def answered_def sample_MsgData_ok(3) history_of_def adds_def
      exchange_events_def) (simp add: sample_MsgData_def MsgData_ctor_def)

text \<open>C3: The unread counts of the server are those its exchanges determine, over any run from an empty cache:
  the count kept for a user, a friend and a client type is, as a \<^verbatim>\<open>uint32\<close>, the number of text messages of
  the pair that were answered with result 0 since the pair was last acknowledged by a client that
  shares the map, whatever other requests were handled and however the tasks were spread over threads.\<close>

theorem server_counts_messages:
  assumes "server_run N E s tr s'" "manager_ok (manager s)" "parser_ok N"
    and "cache (server s) = CacheManager_new"
  shows "\<exists>rs. outbox (server s') = outbox (server s) @ rs \<and>
    list_all2 (is_answer N) (filter (answered N) (all_handled tr)) rs \<and>
    (\<forall>u f t. GetUserFriendUnreadCount u f t (cache (server s')) =
       (if u = 0 \<or> f = 0 then 0
        else unread_since_read u f t (history_of N (filter (answered N) (all_handled tr)) rs) mod 2 ^ 32))"
proof -
  from chat_run_refines [OF assms(1-3), of "[]"] assms(4) obtain es where
    run: "chat_run N (as_chat [] s) tr (as_chat es s')" and es: "has_history es (cache (server s'))"
    by (auto simp: has_history_new)
  from chat_run_history [OF run] obtain rs where
    rs: "outbox (server s') = outbox (server s) @ rs"
      "list_all2 (is_answer N) (filter (answered N) (all_handled tr)) rs"
      "es = history_of N (filter (answered N) (all_handled tr)) rs"
    by (auto simp: as_chat_def)
  with has_history_unread [OF es] show ?thesis
    by (intro exI [of _ rs]) (auto simp: GetUserFriendUnreadCount_eq unat_of_nat take_bit_eq_mod)
qed

theorem server_counts_messages_witness:
  "\<exists>s. server_run sample_net demo_env sample_server sample_chat s \<and>
    GetUserFriendUnreadCount 1 2 17 (cache (server s)) = 1"
proof -
  obtain s r where run: "server_run sample_net demo_env sample_server sample_chat s"
    and r: "outbox (server s) = [(9, Reply (Rs_DBWriteResponse r))]" "DBWriteResponse.result r = 0"
    using sample_chat_run by blast
  have "cache (server sample_server) = CacheManager_new" "outbox (server sample_server) = []"
    by (simp_all add: sample_server_def demo_state_def)
  with server_counts_messages [OF run sample_ok] r(1) have
    "GetUserFriendUnreadCount 1 2 17 (cache (server s)) = unread_since_read 1 2 17
      (history_of sample_net (filter (answered sample_net) (all_handled sample_chat))
        [(9, Reply (Rs_DBWriteResponse r))]) mod 2 ^ 32"
    by auto
  also have "\<dots> = 1"
    by (simp only: sample_history [OF r(2)]) (simp add: unread_since_read_def)
  finally show ?thesis using run by blast
qed

text \<open>C4: What a user is told: after any run from an empty cache, a request for unread counts is answered
  with a list of friends in increasing order, at most 300 of them, each with the number of messages
  counted for the pair since it was last acknowledged, as a \<^verbatim>\<open>uint32\<close>; if there are fewer than 300, no
  friend with unread messages is missing. The counts are not changed by asking.\<close>

theorem unread_answer_follows_history:
  assumes "server_run N E s tr s'" "manager_ok (manager s)" "parser_ok N"
    and "cache (server s) = CacheManager_new" "request_ok (Rq_UnreadMsgCountRequest q)"
  shows "\<exists>rs w. outbox (server s') = outbox (server s) @ rs \<and>
    outbox (snd (run_state (DispatchMessageHandler E H (Some i) sid (Rq_UnreadMsgCountRequest q)) (server s'))) =
      outbox (server s') @ [(sid, Reply (Rs_UnreadMsgCountResponse w))] \<and>
    cache (snd (run_state (DispatchMessageHandler E H (Some i) sid (Rq_UnreadMsgCountRequest q)) (server s'))) =
      cache (server s') \<and>
    unread_list_says (history_of N (filter (answered N) (all_handled tr)) rs)
      (UnreadMsgCountRequest.user_id q) (UnreadMsgCountRequest.client_type q)
      (unread_pairs (UnreadMsgCountResponse.user_unread_list w))"
proof -
  from chat_run_refines [OF assms(1-3), of "[]"] assms(4) obtain es where
    run: "chat_run N (as_chat [] s) tr (as_chat es s')" and es: "has_history es (cache (server s'))"
    by (auto simp: has_history_new)
  from chat_run_history [OF run] obtain rs where
    rs: "outbox (server s') = outbox (server s) @ rs"
      "es = history_of N (filter (answered N) (all_handled tr)) rs"
    by (auto simp: as_chat_def)
  from dispatch_exchanges [OF assms(5), of "Some i" sid E H] has_history_reachable [OF es] obtain r where
    r: "outbox (snd (run_state (DispatchMessageHandler E H (Some i) sid (Rq_UnreadMsgCountRequest q)) (server s'))) =
        outbox (server s') @ [(sid, r)]"
      "answer_from_cache (cache (server s')) (Rq_UnreadMsgCountRequest q) r"
      "cache (snd (run_state (DispatchMessageHandler E H (Some i) sid (Rq_UnreadMsgCountRequest q)) (server s'))) =
        cache (server s')"
    by (auto simp: exchanges_def exchange_events_def)
  from answer_says_history [OF es r(2)] obtain w where "r = Reply (Rs_UnreadMsgCountResponse w)"
    "unread_list_says es (UnreadMsgCountRequest.user_id q) (UnreadMsgCountRequest.client_type q)
      (unread_pairs (UnreadMsgCountResponse.user_unread_list w))"
    by (auto simp: answer_says_def)
  with rs r show ?thesis by auto
qed

theorem unread_answer_follows_history_witness:
  "\<exists>s w. server_run sample_net demo_env sample_server sample_chat s \<and>
      outbox (snd (run_state (DispatchMessageHandler demo_env demo_handler_env (Some 0) 8
        (Rq_UnreadMsgCountRequest ((UnreadMsgCountRequest_ctor undefined)\<lparr>UnreadMsgCountRequest.user_id := 1,
          UnreadMsgCountRequest.client_type := 17\<rparr>))) (server s))) =
        outbox (server s) @ [(8, Reply (Rs_UnreadMsgCountResponse w))] \<and>
      unread_list_says [MsgSent 1 2] 1 17 (unread_pairs (UnreadMsgCountResponse.user_unread_list w))"
proof -
  obtain s r where run: "server_run sample_net demo_env sample_server sample_chat s"
    and r: "outbox (server s) = [(9, Reply (Rs_DBWriteResponse r))]" "DBWriteResponse.result r = 0"
    using sample_chat_run by blast
  let ?q = "(UnreadMsgCountRequest_ctor undefined)\<lparr>UnreadMsgCountRequest.user_id := 1,
    UnreadMsgCountRequest.client_type := 17\<rparr>"
  have "cache (server sample_server) = CacheManager_new" "outbox (server sample_server) = []"
    by (simp_all add: sample_server_def demo_state_def)
  moreover have "request_ok (Rq_UnreadMsgCountRequest ?q)"
    by (simp add: request_ok_def pdu_kind_def UnreadMsgCountRequest_ctor_def BaseTeamTalkPDU_ctor_def)
  ultimately obtain w where "outbox (snd (run_state (DispatchMessageHandler demo_env demo_handler_env (Some 0) 8
      (Rq_UnreadMsgCountRequest ?q)) (server s))) = outbox (server s) @ [(8, Reply (Rs_UnreadMsgCountResponse w))]"
    "unread_list_says [MsgSent 1 2] 1 17 (unread_pairs (UnreadMsgCountResponse.user_unread_list w))"
    using unread_answer_follows_history [OF run sample_ok, of ?q demo_handler_env 0 8] r(1)
      sample_history [OF r(2)]
    by auto
  with run show ?thesis by blast
qed

subsection \<open>Bytes from outside\<close>

text \<open>C10: Whatever bytes a packet holds, handling it ends normally, sends at most one message, to the session it
  came from and such that it can be serialised, gives back every connection and leaves the counters
  well formed; and a packet that was cut short, of whatever class, changes nothing at all.\<close>

theorem hostile_packets_contained:
  assumes "byte_stream B cur W" "wire_parser N B body mem"
  shows "fst (run_state (OnMessageDataHandler N E H i sid p) t) = Some 0 \<and>
    (\<exists>rs. outbox (snd (run_state (OnMessageDataHandler N E H i sid p) t)) = outbox t @ rs \<and>
       length rs \<le> 1 \<and> (\<forall>(sid', r) \<in> set rs. sid' = sid \<and> reply_ok r)) \<and>
    conns_held (snd (run_state (OnMessageDataHandler N E H i sid p) t)) = conns_held t \<and>
    (cache_reachable (cache t) \<longrightarrow>
       cache_ok (cache (snd (run_state (OnMessageDataHandler N E H i sid p) t)))) \<and>
    (request_ok m \<and> request_size m < 2 ^ 32 \<and> cut_from N B body p m \<longrightarrow>
       run_state (OnMessageDataHandler N E H i sid p) t = (Some 0, t))"
proof (intro conjI)
  note run = OnMessage_run [OF wire_parser_ok [OF assms(2)], of E H i sid p t]
  from run show "fst (run_state (OnMessageDataHandler N E H i sid p) t) = Some 0" by blast
  from run obtain rs where
    "outbox (snd (run_state (OnMessageDataHandler N E H i sid p) t)) = outbox t @ rs"
    and rs: "list_all2 (is_answer N) (filter (answered N) [(sid, p)]) rs" by blast
  moreover have "length rs \<le> 1" using list_all2_lengthD [OF rs] by (simp split: if_splits)
  moreover have "sid' = sid \<and> reply_ok r" if "(sid', r) \<in> set rs" for sid' r
    using rs that is_answer_ok [of N "(sid, p)" "(sid', r)"]
    by (auto simp: list_all2_Cons1 is_answer_def split: if_splits)
  ultimately show "\<exists>rs. outbox (snd (run_state (OnMessageDataHandler N E H i sid p) t)) = outbox t @ rs \<and>
      length rs \<le> 1 \<and> (\<forall>(sid', r) \<in> set rs. sid' = sid \<and> reply_ok r)" by blast
  show "conns_held (snd (run_state (OnMessageDataHandler N E H i sid p) t)) = conns_held t"
    by (rule OnMessage_conns [unfolded uses_conns_def, rule_format, THEN conjunct1])
  show "cache_reachable (cache t) \<longrightarrow>
      cache_ok (cache (snd (run_state (OnMessageDataHandler N E H i sid p) t)))"
    using keeps_counters_OnMessage [of N E H i sid p] cache_reachable_ok by (auto simp: keeps_counters_def)
  show "request_ok m \<and> request_size m < 2 ^ 32 \<and> cut_from N B body p m \<longrightarrow>
      run_state (OnMessageDataHandler N E H i sid p) t = (Some 0, t)"
    using parse_cut [OF assms] by (auto simp: OnMessageDataHandler_def)
qed

theorem hostile_packets_contained_witness:
  "\<exists>p. snd p \<noteq> [] \<and> cut_from wire_net array_stream snd p sample_ValidateRequest \<and>
    run_state (OnMessageDataHandler wire_net demo_env demo_handler_env 0 9 p) demo_state = (Some 0, demo_state)"
proof -
  let ?m = sample_ValidateRequest
  have m: "request_ok ?m" "request_size ?m < 2 ^ 32" "request_ByteSize ?m = 15"
    by (simp_all add: sample_ValidateRequest_def request_ok_def pdu_kind_def pdu_defs base_pdu.defs
        wire_fields_def HasAttachData_def BaseTeamTalkPDU_ByteSize_def)
  obtain packet where packet: "request_SerializeToArray ?m array_stream (replicate 15 0) = (True, packet)"
    "length packet = 15"
    using request_packets [OF array_stream_byte_stream m(1,2), of "replicate 15 0" undefined] by (auto simp: m(3))
  let ?p = "(message_type (request_base ?m), take 14 packet)"
  have cut: "cut_from wire_net array_stream snd ?p ?m"
    unfolding cut_from_def m(3)
    by (intro conjI exI [of _ "replicate 15 0"] exI [of _ packet] exI [of _ "14::nat"])
      (simp_all add: packet wire_net_def)
  moreover have "snd ?p \<noteq> []" using packet(2) by auto
  ultimately show ?thesis
    using hostile_packets_contained [OF array_stream_byte_stream wire_net_parser,
        of demo_env demo_handler_env 0 9 ?p demo_state ?m] m(1,2) by blast
qed

subsection \<open>Answers in the long run\<close>

text \<open>C9: Every packet that is posted to a thread is handled in the end, in any endless run in which the scheduler
  is fair to that thread, however many packets keep arriving, and in its turn: there is a later step in
  which the thread handles it, after exactly as many others as waited for the thread when it came, and if
  the packet is a request that is answered, that step sends its answer.\<close>

theorem every_request_answered:
  assumes "endless_run N E S ev" "parser_ok N" "fair_to i S ev" "ev n = Received sid p (Some i)"
  shows "\<exists>m > n. ev m = Handled i sid p \<and>
    card {j \<in> {n<..<m}. handles i (ev j)} = length (queue_of i (S n)) \<and>
    (answered N (sid, p) \<longrightarrow>
      (\<exists>r. outbox (server (S (Suc m))) = outbox (server (S m)) @ [r] \<and> is_answer N (sid, p) r))"
proof -
  from assms(1) have step: "server_step N E (S k) (ev k) (S (Suc k))" for k by (simp add: endless_run_def)
  from step [of n] have posted: "queue_of i (S (Suc n)) = queue_of i (S n) @ [(sid, p)]"
    using receive_cases' [of N E "S n" sid p "Some i" "S (Suc n)"] endless_run_ok [OF assms(1,2), of n]
    by (auto simp: assms(4) queue_of_def)
  have at: "length (queue_of i (S n)) < length (queue_of i (S (Suc n)))"
    "queue_of i (S (Suc n)) ! length (queue_of i (S n)) = (sid, p)" by (simp_all add: posted)
  from task_handled [OF assms(1-3) at(1), unfolded at(2) fst_conv snd_conv] obtain m where
    m: "m \<ge> Suc n" "ev m = Handled i sid p" "card {j \<in> {Suc n ..< m}. handles i (ev j)} = length (queue_of i (S n))"
    by (elim exE conjE) (rule that)
  from step [of m, unfolded m(2)] have
    "\<exists>H. server (S (Suc m)) = snd (run_state (OnMessageDataHandler N E H i sid p) (server (S m)))"
  proof (rule handle_cases)
    fix rest H srv
    assume "run_state (OnMessageDataHandler N E H i sid p) (server (S m)) = (Some 0, srv)"
      "S (Suc m) = S m\<lparr>manager := (manager (S m))\<lparr>thread_pool := (thread_pool (manager (S m)))
        [i := (thread_pool (manager (S m)) ! i)\<lparr>tasks := rest\<rparr>]\<rparr>, server := srv\<rparr>"
    then show ?thesis by (intro exI [of _ H]) simp
  qed
  then obtain H where
    "server (S (Suc m)) = snd (run_state (OnMessageDataHandler N E H i sid p) (server (S m)))" ..
  moreover have "{Suc n ..< m} = {n <..< m}" by auto
  ultimately show ?thesis
    using OnMessage_run [OF assms(2), of E H i sid p "server (S m)"] m
    by (intro exI [of _ m]) (auto simp: list_all2_Cons1)
qed

text \<open>A server that is idle after its first request: the packets that follow have no type with a handler.\<close>

definition quiet_net :: "(request option, nat) net_env" where
  "quiet_net = \<lparr>packet_type = case_option 0 (packet_type sample_net),
     ParseMessagePDUFromNetPacker = (\<lambda>p. Option.bind p (ParseMessagePDUFromNetPacker sample_net)),
     GetNext = (\<lambda>q. (of_nat q, q + 1)), starts = (\<lambda>i. True)\<rparr>"

definition quiet_server :: "(request option, nat, string list) zaresd" where
  "quiet_server = \<lparr>manager = \<lparr>thread_pool =
       map (\<lambda>i. \<lparr>thread_index = i, running = True, timer = True, tasks = []\<rparr>) [0, 1],
     thread_pool_size = 2, next_thread = 0\<rparr>, server = demo_state, synced = []\<rparr>"

lemma quiet_ok: "manager_ok (manager quiet_server)" "parser_ok quiet_net"
  using sample_ok(2) by (auto simp: quiet_server_def manager_ok_def parser_ok_def quiet_net_def Option.bind_eq_Some_conv)

lemma quiet_run:
  "\<exists>S ev. endless_run quiet_net demo_env S ev \<and> fair_to 0 S ev \<and>
    ev 0 = Received 9 (Some sample_ValidateRequest) (Some 0)"
proof -
  have c: "request_class_of sample_ValidateRequest = Class_ValidateRequest"
    by (simp add: sample_ValidateRequest_def)
  have h: "CheckMessageHandler MESSAGE_VALIDATE_REQUEST" "\<not> CheckMessageHandler 0"
    using handler_of_class [of Class_ValidateRequest]
    by (auto simp: CheckMessageHandler_def g_message_handlers_def InitMessageHandlerTable_def)
  have "\<exists>s. OnDataReceived quiet_net 9 (Some sample_ValidateRequest) quiet_server = Some (Some 0, s) \<and>
      tasks (thread_pool (manager s) ! 0) = [(9, Some sample_ValidateRequest)] \<and>
      manager_ok (manager s) \<and> length (thread_pool (manager s)) = 2"
    using h(1) by (simp add: OnDataReceived_def quiet_net_def sample_net_def quiet_server_def c
        PostDataToDbHandler_def GetNextThread_def DoMessageDataHandler_def manager_ok_def)
  then obtain s1 where s1: "OnDataReceived quiet_net 9 (Some sample_ValidateRequest) quiet_server = Some (Some 0, s1)"
    "tasks (thread_pool (manager s1) ! 0) = [(9, Some sample_ValidateRequest)]"
    "manager_ok (manager s1)" "length (thread_pool (manager s1)) = 2" by blast
  from handle_total [OF s1(3) quiet_ok(2) _ s1(2), of demo_env] s1(4) obtain s2 where
    s2: "server_step quiet_net demo_env s1 (Handled 0 9 (Some sample_ValidateRequest)) s2"
      "length (thread_pool (manager s2)) = 2"
      "map tasks (thread_pool (manager s2)) = (map tasks (thread_pool (manager s1)))[0 := []]" by auto
  have q: "queue_of 0 s2 = []"
    using s2(2,3) s1(4) by (metis length_map list_update_beyond nth_list_update_eq nth_map queue_of_def zero_less_numeral)
  have idle: "server_step quiet_net demo_env s2 (Received 9 None None) s2"
    by (rule server_step.receive) (simp add: OnDataReceived_def quiet_net_def h(2))
  let ?S = "\<lambda>n. if n = 0 then quiet_server else if n = 1 then s1 else s2"
  let ?ev = "\<lambda>n. if n = 0 then Received 9 (Some sample_ValidateRequest) (Some 0)
    else if n = (1::nat) then Handled 0 9 (Some sample_ValidateRequest) else Received 9 None None"
  have "endless_run quiet_net demo_env ?S ?ev"
    using server_step.receive [OF s1(1)] s2(1) idle quiet_ok(1) by (auto simp: endless_run_def)
  moreover have "fair_to 0 ?S ?ev"
    unfolding fair_to_def
  proof
    fix n :: nat
    show "\<exists>m\<ge>n. queue_of 0 (?S m) = [] \<or> handles 0 (?ev m)" using q by (intro exI [of _ "n + 2"]) simp
  qed
  ultimately show ?thesis by (intro exI [of _ ?S] exI [of _ ?ev]) auto
qed

theorem every_request_answered_witness:
  "\<exists>S ev m r. endless_run quiet_net demo_env S ev \<and> ev m = Handled 0 9 (Some sample_ValidateRequest) \<and>
    outbox (server (S (Suc m))) = outbox (server (S m)) @ [r] \<and>
    is_answer quiet_net (9, Some sample_ValidateRequest) r"
proof -
  obtain S ev where run: "endless_run quiet_net demo_env S ev" "fair_to 0 S ev"
    "ev 0 = Received 9 (Some sample_ValidateRequest) (Some 0)" using quiet_run by blast
  have "answered quiet_net (9, Some sample_ValidateRequest)"
    by (simp add: answered_def quiet_net_def sample_net_def sample_ValidateRequest_def request_ok_def
        pdu_kind_def pdu_defs base_pdu.defs)
  with every_request_answered [OF run(1) quiet_ok(2) run(2,3)] run(1) show ?thesis by blast
qed

text \<open>A run in which one request is handled.\<close>

abbreviation (input) one_request :: "request \<Rightarrow> request event list" where
  "one_request m \<equiv> [Received 9 m (Some 0), Handled 0 9 m]"

lemma one_request_run:
  assumes "manager s = manager sample_server" "request_ok m" "request_class_of m \<noteq> Class_GroupHistoryMsgRequest"
  shows "\<exists>s'. server_run sample_net E s (one_request m) s'"
proof -
  have h: "CheckMessageHandler (fst (request_class_kind (request_class_of m)))"
    using handler_of_class [of "request_class_of m"] assms(3) by (simp add: CheckMessageHandler_def)
  have n: "fst (request_class_kind (request_class_of m)) \<noteq> MESSAGE_HEARTBEAT"
    by (cases "request_class_of m") simp_all
  have "\<exists>s1. OnDataReceived sample_net 9 m s = Some (Some 0, s1) \<and> manager_ok (manager s1) \<and>
      0 < length (thread_pool (manager s1)) \<and> tasks (thread_pool (manager s1) ! 0) = [(9, m)]"
    using h n assms(1) by (simp add: OnDataReceived_def sample_net_def sample_server_def
        PostDataToDbHandler_def GetNextThread_def DoMessageDataHandler_def manager_ok_def)
  then obtain s1 where s1: "OnDataReceived sample_net 9 m s = Some (Some 0, s1)" "manager_ok (manager s1)"
    "0 < length (thread_pool (manager s1))" "tasks (thread_pool (manager s1) ! 0) = [(9, m)]" by blast
  from handle_total [OF s1(2) sample_ok(2) s1(3,4)] obtain s' where
    "server_step sample_net E s1 (Handled 0 9 m) s'" by blast
  with server_run.step [OF server_run.step [OF server_run.init server_step.receive [OF s1(1)]]] show ?thesis by auto
qed

subsection \<open>Counts of group messages\<close>

text \<open>C32: No group message is ever counted: after any run of the server that started with an empty
  cache, every user's count for every group is 0, and so is the id of the last message, which is
  where the fetch of unread group messages starts; and a user who then asks for the unread counts
  of the groups is told 0 for each of them.\<close>

theorem group_counts_stay_zero:
  assumes "server_run N E s tr s'" "manager_ok (manager s)" "parser_ok N"
    and "cache (server s) = CacheManager_new"
  shows "GetUserGroupCount u t g (cache (server s')) =
      \<lparr>item_user_id = u, item_group_id = g, group_total_count = 0, user_unread_count = 0, last_message_id = 0\<rparr> \<and>
    (\<forall>req. attach_data_type req = kAttachDataTypeDB \<longrightarrow>
      (\<exists>r s''. run_state (GroupUnreadMsgCountRequestHandler_Execute E H (Some i) sid req) (server s') = (Some 0, s'') \<and>
        outbox s'' = outbox (server s') @ [(sid, Reply (Rs_GroupUnreadMsgCountResponse r))] \<and>
        (\<forall>x \<in> set (GroupUnreadMsgCountResponse.group_unread_list r). GroupUnreadMsgCount.unread_msg_count x = 0)))"
proof -
  have c: "cache_reachable (cache (server s'))"
    using run_keeps_counters [OF assms(1-3)] assms(4) by (simp add: cache_reachable.new)
  have "\<exists>r s''. run_state (GroupUnreadMsgCountRequestHandler_Execute E H (Some i) sid req) (server s') = (Some 0, s'') \<and>
      outbox s'' = outbox (server s') @ [(sid, Reply (Rs_GroupUnreadMsgCountResponse r))] \<and>
      (\<forall>x \<in> set (GroupUnreadMsgCountResponse.group_unread_list r). GroupUnreadMsgCount.unread_msg_count x = 0)"
    if db: "attach_data_type req = kAttachDataTypeDB" for req
  proof -
    let ?p = "GroupUnreadMsgCountRequestHandler_Execute E H (Some i) sid req"
    have "fst (run_state ?p (server s')) = Some 0"
      using GroupUnreadMsgCountRequestHandler_replies [OF db, of "Some i" sid E H] by (auto simp: sends_one_def)
    moreover obtain r where "outbox (snd (run_state ?p (server s'))) = outbox (server s') @ [(sid, r)]"
      "answer_from_cache (cache (server s')) (Rq_GroupUnreadMsgCountRequest req) r"
      using GroupUnreadMsgCount_exchanges [OF db, of "Some i" sid E H] c by (auto simp: exchanges_def)
    ultimately show ?thesis
      by (intro exI [of _ "case r of Reply (Rs_GroupUnreadMsgCountResponse w) \<Rightarrow> w"]
          exI [of _ "snd (run_state ?p (server s'))"])
        (auto simp: answer_from_cache_def list_all_iff prod_eq_iff)
  qed
  with cache_reachable_no_groups [OF c] show ?thesis by (simp add: GetUserGroupCount_no_groups)
qed

text \<open>A server that has handled a message to group 3; user 1 then asks for the counts.\<close>

definition sample_group_message :: request where
  "sample_group_message = Rq_MsgData ((MsgData_ctor undefined)\<lparr>MsgData.from_user_id := 2, MsgData.to_user_id := 3,
     MsgData.msg_type := 17, MsgData.msg_data := ''hi''\<rparr>)"

theorem group_counts_stay_zero_witness:
  "\<exists>s r s'. server_run sample_net demo_env sample_server (one_request sample_group_message) s \<and>
    user_unread_count (GetUserGroupCount 1 17 3 (cache (server s))) = 0 \<and>
    run_state (GroupUnreadMsgCountRequestHandler_Execute demo_env demo_handler_env (Some 1) 8
      ((GroupUnreadMsgCountRequest_ctor undefined)\<lparr>GroupUnreadMsgCountRequest.req_user_id := 1\<rparr>)) (server s) = (Some 0, s') \<and>
    outbox s' = outbox (server s) @ [(8, Reply (Rs_GroupUnreadMsgCountResponse r))] \<and>
    (\<forall>x \<in> set (GroupUnreadMsgCountResponse.group_unread_list r). GroupUnreadMsgCount.unread_msg_count x = 0)"
proof -
  let ?req = "(GroupUnreadMsgCountRequest_ctor undefined)\<lparr>GroupUnreadMsgCountRequest.req_user_id := 1\<rparr>"
  have m: "request_ok sample_group_message" "request_class_of sample_group_message \<noteq> Class_GroupHistoryMsgRequest"
    by (simp_all add: sample_group_message_def request_ok_def pdu_kind_def MsgData_ctor_def BaseTeamTalkPDU_ctor_def)
  obtain s where run: "server_run sample_net demo_env sample_server (one_request sample_group_message) s"
    using one_request_run [OF refl m] by blast
  have "attach_data_type ?req = kAttachDataTypeDB" "cache (server sample_server) = CacheManager_new"
    by (simp_all add: GroupUnreadMsgCountRequest_ctor_def BaseTeamTalkPDU_ctor_def sample_server_def demo_state_def)
  with group_counts_stay_zero [OF run sample_ok, of 1 17 3 demo_handler_env 1 8] run show ?thesis by auto
qed

end
