(* ===== verification/Statement_Frame.thy ===== *)
theory Statement_Frame
  imports Message_Handler
begin

text \<open>
  Which tables a request can change: the statements of the managers that write, by the table they are for, and
  for each handler that it leaves a part of the database alone if the statements it can run do. The
  part is any function of the world.
\<close>

subsection \<open>Statements\<close>

definition texts :: "('w, 'r) db_env \<Rightarrow> string list \<Rightarrow> string set" where
  "texts E fs = (\<Union>f \<in> set fs. range (fmt_printf E f) \<union> range (fmt_query E f))"

definition contact_formats :: "string list" where
  "contact_formats = [
     ''UPDATE IMRecentContact SET status = 1 WHERE userId = %d AND friendUserId = %d LIMIT 1'',
     ''UPDATE IMRecentContact SET status = 0 WHERE relateId in (%s) LIMIT 4'',
     ''INSERT INTO IMRecentContact(`userId`,`friendUserId`,`status`,`created`,`updated`) VALUES(:1, :2, :3, :4, :5),(:6, :7, :8, :9, :10)'',
     ''INSERT INTO IMRecentContact(`userId`,`friendUserId`,`status`,`created`,`updated`) VALUES(:1, :2, :3, :4, :5)'']"

definition message_formats :: "string list" where
  "message_formats = [''INSERT INTO IMMessage(`relateId`,`fromUserId`,`toUserId`,`content`,`type`,`created`,`updated`) VALUES(:1,:2,:3,:4,:5,:6,:7)'']"

definition file_formats :: "string list" where
  "file_formats = [
     ''INSERT INTO IMTransmitFile (userId, toUserId, taskId, filePath, created, updated,fsize) VALUES (:1,:2,:3,:4:5,:6,:7,:8)'',
     ''UPDATE IMTransmitFile SET status = 0, updated = %d WHERE taskId = '' @ [CHR 0x27] @ ''%s'' @ [CHR 0x27] @ '' LIMIT 1'']"

definition group_formats :: "string list" where
  "group_formats = [
     ''UPDATE IMGroupRelation SET status = 1 WHERE groupId = %d AND userId IN (%s)'',
     ''UPDATE IMGroupRelation SET status = 0, updated=%d  WHERE groupId = %d AND userId IN (%s)'',
     ''UPDATE IMGroup SET memberCnt = memberCnt + %d WHERE groupId = %d LIMIT 1'',
     ''UPDATE IMGroup SET memberCnt = memberCnt - %d, updated = %d WHERE groupId = %d LIMIT 1'',
     ''INSERT INTO IMGroup(`groupName`,`avatar`,`adesc`,`createUserId`,`groupType`,`memberCnt`,`created`,`updated`) VALUES(:1,:2,:3,:4,:5,0,:7,:8)'']"

text \<open>The insertion of members is put together without a format.\<close>

definition member_inserts :: "string set" where
  "member_inserts = range (append
     ''INSERT INTO IMGroupRelation(`groupId`, `userId`, `title`, `groupType`, `created`, `updated`) VALUES '')"

lemma text_of_format: "f \<in> set fs \<Longrightarrow> fmt_printf E f args \<in> texts E fs" "f \<in> set fs \<Longrightarrow> fmt_query E f args \<in> texts E fs"
  by (auto simp: texts_def)

lemma text_if: "t \<in> T \<Longrightarrow> t' \<in> T \<Longrightarrow> (if b then t else t') \<in> T"
  by simp

text \<open>\<open>untouched E f S\<close>: queries, the clock and the statements of \<open>S\<close> leave the part \<open>f\<close> of the world alone.\<close>

definition untouched :: "('w, 'r) db_env \<Rightarrow> ('w \<Rightarrow> 'v) \<Rightarrow> string set \<Rightarrow> bool" where
  "untouched E f S \<longleftrightarrow> (\<forall>w. f (snd (now_ms E w)) = f w) \<and> (\<forall>w sql. f (snd (db_query E sql w)) = f w) \<and>
     (\<forall>sql \<in> S. \<forall>w. f (snd (db_execute E sql w)) = f w \<and> f (snd (db_insert_id E sql w)) = f w)"

lemma untouched_mono: "untouched E f S \<Longrightarrow> S' \<subseteq> S \<Longrightarrow> untouched E f S'"
  by (auto simp: untouched_def)

abbreviation keeps_world :: "('w \<Rightarrow> 'v) \<Rightarrow> ('w, 'z, 'a) db_prog \<Rightarrow> bool" where
  "keeps_world f \<equiv> preserves (\<lambda>s. f (world s))"

named_theorems frame_intros "programs leave a part of the world alone"

lemma frame_ops:
  assumes "untouched E f S"
  shows "keeps_world f (Query E sql)" "keeps_world f (NowMSTime E)"
    "sql \<in> S \<Longrightarrow> keeps_world f (DbExecute E sql)" "sql \<in> S \<Longrightarrow> keeps_world f (ExecuteInsertID E sql)"
  using assms by (simp_all add: untouched_def preserves_def db_ops)

lemma frame_Scoped [frame_intros]: "keeps_world f p \<Longrightarrow> keeps_world f (ScopedPtr_DatabaseConnection p)"
  by (simp add: preserves_Scoped)

lemma frame_other [frame_intros]:
  "keeps_world f (with_cache g)" "keeps_world f (post_reply sid r)"
  by (simp_all add: preserves_def)

lemma frame_send [frame_intros]:
  "keeps_world f (SendSessionData ctx sid r)" "keeps_world f (SendSessionData_checked ctx sid r)"
  by (auto simp: SendSessionData_def SendSessionData_checked_def intro!: conns_intros frame_intros)

lemma frame_deref [frame_intros]: "(\<And>x. keeps_world f (k x)) \<Longrightarrow> keeps_world f (deref p k)"
  by (simp add: deref_def conns_intros)

subsection \<open>Managers\<close>

lemma frame_queries:
  assumes "untouched E f S"
  shows "keeps_world f (GetRecentContactByUserId E u l fs)"
    "keeps_world f (GetRelateId E u v)"
    "keeps_world f (GetUserInfo_by_ids E us is)"
    "keeps_world f (GetUserInfo_by_name E n i1)"
    "keeps_world f (GetAllUserInfo E is)"
    "keeps_world f (GetDepartmentInfos E ds)"
    "keeps_world f (Auth E n pw)"
    "keeps_world f (GetUserFiles E u files)"
    "keeps_world f (GetFileRecord E t f1)"
    "keeps_world f (GetGroupsByUserId E u b gs)"
    "keeps_world f (GetGroupIdsByUserId E u b ids)"
    "keeps_world f (GetGroupMembers_map E ids m)"
    "keeps_world f (GetGroupMembers E g ms)"
    "keeps_world f (GetGroupInfo E g i2)"
    "keeps_world f (GetRecentGroupsByUserId E u gs)"
  unfolding GetRecentContactByUserId_def GetRelateId_def GetUserInfo_by_ids_def GetUserInfo_by_name_def
    GetAllUserInfo_def GetDepartmentInfos_def Auth_def GetUserFiles_def GetFileRecord_def GetGroupsByUserId_def
    GetGroupIdsByUserId_def GetGroupMembers_map_def GetGroupMembers_def GetGroupInfo_def
    GetRecentGroupsByUserId_def Let_def
  by (intro conns_intros frame_intros frame_ops [OF assms])+

lemma frame_fetch:
  assumes "untouched E f S"
  shows "keeps_world f (GetMessages E (zares_relationship E) u v i k ms)"
    "keeps_world f (GetDialogMessages u v i k ms)"
    "keeps_world f (GetGroupMessages g i k gs)"
    "keeps_world f (GetGroupMessagesFromId g i k gs)"
    "keeps_world f (SendAudioMessage u v x t)"
    "keeps_world f (SendIMGroupMessage u v x t)"
    "keeps_world f (IncrCounterForNewMessage u v n)"
  unfolding GetMessages_def GetDialogMessages_def GetGroupMessages_def GetGroupMessagesFromId_def
    SendAudioMessage_def SendIMGroupMessage_def IncrCounterForNewMessage_def
    zares_relationship_def relationship_ops.select_convs Let_def
  by (intro conns_intros frame_intros frame_ops [OF assms] frame_queries [OF assms])+

lemma frame_files:
  assumes "untouched E f (texts E file_formats)"
  shows "keeps_world f (SaveFileRecord E u v t p n)" "keeps_world f (DeleteFileRecord E t)"
  unfolding SaveFileRecord_def DeleteFileRecord_def Let_def
  by (intro conns_intros frame_intros frame_ops [OF assms] text_of_format; simp add: file_formats_def)+

lemma frame_contacts:
  assumes "untouched E f (texts E contact_formats)"
  shows "keeps_world f (DeleteRecentContactByUserId E u v)" "keeps_world f (CheckAndUpdateRelation E u v)"
    "keeps_world f (AddFriendship E u v)"
proof -
  have t: "fmt_printf E x args \<in> texts E contact_formats" "fmt_query E x args \<in> texts E contact_formats"
    if "x \<in> set contact_formats" for x args
    using that by (rule text_of_format)+
  note ops = frame_ops [OF assms]
  show "keeps_world f (DeleteRecentContactByUserId E u v)" "keeps_world f (CheckAndUpdateRelation E u v)"
    unfolding DeleteRecentContactByUserId_def CheckAndUpdateRelation_def Let_def
    by (intro conns_intros frame_intros ops t; simp add: contact_formats_def)+
  show "keeps_world f (AddFriendship E u v)"
    unfolding AddFriendship_def Let_def
    by (intro conns_intros frame_intros ops frame_queries [OF assms] text_if) (rule t, simp add: contact_formats_def)+
qed

lemma frame_SendIMMessage:
  assumes "untouched E f (texts E (contact_formats @ message_formats))"
  shows "keeps_world f (SendIMMessage E (zares_relationship E) u v m x t)"
proof -
  have contacts: "untouched E f (texts E contact_formats)"
    using assms by (rule untouched_mono) (auto simp: texts_def)
  have "fmt_query E ''INSERT INTO IMMessage(`relateId`,`fromUserId`,`toUserId`,`content`,`type`,`created`,`updated`) VALUES(:1,:2,:3,:4,:5,:6,:7)'' args
      \<in> texts E (contact_formats @ message_formats)" for args
    by (rule text_of_format) (simp add: message_formats_def)
  then show ?thesis
    unfolding SendIMMessage_def zares_relationship_def relationship_ops.select_convs Let_def
    by (intro conns_intros frame_intros frame_ops [OF assms] frame_queries [OF assms] frame_fetch [OF assms]
        frame_contacts [OF contacts])
qed

lemma frame_groups:
  assumes "untouched E f (texts E group_formats \<union> member_inserts)"
  shows "keeps_world f (JoinGroup E ids g i1)" "keeps_world f (QuitGroup E u ids g i1)"
    "keeps_world f (CreateGroup E u n k av de ids i1)"
proof -
  note ops = frame_ops [OF assms]
  have t: "fmt_printf E x args \<in> texts E group_formats \<union> member_inserts"
    "fmt_query E x args \<in> texts E group_formats \<union> member_inserts" if "x \<in> set group_formats" for x args
    using text_of_format [OF that] by auto
  have grow: "\<exists>x. snd (fold (insert_member E g grp now st) ids (b, sql)) = sql @ x" for g grp now st ids b sql
  proof (induction ids arbitrary: b sql)
    case (Cons u ids)
    have "\<exists>b' x. insert_member E g grp now st u (b, sql) = (b', sql @ x)"
      by (auto simp: insert_member_def Let_def split: option.split)
    then obtain b' x where "insert_member E g grp now st u (b, sql) = (b', sql @ x)" by blast
    with Cons [of b' "sql @ x"] show ?case by auto
  qed simp
  have insert: "sql \<in> texts E group_formats \<union> member_inserts"
    if "fold (insert_member E g grp now st) ids (True,
      ''INSERT INTO IMGroupRelation(`groupId`, `userId`, `title`, `groupType`, `created`, `updated`) VALUES '') = (b, sql)"
    for g grp now st ids b sql
    using grow [of g grp now st ids True "''INSERT INTO IMGroupRelation(`groupId`, `userId`, `title`, `groupType`, `created`, `updated`) VALUES ''"] that
    by (auto simp: member_inserts_def)
  show join: "keeps_world f (JoinGroup E ids g i1)" for ids g i1
    unfolding JoinGroup_def Let_def case_prod_unfold
    by (intro conns_intros frame_intros ops insert [OF prod.collapse [symmetric]]) (rule t, simp add: group_formats_def)+
  show "keeps_world f (QuitGroup E u ids g i1)" "keeps_world f (CreateGroup E u n k av de ids i1)"
    unfolding QuitGroup_def CreateGroup_def Let_def
    by (intro conns_intros frame_intros ops join t; simp add: group_formats_def)+
qed

subsection \<open>Handlers\<close>

text \<open>The handlers that only ask the database.\<close>

lemma frame_reading_handlers:
  assumes "untouched E f S"
  shows "keeps_world f (ValidateRequestHandler_Execute E H ctx sid r1)"
    "keeps_world f (FriendListRequestHandler_Execute E H ctx sid r2)"
    "keeps_world f (DepartmentRequestHandler_Execute E H ctx sid r3)"
    "keeps_world f (UsersInfoRequestHandler_Execute E H ctx sid r4)"
    "keeps_world f (AllUserRequestHandler_Execute E H ctx sid r5)"
    "keeps_world f (UnreadMsgCountRequestHandler_Execute E H ctx sid r6)"
    "keeps_world f (UnreadMsgRequestHandler_Execute E H ctx sid r7)"
    "keeps_world f (MsgReadAckHandler_Execute E H ctx sid r8)"
    "keeps_world f (GroupListRequestHandler_Execute E H ctx sid r9)"
    "keeps_world f (GroupUserListRequestHandler_Execute E H ctx sid r10)"
    "keeps_world f (GroupUnreadMsgCountRequestHandler_Execute E H ctx sid r11)"
    "keeps_world f (GroupUnreadMsgRequestHandler_Execute E H ctx sid r12)"
    "keeps_world f (GroupMsgReadAckHandler_Execute E H ctx sid r13)"
    "keeps_world f (GroupDialogListRequestHandler_Execute E H ctx sid r14)"
    "keeps_world f (FileHasOfflineReqHandler_Execute E H ctx sid r15)"
  unfolding ValidateRequestHandler_Execute_def FriendListRequestHandler_Execute_def
    DepartmentRequestHandler_Execute_def UsersInfoRequestHandler_Execute_def AllUserRequestHandler_Execute_def
    UnreadMsgCountRequestHandler_Execute_def UnreadMsgRequestHandler_Execute_def MsgReadAckHandler_Execute_def
    GroupListRequestHandler_Execute_def GroupUserListRequestHandler_Execute_def
    GroupUnreadMsgCountRequestHandler_Execute_def GroupUnreadMsgRequestHandler_Execute_def
    GroupMsgReadAckHandler_Execute_def GroupDialogListRequestHandler_Execute_def
    FileHasOfflineReqHandler_Execute_def members_of_groups_def Let_def
  by (intro conns_intros frame_intros frame_ops [OF assms] frame_queries [OF assms] frame_fetch [OF assms])+

text \<open>The handlers that write, each with the statements it can run.\<close>

lemma frame_file_handlers:
  assumes "untouched E f (texts E file_formats)"
  shows "keeps_world f (FileAddOfflineReqHandler_Execute E H ctx sid r1)"
    "keeps_world f (FileDelOfflineReqHandler_Execute E H ctx sid r2)"
  unfolding FileAddOfflineReqHandler_Execute_def FileDelOfflineReqHandler_Execute_def Let_def
  by (intro conns_intros frame_intros frame_ops [OF assms] frame_queries [OF assms] frame_files [OF assms])+

lemma frame_contact_handlers:
  assumes "untouched E f (texts E contact_formats)"
  shows "keeps_world f (RemoveSessionRequestHandler_Execute E H ctx sid r)"
  unfolding RemoveSessionRequestHandler_Execute_def Let_def
  by (intro conns_intros frame_intros frame_ops [OF assms] frame_queries [OF assms] frame_contacts [OF assms])

lemma frame_message_handlers:
  assumes "untouched E f (texts E (contact_formats @ message_formats))"
  shows "keeps_world f (MsgDataHandler_Execute E H ctx sid r)"
  unfolding MsgDataHandler_Execute_def MsgData_send_def Let_def
  by (intro conns_intros frame_intros frame_ops [OF assms] frame_queries [OF assms] frame_fetch [OF assms]
      frame_SendIMMessage [OF assms])

lemma frame_group_handlers:
  assumes "untouched E f (texts E group_formats \<union> member_inserts)"
  shows "keeps_world f (GroupCreateTmpGroupRequestHandler_Execute E H ctx sid r1)"
    "keeps_world f (GroupChangeMemberRequestHandler_Execute E H ctx sid r2)"
  unfolding GroupCreateTmpGroupRequestHandler_Execute_def GroupChangeMemberRequestHandler_Execute_def Let_def
  by (intro conns_intros frame_intros frame_ops [OF assms] frame_queries [OF assms] frame_groups [OF assms])+

text \<open>The texts a request can make the server run, beside queries.\<close>

definition written_by :: "('w, 'r) db_env \<Rightarrow> request_class \<Rightarrow> string set" where
  "written_by E c = (case c of
     Class_RemoveSessionRequest \<Rightarrow> texts E contact_formats
   | Class_MsgData \<Rightarrow> texts E (contact_formats @ message_formats)
   | Class_FileAddOfflineReq \<Rightarrow> texts E file_formats
   | Class_FileDelOfflineReq \<Rightarrow> texts E file_formats
   | Class_GroupCreateTmpGroupRequest \<Rightarrow> texts E group_formats \<union> member_inserts
   | Class_GroupChangeMemberRequest \<Rightarrow> texts E group_formats \<union> member_inserts
   | _ \<Rightarrow> {})"

lemma dispatch_frame:
  assumes "request_ok m" "untouched E f (written_by E (request_class_of m))"
  shows "keeps_world f (DispatchMessageHandler E H ctx sid m)"
proof (cases "request_class_of m = Class_GroupHistoryMsgRequest")
  case True
  then show ?thesis by (simp add: preserves_def dispatch_history [OF assms(1)])
next
  case False
  have "keeps_world f (execute_handler (handler_for (request_class_of m)) E H ctx sid m)"
    using assms(2) False
    by (cases m) (simp_all add: written_by_def frame_reading_handlers frame_file_handlers frame_contact_handlers
      frame_message_handlers frame_group_handlers)
  then show ?thesis
    unfolding dispatch_request [OF assms(1) False] by (intro conns_intros)
qed

end
