(* ===== verification/Server_World.thy ===== *)
theory Server_World
  imports Handler_Threads
begin

text \<open>
  Runs of the server and the database: what holds of the world after every request that was handled, and
  sequences of requests as runs of an abstract service.
\<close>

subsection \<open>Abstract services\<close>

text \<open>A service is given by the effects a request can have on its state.\<close>

inductive requests_run :: "(request \<Rightarrow> 'k \<Rightarrow> 'k \<Rightarrow> bool) \<Rightarrow> request list \<Rightarrow> 'k \<Rightarrow> 'k \<Rightarrow> bool" for eff where
  no_requests: "requests_run eff [] k k"
| first_request: "eff m k k' \<Longrightarrow> requests_run eff ms k' k'' \<Longrightarrow> requests_run eff (m # ms) k k''"

inductive_simps requests_run_simps: "requests_run eff [] k k'" "requests_run eff (m # ms) k k'"

lemma requests_run_snoc: "requests_run eff ms k k' \<Longrightarrow> eff m k' k'' \<Longrightarrow> requests_run eff (ms @ [m]) k k''"
  by (induction rule: requests_run.induct) (auto intro: requests_run.intros)

subsection \<open>Runs of the server\<close>

text \<open>The requests among the tasks handled; a packet that cannot be parsed is none.\<close>

definition requests_of :: "('p, 'q) net_env \<Rightarrow> (u64 \<times> 'p) list \<Rightarrow> request list" where
  "requests_of N qs = List.map_filter (\<lambda>(sid, p). ParseMessagePDUFromNetPacker N p) qs"

lemma requests_of_simps [simp]:
  "requests_of N [] = []"
  "requests_of N (qs @ [(sid, p)]) = requests_of N qs @
     (case ParseMessagePDUFromNetPacker N p of None \<Rightarrow> [] | Some m \<Rightarrow> [m])"
  by (simp_all add: requests_of_def List.map_filter_def split: option.split)

lemma handled_server:
  assumes "server_step N E s (Handled i sid p) s'"
  shows "\<exists>H. server s' = snd (run_state (OnMessageDataHandler N E H i sid p) (server s))"
  using assms
proof (rule handle_cases)
  fix rest H srv
  assume "run_state (OnMessageDataHandler N E H i sid p) (server s) = (Some 0, srv)"
    "s' = s\<lparr>manager := (manager s)\<lparr>thread_pool := (thread_pool (manager s))
      [i := (thread_pool (manager s) ! i)\<lparr>tasks := rest\<rparr>]\<rparr>, server := srv\<rparr>"
  then show ?thesis by (intro exI [of _ H]) simp
qed

text \<open>A relation between the requests handled and the world that every dispatch keeps holds over runs.\<close>

lemma run_world:
  fixes E :: "('w, 'r) db_env"
  assumes "server_run N E s tr s'" and N: "parser_ok N" and init: "P [] (world (server s))"
    and dispatch: "\<And>ms (t :: 'w server_state) H i sid m. P ms (world t) \<Longrightarrow> request_ok m \<Longrightarrow>
      P (ms @ [m]) (world (snd (run_state (DispatchMessageHandler E H (Some i) sid m) t)))"
  shows "P (requests_of N (all_handled tr)) (world (server s'))"
  using assms(1)
proof (induction rule: server_run.induct)
  case init
  then show ?case using assms(3) by simp
next
  case (step tr s' e s'')
  show ?case
  proof (cases e)
    case (Received sid p j)
    with step.hyps(2) have "OnDataReceived N sid p s' = Some (j, s'')" by (auto elim: receive_cases)
    then have "server s'' = server s'" by (auto simp: OnDataReceived_def split: if_splits)
    with step.IH show ?thesis by (simp add: Received)
  next
    case (Handled i sid p)
    from handled_server [OF step.hyps(2) [unfolded Handled]] obtain H where
      "server s'' = snd (run_state (OnMessageDataHandler N E H i sid p) (server s'))" ..
    with step.IH N dispatch show ?thesis
      by (auto simp: Handled OnMessageDataHandler_def parser_ok_def split: option.split)
  qed
qed

end
