(* ===== verification/Group_Service.thy ===== *)
theory Group_Service
  imports Statement_Frame Member_Table Server_World
begin

text \<open>
  What each request does to the group book, from its dispatch down to the tables, over a database that
  keeps the tables of groups and members; and what follows for any sequence of requests.
\<close>

subsection \<open>The service\<close>

text \<open>The users a request names, and its effect on the group book. Anybody may add users to an active
  group; only its owner may remove some; a new group has an id that was not in use.\<close>

fun users_of :: "request \<Rightarrow> u32 list" where
  "users_of (Rq_GroupChangeMemberRequest q) = GroupChangeMemberRequest.user_list q"
| "users_of (Rq_GroupCreateTmpGroupRequest q) = GroupCreateTmpGroupRequest.user_list q"
| "users_of m = []"

definition owned_by :: "u32 \<Rightarrow> u32 \<Rightarrow> group_book \<Rightarrow> bool" where
  "owned_by u g k \<longleftrightarrow> u \<noteq> 0 \<and> (\<exists>r. book_groups k g = Some r \<and> group_owner r = u)"

fun group_effect :: "u32 \<Rightarrow> bool \<Rightarrow> request \<Rightarrow> group_book \<Rightarrow> group_book \<Rightarrow> bool" where
  "group_effect d a (Rq_GroupChangeMemberRequest q) k k' \<longleftrightarrow>
     (let g = GroupChangeMemberRequest.group_id q; us = set (GroupChangeMemberRequest.user_list q)
      in k' = (if g = 0 \<or> us = {} \<or> \<not> is_active g (book_groups k) then k
               else if GroupChangeMemberRequest.change_type q = 0 then join_book d g us k
               else if owned_by (GroupChangeMemberRequest.req_user_id q) g k then quit_book g us k
               else k))"
| "group_effect d a (Rq_GroupCreateTmpGroupRequest q) k k' \<longleftrightarrow>
     (let u = GroupCreateTmpGroupRequest.req_user_id q; us = set (GroupCreateTmpGroupRequest.user_list q)
      in k' = k \<or> u \<noteq> 0 \<and> GroupCreateTmpGroupRequest.group_name q \<noteq> '''' \<and>
         (\<exists>g. g \<noteq> 0 \<and> book_groups k g = None \<and>
            k' = (if us = {} then new_group u a g k else join_book d g us (new_group u a g k))))"
| "group_effect d a m k k' \<longleftrightarrow> k' = k"

abbreviation group_run :: "u32 \<Rightarrow> bool \<Rightarrow> request list \<Rightarrow> group_book \<Rightarrow> group_book \<Rightarrow> bool" where
  "group_run d a \<equiv> requests_run (group_effect d a)"

text \<open>Room for the users that requests name, and requests that name none twice.\<close>

definition room_for :: "nat \<Rightarrow> group_book \<Rightarrow> bool" where
  "room_for n k \<longleftrightarrow> (\<forall>g. card (book_known k g) + n < 2 ^ 31)"

definition users_named :: "request list \<Rightarrow> nat" where
  "users_named ms = sum_list (map (\<lambda>m. length (users_of m)) ms)"

definition users_distinct :: "request list \<Rightarrow> bool" where
  "users_distinct ms \<longleftrightarrow> list_all (\<lambda>m. distinct (users_of m)) ms"

text \<open>The statements of other tables leave those of groups alone.\<close>

abbreviation other_writes :: "('w, 'r) db_env \<Rightarrow> string set" where
  "other_writes E \<equiv> texts E (contact_formats @ message_formats @ file_formats)"

lemma effect_exact:
  assumes "group_effect d a m k k'" "numbers_exact k" "d \<noteq> 0" "\<And>g. book_groups k g = None \<Longrightarrow> book_known k g = {}"
  shows "numbers_exact k'"
proof -
  have join: "numbers_exact k \<Longrightarrow> numbers_exact (join_book d g us k)" for g us k
    by (rule join_numbers [OF _ assms(3)]) simp_all
  have new: "numbers_exact (new_group u a g k)" if "book_groups k g = None" for u g
  proof -
    have "book_members k g = {}" using assms(2) assms(4) [OF that] by (fastforce simp: numbers_exact_def)
    with assms(2) show ?thesis by (auto simp: numbers_exact_def new_group_def)
  qed
  from assms(1,2) show ?thesis
    by (cases "(d, a, m, k, k')" rule: group_effect.cases)
      (auto simp: Let_def join quit_numbers new split: if_splits)
qed

lemma effect_known:
  assumes "group_effect d a m k k'"
  shows "card (book_known k' g) \<le> card (book_known k g) + length (users_of m)"
proof -
  have join: "card (book_known (join_book d h (set us) k) g) \<le> card (book_known k g) + length us" for h us k
    using card_Un_le [of "book_known k g" "set us"] card_length [of us] by (auto simp: join_book_def)
  have "book_known (new_group u a h k) = book_known k" "book_known (quit_book h us k) = book_known k" for u h us
    by (simp_all add: new_group_def quit_book_def)
  with assms join [of _ _ k] join [of _ _ "new_group _ a _ k"] show ?thesis
    by (cases "(d, a, m, k, k')" rule: group_effect.cases) (auto simp: Let_def split: if_splits)
qed

subsection \<open>The handlers\<close>

lemma world_send [simp]:
  "world (snd (run_state (SendSessionData ctx sid r) s)) = world s"
  "world (snd (run_state (SendSessionData_checked ctx sid r) s)) = world s"
  by (rule frame_send [where f = "\<lambda>w. w", unfolded preserves_def, rule_format])+

lemma change_member_world:
  assumes "attach_data_type req = kAttachDataTypeDB"
    and "run_state (GetGroupInfo E (GroupChangeMemberRequest.group_id req) (local_GroupInfo H)) s = ((found, grp), s1)"
  shows "world (snd (run_state (GroupChangeMemberRequestHandler_Execute E H (Some i) sid req) s)) =
    (if \<not> found then world s1
     else if GroupChangeMemberRequest.change_type req = 0
     then world (snd (run_state (JoinGroup E (GroupChangeMemberRequest.user_list req)
       (GroupChangeMemberRequest.group_id req) grp) s1))
     else world (snd (run_state (QuitGroup E (GroupChangeMemberRequest.req_user_id req)
       (GroupChangeMemberRequest.user_list req) (GroupChangeMemberRequest.group_id req) grp) s1)))"
  using assms
  by (simp add: GroupChangeMemberRequestHandler_Execute_def deref_def GetAttachData_def HasAttachData_def Let_def
      case_prod_unfold)

lemma create_group_world:
  assumes "attach_data_type req = kAttachDataTypeDB"
  shows "world (snd (run_state (GroupCreateTmpGroupRequestHandler_Execute E H (Some i) sid req) s)) =
    world (snd (run_state (CreateGroup E (GroupCreateTmpGroupRequest.req_user_id req)
      (GroupCreateTmpGroupRequest.group_name req) 2 (GroupCreateTmpGroupRequest.group_avatar req) ''''
      (GroupCreateTmpGroupRequest.user_list req) (local_GroupInfo H)) s))"
  using assms
  by (simp add: GroupCreateTmpGroupRequestHandler_Execute_def deref_def GetAttachData_def HasAttachData_def Let_def
      case_prod_unfold)

text \<open>Every request has its effect on the tables, whoever sent it and whatever is answered.\<close>

lemma group_request_effect:
  assumes db: "member_db E tables d a" and frame: "untouched E tables (other_writes E)"
    and m: "request_ok m" "distinct (users_of m)"
    and ok: "rows_ok (tables (world s))" "numbers_exact (group_book_of (tables (world s)))"
    and room: "room_for (length (users_of m)) (group_book_of (tables (world s)))"
    and step: "s' = snd (run_state (DispatchMessageHandler E H (Some i) sid m) s)"
  shows "rows_ok (tables (world s'))"
    "group_effect d a m (group_book_of (tables (world s))) (group_book_of (tables (world s')))"
proof -
  let ?T = "tables (world s)"
  have s': "s' = snd (run_state (execute_handler (handler_for (request_class_of m)) E H (Some i) sid m) s)"
    if "request_class_of m \<noteq> Class_GroupHistoryMsgRequest"
    unfolding step dispatch_request [OF m(1) that] by (simp add: case_prod_unfold)
  have other: "tables (world s') = tables (world s)"
    if "request_class_of m \<notin> {Class_GroupChangeMemberRequest, Class_GroupCreateTmpGroupRequest}"
  proof -
    have "untouched E tables (written_by E (request_class_of m))"
      using frame that by (elim untouched_mono) (auto simp: written_by_def texts_def split: request_class.split)
    then show ?thesis unfolding step by (rule dispatch_frame [OF m(1), unfolded preserves_def, rule_format])
  qed
  have number: "group_number r \<le> card (known_of (member_rows ?T) g) \<and> group_number r = card (members_of (member_rows ?T) g)"
    if "group_rows ?T g = Some r" for g r
    using ok(2) that card_mono [OF _ members_known] by (auto simp: numbers_exact_def group_book_of_def)
  have size: "card (known_of (member_rows ?T) g) + length (users_of m) < 2 ^ 31" for g
    using room by (simp add: room_for_def group_book_of_def)
  have "rows_ok (tables (world s')) \<and> group_effect d a m (group_book_of ?T) (group_book_of (tables (world s')))"
  proof (cases m)
    case (Rq_GroupChangeMemberRequest q)
    let ?g = "GroupChangeMemberRequest.group_id q" let ?us = "GroupChangeMemberRequest.user_list q"
    let ?u = "GroupChangeMemberRequest.req_user_id q"
    have at: "attach_data_type q = kAttachDataTypeDB"
      using m(1) by (simp add: Rq_GroupChangeMemberRequest request_ok_def pdu_kind_def base_pdu.defs)
    obtain found grp s1 where info: "run_state (GetGroupInfo E ?g (local_GroupInfo H)) s = ((found, grp), s1)"
      "tables (world s1) = ?T" "found \<longleftrightarrow> ?g \<noteq> 0 \<and> is_active ?g (group_rows ?T)"
      "found \<longrightarrow> GroupInfo.group_id grp = ?g \<and>
         (\<exists>r. group_rows ?T ?g = Some r \<and> GroupInfo.group_creator_id grp = group_owner r)"
      using GetGroupInfo_book [OF db] by blast
    have w: "world s' = (if \<not> found then world s1
       else if GroupChangeMemberRequest.change_type q = 0 then world (snd (run_state (JoinGroup E ?us ?g grp) s1))
       else world (snd (run_state (QuitGroup E ?u ?us ?g grp) s1)))"
      using change_member_world [OF at info(1)] by (simp add: s' Rq_GroupChangeMemberRequest)
    show ?thesis
    proof (cases "found \<and> ?us \<noteq> []")
      case False
      then have "world s' = world s1" by (auto simp: w JoinGroup_def QuitGroup_def)
      with False info(2,3) ok(1) show ?thesis
        by (auto simp: Rq_GroupChangeMemberRequest Let_def group_book_of_def)
    next
      case True
      with info(3,4) obtain r where r: "group_rows ?T ?g = Some r" "GroupInfo.group_creator_id grp = group_owner r"
        "GroupInfo.group_id grp = ?g" "?g \<noteq> 0" "is_active ?g (group_rows ?T)" by auto
      have eff: "group_effect d a m (group_book_of ?T) k \<longleftrightarrow> k =
          (if GroupChangeMemberRequest.change_type q = 0 then join_book d ?g (set ?us) (group_book_of ?T)
           else if owned_by ?u ?g (group_book_of ?T) then quit_book ?g (set ?us) (group_book_of ?T)
           else group_book_of ?T)" for k
      proof -
        have "is_active ?g (book_groups (group_book_of ?T))" using r(5) by (simp add: group_book_of_def)
        with True r(4) show ?thesis by (simp only: Rq_GroupChangeMemberRequest group_effect.simps Let_def) simp
      qed
      have fits: "group_number r + length ?us < 2 ^ 31"
        using number [OF r(1)] size [of ?g] by (simp add: Rq_GroupChangeMemberRequest)
      show ?thesis
      proof (cases "GroupChangeMemberRequest.change_type q = 0")
        case join: True
        have us: "?us \<noteq> []" "distinct ?us" using True m(2) by (simp_all add: Rq_GroupChangeMemberRequest)
        from JoinGroup_book [OF db, of s1 ?us ?g grp r, unfolded info(2), OF ok(1) us r(4) r(3) [symmetric] r(1) fits]
        obtain s2 where s2: "run_state (JoinGroup E ?us ?g grp) s1 = (True, s2)" "rows_ok (tables (world s2))"
          "group_book_of (tables (world s2)) = join_book d ?g (set ?us) (group_book_of ?T)" by blast
        from True join s2(1) have "world s' = world s2" by (simp add: w)
        then show ?thesis by (simp only: eff s2(2,3) join if_True simp_thms)
      next
        case quit: False
        show ?thesis
        proof (cases "owned_by ?u ?g (group_book_of ?T)")
          case owner: True
          then have u: "?u \<noteq> 0" "?u = GroupInfo.group_creator_id grp"
            using r(1,2) by (auto simp: owned_by_def group_book_of_def)
          have us: "?us \<noteq> []" "group_number r < 2 ^ 32" using True fits by simp_all
          from QuitGroup_book [OF db, of s1 ?us ?g ?u grp r, unfolded info(2), OF ok(1) us(1) r(4) u r(3) [symmetric] r(1)
              conjunct2 [OF number [OF r(1)]] us(2)]
          obtain s2 where s2: "run_state (QuitGroup E ?u ?us ?g grp) s1 = (True, s2)" "rows_ok (tables (world s2))"
            "group_book_of (tables (world s2)) = quit_book ?g (set ?us) (group_book_of ?T)" by blast
          from True quit s2(1) have "world s' = world s2" by (simp add: w)
          then show ?thesis by (simp only: eff s2(2,3) quit owner if_True if_False simp_thms)
        next
          case other: False
          then have "?u = 0 \<or> ?u \<noteq> GroupInfo.group_creator_id grp"
            using r(1,2) by (auto simp: owned_by_def group_book_of_def)
          then have "run_state (QuitGroup E ?u ?us ?g grp) s1 = (False, s1)" by (auto simp: QuitGroup_def)
          with True quit have "world s' = world s1" by (simp add: w)
          then show ?thesis using ok(1) by (simp only: eff info(2) quit other if_False simp_thms)
        qed
      qed
    qed
  next
    case (Rq_GroupCreateTmpGroupRequest q)
    let ?us = "GroupCreateTmpGroupRequest.user_list q"
    have at: "attach_data_type q = kAttachDataTypeDB"
      using m(1) by (simp add: Rq_GroupCreateTmpGroupRequest request_ok_def pdu_kind_def base_pdu.defs)
    have "distinct ?us" "length ?us < 2 ^ 31"
      using m(2) size [of 0] by (simp_all add: Rq_GroupCreateTmpGroupRequest)
    from CreateGroup_book [OF db ok(1) this, of "GroupCreateTmpGroupRequest.req_user_id q"
        "GroupCreateTmpGroupRequest.group_name q" 2 "GroupCreateTmpGroupRequest.group_avatar q" "''''" "local_GroupInfo H"]
      create_group_world [OF at, of E H i sid s]
    show ?thesis
      by (auto simp: s' Rq_GroupCreateTmpGroupRequest Let_def group_book_of_def)
  qed (use ok(1) other in simp_all)
  then show "rows_ok (tables (world s'))"
    "group_effect d a m (group_book_of (tables (world s))) (group_book_of (tables (world s')))" by blast+
qed

subsection \<open>Sequences of requests\<close>

lemma room_for_mono: "room_for n k \<Longrightarrow> n' \<le> n \<Longrightarrow> room_for n' k"
  unfolding room_for_def by (meson add_left_mono le_less_trans)

lemma run_known:
  "group_run d a ms k k' \<Longrightarrow> card (book_known k' g) \<le> card (book_known k g) + users_named ms"
proof (induction rule: requests_run.induct)
  case (first_request m k k' ms k'')
  with effect_known [OF first_request.hyps(1), of g] show ?case by (simp add: users_named_def)
qed (simp add: users_named_def)

lemma run_room:
  assumes "group_run d a ms k k'" "room_for (users_named (ms @ ms')) k"
  shows "room_for (users_named ms') k'"
  unfolding room_for_def
proof
  fix g
  show "card (book_known k' g) + users_named ms' < 2 ^ 31"
    using spec [OF assms(2) [unfolded room_for_def], of g] run_known [OF assms(1), of g]
    by (simp add: users_named_def)
qed

text \<open>The owner of a group never changes, and members leave only when its owner says so.\<close>

lemma effect_owner:
  "group_effect d a m k k' \<Longrightarrow> book_groups k g = Some r \<Longrightarrow>
   \<exists>r'. book_groups k' g = Some r' \<and> group_owner r' = group_owner r"
  by (cases "(d, a, m, k, k')" rule: group_effect.cases)
    (auto simp: Let_def join_book_def quit_book_def new_group_def split: if_splits)

definition removes :: "request \<Rightarrow> u32 \<Rightarrow> u32 \<Rightarrow> u32 \<Rightarrow> bool" where
  "removes m owner g u \<longleftrightarrow> (\<exists>q. m = Rq_GroupChangeMemberRequest q \<and> GroupChangeMemberRequest.change_type q \<noteq> 0 \<and>
     GroupChangeMemberRequest.group_id q = g \<and> GroupChangeMemberRequest.req_user_id q = owner \<and>
     u \<in> set (GroupChangeMemberRequest.user_list q))"

lemma effect_removes:
  assumes "group_effect d a m k k'" "book_groups k g = Some r" "u \<in> book_members k g" "u \<notin> book_members k' g"
  shows "removes m (group_owner r) g u"
  using assms
  by (cases "(d, a, m, k, k')" rule: group_effect.cases)
    (auto simp: Let_def join_book_def quit_book_def new_group_def removes_def owned_by_def split: if_splits)

lemma run_removes:
  assumes "group_run d a ms k k'" "book_groups k g = Some r" "u \<in> book_members k g" "u \<notin> book_members k' g"
  shows "\<exists>m \<in> set ms. removes m (group_owner r) g u"
  using assms
proof (induction arbitrary: r rule: requests_run.induct)
  case (first_request m k k1 ms k')
  from effect_owner [OF first_request.hyps(1) first_request.prems(1)] obtain r1 where
    r1: "book_groups k1 g = Some r1" "group_owner r1 = group_owner r" by blast
  show ?case
  proof (cases "u \<in> book_members k1 g")
    case True
    with first_request.IH [OF r1(1) _ first_request.prems(3)] r1(2) show ?thesis by auto
  next
    case False
    from effect_removes [OF first_request.hyps(1) first_request.prems(1,2) False] show ?thesis by auto
  qed
qed simp

subsection \<open>The list of members\<close>

lemma fold_user_list:
  "fold (\<lambda>x r. r\<lparr>GroupUserListResponse.user_list := GroupUserListResponse.user_list r @ [rel_user_id x]\<rparr>) xs r =
     r\<lparr>GroupUserListResponse.user_list := GroupUserListResponse.user_list r @ map rel_user_id xs\<rparr>"
  by (induction xs arbitrary: r) simp_all

lemma preserved: "preserves f p \<Longrightarrow> run_state p s = (x, s1) \<Longrightarrow> f s1 = f s"
  unfolding preserves_def by (metis snd_conv)

lemma group_user_list:
  assumes db: "member_db E tables d a" and ok: "rows_ok (tables (world s))"
    and at: "attach_data_type req = kAttachDataTypeDB"
  defines "g \<equiv> GroupUserListRequest.group_id req"
  defines "k \<equiv> group_book_of (tables (world s))"
  shows "\<exists>r s'. run_state (GroupUserListRequestHandler_Execute E H (Some i) sid req) s = (Some 0, s') \<and>
    tables (world s') = tables (world s) \<and>
    outbox s' = outbox s @ [(sid, Reply (Rs_GroupUserListResponse r))] \<and>
    GroupUserListResponse.group_id r = g \<and>
    (if g \<noteq> 0 \<and> is_active g (book_groups k)
     then GroupUserListResponse.result r = 0 \<and> map_option group_owner (book_groups k g) = Some (GroupUserListResponse.group_creator_id r) \<and>
       distinct (GroupUserListResponse.user_list r) \<and>
       set (GroupUserListResponse.user_list r) \<subseteq> book_members k g \<and>
       length (GroupUserListResponse.user_list r) = min 10000 (card (book_members k g))
     else GroupUserListResponse.result r = 1 \<and> GroupUserListResponse.user_list r = [])"
proof -
  let ?T = "tables (world s)"
  obtain found grp s1 where info: "run_state (GetGroupInfo E g (local_GroupInfo H)) s = ((found, grp), s1)"
    "tables (world s1) = ?T" "found \<longleftrightarrow> g \<noteq> 0 \<and> is_active g (group_rows ?T)"
    "found \<longrightarrow> GroupInfo.group_id grp = g \<and>
       (\<exists>r. group_rows ?T g = Some r \<and> GroupInfo.group_creator_id grp = group_owner r)"
    using GetGroupInfo_book [OF db] by blast
  have out1: "outbox s1 = outbox s"
    by (rule preserved [OF preserves_more_outbox info(1)]) (rule GroupManager_queries_conns)
  show ?thesis
  proof (cases found)
    case False
    with info at out1 show ?thesis
      by (auto simp: GroupUserListRequestHandler_Execute_def deref_def GetAttachData_def HasAttachData_def
          Let_def g_def [symmetric] SendSessionData_checked_def SendSessionData_def serializable_def SetAttachData_def
          GroupUserListResponse_ctor_def k_def group_book_of_def)
  next
    case True
    then have g: "g \<noteq> 0" "is_active g (group_rows ?T)" using info(3) by simp_all
    obtain rs s2 where rs: "run_state (GetGroupMembers E g []) s1 = ((length rs, rs), s2)"
      "tables (world s2) = tables (world s1)" "distinct (map rel_user_id rs)"
      "set (map rel_user_id rs) \<subseteq> members_of (member_rows ?T) g"
      "length rs = min 10000 (card (members_of (member_rows ?T) g))"
      using GetGroupMembers_book [OF db, of s1 g] ok g(1) unfolding info(2) by blast
    have out2: "outbox s2 = outbox s1"
      by (rule preserved [OF preserves_more_outbox rs(1)]) (rule GroupManager_queries_conns)
    from info(4) True obtain r where r: "group_rows ?T g = Some r" "GroupInfo.group_creator_id grp = group_owner r" by blast
    from True info(1,2) at out1 out2 rs r g show ?thesis
      by (simp add: GroupUserListRequestHandler_Execute_def deref_def GetAttachData_def HasAttachData_def
          Let_def g_def [symmetric] SendSessionData_checked_def SendSessionData_def serializable_def SetAttachData_def
          GroupUserListResponse_ctor_def k_def group_book_of_def fold_user_list)
  qed
qed

end
