(* ===== verification/Group_Sample.thy ===== *)
theory Group_Sample
  imports Group_Service Contact_Book
begin

text \<open>
  A database that keeps the tables of groups and members, so that the hypotheses on it can hold: the text of
  a statement is two characters of its format, which tell its statements apart, and the numbers in it, four
  characters each; a row is the list of its columns; other statements do nothing. New rows get the status 1, new groups are active; a group is created with the id
  7 unless there is one.
\<close>

definition mark :: "string \<Rightarrow> string" where
  "mark f = [f ! 9, f ! 41]"

definition enc_int :: "u32 \<Rightarrow> string" where
  "enc_int n = string_of_bytes (be32 n)"

fun enc_arg :: "sql_arg \<Rightarrow> string" where
  "enc_arg (AInt n) = enc_int n"
| "enc_arg (AStr s) = s"
| "enc_arg (AInt64 n) = ''''"

definition member_text :: "string \<Rightarrow> sql_arg list \<Rightarrow> string" where
  "member_text f args = mark f @ concat (map enc_arg args)"

definition group_text :: "string \<Rightarrow> sql_arg list \<Rightarrow> string" where
  "group_text f args = mark f @ concat (map enc_arg (filter (\<lambda>a. case a of AInt n \<Rightarrow> True | _ \<Rightarrow> False) args))"

fun dec_words :: "string \<Rightarrow> u32 list" where
  "dec_words [] = []"
| "dec_words (x # xs) = dec_arg 0 (x # xs) # dec_words (drop 3 xs)"

text \<open>The groups and users of the tuples of an insertion.\<close>

fun dec_tuples :: "string \<Rightarrow> (u32 \<times> u32) list" where
  "dec_tuples [] = []"
| "dec_tuples (x # xs) = (dec_arg 0 (tl xs), dec_arg 1 (tl xs)) # dec_tuples (drop 27 xs)"

abbreviation (input) "G_stat \<equiv> ''SELECT status,userId FROM IMGroupRelation WHERE groupId = %d AND userId IN (%s) GROUP BY userId ORDER BY id''"
abbreviation (input) "G_stat' \<equiv> ''SELECT status,userId FROM IMGroupRelation WHERE groupId = %d AND userId in (%s) GROUP BY userId ORDER BY id''"
abbreviation (input) "G_list \<equiv> ''SELECT groupId,userId FROM IMGroupRelation WHERE groupId=%d AND status >= 1 ORDER BY created ASC LIMIT 10000''"
abbreviation (input) "G_info \<equiv> ''SELECT groupId,groupName,avatar,createUserId,groupType,updated FROM IMGroup WHERE groupId=%d AND status>=1''"
abbreviation (input) "G_new \<equiv> ''INSERT INTO IMGroup(`groupName`,`avatar`,`adesc`,`createUserId`,`groupType`,`memberCnt`,`created`,`updated`) VALUES(:1,:2,:3,:4,:5,0,:7,:8)''"
abbreviation (input) "G_show \<equiv> ''UPDATE IMGroupRelation SET status = 1 WHERE groupId = %d AND userId IN (%s)''"
abbreviation (input) "G_hide \<equiv> ''UPDATE IMGroupRelation SET status = 0, updated=%d  WHERE groupId = %d AND userId IN (%s)''"
abbreviation (input) "G_add \<equiv> ''UPDATE IMGroup SET memberCnt = memberCnt + %d WHERE groupId = %d LIMIT 1''"
abbreviation (input) "G_sub \<equiv> ''UPDATE IMGroup SET memberCnt = memberCnt - %d, updated = %d WHERE groupId = %d LIMIT 1''"

text \<open>The answers and effects, given the numbers of a statement.\<close>

definition update_rows :: "u32 \<Rightarrow> u32 list \<Rightarrow> u32 \<Rightarrow> member_tables \<Rightarrow> int \<times> member_tables" where
  "update_rows g us v T = (int (length (filter (named g us) (member_rows T))),
     T\<lparr>member_rows := set_members (named g us) v (member_rows T)\<rparr>)"

definition update_number :: "u32 \<Rightarrow> (nat \<Rightarrow> nat) \<Rightarrow> member_tables \<Rightarrow> int \<times> member_tables" where
  "update_number g f T = (1, T\<lparr>group_rows := (group_rows T)
     (g := map_option (\<lambda>r. r\<lparr>group_number := f (group_number r)\<rparr>) (group_rows T g))\<rparr>)"

definition insert_rows :: "(u32 \<times> u32) list \<Rightarrow> member_tables \<Rightarrow> int \<times> member_tables" where
  "insert_rows ts T = (int (length ts),
     T\<lparr>member_rows := member_rows T @ map (\<lambda>(g, u). new_member 1 g u) ts\<rparr>)"

definition member_query :: "string \<Rightarrow> member_tables \<Rightarrow> u32 list list" where
  "member_query sql T =
     (let x = drop 2 sql; g = dec_arg 0 x
      in if take 2 sql = mark G_stat
         then map (\<lambda>r. [row_status r, row_user r]) (filter (named g (dec_words (drop 4 x))) (member_rows T))
         else if take 2 sql = mark G_list
         then map (\<lambda>r. [row_group r, row_user r])
           (take 10000 (filter (\<lambda>r. row_group r = g \<and> row_status r \<noteq> 0) (member_rows T)))
         else (case group_rows T g of
             None \<Rightarrow> []
           | Some r \<Rightarrow> if group_active r then [[g, 0, 0, group_owner r, 0, 0]] else []))"

definition member_execute :: "string \<Rightarrow> member_tables \<Rightarrow> int \<times> member_tables" where
  "member_execute sql T =
     (let x = drop 2 sql
      in if take 2 sql = mark G_show then update_rows (dec_arg 0 x) (dec_ids (drop 4 x)) 1 T
         else if take 2 sql = mark G_hide then update_rows (dec_arg 1 x) (dec_ids (drop 8 x)) 0 T
         else if take 2 sql = mark G_add then update_number (dec_arg 1 x) (\<lambda>c. c + unat (dec_arg 0 x)) T
         else if take 2 sql = mark G_sub then update_number (dec_arg 2 x) (\<lambda>c. c - unat (dec_arg 0 x)) T
         else if take 2 sql = ''IN'' then insert_rows (dec_tuples (drop 100 sql)) T
         else (0, T))"

definition member_env :: "(member_tables, u32 list) db_env" where
  "member_env = \<lparr>
     db_query = (\<lambda>sql T. (Some (member_query sql T), T)),
     db_execute = member_execute,
     db_insert_id = (\<lambda>sql T. if take 2 sql = mark G_new \<and> group_rows T 7 = None
       then (7, T\<lparr>group_rows := (group_rows T)
         (7 \<mapsto> \<lparr>group_number = 0, group_owner = dec_arg 0 (drop 2 sql), group_active = True\<rparr>)\<rparr>)
       else (0, T)),
     now_ms = (\<lambda>w. (0, w)), row_u32 = (\<lambda>r i x. if i < length r then r ! i else x), row_str = (\<lambda>r i x. x),
     ret_u32 = (\<lambda>r i x. (True, if i < length r then r ! i else x)), ret_str = (\<lambda>r i x. (True, x)), uninit_u32 = 0,
     fmt_printf = member_text, fmt_query = group_text,
     fmt_join = (\<lambda>xs c. concat (map enc_int xs)), fmt_join_str = (\<lambda>xs c. []), fmt_uint = enc_int\<rparr>"

subsection \<open>Reading texts\<close>

lemma length_enc_int [simp]: "length (enc_int n) = 4"
  by (simp add: enc_int_def length_enc)

lemma enc_int_ne [simp]: "enc_int n \<noteq> []"
  using length_enc_int [of n] by (metis list.size(3) zero_neq_numeral)

lemma dec_arg_enc [simp]:
  "dec_arg 0 (enc_int a @ r) = a" "dec_arg 0 (enc_int a) = a" "dec_arg (Suc k) (enc_int a @ r) = dec_arg k r"
  using dec_enc4(1) [of a "[]"] by (simp_all add: enc_int_def dec_enc4)

lemma dec_arg_next:
  "dec_arg 1 (enc_int a @ r) = dec_arg 0 r" "dec_arg 2 (enc_int a @ r) = dec_arg 1 r"
  by (simp_all add: numeral_2_eq_2)

lemma drop_enc [simp]: "drop 4 (enc_int a @ r) = r" "drop 8 (enc_int a @ enc_int b @ r) = r"
  by simp_all

lemma enc_int_cases: obtains x y z u where "enc_int i = [x, y, z, u]"
proof -
  have "length (enc_int i) = Suc (Suc (Suc (Suc 0)))" by simp
  with that show thesis by (auto simp only: length_Suc_conv length_0_conv)
qed

lemma dec_words_enc: "dec_words (concat (map enc_int us)) = us"
proof (induction us)
  case (Cons i us)
  obtain x y z u where e: "enc_int i = [x, y, z, u]" by (rule enc_int_cases)
  have "dec_arg 0 ([x, y, z, u] @ r) = i" for r unfolding e [symmetric] by simp
  with Cons show ?case by (simp add: e eval_nat_numeral)
qed simp

lemma dec_ids_separated: "dec_ids (separated '','' (map enc_int us)) = us"
proof (induction us)
  case (Cons i us)
  have step: "dec_ids (enc_int i @ r) = i # dec_ids (drop 1 r)" for r
    unfolding enc_int_def by (rule dec_ids_enc)
  show ?case
  proof (cases us)
    case Nil
    then show ?thesis using step [of "[]"] by simp
  next
    case (Cons j js)
    then have "separated '','' (map enc_int (i # us)) = enc_int i @ '','' @ separated '','' (map enc_int us)" by simp
    then show ?thesis using step Cons.IH by simp
  qed
qed simp

lemma member_text_simps [simp]:
  "take 2 (member_text f args) = mark f" "drop 2 (member_text f args) = concat (map enc_arg args)"
  by (simp_all add: member_text_def mark_def)

lemma member_env_formats:
  "fmt_printf member_env = member_text" "fmt_query member_env = group_text" "fmt_uint member_env = enc_int"
  "fmt_join member_env us c = concat (map enc_int us)"
  by (simp_all add: member_env_def)

lemma dec_tuples_values: "dec_tuples (separated '', '' (map (member_values member_env g grp now) us)) = map (Pair g) us"
proof (induction us)
  case (Cons u us)
  let ?v = "\<lambda>u. mark ''(%d,%d,%d,%d,%d,%d)'' @ enc_int g @ enc_int u @
     enc_int (if GroupInfo.group_creator_id grp = u then 1 else 0) @ enc_int (GroupInfo.group_type grp) @
     enc_int now @ enc_int now"
  have v: "member_values member_env g grp now = ?v"
    by (rule ext) (simp add: member_values_def member_env_formats member_text_def)
  have step: "dec_tuples (?v u @ r) = (g, u) # dec_tuples (drop 2 r)" for r
    by (simp add: mark_def)
  show ?case
  proof (cases us)
    case Nil
    then show ?thesis unfolding v using step [of "[]"] by simp
  next
    case (Cons j js)
    then have "separated '', '' (map ?v (u # us)) = ?v u @ '', '' @ separated '', '' (map ?v us)" by simp
    then show ?thesis unfolding v using step Cons.IH [unfolded v] by simp
  qed
qed simp

subsection \<open>The hypotheses hold\<close>

lemma marks:
  "mark G_stat' = mark G_stat" "mark G_list \<noteq> mark G_stat" "mark G_info \<noteq> mark G_stat" "mark G_info \<noteq> mark G_list"
  "mark G_hide \<noteq> mark G_show" "mark G_add \<noteq> mark G_show" "mark G_add \<noteq> mark G_hide"
  "mark G_sub \<noteq> mark G_show" "mark G_sub \<noteq> mark G_hide" "mark G_sub \<noteq> mark G_add"
  "mark G_show \<noteq> ''IN''" "mark G_hide \<noteq> ''IN''" "mark G_add \<noteq> ''IN''" "mark G_sub \<noteq> ''IN''"
  by (simp_all add: mark_def)

lemma member_env_run:
  "db_query member_env sql T = (Some (member_query sql T), T)" "db_execute member_env sql T = member_execute sql T"
  "now_ms member_env w = (0, w)" "row_u32 member_env r i x = (if i < length r then r ! i else x)"
  "ret_u32 member_env r i x = (True, if i < length r then r ! i else x)" "ret_str member_env r i t = (True, t)"
  by (simp_all add: member_env_def)

lemma member_queries:
  "member_query (select_join member_env g us) T =
     map (\<lambda>r. [row_status r, row_user r]) (filter (named g us) (member_rows T))"
  "member_query (select_quit member_env g us) T =
     map (\<lambda>r. [row_status r, row_user r]) (filter (named g us) (member_rows T))"
  "member_query (select_members member_env g) T = map (\<lambda>r. [row_group r, row_user r])
     (take 10000 (filter (\<lambda>r. row_group r = g \<and> row_status r \<noteq> 0) (member_rows T)))"
  "member_query (select_group member_env g) T = (case group_rows T g of
      None \<Rightarrow> []
    | Some r \<Rightarrow> if group_active r then [[g, 0, 0, group_owner r, 0, 0]] else [])"
  unfolding select_join_def select_quit_def select_members_def select_group_def member_env_formats member_query_def Let_def
  by (simp_all only: member_text_simps marks if_True if_False list.map enc_arg.simps concat.simps append_Nil2
      dec_arg_enc drop_enc dec_words_enc simp_thms)

lemma member_executes:
  "member_execute (show_members member_env g us) T = update_rows g us 1 T"
  "member_execute (hide_members member_env now g us) T = update_rows g us 0 T"
  "member_execute (add_count member_env n g) T = update_number g (\<lambda>c. c + unat n) T"
  "member_execute (sub_count member_env n now g) T = update_number g (\<lambda>c. c - unat n) T"
  unfolding show_members_def hide_members_def add_count_def sub_count_def comma_list_def member_env_formats
    member_execute_def Let_def
  by (simp_all only: member_text_simps marks if_True if_False list.map enc_arg.simps concat.simps append_Nil2
      dec_arg_enc dec_arg_next drop_enc dec_ids_separated simp_thms)

lemma member_insert:
  "member_execute (insert_members member_env g grp now us) T = insert_rows (map (Pair g) us) T"
proof -
  let ?p = "''INSERT INTO IMGroupRelation(`groupId`, `userId`, `title`, `groupType`, `created`, `updated`) VALUES ''"
  let ?x = "separated '', '' (map (member_values member_env g grp now) us)"
  have t: "take 2 (?p @ ?x) = ''IN''" "drop 100 (?p @ ?x) = ?x" by simp_all
  show ?thesis
    unfolding insert_members_def member_execute_def Let_def t
    by (simp only: marks(11-14) [symmetric] if_True if_False dec_tuples_values simp_thms)
qed

lemma member_env_db: "member_db member_env (\<lambda>T. T) 1 True"
proof -
  have "answers_statuses member_env (\<lambda>T. T)"
    unfolding answers_statuses_def
  proof (intro allI ballI impI)
    fix w g us sql
    assume "sql \<in> {select_join member_env g us, select_quit member_env g us}"
    then have q: "member_query sql w = map (\<lambda>r. [row_status r, row_user r]) (filter (named g us) (member_rows w))"
      by (auto simp: member_queries)
    show "\<exists>rows w' rs. db_query member_env sql w = (Some rows, w') \<and> w' = w \<and>
        mset rs = mset (filter (named g us) (member_rows w)) \<and>
        list_all2 (\<lambda>row r. (\<forall>x. row_u32 member_env row 0 x = row_status r) \<and>
          (\<forall>x. row_u32 member_env row 1 x = row_user r)) rows rs"
      by (intro exI conjI, unfold member_env_run(1) q, rule refl, rule refl, rule refl)
        (simp add: member_env_run list_all2_map1 list_all2_same)
  qed
  moreover have "inserts_members member_env (\<lambda>T. T) 1"
    by (simp add: inserts_members_def member_env_run member_insert insert_rows_def comp_def)
  moreover have "updates_members member_env (\<lambda>T. T)"
    by (simp add: updates_members_def member_env_run member_executes update_rows_def)
  moreover have "counts_members member_env (\<lambda>T. T)"
    by (simp add: counts_members_def member_env_run member_executes update_number_def)
  moreover have "answers_members member_env (\<lambda>T. T)"
    unfolding answers_members_def member_env_run(1) member_queries
    by (intro allI exI conjI, rule refl, rule refl, rule limited_take)
      (simp add: member_env_run list_all2_map1 list_all2_same)
  moreover have "answers_group member_env (\<lambda>T. T)"
    unfolding answers_group_def member_env_run(1) member_queries
    by (auto simp: member_env_run is_active_def split: option.splits if_splits)
  moreover have "inserts_group member_env (\<lambda>T. T) True"
  proof -
    have "take 2 (insert_group member_env [AStr n, AStr av, AStr ad, AInt u, AInt t, AInt now, AInt now]) = mark G_new"
      "dec_arg 0 (drop 2 (insert_group member_env [AStr n, AStr av, AStr ad, AInt u, AInt t, AInt now, AInt now])) = u"
      for n av ad u t now
      by (simp_all add: insert_group_def member_env_formats group_text_def mark_def)
    then show ?thesis by (simp add: inserts_group_def member_env_def)
  qed
  ultimately show ?thesis by (simp add: member_db_def member_env_run member_env_formats)
qed

text \<open>The statements of other tables do nothing.\<close>

lemma other_marks:
  assumes "f \<in> set (contact_formats @ message_formats @ file_formats)"
  shows "mark f \<notin> {mark G_show, mark G_hide, mark G_add, mark G_sub, mark G_new, ''IN''}"
  using assms by (auto simp: contact_formats_def message_formats_def file_formats_def mark_def)

lemma member_env_frame: "untouched member_env (\<lambda>T. T) (other_writes member_env)"
  unfolding untouched_def
proof (intro conjI allI ballI)
  fix sql w assume "sql \<in> other_writes member_env"
  then obtain f args where f: "f \<in> set (contact_formats @ message_formats @ file_formats)"
    and "sql = member_text f args \<or> sql = group_text f args"
    unfolding texts_def member_env_formats by auto
  then have "take 2 sql = mark f" by (auto simp: group_text_def mark_def)
  with other_marks [OF f] show "snd (db_execute member_env sql w) = w" "snd (db_insert_id member_env sql w) = w"
    by (auto simp: member_env_run member_execute_def Let_def, simp add: member_env_def)
qed (simp_all add: member_env_run)

end
