(* ===== verification/Group_Server.thy ===== *)
theory Group_Server
  imports Group_Service
begin

text \<open>
  The groups over any run of the server, whatever requests are handled, from whatever sessions and by
  whichever threads.
\<close>

text \<open>The groups over a run.\<close>

lemma server_groups:
  fixes E :: "('w, 'r) db_env"
  assumes db: "member_db E tables d a" and frame: "untouched E tables (other_writes E)" and d: "d \<noteq> 0"
    and run: "server_run N E s tr s'" and N: "parser_ok N"
    and ok: "rows_ok (tables (world (server s)))" "numbers_exact (group_book_of (tables (world (server s))))"
  defines "k \<equiv> group_book_of (tables (world (server s)))"
  defines "ms \<equiv> requests_of N (all_handled tr)"
  assumes fits: "users_distinct ms" "room_for (users_named ms) k"
  shows "group_run d a ms k (group_book_of (tables (world (server s'))))"
    "rows_ok (tables (world (server s')))" "numbers_exact (group_book_of (tables (world (server s'))))"
proof -
  let ?P = "\<lambda>ms w. users_distinct ms \<and> room_for (users_named ms) k \<longrightarrow>
    group_run d a ms k (group_book_of (tables w)) \<and> rows_ok (tables w) \<and> numbers_exact (group_book_of (tables w))"
  have "?P ms (world (server s'))"
    unfolding ms_def
  proof (rule run_world [OF run N])
    show "?P [] (world (server s))" using ok by (simp add: k_def requests_run.no_requests)
    fix ms H i sid m and t :: "'w server_state"
    assume IH: "?P ms (world t)" and m: "request_ok m"
    let ?t = "snd (run_state (DispatchMessageHandler E H (Some i) sid m) t)"
    show "?P (ms @ [m]) (world ?t)"
    proof
      assume prem: "users_distinct (ms @ [m]) \<and> room_for (users_named (ms @ [m])) k"
      then have "users_distinct ms" "distinct (users_of m)" "room_for (users_named ms) k"
        by (auto simp: users_distinct_def users_named_def intro: room_for_mono)
      with IH have w: "group_run d a ms k (group_book_of (tables (world t)))" "rows_ok (tables (world t))"
        "numbers_exact (group_book_of (tables (world t)))" by auto
      have "room_for (length (users_of m)) (group_book_of (tables (world t)))"
        using run_room [OF w(1), of "[m]"] prem by (simp add: users_named_def)
      note eff = group_request_effect [OF db frame m \<open>distinct (users_of m)\<close> w(2,3) this refl, of H i sid]
      have "book_known (group_book_of (tables (world t))) g = {}"
        if "book_groups (group_book_of (tables (world t))) g = None" for g
        using that new_group_book(3) [OF w(2)] by (simp add: group_book_of_def)
      with eff(2) w(3) d have exact: "numbers_exact (group_book_of (tables (world ?t)))" by (rule effect_exact)
      show "group_run d a (ms @ [m]) k (group_book_of (tables (world ?t))) \<and>
          rows_ok (tables (world ?t)) \<and> numbers_exact (group_book_of (tables (world ?t)))"
        using exact requests_run_snoc [OF w(1) eff(2)] eff(1) by blast
    qed
  qed
  with fits show "group_run d a ms k (group_book_of (tables (world (server s'))))"
    "rows_ok (tables (world (server s')))" "numbers_exact (group_book_of (tables (world (server s'))))"
    by blast+
qed

end
