(* ===== verification/Contact_Server.thy ===== *)
theory Contact_Server
  imports Statement_Frame Contact_Book Server_World
begin

text \<open>
  What each request does to the contact book, from its dispatch down to the table, and the contact book over
  any run of the server.
\<close>

subsection \<open>The service\<close>

text \<open>A text message that passes the checks shows the receiver to the sender; a request to remove the session
  with a user hides this user. The server's own user cannot be removed.\<close>

definition shows_receiver :: "MsgData \<Rightarrow> bool" where
  "shows_receiver q \<longleftrightarrow> \<not> MsgData_invalid q \<and> uint (MsgData.msg_type q) = MESSAGE_TYPE_IM"

definition removes_contact :: "RemoveSessionRequest \<Rightarrow> bool" where
  "removes_contact q \<longleftrightarrow> RemoveSessionRequest.req_user_id q \<noteq> 0 \<and>
     RemoveSessionRequest.session_id q \<notin> {0, SYS_SERVER_USER_ID} \<and> RemoveSessionRequest.session_type q = 1"

fun contact_effect :: "request \<Rightarrow> contact_book \<Rightarrow> contact_book \<Rightarrow> bool" where
  "contact_effect (Rq_MsgData q) k k' \<longleftrightarrow>
     (if shows_receiver q
      then \<exists>i. k' = message_shown (MsgData.from_user_id q) (MsgData.to_user_id q) i k else k' = k)"
| "contact_effect (Rq_RemoveSessionRequest q) k k' \<longleftrightarrow> k' =
     (if removes_contact q
      then hide_friend (RemoveSessionRequest.req_user_id q) (RemoveSessionRequest.session_id q) k else k)"
| "contact_effect m k k' \<longleftrightarrow> k' = k"

text \<open>The statements that write to other tables; the one for messages is part of \<open>book_db\<close>.\<close>

abbreviation foreign_writes :: "('w, 'r) db_env \<Rightarrow> string set" where
  "foreign_writes E \<equiv> texts E (file_formats @ group_formats) \<union> member_inserts"

subsection \<open>The handlers\<close>

lemma send_world: "world (snd (run_state (SendSessionData_checked ctx sid r) s)) = world s"
  by (rule frame_send(2) [where f = "\<lambda>w. w", unfolded preserves_def, rule_format])

lemma MsgData_world:
  "world (snd (run_state (MsgDataHandler_Execute E H ctx sid req) s)) =
     (if MsgData_invalid req then world s else world (snd (run_state (MsgData_send E req) s)))"
  by (simp add: MsgDataHandler_Execute_def case_prod_unfold Let_def send_world)

lemma RemoveSession_world:
  assumes "attach_data_type req = kAttachDataTypeDB"
  shows "world (snd (run_state (RemoveSessionRequestHandler_Execute E H ctx sid req) s)) =
    (let u = RemoveSessionRequest.req_user_id req; i = RemoveSessionRequest.session_id req;
         t = RemoveSessionRequest.session_type req
     in if u = 0 \<or> i = 0 \<or> t = 0 \<or> i = SYS_SERVER_USER_ID then world s
        else if t = 1 then world (snd (run_state (DeleteRecentContactByUserId E u i) s))
        else world (snd (run_state (GetGroupInfo E i (local_GroupInfo H)) s)))"
  using assms
  by (simp add: RemoveSessionRequestHandler_Execute_def deref_def GetAttachData_def HasAttachData_def case_prod_unfold
      Let_def send_world)

lemma contact_request_effect:
  assumes db: "book_db E contacts" and frame: "untouched E contacts (foreign_writes E)" and m: "request_ok m"
    and ok: "contacts_ok (contacts (world s))" "distinct (map contact_id (contacts (world s)))"
    and step: "s' = snd (run_state (DispatchMessageHandler E H (Some i) sid m) s)"
  shows "contacts_ok (contacts (world s')) \<and>
    contact_effect m (book_of (contacts (world s))) (book_of (contacts (world s'))) \<and>
    ids_kept E contacts (world s) (world s')"
proof -
  have s': "s' = snd (run_state (execute_handler (handler_for (request_class_of m)) E H (Some i) sid m) s)"
    if "request_class_of m \<noteq> Class_GroupHistoryMsgRequest"
    unfolding step dispatch_request [OF m(1) that] by (simp add: case_prod_unfold)
  have same: ?thesis if "contacts (world s') = contacts (world s)"
    "contact_effect m (book_of (contacts (world s))) (book_of (contacts (world s)))"
    using that ok(1) by (auto intro: ids_kept_same)
  show ?thesis
  proof (cases "request_class_of m \<in> {Class_MsgData, Class_RemoveSessionRequest}")
    case False
    then have "untouched E contacts (written_by E (request_class_of m))"
      using frame by (elim untouched_mono) (auto simp: written_by_def texts_def split: request_class.split)
    then have "contacts (world s') = contacts (world s)"
      unfolding step by (rule dispatch_frame [OF m, unfolded preserves_def, rule_format])
    moreover have "contact_effect m k k" for k using False by (cases m) simp_all
    ultimately show ?thesis by (rule same)
  next
    case True
    then consider (msg) q where "m = Rq_MsgData q" | (remove) q where "m = Rq_RemoveSessionRequest q"
      by (cases m) auto
    then show ?thesis
    proof cases
      case (msg q)
      let ?a = "MsgData.from_user_id q" let ?b = "MsgData.to_user_id q"
      have w: "world s' = (if MsgData_invalid q then world s else world (snd (run_state (MsgData_send E q) s)))"
        using MsgData_world [of E H "Some i" sid q s] by (simp add: s' msg)
      show ?thesis
      proof (cases "shows_receiver q")
        case True
        then have q: "\<not> MsgData_invalid q" "uint (MsgData.msg_type q) = MESSAGE_TYPE_IM" "?a \<noteq> 0" "?b \<noteq> 0"
          "MsgData.msg_data q \<noteq> []" by (auto simp: shows_receiver_def MsgData_invalid_def)
        from SendIMMessage_book [OF db ok q(3-5), of "ucast (MsgData.msg_type q)" "MsgData.create_time q"]
        obtain j r s1 where s1: "run_state (SendIMMessage E (zares_relationship E) ?a ?b (ucast (MsgData.msg_type q))
            (MsgData.msg_data q) (MsgData.create_time q)) s = (r, s1)" "contacts_ok (contacts (world s1))"
          "book_of (contacts (world s1)) = message_shown ?a ?b j (book_of (contacts (world s)))"
          "ids_kept E contacts (world s) (world s1)" by blast
        have "world s' = world s1" using q(1,2) s1(1) by (simp add: w MsgData_send_def)
        with s1(2-4) True show ?thesis by (auto simp: msg)
      next
        case False
        then have "world s' = world s"
          by (auto simp: w shows_receiver_def MsgData_send_def SendAudioMessage_def SendIMGroupMessage_def Let_def)
        with False show ?thesis by (intro same) (simp_all add: msg)
      qed
    next
      case (remove q)
      let ?u = "RemoveSessionRequest.req_user_id q" let ?i = "RemoveSessionRequest.session_id q"
      have at: "attach_data_type q = kAttachDataTypeDB"
        using m by (simp add: remove request_ok_def pdu_kind_def base_pdu.defs)
      note w = RemoveSession_world [OF at, of E H "Some i" sid s]
      show ?thesis
      proof (cases "removes_contact q")
        case True
        from Delete_book [OF db ok(1), of ?u ?i] obtain r s1 where
          s1: "run_state (DeleteRecentContactByUserId E ?u ?i) s = (r, s1)" "contacts_ok (contacts (world s1))"
            "map contact_id (contacts (world s1)) = map contact_id (contacts (world s))"
            "book_of (contacts (world s1)) = hide_friend ?u ?i (book_of (contacts (world s)))" by blast
        have "world s' = world s1" using w True s1(1) by (simp add: s' remove removes_contact_def Let_def)
        with s1(2-4) True show ?thesis by (simp add: remove ids_kept_same)
      next
        case False
        have "contacts (world (snd (run_state (GetGroupInfo E g grp) s))) = contacts (world s)" for g grp
          by (rule frame_queries(14) [OF frame, unfolded preserves_def, rule_format])
        with w False have "contacts (world s') = contacts (world s)"
          by (auto simp: s' remove removes_contact_def Let_def split: if_splits)
        with False show ?thesis by (intro same) (simp_all add: remove)
      qed
    qed
  qed
qed

subsection \<open>Runs\<close>

lemma server_contacts:
  fixes E :: "('w, 'r) db_env"
  assumes db: "book_db E contacts" and frame: "untouched E contacts (foreign_writes E)" and fresh: "fresh_ids E contacts"
    and run: "server_run N E s tr s'" and N: "parser_ok N"
    and ok: "contacts_ok (contacts (world (server s)))" "distinct (map contact_id (contacts (world (server s))))"
  defines "cs \<equiv> contacts (world (server s))"
  defines "ms \<equiv> requests_of N (all_handled tr)"
  assumes fits: "length cs + 2 * length ms < 2 ^ 31"
  shows "requests_run contact_effect ms (book_of cs) (book_of (contacts (world (server s')))) \<and>
    contacts_ok (contacts (world (server s'))) \<and> distinct (map contact_id (contacts (world (server s'))))"
proof -
  let ?Q = "\<lambda>ms w. requests_run contact_effect ms (book_of cs) (book_of (contacts w)) \<and> contacts_ok (contacts w) \<and>
    distinct (map contact_id (contacts w)) \<and> length (contacts w) \<le> length cs + 2 * length ms"
  let ?P = "\<lambda>ms w. length cs + 2 * length ms < 2 ^ 31 \<longrightarrow> ?Q ms w"
  have "?P ms (world (server s'))"
    unfolding ms_def
  proof (rule run_world [OF run N])
    show "?P [] (world (server s))" using ok by (simp add: cs_def requests_run.no_requests)
    fix ms H i sid m and t :: "'w server_state"
    assume IH: "?P ms (world t)" and m: "request_ok m"
    let ?t = "snd (run_state (DispatchMessageHandler E H (Some i) sid m) t)"
    show "?P (ms @ [m]) (world ?t)"
    proof
      assume small: "length cs + 2 * length (ms @ [m]) < 2 ^ 31"
      with IH have w: "requests_run contact_effect ms (book_of cs) (book_of (contacts (world t)))"
        "contacts_ok (contacts (world t))" "distinct (map contact_id (contacts (world t)))"
        "length (contacts (world t)) \<le> length cs + 2 * length ms" by auto
      from contact_request_effect [OF db frame m w(2,3) refl, of H i sid] have
        eff: "contacts_ok (contacts (world ?t))"
          "contact_effect m (book_of (contacts (world t))) (book_of (contacts (world ?t)))"
          "ids_kept E contacts (world t) (world ?t)" by blast+
      have "length (contacts (world t)) < 2 ^ 31 - 1" using w(4) small by simp
      with eff(3) fresh w(3,4) have "distinct (map contact_id (contacts (world ?t)))"
        "length (contacts (world ?t)) \<le> length cs + 2 * length (ms @ [m])"
        by (simp_all add: ids_kept_def)
      with requests_run_snoc [OF w(1) eff(2)] eff(1) show "?Q (ms @ [m]) (world ?t)" by blast
    qed
  qed
  with fits show ?thesis by blast
qed

text \<open>A friend that is not removed stays in the list: only the user's own request hides one.\<close>

definition hides :: "request \<Rightarrow> u32 \<Rightarrow> u32 \<Rightarrow> bool" where
  "hides m u f \<longleftrightarrow> (\<exists>q. m = Rq_RemoveSessionRequest q \<and> RemoveSessionRequest.req_user_id q = u \<and>
     RemoveSessionRequest.session_id q = f)"

lemma effect_hides:
  assumes "contact_effect m k k'" "(u, f) \<in> shows_friend k" "(u, f) \<notin> shows_friend k'"
  shows "hides m u f"
  using assms
  by (cases "(m, k, k')" rule: contact_effect.cases)
    (auto simp: hides_def message_shown_def relate_def show_friend_def hide_friend_def split: if_splits)

lemma run_hides:
  assumes "requests_run contact_effect ms k k'" "(u, f) \<in> shows_friend k" "(u, f) \<notin> shows_friend k'"
  shows "\<exists>m \<in> set ms. hides m u f"
  using assms
proof (induction rule: requests_run.induct)
  case (first_request m k k1 ms k')
  with effect_hides [OF first_request.hyps(1)] show ?case by auto
qed simp

end
