(* ===== verification/Table_Properties.thy ===== *)
theory Table_Properties
  imports Server_Properties Group_Sample Group_Server Contact_Server
begin

text \<open>
  The properties of the tables a running server keeps, over a database that keeps the tables: the contacts
  of users, and groups and their members. The witnesses run a server of two threads on \<open>book_env\<close> and
  one on \<open>member_env\<close>, with one group of one member.
\<close>

subsection \<open>The contacts of a running server\<close>

definition contact_server :: "(request, nat, contact list) zaresd" where
  "contact_server = \<lparr>manager = \<lparr>thread_pool =
       map (\<lambda>i. \<lparr>thread_index = i, running = True, timer = True, tasks = []\<rparr>) [0, 1],
     thread_pool_size = 2, next_thread = 0\<rparr>,
     server = \<lparr>world = book_sample, conns_held = 0, conns_peak = 0, cache = CacheManager_new, outbox = []\<rparr>, synced = []\<rparr>"

lemma one_request_handled:
  assumes "request_ok m" "request_class_of m \<noteq> Class_GroupHistoryMsgRequest"
  shows "requests_of sample_net (all_handled (one_request m)) = [m]"
proof -
  have "ParseMessagePDUFromNetPacker sample_net m = Some m" using assms by (simp add: sample_net_def)
  then show ?thesis
    using requests_of_simps(2) [of sample_net "[]" 9 m] by (simp add: all_handled_def del: requests_of_simps(2))
qed

text \<open>The database of contacts does nothing for the statements of other tables.\<close>

lemma foreign_tags:
  assumes "f \<in> set (file_formats @ group_formats)"
  shows "tag f \<notin> {tag F_hide, tag F_show, tag F_new}"
  using assms by (auto simp: file_formats_def group_formats_def tag_def)

lemma book_env_frame: "untouched book_env (\<lambda>w. w) (foreign_writes book_env)"
  unfolding untouched_def
proof (intro conjI allI ballI)
  have ins: "''IN'' \<notin> {tag F_hide, tag F_show, tag F_new}" by (simp add: tag_def)
  fix sql w assume "sql \<in> foreign_writes book_env"
  then have "(\<exists>f args. f \<in> set (file_formats @ group_formats) \<and> sql = book_text f args) \<or> take 2 sql = ''IN''"
    unfolding texts_def member_inserts_def book_env_formats by auto
  then have "take 2 sql \<notin> {tag F_hide, tag F_show, tag F_new}"
    using foreign_tags ins book_text_simps(1) by metis
  then show "snd (db_execute book_env sql w) = w" "snd (db_insert_id book_env sql w) = w"
    by (auto simp: book_env_execute book_env_insert)
qed (simp_all add: book_env_other, simp add: book_env_def)

text \<open>C6: Over a database that keeps the table of contacts, any run of the server does to it what the abstract
  contact book does with the requests handled, in their order: a text message that passes the checks
  shows the receiver to the sender, and relates the two and shows each to the other if they were not
  related; a request to remove the session with a user hides this user from the one who asks; and every
  other request leaves the book as it is. There is one row for a pair, each with its mirror, and all
  have different ids, as long as there is room for new ones.\<close>

theorem server_refines_contacts:
  assumes "server_run N E s tr s'" "parser_ok N"
    and "book_db E contacts" "untouched E contacts (foreign_writes E)" "fresh_ids E contacts"
    and "contacts_ok (contacts (world (server s)))" "distinct (map contact_id (contacts (world (server s))))"
    and "length (contacts (world (server s))) + 2 * length (requests_of N (all_handled tr)) < 2 ^ 31"
  shows "requests_run contact_effect (requests_of N (all_handled tr)) (book_of (contacts (world (server s))))
      (book_of (contacts (world (server s')))) \<and>
    contacts_ok (contacts (world (server s'))) \<and> distinct (map contact_id (contacts (world (server s'))))"
  by (rule server_contacts [OF assms(3-5,1,2,6-8)])

theorem server_refines_contacts_witness:
  "\<exists>s. server_run sample_net book_env contact_server (one_request sample_MsgData) s \<and>
    friends_shown (book_of (world (server s))) 1 = {2}"
proof -
  have m: "request_ok sample_MsgData" "request_class_of sample_MsgData \<noteq> Class_GroupHistoryMsgRequest"
    using sample_MsgData_ok(1,2) by simp_all
  obtain s where run: "server_run sample_net book_env contact_server (one_request sample_MsgData) s"
    using one_request_run [OF _ m, of contact_server] by (auto simp: contact_server_def sample_server_def)
  have w: "world (server contact_server) = book_sample" by (simp add: contact_server_def)
  from server_refines_contacts [where contacts = "\<lambda>w. w", OF run sample_ok(2) book_env_db book_env_frame book_env_fresh,
      unfolded one_request_handled [OF m] w] book_sample_ok(1,2)
  have "requests_run contact_effect [sample_MsgData] (book_of book_sample) (book_of (world (server s)))"
    by (simp add: book_sample_def)
  moreover have "shows_receiver ((MsgData_ctor undefined)\<lparr>MsgData.from_user_id := 1, MsgData.to_user_id := 2,
     MsgData.msg_type := 1, MsgData.msg_data := ''hi''\<rparr>)"
    by (simp add: shows_receiver_def MsgData_invalid_def)
  ultimately obtain i where "book_of (world (server s)) = message_shown 1 2 i (book_of book_sample)"
    by (auto simp: requests_run_simps sample_MsgData_def)
  then have "friends_shown (book_of (world (server s))) 1 = {2}"
    using book_sample_ok(3,4) by (auto simp: message_shown_def show_friend_def friends_shown_def)
  with run show ?thesis by blast
qed

text \<open>C26: A friend leaves a user's list only by the user's own word: if a user's list showed a friend before a run
  and does not afterwards, one of the requests handled is this user's to remove the session with this
  friend.\<close>

theorem only_user_hides:
  assumes "server_run N E s tr s'" "parser_ok N"
    and "book_db E contacts" "untouched E contacts (foreign_writes E)" "fresh_ids E contacts"
    and "contacts_ok (contacts (world (server s)))" "distinct (map contact_id (contacts (world (server s))))"
    and "length (contacts (world (server s))) + 2 * length (requests_of N (all_handled tr)) < 2 ^ 31"
    and "f \<in> friends_shown (book_of (contacts (world (server s)))) u"
    and "f \<notin> friends_shown (book_of (contacts (world (server s')))) u"
  shows "\<exists>m \<in> set (requests_of N (all_handled tr)). hides m u f"
  using run_hides [OF conjunct1 [OF server_contacts [OF assms(3-5,1,2,6-8)]], of u f] assms(9,10)
  by (simp add: friends_shown_def)

text \<open>User 1 removes the session with user 2.\<close>

definition shown_server :: "(request, nat, contact list) zaresd" where
  "shown_server = contact_server\<lparr>server := (server contact_server)\<lparr>world := shown_sample\<rparr>\<rparr>"

definition sample_removal :: request where
  "sample_removal = Rq_RemoveSessionRequest ((RemoveSessionRequest_ctor undefined)
     \<lparr>RemoveSessionRequest.req_user_id := 1, RemoveSessionRequest.session_id := 2,
      RemoveSessionRequest.session_type := 1\<rparr>)"

text \<open>After it user 2 is no longer shown to user 1, as user 1 has asked, and user 1 is still shown to user 2.\<close>

theorem only_user_hides_witness:
  "\<exists>s. server_run sample_net book_env shown_server (one_request sample_removal) s \<and>
    2 \<in> friends_shown (book_of shown_sample) 1 \<and> 2 \<notin> friends_shown (book_of (world (server s))) 1 \<and>
    hides sample_removal 1 2 \<and>
    1 \<in> friends_shown (book_of shown_sample) 2 \<and> 1 \<in> friends_shown (book_of (world (server s))) 2"
proof -
  have m: "request_ok sample_removal" "request_class_of sample_removal \<noteq> Class_GroupHistoryMsgRequest"
    by (simp_all add: sample_removal_def request_ok_def pdu_kind_def pdu_defs base_pdu.defs)
  obtain s where run: "server_run sample_net book_env shown_server (one_request sample_removal) s"
    using one_request_run [OF _ m, of shown_server]
    by (auto simp: shown_server_def contact_server_def sample_server_def)
  have w: "world (server shown_server) = shown_sample" by (simp add: shown_server_def)
  have fits: "length shown_sample + 2 * length [sample_removal] < 2 ^ 31" by (simp add: shown_sample_def)
  note hyps = run sample_ok(2) book_env_db book_env_frame book_env_fresh
  note rule = only_user_hides [where contacts = "\<lambda>w. w", OF hyps, unfolded one_request_handled [OF m] w,
      OF shown_sample_ok(1,2) fits]
  have "requests_run contact_effect [sample_removal] (book_of shown_sample) (book_of (world (server s)))"
    using server_contacts [where contacts = "\<lambda>w. w", OF hyps(3-5) hyps(1,2), unfolded one_request_handled [OF m] w,
      OF shown_sample_ok(1,2) fits] by blast
  then have "book_of (world (server s)) = hide_friend 1 2 (book_of shown_sample)"
    by (simp add: requests_run_simps sample_removal_def removes_contact_def)
  then have gone: "2 \<notin> friends_shown (book_of (world (server s))) 1" by (simp add: hide_friend_def friends_shown_def)
  with rule [of 2 1] shown_sample_ok(3) have "hides sample_removal 1 2" by simp
  moreover have "\<not> hides sample_removal 2 1" by (simp add: hides_def sample_removal_def)
  with rule [of 1 2] shown_sample_ok(4) have "1 \<in> friends_shown (book_of (world (server s))) 2" by auto
  ultimately show ?thesis using run gone shown_sample_ok(3,4) by auto
qed

subsection \<open>A server with a group\<close>

definition sample_tables :: member_tables where
  "sample_tables = \<lparr>member_rows = [new_member 1 5 1],
     group_rows = [5 \<mapsto> \<lparr>group_number = 1, group_owner = 1, group_active = True\<rparr>]\<rparr>"

abbreviation sample_service :: "member_tables server_state" where
  "sample_service \<equiv> \<lparr>world = sample_tables, conns_held = 0, conns_peak = 0, cache = CacheManager_new, outbox = []\<rparr>"

definition group_server :: "(request, nat, member_tables) zaresd" where
  "group_server = \<lparr>manager = \<lparr>thread_pool =
       map (\<lambda>i. \<lparr>thread_index = i, running = True, timer = True, tasks = []\<rparr>) [0, 1],
     thread_pool_size = 2, next_thread = 0\<rparr>, server = sample_service, synced = []\<rparr>"

text \<open>User \<open>u\<close> adds the users \<open>us\<close> to group 5, or removes them.\<close>

definition change_members :: "u32 \<Rightarrow> u32 \<Rightarrow> u32 list \<Rightarrow> request" where
  "change_members t u us = Rq_GroupChangeMemberRequest ((GroupChangeMemberRequest_ctor undefined)
     \<lparr>GroupChangeMemberRequest.change_type := t, GroupChangeMemberRequest.req_user_id := u,
      GroupChangeMemberRequest.group_id := 5, GroupChangeMemberRequest.user_list := us\<rparr>)"

lemma sample_book: "group_book_of sample_tables = \<lparr>book_members = (\<lambda>g. if g = 5 then {1} else {}),
    book_known = (\<lambda>g. if g = 5 then {1} else {}),
    book_groups = [5 \<mapsto> \<lparr>group_number = 1, group_owner = 1, group_active = True\<rparr>]\<rparr>"
  by (auto simp: group_book_of_def sample_tables_def members_of_def known_of_def new_member_def fun_eq_iff)

lemma sample_members: "members_of (member_rows sample_tables) 5 = {1}"
  using arg_cong [OF sample_book, of "\<lambda>k. book_members k 5"] by (simp add: group_book_of_def)

lemma sample_group: "group_rows sample_tables 5 = Some \<lparr>group_number = 1, group_owner = 1, group_active = True\<rparr>"
  by (simp add: sample_tables_def)

lemma sample_tables_ok: "rows_ok sample_tables" "numbers_exact (group_book_of sample_tables)"
    "n < 1000 \<Longrightarrow> room_for n (group_book_of sample_tables)"
  unfolding sample_book by (simp_all add: rows_ok_def sample_tables_def new_member_def numbers_exact_def room_for_def)

lemma change_members_ok:
  "request_ok (change_members t u us)" "request_class_of (change_members t u us) = Class_GroupChangeMemberRequest"
  "users_of (change_members t u us) = us"
  by (simp_all add: change_members_def request_ok_def pdu_kind_def pdu_defs base_pdu.defs)

lemma group_server_run:
  "\<exists>s. server_run sample_net member_env group_server (one_request (change_members t u us)) s"
  using one_request_run [OF _ change_members_ok(1), of group_server] change_members_ok(2)
  by (auto simp: group_server_def sample_server_def)

lemma change_handled:
  "requests_of sample_net (all_handled (one_request (change_members t u us))) = [change_members t u us]"
  by (rule one_request_handled) (simp_all add: change_members_ok)

lemma change_fits:
  assumes "distinct us" "length us < 1000"
  shows "users_distinct [change_members t u us]"
    "room_for (users_named [change_members t u us]) (group_book_of sample_tables)"
  using assms sample_tables_ok(3) by (simp_all add: users_distinct_def users_named_def change_members_ok(3))

subsection \<open>The groups of a running server\<close>

text \<open>C5: Over a database that keeps the tables of groups and members, any run of the server does to them what
  the abstract service of groups does with the requests handled, in their order: a new group has a new
  id, its creator as owner and the given members, anybody may add members to an active group, only its
  owner may remove some, and every other request leaves the groups as they are. At any time a user has
  one row in a group, only groups that exist have members, and the number of members that is kept with
  a group is the number of its members. The statements of other tables leave these alone, the status a
  new row gets is not 0, no request names a user twice, and the numbers fit an \<^verbatim>\<open>INT\<close>.\<close>

theorem server_refines_groups:
  assumes "server_run N E s tr s'" "parser_ok N"
    and "member_db E tables d a" "untouched E tables (other_writes E)" "d \<noteq> 0"
    and "rows_ok (tables (world (server s)))" "numbers_exact (group_book_of (tables (world (server s))))"
    and "users_distinct (requests_of N (all_handled tr))"
    and "room_for (users_named (requests_of N (all_handled tr))) (group_book_of (tables (world (server s))))"
  shows "group_run d a (requests_of N (all_handled tr)) (group_book_of (tables (world (server s))))
      (group_book_of (tables (world (server s')))) \<and>
    rows_ok (tables (world (server s'))) \<and> numbers_exact (group_book_of (tables (world (server s'))))"
  using server_groups [OF assms(3-5,1,2,6-9)] by blast

theorem server_refines_groups_witness:
  "\<exists>s. server_run sample_net member_env group_server (one_request (change_members 0 4 [2, 3])) s \<and>
    book_members (group_book_of (world (server s))) 5 = {1, 2, 3} \<and>
    map_option group_number (book_groups (group_book_of (world (server s))) 5) = Some 3"
proof -
  let ?m = "change_members 0 4 [2, 3]"
  obtain s where run: "server_run sample_net member_env group_server (one_request ?m) s"
    using group_server_run by blast
  have w: "world (server group_server) = sample_tables" by (simp add: group_server_def)
  from server_refines_groups [where tables = "\<lambda>T. T", OF run sample_ok(2) member_env_db member_env_frame, unfolded change_handled w]
    sample_tables_ok(1,2) change_fits [of "[2, 3]" 0 4]
  have "group_run 1 True [?m] (group_book_of sample_tables) (group_book_of (world (server s)))" by simp
  then have "group_book_of (world (server s)) = join_book 1 5 {2, 3} (group_book_of sample_tables)"
    by (simp add: requests_run_simps change_members_def sample_book is_active_def Let_def)
  then show ?thesis using run by (intro exI [of _ s] conjI) (simp_all add: join_book_def sample_book, auto)
qed

text \<open>C7: A member leaves a group only by the word of its owner: if a user was a member of a group before a run
  and is not afterwards, one of the requests handled asks to remove this user from this group and names
  its owner as the one who asks.\<close>

theorem only_owner_removes:
  assumes "server_run N E s tr s'" "parser_ok N"
    and "member_db E tables d a" "untouched E tables (other_writes E)" "d \<noteq> 0"
    and "rows_ok (tables (world (server s)))" "numbers_exact (group_book_of (tables (world (server s))))"
    and "users_distinct (requests_of N (all_handled tr))"
    and "room_for (users_named (requests_of N (all_handled tr))) (group_book_of (tables (world (server s))))"
    and "group_rows (tables (world (server s))) g = Some r" "u \<in> members_of (member_rows (tables (world (server s)))) g"
    and "u \<notin> members_of (member_rows (tables (world (server s')))) g"
  shows "\<exists>m \<in> set (requests_of N (all_handled tr)). removes m (group_owner r) g u"
  using run_removes [OF server_groups(1) [OF assms(3-5,1,2,6-9)], of g r u] assms(10-12)
  by (auto simp: group_book_of_def)

theorem only_owner_removes_witness:
  "\<exists>s. server_run sample_net member_env group_server (one_request (change_members 1 2 [1])) s \<and>
    1 \<in> members_of (member_rows (world (server s))) 5"
proof -
  let ?m = "change_members 1 2 [1]"
  obtain s where run: "server_run sample_net member_env group_server (one_request ?m) s"
    using group_server_run by blast
  have w: "world (server group_server) = sample_tables" by (simp add: group_server_def)
  have "1 \<in> members_of (member_rows (world (server s))) 5"
  proof (rule ccontr)
    assume "1 \<notin> members_of (member_rows (world (server s))) 5"
    with only_owner_removes [where tables = "\<lambda>T. T", OF run sample_ok(2) member_env_db member_env_frame,
        unfolded change_handled w, of 5 _ 1] sample_tables_ok(1,2) change_fits [of "[1]" 1 2]
    have "removes ?m 1 5 1" by (simp add: sample_group sample_members)
    then show False by (simp add: removes_def change_members_def)
  qed
  with run show ?thesis by blast
qed

text \<open>C25: A request for the members of a group is answered with the owner of the group and users that are its
  members, none twice, all of them if there are at most 10000; for a group that does not exist or is
  not active the result is 1 and the list is empty. The tables stay as they are.\<close>

theorem group_user_list_answer:
  assumes "member_db E tables d a" "rows_ok (tables (world s))" "attach_data_type req = kAttachDataTypeDB"
  shows "\<exists>r s'. run_state (GroupUserListRequestHandler_Execute E H (Some i) sid req) s = (Some 0, s') \<and>
    tables (world s') = tables (world s) \<and>
    outbox s' = outbox s @ [(sid, Reply (Rs_GroupUserListResponse r))] \<and>
    GroupUserListResponse.group_id r = GroupUserListRequest.group_id req \<and>
    (let g = GroupUserListRequest.group_id req; ms = members_of (member_rows (tables (world s))) g
     in if g \<noteq> 0 \<and> is_active g (group_rows (tables (world s)))
        then GroupUserListResponse.result r = 0 \<and>
          map_option group_owner (group_rows (tables (world s)) g) = Some (GroupUserListResponse.group_creator_id r) \<and>
          distinct (GroupUserListResponse.user_list r) \<and> set (GroupUserListResponse.user_list r) \<subseteq> ms \<and>
          length (GroupUserListResponse.user_list r) = min 10000 (card ms)
        else GroupUserListResponse.result r = 1 \<and> GroupUserListResponse.user_list r = [])"
  using group_user_list [OF assms, of H i sid] by (simp only: group_book_of_def group_book.simps Let_def)

theorem group_user_list_answer_witness:
  "\<exists>r s. run_state (GroupUserListRequestHandler_Execute member_env undefined (Some 0) 9
      ((GroupUserListRequest_ctor undefined)\<lparr>GroupUserListRequest.group_id := 5\<rparr>)) sample_service = (Some 0, s) \<and>
    outbox s = [(9, Reply (Rs_GroupUserListResponse r))] \<and> GroupUserListResponse.user_list r = [1] \<and>
    GroupUserListResponse.group_creator_id r = 1"
proof -
  let ?req = "(GroupUserListRequest_ctor undefined)\<lparr>GroupUserListRequest.group_id := 5\<rparr>"
  have at: "attach_data_type ?req = kAttachDataTypeDB" by (simp add: GroupUserListRequest_ctor_def BaseTeamTalkPDU_ctor_def)
  have "xs = [1]" if "distinct xs" "set xs \<subseteq> {1 :: u32}" "length xs = 1" for xs
    using that by (cases xs) auto
  with group_user_list_answer [OF member_env_db _ at, of sample_service undefined 0 9] sample_tables_ok(1) show ?thesis
    by (auto simp: sample_members sample_group is_active_def Let_def)
qed

text \<open>C29: When the lookup of the users that are in the group already fails, \<^verbatim>\<open>JoinGroup\<close> takes all given users
  for new ones: it inserts a row for each, as often as it is given, member or not, adds the result of
  the insertion to the number of members, and reports success.\<close>

theorem join_after_failed_lookup:
  assumes "ids \<noteq> []" "g \<noteq> 0" "g = GroupInfo.group_id grp" "\<forall>n. fmt_uint E n \<noteq> []"
    and "now_ms E (world s) = (t, w1)" "db_query E (select_join E g ids) w1 = (None, w2)"
    and "db_execute E (insert_members E g grp (ucast t) ids) w2 = (n, w3)"
  shows "\<exists>s'. run_state (JoinGroup E ids g grp) s = (True, s') \<and>
    world s' = snd (db_execute E (add_count E (of_int n) g) w3)"
proof -
  have st: "read_statuses E None = []" by (simp add: read_statuses_def)
  have new: "ids = filter (\<lambda>u. std_find u (read_statuses E None) = None) ids" by (simp add: st std_find_def)
  have hidden: "[] = map fst (filter (\<lambda>(u, x). member_status x = 0) (read_statuses E None))" by (simp add: st)
  from JoinGroup_run [OF assms(1-3) spec [OF assms(4)] assms(5,6) new hidden] assms(1,7) show ?thesis by simp
qed

text \<open>With a database that fails to answer a query but inserts, the only member of the group joins again and
  has two rows.\<close>

theorem join_after_failed_lookup_witness:
  "\<exists>s'. run_state (JoinGroup (member_env\<lparr>db_query := \<lambda>sql T. (None, T)\<rparr>) [1] 5 (new_GroupInfo\<lparr>GroupInfo.group_id := 5\<rparr>))
      sample_service = (True, s') \<and>
    member_rows (world s') = [new_member 1 5 1, new_member 1 5 1]"
proof -
  let ?E = "member_env\<lparr>db_query := \<lambda>sql T. (None, T)\<rparr>" let ?grp = "new_GroupInfo\<lparr>GroupInfo.group_id := 5\<rparr>"
  let ?T = "sample_tables\<lparr>member_rows := [new_member 1 5 1, new_member 1 5 1]\<rparr>"
  have same: "insert_members ?E = insert_members member_env"
    by (simp add: fun_eq_iff insert_members_def member_values_def [abs_def])
  have ins: "db_execute ?E (insert_members ?E 5 ?grp (ucast (0 :: u64)) [1]) sample_tables = (1, ?T)"
    using member_insert [of 5 ?grp "ucast (0 :: u64)" "[1]" sample_tables]
    by (simp add: same member_env_run insert_rows_def) (simp add: sample_tables_def)
  have add: "member_rows (snd (db_execute ?E (add_count ?E 1 5) ?T)) = member_rows ?T"
    using member_executes(3) [of 1 5 ?T] by (simp add: member_env_run add_count_def update_number_def)
  have now: "now_ms ?E (world sample_service) = (0, sample_tables)" by (simp add: member_env_run)
  from join_after_failed_lookup [OF _ _ _ _ now _ ins] add show ?thesis by (auto simp: member_env_formats)
qed

end
