(* ===== verification/Model_Module.thy ===== *)
theory Model_Module
  imports Prelude
begin

text \<open>
  The life of the managers: \<^verbatim>\<open>zaresd/model/model_module.h\<close>, \<^verbatim>\<open>model_main_manager.cc\<close> and
  \<^verbatim>\<open>zares/zares_model_module.cc\<close>. A pointer to a manager is the address of its object, or \<open>None\<close>
  for NULL; the heap lists the objects that are allocated, for a message manager what its two pointers
  to other managers hold, and for each manager the pool of connections its constructor got. A pool is a
  member of the module it belongs to. \<open>None\<close> as the result of an operation is a dereference of NULL.
\<close>

subsection \<open>Connection pools\<close>

text \<open>\<^verbatim>\<open>db::CdbConnPoolManager\<close> of zutils: a pool is a value of the type \<open>'g\<close>, made by the default
  constructor and set up by \<^verbatim>\<open>Initialize\<close> with a \<^verbatim>\<open>base::DBAddrInfo\<close>, a value of the type \<open>'d\<close>;
  \<open>pool_size\<close> is the number of connections it has.\<close>

record ('d, 'g) conn_pool_lib =
  pool_new :: 'g
  pool_initialize :: "'d \<Rightarrow> 'g \<Rightarrow> 'g"
  pool_size :: "'g \<Rightarrow> nat"

subsection \<open>Objects and pointers\<close>

datatype manager_class =
    ZAresAudioManagerImpl
  | ZAresCounterManagerImpl
  | ZAresDepartmentManagerImpl
  | ZAresFileManagerImpl
  | ZAresGroupManagerImpl
  | ZAresLoginManagerImpl
  | ZAresMessageManagerImpl
  | ZAresRelationshipManagerImpl
  | ZAresUserManagerImpl

record 'g module_heap =
  live :: "(nat \<times> manager_class) list"
  next_addr :: nat
  links :: "nat \<Rightarrow> nat option \<times> nat option"
  pool_of :: "nat \<Rightarrow> nat option"
  pools :: "'g option list"

text \<open>\<open>pool\<close> is the pointer to a pool that the constructor gets, \<open>None\<close> for a class without one.\<close>

definition new_manager :: "manager_class \<Rightarrow> nat option \<Rightarrow> 'g module_heap \<Rightarrow> nat \<times> 'g module_heap" where
  "new_manager k pool h = (next_addr h,
     h\<lparr>live := live h @ [(next_addr h, k)], next_addr := next_addr h + 1,
       links := (links h)(next_addr h := (None, None)), pool_of := (pool_of h)(next_addr h := pool)\<rparr>)"

definition delete_manager :: "nat \<Rightarrow> 'g module_heap \<Rightarrow> 'g module_heap" where
  "delete_manager a h = h\<lparr>live := filter (\<lambda>(b, k). b \<noteq> a) (live h)\<rparr>"

definition SetRelationshipManager :: "nat \<Rightarrow> nat option \<Rightarrow> 'g module_heap \<Rightarrow> 'g module_heap" where
  "SetRelationshipManager a p h = h\<lparr>links := (links h)(a := (p, snd (links h a)))\<rparr>"

definition SetCounterManager :: "nat \<Rightarrow> nat option \<Rightarrow> 'g module_heap \<Rightarrow> 'g module_heap" where
  "SetCounterManager a p h = h\<lparr>links := (links h)(a := (fst (links h a), p))\<rparr>"

subsection \<open>The module\<close>

record model_module =
  login_manager :: "nat option"
  department_manager :: "nat option"
  user_manager :: "nat option"
  group_manager :: "nat option"
  relationship_manager :: "nat option"
  message_manager :: "nat option"
  file_manager :: "nat option"
  counter_manager :: "nat option"
  audio_manager :: "nat option"

definition ModelModule_ctor :: model_module where
  "ModelModule_ctor = \<lparr>login_manager = None, department_manager = None, user_manager = None,
     group_manager = None, relationship_manager = None, message_manager = None,
     file_manager = None, counter_manager = None, audio_manager = None\<rparr>"

text \<open>\<open>db_conn_pool\<close> is the place of \<^verbatim>\<open>db_conn_pool_\<close> in \<open>pools\<close>. \<open>ZAresModelModule_new\<close> is
  \<^verbatim>\<open>new ZAresModelModule()\<close>, which constructs the pool too; \<open>Pool_Initialize\<close> is
  \<^verbatim>\<open>db_conn_pool_.Initialize(db_addr)\<close>, whose result the module does not use.\<close>

record zares_model_module = model_module +
  db_conn_pool :: nat

definition ZAresModelModule_ctor :: "nat \<Rightarrow> zares_model_module" where
  "ZAresModelModule_ctor i = model_module.extend ModelModule_ctor (zares_model_module.fields i)"

definition ZAresModelModule_new ::
  "('d, 'g, 'z) conn_pool_lib_scheme \<Rightarrow> 'g module_heap \<Rightarrow> zares_model_module \<times> 'g module_heap" where
  "ZAresModelModule_new P h =
     (ZAresModelModule_ctor (length (pools h)), h\<lparr>pools := pools h @ [Some (pool_new P)]\<rparr>)"

definition Pool_Initialize ::
  "('d, 'g, 'z) conn_pool_lib_scheme \<Rightarrow> nat \<Rightarrow> 'd \<Rightarrow> 'g module_heap \<Rightarrow> 'g module_heap" where
  "Pool_Initialize P i db_addr h =
     h\<lparr>pools := (pools h)[i := map_option (pool_initialize P db_addr) (pools h ! i)]\<rparr>"

text \<open>\<open>new_if_null\<close> is the statement \<^verbatim>\<open>if (NULL == p) { q = new C; p = q; }\<close> with a local pointer
  \<^verbatim>\<open>q\<close> that is NULL before; its first result is \<^verbatim>\<open>q\<close>. \<open>delete_if\<close> is
  \<^verbatim>\<open>if (p) { delete p; p = NULL; }\<close>.\<close>

definition new_if_null ::
  "manager_class \<Rightarrow> nat option \<Rightarrow> (zares_model_module \<Rightarrow> nat option) \<Rightarrow>
   ((nat option \<Rightarrow> nat option) \<Rightarrow> zares_model_module \<Rightarrow> zares_model_module) \<Rightarrow>
   zares_model_module \<times> 'g module_heap \<Rightarrow> nat option \<times> zares_model_module \<times> 'g module_heap" where
  "new_if_null k pool get upd = (\<lambda>(m, h).
     if get m = None then (let (a, h) = new_manager k pool h in (Some a, upd (\<lambda>_. Some a) m, h))
     else (None, m, h))"

definition delete_if ::
  "(zares_model_module \<Rightarrow> nat option) \<Rightarrow>
   ((nat option \<Rightarrow> nat option) \<Rightarrow> zares_model_module \<Rightarrow> zares_model_module) \<Rightarrow>
   zares_model_module \<times> 'g module_heap \<Rightarrow> zares_model_module \<times> 'g module_heap" where
  "delete_if get upd = (\<lambda>(m, h).
     case get m of None \<Rightarrow> (m, h) | Some a \<Rightarrow> (upd (\<lambda>_. None) m, delete_manager a h))"

text \<open>\<open>db_addr\<close> is \<^verbatim>\<open>ConfigInfo::GetInstance()->db_addr()\<close>.\<close>

definition ZAresModelModule_Initialize ::
  "('d, 'g, 'z) conn_pool_lib_scheme \<Rightarrow> 'd \<Rightarrow> zares_model_module \<times> 'g module_heap \<Rightarrow>
   (bool \<times> zares_model_module \<times> 'g module_heap) option" where
  "ZAresModelModule_Initialize P db_addr s =
     (let pool = db_conn_pool (fst s);
          s = (fst s, Pool_Initialize P pool db_addr (snd s));
          (_, s) = new_if_null ZAresAudioManagerImpl None audio_manager audio_manager_update s;
          (counter, s) = new_if_null ZAresCounterManagerImpl None counter_manager counter_manager_update s;
          (_, s) = new_if_null ZAresDepartmentManagerImpl (Some pool)
            department_manager department_manager_update s;
          (_, s) = new_if_null ZAresFileManagerImpl (Some pool) file_manager file_manager_update s;
          (_, s) = new_if_null ZAresGroupManagerImpl (Some pool) group_manager group_manager_update s;
          (_, s) = new_if_null ZAresLoginManagerImpl (Some pool) login_manager login_manager_update s;
          (message, s) = new_if_null ZAresMessageManagerImpl (Some pool)
            message_manager message_manager_update s;
          (relationship, s) = new_if_null ZAresRelationshipManagerImpl (Some pool)
            relationship_manager relationship_manager_update s;
          (_, m, h) = new_if_null ZAresUserManagerImpl (Some pool) user_manager user_manager_update s
      in case message of
           None \<Rightarrow> None
         | Some a \<Rightarrow> Some (True, m, SetCounterManager a counter (SetRelationshipManager a relationship h)))"

definition ZAresModelModule_Destroy ::
  "zares_model_module \<times> 'g module_heap \<Rightarrow> zares_model_module \<times> 'g module_heap" where
  "ZAresModelModule_Destroy = steps [
     delete_if audio_manager audio_manager_update,
     delete_if counter_manager counter_manager_update,
     delete_if department_manager department_manager_update,
     delete_if file_manager file_manager_update,
     delete_if group_manager group_manager_update,
     delete_if login_manager login_manager_update,
     delete_if message_manager message_manager_update,
     delete_if relationship_manager relationship_manager_update,
     delete_if user_manager user_manager_update]"

subsection \<open>The holder of the module\<close>

text \<open>\<^verbatim>\<open>module_\<close> of the singleton \<^verbatim>\<open>ModelMainManager\<close>; the module itself is kept beside the heap of
  managers. An unknown model type only reaches \<^verbatim>\<open>NOTREACHED\<close>.\<close>

definition ModelMainManager_Initialize ::
  "('d, 'g, 'z) conn_pool_lib_scheme \<Rightarrow> 'd \<Rightarrow> string \<Rightarrow> zares_model_module option \<times> 'g module_heap \<Rightarrow>
   (bool \<times> zares_model_module option \<times> 'g module_heap) option" where
  "ModelMainManager_Initialize P db_addr model_type = (\<lambda>(module, h).
     if model_type = ''zares'' then
       (case ZAresModelModule_Initialize P db_addr (ZAresModelModule_new P h) of
          None \<Rightarrow> None
        | Some (_, m, h) \<Rightarrow> Some (True, Some m, h))
     else Some (True, module, h))"

text \<open>\<^verbatim>\<open>delete module_\<close> runs the virtual destructor, which has no statements of its own; the pool, a member
  of the module, is gone after it.\<close>

definition ModelMainManager_Destroy ::
  "zares_model_module option \<times> 'g module_heap \<Rightarrow> zares_model_module option \<times> 'g module_heap" where
  "ModelMainManager_Destroy = (\<lambda>(module, h).
     case module of
       None \<Rightarrow> (None, h)
     | Some m \<Rightarrow> (None, h\<lparr>pools := (pools h)[db_conn_pool m := None]\<rparr>))"

text \<open>\<open>ModelMainManager_Get message_manager\<close> is \<^verbatim>\<open>GetMessageManager\<close>, and so on for the others.\<close>

definition ModelMainManager_Get ::
  "(zares_model_module \<Rightarrow> nat option) \<Rightarrow> zares_model_module option \<Rightarrow> nat option option" where
  "ModelMainManager_Get slot module = map_option slot module"

subsection \<open>Facts\<close>

text \<open>The slots of a module with the class each holds.\<close>

definition module_slots :: "zares_model_module \<Rightarrow> (nat option \<times> manager_class) list" where
  "module_slots m = [
     (audio_manager m, ZAresAudioManagerImpl),
     (counter_manager m, ZAresCounterManagerImpl),
     (department_manager m, ZAresDepartmentManagerImpl),
     (file_manager m, ZAresFileManagerImpl),
     (group_manager m, ZAresGroupManagerImpl),
     (login_manager m, ZAresLoginManagerImpl),
     (message_manager m, ZAresMessageManagerImpl),
     (relationship_manager m, ZAresRelationshipManagerImpl),
     (user_manager m, ZAresUserManagerImpl)]"

text \<open>Addresses are handed out in order, so no live object has one that is still to come.\<close>

definition heap_ok :: "'g module_heap \<Rightarrow> bool" where
  "heap_ok h \<longleftrightarrow> (\<forall>(a, k) \<in> set (live h). a < next_addr h) \<and> distinct (map fst (live h))"

text \<open>The managers that work with the database.\<close>

definition uses_pool :: "manager_class \<Rightarrow> bool" where
  "uses_pool k \<longleftrightarrow> k \<noteq> ZAresAudioManagerImpl \<and> k \<noteq> ZAresCounterManagerImpl"

lemma snd_new_manager [simp]:
  "next_addr (snd (new_manager k p h)) = next_addr h + 1"
  "live (snd (new_manager k p h)) = live h @ [(next_addr h, k)]"
  "pool_of (snd (new_manager k p h)) = (pool_of h)(next_addr h := p)"
  "pools (snd (new_manager k p h)) = pools h"
  by (simp_all add: new_manager_def)

lemma new_if_null_eq:
  "get m = None \<Longrightarrow> new_if_null k p get upd (m, h) =
     (Some (next_addr h), upd (\<lambda>_. Some (next_addr h)) m, snd (new_manager k p h))"
  by (simp add: new_if_null_def new_manager_def)

lemma links_set [simp]:
  "links (SetCounterManager a p h) a = (fst (links h a), p)"
  "links (SetRelationshipManager a p h) a = (p, snd (links h a))"
  "live (SetCounterManager a p h) = live h" "next_addr (SetCounterManager a p h) = next_addr h"
  "live (SetRelationshipManager a p h) = live h" "next_addr (SetRelationshipManager a p h) = next_addr h"
  "pool_of (SetCounterManager a p h) = pool_of h" "pools (SetCounterManager a p h) = pools h"
  "pool_of (SetRelationshipManager a p h) = pool_of h" "pools (SetRelationshipManager a p h) = pools h"
  by (simp_all add: SetCounterManager_def SetRelationshipManager_def)

lemma Pool_Initialize_simps [simp]:
  "live (Pool_Initialize P i d h) = live h" "next_addr (Pool_Initialize P i d h) = next_addr h"
  "links (Pool_Initialize P i d h) = links h" "pool_of (Pool_Initialize P i d h) = pool_of h"
  "pools (Pool_Initialize P i d h) = (pools h)[i := map_option (pool_initialize P d) (pools h ! i)]"
  by (simp_all add: Pool_Initialize_def)

lemma ModelModule_ctor_slots [simp]:
  "audio_manager (ZAresModelModule_ctor i) = None" "counter_manager (ZAresModelModule_ctor i) = None"
  "department_manager (ZAresModelModule_ctor i) = None" "file_manager (ZAresModelModule_ctor i) = None"
  "group_manager (ZAresModelModule_ctor i) = None" "login_manager (ZAresModelModule_ctor i) = None"
  "message_manager (ZAresModelModule_ctor i) = None" "relationship_manager (ZAresModelModule_ctor i) = None"
  "user_manager (ZAresModelModule_ctor i) = None" "db_conn_pool (ZAresModelModule_ctor i) = i"
  by (simp_all add: ZAresModelModule_ctor_def ModelModule_ctor_def model_module.defs zares_model_module.defs)

text \<open>The module after \<^verbatim>\<open>Initialize\<close>, with managers from the address \<open>a\<close> on and the pool at \<open>i\<close>.\<close>

definition fresh_module :: "nat \<Rightarrow> nat \<Rightarrow> zares_model_module" where
  "fresh_module a i = \<lparr>login_manager = Some (a + 5), department_manager = Some (a + 2),
     user_manager = Some (a + 8), group_manager = Some (a + 4),
     relationship_manager = Some (a + 7), message_manager = Some (a + 6),
     file_manager = Some (a + 3), counter_manager = Some (a + 1), audio_manager = Some a,
     db_conn_pool = i\<rparr>"

definition class_pool :: "nat \<Rightarrow> manager_class \<Rightarrow> nat option" where
  "class_pool i k = (if uses_pool k then Some i else None)"

lemma Initialize_eq:
  "ZAresModelModule_Initialize P d (ZAresModelModule_ctor i, h) = Some (True, fresh_module (next_addr h) i,
     SetCounterManager (next_addr h + 6) (Some (next_addr h + 1))
       (SetRelationshipManager (next_addr h + 6) (Some (next_addr h + 7))
         (fold (\<lambda>k h. snd (new_manager k (class_pool i k) h)) (map snd (module_slots (ZAresModelModule_ctor i)))
           (Pool_Initialize P i d h))))"
  unfolding ZAresModelModule_Initialize_def Let_def fst_conv snd_conv
  by (subst new_if_null_eq, simp, simp only: prod.case)+
    (simp add: fresh_module_def module_slots_def class_pool_def uses_pool_def eval_nat_numeral
      ZAresModelModule_ctor_def ModelModule_ctor_def model_module.defs zares_model_module.defs)

lemma Initialize_fresh:
  "\<exists>m h'. ZAresModelModule_Initialize P d (ZAresModelModule_new P h) = Some (True, m, h') \<and>
     list_all (\<lambda>(p, k). p \<noteq> None) (module_slots m) \<and>
     live h' = live h @ map (\<lambda>(p, k). (the p, k)) (module_slots m) \<and>
     map (the \<circ> fst) (module_slots m) = map (\<lambda>i. next_addr h + i) [0 ..< 9] \<and>
     next_addr h' = next_addr h + 9 \<and>
     links h' (the (message_manager m)) = (relationship_manager m, counter_manager m) \<and>
     db_conn_pool m = length (pools h) \<and> pools h' = pools h @ [Some (pool_initialize P d (pool_new P))] \<and>
     list_all (\<lambda>(p, k). pool_of h' (the p) = class_pool (db_conn_pool m) k) (module_slots m)"
proof -
  have "[0 ..< 9] = [0, 1, 2, 3, 4, 5, 6, 7, 8::nat]" by (simp add: upt_rec)
  then show ?thesis
    unfolding ZAresModelModule_new_def Initialize_eq
    by - (rule exI, rule exI, rule conjI, rule refl, simp add: fresh_module_def module_slots_def)
qed

lemma fst_new_if_null:
  "fst (new_if_null k p get upd s) = (if get (fst s) = None then Some (next_addr (snd s)) else None)"
  by (simp add: new_if_null_def new_manager_def case_prod_unfold Let_def)

lemma new_if_null_message:
  assumes "\<And>f m. message_manager (upd f m) = message_manager m"
  shows "message_manager (fst (snd (new_if_null k p get upd s))) = message_manager (fst s)"
  using assms by (simp add: new_if_null_def case_prod_unfold Let_def)

lemma Initialize_again:
  assumes "message_manager m \<noteq> None"
  shows "ZAresModelModule_Initialize P d (m, h) = None"
  unfolding ZAresModelModule_Initialize_def Let_def case_prod_unfold
  using assms by (simp add: fst_new_if_null new_if_null_message)

text \<open>\<^verbatim>\<open>Destroy\<close> frees what the slots hold, and nothing else.\<close>

lemma filter_neq: "filter (\<lambda>(b, k). b \<noteq> a) xs = filter (\<lambda>x. fst x \<noteq> a) xs"
  by (simp add: case_prod_unfold)

lemma delete_if_eq:
  assumes "get m = None \<Longrightarrow> upd (\<lambda>_. None) m = m"
  shows "delete_if get upd (m, h) =
    (upd (\<lambda>_. None) m, h\<lparr>live := filter (\<lambda>x. Some (fst x) \<noteq> get m) (live h)\<rparr>)"
  using assms
  by (cases "get m") (simp_all add: delete_if_def delete_manager_def filter_neq)

lemma delete_slot:
  "delete_if audio_manager audio_manager_update (m, h) = (audio_manager_update (\<lambda>_. None) m,
     h\<lparr>live := filter (\<lambda>x. Some (fst x) \<noteq> audio_manager m) (live h)\<rparr>)"
  "delete_if counter_manager counter_manager_update (m, h) = (counter_manager_update (\<lambda>_. None) m,
     h\<lparr>live := filter (\<lambda>x. Some (fst x) \<noteq> counter_manager m) (live h)\<rparr>)"
  "delete_if department_manager department_manager_update (m, h) = (department_manager_update (\<lambda>_. None) m,
     h\<lparr>live := filter (\<lambda>x. Some (fst x) \<noteq> department_manager m) (live h)\<rparr>)"
  "delete_if file_manager file_manager_update (m, h) = (file_manager_update (\<lambda>_. None) m,
     h\<lparr>live := filter (\<lambda>x. Some (fst x) \<noteq> file_manager m) (live h)\<rparr>)"
  "delete_if group_manager group_manager_update (m, h) = (group_manager_update (\<lambda>_. None) m,
     h\<lparr>live := filter (\<lambda>x. Some (fst x) \<noteq> group_manager m) (live h)\<rparr>)"
  "delete_if login_manager login_manager_update (m, h) = (login_manager_update (\<lambda>_. None) m,
     h\<lparr>live := filter (\<lambda>x. Some (fst x) \<noteq> login_manager m) (live h)\<rparr>)"
  "delete_if message_manager message_manager_update (m, h) = (message_manager_update (\<lambda>_. None) m,
     h\<lparr>live := filter (\<lambda>x. Some (fst x) \<noteq> message_manager m) (live h)\<rparr>)"
  "delete_if relationship_manager relationship_manager_update (m, h) = (relationship_manager_update (\<lambda>_. None) m,
     h\<lparr>live := filter (\<lambda>x. Some (fst x) \<noteq> relationship_manager m) (live h)\<rparr>)"
  "delete_if user_manager user_manager_update (m, h) = (user_manager_update (\<lambda>_. None) m,
     h\<lparr>live := filter (\<lambda>x. Some (fst x) \<noteq> user_manager m) (live h)\<rparr>)"
  by (rule delete_if_eq, cases m, simp)+

lemma Destroy_eq: "ZAresModelModule_Destroy (m, h) = (ZAresModelModule_ctor (db_conn_pool m),
    h\<lparr>live := filter (\<lambda>x. Some (fst x) \<notin> fst ` set (module_slots m)) (live h)\<rparr>)"
proof -
  have "\<And>x. (Some (fst x) \<notin> fst ` set (module_slots m)) =
    list_all (\<lambda>p. Some (fst x) \<noteq> p) (map fst (module_slots m))"
    by (auto simp: list_all_iff)
  then show ?thesis
    by (cases m) (simp add: ZAresModelModule_Destroy_def delete_slot module_slots_def ZAresModelModule_ctor_def
      ModelModule_ctor_def model_module.defs zares_model_module.defs conj_ac)
qed

lemma filter_fresh:
  assumes "heap_ok h"
  shows "filter (\<lambda>x. Some (fst x) \<notin> Some ` {next_addr h ..< n}) (live h) = live h"
  using assms by (intro filter_True) (auto simp: heap_ok_def)

lemma Destroy_Initialize:
  assumes h: "heap_ok h"
    and init: "ZAresModelModule_Initialize P d (ZAresModelModule_new P h) = Some (r, m, h')"
  shows "fst (ZAresModelModule_Destroy (m, h')) = ZAresModelModule_ctor (db_conn_pool m)"
    "live (snd (ZAresModelModule_Destroy (m, h'))) = live h"
proof -
  from Initialize_fresh [of P d h] init
  have slots: "list_all (\<lambda>(p, k). p \<noteq> None) (module_slots m)"
    and live: "live h' = live h @ map (\<lambda>(p, k). (the p, k)) (module_slots m)"
    and addrs: "map (the \<circ> fst) (module_slots m) = map (\<lambda>i. next_addr h + i) [0 ..< 9]"
    by auto
  have somes: "fst x = Some (the (fst x))" if "x \<in> set (module_slots m)" for x
    using that slots by (auto simp: list_all_iff)
  have "fst ` set (module_slots m) = Some ` set (map (the \<circ> fst) (module_slots m))"
    using somes by (force simp: image_iff)
  then have set: "fst ` set (module_slots m) = Some ` {next_addr h ..< next_addr h + 9}"
    by (simp only: addrs set_map set_upt image_add_atLeastLessThan) (simp add: add.commute)
  have "filter (\<lambda>x. Some (fst x) \<notin> fst ` set (module_slots m))
      (map (\<lambda>(p, k). (the p, k)) (module_slots m)) = []"
    using somes by (force simp: filter_empty_conv)
  then show "live (snd (ZAresModelModule_Destroy (m, h'))) = live h"
    by (simp add: Destroy_eq live set filter_fresh [OF h])
  show "fst (ZAresModelModule_Destroy (m, h')) = ZAresModelModule_ctor (db_conn_pool m)"
    by (simp add: Destroy_eq)
qed

end
