(* ===== verification/Zaresd_Server.thy ===== *)
theory Zaresd_Server
  imports Handler_Threads Model_Module
begin

text \<open>
  Start and stop of the server: \<^verbatim>\<open>zaresd/config_info.cc\<close>, \<^verbatim>\<open>client_comm_manager.cc\<close> and
  \<^verbatim>\<open>zaresd_server.cc\<close>. \<^verbatim>\<open>main\<close> and the daemon that calls \<^verbatim>\<open>LoadConfig\<close>, \<^verbatim>\<open>Initialize\<close> and
  \<^verbatim>\<open>Destroy\<close> belong to zutils.
\<close>

subsection \<open>Parameters\<close>

text \<open>\<^verbatim>\<open>base::IpAddrInfo2\<close>, of which the server reads two members; a \<^verbatim>\<open>base::DBAddrInfo\<close> is a value
  of the type \<open>'d\<close>, of which it reads \<open>max_conn_count\<close>. \<open>open_config\<close> is
  \<^verbatim>\<open>base::ConfigFile::Initialize\<close>, \<open>parse_ip\<close> and \<open>parse_db\<close> are \<^verbatim>\<open>ParseFromConfigFile\<close> of the two
  classes, \<open>create_acceptor\<close> is \<^verbatim>\<open>net::TCPAcceptor::Create\<close>, and \<open>send_session\<close> the
  \<^verbatim>\<open>SendSessionData\<close> of the network engine, which also has the overload \<open>send_raw\<close> on bytes and \<open>lookup_reactor\<close>, the
  reactor of a session or NULL. The pools of connections are those of \<open>conn_pool_lib\<close>.\<close>

record IpAddrInfo2 =
  addr :: string
  port :: string

record ('c, 'd, 'g) boot_env = "('d, 'g) conn_pool_lib" +
  open_config :: "string \<Rightarrow> 'c option"
  parse_ip :: "'c \<Rightarrow> string \<Rightarrow> IpAddrInfo2 \<Rightarrow> bool \<times> IpAddrInfo2"
  parse_db :: "'c \<Rightarrow> string \<Rightarrow> 'd \<Rightarrow> bool \<times> 'd"
  destroy_ip :: "IpAddrInfo2 \<Rightarrow> IpAddrInfo2"
  destroy_db :: "'d \<Rightarrow> 'd"
  max_conn_count :: "'d \<Rightarrow> nat"
  create_acceptor :: "string \<Rightarrow> string \<Rightarrow> bool"
  send_session :: "u64 \<Rightarrow> reply \<Rightarrow> bool"
  send_raw :: "u64 \<Rightarrow> byte list \<Rightarrow> u32 \<Rightarrow> bool"
  lookup_reactor :: "u64 \<Rightarrow> nat option"

subsection \<open>Configuration\<close>

record 'd config_info =
  db_addr :: 'd
  zaresd_addr_info :: IpAddrInfo2

definition ConfigInfo_Initialize ::
  "('c, 'd, 'g) boot_env \<Rightarrow> string option \<Rightarrow> 'd config_info \<Rightarrow> bool \<times> 'd config_info" where
  "ConfigInfo_Initialize B ini_file c =
     (case ini_file of
        None \<Rightarrow> (False, c)
      | Some ini_file \<Rightarrow>
        (case open_config B ini_file of
           None \<Rightarrow> (False, c)
         | Some xml_ini \<Rightarrow>
             let (result, ip) = parse_ip B xml_ini ''ZAresdServer'' (zaresd_addr_info c);
                 c = c\<lparr>zaresd_addr_info := ip\<rparr>
             in if \<not> result then (False, c)
                else let (result, db) = parse_db B xml_ini ''DatabaseServer'' (db_addr c)
                     in (result, c\<lparr>db_addr := db\<rparr>)))"

definition ConfigInfo_Destroy :: "('c, 'd, 'g) boot_env \<Rightarrow> 'd config_info \<Rightarrow> 'd config_info" where
  "ConfigInfo_Destroy B c =
     c\<lparr>db_addr := destroy_db B (db_addr c), zaresd_addr_info := destroy_ip B (zaresd_addr_info c)\<rparr>"

subsection \<open>The process\<close>

text \<open>The singletons of the process. \<open>net_engine\<close> is the state of the network engine:
  \<open>Some True\<close> while it runs. \<open>engine_set\<close> says that \<^verbatim>\<open>net_engine_manager_\<close> of the
  \<^verbatim>\<open>ClientCommManager\<close> is not NULL, \<open>listening\<close> is the address of its acceptor.\<close>

record ('p, 'q, 'd, 'g) process =
  config :: "'d config_info"
  module :: "zares_model_module option"
  module_objects :: "'g module_heap"
  threads :: "('p, 'q) thread_manager"
  net_engine :: "bool option"
  factory :: "(u32 \<times> request_class) list"
  handler_table :: "u32 \<Rightarrow> handler option"
  engine_set :: bool
  listening :: "(string \<times> string) option"

definition ClientCommManager_Initialize ::
  "('c, 'd, 'g) boot_env \<Rightarrow> string \<Rightarrow> string \<Rightarrow> ('p, 'q, 'd, 'g) process \<Rightarrow> bool \<times> ('p, 'q, 'd, 'g) process" where
  "ClientCommManager_Initialize B a p s =
     (let ok = create_acceptor B a p
      in (ok, s\<lparr>engine_set := True, listening := (if ok then Some (a, p) else listening s)\<rparr>))"

definition ClientCommManager_SendSessionData ::
  "('c, 'd, 'g) boot_env \<Rightarrow> u64 \<Rightarrow> reply \<Rightarrow> ('p, 'q, 'd, 'g) process \<Rightarrow> bool option" where
  "ClientCommManager_SendSessionData B sid r s =
     (if engine_set s then Some (send_session B sid r) else None)"

definition ClientCommManager_SendSessionData_raw ::
  "('c, 'd, 'g) boot_env \<Rightarrow> u64 \<Rightarrow> byte list \<Rightarrow> u32 \<Rightarrow> ('p, 'q, 'd, 'g) process \<Rightarrow> bool option" where
  "ClientCommManager_SendSessionData_raw B sid buf n s =
     (if engine_set s then Some (send_raw B sid buf n) else None)"

definition ClientCommManager_LookupReactorBySessionID ::
  "('c, 'd, 'g) boot_env \<Rightarrow> u64 \<Rightarrow> ('p, 'q, 'd, 'g) process \<Rightarrow> nat option option" where
  "ClientCommManager_LookupReactorBySessionID B sid s =
     (if engine_set s then Some (lookup_reactor B sid) else None)"

definition ZAresdServer_ctor :: "('p, 'q, 'd, 'g) process \<Rightarrow> ('p, 'q, 'd, 'g) process" where
  "ZAresdServer_ctor s = s\<lparr>net_engine := None\<rparr>"

definition LoadConfig ::
  "('c, 'd, 'g) boot_env \<Rightarrow> string \<Rightarrow> ('p, 'q, 'd, 'g) process \<Rightarrow> int \<times> ('p, 'q, 'd, 'g) process" where
  "LoadConfig B ini_file s =
     (let (ok, c) = ConfigInfo_Initialize B (Some ini_file) (config s)
      in (if ok then 0 else -1, s\<lparr>config := c\<rparr>))"

text \<open>The statements of \<^verbatim>\<open>ZAresdServer::Initialize\<close> in their order. The result of \<^verbatim>\<open>Run\<close> is not
  used.\<close>

definition ZAresdServer_Initialize ::
  "('c, 'd, 'g) boot_env \<Rightarrow> ('p, 'q) net_env \<Rightarrow> ('p, 'q, 'd, 'g) process \<Rightarrow> (int \<times> ('p, 'q, 'd, 'g) process) option" where
  "ZAresdServer_Initialize B N s =
     (case ModelMainManager_Initialize B (db_addr (config s)) ''zares'' (module s, module_objects s) of
        None \<Rightarrow> None
      | Some (_, m, h) \<Rightarrow>
        let s = s\<lparr>module := m, module_objects := h,
                  threads := ZAresHandlerThreadManager_Initialize
                    (max_conn_count B (db_addr (config s))) (threads s)\<rparr>
        in (case ZAresHandlerThreadManager_Run N (threads s) of
              None \<Rightarrow> None
            | Some (_, t) \<Rightarrow>
              let s = s\<lparr>threads := t, net_engine := Some True,
                        factory := RegisterPDUMessageFactory,
                        handler_table := g_message_handlers\<rparr>;
                  (ok, s) = ClientCommManager_Initialize B (addr (zaresd_addr_info (config s)))
                    (port (zaresd_addr_info (config s))) s
              in Some (if ok then 0 else -1, s)))"

definition ZAresdServer_Destroy ::
  "('p, 'q, 'd, 'g) process \<Rightarrow> (int \<times> ('p, 'q, 'd, 'g) process) option" where
  "ZAresdServer_Destroy s =
     (if net_engine s = None then None
      else map_option (\<lambda>(_, t). (0, s\<lparr>net_engine := Some False, threads := t\<rparr>))
        (ZAresHandlerThreadManager_Shutdown (threads s)))"

text \<open>What the start relies on of the pool class: one that has been set up with an address has the
  configured number of connections.\<close>

definition pool_fits :: "('c, 'd, 'g) boot_env \<Rightarrow> bool" where
  "pool_fits B \<longleftrightarrow> (\<forall>d. pool_size B (pool_initialize B d (pool_new B)) = max_conn_count B d)"

subsection \<open>Facts\<close>

lemma boot_eq:
  assumes "ZAresHandlerThreadManager_Run N (ZAresHandlerThreadManager_Initialize
    (max_conn_count B (db_addr (config s))) (threads s)) = Some (r, t)"
  shows "\<exists>m h'. ZAresModelModule_Initialize B (db_addr (config s)) (ZAresModelModule_new B (module_objects s)) =
      Some (True, m, h') \<and>
    ZAresdServer_Initialize B N s =
      Some (if create_acceptor B (addr (zaresd_addr_info (config s))) (port (zaresd_addr_info (config s)))
            then 0 else -1,
        s\<lparr>module := Some m, module_objects := h', threads := t, net_engine := Some True,
          factory := RegisterPDUMessageFactory, handler_table := g_message_handlers,
          engine_set := True,
          listening := (if create_acceptor B (addr (zaresd_addr_info (config s)))
              (port (zaresd_addr_info (config s)))
            then Some (addr (zaresd_addr_info (config s)), port (zaresd_addr_info (config s)))
            else listening s)\<rparr>)"
  using Initialize_fresh [of B "db_addr (config s)" "module_objects s"] assms
  by (auto simp: ZAresdServer_Initialize_def ModelMainManager_Initialize_def
    ClientCommManager_Initialize_def Let_def)

lemma run_threads_fail:
  assumes "\<forall>i \<in> set is. i < length pool" "distinct is" "j \<in> set is"
    "\<not> starts N (thread_index (pool ! j))"
  shows "\<exists>pool'. run_threads N is pool = Some (False, pool') \<and> length pool' = length pool"
  using assms
proof (induction "is" arbitrary: pool)
  case (Cons i "is")
  show ?case
  proof (cases "starts N (thread_index (pool ! i))")
    case False
    with Cons.prems show ?thesis by (simp add: ZAresHandlerThread_Run_def ZAresHandlerThread_Init_def)
  next
    case True
    let ?pool = "pool[i := (pool ! i)\<lparr>timer := True, running := True\<rparr>]"
    have "\<exists>pool'. run_threads N is ?pool = Some (False, pool') \<and> length pool' = length ?pool"
      using Cons.prems True by (intro Cons.IH) (auto simp: nth_list_update)
    with True Cons.prems show ?thesis by (simp add: ZAresHandlerThread_Run_def ZAresHandlerThread_Init_def)
  qed
qed simp

lemma Run_fails:
  assumes "thread_pool m = []" "j < n" "\<not> starts N j"
  shows "\<exists>m'. ZAresHandlerThreadManager_Run N (ZAresHandlerThreadManager_Initialize n m) = Some (False, m') \<and>
    thread_pool_size m' = 0 \<and> thread_pool m' = []"
proof -
  let ?pool = "map ZAresHandlerThread_ctor [0 ..< n] :: 'a handler_thread list"
  have "thread_index (?pool ! j) = j" using assms(2) by (simp add: ZAresHandlerThread_ctor_def)
  with run_threads_fail [of "[0 ..< n]" ?pool j N] assms(2,3) obtain pool' where
    "run_threads N [0 ..< n] ?pool = Some (False, pool')" "length pool' = n"
    by auto
  with assms(1,2) show ?thesis
    by (simp add: ZAresHandlerThreadManager_Run_def ZAresHandlerThreadManager_Initialize_def
        ZAresHandlerThreadManager_Shutdown_def)
qed

end
