(* ===== verification/Zaresd_Test.thy ===== *)
theory Zaresd_Test
  imports Zaresd_Server
begin

text \<open>
  The test program: \<^verbatim>\<open>zaresd_test/zaresd_test.cc\<close>. Each test builds a request on its stack and calls a
  handler directly, with a NULL pointer to a thread and session 0, so no answer can be sent. \<open>raw\<close>
  is the memory of the requests, \<open>H\<close> that of the objects of the handlers.
\<close>

subsection \<open>Handlers without a thread\<close>

text \<open>The handlers that look at the pointer to the thread before they use it.\<close>

primrec checks_context :: "handler \<Rightarrow> bool" where
  "checks_context ValidateRequestHandler = True"
| "checks_context FriendListRequestHandler = True"
| "checks_context RemoveSessionRequestHandler = True"
| "checks_context DepartmentRequestHandler = True"
| "checks_context UsersInfoRequestHandler = True"
| "checks_context AllUserRequestHandler = True"
| "checks_context MsgDataHandler = True"
| "checks_context UnreadMsgCountRequestHandler = False"
| "checks_context UnreadMsgRequestHandler = False"
| "checks_context MsgReadAckHandler = False"
| "checks_context GroupListRequestHandler = True"
| "checks_context GroupUserListRequestHandler = True"
| "checks_context GroupUnreadMsgCountRequestHandler = False"
| "checks_context GroupUnreadMsgRequestHandler = False"
| "checks_context GroupHistoryMsgRequestHandler = False"
| "checks_context GroupMsgReadAckHandler = False"
| "checks_context GroupCreateTmpGroupRequestHandler = True"
| "checks_context GroupChangeMemberRequestHandler = True"
| "checks_context GroupDialogListRequestHandler = True"
| "checks_context FileHasOfflineReqHandler = False"
| "checks_context FileAddOfflineReqHandler = False"
| "checks_context FileDelOfflineReqHandler = False"

text \<open>\<open>alone c p\<close>: \<open>p\<close> ends with \<open>c\<close> and sends nothing.\<close>

definition alone :: "int option \<Rightarrow> ('w, 'z, int option) server_prog \<Rightarrow> bool" where
  "alone c p \<longleftrightarrow> (\<forall>s. fst (run_state p s) = c \<and> outbox (snd (run_state p s)) = outbox s)"

named_theorems alone_intros "programs that send nothing"

lemma alone_bind [alone_intros]:
  assumes p: "preserves outbox p" and q: "\<And>x. alone c (q x)"
  shows "alone c (p \<bind> q)"
  using p q by (auto simp: alone_def preserves_def case_prod_unfold)

lemma alone_control [alone_intros]:
  "alone c (return c)"
  "p \<noteq> None \<Longrightarrow> (\<And>x. alone c (k x)) \<Longrightarrow> alone c (deref p k)"
  "(\<And>x y. alone c (k' x y)) \<Longrightarrow> alone c (case z of (x, y) \<Rightarrow> k' x y)"
  "alone None (SendSessionData None sid r)"
  "alone (Some 0) (SendSessionData_checked None sid r)"
  by (auto simp: alone_def deref_def SendSessionData_def SendSessionData_checked_def case_prod_unfold)

lemma ValidateRequestHandler_alone:
  "attach_data_type req = kAttachDataTypeDB \<Longrightarrow> alone (Some 0) (ValidateRequestHandler_Execute E H None sid req)"
  unfolding ValidateRequestHandler_Execute_def Let_def
  by (intro alone_intros conns_intros) (simp add: GetAttachData_def HasAttachData_def)

lemma FriendListRequestHandler_alone:
  "attach_data_type req = kAttachDataTypeDB \<Longrightarrow> alone (Some 0) (FriendListRequestHandler_Execute E H None sid req)"
  unfolding FriendListRequestHandler_Execute_def Let_def
  by (intro alone_intros conns_intros) (simp add: GetAttachData_def HasAttachData_def)

lemma RemoveSessionRequestHandler_alone:
  "attach_data_type req = kAttachDataTypeDB \<Longrightarrow> alone (Some 0) (RemoveSessionRequestHandler_Execute E H None sid req)"
  unfolding RemoveSessionRequestHandler_Execute_def Let_def
  by (intro alone_intros conns_intros) (simp add: GetAttachData_def HasAttachData_def)

lemma DepartmentRequestHandler_alone:
  "attach_data_type req = kAttachDataTypeDB \<Longrightarrow> alone (Some 0) (DepartmentRequestHandler_Execute E H None sid req)"
  unfolding DepartmentRequestHandler_Execute_def Let_def
  by (intro alone_intros conns_intros) (simp add: GetAttachData_def HasAttachData_def)

lemma UsersInfoRequestHandler_alone:
  "attach_data_type req = kAttachDataTypeDB \<Longrightarrow> alone (Some 0) (UsersInfoRequestHandler_Execute E H None sid req)"
  unfolding UsersInfoRequestHandler_Execute_def Let_def
  by (intro alone_intros conns_intros) (simp add: GetAttachData_def HasAttachData_def)

lemma AllUserRequestHandler_alone:
  "attach_data_type req = kAttachDataTypeDB \<Longrightarrow> alone (Some 0) (AllUserRequestHandler_Execute E H None sid req)"
  unfolding AllUserRequestHandler_Execute_def Let_def
  by (intro alone_intros conns_intros) (simp add: GetAttachData_def HasAttachData_def)

lemma MsgDataHandler_alone:
  "alone (Some 0) (MsgDataHandler_Execute E H None sid req)"
  unfolding MsgDataHandler_Execute_def Let_def
  by (intro alone_intros conns_intros)

lemma UnreadMsgCountRequestHandler_alone:
  "attach_data_type req = kAttachDataTypeDB \<Longrightarrow> alone None (UnreadMsgCountRequestHandler_Execute E H None sid req)"
  unfolding UnreadMsgCountRequestHandler_Execute_def Let_def
  by (intro alone_intros conns_intros) (simp add: GetAttachData_def HasAttachData_def)

lemma UnreadMsgRequestHandler_alone:
  "attach_data_type req = kAttachDataTypeDB \<Longrightarrow> alone None (UnreadMsgRequestHandler_Execute E H None sid req)"
  unfolding UnreadMsgRequestHandler_Execute_def Let_def
  by (intro alone_intros conns_intros) (simp add: GetAttachData_def HasAttachData_def)

lemma MsgReadAckHandler_alone:
  "alone None (MsgReadAckHandler_Execute E H None sid req)"
  unfolding MsgReadAckHandler_Execute_def Let_def
  by (intro alone_intros conns_intros)

lemma GroupListRequestHandler_alone:
  "attach_data_type req = kAttachDataTypeDB \<Longrightarrow> alone (Some 0) (GroupListRequestHandler_Execute E H None sid req)"
  unfolding GroupListRequestHandler_Execute_def Let_def
  by (intro alone_intros conns_intros) (simp add: GetAttachData_def HasAttachData_def)

lemma GroupUserListRequestHandler_alone:
  "attach_data_type req = kAttachDataTypeDB \<Longrightarrow> alone (Some 0) (GroupUserListRequestHandler_Execute E H None sid req)"
  unfolding GroupUserListRequestHandler_Execute_def Let_def
  by (intro alone_intros conns_intros) (simp add: GetAttachData_def HasAttachData_def)

lemma GroupUnreadMsgCountRequestHandler_alone:
  "attach_data_type req = kAttachDataTypeDB \<Longrightarrow> alone None (GroupUnreadMsgCountRequestHandler_Execute E H None sid req)"
  unfolding GroupUnreadMsgCountRequestHandler_Execute_def Let_def
  by (intro alone_intros conns_intros) (simp add: GetAttachData_def HasAttachData_def)

lemma GroupUnreadMsgRequestHandler_alone:
  "attach_data_type req = kAttachDataTypeDB \<Longrightarrow> alone None (GroupUnreadMsgRequestHandler_Execute E H None sid req)"
  unfolding GroupUnreadMsgRequestHandler_Execute_def Let_def
  by (intro alone_intros conns_intros) (simp add: GetAttachData_def HasAttachData_def)

lemma GroupHistoryMsgRequestHandler_alone:
  "attach_data_type req = kAttachDataTypeDB \<Longrightarrow> alone None (GroupHistoryMsgRequestHandler_Execute E H None sid req)"
  unfolding GroupHistoryMsgRequestHandler_Execute_def Let_def
  by (intro alone_intros conns_intros) (simp add: GetAttachData_def HasAttachData_def)

lemma GroupMsgReadAckHandler_alone:
  "alone None (GroupMsgReadAckHandler_Execute E H None sid req)"
  unfolding GroupMsgReadAckHandler_Execute_def Let_def
  by (intro alone_intros conns_intros)

lemma GroupCreateTmpGroupRequestHandler_alone:
  "attach_data_type req = kAttachDataTypeDB \<Longrightarrow> alone (Some 0) (GroupCreateTmpGroupRequestHandler_Execute E H None sid req)"
  unfolding GroupCreateTmpGroupRequestHandler_Execute_def Let_def
  by (intro alone_intros conns_intros) (simp add: GetAttachData_def HasAttachData_def)

lemma GroupChangeMemberRequestHandler_alone:
  "attach_data_type req = kAttachDataTypeDB \<Longrightarrow> alone (Some 0) (GroupChangeMemberRequestHandler_Execute E H None sid req)"
  unfolding GroupChangeMemberRequestHandler_Execute_def Let_def
  by (intro alone_intros conns_intros) (simp add: GetAttachData_def HasAttachData_def)

lemma GroupDialogListRequestHandler_alone:
  "attach_data_type req = kAttachDataTypeDB \<Longrightarrow> alone (Some 0) (GroupDialogListRequestHandler_Execute E H None sid req)"
  unfolding GroupDialogListRequestHandler_Execute_def Let_def
  by (intro alone_intros conns_intros) (simp add: GetAttachData_def HasAttachData_def)

lemma FileHasOfflineReqHandler_alone:
  "attach_data_type req = kAttachDataTypeDB \<Longrightarrow> alone None (FileHasOfflineReqHandler_Execute E H None sid req)"
  unfolding FileHasOfflineReqHandler_Execute_def Let_def
  by (intro alone_intros conns_intros) (simp add: GetAttachData_def HasAttachData_def)

lemma FileAddOfflineReqHandler_alone:
  "alone None (FileAddOfflineReqHandler_Execute E H None sid req)"
  unfolding FileAddOfflineReqHandler_Execute_def Let_def
  by (intro alone_intros conns_intros)

lemma FileDelOfflineReqHandler_alone:
  "alone None (FileDelOfflineReqHandler_Execute E H None sid req)"
  unfolding FileDelOfflineReqHandler_Execute_def Let_def
  by (intro alone_intros conns_intros)

lemmas handlers_alone =
  ValidateRequestHandler_alone FriendListRequestHandler_alone
  RemoveSessionRequestHandler_alone DepartmentRequestHandler_alone
  UsersInfoRequestHandler_alone AllUserRequestHandler_alone
  MsgDataHandler_alone UnreadMsgCountRequestHandler_alone
  UnreadMsgRequestHandler_alone MsgReadAckHandler_alone
  GroupListRequestHandler_alone GroupUserListRequestHandler_alone
  GroupUnreadMsgCountRequestHandler_alone GroupUnreadMsgRequestHandler_alone
  GroupHistoryMsgRequestHandler_alone GroupMsgReadAckHandler_alone
  GroupCreateTmpGroupRequestHandler_alone GroupChangeMemberRequestHandler_alone
  GroupDialogListRequestHandler_alone FileHasOfflineReqHandler_alone
  FileAddOfflineReqHandler_alone FileDelOfflineReqHandler_alone

lemma execute_alone:
  assumes "request_ok m"
  shows "alone (if checks_context (handler_for (request_class_of m)) then Some 0 else None)
    (execute_handler (handler_for (request_class_of m)) E H None sid m)"
  using assms by (cases m) (simp_all add: request_ok_def pdu_kind_def handlers_alone)

subsection \<open>The tests\<close>

text \<open>The second statement of a test does not run when the first one crashes.\<close>

definition and_then :: "('s, int option) state \<Rightarrow> ('s, int option) state \<Rightarrow> ('s, int option) state" where
  "and_then p q = do { rc \<leftarrow> p; if rc = None then return None else q }"

definition ValidateRequestHandler_Test ::
  "('w, 'r) db_env \<Rightarrow> handler_env \<Rightarrow> handler_env \<Rightarrow> raw_requests \<Rightarrow> ('w, 'z, int option) server_prog" where
  "ValidateRequestHandler_Test E H H2 raw = do {
       let r = ValidateRequest_ctor (raw_ValidateRequest raw);
       let r = r\<lparr>ValidateRequest.user_name := ''A''\<rparr>;
       let r = r\<lparr>ValidateRequest.password := ''''\<rparr>;
       and_then (ValidateRequestHandler_Execute E H None 0 r) (do {
         let r = r\<lparr>ValidateRequest.user_name := ''B''\<rparr>;
         let r = r\<lparr>ValidateRequest.password := ''123456''\<rparr>;
         ValidateRequestHandler_Execute E H2 None 0 r
       })
     }"

definition DepartmentRequestHandler_Test ::
  "('w, 'r) db_env \<Rightarrow> handler_env \<Rightarrow> raw_requests \<Rightarrow> ('w, 'z, int option) server_prog" where
  "DepartmentRequestHandler_Test E H raw = do {
       let r = DepartmentRequest_ctor (raw_DepartmentRequest raw);
       let r = r\<lparr>DepartmentRequest.req_user_id := 1\<rparr>;
       DepartmentRequestHandler_Execute E H None 0 r
     }"

definition AllUserRequestHandler_Test ::
  "('w, 'r) db_env \<Rightarrow> handler_env \<Rightarrow> raw_requests \<Rightarrow> ('w, 'z, int option) server_prog" where
  "AllUserRequestHandler_Test E H raw = do {
       let r = AllUserRequest_ctor (raw_AllUserRequest raw);
       let r = r\<lparr>AllUserRequest.req_user_id := 1\<rparr>;
       AllUserRequestHandler_Execute E H None 0 r
     }"

definition FriendListRequestHandler_Test ::
  "('w, 'r) db_env \<Rightarrow> handler_env \<Rightarrow> raw_requests \<Rightarrow> ('w, 'z, int option) server_prog" where
  "FriendListRequestHandler_Test E H raw = do {
       let r = FriendListRequest_ctor (raw_FriendListRequest raw);
       let r = r\<lparr>FriendListRequest.user_id := 10035\<rparr>;
       FriendListRequestHandler_Execute E H None 0 r
     }"

definition RemoveSessionRequestHandler_Test ::
  "('w, 'r) db_env \<Rightarrow> handler_env \<Rightarrow> raw_requests \<Rightarrow> ('w, 'z, int option) server_prog" where
  "RemoveSessionRequestHandler_Test E H raw = do {
       let r = RemoveSessionRequest_ctor (raw_RemoveSessionRequest raw);
       let r = r\<lparr>RemoveSessionRequest.req_user_id := 10035\<rparr>;
       let r = r\<lparr>RemoveSessionRequest.session_id := 10036\<rparr>;
       let r = r\<lparr>RemoveSessionRequest.session_type := 1\<rparr>;
       RemoveSessionRequestHandler_Execute E H None 0 r
     }"

definition MsgDataHandler_Test ::
  "('w, 'r) db_env \<Rightarrow> handler_env \<Rightarrow> raw_requests \<Rightarrow> ('w, 'z, int option) server_prog" where
  "MsgDataHandler_Test E H raw = do {
       let r = MsgData_ctor (raw_MsgData raw);
       let r = r\<lparr>MsgData.from_user_id := 10035\<rparr>;
       let r = r\<lparr>MsgData.to_user_id := 10036\<rparr>;
       let r = r\<lparr>MsgData.msg_type := 1\<rparr>;
       let r = r\<lparr>MsgData.msg_data := ''Hello zaresd''\<rparr>;
       now \<leftarrow> NowMSTime E;
       let r = r\<lparr>MsgData.create_time := ucast (now div 1000)\<rparr>;
       MsgDataHandler_Execute E H None 0 r
     }"

definition UsersInfoRequestHandler_Test ::
  "('w, 'r) db_env \<Rightarrow> handler_env \<Rightarrow> raw_requests \<Rightarrow> ('w, 'z, int option) server_prog" where
  "UsersInfoRequestHandler_Test E H raw = do {
       let r = UsersInfoRequest_ctor (raw_UsersInfoRequest raw);
       let r = r\<lparr>UsersInfoRequest.from_user_id := 10035\<rparr>;
       let r = r\<lparr>UsersInfoRequest.user_id_list := UsersInfoRequest.user_id_list r @ [10036]\<rparr>;
       let r = r\<lparr>UsersInfoRequest.user_id_list := UsersInfoRequest.user_id_list r @ [10037]\<rparr>;
       UsersInfoRequestHandler_Execute E H None 0 r
     }"

definition GroupListRequestHandler_Test ::
  "('w, 'r) db_env \<Rightarrow> handler_env \<Rightarrow> raw_requests \<Rightarrow> ('w, 'z, int option) server_prog" where
  "GroupListRequestHandler_Test E H raw = do {
       let r = GroupListRequest_ctor (raw_GroupListRequest raw);
       let r = r\<lparr>GroupListRequest.user_id := 10035\<rparr>;
       GroupListRequestHandler_Execute E H None 0 r
     }"

definition GroupDialogListRequestHandler_Test ::
  "('w, 'r) db_env \<Rightarrow> handler_env \<Rightarrow> raw_requests \<Rightarrow> ('w, 'z, int option) server_prog" where
  "GroupDialogListRequestHandler_Test E H raw = do {
       let r = GroupDialogListRequest_ctor (raw_GroupDialogListRequest raw);
       let r = r\<lparr>GroupDialogListRequest.user_id := 10035\<rparr>;
       GroupDialogListRequestHandler_Execute E H None 0 r
     }"

definition GroupUserListRequestHandler_Test ::
  "('w, 'r) db_env \<Rightarrow> handler_env \<Rightarrow> raw_requests \<Rightarrow> ('w, 'z, int option) server_prog" where
  "GroupUserListRequestHandler_Test E H raw = do {
       let r = GroupUserListRequest_ctor (raw_GroupUserListRequest raw);
       let r = r\<lparr>GroupUserListRequest.group_id := 104240\<rparr>;
       let r = r\<lparr>GroupUserListRequest.req_user_id := 10035\<rparr>;
       GroupUserListRequestHandler_Execute E H None 0 r
     }"

definition GroupCreateTmpGroupRequestHandler_Test ::
  "('w, 'r) db_env \<Rightarrow> handler_env \<Rightarrow> raw_requests \<Rightarrow> ('w, 'z, int option) server_prog" where
  "GroupCreateTmpGroupRequestHandler_Test E H raw = do {
       let r = GroupCreateTmpGroupRequest_ctor (raw_GroupCreateTmpGroupRequest raw);
       let r = r\<lparr>GroupCreateTmpGroupRequest.req_user_id := 10035\<rparr>;
       let r = r\<lparr>GroupCreateTmpGroupRequest.group_name := ''ZAresd''\<rparr>;
       let r = r\<lparr>GroupCreateTmpGroupRequest.group_avatar := ''g0/000/000/1409816408883559_140719535912.jpg''\<rparr>;
       let r = r\<lparr>GroupCreateTmpGroupRequest.user_list := GroupCreateTmpGroupRequest.user_list r @ [10035]\<rparr>;
       let r = r\<lparr>GroupCreateTmpGroupRequest.user_list := GroupCreateTmpGroupRequest.user_list r @ [10036]\<rparr>;
       let r = r\<lparr>GroupCreateTmpGroupRequest.user_list := GroupCreateTmpGroupRequest.user_list r @ [10037]\<rparr>;
       GroupCreateTmpGroupRequestHandler_Execute E H None 0 r
     }"

definition GroupChangeMemberRequestHandler_Test ::
  "('w, 'r) db_env \<Rightarrow> handler_env \<Rightarrow> handler_env \<Rightarrow> raw_requests \<Rightarrow> ('w, 'z, int option) server_prog" where
  "GroupChangeMemberRequestHandler_Test E H H2 raw = do {
       let r = GroupChangeMemberRequest_ctor (raw_GroupChangeMemberRequest raw);
       let r = r\<lparr>GroupChangeMemberRequest.req_user_id := 10035\<rparr>;
       let r = r\<lparr>GroupChangeMemberRequest.group_id := 104250\<rparr>;
       let r = r\<lparr>GroupChangeMemberRequest.user_list := GroupChangeMemberRequest.user_list r @ [10036]\<rparr>;
       let r = r\<lparr>GroupChangeMemberRequest.change_type := 1\<rparr>;
       and_then (GroupChangeMemberRequestHandler_Execute E H None 0 r) (do {
         let r = r\<lparr>GroupChangeMemberRequest.change_type := 0\<rparr>;
         GroupChangeMemberRequestHandler_Execute E H2 None 0 r
       })
     }"

text \<open>\<^verbatim>\<open>main\<close>: neither the result of reading the configuration nor that of creating the managers is
  used; of the tests only the last one is called, the others stand in a disabled block. The result
  of \<^verbatim>\<open>main\<close> is the exit status.\<close>

definition zaresd_test_main ::
  "('c, 'd, 'g) boot_env \<Rightarrow> ('w, 'r) db_env \<Rightarrow> handler_env \<Rightarrow> handler_env \<Rightarrow> raw_requests \<Rightarrow>
   ('p, 'q, 'd, 'g) process \<times> 'w server_state \<Rightarrow> (int \<times> ('p, 'q, 'd, 'g) process \<times> 'w server_state) option" where
  "zaresd_test_main B E H H2 raw = (\<lambda>(s, srv).
     let (_, c) = ConfigInfo_Initialize B (Some ''./zaresd.xml'') (config s); s = s\<lparr>config := c\<rparr>
     in (case ModelMainManager_Initialize B (db_addr (config s)) ''zares'' (module s, module_objects s) of
           None \<Rightarrow> None
         | Some (_, m, h) \<Rightarrow>
             let s = s\<lparr>module := m, module_objects := h\<rparr>
             in (case run_state (GroupChangeMemberRequestHandler_Test E H H2 raw) srv of
                   (None, _) \<Rightarrow> None
                 | (Some _, srv) \<Rightarrow> Some (0, s, srv))))"

subsection \<open>Facts\<close>

lemma alone_and_then [alone_intros]:
  "alone (Some 0) p \<Longrightarrow> alone c q \<Longrightarrow> alone c (and_then p q)"
  by (auto simp: alone_def and_then_def case_prod_unfold)

text \<open>Every test runs to its end.\<close>

lemma ValidateRequestHandler_Test_ends: "alone (Some 0) (ValidateRequestHandler_Test E H H2 raw)"
  unfolding ValidateRequestHandler_Test_def Let_def
  by (intro alone_intros conns_intros handlers_alone) (simp_all add: ValidateRequest_ctor_def BaseTeamTalkPDU_ctor_def)

lemma DepartmentRequestHandler_Test_ends: "alone (Some 0) (DepartmentRequestHandler_Test E H raw)"
  unfolding DepartmentRequestHandler_Test_def Let_def
  by (intro alone_intros conns_intros handlers_alone) (simp_all add: DepartmentRequest_ctor_def BaseTeamTalkPDU_ctor_def)

lemma AllUserRequestHandler_Test_ends: "alone (Some 0) (AllUserRequestHandler_Test E H raw)"
  unfolding AllUserRequestHandler_Test_def Let_def
  by (intro alone_intros conns_intros handlers_alone) (simp_all add: AllUserRequest_ctor_def BaseTeamTalkPDU_ctor_def)

lemma FriendListRequestHandler_Test_ends: "alone (Some 0) (FriendListRequestHandler_Test E H raw)"
  unfolding FriendListRequestHandler_Test_def Let_def
  by (intro alone_intros conns_intros handlers_alone) (simp_all add: FriendListRequest_ctor_def BaseTeamTalkPDU_ctor_def)

lemma RemoveSessionRequestHandler_Test_ends: "alone (Some 0) (RemoveSessionRequestHandler_Test E H raw)"
  unfolding RemoveSessionRequestHandler_Test_def Let_def
  by (intro alone_intros conns_intros handlers_alone) (simp_all add: RemoveSessionRequest_ctor_def BaseTeamTalkPDU_ctor_def)

lemma MsgDataHandler_Test_ends: "alone (Some 0) (MsgDataHandler_Test E H raw)"
  unfolding MsgDataHandler_Test_def Let_def
  by (intro alone_intros conns_intros handlers_alone) 

lemma UsersInfoRequestHandler_Test_ends: "alone (Some 0) (UsersInfoRequestHandler_Test E H raw)"
  unfolding UsersInfoRequestHandler_Test_def Let_def
  by (intro alone_intros conns_intros handlers_alone) (simp_all add: UsersInfoRequest_ctor_def BaseTeamTalkPDU_ctor_def)

lemma GroupListRequestHandler_Test_ends: "alone (Some 0) (GroupListRequestHandler_Test E H raw)"
  unfolding GroupListRequestHandler_Test_def Let_def
  by (intro alone_intros conns_intros handlers_alone) (simp_all add: GroupListRequest_ctor_def BaseTeamTalkPDU_ctor_def)

lemma GroupDialogListRequestHandler_Test_ends: "alone (Some 0) (GroupDialogListRequestHandler_Test E H raw)"
  unfolding GroupDialogListRequestHandler_Test_def Let_def
  by (intro alone_intros conns_intros handlers_alone) (simp_all add: GroupDialogListRequest_ctor_def BaseTeamTalkPDU_ctor_def)

lemma GroupUserListRequestHandler_Test_ends: "alone (Some 0) (GroupUserListRequestHandler_Test E H raw)"
  unfolding GroupUserListRequestHandler_Test_def Let_def
  by (intro alone_intros conns_intros handlers_alone) (simp_all add: GroupUserListRequest_ctor_def BaseTeamTalkPDU_ctor_def)

lemma GroupCreateTmpGroupRequestHandler_Test_ends: "alone (Some 0) (GroupCreateTmpGroupRequestHandler_Test E H raw)"
  unfolding GroupCreateTmpGroupRequestHandler_Test_def Let_def
  by (intro alone_intros conns_intros handlers_alone) (simp_all add: GroupCreateTmpGroupRequest_ctor_def BaseTeamTalkPDU_ctor_def)

lemma GroupChangeMemberRequestHandler_Test_ends: "alone (Some 0) (GroupChangeMemberRequestHandler_Test E H H2 raw)"
  unfolding GroupChangeMemberRequestHandler_Test_def Let_def
  by (intro alone_intros conns_intros handlers_alone) (simp_all add: GroupChangeMemberRequest_ctor_def BaseTeamTalkPDU_ctor_def)

lemma GroupChangeMemberRequestHandler_Test_conns:
  "uses_conns 1 (GroupChangeMemberRequestHandler_Test E H H2 raw)"
  unfolding GroupChangeMemberRequestHandler_Test_def and_then_def Let_def
  by (intro conns_intros GroupChangeMemberRequestHandler_conns)

end
