(* ===== verification/Spec2Isabelle.thy ===== *)
theory Spec2Isabelle
  imports Table_Properties Zaresd_Test
begin

text \<open>
  \<^bold>\<open>zattd\<close>: the database proxy of a chat service, and a model of it.

  \<^bold>\<open>The program.\<close> \<^verbatim>\<open>zaresd\<close> accepts connections from the other servers of the service, reads packets,
  answers each with one packet, and keeps its data in an SQL database. A packet goes
  through these parts:

  \<^item> the network thread gets it in \<^verbatim>\<open>ClientCommHandler::OnDataReceived\<close>
    (\<^verbatim>\<open>zaresd/client_comm_handler.cc\<close>), which echoes heartbeats, drops types without a handler and
    posts the rest to a thread of \<^verbatim>\<open>ZAresHandlerThreadManager\<close>, in turn;
  \<^item> the thread (\<^verbatim>\<open>zaresd/zares_handler_thread.cc\<close>) turns the packet into an object of a message
    class (\<^verbatim>\<open>proto/\<close>, \<^verbatim>\<open>zaresd/register_message_factory.cc\<close>) and dispatches it
    (\<^verbatim>\<open>zaresd/message_handler/message_handler.cc\<close>) to the handler of its type;
  \<^item> the handler (\<^verbatim>\<open>zaresd/message_handler/*_handler.cc\<close>) calls managers
    (\<^verbatim>\<open>zaresd/model/zares/*_manager_impl.cc\<close>), which run SQL statements on connections of a pool
    or change the counters they keep in memory, fills a response and hands it to the network with
    \<^verbatim>\<open>SendSessionData\<close>;
  \<^item> \<^verbatim>\<open>ZAresdServer\<close> (\<^verbatim>\<open>zaresd/zaresd_server.cc\<close>) loads the configuration and starts all of these;
    \<^verbatim>\<open>ModelMainManager\<close> and \<^verbatim>\<open>ZAresModelModule\<close> create and connect the managers.

  \<^bold>\<open>Libraries.\<close> The program is built on \<^verbatim>\<open>zutils\<close>, which is not in the repository. What the
  program uses of it is a parameter of the model:

  \<^item> \<^verbatim>\<open>net::ByteStream\<close>: the record \<open>bytestream\<close> (\<open>Byte_Stream\<close>), with its law \<open>byte_stream\<close>: a value
    that is written into a stream with room takes the size of its type, is what a read of the same
    type at that place returns, and a read past the end or a write without room sets \<^verbatim>\<open>Fail()\<close>.
    \<open>Array_Stream\<close> has a stream that obeys the law, in network byte order;
  \<^item> the database connection, its rows, the clock and the formatting of SQL text: the record
    \<open>db_env\<close> (\<open>Database\<close>). A statement is a function on a world of any type and nothing is assumed of
    it, so the theorems hold for every database; a task counts the connections it holds. Only the
    theorems on contacts and groups (C5 to C8, C24 to C26, C28) assume that the database keeps tables:
    \<open>contact_db\<close> (\<open>Relation_Table\<close>) says what the statements that look up and insert a relation do to the
    rows of \<^verbatim>\<open>IMRecentContact\<close>, \<open>book_db\<close> (\<open>Contact_Book\<close>) what the other statements on this table do, and
    \<open>member_db\<close> (\<open>Member_Table\<close>) what those on \<^verbatim>\<open>IMGroup\<close> and \<^verbatim>\<open>IMGroupRelation\<close> do, where the status a new
    member gets and whether a new group is active, defaults of columns that the statements do not
    mention, are parameters. \<open>untouched\<close> (\<open>Statement_Frame\<close>) says that queries and the statements on other
    tables leave a table alone, \<open>fresh_ids\<close> that inserted contacts get new ids while there is room;
  \<^item> the parser of packets, the sequence number and the starting of threads: \<open>net_env\<close>
    (\<open>Handler_Threads\<close>). Theorems on runs assume \<open>parser_ok\<close>: the object made from a packet is of the
    class the factory has for the type of the packet. The stronger \<open>wire_parser\<close> (\<open>Wire_Server\<close>) says
    that it is what an object of this class reads from the body, and gives \<open>parser_ok\<close>;
  \<^item> the pool of connections: \<open>conn_pool_lib\<close> (\<open>Model_Module\<close>), with the constructor of
    \<^verbatim>\<open>CdbConnPoolManager\<close>, its \<^verbatim>\<open>Initialize\<close> and the number of its connections. C15 alone assumes
    \<open>pool_fits\<close> (\<open>Zaresd_Server\<close>): a pool that has been set up has the configured number of connections;
  \<^item> the configuration file and the listening socket: \<open>boot_env\<close> (\<open>Zaresd_Server\<close>).

  Memory that C++ leaves uninitialised is a parameter too: a constructor gets an object \<open>raw\<close> and
  sets in it what the code sets. \<^verbatim>\<open>std::map\<close> is a sorted association list (\<open>Std_Map\<close>), \<^verbatim>\<open>uint32\<close> and the
  other integers are words, which wrap; a null pointer is \<open>None\<close>; a call that would crash the server
  has the value \<open>None\<close>. All loops of the program run over a container or up to a count and are
  structural recursions or folds; no fuel is used anywhere.

  \<^bold>\<open>Theories.\<close>

  \<^item> \<open>Prelude\<close>, \<open>Byte_Stream\<close>, \<open>Array_Stream\<close>, \<open>Std_Map\<close>: word types, the stream, read and write
    statements and the collections of facts their proofs use, ordered maps as a locale with its
    interpretation.
  \<^item> \<open>Base_Pdu\<close>: \<^verbatim>\<open>BaseTeamTalkPDU\<close> (\<^verbatim>\<open>proto/base_teamtalk_pdu.h\<close> and \<^verbatim>\<open>.cc\<close>) and, as the locale
    \<open>teamtalk_pdu\<close>, the contract of its subclasses: the list of fields the writer emits, that the
    reader consumes just these, and the byte size. The locale proves once that packets are exact,
    are read back, and that cut packets are refused.
  \<^item> \<open>Pdu_Types\<close>, \<open>Base_Data\<close>, \<open>Attach_Data\<close>, \<open>Pdu_Login\<close>, \<open>Pdu_Message\<close>, \<open>Pdu_Group\<close>, \<open>Pdu_File\<close>,
    \<open>Pdu_Misc\<close>, \<open>Pdu_Validate\<close>: the message types, data structures and the 46 message classes, each
    with its record, constructor, \<^verbatim>\<open>ByteSize\<close>, \<^verbatim>\<open>ParseFromByteStream\<close> and
    \<^verbatim>\<open>SerializeToByteStream\<close>, and an interpretation of \<open>teamtalk_pdu\<close>. \<^verbatim>\<open>ValidateResponse\<close> does not
    obey the contract and has facts of its own.
  \<^item> \<open>Requests\<close>, \<open>Responses\<close>: the factory, and the virtual functions of the message classes as case
    distinctions over the datatypes \<open>request\<close> and \<open>response\<close>.
  \<^item> \<open>Counter_Manager\<close>: the counters in memory, with the locale \<open>unread_counter\<close>, which specifies an
    unread count by the history of messages and acknowledgements, interpreted on the cache.
  \<^item> \<open>Counter_Races\<close>: the counter operations once more, as several threads run them: split where
    \<^verbatim>\<open>CacheManager\<close> gives up its lock and at each call on a map, with iterators that other threads can
    invalidate, and the uses of maps of each step, under the lock or not, which say what steps race.
  \<^item> \<open>Database\<close>, \<open>Relationship_Manager\<close>, \<open>User_Manager\<close> (users, departments and login),
    \<open>File_Manager\<close>, \<open>Group_Manager\<close>, \<open>Message_Manager\<close>: the managers as programs of the state monad
    over the database and the counters; the locale \<open>relationship_contract\<close> says what
    \<^verbatim>\<open>SendIMMessage\<close> needs of the relationship manager. \<open>Relation_Table\<close>: the relation of users as a
    partial map, over a database that keeps the rows. \<open>Contact_Book\<close>: related users and the friends each
    user's list shows, and the effect of every operation of the relationship manager on them.
    \<open>Member_Table\<close>: groups, their members and the number of members kept with each, and the effect of
    every operation of the group manager on them. \<open>Table_Lists\<close>: rows of an answer that is limited.
  \<^item> \<open>Server_State\<close>, \<open>Handlers_User\<close>, \<open>Handlers_Message\<close>, \<open>Handlers_Group\<close>, \<open>Message_Handler\<close>: the
    \<^verbatim>\<open>Execute\<close> of each handler, the handler table and dispatch. The handler lemmas say that a
    request is answered by exactly one message (\<open>sends_one\<close>) and how connections are used
    (\<open>uses_conns\<close>).
  \<^item> \<open>Model_Module\<close>: creation, connection and destruction of the managers on a heap of objects, with the
    pool of connections of each module and the managers that use it.
  \<^item> \<open>Handler_Threads\<close>, \<open>Server_Counters\<close>: threads as queues of tasks, the pool, the inductive
    relations \<open>server_step\<close> (a packet arrives, a thread runs its next task) and \<open>server_run\<close>, and
    the invariants of runs. \<open>Server_Progress\<close>: what a run keeps well
    formed, the abstract server \<open>queue_run\<close> that runs refine, and endless runs under a scheduler that is
    fair to a thread. \<open>Wire_Server\<close>: requests and answers as packets, a whole
    exchange between a client and the server, and packets that were cut short. \<open>Server_History\<close>: what each
    exchange adds to the history of messages, and the abstract server \<open>chat_run\<close>, which answers from
    that history.
  \<^item> \<open>Statement_Frame\<close>: the statements that write, by table, and which of them each handler can run.
    \<open>Server_World\<close>: abstract services as effects of requests (\<open>requests_run\<close>), and the rule that lifts what
    every dispatch keeps of the database to runs of the server. \<open>Contact_Server\<close>, \<open>Group_Service\<close>,
    \<open>Group_Server\<close>: the effect of each request on contacts and groups, and both over runs.
    \<open>Group_Sample\<close>: a database that obeys \<open>member_db\<close>; the one of \<open>Contact_Book\<close> obeys \<open>book_db\<close>.
  \<^item> \<open>Zaresd_Server\<close>: configuration, start and stop. \<open>Zaresd_Test\<close>: the test program
    \<^verbatim>\<open>zaresd_test/zaresd_test.cc\<close>, which calls the handlers without a thread.
  \<^item> \<open>Wire_Properties\<close>, \<open>Model_Properties\<close>, \<open>Server_Properties\<close>, \<open>Table_Properties\<close>, this theory: the
    properties, of messages, of managers and handlers, of what the server answers, of the tables a
    running server keeps, and of the whole server, with the inputs that show their hypotheses can hold.

  \<^bold>\<open>What is shown.\<close> A request is answered once, with the type that belongs to it, to the session it
  came from, and, unless the answer is a write response, with its attach data (C1). The server refines a
  chat service of queues and a history of
  messages, the counts it keeps are those of the history, and this is what it tells users (C2 to C4);
  over databases that keep their tables, runs of the server are runs of an abstract service of groups, whose
  numbers of members stay exact, and of an abstract contact book (C5, C6), members leave a group only
  by request of its owner (C7), and the relationship manager is a contact book (C8). In an endless run
  every posted packet is handled in its turn, under a scheduler fair to its thread (C9), and no bytes
  from outside do more than an answer to their session (C10). Over any run of the threads the answers
  are those of the tasks handled, in their order (C11), and no packet or task crashes the server, in
  whatever memory its handler is built (C12). C13 is whom a sent message shows to whom. A client that
  serialises a request gets its answer over the wire (C14), the threads never need more connections than
  the pool the server has set up (C15), messages of every class
  survive the wire, but for the change type of one, and cut packets are refused (C16, C17), and runs keep
  the server well formed (C18).
  Counter operations split into their calls are the one-step operations when they do not overlap (C19),
  crash when two threads acknowledge messages of the same friend (C20), are safe, and have no step that
  races with another, when no two of them conflict in a map (C21), and end within a bound unless such a
  conflict has crashed the run (C22). Sending counts one message exactly on success, the lists of
  friends, of members and of groups are those of the tables, and a friend leaves a user's list only by
  the user's own request (C23 to C27). C28 to C33 are two threads that break the relation of users, a
  lookup whose failure makes members join twice, the agreement of handler table and factory, byte
  sizes, group counts and handlers without a thread. C34 to C40 state where the code does not do what it
  seems to be meant to: a change type and a user record that are lost on the wire, an unchecked count,
  a request class that is never answered, unknown users that pass, counts kept for the wrong user, a
  failed start that is not noticed.
  Further lemmas with a description hold what is of less weight or is a step towards these: the
  refinement to queues alone, the order of tasks within a thread, that queues can be emptied, packets to
  threads in turn, the start of the server, attach data on the wire, messages that are refused, the history of a single count, the
  relation as a partial map, connections of one task, messages that are never delivered, results of
  joining and quitting groups, the file deletion rule, the objects of the model module and the leak
  of \<^verbatim>\<open>ModelMainManager::Destroy\<close>, timers of threads, the test program.

  \<^bold>\<open>Bounds.\<close> 303 is the largest number of steps of a counter operation: the start, \<^verbatim>\<open>begin()\<close>, 300 entries
  and the end of the walk; C19 and C22 use it. The numbers of members and the ids of contacts have to fit an \<^verbatim>\<open>INT\<close>: C5, C6, C7 and
  C26 ask that the users named, or twice the requests handled, leave room below 2147483648.

  \<^bold>\<open>Not modelled.\<close> Memory exhaustion. In \<open>server_step\<close> a task, with its statements and counter operations,
  is one step, in memory that is not determined, so that C10, C12 and C18 hold for every content of it (C28 alone interleaves the statements of two tasks), so that the theorems on runs hold
  of tasks that do not get in each other's way; what other processes do to the database between two
  statements is no restriction, since a world is arbitrary and a statement an arbitrary function on it,
  but \<open>contact_db\<close>, \<open>book_db\<close> and \<open>member_db\<close> exclude it, and requests that name a user twice are
  excluded where the numbers of members are claimed to be exact; the races between counter operations are in
  \<open>Counter_Races\<close>, down to single calls on a map: two calls that touch the nodes of one map at the
  same instant are not told apart from one after the other, so that C20 is one crash among others that
  conflicting operations can have, while C21 shows that without conflicts no two such calls meet. Log output and the accessors of message members (they are the record fields).
  Code inside \<^verbatim>\<open>#if 0\<close>. The class \<^verbatim>\<open>ZAresAudioManagerImpl\<close>, which has no operations. A debug build,
  where \<^verbatim>\<open>DCHECK\<close> stops the program.

  \<^bold>\<open>Plan.\<close> All code that is compiled is modelled. What could follow is the interleaving of the statements
  of all handlers, as C28 has it for one operation, and the tables of users, departments, messages and
  files. The repository has no schema of its tables, so what a statement does to columns it does not
  name, such as the status of a new member, has to stay a parameter.
\<close>

subsection \<open>Dispatch\<close>

text \<open>The classes answered by a write response.\<close>

lemma write_answered:
  "answer_type c = MESSAGE_DB_WRITE_RESPONSE \<longleftrightarrow> c \<in> {Class_MsgData, Class_MsgReadAck, Class_GroupMsgReadAck,
     Class_FileAddOfflineReq, Class_FileDelOfflineReq}"
  by (cases c) simp_all

text \<open>C30: The handler table and the message factory agree: both know the same message types in the
  same order, no type twice, and the handler of a type is the one written for the class the
  factory makes for it.\<close>

theorem table_matches_factory:
  "map fst InitMessageHandlerTable = map fst RegisterPDUMessageFactory \<and>
   distinct (map fst RegisterPDUMessageFactory) \<and>
   list_all (\<lambda>(t, c). g_message_handlers t = Some (handler_for c)) RegisterPDUMessageFactory"
proof (intro conjI)
  show "distinct (map fst RegisterPDUMessageFactory)"
    by (simp add: RegisterPDUMessageFactory_def)
qed (auto simp: table_and_factory list_all_iff handler_of_type)

text \<open>C1: Every request of a class other than \<^verbatim>\<open>GroupHistoryMsgRequest\<close> is answered once: dispatched by a
  thread, in whatever memory, it ends normally and has sent one message, to its own session, of the
  message type that answers it and with its reserved value. The answer has the attach data of the
  request, except that a write response, which answers a message, a read acknowledgement and the
  requests that add and delete offline files, has none, also where the request came with some. It can
  be serialised: it is of the type and attach data kind of its class, and a validate response has a
  user record exactly with the result 0.\<close>

theorem dispatch_answers_once:
  assumes "request_ok m" "request_class_of m \<noteq> Class_GroupHistoryMsgRequest"
  shows "\<exists>r. fst (run_state (DispatchMessageHandler E H (Some i) sid m) s) = Some 0 \<and>
    outbox (snd (run_state (DispatchMessageHandler E H (Some i) sid m) s)) = outbox s @ [(sid, r)] \<and>
    message_type (reply_base r) = answer_type (request_class_of m) \<and>
    reserved (reply_base r) = reserved (request_base m) \<and>
    GetAttachData (reply_base r) =
      (if request_class_of m \<in> {Class_MsgData, Class_MsgReadAck, Class_GroupMsgReadAck,
          Class_FileAddOfflineReq, Class_FileDelOfflineReq}
       then None else Some (attach_data (request_base m))) \<and>
    serializable r \<and> reply_ok r"
proof -
  from dispatch_replies [OF assms, of "Some i" sid E H] obtain r where
    r: "fst (run_state (DispatchMessageHandler E H (Some i) sid m) s) = Some 0"
      "outbox (snd (run_state (DispatchMessageHandler E H (Some i) sid m) s)) = outbox s @ [(sid, r)]"
      "answer (request_base m) (answer_type (request_class_of m)) r"
    by (auto simp: sends_one_def)
  have "serializable r"
    using r(3) by (auto simp: answer_def reply_ok_def serializable_def ValidateResponse_ok_def
        split: reply.splits)
  with r show ?thesis unfolding answer_def write_answered by auto
qed

theorem dispatch_answers_once_witness:
  "\<exists>r. outbox (snd (run_state (DispatchMessageHandler demo_env demo_handler_env (Some 0) 9
      sample_ValidateRequest) demo_state)) = [(9, r)] \<and>
    message_type (reply_base r) = MESSAGE_VALIDATE_RESPONSE \<and> GetAttachData (reply_base r) = Some ''x''"
proof -
  have "request_ok sample_ValidateRequest" "request_class_of sample_ValidateRequest = Class_ValidateRequest"
    "attach_data (request_base sample_ValidateRequest) = ''x''"
    by (simp_all add: sample_ValidateRequest_def request_ok_def pdu_kind_def pdu_defs base_pdu.defs)
  with dispatch_answers_once [of sample_ValidateRequest demo_env demo_handler_env 0 9 demo_state]
  show ?thesis by (auto simp: demo_state_def)
qed

text \<open>C37: A \<^verbatim>\<open>GroupHistoryMsgRequest\<close> is never answered: the type of its packets has a handler, so they
  are posted to a thread, but the object parsed from one has another message type, for which
  there is no handler, and dispatching it does nothing.\<close>

theorem group_history_dropped:
  "CheckMessageHandler MESSAGE_GROUP_HISTORY_MSG_REQUEST \<and>
   (MESSAGE_GROUP_HISTORY_MSG_REQUEST, Class_GroupHistoryMsgRequest) \<in> set RegisterPDUMessageFactory \<and>
   run_state (DispatchMessageHandler E H ctx sid
     (snd (request_ParseFromArray (request_new Class_GroupHistoryMsgRequest raw) B data))) s = (Some 0, s)"
proof (intro conjI)
  let ?m = "snd (request_ParseFromArray (request_new Class_GroupHistoryMsgRequest raw) B data)"
  show "(MESSAGE_GROUP_HISTORY_MSG_REQUEST, Class_GroupHistoryMsgRequest) \<in> set RegisterPDUMessageFactory"
    by (simp add: RegisterPDUMessageFactory_def)
  then show "CheckMessageHandler MESSAGE_GROUP_HISTORY_MSG_REQUEST"
    using handler_of_type by (auto simp: CheckMessageHandler_def)
  have "request_ok ?m" "request_class_of ?m = Class_GroupHistoryMsgRequest"
    by (rule request_parse_ok [OF request_new_ok], simp only: request_parse_class request_new_kind)
  then show "run_state (DispatchMessageHandler E H ctx sid ?m) s = (Some 0, s)"
    by (simp add: dispatch_history)
qed

text \<open>A handler gives back every database connection it takes and holds at most one at a time.\<close>

lemma dispatch_connections:
  "conns_held (snd (run_state (DispatchMessageHandler E H ctx sid m) s)) = conns_held s \<and>
   conns_peak (snd (run_state (DispatchMessageHandler E H ctx sid m) s)) \<le> max (conns_peak s) (conns_held s + 1)"
  by (rule dispatch_conns [unfolded uses_conns_def, rule_format])

subsection \<open>Threads and runs\<close>

text \<open>The server implements queues of requests: every run of the threads, whatever handlers, database,
  counters and pool do, is a run of the abstract server in which a packet with a handler joins one of
  the queues and the first packet of a queue is answered once or dropped; and the abstract server's
  next handling step is always possible in the real one.\<close>

lemma server_refines_queues:
  assumes "server_run N E s tr s'" "manager_ok (manager s)" "parser_ok N"
  shows "queue_run N (as_queues s) tr (as_queues s') \<and>
    (\<forall>i sid p a. queue_step N (as_queues s') (Handled i sid p) a \<longrightarrow>
       (\<exists>s''. server_step N E s' (Handled i sid p) s''))"
proof -
  have ok: "manager_ok (manager s')" using run_keeps_inv [OF assms] by (simp add: run_inv_def)
  have "\<exists>s''. server_step N E s' (Handled i sid p) s''"
    if "queue_step N (as_queues s') (Handled i sid p) a" for i sid p a
  proof -
    from that obtain rest where "i < length (thread_pool (manager s'))"
      "tasks (thread_pool (manager s') ! i) = (sid, p) # rest"
      by (cases rule: queue_step.cases) (auto simp: as_queues_def)
    with handle_total [OF ok assms(3)] show ?thesis by blast
  qed
  with server_run_refines [OF assms] show ?thesis by blast
qed

theorem server_refines_queues_witness:
  "\<exists>a. queue_run sample_net \<lparr>queues = [[], []], sent = []\<rparr>
      [Received 9 sample_ValidateRequest (Some 0)] a"
proof -
  obtain s where run: "server_run sample_net demo_env sample_server
      [Received 9 sample_ValidateRequest (Some 0)] s"
    using sample_run by blast
  have "as_queues sample_server = \<lparr>queues = [[], []], sent = []\<rparr>"
    by (simp add: as_queues_def sample_server_def demo_state_def)
  with server_refines_queues [OF run sample_ok] show ?thesis by auto
qed

text \<open>C12: In a pool that is in service no packet and no task crashes the server: every packet is accepted,
  every thread is running, and the next task of a thread ends normally whatever the memory its handler finds
  (\<open>H\<close>), so that with any memory the thread can take the step that handles it.\<close>

theorem server_never_stuck:
  assumes "server_run N E s tr s'" "manager_ok (manager s)" "parser_ok N"
  shows "OnDataReceived N sid p s' \<noteq> None \<and> list_all running (thread_pool (manager s')) \<and>
    (\<forall>i < length (thread_pool (manager s')). \<forall>q rest H.
       tasks (thread_pool (manager s') ! i) = q # rest \<longrightarrow>
       fst (run_state (OnMessageDataHandler N E H i (fst q) (snd q)) (server s')) = Some 0 \<and>
       server_step N E s' (Handled i (fst q) (snd q))
         (s'\<lparr>manager := (manager s')\<lparr>thread_pool := (thread_pool (manager s'))
              [i := (thread_pool (manager s') ! i)\<lparr>tasks := rest\<rparr>]\<rparr>,
            server := snd (run_state (OnMessageDataHandler N E H i (fst q) (snd q)) (server s'))\<rparr>))"
proof (intro conjI allI impI)
  have ok: "manager_ok (manager s')" using run_keeps_inv [OF assms] by (simp add: run_inv_def)
  show "OnDataReceived N sid p s' \<noteq> None"
    using PostData_ok [OF ok, of N sid p] by (auto simp: OnDataReceived_def)
  show "list_all running (thread_pool (manager s'))" using ok by (simp add: manager_ok_def)
  fix i q rest H
  assume i: "i < length (thread_pool (manager s'))" and t: "tasks (thread_pool (manager s') ! i) = q # rest"
  show ends: "fst (run_state (OnMessageDataHandler N E H i (fst q) (snd q)) (server s')) = Some 0"
    using OnMessage_run [OF assms(3)] by blast
  have "running (thread_pool (manager s') ! i)" using ok i by (simp add: manager_ok_def list_all_length)
  from server_step.handle [OF i refl this] t ends show "server_step N E s' (Handled i (fst q) (snd q))
      (s'\<lparr>manager := (manager s')\<lparr>thread_pool := (thread_pool (manager s'))
           [i := (thread_pool (manager s') ! i)\<lparr>tasks := rest\<rparr>]\<rparr>,
         server := snd (run_state (OnMessageDataHandler N E H i (fst q) (snd q)) (server s'))\<rparr>)"
    by (metis prod.collapse)
qed

text \<open>Tasks are neither lost, repeated nor reordered within a thread: at any time of a run, what has
  been posted to a thread is what the thread has handled followed by what it still has to do.\<close>

lemma tasks_in_order:
  assumes "server_run N E s tr s'" "manager_ok (manager s)" "parser_ok N"
    and "i < length (thread_pool (manager s))" "tasks (thread_pool (manager s) ! i) = []"
  shows "posted i tr = handled i tr @ tasks (thread_pool (manager s') ! i)"
  using run_keeps_inv [OF assms(1-3)] assms(4,5) by (auto simp: run_inv_def)

theorem tasks_in_order_witness:
  "\<exists>s. server_run sample_net demo_env sample_server [Received 9 sample_ValidateRequest (Some 0)] s \<and>
    posted 0 [Received 9 sample_ValidateRequest (Some 0)] = tasks (thread_pool (manager s) ! 0)"
proof -
  obtain s where run: "server_run sample_net demo_env sample_server
      [Received 9 sample_ValidateRequest (Some 0)] s"
    using sample_run by blast
  have "(0::nat) < length (thread_pool (manager sample_server))"
    "tasks (thread_pool (manager sample_server) ! 0) = []"
    by (simp_all add: sample_server_def)
  from tasks_in_order [OF run sample_ok this] have
    "posted 0 [Received 9 sample_ValidateRequest (Some 0)] = tasks (thread_pool (manager s) ! 0)"
    by (simp add: handled_def)
  with run show ?thesis by blast
qed

theorem server_never_stuck_witness:
  "\<exists>s. server_run sample_net demo_env sample_server [Received 9 sample_ValidateRequest (Some 0)] s \<and>
    (\<forall>H. fst (run_state (OnMessageDataHandler sample_net demo_env H 0 9 sample_ValidateRequest) (server s)) = Some 0)"
proof -
  let ?e = "Received 9 sample_ValidateRequest (Some 0)"
  obtain s where run: "server_run sample_net demo_env sample_server [?e] s" using sample_run by blast
  have "(0::nat) < length (thread_pool (manager sample_server))"
    "tasks (thread_pool (manager sample_server) ! 0) = []" by (simp_all add: sample_server_def)
  from tasks_in_order [OF run sample_ok this]
  have t: "tasks (thread_pool (manager s) ! 0) = [(9, sample_ValidateRequest)]"
    by (simp add: handled_def posted_def)
  have "length (thread_pool (manager s)) = 2"
    using run_keeps_inv [OF run sample_ok] by (simp add: run_inv_def sample_server_def)
  with server_never_stuck [OF run sample_ok] t have
    "\<forall>H. fst (run_state (OnMessageDataHandler sample_net demo_env H 0 9 sample_ValidateRequest) (server s)) = Some 0"
    by fastforce
  with run show ?thesis by blast
qed

text \<open>C11: The messages the server has sent during a run are the answers to the tasks it has handled, one
  for each task that can be answered, in the order the tasks were handled, each to the session of
  its request.\<close>

theorem answers_in_order:
  assumes "server_run N E s tr s'" "manager_ok (manager s)" "parser_ok N"
  shows "\<exists>rs. outbox (server s') = outbox (server s) @ rs \<and>
    list_all2 (is_answer N) (filter (answered N) (all_handled tr)) rs"
  using run_keeps_inv [OF assms] by (simp add: run_inv_def)

theorem answers_in_order_witness:
  "\<exists>s r. server_run sample_net demo_env sample_server sample_chat s \<and>
    outbox (server s) = [(9, r)] \<and> is_answer sample_net (9, sample_MsgData) (9, r)"
proof -
  obtain s r where run: "server_run sample_net demo_env sample_server sample_chat s"
    and out: "outbox (server s) = [(9, r)]"
    using sample_chat_run by blast
  have "filter (answered sample_net) (all_handled sample_chat) = [(9, sample_MsgData)]"
    using sample_MsgData_ok(2) by (simp add: all_handled_def answered_def sample_MsgData_ok(3))
  moreover have "outbox (server sample_server) = []" by (simp add: sample_server_def demo_state_def)
  ultimately have "is_answer sample_net (9, sample_MsgData) (9, r)"
    using answers_in_order [OF run sample_ok] out by auto
  with run out show ?thesis by blast
qed

text \<open>Every accepted request is eventually handled if the threads go on: any run can be continued by
  handling alone to a state in which no thread has a task left.\<close>

lemma server_drains:
  assumes "server_run N E s tr s'" "manager_ok (manager s)" "parser_ok N"
  shows "\<exists>tr' s''. server_run N E s (tr @ tr') s'' \<and> list_all (\<lambda>e. task_event e \<noteq> []) tr' \<and>
    (\<forall>i < length (thread_pool (manager s'')). tasks (thread_pool (manager s'') ! i) = [])"
proof -
  from drain [OF assms] obtain tr' s'' where "server_run N E s (tr @ tr') s''" "backlog s'' = 0"
    "list_all (\<lambda>e. task_event e \<noteq> []) tr'" by blast
  then show ?thesis by (auto simp: backlog_def intro!: exI)
qed

theorem server_drains_witness:
  "\<exists>tr s. server_run sample_net demo_env sample_server (Received 9 sample_ValidateRequest (Some 0) # tr) s \<and>
    tasks (thread_pool (manager s) ! 0) = []"
proof -
  obtain s where run: "server_run sample_net demo_env sample_server
      [Received 9 sample_ValidateRequest (Some 0)] s"
    using sample_run by blast
  from server_drains [OF run sample_ok] obtain tr s' where
    r: "server_run sample_net demo_env sample_server (Received 9 sample_ValidateRequest (Some 0) # tr) s'"
    and t: "\<forall>i < length (thread_pool (manager s')). tasks (thread_pool (manager s') ! i) = []"
    by auto
  have "length (thread_pool (manager s')) = 2"
    using run_keeps_inv [OF r sample_ok] by (simp add: run_inv_def sample_server_def)
  with t have "tasks (thread_pool (manager s') ! 0) = []" by simp
  with r show ?thesis by blast
qed

text \<open>C18: Runs keep the server well formed: a pool in service stays in service, the counters stay maps in
  key order whose inner maps are well formed, no connection is kept, and every message handed to
  the network is of its class's type and attach data, with a user record exactly if it says so.\<close>

theorem server_well_formed:
  assumes "server_run N E s tr s'" "server_typed s" "parser_ok N"
  shows "manager_ok (manager s') \<and> cache_ok (cache (server s')) \<and> conns_held (server s') = 0 \<and>
    (\<forall>(sid, r) \<in> set (outbox (server s')). reply_ok r)"
  using server_typed_run [OF assms]
  by (auto simp: server_typed_def cache_reachable_ok list_all_iff)

theorem server_well_formed_witness:
  "\<exists>s. server_run sample_net demo_env sample_server [Received 9 sample_ValidateRequest (Some 0)] s \<and>
    manager_ok (manager s) \<and> cache_ok (cache (server s))"
proof -
  obtain s where run: "server_run sample_net demo_env sample_server
      [Received 9 sample_ValidateRequest (Some 0)] s"
    using sample_run by blast
  have "server_typed sample_server"
    using sample_ok(1) by (simp add: server_typed_def sample_server_def demo_state_def cache_reachable.new)
  from server_well_formed [OF run this sample_ok(2)] run show ?thesis by blast
qed

subsection \<open>From a client and back\<close>

text \<open>C14: A whole exchange: the packet a client makes of a request, whatever its class other than
  \<^verbatim>\<open>GroupHistoryMsgRequest\<close>, is accepted and posted to a thread; when a thread handles it, in whatever
  memory, it ends normally and has sent one message to the client's session, of the type that answers
  the request and, unless it is a write response, which has none, with the attach data the client put
  into the request. That message, if it has fewer than 2^32 bytes, can be serialised into a buffer of
  its byte size, and a fresh object of its class, in any memory, accepts the packet and reads the members
  the writer puts there, for all classes but \<^verbatim>\<open>ValidateResponse\<close>: of that answer the user name and the
  result arrive, the user record of a successful validation does not, and whether the packet is
  accepted is not claimed.\<close>

theorem request_over_the_wire:
  assumes "byte_stream B cur W" "wire_parser N B body mem"
    and "request_ok m" "request_class_of m \<noteq> Class_GroupHistoryMsgRequest" "request_size m < 2 ^ 32"
    and "carries N B body p m" "manager_ok (manager s)"
  shows "(\<exists>i s'. OnDataReceived N sid p s = Some (Some i, s') \<and> i < length (thread_pool (manager s))) \<and>
    (\<exists>r. fst (run_state (OnMessageDataHandler N E H i sid p) t) = Some 0 \<and>
       outbox (snd (run_state (OnMessageDataHandler N E H i sid p) t)) = outbox t @ [(sid, r)] \<and>
       message_type (reply_base r) = answer_type (request_class_of m) \<and>
       GetAttachData (reply_base r) =
         (if answer_type (request_class_of m) = MESSAGE_DB_WRITE_RESPONSE then None
          else Some (attach_data (request_base m))) \<and>
       (\<forall>data. length data = unat (reply_ByteSize r) \<and> reply_size r < 2 ^ 32 \<longrightarrow>
         (\<exists>packet. reply_SerializeToArray r B data = Some (True, packet) \<and>
           (\<forall>a raw. r = Reply a \<longrightarrow>
             response_ParseFromArray (response_new (response_class_of a) raw) B packet =
               (True, response_received a raw)) \<and>
           (\<forall>v raw n. r = Rs_ValidateResponse v \<and>
             n = snd (BaseTeamTalkPDU_ParseFromArray ValidateResponse_ParseFromByteStream B
               (ValidateResponse_ctor raw) packet) \<longrightarrow>
             ValidateResponse.user_name n = ValidateResponse.user_name v \<and>
             ValidateResponse.result n = ValidateResponse.result v \<and>
             (ValidateResponse.result v = 0 \<longrightarrow> user n = None)))))"
proof -
  from exchange [OF assms(1-6), of E H i sid t] obtain r where
    r: "fst (run_state (OnMessageDataHandler N E H i sid p) t) = Some 0"
      "outbox (snd (run_state (OnMessageDataHandler N E H i sid p) t)) = outbox t @ [(sid, r)]"
      "comes_back B m r" by blast
  have "\<exists>packet. reply_SerializeToArray r B data = Some (True, packet) \<and> reply_arrives B r packet"
    if "length data = unat (reply_ByteSize r) \<and> reply_size r < 2 ^ 32" for data
    using r(3) that by (simp add: comes_back_def)
  with r carried_posted [OF assms(3,4,6,7)] show ?thesis
    by (intro conjI, blast) (fastforce simp: comes_back_def reply_arrives_def Let_def)
qed

text \<open>A request for the list of friends, answered with two friends.\<close>

definition sample_FriendListRequest :: request where
  "sample_FriendListRequest = Rq_FriendListRequest
     ((FriendListRequest_ctor undefined)\<lparr>FriendListRequest.user_id := 3, attach_data := ''x''\<rparr>)"

lemma sample_FriendListRequest_ok:
  "request_ok sample_FriendListRequest" "request_class_of sample_FriendListRequest = Class_FriendListRequest"
  "request_size sample_FriendListRequest < 2 ^ 32" "attach_data (request_base sample_FriendListRequest) = ''x''"
  by (simp_all add: sample_FriendListRequest_def request_ok_def pdu_kind_def pdu_defs base_pdu.defs
      wire_fields_def HasAttachData_def)

definition sample_friends :: FriendListResponse where
  "sample_friends = (FriendListResponse_ctor (raw_FriendListResponse (raws demo_handler_env)))
     \<lparr>FriendListResponse.from_user_id := 3, reserved := reserved (raw_FriendListRequest (undefined :: raw_requests)), attach_data := ''x'',
      FriendListResponse.friend_lists := [new_FriendInfo\<lparr>FriendInfo.friend_user_id := 1\<rparr>, new_FriendInfo\<lparr>FriendInfo.friend_user_id := 2\<rparr>]\<rparr>"

lemma sample_friends_sent:
  "outbox (snd (run_state (DispatchMessageHandler demo_env demo_handler_env (Some 0) 9
      (request_received sample_FriendListRequest undefined)) demo_state)) =
    [(9, Reply (Rs_FriendListResponse sample_friends))]"
proof -
  have m: "request_class_of (request_received sample_FriendListRequest undefined) = Class_FriendListRequest"
    "request_ok (request_received sample_FriendListRequest undefined)"
    using received_base(2) [OF sample_FriendListRequest_ok(1)] sample_FriendListRequest_ok(2)
    by (simp_all add: received_class)
  show ?thesis
    by (subst dispatch_request [OF m(2)], simp add: m(1), simp only: m(1) handler_for.simps)
      (simp add: sample_FriendListRequest_def received_def FriendListRequestHandler_Execute_def deref_def
        GetAttachData_def HasAttachData_def Let_def SendSessionData_checked_def SendSessionData_def
        serializable_def SetAttachData_def FriendListResponse_ctor_def FriendListRequest_ctor_def
        BaseTeamTalkPDU_ctor_def GetRecentContactByUserId_def run_ScopedPtr Query_def demo_env_def demo_state_def
        case_prod_unfold friend_ParseFromDatabase_def DB_column_u32_def sample_friends_def)
qed

lemma sample_friends_size: "response_size (Rs_FriendListResponse sample_friends) < 2 ^ 32"
  by (simp add: sample_friends_def wire_fields_def pdu_defs fields_defs HasAttachData_def)
theorem request_over_the_wire_witness:
  "\<exists>p packet. outbox (snd (run_state (OnMessageDataHandler wire_net demo_env demo_handler_env 0 9 p) demo_state)) =
      [(9, Reply (Rs_FriendListResponse sample_friends))] \<and>
    (\<exists>data. reply_SerializeToArray (Reply (Rs_FriendListResponse sample_friends)) array_stream data = Some (True, packet)) \<and>
    (\<forall>raw. response_ParseFromArray (response_new Class_FriendListResponse raw) array_stream packet =
      (True, response_received (Rs_FriendListResponse sample_friends) raw))"
proof -
  let ?m = sample_FriendListRequest and ?r = "Reply (Rs_FriendListResponse sample_friends)"
  let ?p = "(message_type (request_base ?m),
    snd (request_SerializeToArray ?m array_stream (replicate (unat (request_ByteSize ?m)) 0)))"
  note m = sample_FriendListRequest_ok
  have "fst (request_SerializeToArray ?m array_stream (replicate (unat (request_ByteSize ?m)) 0))"
    using request_packets [OF array_stream_byte_stream m(1,3) length_replicate, of 0 undefined]
    by (metis fst_conv)
  then have p: "carries wire_net array_stream snd ?p ?m"
    by (auto simp: carries_def wire_net_def prod_eq_iff intro!: exI [of _ "replicate (unat (request_ByteSize ?m)) 0"])
  have c: "request_class_of ?m \<noteq> Class_GroupHistoryMsgRequest" by (simp add: m(2))
  have out: "outbox (snd (run_state (OnMessageDataHandler wire_net demo_env demo_handler_env 0 9 ?p) demo_state)) =
      [(9, ?r)]"
    using sample_friends_sent parse_carried [OF array_stream_byte_stream wire_net_parser m(1) c m(3) p]
    by (simp add: OnMessageDataHandler_def)
  have "manager_ok (manager wire_server)" by (simp add: wire_server_def manager_ok_def)
  from request_over_the_wire [OF array_stream_byte_stream wire_net_parser m(1) c m(3) p this, of 9 demo_env
      demo_handler_env 0 demo_state] obtain r where
    r: "outbox (snd (run_state (OnMessageDataHandler wire_net demo_env demo_handler_env 0 9 ?p) demo_state)) =
        outbox demo_state @ [(9, r)]"
      "\<And>data. length data = unat (reply_ByteSize r) \<and> reply_size r < 2 ^ 32 \<Longrightarrow>
        \<exists>packet. reply_SerializeToArray r array_stream data = Some (True, packet) \<and>
          (\<forall>a raw. r = Reply a \<longrightarrow> response_ParseFromArray (response_new (response_class_of a) raw)
             array_stream packet = (True, response_received a raw))"
    by (elim conjE exE) (erule that, drule spec, drule (1) mp, blast)
  from r(1) out have "r = ?r" by (simp add: demo_state_def)
  with r(2) [of "replicate (unat (reply_ByteSize ?r)) 0"] sample_friends_size out show ?thesis
    by (auto simp: reply_size_def)
qed

subsection \<open>Handlers without a thread\<close>

text \<open>C33: A handler that is called with a NULL pointer to a thread, as the test program does, sends nothing;
  it ends with 0 exactly if it is one of those that check the pointer, and the other ten use it
  unchecked.\<close>

theorem handlers_without_thread:
  assumes "request_ok m"
  shows "let h = handler_for (request_class_of m); (rc, s') = run_state (execute_handler h E H None sid m) s
    in outbox s' = outbox s \<and> rc = (if checks_context h then Some 0 else None)"
  using execute_alone [OF assms, unfolded alone_def, rule_format, of E H sid s]
  by (simp add: case_prod_unfold Let_def)

theorem handlers_without_thread_witness:
  "fst (run_state (execute_handler ValidateRequestHandler demo_env demo_handler_env None 0
      sample_ValidateRequest) demo_state) = Some 0"
proof -
  have "request_ok sample_ValidateRequest" "request_class_of sample_ValidateRequest = Class_ValidateRequest"
    by (simp_all add: sample_ValidateRequest_def request_ok_def pdu_kind_def pdu_defs base_pdu.defs)
  with handlers_without_thread [of sample_ValidateRequest demo_env demo_handler_env 0 demo_state]
  show ?thesis by (simp add: case_prod_unfold Let_def)
qed

text \<open>The test program ends with exit status 0, whatever the configuration file says and the database
  answers: the managers exist, the test of changing a group has run both its requests, nothing was
  sent and no connection is kept.\<close>

lemma test_program_ends:
  "\<exists>s' srv' m. zaresd_test_main B E H H2 raw (s, srv) = Some (0, s', srv') \<and>
    module s' = Some m \<and> list_all (\<lambda>(p, k). p \<noteq> None) (module_slots m) \<and>
    outbox srv' = outbox srv \<and> conns_held srv' = conns_held srv"
proof -
  let ?d = "db_addr (snd (ConfigInfo_Initialize B (Some ''./zaresd.xml'') (config s)))"
  obtain m h where init: "ZAresModelModule_Initialize B ?d (ZAresModelModule_new B (module_objects s)) = Some (True, m, h)"
    and slots: "list_all (\<lambda>(p, k). p \<noteq> None) (module_slots m)"
    using Initialize_fresh [of B ?d "module_objects s"] by blast
  have "fst (run_state (GroupChangeMemberRequestHandler_Test E H H2 raw) srv) = Some 0 \<and>
      outbox (snd (run_state (GroupChangeMemberRequestHandler_Test E H H2 raw) srv)) = outbox srv"
    by (rule GroupChangeMemberRequestHandler_Test_ends [unfolded alone_def, rule_format])
  moreover have "conns_held (snd (run_state (GroupChangeMemberRequestHandler_Test E H H2 raw) srv)) = conns_held srv"
    using GroupChangeMemberRequestHandler_Test_conns [unfolded uses_conns_def, rule_format, of E H H2 raw srv]
    by blast
  ultimately show ?thesis
    using init slots
    by (auto simp: zaresd_test_main_def ModelMainManager_Initialize_def Let_def case_prod_unfold
        prod_eq_iff split: prod.split option.split)
qed

text \<open>Posting packets one after the other, and the indices of the threads that got them.\<close>

fun post_all ::
  "('p, 'q) net_env \<Rightarrow> (u64 \<times> 'p) list \<Rightarrow> ('p, 'q) thread_manager \<Rightarrow>
   (nat list \<times> ('p, 'q) thread_manager) option" where
  "post_all N [] m = Some ([], m)"
| "post_all N (x # xs) m =
     (case PostDataToDbHandler N (fst x) (snd x) m of
        None \<Rightarrow> None
      | Some (i, m) \<Rightarrow> map_option (\<lambda>(is, m). (i # is, m)) (post_all N xs m))"

lemma PostData_next:
  assumes "manager_ok m" "thread_pool_size m \<noteq> 1"
  shows "\<exists>m'. PostDataToDbHandler N sid p m =
      Some (unat (fst (GetNext N (next_thread m))) mod thread_pool_size m, m') \<and>
    manager_ok m' \<and> thread_pool_size m' = thread_pool_size m \<and>
    next_thread m' = snd (GetNext N (next_thread m))"
proof -
  have n: "thread_pool_size m = length (thread_pool m)" "thread_pool m \<noteq> []"
    using assms(1) by (auto simp: manager_ok_def)
  let ?i = "unat (fst (GetNext N (next_thread m))) mod length (thread_pool m)"
  have i: "?i < length (thread_pool m)" using n by simp
  then have "running (thread_pool m ! ?i)" using assms(1) by (simp add: manager_ok_def list_all_length)
  with i n assms(2) have post: "PostDataToDbHandler N sid p m = Some (?i,
      m\<lparr>next_thread := snd (GetNext N (next_thread m)), thread_pool := (thread_pool m)[?i :=
        (thread_pool m ! ?i)\<lparr>tasks := tasks (thread_pool m ! ?i) @ [(sid, p)]\<rparr>]\<rparr>)"
    by (simp add: PostDataToDbHandler_def GetNextThread_def DoMessageDataHandler_def case_prod_unfold Let_def)
  then show ?thesis using PostData_ok [OF assms(1), of N sid p] by (auto simp: n)
qed

lemma post_all_indices:
  assumes "manager_ok m" "thread_pool_size m \<noteq> 1"
    and seq: "\<And>q. fst (GetNext N q) = val q" "\<And>q. val (snd (GetNext N q)) = val q + 1"
    and "unat (val (next_thread m)) + length xs \<le> 2 ^ 32"
  shows "\<exists>m'. post_all N xs m =
    Some (map (\<lambda>k. (unat (val (next_thread m)) + k) mod thread_pool_size m) [0 ..< length xs], m')"
  using assms(1,2,5)
proof (induction xs arbitrary: m)
  case (Cons x xs)
  let ?v = "unat (val (next_thread m))"
  from PostData_next [OF Cons.prems(1,2), of N "fst x" "snd x"] obtain m' where
    post: "PostDataToDbHandler N (fst x) (snd x) m = Some (?v mod thread_pool_size m, m')"
    and m': "manager_ok m'" "thread_pool_size m' = thread_pool_size m"
    and v: "val (next_thread m') = val (next_thread m) + 1"
    by (auto simp: seq)
  show ?case
  proof (cases xs)
    case Nil
    with post show ?thesis by simp
  next
    case (Cons y ys)
    with Cons.prems(3) have "?v + 1 < 2 ^ 32" by simp
    then have "unat (val (next_thread m) + 1) = ?v + 1" by (simp add: unat_word_ariths)
    moreover from this Cons.prems v have "unat (val (next_thread m')) + length xs \<le> 2 ^ 32" by simp
    ultimately obtain m'' where "post_all N xs m' =
        Some (map (\<lambda>k. (?v + 1 + k) mod thread_pool_size m) [0 ..< length xs], m'')"
      using Cons.IH [OF m'(1)] m'(2) Cons.prems(2) v by auto
    then show ?thesis
      by (simp add: post upt_conv_Cons map_Suc_upt [symmetric] comp_def del: upt_Suc)
  qed
qed simp

lemma mod_shift_inj:
  fixes v i j n :: nat
  assumes "(v + i) mod n = (v + j) mod n" "i < n" "j < n"
  shows "i = j"
proof -
  have le: "a = b" if "(v + a) mod n = (v + b) mod n" "b < n" "a \<le> b" for a b
  proof -
    have "n dvd (v + b) - (v + a)"
      using that mod_eq_dvd_iff_nat [of "v + a" "v + b" n] by simp
    then have "n dvd b - a" by simp
    with that show ?thesis by (cases "b - a = 0") (auto dest: dvd_imp_le)
  qed
  show ?thesis using le [of i j] le [of j i] assms by (cases "i \<le> j") auto
qed

text \<open>Packets are dealt to the threads in turn: with a sequence counter that counts up by one, in a
  pool of two or more threads, the k-th of several packets goes to the k-th thread after the
  current one, counted round, as long as the 32-bit counter does not wrap; so among as many
  consecutive packets as there are threads no thread gets two.\<close>

lemma threads_in_turn:
  assumes "manager_ok m" "thread_pool_size m \<noteq> 1"
    and "\<And>q. fst (GetNext N q) = val q" "\<And>q. val (snd (GetNext N q)) = val q + 1"
    and "unat (val (next_thread m)) + length xs \<le> 2 ^ 32"
  shows "\<exists>is m'. post_all N xs m = Some (is, m') \<and>
    is = map (\<lambda>k. (unat (val (next_thread m)) + k) mod thread_pool_size m) [0 ..< length xs] \<and>
    (length xs \<le> thread_pool_size m \<longrightarrow> distinct is)"
  using post_all_indices [OF assms] by (auto simp: distinct_map inj_on_def dest: mod_shift_inj)

theorem threads_in_turn_witness:
  "\<exists>m. post_all sample_net [(1, undefined), (2, undefined), (3, undefined)] (manager sample_server) =
    Some ([0, 1, 0], m)"
proof -
  have seq: "fst (GetNext sample_net q) = of_nat q"
    "of_nat (snd (GetNext sample_net q)) = (of_nat q + 1 :: u32)" for q
    by (simp_all add: sample_net_def)
  have "thread_pool_size (manager sample_server) \<noteq> 1" "next_thread (manager sample_server) = 0"
    by (simp_all add: sample_server_def)
  then show ?thesis
    using threads_in_turn [OF sample_ok(1) _ seq, of "[(1, undefined), (2, undefined), (3, undefined)]"]
    by (simp add: upt_rec sample_server_def)
qed

subsection \<open>Start and stop\<close>

text \<open>A server whose threads all start and whose port can be opened starts with result 0: the pool is
  in service with one thread for each configured connection, every manager exists, the message
  manager works with the relationship and counter managers of the module, the handler table and
  the factory are filled, and the server listens at the configured address.\<close>

lemma server_starts:
  assumes "thread_pool (threads s) = []" "0 < max_conn_count B (db_addr (config s))"
    and "\<And>i. i < max_conn_count B (db_addr (config s)) \<Longrightarrow> starts N i"
    and "create_acceptor B (addr (zaresd_addr_info (config s))) (port (zaresd_addr_info (config s)))"
  shows "\<exists>s' m. ZAresdServer_Initialize B N s = Some (0, s') \<and> manager_ok (threads s') \<and>
    length (thread_pool (threads s')) = max_conn_count B (db_addr (config s)) \<and>
    module s' = Some m \<and> list_all (\<lambda>(p, k). p \<noteq> None) (module_slots m) \<and>
    links (module_objects s') (the (message_manager m)) = (relationship_manager m, counter_manager m) \<and>
    handler_table s' = g_message_handlers \<and> factory s' = RegisterPDUMessageFactory \<and>
    listening s' = Some (addr (zaresd_addr_info (config s)), port (zaresd_addr_info (config s)))"
proof -
  obtain t where t: "ZAresHandlerThreadManager_Run N (ZAresHandlerThreadManager_Initialize
      (max_conn_count B (db_addr (config s))) (threads s)) = Some (True, t)" "manager_ok t"
    "length (thread_pool t) = max_conn_count B (db_addr (config s))"
    using Initialize_Run [OF assms(1-3)] by fastforce
  from Initialize_fresh [of B "db_addr (config s)" "module_objects s"] boot_eq [OF t(1)] assms(4) t(2,3)
  show ?thesis by fastforce
qed

definition sample_boot :: "(unit, nat, nat) boot_env" where
  "sample_boot = \<lparr>pool_new = 0, pool_initialize = (\<lambda>d g. d), pool_size = (\<lambda>g. g), open_config = (\<lambda>f. Some ()), parse_ip = (\<lambda>c n i. (True, i)),
     parse_db = (\<lambda>c n d. (True, d)), destroy_ip = (\<lambda>i. i), destroy_db = (\<lambda>d. d),
     max_conn_count = (\<lambda>d. d), create_acceptor = (\<lambda>a p. True), send_session = (\<lambda>sid r. True),
     send_raw = (\<lambda>sid buf n. True), lookup_reactor = (\<lambda>sid. Some 0)\<rparr>"

definition sample_heap :: "nat module_heap" where
  "sample_heap = \<lparr>live = [], next_addr = 1, links = (\<lambda>a. (None, None)), pool_of = (\<lambda>a. None), pools = []\<rparr>"

definition sample_process :: "(request, nat, nat, nat) process" where
  "sample_process = \<lparr>config = \<lparr>db_addr = 2, zaresd_addr_info = \<lparr>addr = ''0.0.0.0'', port = ''1000''\<rparr>\<rparr>,
     module = None, module_objects = sample_heap,
     threads = \<lparr>thread_pool = [], thread_pool_size = 0, next_thread = 0\<rparr>, net_engine = None,
     factory = [], handler_table = Map.empty, engine_set = False, listening = None\<rparr>"

theorem server_starts_witness:
  "\<exists>s'. ZAresdServer_Initialize sample_boot sample_net sample_process = Some (0, s') \<and>
    manager_ok (threads s') \<and> length (thread_pool (threads s')) = 2 \<and>
    listening s' = Some (''0.0.0.0'', ''1000'')"
  using server_starts [of sample_process sample_boot sample_net]
  by (auto simp: sample_process_def sample_boot_def sample_net_def)

lemma sum_peaks:
  assumes "\<forall>(H, i, sid, p, t) \<in> set ts. conns_held t = 0 \<and> conns_peak t = 0"
  shows "sum_list (map (\<lambda>(H, i, sid, p, t). conns_peak (snd (run_state (OnMessageDataHandler N E H i sid p) t))) ts)
    \<le> length ts"
proof -
  let ?f = "\<lambda>(H, i, sid, p, t). conns_peak (snd (run_state (OnMessageDataHandler N E H i sid p) t))"
  have "?f x \<le> 1" if "x \<in> set ts" for x
  proof -
    obtain H i sid p t where x: "x = (H, i, sid, p, t)" by (cases x)
    from assms that have "conns_held t = 0" "conns_peak t = 0" by (auto simp: x)
    with OnMessage_conns [unfolded uses_conns_def, rule_format, of N E H i sid p t] show ?thesis
      by (simp add: x)
  qed
  then have "sum_list (map ?f ts) \<le> sum_list (map (\<lambda>x. 1) ts)" by (rule sum_list_mono)
  then show ?thesis by (simp add: sum_list_triv)
qed



text \<open>C40: The result of starting the threads is not looked at: when one of them does not start, the
  server still reports success and listens, but its pool is empty, and the first packet that has
  a handler crashes it (the thread is chosen modulo the size of the pool).\<close>

theorem failed_start_crashes_later:
  assumes "thread_pool (threads s) = []" "j < max_conn_count B (db_addr (config s))" "\<not> starts N j"
    and "create_acceptor B (addr (zaresd_addr_info (config s))) (port (zaresd_addr_info (config s)))"
    and "packet_type N p \<noteq> MESSAGE_HEARTBEAT" "CheckMessageHandler (packet_type N p)"
  shows "\<exists>s'. ZAresdServer_Initialize B N s = Some (0, s') \<and> listening s' \<noteq> None \<and>
    thread_pool (threads s') = [] \<and>
    OnDataReceived N sid p \<lparr>manager = threads s', server = srv, synced = l\<rparr> = None"
proof -
  obtain t where t: "ZAresHandlerThreadManager_Run N (ZAresHandlerThreadManager_Initialize
      (max_conn_count B (db_addr (config s))) (threads s)) = Some (False, t)"
    "thread_pool_size t = 0" "thread_pool t = []"
    using Run_fails [OF assms(1-3)] by blast
  from boot_eq [OF t(1)] assms(4-6) t(2,3) PostData_empty [OF t(2), of N sid p]
  show ?thesis by (auto simp: OnDataReceived_def)
qed

theorem failed_start_crashes_later_witness:
  "\<exists>s'. ZAresdServer_Initialize sample_boot (sample_net\<lparr>starts := (\<lambda>i. i \<noteq> 1)\<rparr>) sample_process = Some (0, s') \<and>
    OnDataReceived (sample_net\<lparr>starts := (\<lambda>i. i \<noteq> 1)\<rparr>) 9 sample_ValidateRequest
      \<lparr>manager = threads s', server = demo_state, synced = []\<rparr> = None"
proof -
  let ?N = "sample_net\<lparr>starts := (\<lambda>i. i \<noteq> 1)\<rparr>"
  have "CheckMessageHandler MESSAGE_VALIDATE_REQUEST"
    using handler_of_class [of Class_ValidateRequest] by (auto simp: CheckMessageHandler_def)
  then have "packet_type ?N sample_ValidateRequest \<noteq> MESSAGE_HEARTBEAT"
    "CheckMessageHandler (packet_type ?N sample_ValidateRequest)"
    by (simp_all add: sample_net_def sample_ValidateRequest_def)
  from failed_start_crashes_later [OF _ _ _ _ this, of sample_process 1 sample_boot 9 demo_state "[]"]
  show ?thesis by (auto simp: sample_process_def sample_boot_def sample_net_def)
qed

text \<open>\<^verbatim>\<open>ZAresModelModule\<close>: the first \<^verbatim>\<open>Initialize\<close> sets up the pool and creates the nine managers, each of
  its class and at an address of its own, those that work with the database with the module's pool; a
  second one dereferences NULL; \<^verbatim>\<open>Destroy\<close> frees exactly the nine managers and sets all pointers to NULL,
  so the module can be initialised again.\<close>

lemma module_lifecycle:
  assumes "heap_ok h"
  shows "\<exists>m h'. ZAresModelModule_Initialize P d (ZAresModelModule_new P h) = Some (True, m, h') \<and>
    live h' = live h @ map (\<lambda>(p, k). (the p, k)) (module_slots m) \<and>
    map (the \<circ> fst) (module_slots m) = map (\<lambda>i. next_addr h + i) [0 ..< 9] \<and>
    pools h' = pools h @ [Some (pool_initialize P d (pool_new P))] \<and>
    list_all (\<lambda>(p, k). pool_of h' (the p) = class_pool (db_conn_pool m) k) (module_slots m) \<and>
    ZAresModelModule_Initialize P d (m, h') = None \<and>
    fst (ZAresModelModule_Destroy (m, h')) = ZAresModelModule_ctor (db_conn_pool m) \<and>
    live (snd (ZAresModelModule_Destroy (m, h'))) = live h"
proof -
  from Initialize_fresh [of P d h] obtain m h' where
    init: "ZAresModelModule_Initialize P d (ZAresModelModule_new P h) = Some (True, m, h')"
    and slots: "list_all (\<lambda>(p, k). p \<noteq> None) (module_slots m)"
    and rest: "live h' = live h @ map (\<lambda>(p, k). (the p, k)) (module_slots m)"
      "map (the \<circ> fst) (module_slots m) = map (\<lambda>i. next_addr h + i) [0 ..< 9]"
      "pools h' = pools h @ [Some (pool_initialize P d (pool_new P))]"
      "list_all (\<lambda>(p, k). pool_of h' (the p) = class_pool (db_conn_pool m) k) (module_slots m)"
    by blast
  from slots have "message_manager m \<noteq> None" by (simp add: module_slots_def)
  from Initialize_again [OF this, of P d h'] init rest Destroy_Initialize [OF assms init] show ?thesis
    by (intro exI [of _ m] exI [of _ h'] conjI)
qed

theorem module_lifecycle_witness:
  "\<exists>m h. ZAresModelModule_Initialize sample_boot 2 (ZAresModelModule_new sample_boot sample_heap) =
      Some (True, m, h) \<and> pools h = [Some 2] \<and> ZAresModelModule_Initialize sample_boot 2 (m, h) = None"
  using module_lifecycle [of sample_heap sample_boot 2]
  by (fastforce simp: heap_ok_def sample_heap_def sample_boot_def)

text \<open>\<^verbatim>\<open>ModelMainManager::Destroy\<close> deletes the module without freeing the managers it owns: after
  initialising and destroying, all nine managers are still allocated and no pointer to the module
  is left, and the pool the managers were created with is gone.\<close>

lemma main_manager_leaks:
  "\<exists>m h' h''. ModelMainManager_Initialize P d ''zares'' (module_before, h) = Some (True, Some m, h') \<and>
    ModelMainManager_Destroy (Some m, h') = (None, h'') \<and> length (live h'') = length (live h) + 9 \<and>
    pools h'' = pools h @ [None]"
proof -
  from Initialize_fresh [of P d h] obtain m h' where
    "ZAresModelModule_Initialize P d (ZAresModelModule_new P h) = Some (True, m, h')"
    "live h' = live h @ map (\<lambda>(p, k). (the p, k)) (module_slots m)"
    "db_conn_pool m = length (pools h)" "pools h' = pools h @ [Some (pool_initialize P d (pool_new P))]"
    by blast
  then show ?thesis
    by (simp add: ModelMainManager_Initialize_def ModelMainManager_Destroy_def module_slots_def)
qed

text \<open>Loading the configuration succeeds exactly when the file can be read and both sections can be
  parsed.\<close>

lemma load_config_result:
  "fst (LoadConfig B f s) =
     (case open_config B f of
        None \<Rightarrow> -1
      | Some c \<Rightarrow> if fst (parse_ip B c ''ZAresdServer'' (zaresd_addr_info (config s))) \<and>
                     fst (parse_db B c ''DatabaseServer'' (db_addr (config s))) then 0 else -1)"
  by (auto simp: LoadConfig_def ConfigInfo_Initialize_def case_prod_unfold Let_def split: option.split)

end
